(* ===== verification/Prelude.thy ===== *)
theory Prelude
  imports Main "HOL-Library.AList" "HOL-Library.List_Lexorder" "HOL-Library.Char_ord"
    "HOL-Library.Multiset"
begin

section \<open>Prelude: faults, Go strings, times, integers, maps and sorting\<close>

text \<open>
  The vocabulary every component of the development shares.
  \<^item> \<^bold>\<open>Faults\<close>: the structured error of \<^verbatim>\<open>internal/platform/fault/error.go\<close>. A fallible
    operation returns \<open>fault + 'a\<close> (\<open>Inl\<close> the fault); a Go method whose only result is an
    error returns \<open>fault option\<close> (\<open>None\<close> is Go's \<open>nil\<close>). The human-readable message and the
    hint of a fault are not modelled: no code branches on them.
  \<^item> \<^bold>\<open>Strings\<close>: a Go string is a byte sequence, here a \<open>char list\<close>. \<open>TrimSpace\<close> is
    \<^verbatim>\<open>strings.TrimSpace\<close>, byte-exact on the UTF-8 encodings of Unicode white space.
  \<^item> \<^bold>\<open>Times\<close>: an instant is the number of nanoseconds since Go's zero instant, so
    \<open>IsZero\<close> is equality with 0; a \<^verbatim>\<open>*time.Time\<close> is a \<open>time option\<close>.
  \<^item> \<^bold>\<open>Integers\<close>: \<open>i64\<close> reduces to the signed 64-bit range; it is written wherever the
    code adds quantities a caller chooses. Version and attempt counters, which move by one,
    are plain \<open>int\<close>.
  \<^item> \<^bold>\<open>Maps\<close>: a Go \<^verbatim>\<open>map[string]T\<close> is an association list. Go enumerates a map in an
    unspecified order; a list has one order, and the lemmas hold for every list, hence for
    every enumeration order.
  \<^item> \<^bold>\<open>Sorting\<close>: \<^verbatim>\<open>sort.Slice\<close> with a comparison is \<open>sort_by\<close>.
  It also holds an interface: \<open>guarded_machine\<close>, the contract of a \<^verbatim>\<open>Transition\<close> method.
\<close>

named_theorems go_simps \<open>unfolding rules for the Go library vocabulary\<close>

subsection \<open>Faults\<close>

record fault =
  f_Type :: string
  f_Subtype :: string
  f_Code :: string
  f_Retryable :: bool
  f_ExitCode :: int

type_synonym 'a res = "fault + 'a"

definition E :: "string \<Rightarrow> string \<Rightarrow> string \<Rightarrow> int \<Rightarrow> fault" where
  "E kind subtype code exitCode =
     \<lparr>f_Type = kind, f_Subtype = subtype, f_Code = code, f_Retryable = False, f_ExitCode = exitCode\<rparr>"

definition NotFound :: fault where
  "NotFound = E ''not_found'' ''resource'' ''RESOURCE_NOT_FOUND'' 4"

definition Invalid :: "string \<Rightarrow> fault" where
  "Invalid code = E ''validation'' ''input'' code 2"

definition Conflict :: "string \<Rightarrow> fault" where
  "Conflict code = E ''conflict'' ''state'' code 6"

definition Policy :: "string \<Rightarrow> fault" where
  "Policy code = E ''policy'' ''business_rule'' code 4"

definition IsNotFound :: "fault \<Rightarrow> bool" where
  "IsNotFound e = (f_Type e = ''not_found'')"

definition IsConflict :: "fault \<Rightarrow> bool" where
  "IsConflict e = (f_Type e = ''conflict'')"

definition hasDomainCode :: "fault \<Rightarrow> string \<Rightarrow> bool" where
  "hasDomainCode e code = (f_Code e = code)"

text \<open>Sequencing of fallible steps: the first fault is the result.\<close>

definition bind_res :: "'a res \<Rightarrow> ('a \<Rightarrow> 'b res) \<Rightarrow> 'b res" where
  "bind_res r f = (case r of Inl e \<Rightarrow> Inl e | Inr x \<Rightarrow> f x)"

definition require :: "bool \<Rightarrow> fault \<Rightarrow> 'a res \<Rightarrow> 'a res" where
  "require b e r = (if b then r else Inl e)"

definition check_nil :: "fault option \<Rightarrow> 'a res \<Rightarrow> 'a res" where
  "check_nil c r = (case c of Some e \<Rightarrow> Inl e | None \<Rightarrow> r)"

definition lookup_or :: "fault \<Rightarrow> 'a option \<Rightarrow> ('a \<Rightarrow> 'b res) \<Rightarrow> 'b res" where
  "lookup_or e r f = (case r of None \<Rightarrow> Inl e | Some x \<Rightarrow> f x)"

text \<open>A loop that validates every element and stops at the first fault.\<close>

fun check_all :: "('a \<Rightarrow> fault option) \<Rightarrow> 'a list \<Rightarrow> fault option" where
  "check_all f [] = None"
| "check_all f (x # xs) = (case f x of Some e \<Rightarrow> Some e | None \<Rightarrow> check_all f xs)"

subsection \<open>Strings\<close>

definition space_runes :: "string list" where
  "space_runes =
     [[CHR 0x09], [CHR 0x0A], [CHR 0x0B], [CHR 0x0C], [CHR 0x0D], [CHR 0x20],
      [CHR 0xC2, CHR 0x85], [CHR 0xC2, CHR 0xA0], [CHR 0xE1, CHR 0x9A, CHR 0x80],
      [CHR 0xE2, CHR 0x80, CHR 0x80], [CHR 0xE2, CHR 0x80, CHR 0x81],
      [CHR 0xE2, CHR 0x80, CHR 0x82], [CHR 0xE2, CHR 0x80, CHR 0x83],
      [CHR 0xE2, CHR 0x80, CHR 0x84], [CHR 0xE2, CHR 0x80, CHR 0x85],
      [CHR 0xE2, CHR 0x80, CHR 0x86], [CHR 0xE2, CHR 0x80, CHR 0x87],
      [CHR 0xE2, CHR 0x80, CHR 0x88], [CHR 0xE2, CHR 0x80, CHR 0x89],
      [CHR 0xE2, CHR 0x80, CHR 0x8A], [CHR 0xE2, CHR 0x80, CHR 0xA8],
      [CHR 0xE2, CHR 0x80, CHR 0xA9], [CHR 0xE2, CHR 0x80, CHR 0xAF],
      [CHR 0xE2, CHR 0x81, CHR 0x9F], [CHR 0xE3, CHR 0x80, CHR 0x80]]"

fun space_len :: "string list \<Rightarrow> string \<Rightarrow> nat" where
  "space_len [] s = 0"
| "space_len (p # ps) s = (if take (length p) s = p then length p else space_len ps s)"

function trim_left :: "string list \<Rightarrow> string \<Rightarrow> string" where
  "trim_left ps s =
     (if s = [] \<or> space_len ps s = 0 then s else trim_left ps (drop (space_len ps s) s))"
  by pat_completeness auto
termination
  by (relation "measure (\<lambda>(ps, s). length s)") auto

declare trim_left.simps [simp del]

definition TrimSpace :: "string \<Rightarrow> string" where
  "TrimSpace s = rev (trim_left (map rev space_runes) (rev (trim_left space_runes s)))"

abbreviation blank :: "string \<Rightarrow> bool" where
  "blank s \<equiv> TrimSpace s = ''''"

definition HasPrefix :: "string \<Rightarrow> string \<Rightarrow> bool" where
  "HasPrefix s p = (take (length p) s = p)"

text \<open>\<^verbatim>\<open>strings.Join(values, sep)\<close>.\<close>

fun Join :: "string list \<Rightarrow> string \<Rightarrow> string" where
  "Join [] sep = ''''"
| "Join [x] sep = x"
| "Join (x # y # xs) sep = x @ sep @ Join (y # xs) sep"

text \<open>
  \<^verbatim>\<open>strings.ToLower\<close> and \<^verbatim>\<open>strings.ToUpper\<close>, exact for ASCII letters and for the four non-ASCII
  letters whose image is an ASCII letter; other bytes are left as they are. The program compares
  the results with ASCII words.
\<close>

definition lower_char :: "char \<Rightarrow> char" where
  "lower_char c = (if CHR ''A'' \<le> c \<and> c \<le> CHR ''Z'' then char_of (of_char c + 32 :: nat) else c)"

definition upper_char :: "char \<Rightarrow> char" where
  "upper_char c = (if CHR ''a'' \<le> c \<and> c \<le> CHR ''z'' then char_of (of_char c - 32 :: nat) else c)"

function ToLower :: "string \<Rightarrow> string" where
  "ToLower s =
     (if s = [] then []
      else if take 2 s = [CHR 0xC4, CHR 0xB0] then CHR ''i'' # ToLower (drop 2 s)
      else if take 3 s = [CHR 0xE2, CHR 0x84, CHR 0xAA] then CHR ''k'' # ToLower (drop 3 s)
      else lower_char (hd s) # ToLower (tl s))"
  by pat_completeness auto
termination
  by (relation "measure length") auto

function ToUpper :: "string \<Rightarrow> string" where
  "ToUpper s =
     (if s = [] then []
      else if take 2 s = [CHR 0xC4, CHR 0xB1] then CHR ''I'' # ToUpper (drop 2 s)
      else if take 2 s = [CHR 0xC5, CHR 0xBF] then CHR ''S'' # ToUpper (drop 2 s)
      else upper_char (hd s) # ToUpper (tl s))"
  by pat_completeness auto
termination
  by (relation "measure length") auto

declare ToLower.simps [simp del] ToUpper.simps [simp del]

text \<open>\<^verbatim>\<open>strconv.Itoa\<close>: the decimal representation.\<close>

function dec_digits :: "nat \<Rightarrow> string" where
  "dec_digits n =
     (if n < 10 then [char_of (48 + n)] else dec_digits (n div 10) @ [char_of (48 + n mod 10)])"
  by pat_completeness auto
termination
  by (relation "measure id") auto

declare dec_digits.simps [simp del]

definition Itoa :: "int \<Rightarrow> string" where
  "Itoa i = (if i < 0 then CHR ''-'' # dec_digits (nat (- i)) else dec_digits (nat i))"

subsection \<open>Times and integers\<close>

type_synonym time = int

definition IsZero :: "time \<Rightarrow> bool" where
  "IsZero t = (t = 0)"

definition Minute :: int where
  "Minute = 60 * 1000000000"

definition i64 :: "int \<Rightarrow> int" where
  "i64 x = signed_take_bit 63 x"

text \<open>\<^verbatim>\<open>t.Sub(u)\<close> saturates at the bounds of a 64-bit duration.\<close>

definition time_Sub :: "time \<Rightarrow> time \<Rightarrow> int" where
  "time_Sub t u = max (- (2 ^ 63)) (min (2 ^ 63 - 1) (t - u))"

text \<open>Go's integer division truncates towards zero.\<close>

definition go_div :: "int \<Rightarrow> int \<Rightarrow> int" where
  "go_div a b = sgn a * sgn b * (\<bar>a\<bar> div \<bar>b\<bar>)"

subsection \<open>Dynamic values\<close>

text \<open>
  A value of type \<^verbatim>\<open>any\<close> as the runtime stores it in payloads and summaries, and the JSON
  tree a digest is computed from: an object is the list of its fields.
\<close>

datatype goany =
    ANull
  | ABool bool
  | AInt int
  | AStr string
  | ATime "time option"
  | AArr "goany list"
  | AObj "(string \<times> goany) list"

type_synonym payload = "(string \<times> goany) list"

definition AStrs :: "string list \<Rightarrow> goany" where
  "AStrs xs = AArr (map AStr xs)"

subsection \<open>Maps\<close>

type_synonym 'v gomap = "(string \<times> 'v) list"

definition mget :: "'v gomap \<Rightarrow> string \<Rightarrow> 'v option" where
  "mget m k = map_of m k"

definition mput :: "string \<Rightarrow> 'v \<Rightarrow> 'v gomap \<Rightarrow> 'v gomap" where
  "mput k v m = AList.update k v m"

definition mvals :: "'v gomap \<Rightarrow> 'v list" where
  "mvals m = map snd m"

text \<open>Storing the elements of a slice one after the other under their keys.\<close>

fun mput_all :: "('v \<Rightarrow> string) \<Rightarrow> 'v list \<Rightarrow> 'v gomap \<Rightarrow> 'v gomap" where
  "mput_all key [] m = m"
| "mput_all key (v # vs) m = mput_all key vs (mput (key v) v m)"

text \<open>A loop over a map that rewrites each value in place.\<close>

definition mmap :: "('v \<Rightarrow> 'v) \<Rightarrow> 'v gomap \<Rightarrow> 'v gomap" where
  "mmap f m = map (\<lambda>(k, v). (k, f v)) m"

definition wf_map :: "'v gomap \<Rightarrow> bool" where
  "wf_map m = distinct (map fst m)"

subsection \<open>Sorting\<close>

fun insert_by :: "('a \<Rightarrow> 'a \<Rightarrow> bool) \<Rightarrow> 'a \<Rightarrow> 'a list \<Rightarrow> 'a list" where
  "insert_by lt x [] = [x]"
| "insert_by lt x (y # ys) = (if lt y x then y # insert_by lt x ys else x # y # ys)"

fun sort_by :: "('a \<Rightarrow> 'a \<Rightarrow> bool) \<Rightarrow> 'a list \<Rightarrow> 'a list" where
  "sort_by lt [] = []"
| "sort_by lt (x # xs) = insert_by lt x (sort_by lt xs)"

text \<open>
  The \<^verbatim>\<open>seen\<close>-map loop of \<^verbatim>\<open>sortedRefs\<close>, \<^verbatim>\<open>normalizeKeys\<close> and \<^verbatim>\<open>uniqueTenantIDs\<close>: trim every
  value, drop blanks and repetitions, keep the order of first occurrence.
\<close>

fun trim_unique :: "string list \<Rightarrow> string list \<Rightarrow> string list" where
  "trim_unique seen [] = []"
| "trim_unique seen (v # vs) =
     (let v' = TrimSpace v
      in if v' = '''' \<or> v' \<in> set seen then trim_unique seen vs
         else v' # trim_unique (v' # seen) vs)"

subsection \<open>Lemmas: faults and results\<close>

lemma fault_codes [simp]:
  "f_Code (Invalid c) = c" "f_Code (Conflict c) = c" "f_Code (Policy c) = c"
  by (simp_all add: Invalid_def Conflict_def Policy_def E_def)

lemma fault_kinds [simp]:
  "IsNotFound NotFound" "\<not> IsNotFound (Invalid c)" "\<not> IsNotFound (Conflict c)"
  "\<not> IsNotFound (Policy c)" "IsConflict (Conflict c)" "\<not> IsConflict (Invalid c)"
  by (simp_all add: IsNotFound_def IsConflict_def NotFound_def Invalid_def Conflict_def
      Policy_def E_def)

lemma bind_res_Inr [simp]: "(bind_res r f = Inr y) = (\<exists>x. r = Inr x \<and> f x = Inr y)"
  by (auto simp: bind_res_def split: sum.splits)

lemma bind_res_simps [simp]: "bind_res (Inl e) f = Inl e" "bind_res (Inr x) f = f x"
  by (simp_all add: bind_res_def)

lemma not_isl_Inr: "\<not> isl r \<Longrightarrow> \<exists>x. r = Inr x"
  by (cases r) simp_all

lemma require_Inr [simp]: "(require b e r = Inr y) = (b \<and> r = Inr y)"
  by (auto simp: require_def)

lemma require_simps [simp]: "require True e r = r" "require False e r = Inl e"
  by (simp_all add: require_def)

lemma check_nil_Inr [simp]: "(check_nil c r = Inr y) = (c = None \<and> r = Inr y)"
  by (auto simp: check_nil_def split: option.splits)

lemma check_nil_simps [simp]: "check_nil None r = r" "check_nil (Some e) r = Inl e"
  by (simp_all add: check_nil_def)

lemma lookup_or_Inr [simp]:
  "(lookup_or e r f = Inr y) = (\<exists>x. r = Some x \<and> f x = Inr y)"
  by (auto simp: lookup_or_def split: option.splits)

lemma lookup_or_simps [simp]: "lookup_or e None f = Inl e" "lookup_or e (Some x) f = f x"
  by (simp_all add: lookup_or_def)

text \<open>The shape of every \<^verbatim>\<open>Validate\<close> method: a chain of guards and of checks that may fail.\<close>

named_theorems validate_simps \<open>when a chain of guards returns no fault\<close>

lemma guard_None [validate_simps]: "((if b then Some e else r) = None) = (\<not> b \<and> r = None)"
  by simp

lemma first_fault_None [validate_simps]:
  "((case c of Some e \<Rightarrow> Some e | None \<Rightarrow> r) = None) = (c = None \<and> r = None)"
  by (cases c) simp_all

lemma fault_of_None [validate_simps]:
  "((case r of Inl e \<Rightarrow> Some e | Inr _ \<Rightarrow> None) = None) = (\<exists>x. r = Inr x)"
  by (cases r) simp_all

lemma check_all_None [simp]: "(check_all f xs = None) = (\<forall>x \<in> set xs. f x = None)"
  by (induction xs) (auto split: option.splits)

subsection \<open>Lemmas: strings\<close>

lemma space_len_le: "space_len ps s \<le> length s"
  by (induction ps s rule: space_len.induct) (auto, metis length_take min.cobounded1)

lemma trim_left_fixed: "s = [] \<or> space_len ps (trim_left ps s) = 0 \<or> trim_left ps s = []"
proof (induction ps s rule: trim_left.induct)
  case (1 ps s)
  show ?case
  proof (cases "s = [] \<or> space_len ps s = 0")
    case True
    then show ?thesis by (auto simp: trim_left.simps [of ps s])
  next
    case False
    have "trim_left ps s = trim_left ps (drop (space_len ps s) s)"
      using False by (simp add: trim_left.simps [of ps s])
    moreover have "drop (space_len ps s) s = [] \<Longrightarrow> trim_left ps (drop (space_len ps s) s) = []"
      by (simp add: trim_left.simps)
    ultimately show ?thesis using "1.IH" [OF False] by auto
  qed
qed

lemma trim_left_Nil [simp]: "trim_left ps [] = []"
  by (simp add: trim_left.simps)

lemma trim_left_noop: "space_len ps s = 0 \<Longrightarrow> trim_left ps s = s"
  by (simp add: trim_left.simps)

lemma trim_left_idem: "trim_left ps (trim_left ps s) = trim_left ps s"
  using trim_left_fixed [of s ps] by (auto simp: trim_left_noop)

lemma trim_left_suffix: "\<exists>us. s = us @ trim_left ps s"
proof (induction ps s rule: trim_left.induct)
  case (1 ps s)
  show ?case
  proof (cases "s = [] \<or> space_len ps s = 0")
    case True
    then show ?thesis by (auto simp: trim_left.simps [of ps s])
  next
    case False
    obtain us where us: "drop (space_len ps s) s = us @ trim_left ps (drop (space_len ps s) s)"
      using "1.IH" [OF False] by (elim exE)
    have "s = take (space_len ps s) s @ drop (space_len ps s) s" by simp
    then have split: "s = (take (space_len ps s) s @ us) @ trim_left ps (drop (space_len ps s) s)"
      using us by simp
    have "trim_left ps s = trim_left ps (drop (space_len ps s) s)"
      using False by (simp add: trim_left.simps [of ps s])
    with split show ?thesis by metis
  qed
qed

lemma space_len_take: "space_len ps s = 0 \<Longrightarrow> [] \<notin> set ps \<Longrightarrow> space_len ps (take k s) = 0"
proof (induction ps s rule: space_len.induct)
  case (2 p ps s)
  have "take (length p) (take k s) = p \<Longrightarrow> take (length p) s = p"
    by (metis length_take min.absorb1 min.cobounded2 take_take)
  with 2 show ?case by (auto split: if_splits)
qed simp

lemma space_runes_nonempty [simp]: "[] \<notin> set space_runes" "[] \<notin> rev ` set space_runes"
  by (auto simp: space_runes_def)

lemma TrimSpace_Nil [simp]: "TrimSpace '''' = ''''"
  by (simp add: TrimSpace_def)

lemma TrimSpace_idem [simp]: "TrimSpace (TrimSpace s) = TrimSpace s"
proof -
  let ?l = "trim_left space_runes s" and ?R = "map rev space_runes"
  obtain us where us: "rev ?l = us @ trim_left ?R (rev ?l)"
    using trim_left_suffix by blast
  then have "TrimSpace s = take (length (TrimSpace s)) ?l"
    unfolding TrimSpace_def
    by (metis append_eq_conv_conj length_rev rev_append rev_rev_ident)
  moreover have "?l = [] \<or> space_len space_runes ?l = 0"
    using trim_left_fixed [of s space_runes] by auto
  ultimately have "TrimSpace s = [] \<or> space_len space_runes (TrimSpace s) = 0"
    by (metis space_len_take space_runes_nonempty(1) take_Nil)
  then have "trim_left space_runes (TrimSpace s) = TrimSpace s"
    by (auto simp: trim_left_noop)
  then have "TrimSpace (TrimSpace s) = rev (trim_left ?R (rev (TrimSpace s)))"
    by (simp add: TrimSpace_def)
  also have "\<dots> = TrimSpace s"
    by (simp add: TrimSpace_def trim_left_idem)
  finally show ?thesis .
qed

lemma trim_unique_set: "set (trim_unique seen vs) = TrimSpace ` set vs - {''''} - set seen"
  by (induction seen vs rule: trim_unique.induct) (auto simp: Let_def)

lemma trim_unique_distinct: "distinct (trim_unique seen vs)"
  by (induction seen vs rule: trim_unique.induct) (auto simp: Let_def trim_unique_set)

lemma trim_unique_clean:
  "distinct vs \<Longrightarrow> set vs \<inter> set seen = {} \<Longrightarrow> \<forall>v \<in> set vs. TrimSpace v = v \<and> v \<noteq> ''''
   \<Longrightarrow> trim_unique seen vs = vs"
  by (induction seen vs rule: trim_unique.induct) (auto simp: Let_def)

definition dec_value :: "string \<Rightarrow> nat" where
  "dec_value ds = foldl (\<lambda>n c. 10 * n + (of_char c - 48)) 0 ds"

lemma dec_value_snoc: "dec_value (ds @ [c]) = 10 * dec_value ds + (of_char c - 48)"
  by (simp add: dec_value_def)

lemma digit_value: "n < 10 \<Longrightarrow> of_char (char_of (48 + n) :: char) = (48 + n :: nat)"
  by (simp add: of_char_mod_256)

lemma dec_value_digits: "dec_value (dec_digits n) = n"
proof (induction n rule: dec_digits.induct)
  case (1 n)
  show ?case
  proof (cases "n < 10")
    case True
    then show ?thesis
      by (subst dec_digits.simps) (simp add: dec_value_def digit_value)
  next
    case False
    have "of_char (char_of (48 + n mod 10) :: char) - 48 = n mod 10"
      using digit_value [of "n mod 10"] by simp
    then show ?thesis
      using 1 [OF False] False by (subst dec_digits.simps) (simp add: dec_value_snoc)
  qed
qed

lemma dec_digits_range: "c \<in> set (dec_digits n) \<Longrightarrow> 48 \<le> (of_char c :: nat) \<and> (of_char c :: nat) < 58"
proof (induction n rule: dec_digits.induct)
  case (1 n)
  have d: "48 \<le> (of_char (char_of (48 + k) :: char) :: nat) \<and> (of_char (char_of (48 + k) :: char) :: nat) < 58"
    if "k < 10" for k :: nat
    using that digit_value [of k] by simp
  show ?case
  proof (cases "n < 10")
    case True
    with 1(2) have "c = char_of (48 + n)" by (subst (asm) dec_digits.simps) simp
    then show ?thesis using d [OF True] by simp
  next
    case False
    with 1(2) have "c \<in> set (dec_digits (n div 10)) \<or> c = char_of (48 + n mod 10)"
      by (subst (asm) dec_digits.simps) auto
    then show ?thesis using 1(1) [OF False] d [of "n mod 10"] by auto
  qed
qed

lemma Itoa_no_colon: "CHR '':'' \<notin> set (Itoa i)"
proof
  assume "CHR '':'' \<in> set (Itoa i)"
  then obtain n where "CHR '':'' \<in> set (dec_digits n)"
    by (auto simp: Itoa_def split: if_splits)
  from dec_digits_range [OF this] show False by simp
qed

lemma Itoa_inj: "Itoa i = Itoa j \<longleftrightarrow> i = j"
proof
  assume eq: "Itoa i = Itoa j"
  have no_minus: "dec_digits n \<noteq> CHR ''-'' # xs" for n xs
  proof
    assume "dec_digits n = CHR ''-'' # xs"
    then have "CHR ''-'' \<in> set (dec_digits n)" by simp
    from dec_digits_range [OF this] show False by simp
  qed
  have inj: "dec_digits n = dec_digits m \<Longrightarrow> n = m" for n m
    using dec_value_digits by metis
  show "i = j"
  proof (cases "i < 0"; cases "j < 0")
    assume "i < 0" "j < 0"
    with eq have "nat (- i) = nat (- j)" by (intro inj) (simp add: Itoa_def)
    with \<open>i < 0\<close> \<open>j < 0\<close> show ?thesis by simp
  next
    assume "\<not> i < 0" "\<not> j < 0"
    with eq have "nat i = nat j" by (intro inj) (simp add: Itoa_def)
    with \<open>\<not> i < 0\<close> \<open>\<not> j < 0\<close> show ?thesis by simp
  next
    assume "i < 0" "\<not> j < 0"
    with eq no_minus [of "nat j" "dec_digits (nat (- i))"] show ?thesis by (simp add: Itoa_def)
  next
    assume "\<not> i < 0" "j < 0"
    with eq no_minus [of "nat i" "dec_digits (nat (- j))"] show ?thesis by (simp add: Itoa_def)
  qed
qed simp

text \<open>An identifier without a colon, the separator of composite keys.\<close>

definition plain_id :: "string \<Rightarrow> bool" where
  "plain_id t = (CHR '':'' \<notin> set t)"

lemma split_at_first: "x \<notin> set a \<Longrightarrow> x \<notin> set b \<Longrightarrow> a @ x # u = b @ x # v \<longleftrightarrow> a = b \<and> u = v"
  by (induction a arbitrary: b) (case_tac b; auto)+

subsection \<open>Lemmas: integers\<close>

lemma i64_id: "- (2 ^ 63) \<le> x \<Longrightarrow> x < 2 ^ 63 \<Longrightarrow> i64 x = x"
  unfolding i64_def by (rule signed_take_bit_int_eq_self) simp_all

lemma i64_range: "- (2 ^ 63) \<le> i64 x" "i64 x < 2 ^ 63"
  unfolding i64_def
  using signed_take_bit_int_greater_eq_minus_exp [of 63 x] signed_take_bit_int_less_exp [of 63 x]
  by simp_all

subsection \<open>Lemmas: maps\<close>

lemma mget_mput [simp]: "mget (mput k v m) k' = (if k' = k then Some v else mget m k')"
  by (simp add: mget_def mput_def update_conv')

lemma mget_Nil [simp]: "mget [] k = None"
  by (simp add: mget_def)

lemma mget_Cons [simp]: "mget ((k, v) # m) k' = (if k' = k then Some v else mget m k')"
  by (simp add: mget_def)

lemma wf_Cons: "wf_map ((k, v) # m) \<longleftrightarrow> mget m k = None \<and> wf_map m"
  by (auto simp: wf_map_def mget_def map_of_eq_None_iff)

lemma wf_mput [simp]: "wf_map m \<Longrightarrow> wf_map (mput k v m)"
  by (simp add: wf_map_def mput_def distinct_update)

lemma wf_Nil [simp]: "wf_map []"
  by (simp add: wf_map_def)

lemma mget_vals: "mget m k = Some v \<Longrightarrow> v \<in> set (mvals m)"
  by (force simp: mget_def mvals_def dest: map_of_SomeD)

lemma mvals_get: "wf_map m \<Longrightarrow> v \<in> set (mvals m) \<Longrightarrow> \<exists>k. mget m k = Some v"
  by (auto simp: mget_def mvals_def wf_map_def)

lemma set_mvals_mput: "set (mvals (mput k v m)) \<subseteq> insert v (set (mvals m))"
  by (induction m) (auto simp: mvals_def mput_def)

lemma sum_mput_new:
  "mget m k = None \<Longrightarrow> (\<Sum>x \<leftarrow> mvals (mput k v m). f x) = (\<Sum>x \<leftarrow> mvals m. f x) + (f v :: int)"
  by (induction m) (auto simp: mvals_def mput_def mget_def split: if_splits)

lemma sum_mput_old:
  "wf_map m \<Longrightarrow> mget m k = Some old \<Longrightarrow>
   (\<Sum>x \<leftarrow> mvals (mput k v m). f x) = (\<Sum>x \<leftarrow> mvals m. f x) - f old + (f v :: int)"
  by (induction m) (auto simp: wf_map_def mvals_def mput_def mget_def split: if_splits)

lemma mget_mmap [simp]: "mget (mmap f m) k = map_option f (mget m k)"
  by (induction m) (auto simp: mmap_def mget_def)

lemma wf_mmap [simp]: "wf_map (mmap f m) = wf_map m"
  by (simp add: wf_map_def mmap_def comp_def case_prod_unfold)

lemma mvals_mmap [simp]: "mvals (mmap f m) = map f (mvals m)"
  by (simp add: mvals_def mmap_def comp_def case_prod_unfold)

lemma mget_mput_all_in:
  "mget (mput_all key vs m) k = Some v \<Longrightarrow> v \<in> set vs \<and> key v = k \<or> mget m k = Some v"
  by (induction vs arbitrary: m) (fastforce split: if_splits)+

lemma mget_mput_all_other: "k \<notin> key ` set vs \<Longrightarrow> mget (mput_all key vs m) k = mget m k"
  by (induction vs arbitrary: m) auto

lemma mget_mput_all_distinct:
  "distinct (map key vs) \<Longrightarrow> v \<in> set vs \<Longrightarrow> mget (mput_all key vs m) (key v) = Some v"
proof (induction vs arbitrary: m)
  case (Cons u vs)
  then show ?case by (cases "v = u") (auto simp: mget_mput_all_other)
qed simp

lemma wf_mput_all [simp]: "wf_map m \<Longrightarrow> wf_map (mput_all key vs m)"
  by (induction vs arbitrary: m) auto

subsection \<open>Tables\<close>

text \<open>
  A table of the store: a map whose rows sit under their own keys. \<open>moves R m m'\<close> says how a table
  may change: no row disappears, and each row is related to its new value by \<open>R\<close>.
\<close>

definition keyed :: "('v \<Rightarrow> string) \<Rightarrow> 'v gomap \<Rightarrow> bool" where
  "keyed key m = (wf_map m \<and> (\<forall>k v. mget m k = Some v \<longrightarrow> k = key v))"

definition moves :: "('v \<Rightarrow> 'v \<Rightarrow> bool) \<Rightarrow> 'v gomap \<Rightarrow> 'v gomap \<Rightarrow> bool" where
  "moves R m m' = (\<forall>k v. mget m k = Some v \<longrightarrow> (\<exists>v'. mget m' k = Some v' \<and> R v v'))"

lemma keyed_Nil [simp]: "keyed key []"
  by (simp add: keyed_def)

lemma keyed_key: "keyed key m \<Longrightarrow> mget m k = Some v \<Longrightarrow> k = key v"
  by (simp add: keyed_def)

lemma keyed_mput: "keyed key m \<Longrightarrow> key v = k \<Longrightarrow> keyed key (mput k v m)"
  by (simp add: keyed_def)

lemma keyed_mput_all: "keyed key m \<Longrightarrow> keyed key (mput_all key vs m)"
  by (induction vs arbitrary: m) (simp_all add: keyed_mput)

lemma keyed_mmap: "keyed key m \<Longrightarrow> (\<And>v. key (f v) = key v) \<Longrightarrow> keyed key (mmap f m)"
  by (auto simp: keyed_def)

lemma keyed_vals: "keyed key m \<Longrightarrow> v \<in> set (mvals m) \<longleftrightarrow> mget m (key v) = Some v"
  using mvals_get mget_vals unfolding keyed_def by metis

lemma moves_refl: "(\<And>v. R v v) \<Longrightarrow> moves R m m"
  by (simp add: moves_def)

lemma moves_mput:
  "(\<And>v. R v v) \<Longrightarrow> (\<And>v. mget m k = Some v \<Longrightarrow> R v x) \<Longrightarrow> moves R m (mput k x m)"
  by (simp add: moves_def)

lemma moves_trans:
  assumes "moves R m1 m2" and "moves R m2 m3" and "\<And>a b c. R a b \<Longrightarrow> R b c \<Longrightarrow> R a c"
  shows "moves R m1 m3"
  unfolding moves_def
proof (intro allI impI)
  fix k v assume "mget m1 k = Some v"
  then obtain v2 where v2: "mget m2 k = Some v2" "R v v2" using assms(1) unfolding moves_def by blast
  then obtain v3 where "mget m3 k = Some v3" "R v2 v3" using assms(2) unfolding moves_def by blast
  with v2 assms(3) show "\<exists>v'. mget m3 k = Some v' \<and> R v v'" by blast
qed

lemma moves_mput_all_new:
  assumes "\<And>v. R v v" and "\<And>x. x \<in> set vs \<Longrightarrow> mget m (key x) = None"
  shows "moves R m (mput_all key vs m)"
  unfolding moves_def
proof (intro allI impI)
  fix k v assume v: "mget m k = Some v"
  then have "k \<notin> key ` set vs" using assms(2) by force
  then show "\<exists>v'. mget (mput_all key vs m) k = Some v' \<and> R v v'"
    using v assms(1) by (simp add: mget_mput_all_other)
qed

lemma moves_mmap: "(\<And>k v. mget m k = Some v \<Longrightarrow> R v (f v)) \<Longrightarrow> moves R m (mmap f m)"
  by (simp add: moves_def)

lemma moves_get: "moves R m m' \<Longrightarrow> mget m k = Some v \<Longrightarrow> \<exists>v'. mget m' k = Some v' \<and> R v v'"
  by (simp add: moves_def)

subsection \<open>Lemmas: sorting\<close>

lemma mset_insert_by [simp]: "mset (insert_by lt x xs) = add_mset x (mset xs)"
  by (induction xs) auto

lemma mset_sort_by [simp]: "mset (sort_by lt xs) = mset xs"
  by (induction xs) auto

lemma set_sort_by [simp]: "set (sort_by lt xs) = set xs"
  by (metis mset_sort_by set_mset_mset)

lemma length_sort_by [simp]: "length (sort_by lt xs) = length xs"
  by (metis mset_sort_by size_mset)

lemma distinct_sort_by [simp]: "distinct (sort_by lt xs) = distinct xs"
  by (metis mset_eq_imp_distinct_iff mset_sort_by)

lemma sort_by_id: "sorted_wrt (\<lambda>a b. \<not> lt b a) xs \<Longrightarrow> sort_by lt xs = xs"
proof (induction xs)
  case (Cons x xs)
  then show ?case by (cases xs) auto
qed simp

lemma sorted_sort_by:
  assumes "\<And>a b c. \<not> lt b a \<Longrightarrow> \<not> lt c b \<Longrightarrow> \<not> lt c a" and "\<And>a b. lt a b \<Longrightarrow> \<not> lt b a"
  shows "sorted_wrt (\<lambda>a b. \<not> lt b a) (sort_by lt xs)"
proof -
  have set_ins: "set (insert_by lt x ys) = insert x (set ys)" for x ys
    by (metis mset_insert_by set_mset_mset set_mset_add_mset_insert)
  have ins: "sorted_wrt (\<lambda>a b. \<not> lt b a) (insert_by lt x ys)" if "sorted_wrt (\<lambda>a b. \<not> lt b a) ys" for x ys
    using that
  proof (induction ys)
    case (Cons y ys)
    show ?case
    proof (cases "lt y x")
      case True
      then show ?thesis using Cons assms(2) [OF True] by (simp add: set_ins)
    next
      case False
      have "\<not> lt z x" if "z \<in> set ys" for z
      proof -
        have "\<not> lt z y" using Cons.prems that by simp
        then show ?thesis using assms(1) [OF False] by blast
      qed
      then show ?thesis using False Cons.prems by simp
    qed
  qed simp
  show ?thesis by (induction xs) (simp_all add: ins)
qed

subsection \<open>Interface: a guarded state machine\<close>

text \<open>
  What a \<^verbatim>\<open>Transition(next)\<close> method promises: it accepts only declared states, and from a
  terminal state it accepts at most the state itself. The lemmas lift both promises to any
  chain of accepted transitions.
\<close>

locale guarded_machine =
  fixes trans :: "'s \<Rightarrow> 's \<Rightarrow> fault option"
    and valid :: "'s \<Rightarrow> bool"
    and terminal :: "'s \<Rightarrow> bool"
  assumes accept_valid: "trans s n = None \<Longrightarrow> valid n"
    and terminal_absorbs: "terminal s \<Longrightarrow> trans s n = None \<Longrightarrow> n = s"
begin

lemma run_valid: "(\<lambda>s n. trans s n = None)\<^sup>*\<^sup>* s t \<Longrightarrow> valid s \<Longrightarrow> valid t"
  by (induction rule: rtranclp_induct) (auto intro: accept_valid)

lemma run_terminal: "(\<lambda>s n. trans s n = None)\<^sup>*\<^sup>* s t \<Longrightarrow> terminal s \<Longrightarrow> t = s"
  by (induction rule: rtranclp_induct) (auto dest: terminal_absorbs)

lemma run_leaves_nonterminal:
  "(\<lambda>s n. trans s n = None)\<^sup>*\<^sup>* s t \<Longrightarrow> t \<noteq> s \<Longrightarrow> \<not> terminal s"
  using run_terminal by blast

end

lemma mput_mput: "mput k v (mput k u m) = mput k v m"
  by (induction m) (auto simp: mput_def)

lemma find_mput_same:
  assumes "\<forall>(k', v) \<in> set m. k' = key v" and "find P (mvals m) = Some x" and "P x'"
  shows "find P (mvals (mput (key x) x' m)) = Some x'"
  using assms
proof (induction m)
  case (Cons kv m)
  obtain k v where kv: "kv = (k, v)" by (cases kv)
  show ?case
  proof (cases "k = key x")
    case True
    then show ?thesis using Cons.prems(3) by (simp add: kv mput_def mvals_def)
  next
    case False
    then have "\<not> P v" using Cons.prems(1,2) by (auto simp: kv mvals_def)
    moreover have "find P (mvals (mput (key x) x' m)) = Some x'"
      using Cons.IH Cons.prems \<open>\<not> P v\<close> by (simp add: kv mvals_def)
    ultimately show ?thesis using False by (simp add: kv mput_def mvals_def)
  qed
qed (simp add: mvals_def)

lemma keyed_entries: "keyed key m \<Longrightarrow> \<forall>(k, v) \<in> set m. k = key v"
  by (auto simp: keyed_def wf_map_def mget_def)

end
