(* ===== verification/Lifecycle.thy ===== *)
theory Lifecycle
  imports Prelude
begin

section \<open>Lifecycle entities of the runtime (internal/runtime/model.go)\<close>

text \<open>
  The records of a job execution and their state machines: \<open>JobRun\<close>, \<open>NodeRun\<close>,
  \<open>RuntimeAttempt\<close>, \<open>AgentInstance\<close>, \<open>ContextView\<close>, \<open>ExternalEffect\<close>, \<open>ToolCall\<close>, the
  cleanup diagnostics, the events and the outbox message. Each struct is a record with the
  source's fields; each state string is a datatype whose last constructor carries any string
  that is not one of the declared constants (the empty string included), so the invalid-state
  branches of \<^verbatim>\<open>Validate\<close> and \<^verbatim>\<open>Transition\<close> are kept. Every \<^verbatim>\<open>Transition\<close> method is shown to be a
  \<open>guarded_machine\<close>.
\<close>

subsection \<open>States\<close>

datatype job_state =
    JobRunCreated | JobRunAdmitted | JobRunRunning | JobRunWaitingHuman | JobRunPaused
  | JobRunCompleted | JobRunFailed | JobRunCancelled | JobRunRejected | JobState string

datatype node_state =
    NodePending | NodeReady | NodeWaitingResource | NodeLeased | NodeRunning
  | NodeWaitingChildren | NodeWaitingExternal | NodeWaitingHuman | NodeSucceeded
  | NodeRetryableFailed | NodeFailed | NodeBlocked | NodeSkipped | NodeCancelled
  | NodeLeaseExpired | NodeState string

datatype effect_state =
    EffectRegistered | EffectSubmitted | EffectAcknowledged | EffectSucceeded | EffectFailed
  | EffectUnknown | EffectReconciling | EffectManual | EffectState string

datatype tool_state =
    ToolCallProposed | ToolCallAuthorized | ToolCallRunning | ToolCallSucceeded
  | ToolCallFailed | ToolCallUnknown | ToolState string

datatype agent_state =
    AgentCreated | AgentRunnable | AgentActive | AgentWaitingChildren | AgentWaitingGate
  | AgentWaitingEffect | AgentCompleted | AgentFailed | AgentCanceling | AgentCancelled
  | AgentState string

datatype attempt_state =
    RuntimeAttemptPrepared | RuntimeAttemptRunning | RuntimeAttemptYielded
  | RuntimeAttemptSucceeded | RuntimeAttemptRetryableFailed | RuntimeAttemptFailed
  | RuntimeAttemptCancelled | RuntimeAttemptExpired | AttemptState string

datatype cleanup_status =
    RuntimeCleanupPending | RuntimeCleanupRetrying | RuntimeCleanupCleaned
  | RuntimeCleanupNotFound | RuntimeCleanupFailed | CleanupStatus string

fun job_state_str :: "job_state \<Rightarrow> string" where
  "job_state_str JobRunCreated = ''created''"
| "job_state_str JobRunAdmitted = ''admitted''"
| "job_state_str JobRunRunning = ''running''"
| "job_state_str JobRunWaitingHuman = ''waiting_human''"
| "job_state_str JobRunPaused = ''paused''"
| "job_state_str JobRunCompleted = ''completed''"
| "job_state_str JobRunFailed = ''failed''"
| "job_state_str JobRunCancelled = ''cancelled''"
| "job_state_str JobRunRejected = ''rejected''"
| "job_state_str (JobState s) = s"

fun node_state_str :: "node_state \<Rightarrow> string" where
  "node_state_str NodePending = ''pending''"
| "node_state_str NodeReady = ''ready''"
| "node_state_str NodeWaitingResource = ''waiting_resource''"
| "node_state_str NodeLeased = ''leased''"
| "node_state_str NodeRunning = ''running''"
| "node_state_str NodeWaitingChildren = ''waiting_children''"
| "node_state_str NodeWaitingExternal = ''waiting_external''"
| "node_state_str NodeWaitingHuman = ''waiting_human''"
| "node_state_str NodeSucceeded = ''succeeded''"
| "node_state_str NodeRetryableFailed = ''retryable_failed''"
| "node_state_str NodeFailed = ''failed''"
| "node_state_str NodeBlocked = ''blocked''"
| "node_state_str NodeSkipped = ''skipped''"
| "node_state_str NodeCancelled = ''cancelled''"
| "node_state_str NodeLeaseExpired = ''lease_expired''"
| "node_state_str (NodeState s) = s"

fun effect_state_str :: "effect_state \<Rightarrow> string" where
  "effect_state_str EffectRegistered = ''registered''"
| "effect_state_str EffectSubmitted = ''submitted''"
| "effect_state_str EffectAcknowledged = ''acknowledged''"
| "effect_state_str EffectSucceeded = ''succeeded''"
| "effect_state_str EffectFailed = ''failed''"
| "effect_state_str EffectUnknown = ''unknown''"
| "effect_state_str EffectReconciling = ''reconciling''"
| "effect_state_str EffectManual = ''manual_action''"
| "effect_state_str (EffectState s) = s"

fun attempt_state_str :: "attempt_state \<Rightarrow> string" where
  "attempt_state_str RuntimeAttemptPrepared = ''prepared''"
| "attempt_state_str RuntimeAttemptRunning = ''running''"
| "attempt_state_str RuntimeAttemptYielded = ''yielded''"
| "attempt_state_str RuntimeAttemptSucceeded = ''succeeded''"
| "attempt_state_str RuntimeAttemptRetryableFailed = ''retryable_failed''"
| "attempt_state_str RuntimeAttemptFailed = ''failed''"
| "attempt_state_str RuntimeAttemptCancelled = ''cancelled''"
| "attempt_state_str RuntimeAttemptExpired = ''expired''"
| "attempt_state_str (AttemptState s) = s"

subsection \<open>Digests (model_validation.go)\<close>

definition is_hex :: "char \<Rightarrow> bool" where
  "is_hex c = ((CHR ''0'' \<le> c \<and> c \<le> CHR ''9'') \<or> (CHR ''a'' \<le> c \<and> c \<le> CHR ''f''))"

definition sha256Pattern :: "string \<Rightarrow> bool" where
  "sha256Pattern v =
     (let body = (if HasPrefix v ''sha256:'' then drop 7 v else v)
      in length body = 64 \<and> list_all is_hex body)"

definition validSHA256Digest :: "string \<Rightarrow> bool" where
  "validSHA256Digest v =
     (length v = 7 + 64 \<and> HasPrefix v ''sha256:'' \<and> list_all is_hex (drop 7 v))"

subsection \<open>JobRun\<close>

record JobRun =
  jr_ID :: string
  jr_TenantID :: string
  jr_ProjectID :: string
  jr_WorkTaskID :: string
  jr_BusinessType :: string
  jr_InputSnapshotID :: string
  jr_BusinessOutputCount :: int
  jr_PlanRevisionID :: string
  jr_PlanDigest :: string
  jr_BindingDigest :: string
  jr_InputDigest :: string
  jr_RuntimePolicyID :: string
  jr_ContractMajor :: int
  jr_ContractMinor :: int
  jr_RootJobRunID :: string
  jr_SourceJobRunID :: string
  jr_CheckpointID :: string
  jr_IdempotencyKey :: string
  jr_State :: job_state
  jr_Priority :: int
  jr_Version :: int
  jr_ErrorCode :: string
  jr_CreatedBy :: string
  jr_CreatedAt :: time
  jr_UpdatedAt :: time

fun validJobState :: "job_state \<Rightarrow> bool" where
  "validJobState (JobState s) = False"
| "validJobState _ = True"

definition JobRun_Validate :: "JobRun \<Rightarrow> fault option" where
  "JobRun_Validate r =
     (if jr_ID r = '''' \<or> jr_TenantID r = '''' \<or> jr_ProjectID r = '''' \<or> jr_WorkTaskID r = ''''
       \<or> jr_PlanRevisionID r = '''' \<or> jr_PlanDigest r = '''' \<or> jr_BindingDigest r = ''''
       \<or> jr_InputDigest r = '''' \<or> jr_RuntimePolicyID r = '''' \<or> jr_ContractMajor r < 1
       \<or> jr_ContractMinor r < 0 \<or> jr_RootJobRunID r = '''' \<or> jr_State r = JobState ''''
       \<or> jr_Version r < 1
      then Some (Invalid ''JOB_RUN_INVALID'')
      else if \<not> validSHA256Digest (jr_PlanDigest r) \<or> \<not> validSHA256Digest (jr_BindingDigest r)
            \<or> \<not> validSHA256Digest (jr_InputDigest r)
      then Some (Invalid ''JOB_RUN_DIGEST_INVALID'')
      else if \<not> validJobState (jr_State r) then Some (Invalid ''JOB_RUN_STATE_INVALID'')
      else None)"

fun job_terminal :: "job_state \<Rightarrow> bool" where
  "job_terminal JobRunCompleted = True"
| "job_terminal JobRunFailed = True"
| "job_terminal JobRunCancelled = True"
| "job_terminal JobRunRejected = True"
| "job_terminal _ = False"

fun job_allowed :: "job_state \<Rightarrow> job_state list" where
  "job_allowed JobRunCreated = [JobRunAdmitted, JobRunRejected, JobRunCancelled]"
| "job_allowed JobRunAdmitted =
     [JobRunRunning, JobRunWaitingHuman, JobRunPaused, JobRunCompleted, JobRunFailed,
      JobRunRejected, JobRunCancelled]"
| "job_allowed JobRunRunning =
     [JobRunWaitingHuman, JobRunPaused, JobRunCompleted, JobRunFailed, JobRunCancelled]"
| "job_allowed JobRunWaitingHuman = [JobRunRunning, JobRunPaused, JobRunCancelled, JobRunFailed]"
| "job_allowed JobRunPaused = [JobRunRunning, JobRunCancelled]"
| "job_allowed _ = []"

definition job_transition :: "job_state \<Rightarrow> job_state \<Rightarrow> fault option" where
  "job_transition s nxt =
     (if \<not> validJobState nxt then Some (Invalid ''JOB_RUN_STATE_INVALID'')
      else if s = nxt then None
      else if job_terminal s then Some (Conflict ''JOB_RUN_TERMINAL'')
      else if nxt \<notin> set (job_allowed s) then Some (Conflict ''JOB_RUN_TRANSITION_INVALID'')
      else None)"

definition JobRun_Transition :: "JobRun \<Rightarrow> job_state \<Rightarrow> fault option" where
  "JobRun_Transition r nxt = job_transition (jr_State r) nxt"

subsection \<open>NodeRun\<close>

record NodeRun =
  nr_ID :: string
  nr_TenantID :: string
  nr_JobRunID :: string
  nr_NodeKey :: string
  nr_State :: node_state
  nr_AttemptCount :: int
  nr_OutputRefs :: "string list"
  nr_OutputDigest :: string
  nr_ErrorCode :: string
  nr_LeaseOwner :: string
  nr_FenceToken :: string
  nr_LeaseExpiresAt :: "time option"
  nr_Version :: int
  nr_CreatedAt :: time
  nr_UpdatedAt :: time

fun validNodeState :: "node_state \<Rightarrow> bool" where
  "validNodeState (NodeState s) = False"
| "validNodeState _ = True"

text \<open>\<^verbatim>\<open>p != nil && p.After(t)\<close> for a time pointer.\<close>

definition after_opt :: "time option \<Rightarrow> time \<Rightarrow> bool" where
  "after_opt p t = (case p of None \<Rightarrow> False | Some x \<Rightarrow> t < x)"

definition NodeRun_Validate :: "NodeRun \<Rightarrow> fault option" where
  "NodeRun_Validate n =
     (if nr_ID n = '''' \<or> nr_TenantID n = '''' \<or> nr_JobRunID n = '''' \<or> nr_NodeKey n = ''''
       \<or> nr_State n = NodeState '''' \<or> nr_Version n < 1
      then Some (Invalid ''NODE_RUN_INVALID'')
      else if \<not> validNodeState (nr_State n) then Some (Invalid ''NODE_RUN_STATE_INVALID'')
      else if nr_State n = NodeLeased \<or> nr_State n = NodeRunning
      then (if blank (nr_LeaseOwner n) \<or> blank (nr_FenceToken n)
              \<or> \<not> after_opt (nr_LeaseExpiresAt n) (nr_UpdatedAt n)
            then Some (Invalid ''NODE_RUN_LEASE_INVALID'') else None)
      else if nr_LeaseOwner n \<noteq> '''' \<or> nr_FenceToken n \<noteq> '''' \<or> nr_LeaseExpiresAt n \<noteq> None
      then Some (Invalid ''NODE_RUN_LEASE_INVALID'')
      else None)"

fun node_terminal :: "node_state \<Rightarrow> bool" where
  "node_terminal NodeSucceeded = True"
| "node_terminal NodeFailed = True"
| "node_terminal NodeSkipped = True"
| "node_terminal NodeCancelled = True"
| "node_terminal _ = False"

fun node_allowed :: "node_state \<Rightarrow> node_state list" where
  "node_allowed NodePending = [NodeReady, NodeBlocked, NodeCancelled, NodeSkipped]"
| "node_allowed NodeReady = [NodeLeased, NodeWaitingResource, NodeBlocked, NodeCancelled]"
| "node_allowed NodeWaitingResource = [NodeReady, NodeBlocked, NodeCancelled]"
| "node_allowed NodeLeased =
     [NodeRunning, NodeRetryableFailed, NodeFailed, NodeLeaseExpired, NodeCancelled]"
| "node_allowed NodeRunning =
     [NodeSucceeded, NodeRetryableFailed, NodeFailed, NodeWaitingChildren, NodeWaitingExternal,
      NodeWaitingHuman, NodeCancelled, NodeLeaseExpired]"
| "node_allowed NodeWaitingChildren = [NodeReady, NodeFailed, NodeCancelled]"
| "node_allowed NodeWaitingExternal =
     [NodeReady, NodeSucceeded, NodeFailed, NodeRetryableFailed, NodeCancelled]"
| "node_allowed NodeWaitingHuman =
     [NodeReady, NodeSucceeded, NodeRetryableFailed, NodeFailed, NodeCancelled]"
| "node_allowed NodeRetryableFailed = [NodeReady, NodeFailed, NodeCancelled]"
| "node_allowed NodeLeaseExpired = [NodeReady, NodeFailed, NodeCancelled]"
| "node_allowed _ = []"

definition node_transition :: "node_state \<Rightarrow> node_state \<Rightarrow> fault option" where
  "node_transition s nxt =
     (if \<not> validNodeState nxt then Some (Invalid ''NODE_RUN_STATE_INVALID'')
      else if s = nxt then None
      else if node_terminal s then Some (Conflict ''NODE_RUN_TERMINAL'')
      else if nxt \<notin> set (node_allowed s) then Some (Conflict ''NODE_RUN_TRANSITION_INVALID'')
      else None)"

definition NodeRun_Transition :: "NodeRun \<Rightarrow> node_state \<Rightarrow> fault option" where
  "NodeRun_Transition n nxt = node_transition (nr_State n) nxt"

subsection \<open>ContextView\<close>

record ContextView =
  cv_ID :: string
  cv_TenantID :: string
  cv_JobRunID :: string
  cv_NodeRunID :: string
  cv_AttemptID :: string
  cv_SchemaVersion :: string
  cv_InputRefs :: "string list"
  cv_StateRefs :: "string list"
  cv_EventRefs :: "string list"
  cv_AllowedTools :: "string list"
  cv_MaxTokens :: int
  cv_BudgetMinor :: int
  cv_Digest :: string
  cv_CreatedAt :: time
  cv_ExpiresAt :: time

definition ContextViewSchema :: string where
  "ContextViewSchema = ''contentcloud.context-view/1.0''"

definition ContextView_Validate :: "ContextView \<Rightarrow> fault option" where
  "ContextView_Validate v =
     (if cv_ID v = '''' \<or> cv_TenantID v = '''' \<or> cv_JobRunID v = '''' \<or> cv_NodeRunID v = ''''
       \<or> cv_AttemptID v = '''' \<or> cv_SchemaVersion v \<noteq> ContextViewSchema \<or> cv_Digest v = ''''
       \<or> cv_MaxTokens v \<le> 0 \<or> cv_BudgetMinor v < 0 \<or> IsZero (cv_ExpiresAt v)
       \<or> IsZero (cv_CreatedAt v) \<or> \<not> (cv_CreatedAt v < cv_ExpiresAt v)
      then Some (Invalid ''CONTEXT_VIEW_INVALID'') else None)"

definition AllowsTool :: "ContextView \<Rightarrow> string \<Rightarrow> bool" where
  "AllowsTool v toolName =
     (let t = TrimSpace toolName
      in t \<noteq> '''' \<and> list_ex (\<lambda>a. TrimSpace a = t) (cv_AllowedTools v))"

subsection \<open>AgentInstance\<close>

record AgentInstance =
  ai_ID :: string
  ai_TenantID :: string
  ai_JobRunID :: string
  ai_NodeRunID :: string
  ai_ParentAgentInstanceID :: string
  ai_Role :: string
  ai_HarnessKind :: string
  ai_SessionRef :: string
  ai_ExecutionProfileID :: string
  ai_ContextViewID :: string
  ai_State :: agent_state
  ai_Depth :: int
  ai_RemainingDescendants :: int
  ai_BudgetMinor :: int
  ai_UsedCostMinor :: int
  ai_Version :: int
  ai_CreatedAt :: time
  ai_UpdatedAt :: time

fun validAgentState :: "agent_state \<Rightarrow> bool" where
  "validAgentState (AgentState s) = False"
| "validAgentState _ = True"

definition AgentInstance_Validate :: "AgentInstance \<Rightarrow> fault option" where
  "AgentInstance_Validate a =
     (if ai_ID a = '''' \<or> ai_TenantID a = '''' \<or> ai_JobRunID a = '''' \<or> ai_NodeRunID a = ''''
       \<or> ai_Role a = '''' \<or> ai_HarnessKind a = '''' \<or> ai_ExecutionProfileID a = ''''
       \<or> ai_ContextViewID a = '''' \<or> ai_State a = AgentState '''' \<or> ai_Depth a < 0
       \<or> ai_RemainingDescendants a < 0 \<or> ai_BudgetMinor a < 0 \<or> ai_UsedCostMinor a < 0
       \<or> ai_UsedCostMinor a > ai_BudgetMinor a \<or> ai_Version a < 1
      then Some (Invalid ''AGENT_INSTANCE_INVALID'')
      else if \<not> validAgentState (ai_State a) then Some (Invalid ''AGENT_INSTANCE_STATE_INVALID'')
      else None)"

fun agent_terminal :: "agent_state \<Rightarrow> bool" where
  "agent_terminal AgentCompleted = True"
| "agent_terminal AgentFailed = True"
| "agent_terminal AgentCancelled = True"
| "agent_terminal _ = False"

fun agent_allowed :: "agent_state \<Rightarrow> agent_state list" where
  "agent_allowed AgentCreated = [AgentRunnable, AgentCanceling]"
| "agent_allowed AgentRunnable = [AgentActive, AgentFailed, AgentCanceling, AgentCancelled]"
| "agent_allowed AgentActive =
     [AgentRunnable, AgentWaitingChildren, AgentWaitingGate, AgentWaitingEffect, AgentCompleted,
      AgentFailed, AgentCanceling, AgentCancelled]"
| "agent_allowed AgentWaitingChildren = [AgentRunnable, AgentCanceling, AgentFailed]"
| "agent_allowed AgentWaitingGate = [AgentRunnable, AgentCanceling, AgentFailed]"
| "agent_allowed AgentWaitingEffect = [AgentRunnable, AgentCanceling, AgentFailed]"
| "agent_allowed AgentCanceling = [AgentCancelled]"
| "agent_allowed _ = []"

definition agent_transition :: "agent_state \<Rightarrow> agent_state \<Rightarrow> fault option" where
  "agent_transition s nxt =
     (if \<not> validAgentState nxt then Some (Invalid ''AGENT_INSTANCE_STATE_INVALID'')
      else if s = nxt then None
      else if agent_terminal s then Some (Conflict ''AGENT_INSTANCE_TERMINAL'')
      else if nxt \<notin> set (agent_allowed s)
      then Some (Conflict ''AGENT_INSTANCE_TRANSITION_INVALID'')
      else None)"

definition AgentInstance_Transition :: "AgentInstance \<Rightarrow> agent_state \<Rightarrow> fault option" where
  "AgentInstance_Transition a nxt = agent_transition (ai_State a) nxt"

subsection \<open>RuntimeAttempt\<close>

record RuntimeAttempt =
  ra_ID :: string
  ra_TenantID :: string
  ra_JobRunID :: string
  ra_NodeRunID :: string
  ra_AgentInstanceID :: string
  ra_ContextViewID :: string
  ra_AttemptNo :: int
  ra_HarnessKind :: string
  ra_Capabilities :: payload
  ra_SessionRef :: string
  ra_State :: attempt_state
  ra_LeaseOwner :: string
  ra_FenceToken :: string
  ra_GatewayTokenHash :: string
  ra_GatewayExpiresAt :: "time option"
  ra_LeaseExpiresAt :: "time option"
  ra_OutputRefs :: "string list"
  ra_ResultDigest :: string
  ra_SafeSummary :: payload
  ra_ErrorCode :: string
  ra_Version :: int
  ra_CreatedAt :: time
  ra_StartedAt :: "time option"
  ra_FinishedAt :: "time option"
  ra_UpdatedAt :: time

fun validRuntimeAttemptState :: "attempt_state \<Rightarrow> bool" where
  "validRuntimeAttemptState (AttemptState s) = False"
| "validRuntimeAttemptState _ = True"

fun attempt_terminal :: "attempt_state \<Rightarrow> bool" where
  "attempt_terminal RuntimeAttemptYielded = True"
| "attempt_terminal RuntimeAttemptSucceeded = True"
| "attempt_terminal RuntimeAttemptRetryableFailed = True"
| "attempt_terminal RuntimeAttemptFailed = True"
| "attempt_terminal RuntimeAttemptCancelled = True"
| "attempt_terminal RuntimeAttemptExpired = True"
| "attempt_terminal _ = False"

definition RuntimeAttempt_Terminal :: "RuntimeAttempt \<Rightarrow> bool" where
  "RuntimeAttempt_Terminal a = attempt_terminal (ra_State a)"

definition RuntimeAttempt_Validate :: "RuntimeAttempt \<Rightarrow> fault option" where
  "RuntimeAttempt_Validate a =
     (if ra_ID a = '''' \<or> ra_TenantID a = '''' \<or> ra_JobRunID a = '''' \<or> ra_NodeRunID a = ''''
       \<or> ra_AgentInstanceID a = '''' \<or> ra_ContextViewID a = '''' \<or> ra_AttemptNo a < 1
       \<or> ra_HarnessKind a = '''' \<or> ra_State a = AttemptState '''' \<or> ra_Version a < 1
       \<or> IsZero (ra_CreatedAt a) \<or> IsZero (ra_UpdatedAt a)
      then Some (Invalid ''RUNTIME_ATTEMPT_INVALID'')
      else if \<not> validRuntimeAttemptState (ra_State a)
      then Some (Invalid ''RUNTIME_ATTEMPT_STATE_INVALID'')
      else if (ra_State a = RuntimeAttemptPrepared \<or> ra_State a = RuntimeAttemptRunning)
            \<and> (blank (ra_LeaseOwner a) \<or> blank (ra_FenceToken a)
               \<or> \<not> after_opt (ra_LeaseExpiresAt a) (ra_UpdatedAt a) \<or> ra_FinishedAt a \<noteq> None)
      then Some (Invalid ''RUNTIME_ATTEMPT_LEASE_INVALID'')
      else if (ra_State a = RuntimeAttemptPrepared \<or> ra_State a = RuntimeAttemptRunning)
            \<and> (ra_GatewayTokenHash a \<noteq> '''' \<or> ra_GatewayExpiresAt a \<noteq> None)
            \<and> (length (ra_GatewayTokenHash a) \<noteq> 64
               \<or> \<not> after_opt (ra_GatewayExpiresAt a) (ra_UpdatedAt a))
      then Some (Invalid ''RUNTIME_ATTEMPT_GATEWAY_INVALID'')
      else if \<not> (ra_State a = RuntimeAttemptPrepared \<or> ra_State a = RuntimeAttemptRunning)
            \<and> (ra_LeaseOwner a \<noteq> '''' \<or> ra_FenceToken a \<noteq> '''' \<or> ra_LeaseExpiresAt a \<noteq> None
               \<or> ra_FinishedAt a = None)
      then Some (Invalid ''RUNTIME_ATTEMPT_TERMINAL_INVALID'')
      else if ra_State a = RuntimeAttemptRunning \<and> (ra_SessionRef a = '''' \<or> ra_StartedAt a = None)
      then Some (Invalid ''RUNTIME_ATTEMPT_SESSION_INVALID'')
      else if ra_State a = RuntimeAttemptSucceeded \<and> ra_ResultDigest a = ''''
      then Some (Invalid ''RUNTIME_ATTEMPT_RESULT_INVALID'')
      else None)"

fun attempt_allowed :: "attempt_state \<Rightarrow> attempt_state list" where
  "attempt_allowed RuntimeAttemptPrepared =
     [RuntimeAttemptRunning, RuntimeAttemptRetryableFailed, RuntimeAttemptFailed,
      RuntimeAttemptCancelled, RuntimeAttemptExpired]"
| "attempt_allowed RuntimeAttemptRunning =
     [RuntimeAttemptYielded, RuntimeAttemptSucceeded, RuntimeAttemptRetryableFailed,
      RuntimeAttemptFailed, RuntimeAttemptCancelled, RuntimeAttemptExpired]"
| "attempt_allowed _ = []"

definition attempt_transition :: "attempt_state \<Rightarrow> attempt_state \<Rightarrow> fault option" where
  "attempt_transition s nxt =
     (if \<not> validRuntimeAttemptState nxt then Some (Invalid ''RUNTIME_ATTEMPT_STATE_INVALID'')
      else if s = nxt then None
      else if attempt_terminal s then Some (Conflict ''RUNTIME_ATTEMPT_TERMINAL'')
      else if nxt \<notin> set (attempt_allowed s)
      then Some (Conflict ''RUNTIME_ATTEMPT_TRANSITION_INVALID'')
      else None)"

definition RuntimeAttempt_Transition :: "RuntimeAttempt \<Rightarrow> attempt_state \<Rightarrow> fault option" where
  "RuntimeAttempt_Transition a nxt = attempt_transition (ra_State a) nxt"

subsection \<open>Events and the outbox\<close>

record JobEvent =
  je_ID :: string
  je_TenantID :: string
  je_JobRunID :: string
  je_Sequence :: int
  je_Type :: string
  je_NodeKey :: string
  je_ActorType :: string
  je_ActorID :: string
  je_CorrelationID :: string
  je_IdempotencyKey :: string
  je_Payload :: payload
  je_OccurredAt :: time

definition RuntimeEventSchema :: string where
  "RuntimeEventSchema = ''contentcloud.runtime-event/1.0''"

definition RuntimeOutboxSubscriberProjection :: string where
  "RuntimeOutboxSubscriberProjection = ''runtime_projection''"

definition RuntimeOutboxSubscriberBusinessResult :: string where
  "RuntimeOutboxSubscriberBusinessResult = ''runtime_business_result''"

definition RuntimeOutboxSubscribers :: "string \<Rightarrow> string list" where
  "RuntimeOutboxSubscribers eventType =
     RuntimeOutboxSubscriberProjection #
     (if eventType = ''attempt.succeeded'' then [RuntimeOutboxSubscriberBusinessResult] else [])"

record RuntimeOutboxMessage =
  om_ID :: string
  om_TenantID :: string
  om_EventID :: string
  om_SchemaVersion :: string
  om_Topic :: string
  om_AggregateID :: string
  om_Payload :: payload
  om_Subscriber :: string
  om_Attempts :: int
  om_NextAttemptAt :: time
  om_LockedBy :: string
  om_LockedUntil :: "time option"
  om_DeliveredAt :: "time option"
  om_LastError :: string
  om_CreatedAt :: time

record RuntimeExplorerView =
  rv_TenantID :: string
  rv_JobRunID :: string
  rv_Job :: JobRun
  rv_Nodes :: "NodeRun list"
  rv_LastEventSeq :: int
  rv_ProjectedAt :: time
  rv_SourceEventID :: string

subsection \<open>Maintenance heartbeats, cleanup diagnostics, projection rebuilds\<close>

record RuntimeMaintenanceHeartbeat =
  mh_TenantID :: string
  mh_Kind :: string
  mh_WorkerID :: string
  mh_State :: string
  mh_LastStartedAt :: time
  mh_LastSuccessAt :: "time option"
  mh_LastErrorCode :: string
  mh_Version :: int
  mh_UpdatedAt :: time

definition RuntimeMaintenanceHeartbeat_Validate ::
    "RuntimeMaintenanceHeartbeat \<Rightarrow> fault option" where
  "RuntimeMaintenanceHeartbeat_Validate h =
     (if mh_TenantID h = '''' \<or> mh_WorkerID h = '''' \<or> IsZero (mh_LastStartedAt h)
       \<or> IsZero (mh_UpdatedAt h)
      then Some (Invalid ''RUNTIME_MAINTENANCE_HEARTBEAT_INVALID'')
      else if mh_Kind h \<noteq> ''runtime_reaper'' \<and> mh_Kind h \<noteq> ''runtime_delivery''
            \<and> mh_Kind h \<noteq> ''runtime_cleanup''
      then Some (Invalid ''RUNTIME_MAINTENANCE_HEARTBEAT_INVALID'')
      else if mh_State h \<noteq> ''running'' \<and> mh_State h \<noteq> ''succeeded'' \<and> mh_State h \<noteq> ''failed''
      then Some (Invalid ''RUNTIME_MAINTENANCE_HEARTBEAT_INVALID'')
      else if mh_State h = ''succeeded'' \<and> mh_LastSuccessAt h = None
      then Some (Invalid ''RUNTIME_MAINTENANCE_HEARTBEAT_INVALID'')
      else None)"

record RuntimeCleanupDiagnostic =
  cd_ID :: string
  cd_TenantID :: string
  cd_ProjectID :: string
  cd_TaskID :: string
  cd_RequestID :: string
  cd_ManifestDigest :: string
  cd_ObjectKey :: string
  cd_CauseCode :: string
  cd_CauseSummary :: string
  cd_CleanupError :: string
  cd_Status :: cleanup_status
  cd_AttemptCount :: int
  cd_NextRetryAt :: "time option"
  cd_CreatedAt :: time
  cd_UpdatedAt :: time
  cd_Version :: int

definition RuntimeCleanupDiagnostic_Validate :: "RuntimeCleanupDiagnostic \<Rightarrow> fault option" where
  "RuntimeCleanupDiagnostic_Validate d =
     (if blank (cd_ID d) \<or> blank (cd_TenantID d) \<or> blank (cd_ProjectID d) \<or> blank (cd_TaskID d)
       \<or> blank (cd_RequestID d) \<or> \<not> validSHA256Digest (cd_ManifestDigest d)
       \<or> blank (cd_ObjectKey d) \<or> blank (cd_CauseCode d) \<or> blank (cd_CauseSummary d)
       \<or> cd_AttemptCount d < 0 \<or> cd_Version d < 1 \<or> IsZero (cd_CreatedAt d)
       \<or> IsZero (cd_UpdatedAt d)
      then Some (Invalid ''RUNTIME_CLEANUP_DIAGNOSTIC_INVALID'')
      else case cd_Status d of
        CleanupStatus s \<Rightarrow> Some (Invalid ''RUNTIME_CLEANUP_DIAGNOSTIC_STATUS_INVALID'')
      | _ \<Rightarrow>
        if (cd_Status d = RuntimeCleanupCleaned \<or> cd_Status d = RuntimeCleanupNotFound)
            \<and> cd_NextRetryAt d \<noteq> None
        then Some (Invalid ''RUNTIME_CLEANUP_DIAGNOSTIC_TERMINAL_INVALID'')
        else None)"

definition cleanup_valid_step :: "cleanup_status \<Rightarrow> cleanup_status \<Rightarrow> bool" where
  "cleanup_valid_step prev nxt =
     ((prev = RuntimeCleanupPending \<and> nxt = RuntimeCleanupRetrying)
    \<or> (prev = RuntimeCleanupRetrying \<and>
        (nxt = RuntimeCleanupCleaned \<or> nxt = RuntimeCleanupNotFound \<or> nxt = RuntimeCleanupFailed))
    \<or> (prev = RuntimeCleanupFailed \<and> nxt = RuntimeCleanupRetrying))"

definition RuntimeCleanupDiagnostic_ValidateTransition ::
    "RuntimeCleanupDiagnostic \<Rightarrow> RuntimeCleanupDiagnostic \<Rightarrow> fault option" where
  "RuntimeCleanupDiagnostic_ValidateTransition d p =
     (if cd_TenantID d \<noteq> cd_TenantID p \<or> cd_ID d \<noteq> cd_ID p \<or> cd_ProjectID d \<noteq> cd_ProjectID p
       \<or> cd_TaskID d \<noteq> cd_TaskID p \<or> cd_RequestID d \<noteq> cd_RequestID p
       \<or> cd_ManifestDigest d \<noteq> cd_ManifestDigest p \<or> cd_ObjectKey d \<noteq> cd_ObjectKey p
       \<or> cd_CauseCode d \<noteq> cd_CauseCode p \<or> cd_CauseSummary d \<noteq> cd_CauseSummary p
       \<or> cd_CreatedAt d \<noteq> cd_CreatedAt p
      then Some (Conflict ''RUNTIME_CLEANUP_DIAGNOSTIC_IDENTITY_CONFLICT'')
      else if cd_Status d = cd_Status p
      then Some (Conflict ''RUNTIME_CLEANUP_DIAGNOSTIC_TRANSITION_INVALID'')
      else if \<not> cleanup_valid_step (cd_Status p) (cd_Status d)
      then Some (Conflict ''RUNTIME_CLEANUP_DIAGNOSTIC_TRANSITION_INVALID'')
      else None)"

record RuntimeProjectionRebuildRun =
  pr_ID :: string
  pr_TenantID :: string
  pr_JobRunID :: string
  pr_Mode :: string
  pr_Status :: string
  pr_EventCount :: int
  pr_LastSequence :: int
  pr_ExternalCalls :: int
  pr_IntegrityStatus :: string
  pr_ErrorCode :: string
  pr_StartedAt :: time
  pr_FinishedAt :: "time option"
  pr_Version :: int

definition RuntimeProjectionRebuildRun_Validate ::
    "RuntimeProjectionRebuildRun \<Rightarrow> fault option" where
  "RuntimeProjectionRebuildRun_Validate r =
     (if pr_ID r = '''' \<or> pr_TenantID r = '''' \<or> pr_JobRunID r = '''' \<or> IsZero (pr_StartedAt r)
       \<or> pr_Version r < 1
      then Some (Invalid ''RUNTIME_PROJECTION_REBUILD_INVALID'')
      else if pr_Mode r \<noteq> ''rebuild'' \<and> pr_Mode r \<noteq> ''dry_run''
      then Some (Invalid ''RUNTIME_PROJECTION_REBUILD_MODE_INVALID'')
      else if pr_Status r = ''running'' \<and> pr_FinishedAt r \<noteq> None
      then Some (Invalid ''RUNTIME_PROJECTION_REBUILD_RUNNING_INVALID'')
      else if (pr_Status r = ''completed'' \<or> pr_Status r = ''failed'') \<and> pr_FinishedAt r = None
      then Some (Invalid ''RUNTIME_PROJECTION_REBUILD_FINISHED_INVALID'')
      else if pr_Status r \<noteq> ''running'' \<and> pr_Status r \<noteq> ''completed'' \<and> pr_Status r \<noteq> ''failed''
      then Some (Invalid ''RUNTIME_PROJECTION_REBUILD_STATUS_INVALID'')
      else if pr_ExternalCalls r \<noteq> 0 then Some (Invalid ''RUNTIME_PROJECTION_EXTERNAL_CALLS'')
      else None)"

subsection \<open>Tool calls and external effects\<close>

record ToolCall =
  tc_ID :: string
  tc_TenantID :: string
  tc_JobRunID :: string
  tc_NodeRunID :: string
  tc_AttemptID :: string
  tc_AgentInstanceID :: string
  tc_ToolName :: string
  tc_SchemaVersion :: string
  tc_RequestDigest :: string
  tc_SafeRequest :: payload
  tc_SafeResult :: payload
  tc_ResultDigest :: string
  tc_State :: tool_state
  tc_ErrorCode :: string
  tc_StartedAt :: "time option"
  tc_FinishedAt :: "time option"
  tc_Version :: int
  tc_CreatedAt :: time
  tc_UpdatedAt :: time

definition ToolCall_Validate :: "ToolCall \<Rightarrow> fault option" where
  "ToolCall_Validate c =
     (if tc_ID c = '''' \<or> tc_TenantID c = '''' \<or> tc_JobRunID c = '''' \<or> tc_NodeRunID c = ''''
       \<or> tc_AttemptID c = '''' \<or> tc_AgentInstanceID c = '''' \<or> tc_ToolName c = ''''
       \<or> tc_SchemaVersion c = '''' \<or> tc_RequestDigest c = '''' \<or> tc_State c = ToolState ''''
       \<or> tc_Version c < 1 \<or> IsZero (tc_CreatedAt c) \<or> IsZero (tc_UpdatedAt c)
      then Some (Invalid ''TOOL_CALL_INVALID'')
      else case tc_State c of
        ToolState s \<Rightarrow> Some (Invalid ''TOOL_CALL_STATE_INVALID'')
      | _ \<Rightarrow> None)"

record ExternalEffect =
  ee_ID :: string
  ee_TenantID :: string
  ee_JobRunID :: string
  ee_NodeRunID :: string
  ee_AttemptID :: string
  ee_ResourceReservationID :: string
  ee_Kind :: string
  ee_IdempotencyKey :: string
  ee_State :: effect_state
  ee_ExternalID :: string
  ee_RequestDigest :: string
  ee_ResponseDigest :: string
  ee_CostMinor :: int
  ee_Currency :: string
  ee_SafeSummary :: payload
  ee_ErrorCode :: string
  ee_Version :: int
  ee_CreatedAt :: time
  ee_UpdatedAt :: time

fun effect_valid :: "effect_state \<Rightarrow> bool" where
  "effect_valid (EffectState s) = False"
| "effect_valid _ = True"

fun effect_terminal :: "effect_state \<Rightarrow> bool" where
  "effect_terminal EffectSucceeded = True"
| "effect_terminal EffectFailed = True"
| "effect_terminal EffectManual = True"
| "effect_terminal _ = False"

fun effect_allowed :: "effect_state \<Rightarrow> effect_state list" where
  "effect_allowed EffectRegistered = [EffectSubmitted, EffectUnknown, EffectFailed]"
| "effect_allowed EffectSubmitted =
     [EffectAcknowledged, EffectSucceeded, EffectUnknown, EffectFailed]"
| "effect_allowed EffectAcknowledged = [EffectSucceeded, EffectFailed, EffectUnknown]"
| "effect_allowed EffectUnknown = [EffectReconciling, EffectManual]"
| "effect_allowed EffectReconciling = [EffectSucceeded, EffectFailed, EffectManual]"
| "effect_allowed _ = []"

definition effect_transition :: "effect_state \<Rightarrow> effect_state \<Rightarrow> fault option" where
  "effect_transition s nxt =
     (if \<not> effect_valid nxt then Some (Invalid ''EFFECT_STATE_INVALID'')
      else if effect_terminal s then Some (Conflict ''EFFECT_TERMINAL'')
      else if nxt \<notin> set (effect_allowed s) then Some (Conflict ''EFFECT_TRANSITION_INVALID'')
      else None)"

definition ExternalEffect_Transition :: "ExternalEffect \<Rightarrow> effect_state \<Rightarrow> fault option" where
  "ExternalEffect_Transition e nxt = effect_transition (ee_State e) nxt"

subsection \<open>The state machines meet their contract\<close>

lemmas transition_defs =
  job_transition_def node_transition_def attempt_transition_def agent_transition_def
  effect_transition_def

text \<open>Every state an allow-table names is a declared state.\<close>

lemma allowed_valid:
  "n \<in> set (job_allowed j) \<Longrightarrow> validJobState n"
  "m \<in> set (node_allowed k) \<Longrightarrow> validNodeState m"
  "b \<in> set (attempt_allowed a) \<Longrightarrow> validRuntimeAttemptState b"
  "h \<in> set (agent_allowed g) \<Longrightarrow> validAgentState h"
  "f \<in> set (effect_allowed e) \<Longrightarrow> effect_valid f"
  subgoal by (cases j) auto
  subgoal by (cases k) auto
  subgoal by (cases a) auto
  subgoal by (cases g) auto
  subgoal by (cases e) auto
  done

interpretation job_machine: guarded_machine job_transition validJobState job_terminal
  by unfold_locales (auto simp: job_transition_def split: if_splits)

interpretation node_machine: guarded_machine node_transition validNodeState node_terminal
  by unfold_locales (auto simp: node_transition_def split: if_splits)

interpretation attempt_machine:
  guarded_machine attempt_transition validRuntimeAttemptState attempt_terminal
  by unfold_locales (auto simp: attempt_transition_def split: if_splits)

interpretation agent_machine: guarded_machine agent_transition validAgentState agent_terminal
  by unfold_locales (auto simp: agent_transition_def split: if_splits)

interpretation effect_machine: guarded_machine effect_transition effect_valid effect_terminal
  by unfold_locales (auto simp: effect_transition_def split: if_splits)

text \<open>
  A node that has been blocked has no way out although \<open>blocked\<close> is not one of the terminal
  states: no transition other than the identity is accepted.
\<close>

lemma node_blocked_stuck: "node_transition NodeBlocked n = None \<Longrightarrow> n = NodeBlocked"
  by (auto simp: node_transition_def split: if_splits)

lemma node_run_blocked: "(\<lambda>s n. node_transition s n = None)\<^sup>*\<^sup>* NodeBlocked t \<Longrightarrow> t = NodeBlocked"
  by (induction rule: rtranclp_induct) (auto dest: node_blocked_stuck)

lemma node_lease_states: "node_transition s NodeLeased = None \<Longrightarrow> s = NodeReady \<or> s = NodeLeased"
  by (cases s) (auto simp: node_transition_def)

lemma attempt_prepared_entry:
  "attempt_transition s RuntimeAttemptPrepared = None \<Longrightarrow> s = RuntimeAttemptPrepared"
  by (cases s) (auto simp: attempt_transition_def)

lemma effect_succeeded_entry:
  "effect_transition s EffectSucceeded = None \<Longrightarrow>
   s \<in> {EffectSubmitted, EffectAcknowledged, EffectReconciling}"
  by (cases s) (auto simp: effect_transition_def)

end
