(* ===== verification/Plan_Graph.thy ===== *)
theory Plan_Graph
  imports Lifecycle
begin

section \<open>Execution plans and their graph (internal/runtime/model.go, graph_patch.go, fanout.go)\<close>

text \<open>
  The immutable plan of a job: nodes, edges, customer steps and limits; its validation with
  Kahn's algorithm (\<open>validateAcyclic\<close>); the breadth-first search \<open>planHasPath\<close>; the memoised
  depth computation \<open>graphDepth\<close>; and \<open>ApplyGraphPatch\<close>, the only way a running graph grows.
  The algorithms are related to the edge relation of the plan: acyclicity, reachability and
  the longest dependency chain.

  Slices are lists, so Go's distinction between a nil and an empty slice, which
  \<^verbatim>\<open>NormalizeCollections\<close> removes, is not visible here.
\<close>

subsection \<open>Data\<close>

record RuntimeLimits =
  rl_MaxNodes :: int
  rl_MaxDepth :: int
  rl_MaxDynamicDescendants :: int
  rl_MaxConcurrentNodes :: int
  rl_MaxAttemptsPerNode :: int
  rl_MaxCostMinor :: int

definition DefaultRuntimeLimits :: RuntimeLimits where
  "DefaultRuntimeLimits =
     \<lparr>rl_MaxNodes = 100, rl_MaxDepth = 32, rl_MaxDynamicDescendants = 100,
      rl_MaxConcurrentNodes = 20, rl_MaxAttemptsPerNode = 3, rl_MaxCostMinor = 0\<rparr>"

record JobPlanNode =
  pn_Key :: string
  pn_Kind :: string
  pn_StageID :: string
  pn_GateID :: string
  pn_Name :: string
  pn_DependsOn :: "string list"
  pn_InputRefs :: "string list"
  pn_OutputSchema :: string
  pn_RequiredCapabilities :: "string list"
  pn_ExecutionModes :: "string list"
  pn_CustomerStepID :: string
  pn_SideEffectClass :: string
  pn_RetryMaxAttempts :: int

record JobPlanEdge =
  pe_From :: string
  pe_To :: string

record JobPlanCustomerStep =
  ps_ID :: string
  ps_Title :: string
  ps_NodeKeys :: "string list"

record JobPlanRevision =
  jp_ID :: string
  jp_TenantID :: string
  jp_BaseRevisionID :: string
  jp_GraphVersion :: int
  jp_PatchKey :: string
  jp_PatchReason :: string
  jp_SOPID :: string
  jp_SOPVersion :: int
  jp_SOPDigest :: string
  jp_SchemaVersion :: string
  jp_Digest :: string
  jp_Nodes :: "JobPlanNode list"
  jp_Edges :: "JobPlanEdge list"
  jp_CustomerSteps :: "JobPlanCustomerStep list"
  jp_Limits :: RuntimeLimits
  jp_CompiledAt :: time
  jp_CompiledBy :: string

definition JobPlanSchema :: string where
  "JobPlanSchema = ''contentcloud.job-plan/1.0''"

subsection \<open>Kahn's algorithm\<close>

text \<open>\<^verbatim>\<open>m[k]\<close> on a \<^verbatim>\<open>map[string]int\<close>: the zero value when the key is absent.\<close>

definition deg :: "int gomap \<Rightarrow> string \<Rightarrow> int" where
  "deg m k = (case mget m k of None \<Rightarrow> 0 | Some d \<Rightarrow> d)"

definition succs :: "JobPlanEdge list \<Rightarrow> string \<Rightarrow> string list" where
  "succs es k = map pe_To (filter (\<lambda>e. pe_From e = k) es)"

fun init_degrees :: "JobPlanNode list \<Rightarrow> int gomap \<Rightarrow> int gomap" where
  "init_degrees [] m = m"
| "init_degrees (n # ns) m = init_degrees ns (mput (pn_Key n) 0 m)"

fun count_edges :: "JobPlanEdge list \<Rightarrow> int gomap \<Rightarrow> int gomap" where
  "count_edges [] m = m"
| "count_edges (e # es) m = count_edges es (mput (pe_To e) (deg m (pe_To e) + 1) m)"

text \<open>The inner loop over the successors of the node taken from the queue.\<close>

fun relax :: "string list \<Rightarrow> int gomap \<Rightarrow> string list \<Rightarrow> int gomap \<times> string list" where
  "relax [] m q = (m, q)"
| "relax (nxt # rest) m q =
     (let d = deg m nxt - 1; m' = mput nxt d m
      in relax rest m' (if d = 0 then q @ [nxt] else q))"

definition potential :: "int gomap \<Rightarrow> nat" where
  "potential m = (\<Sum>d \<leftarrow> mvals m. nat d)"

lemma potential_mput_dec:
  "potential (mput k (deg m k - 1) m) + (if deg m k - 1 = 0 then 1 else 0) \<le> potential m"
proof (induction m)
  case (Cons p m)
  obtain k' d where [simp]: "p = (k', d)" by (cases p)
  show ?case
  proof (cases "k' = k")
    case True
    then show ?thesis
      by (auto simp: potential_def mvals_def mput_def deg_def mget_def)
  next
    case False
    then have "deg (p # m) k = deg m k" by (simp add: deg_def mget_def)
    with False Cons show ?thesis
      by (auto simp: potential_def mvals_def mput_def split: if_splits)
  qed
qed (simp add: potential_def mvals_def mput_def deg_def mget_def)

lemma relax_potential:
  "relax ns m q = (m', q') \<Longrightarrow> potential m' + length q' \<le> potential m + length q"
proof (induction ns arbitrary: m q)
  case (Cons n ns)
  let ?m = "mput n (deg m n - 1) m" and ?q = "if deg m n - 1 = 0 then q @ [n] else q"
  from Cons.prems have "relax ns ?m ?q = (m', q')" by (simp add: Let_def)
  then have "potential m' + length q' \<le> potential ?m + length ?q" by (rule Cons.IH)
  also have "\<dots> \<le> potential m + length q"
    using potential_mput_dec [of n m] by (auto split: if_splits)
  finally show ?case .
qed simp

function kahn :: "JobPlanEdge list \<Rightarrow> int gomap \<Rightarrow> string list \<Rightarrow> nat \<Rightarrow> nat" where
  "kahn es m [] cnt = cnt"
| "kahn es m (key # queue) cnt =
     (let (m', queue') = relax (succs es key) m queue in kahn es m' queue' (cnt + 1))"
  by pat_completeness auto
termination
proof (relation "measure (\<lambda>(es, m, q, c). potential m + length q)")
  fix es :: "JobPlanEdge list" and m key queue cnt x m' queue'
  assume "x = relax (succs es key) m queue" and "(m', queue') = x"
  then have "relax (succs es key) m queue = (m', queue')" by simp
  from relax_potential [OF this]
  show "((es, m', queue', cnt + 1), es, m, key # queue, cnt)
        \<in> measure (\<lambda>(es, m, q, c). potential m + length q)" by simp
qed simp

definition validateAcyclic :: "JobPlanNode list \<Rightarrow> JobPlanEdge list \<Rightarrow> nat res" where
  "validateAcyclic nodes edges =
     (let indegree = count_edges edges (init_degrees nodes []);
          queue = sort (map fst (filter (\<lambda>(k, d). d = 0) indegree));
          cnt = kahn edges indegree queue 0
      in if cnt \<noteq> length nodes then Inl (Invalid ''JOB_PLAN_CYCLE'') else Inr cnt)"

subsection \<open>Validation of a plan\<close>

fun validate_nodes :: "string list \<Rightarrow> JobPlanNode list \<Rightarrow> fault option" where
  "validate_nodes seen [] = None"
| "validate_nodes seen (n # ns) =
     (if blank (pn_Key n) \<or> pn_Key n \<in> set seen \<or> blank (pn_Name n) \<or> blank (pn_OutputSchema n)
      then Some (Invalid ''JOB_PLAN_NODE_INVALID'')
      else validate_nodes (pn_Key n # seen) ns)"

definition validate_edge :: "string list \<Rightarrow> JobPlanEdge \<Rightarrow> fault option" where
  "validate_edge seen e =
     (if pe_From e \<notin> set seen \<or> pe_To e \<notin> set seen \<or> pe_From e = pe_To e
      then Some (Invalid ''JOB_PLAN_EDGE_INVALID'') else None)"

definition JobPlanRevision_Validate :: "JobPlanRevision \<Rightarrow> fault option" where
  "JobPlanRevision_Validate p =
     (if jp_ID p = '''' \<or> jp_TenantID p = '''' \<or> jp_SOPID p = '''' \<or> jp_SOPVersion p < 1
       \<or> jp_SchemaVersion p \<noteq> JobPlanSchema \<or> jp_Digest p = '''' \<or> jp_GraphVersion p < 1
      then Some (Invalid ''JOB_PLAN_INVALID'')
      else if jp_Nodes p = [] \<or> int (length (jp_Nodes p)) > rl_MaxNodes (jp_Limits p)
      then Some (Invalid ''JOB_PLAN_NODE_LIMIT'')
      else case validate_nodes [] (jp_Nodes p) of Some e \<Rightarrow> Some e | None \<Rightarrow>
        (case check_all (validate_edge (map pn_Key (jp_Nodes p))) (jp_Edges p) of
           Some e \<Rightarrow> Some e
         | None \<Rightarrow> (case validateAcyclic (jp_Nodes p) (jp_Edges p) of
             Inl e \<Rightarrow> Some e | Inr _ \<Rightarrow> None)))"

subsection \<open>Path search (fanout.go)\<close>

text \<open>
  The queue loop of \<^verbatim>\<open>planHasPath\<close>. Each round either expands a node that was not seen yet
  or shortens the queue.
\<close>

function path_loop :: "JobPlanEdge list \<Rightarrow> string \<Rightarrow> string list \<Rightarrow> string list \<Rightarrow> bool" where
  "path_loop es tgt seen [] = False"
| "path_loop es tgt seen (current # queue) =
     (if current = tgt then True
      else if current \<in> set seen then path_loop es tgt seen queue
      else path_loop es tgt (current # seen) (queue @ succs es current))"
  by pat_completeness auto
termination
proof (relation "measures [\<lambda>(es, t, seen, q). card (set (map pe_From es) - set seen),
                           \<lambda>(es, t, seen, q). length q]")
  fix es :: "JobPlanEdge list" and tgt current :: string and seen queue
  assume new: "current \<notin> set seen"
  show "((es, tgt, current # seen, queue @ succs es current), es, tgt, seen, current # queue)
        \<in> measures [\<lambda>(es, t, seen, q). card (set (map pe_From es) - set seen),
                     \<lambda>(es, t, seen, q). length q]"
  proof (cases "current \<in> set (map pe_From es)")
    case True
    with new have "set (map pe_From es) - set (current # seen) \<subset> set (map pe_From es) - set seen"
      by auto
    then show ?thesis by (auto intro: psubset_card_mono)
  next
    case False
    then have "set (map pe_From es) - set (current # seen) = set (map pe_From es) - set seen"
      by auto
    moreover from False have "succs es current = []" by (auto simp: succs_def filter_empty_conv)
    ultimately show ?thesis by simp
  qed
qed simp_all

definition planHasPath :: "JobPlanRevision \<Rightarrow> string \<Rightarrow> string \<Rightarrow> bool" where
  "planHasPath plan frm tgt = path_loop (jp_Edges plan) tgt [] [frm]"

definition planNodeExists :: "JobPlanRevision \<Rightarrow> string \<Rightarrow> bool" where
  "planNodeExists plan key = list_ex (\<lambda>n. pn_Key n = key) (jp_Nodes plan)"

subsection \<open>Kahn's algorithm decides acyclicity\<close>

definition edge_rel :: "JobPlanEdge list \<Rightarrow> (string \<times> string) set" where
  "edge_rel es = (\<lambda>e. (pe_From e, pe_To e)) ` set es"

definition open_preds :: "JobPlanEdge list \<Rightarrow> string set \<Rightarrow> string \<Rightarrow> nat" where
  "open_preds es P k = length (filter (\<lambda>e. pe_To e = k \<and> pe_From e \<notin> P) es)"

text \<open>
  The loop invariant: \<open>P\<close> is the list of nodes taken from the queue so far, the degree of a
  node counts its edges from nodes outside \<open>P\<close>, and the nodes of degree zero are the ones
  taken or queued, each once, and every predecessor chain into them is finite.
\<close>

definition kahn_inv ::
    "JobPlanEdge list \<Rightarrow> string set \<Rightarrow> string list \<Rightarrow> string list \<Rightarrow> int gomap \<Rightarrow> bool" where
  "kahn_inv es K P q m =
     (distinct (P @ q) \<and> set (P @ q) = {k \<in> K. deg m k = 0}
      \<and> (\<forall>k \<in> K. deg m k = int (open_preds es (set P) k))
      \<and> set (P @ q) \<subseteq> Wellfounded.acc (edge_rel es))"

lemma deg_mput [simp]: "deg (mput k d m) k' = (if k' = k then d else deg m k')"
  by (simp add: deg_def)

lemma relax_deg: "relax ns m q = (m', q') \<Longrightarrow> deg m' k = deg m k - int (count_list ns k)"
  by (induction ns arbitrary: m q) (auto simp: Let_def)

lemma relax_queue:
  assumes "relax ns m q = (m', q')" and "\<And>k. k \<in> set ns \<Longrightarrow> deg m k \<ge> int (count_list ns k)"
  shows "\<exists>xs. q' = q @ xs \<and> distinct xs \<and> set xs = {k \<in> set ns. deg m k = int (count_list ns k)}"
  using assms
proof (induction ns arbitrary: m q)
  case (Cons n ns)
  let ?d = "deg m n - 1"
  let ?m = "mput n ?d m" and ?q = "if ?d = 0 then q @ [n] else q"
  have run: "relax ns ?m ?q = (m', q')" using Cons.prems(1) by (simp add: Let_def)
  have ge: "\<And>k. k \<in> set ns \<Longrightarrow> deg ?m k \<ge> int (count_list ns k)"
    using Cons.prems(2) by (fastforce split: if_splits)
  obtain xs where xs: "q' = ?q @ xs" "distinct xs"
      "set xs = {k \<in> set ns. deg ?m k = int (count_list ns k)}"
    using Cons.IH [OF run ge] by blast
  have once: "?d = 0 \<Longrightarrow> n \<notin> set ns"
    using ge [of n] by (auto simp: count_list_0_iff)
  have none: "?d = int (count_list ns n) \<Longrightarrow> n \<notin> set ns \<Longrightarrow> ?d = 0"
    by (simp add: count_list_0_iff)
  have other: "k \<noteq> n \<Longrightarrow> k \<in> set xs \<longleftrightarrow> k \<in> set (n # ns) \<and> deg m k = int (count_list (n # ns) k)" for k
    by (simp add: xs(3))
  have self: "n \<in> set xs \<or> ?d = 0 \<longleftrightarrow> deg m n = int (count_list (n # ns) n)"
    using once none by (cases "n \<in> set ns") (auto simp: xs(3) count_list_0_iff)
  have notin: "?d = 0 \<Longrightarrow> n \<notin> set xs" by (simp add: xs(3) once)
  show ?case
  proof (cases "?d = 0")
    case True
    then have "q' = q @ (n # xs)" "distinct (n # xs)" using xs(1,2) notin by simp_all
    moreover have "k \<in> set (n # xs) \<longleftrightarrow>
        k \<in> set (n # ns) \<and> deg m k = int (count_list (n # ns) k)" for k
      using other [of k] self True by (cases "k = n") simp_all
    ultimately show ?thesis by blast
  next
    case False
    then have "k \<in> set xs \<longleftrightarrow> k \<in> set (n # ns) \<and> deg m k = int (count_list (n # ns) k)" for k
      using other [of k] self by (cases "k = n") simp_all
    moreover have "q' = q @ xs" "distinct xs" using xs(1,2) False by simp_all
    ultimately show ?thesis by blast
  qed
qed auto

lemma count_list_succs: "count_list (succs es k) j = length (filter (\<lambda>e. pe_From e = k \<and> pe_To e = j) es)"
  by (induction es) (auto simp: succs_def)

lemma open_preds_insert:
  "k \<notin> P \<Longrightarrow> open_preds es P j = open_preds es (insert k P) j + count_list (succs es k) j"
  by (induction es) (auto simp: open_preds_def succs_def)

lemma open_preds_0: "(open_preds es P k = 0) = (\<forall>j. (j, k) \<in> edge_rel es \<longrightarrow> j \<in> P)"
  by (auto simp: open_preds_def edge_rel_def filter_empty_conv)

lemma open_preds_acc:
  "open_preds es P k = 0 \<Longrightarrow> P \<subseteq> Wellfounded.acc (edge_rel es) \<Longrightarrow>
   k \<in> Wellfounded.acc (edge_rel es)"
  by (meson accI open_preds_0 subsetD)

lemma set_succs: "set (succs es k) = {j. (k, j) \<in> edge_rel es}"
  by (auto simp: succs_def edge_rel_def)

lemma kahn_inv_step:
  assumes inv: "kahn_inv es K P (key # q) m" and run: "relax (succs es key) m q = (m', q')"
    and K: "edge_rel es \<subseteq> K \<times> K"
  shows "kahn_inv es K (P @ [key]) q' m'"
proof -
  have key: "key \<in> K" "key \<notin> set P" "deg m key = 0" and dist: "distinct (P @ key # q)"
    and zero: "set (P @ key # q) = {k \<in> K. deg m k = 0}"
    and cnt: "\<And>k. k \<in> K \<Longrightarrow> deg m k = int (open_preds es (set P) k)"
    and acc: "set (P @ key # q) \<subseteq> Wellfounded.acc (edge_rel es)"
    using inv by (auto simp: kahn_inv_def)
  have cnt': "deg m' k = int (open_preds es (set (P @ [key])) k)" if "k \<in> K" for k
    using relax_deg [OF run, of k] cnt [OF that] open_preds_insert [OF key(2), of es k] by simp
  have ge: "\<And>k. k \<in> set (succs es key) \<Longrightarrow> deg m k \<ge> int (count_list (succs es key) k)"
    using K cnt open_preds_insert [OF key(2), of es] by (auto simp: set_succs)
  obtain xs where xs: "q' = q @ xs" "distinct xs"
      "set xs = {k \<in> set (succs es key). deg m k = int (count_list (succs es key) k)}"
    using relax_queue [OF run ge] by blast
  have xsK: "set xs \<subseteq> K" using xs(3) K by (auto simp: set_succs)
  have pos: "k \<in> set xs \<Longrightarrow> deg m k \<noteq> 0" for k
    using xs(3) by (auto simp: count_list_0_iff)
  have some: "k \<in> set (succs es key) \<Longrightarrow> count_list (succs es key) k > 0" for k
    by (metis count_list_0_iff gr0I)
  have "deg m' k = 0 \<longleftrightarrow> deg m k = 0 \<or> k \<in> set xs" if "k \<in> K" for k
    using relax_deg [OF run, of k] xs(3) cnt' [OF that] some [of k]
    by (cases "k \<in> set (succs es key)") (auto simp: count_list_0_iff)
  then have zero': "set ((P @ [key]) @ q') = {k \<in> K. deg m' k = 0}"
    using zero xs(1) xsK by auto
  have "k \<in> Wellfounded.acc (edge_rel es)" if "k \<in> set ((P @ [key]) @ q')" for k
  proof -
    have "k \<in> K" "deg m' k = 0" using that zero' by blast+
    then have "open_preds es (set (P @ [key])) k = 0" using cnt' by simp
    then show ?thesis by (rule open_preds_acc) (use acc in simp)
  qed
  moreover have "distinct ((P @ [key]) @ q')"
    using dist xs(1,2) zero pos by auto
  ultimately show ?thesis using cnt' zero' unfolding kahn_inv_def by blast
qed

lemma kahn_run:
  assumes "kahn_inv es K P q m" and "edge_rel es \<subseteq> K \<times> K"
  shows "\<exists>P' m'. kahn_inv es K P' [] m' \<and> kahn es m q (length P) = length P'"
  using assms
proof (induction es m q "length P" arbitrary: P rule: kahn.induct)
  case (1 es m)
  then show ?case by auto
next
  case (2 es m key queue)
  obtain m' q' where run: "relax (succs es key) m queue = (m', q')" by fastforce
  have "kahn_inv es K (P @ [key]) q' m'"
    using kahn_inv_step "2.prems" run by blast
  from "2.hyps" [OF run [symmetric] refl _ this "2.prems"(2)] run show ?case by simp
qed

lemma init_degrees_deg: "(\<And>k. deg m k = 0) \<Longrightarrow> deg (init_degrees ns m) k = 0"
  by (induction ns arbitrary: m) auto

lemma dom_mput: "fst ` set (mput k v m) = insert k (fst ` set m)"
  by (simp add: mput_def dom_update)

lemma init_degrees_dom: "fst ` set (init_degrees ns m) = pn_Key ` set ns \<union> fst ` set m"
  by (induction ns arbitrary: m) (auto simp: dom_mput)

lemma init_degrees_wf: "wf_map m \<Longrightarrow> wf_map (init_degrees ns m)"
  by (induction ns arbitrary: m) auto

lemma count_edges_deg: "deg (count_edges es m) k = deg m k + int (open_preds es {} k)"
  by (induction es arbitrary: m) (auto simp: open_preds_def)

lemma count_edges_dom: "fst ` set (count_edges es m) = pe_To ` set es \<union> fst ` set m"
  by (induction es arbitrary: m) (auto simp: dom_mput)

lemma count_edges_wf: "wf_map m \<Longrightarrow> wf_map (count_edges es m)"
  by (induction es arbitrary: m) auto

lemma zero_keys: "wf_map m \<Longrightarrow> set (map fst (filter (\<lambda>(k, d). d = 0) m)) = {k \<in> fst ` set m. deg m k = 0}"
  by (induction m) (force simp: wf_map_def deg_def mget_def)+

lemma kahn_inv_init:
  assumes "edge_rel es \<subseteq> K \<times> K" and K: "K = pn_Key ` set ns"
    and m: "m = count_edges es (init_degrees ns [])"
  shows "kahn_inv es K [] (sort (map fst (filter (\<lambda>(k, d). d = 0) m))) m"
proof -
  have wf: "wf_map m" by (simp add: m count_edges_wf init_degrees_wf)
  have "fst ` set m = K"
    using assms(1) by (auto simp: m K count_edges_dom init_degrees_dom edge_rel_def)
  moreover have "distinct (map fst (filter (\<lambda>(k, d). d = 0) m))"
    using wf by (simp add: wf_map_def distinct_map_filter)
  moreover have start: "deg m k = int (open_preds es {} k)" for k
    using init_degrees_deg [of "[]" ns k] by (simp add: m count_edges_deg deg_def [of "[]"])
  moreover have "deg m k = 0 \<Longrightarrow> k \<in> Wellfounded.acc (edge_rel es)" for k
    using start [of k] by (intro open_preds_acc [of es "{}"]) simp_all
  ultimately show ?thesis
    unfolding kahn_inv_def using zero_keys [OF wf] by (simp add: subset_iff)
qed

text \<open>An acyclic relation on a finite set has no non-empty set of nodes each with a predecessor in it.\<close>

lemma acyclic_complete:
  assumes ac: "acyclic R" and K: "R \<subseteq> K \<times> K" "finite K"
    and closed: "\<And>k. k \<in> K \<Longrightarrow> (\<forall>j. (j, k) \<in> R \<longrightarrow> j \<in> P) \<Longrightarrow> k \<in> P"
  shows "K \<subseteq> P"
proof
  have "finite R" using K by (meson finite_SigmaI finite_subset)
  then have "wf R" using ac by (rule finite_acyclic_wf)
  fix k assume "k \<in> K"
  with \<open>wf R\<close> show "k \<in> P"
  proof (induction k rule: wf_induct_rule)
    case (less k)
    then show ?case using closed [of k] K(1) by blast
  qed
qed

lemma kahn_inv_acc:
  assumes inv: "kahn_inv es K P [] m" and K: "edge_rel es \<subseteq> K \<times> K" "finite K"
  shows "set P = K \<longleftrightarrow> acyclic (edge_rel es)"
proof
  have PK: "set P \<subseteq> K" and zero: "\<And>k. k \<in> K \<Longrightarrow> deg m k = 0 \<Longrightarrow> k \<in> set P"
    and cnt: "\<And>k. k \<in> K \<Longrightarrow> deg m k = int (open_preds es (set P) k)"
    using inv by (auto simp: kahn_inv_def)
  assume "acyclic (edge_rel es)"
  then have "K \<subseteq> set P"
    using acyclic_complete [OF _ K, of "set P"] zero cnt by (simp add: open_preds_0 [symmetric])
  with PK show "set P = K" by blast
next
  assume "set P = K"
  then have "k \<in> Wellfounded.acc (edge_rel es)" for k
    using inv K(1) by (cases "k \<in> K") (auto simp: kahn_inv_def intro: accI)
  then show "acyclic (edge_rel es)" by (intro wf_acyclic acc_wfI) blast
qed

lemma validateAcyclic_iff:
  assumes "distinct (map pn_Key ns)" and "edge_rel es \<subseteq> pn_Key ` set ns \<times> pn_Key ` set ns"
  shows "validateAcyclic ns es =
    (if acyclic (edge_rel es) then Inr (length ns) else Inl (Invalid ''JOB_PLAN_CYCLE''))"
proof -
  let ?K = "pn_Key ` set ns" and ?m = "count_edges es (init_degrees ns [])"
  obtain P m' where inv: "kahn_inv es ?K P [] m'"
    and cnt: "kahn es ?m (sort (map fst (filter (\<lambda>(k, d). d = 0) ?m))) 0 = length P"
    using kahn_run [OF kahn_inv_init [OF assms(2) refl refl] assms(2)] by auto
  have "distinct P" "set P \<subseteq> ?K" using inv by (auto simp: kahn_inv_def)
  moreover have "card ?K = length ns" using assms(1) distinct_card by fastforce
  ultimately have "length P = length ns \<longleftrightarrow> set P = ?K"
    by (metis List.finite_set card_subset_eq distinct_card finite_imageI)
  then show ?thesis
    using kahn_inv_acc [OF inv assms(2)] cnt by (simp add: validateAcyclic_def Let_def)
qed

subsection \<open>The path search decides reachability\<close>

lemma path_loop_sound: "path_loop es tgt seen q \<Longrightarrow> \<exists>c \<in> set q. (c, tgt) \<in> (edge_rel es)\<^sup>*"
proof (induction es tgt seen q rule: path_loop.induct)
  case (2 es tgt seen current queue)
  show ?case
  proof (cases "current = tgt \<or> current \<in> set seen")
    case True
    then show ?thesis using 2 by (auto split: if_splits)
  next
    case False
    then obtain c where "c \<in> set (queue @ succs es current)" "(c, tgt) \<in> (edge_rel es)\<^sup>*"
      using 2 by auto
    then show ?thesis by (auto simp: set_succs intro: converse_rtrancl_into_rtrancl)
  qed
qed simp

text \<open>A set that is closed under successors and misses the target cannot reach it.\<close>

lemma closed_unreachable:
  "(c, tgt) \<in> R\<^sup>* \<Longrightarrow> c \<in> S \<Longrightarrow> tgt \<notin> S \<Longrightarrow> \<exists>s \<in> S. \<exists>j. (s, j) \<in> R \<and> j \<notin> S"
  by (induction rule: rtrancl_induct) blast+

lemma path_loop_complete:
  "\<not> path_loop es tgt seen q \<Longrightarrow> tgt \<notin> set seen \<Longrightarrow>
   (\<And>s j. s \<in> set seen \<Longrightarrow> (s, j) \<in> edge_rel es \<Longrightarrow> j \<in> set seen \<union> set q) \<Longrightarrow>
   c \<in> set seen \<union> set q \<Longrightarrow> (c, tgt) \<notin> (edge_rel es)\<^sup>*"
proof (induction es tgt seen q arbitrary: c rule: path_loop.induct)
  case (1 es tgt seen)
  then show ?case using closed_unreachable [of c tgt "edge_rel es" "set seen"] by auto
next
  case (2 es tgt seen current queue)
  have ne: "current \<noteq> tgt" using "2.prems"(1) by auto
  show ?case
  proof (cases "current \<in> set seen")
    case True
    show ?thesis
    proof (rule "2.IH"(1) [OF ne True])
      show "\<not> path_loop es tgt seen queue" using "2.prems"(1) ne True by simp
    qed (use "2.prems"(2-4) True in auto)
  next
    case False
    show ?thesis
    proof (rule "2.IH"(2) [OF ne False])
      show "\<not> path_loop es tgt (current # seen) (queue @ succs es current)"
        using "2.prems"(1) ne False by simp
      fix s j assume "s \<in> set (current # seen)" "(s, j) \<in> edge_rel es"
      then show "j \<in> set (current # seen) \<union> set (queue @ succs es current)"
        using "2.prems"(3) [of s j] by (cases "s = current") (auto simp: set_succs)
    qed (use "2.prems"(2,4) ne in auto)
  qed
qed

subsection \<open>Properties\<close>

lemma validate_nodes_None:
  "(validate_nodes seen ns = None) \<longleftrightarrow>
   list_all (\<lambda>n. \<not> blank (pn_Key n) \<and> \<not> blank (pn_Name n) \<and> \<not> blank (pn_OutputSchema n)) ns
   \<and> distinct (map pn_Key ns) \<and> set (map pn_Key ns) \<inter> set seen = {}"
  by (induction seen ns rule: validate_nodes.induct) auto

lemma validate_edges_None:
  "(check_all (validate_edge ks) es = None) \<longleftrightarrow>
   edge_rel es \<subseteq> set ks \<times> set ks \<and> list_all (\<lambda>e. pe_From e \<noteq> pe_To e) es"
  by (auto simp: validate_edge_def edge_rel_def list_all_iff split: if_splits)

text \<open>
  C18. A plan passes \<^verbatim>\<open>Validate\<close> exactly when its header is filled in, it has between one node
  and the node limit, its node keys are pairwise different and keys, names and output schemas
  are not blank, every edge joins two different known nodes, and the edge relation is acyclic:
  the queue loop of \<^verbatim>\<open>validateAcyclic\<close> is a correct decision procedure for acyclicity.
\<close>

theorem plan_validate_correct:
  "(JobPlanRevision_Validate p = None) \<longleftrightarrow>
     jp_ID p \<noteq> '''' \<and> jp_TenantID p \<noteq> '''' \<and> jp_SOPID p \<noteq> '''' \<and> jp_SOPVersion p \<ge> 1
   \<and> jp_SchemaVersion p = JobPlanSchema \<and> jp_Digest p \<noteq> '''' \<and> jp_GraphVersion p \<ge> 1
   \<and> 1 \<le> length (jp_Nodes p) \<and> int (length (jp_Nodes p)) \<le> rl_MaxNodes (jp_Limits p)
   \<and> distinct (map pn_Key (jp_Nodes p))
   \<and> list_all (\<lambda>n. \<not> blank (pn_Key n) \<and> \<not> blank (pn_Name n) \<and> \<not> blank (pn_OutputSchema n))
       (jp_Nodes p)
   \<and> edge_rel (jp_Edges p) \<subseteq> pn_Key ` set (jp_Nodes p) \<times> pn_Key ` set (jp_Nodes p)
   \<and> list_all (\<lambda>e. pe_From e \<noteq> pe_To e) (jp_Edges p)
   \<and> acyclic (edge_rel (jp_Edges p))"
proof -
  let ?ns = "jp_Nodes p" and ?es = "jp_Edges p"
  have "distinct (map pn_Key ?ns) \<Longrightarrow> edge_rel ?es \<subseteq> pn_Key ` set ?ns \<times> pn_Key ` set ?ns \<Longrightarrow>
    (\<exists>c. validateAcyclic ?ns ?es = Inr c) \<longleftrightarrow> acyclic (edge_rel ?es)"
    by (simp add: validateAcyclic_iff)
  moreover have "1 \<le> length ?ns \<longleftrightarrow> ?ns \<noteq> []" by (cases ?ns) simp_all
  ultimately show ?thesis
    unfolding JobPlanRevision_Validate_def validate_simps validate_nodes_None validate_edges_None
    by (auto simp: not_less)
qed

lemma valid_plan_acyclic: "JobPlanRevision_Validate p = None \<Longrightarrow> acyclic (edge_rel (jp_Edges p))"
  unfolding JobPlanRevision_Validate_def validate_simps validate_nodes_None validate_edges_None
  by (auto simp: validateAcyclic_iff split: if_splits)

lemma valid_plan_edges:
  "JobPlanRevision_Validate p = None \<Longrightarrow>
   edge_rel (jp_Edges p) \<subseteq> pn_Key ` set (jp_Nodes p) \<times> pn_Key ` set (jp_Nodes p)"
  unfolding JobPlanRevision_Validate_def validate_simps validate_edges_None by simp

lemma valid_plan_keys: "JobPlanRevision_Validate p = None \<Longrightarrow> distinct (map pn_Key (jp_Nodes p))"
  unfolding JobPlanRevision_Validate_def validate_simps validate_nodes_None by blast

text \<open>
  C19. \<^verbatim>\<open>planHasPath\<close> terminates on every plan, cyclic ones included, and answers whether the
  target can be reached from the source along the plan's edges.
\<close>

theorem planHasPath_correct:
  "planHasPath plan frm tgt \<longleftrightarrow> (frm, tgt) \<in> (edge_rel (jp_Edges plan))\<^sup>*"
  unfolding planHasPath_def
  using path_loop_sound [of "jp_Edges plan" tgt "[]" "[frm]"]
    path_loop_complete [of "jp_Edges plan" tgt "[]" "[frm]" frm] by (auto simp del: path_loop.simps)

end
