(* ===== verification/Graph_Patch.thy ===== *)
theory Graph_Patch
  imports Plan_Graph
begin

section \<open>Growing a running graph (internal/runtime/graph_patch.go)\<close>

text \<open>
  \<open>graphDepth\<close>, the memoised depth-first computation of the longest dependency chain, and
  \<open>ApplyGraphPatch\<close>, which validates a patch and materialises the next immutable plan revision.

  The recursive closure \<^verbatim>\<open>visit\<close> carries the memo table \<^verbatim>\<open>depth\<close> as explicit state. The set
  \<^verbatim>\<open>visiting\<close> is an argument: the code adds the key on entry and deletes it before every
  successful return, so a call leaves the set as it found it, and an error abandons the whole
  computation.

  \<^verbatim>\<open>idgen.New\<close> and \<^verbatim>\<open>stablehash.Sum\<close> are parameters: the fresh identifier \<open>newID\<close>, and
  \<open>hash\<close>, the digest of the JSON tree of its argument.
\<close>

subsection \<open>Depth of the dependency graph\<close>

fun node_table :: "JobPlanNode list \<Rightarrow> JobPlanNode gomap \<Rightarrow> JobPlanNode gomap" where
  "node_table [] m = m"
| "node_table (n # ns) m = node_table ns (mput (pn_Key n) n m)"

function (sequential)
  depth_visit :: "JobPlanNode gomap \<Rightarrow> string list \<Rightarrow> string \<Rightarrow> int gomap \<Rightarrow> (int \<times> int gomap) res"
and depth_deps ::
    "JobPlanNode gomap \<Rightarrow> string list \<Rightarrow> string list \<Rightarrow> int \<Rightarrow> int gomap \<Rightarrow> (int \<times> int gomap) res"
where
  "depth_visit byKey visiting key depth =
     (case mget depth key of Some v \<Rightarrow> Inr (v, depth) | None \<Rightarrow>
       if key \<in> set visiting then Inl (Invalid ''GRAPH_PATCH_CYCLE'')
       else case mget byKey key of
         None \<Rightarrow> Inl (Invalid ''GRAPH_PATCH_DEPENDENCY_INVALID'')
       | Some node \<Rightarrow>
         (case depth_deps byKey (key # visiting) (pn_DependsOn node) 1 depth of
            Inl e \<Rightarrow> Inl e
          | Inr (v, depth') \<Rightarrow> Inr (v, mput key v depth')))"
| "depth_deps byKey visiting [] v depth = Inr (v, depth)"
| "depth_deps byKey visiting (d # ds) v depth =
     (case depth_visit byKey visiting d depth of
        Inl e \<Rightarrow> Inl e
      | Inr (parent, depth') \<Rightarrow>
          depth_deps byKey visiting ds (if parent + 1 > v then parent + 1 else v) depth')"
  by pat_completeness auto
termination
proof (relation "measures
   [\<lambda>x. case x of Inl (byKey, visiting, _) \<Rightarrow> card (fst ` set byKey - set visiting)
                | Inr (byKey, visiting, _) \<Rightarrow> card (fst ` set byKey - set visiting),
    \<lambda>x. case x of Inl _ \<Rightarrow> 0 | Inr (_, _, ds, _) \<Rightarrow> length ds]", goal_cases)
  case (2 byKey visiting key depth node)
  have "key \<in> fst ` set byKey" using 2 by (force simp: mget_def dest: map_of_SomeD)
  then have "fst ` set byKey - set (key # visiting) \<subset> fst ` set byKey - set visiting"
    using 2 by auto
  then have "card (fst ` set byKey - set (key # visiting)) < card (fst ` set byKey - set visiting)"
    by (simp add: psubset_card_mono)
  then show ?case by simp
qed simp_all

declare depth_visit.simps [simp del]

text \<open>The loop over the table: the greatest depth, or the first fault.\<close>

fun depth_keys :: "JobPlanNode gomap \<Rightarrow> string list \<Rightarrow> int \<Rightarrow> int gomap \<Rightarrow> int res" where
  "depth_keys byKey [] mx depth = Inr mx"
| "depth_keys byKey (k # ks) mx depth =
     (case depth_visit byKey [] k depth of
        Inl e \<Rightarrow> Inl e
      | Inr (v, depth') \<Rightarrow> depth_keys byKey ks (if v > mx then v else mx) depth')"

definition graphDepth :: "JobPlanNode list \<Rightarrow> int res" where
  "graphDepth nodes =
     (let byKey = node_table nodes [] in depth_keys byKey (map fst byKey) 0 [])"

subsection \<open>Patches\<close>

record GraphPatch =
  gp_ExpectedGraphVersion :: int
  gp_IdempotencyKey :: string
  gp_Reason :: string
  gp_AddNodes :: "JobPlanNode list"
  gp_AddEdges :: "JobPlanEdge list"
  gp_CancelPendingNodeKeys :: "string list"

record GraphPatchResult =
  gr_Plan :: JobPlanRevision
  gr_GraphVersion :: int
  gr_CancelPendingNodeKeys :: "string list"

definition normalizeKeys :: "string list \<Rightarrow> string list" where
  "normalizeKeys values = sort (trim_unique [] values)"

definition edge_key :: "string \<Rightarrow> string \<Rightarrow> string" where
  "edge_key frm tgt = frm @ [CHR 0x00] @ tgt"

definition mhas :: "'v gomap \<Rightarrow> string \<Rightarrow> bool" where
  "mhas m k = (mget m k \<noteq> None)"

fun patch_nodes ::
    "JobPlanNode gomap \<Rightarrow> JobPlanNode gomap \<Rightarrow> JobPlanNode list \<Rightarrow> JobPlanNode gomap res" where
  "patch_nodes existing added [] = Inr added"
| "patch_nodes existing added (n # ns) =
     (if blank (pn_Key n) \<or> blank (pn_Name n) \<or> blank (pn_OutputSchema n) \<or> pn_Kind n = ''''
      then Inl (Invalid ''GRAPH_PATCH_NODE_INVALID'')
      else if mhas existing (pn_Key n) then Inl (Conflict ''GRAPH_PATCH_NODE_EXISTS'')
      else if mhas added (pn_Key n) then Inl (Conflict ''GRAPH_PATCH_NODE_EXISTS'')
      else patch_nodes existing
             (mput (pn_Key n) (n\<lparr>pn_DependsOn := normalizeKeys (pn_DependsOn n)\<rparr>) added) ns)"

text \<open>The loop over \<^verbatim>\<open>added\<close> that records the new edge in the dependencies of its target.\<close>

definition add_dependency :: "JobPlanEdge \<Rightarrow> JobPlanNode gomap \<Rightarrow> JobPlanNode gomap" where
  "add_dependency e added =
     map (\<lambda>(key, node).
       (key, if key = pe_To e \<and> pe_From e \<notin> set (pn_DependsOn node)
             then node\<lparr>pn_DependsOn := normalizeKeys (pn_DependsOn node @ [pe_From e])\<rparr>
             else node)) added"

fun patch_edges ::
    "(string \<Rightarrow> bool) \<Rightarrow> JobPlanNode gomap \<Rightarrow> string list \<Rightarrow> JobPlanEdge list \<Rightarrow> JobPlanEdge list
     \<Rightarrow> (JobPlanNode gomap \<times> string list \<times> JobPlanEdge list) res" where
  "patch_edges known added seenEdges edges [] = Inr (added, seenEdges, edges)"
| "patch_edges known added seenEdges edges (e # es) =
     (if pe_From e = pe_To e \<or> \<not> known (pe_From e) \<or> \<not> known (pe_To e) \<or> \<not> mhas added (pe_To e)
      then Inl (Invalid ''GRAPH_PATCH_EDGE_INVALID'')
      else if edge_key (pe_From e) (pe_To e) \<in> set seenEdges
      then Inl (Conflict ''GRAPH_PATCH_EDGE_EXISTS'')
      else patch_edges known (add_dependency e added)
             (edge_key (pe_From e) (pe_To e) # seenEdges) (edges @ [e]) es)"

fun dependency_edges ::
    "(string \<Rightarrow> bool) \<Rightarrow> string \<Rightarrow> string list \<Rightarrow> JobPlanEdge list \<Rightarrow> string list
     \<Rightarrow> (string list \<times> JobPlanEdge list) res" where
  "dependency_edges known key seenEdges edges [] = Inr (seenEdges, edges)"
| "dependency_edges known key seenEdges edges (d # ds) =
     (if \<not> known d then Inl (Invalid ''GRAPH_PATCH_DEPENDENCY_INVALID'')
      else if edge_key d key \<in> set seenEdges then dependency_edges known key seenEdges edges ds
      else dependency_edges known key (edge_key d key # seenEdges)
             (edges @ [\<lparr>pe_From = d, pe_To = key\<rparr>]) ds)"

fun all_dependency_edges ::
    "(string \<Rightarrow> bool) \<Rightarrow> string list \<Rightarrow> JobPlanEdge list \<Rightarrow> JobPlanNode gomap
     \<Rightarrow> JobPlanEdge list res" where
  "all_dependency_edges known seenEdges edges [] = Inr edges"
| "all_dependency_edges known seenEdges edges ((key, node) # rest) =
     (case dependency_edges known key seenEdges edges (pn_DependsOn node) of
        Inl e \<Rightarrow> Inl e
      | Inr (seen', edges') \<Rightarrow> all_dependency_edges known seen' edges' rest)"

definition node_less :: "JobPlanNode \<Rightarrow> JobPlanNode \<Rightarrow> bool" where
  "node_less a b = (pn_Key a < pn_Key b)"

definition edge_less :: "JobPlanEdge \<Rightarrow> JobPlanEdge \<Rightarrow> bool" where
  "edge_less a b = (if pe_From a = pe_From b then pe_To a < pe_To b else pe_From a < pe_From b)"

definition omit_empty :: "string \<Rightarrow> string \<Rightarrow> payload" where
  "omit_empty name v = (if v = '''' then [] else [(name, AStr v)])"

definition json_node :: "JobPlanNode \<Rightarrow> goany" where
  "json_node n = AObj (
     [(''key'', AStr (pn_Key n)), (''kind'', AStr (pn_Kind n))]
     @ omit_empty ''stage_id'' (pn_StageID n) @ omit_empty ''gate_id'' (pn_GateID n)
     @ [(''name'', AStr (pn_Name n)), (''depends_on'', AStrs (pn_DependsOn n)),
        (''input_refs'', AStrs (pn_InputRefs n)), (''output_schema'', AStr (pn_OutputSchema n)),
        (''required_capabilities'', AStrs (pn_RequiredCapabilities n)),
        (''execution_modes'', AStrs (pn_ExecutionModes n))]
     @ omit_empty ''customer_step_id'' (pn_CustomerStepID n)
     @ [(''side_effect_class'', AStr (pn_SideEffectClass n)),
        (''retry_max_attempts'', AInt (pn_RetryMaxAttempts n))])"

definition json_edge :: "JobPlanEdge \<Rightarrow> goany" where
  "json_edge e = AObj [(''from'', AStr (pe_From e)), (''to'', AStr (pe_To e))]"

definition patch_digest ::
    "(goany \<Rightarrow> string) \<Rightarrow> JobPlanRevision \<Rightarrow> GraphPatch \<Rightarrow> JobPlanNode list \<Rightarrow> JobPlanEdge list
     \<Rightarrow> string" where
  "patch_digest hash plan patch nodes edges =
     ''sha256:'' @ hash (AObj
       [(''BaseDigest'', AStr (jp_Digest plan)), (''Reason'', AStr (TrimSpace (gp_Reason patch))),
        (''Key'', AStr (TrimSpace (gp_IdempotencyKey patch))),
        (''Nodes'', AArr (map json_node nodes)), (''Edges'', AArr (map json_edge edges))])"

definition patch_candidate ::
    "string \<Rightarrow> JobPlanRevision \<Rightarrow> int \<Rightarrow> GraphPatch \<Rightarrow> JobPlanNode list \<Rightarrow> JobPlanEdge list
     \<Rightarrow> JobPlanRevision" where
  "patch_candidate newID plan cur patch nodes edges =
     plan\<lparr>jp_ID := newID, jp_BaseRevisionID := jp_ID plan, jp_GraphVersion := cur + 1,
          jp_PatchKey := TrimSpace (gp_IdempotencyKey patch),
          jp_PatchReason := TrimSpace (gp_Reason patch), jp_Nodes := nodes, jp_Edges := edges,
          jp_CompiledBy := ''runtime.graph_patch'', jp_Digest := jp_Digest plan\<rparr>"

definition ApplyGraphPatch ::
    "string \<Rightarrow> (goany \<Rightarrow> string) \<Rightarrow> JobPlanRevision \<Rightarrow> int \<Rightarrow> GraphPatch \<Rightarrow> GraphPatchResult res" where
  "ApplyGraphPatch newID hash plan cur patch =
     require (\<not> (cur < 1 \<or> gp_ExpectedGraphVersion patch \<noteq> cur)) (Conflict ''GRAPH_VERSION_CONFLICT'') (
     require (\<not> (blank (gp_IdempotencyKey patch) \<or> blank (gp_Reason patch)))
       (Invalid ''GRAPH_PATCH_INVALID'') (
     let existing = node_table (jp_Nodes plan) [] in
     bind_res (patch_nodes existing [] (gp_AddNodes patch)) (\<lambda>added0.
     require (\<not> (rl_MaxDynamicDescendants (jp_Limits plan) > 0
                 \<and> int (length added0) > rl_MaxDynamicDescendants (jp_Limits plan)))
       (Invalid ''GRAPH_PATCH_DESCENDANT_LIMIT'') (
     let known = (\<lambda>k. mhas existing k \<or> mhas added0 k);
         seen0 = map (\<lambda>e. edge_key (pe_From e) (pe_To e)) (jp_Edges plan) in
     bind_res (patch_edges known added0 seen0 (jp_Edges plan) (gp_AddEdges patch))
       (\<lambda>(added, seen, edges1).
     bind_res (all_dependency_edges known seen edges1 added) (\<lambda>edges2.
     let nodes = sort_by node_less (jp_Nodes plan @ mvals added);
         edges = sort_by edge_less edges2;
         candidate = patch_candidate newID plan cur patch nodes edges in
     check_nil (JobPlanRevision_Validate candidate) (
     bind_res (graphDepth nodes) (\<lambda>depth.
     require (\<not> (rl_MaxDepth (jp_Limits candidate) > 0 \<and> depth > rl_MaxDepth (jp_Limits candidate)))
       (Invalid ''GRAPH_PATCH_DEPTH_LIMIT'') (
     let cancel = normalizeKeys (gp_CancelPendingNodeKeys patch) in
     require (list_all (mhas existing) cancel) (Invalid ''GRAPH_PATCH_CANCEL_INVALID'') (
     Inr \<lparr>gr_Plan = candidate\<lparr>jp_Digest := patch_digest hash plan patch nodes edges\<rparr>,
          gr_GraphVersion = cur + 1, gr_CancelPendingNodeKeys = cancel\<rparr>))))))))))"

subsection \<open>A small plan\<close>

text \<open>Two stages in sequence, and a patch that appends a third one after them.\<close>

definition ex_node :: "string \<Rightarrow> string list \<Rightarrow> JobPlanNode" where
  "ex_node key deps =
     \<lparr>pn_Key = key, pn_Kind = ''stage'', pn_StageID = key, pn_GateID = '''', pn_Name = key,
      pn_DependsOn = deps, pn_InputRefs = [], pn_OutputSchema = ''s/1'',
      pn_RequiredCapabilities = [], pn_ExecutionModes = [], pn_CustomerStepID = '''',
      pn_SideEffectClass = '''', pn_RetryMaxAttempts = 1\<rparr>"

definition ex_plan :: JobPlanRevision where
  "ex_plan =
     \<lparr>jp_ID = ''p1'', jp_TenantID = ''t'', jp_BaseRevisionID = '''', jp_GraphVersion = 1,
      jp_PatchKey = '''', jp_PatchReason = '''', jp_SOPID = ''sop'', jp_SOPVersion = 1,
      jp_SOPDigest = ''d'', jp_SchemaVersion = JobPlanSchema, jp_Digest = ''d'',
      jp_Nodes = [ex_node ''a'' [], ex_node ''b'' [''a'']],
      jp_Edges = [\<lparr>pe_From = ''a'', pe_To = ''b''\<rparr>], jp_CustomerSteps = [],
      jp_Limits = DefaultRuntimeLimits, jp_CompiledAt = 1, jp_CompiledBy = ''c''\<rparr>"

definition ex_patch :: GraphPatch where
  "ex_patch =
     \<lparr>gp_ExpectedGraphVersion = 1, gp_IdempotencyKey = ''k'', gp_Reason = ''more'',
      gp_AddNodes = [ex_node ''c'' [''b'']], gp_AddEdges = [], gp_CancelPendingNodeKeys = [''b'']\<rparr>"

subsection \<open>The depth is the length of the longest dependency chain\<close>

definition dep_rel :: "JobPlanNode gomap \<Rightarrow> (string \<times> string) set" where
  "dep_rel m = {(d, k). \<exists>n. mget m k = Some n \<and> d \<in> set (pn_DependsOn n)}"

fun dep_chain :: "JobPlanNode gomap \<Rightarrow> string list \<Rightarrow> bool" where
  "dep_chain m [] = True"
| "dep_chain m [k] = (mget m k \<noteq> None)"
| "dep_chain m (k # d # r) = ((d, k) \<in> dep_rel m \<and> dep_chain m (d # r))"

text \<open>
  A settled key: \<open>v\<close> is the length of the longest chain of dependencies that starts at it, and
  everything it depends on is a known node.
\<close>

definition settled :: "JobPlanNode gomap \<Rightarrow> string \<Rightarrow> int \<Rightarrow> bool" where
  "settled m k v =
     ((\<exists>c. dep_chain m (k # c) \<and> int (length (k # c)) = v)
      \<and> (\<forall>c. dep_chain m (k # c) \<longrightarrow> int (length (k # c)) \<le> v)
      \<and> (\<forall>d. (d, k) \<in> dep_rel m \<longrightarrow> mget m d \<noteq> None))"

definition memo_ok :: "JobPlanNode gomap \<Rightarrow> int gomap \<Rightarrow> bool" where
  "memo_ok m depth = (\<forall>k v. mget depth k = Some v \<longrightarrow> settled m k v)"

lemma dep_chain_known: "dep_chain m (k # c) \<Longrightarrow> mget m k \<noteq> None"
  by (cases c) (auto simp: dep_rel_def)

lemma settled_known: "settled m k v \<Longrightarrow> mget m k \<noteq> None"
  unfolding settled_def using dep_chain_known by blast

lemma settled_step:
  assumes "mget m k = Some n" and low: "1 \<le> w"
    and deps: "\<And>d. d \<in> set (pn_DependsOn n) \<Longrightarrow> \<exists>u. settled m d u \<and> u + 1 \<le> w"
    and tight: "w = 1 \<or> (\<exists>d \<in> set (pn_DependsOn n). settled m d (w - 1))"
  shows "settled m k w"
proof -
  have rel: "(d, k) \<in> dep_rel m \<longleftrightarrow> d \<in> set (pn_DependsOn n)" for d
    using assms(1) by (simp add: dep_rel_def)
  have "int (length (k # c)) \<le> w" if c: "dep_chain m (k # c)" for c
  proof (cases c)
    case (Cons d r)
    with c have "d \<in> set (pn_DependsOn n)" "dep_chain m (d # r)" by (simp_all add: rel)
    with deps obtain u where "settled m d u" "u + 1 \<le> w" by blast
    then have "int (length (d # r)) \<le> u" using \<open>dep_chain m (d # r)\<close> unfolding settled_def by blast
    with \<open>u + 1 \<le> w\<close> show ?thesis by (simp add: Cons)
  qed (use low in simp)
  moreover have "\<exists>c. dep_chain m (k # c) \<and> int (length (k # c)) = w"
    using tight
  proof
    assume "w = 1"
    then have "dep_chain m [k] \<and> int (length [k]) = w" using assms(1) by simp
    then show ?thesis by blast
  next
    assume "\<exists>d \<in> set (pn_DependsOn n). settled m d (w - 1)"
    then obtain d c where "d \<in> set (pn_DependsOn n)" "dep_chain m (d # c)" "int (length (d # c)) = w - 1"
      unfolding settled_def by blast
    then have "dep_chain m (k # d # c) \<and> int (length (k # d # c)) = w" by (simp add: rel)
    then show ?thesis by blast
  qed
  moreover have "(d, k) \<in> dep_rel m \<Longrightarrow> mget m d \<noteq> None" for d
    using deps [of d] settled_known by (auto simp: rel)
  ultimately show ?thesis unfolding settled_def by blast
qed

lemma memo_ok_mput: "memo_ok m depth \<Longrightarrow> settled m k v \<Longrightarrow> memo_ok m (mput k v depth)"
  by (simp add: memo_ok_def)

lemma depth_correct:
  "memo_ok m depth \<Longrightarrow> depth_visit m visiting key depth = Inr (w, depth') \<Longrightarrow>
     memo_ok m depth' \<and> settled m key w"
  "memo_ok m depth2 \<Longrightarrow> depth_deps m visiting2 ds v depth2 = Inr (w2, depth2') \<Longrightarrow>
     memo_ok m depth2' \<and> v \<le> w2 \<and> (\<forall>d \<in> set ds. \<exists>u. settled m d u \<and> u + 1 \<le> w2)
     \<and> (w2 = v \<or> (\<exists>d \<in> set ds. settled m d (w2 - 1)))"
proof (induction m visiting key depth and m visiting2 ds v depth2
    arbitrary: w depth' and w2 depth2' rule: depth_visit_depth_deps.induct)
  case (1 m visiting key depth)
  show ?case
  proof (cases "mget depth key")
    case (Some v)
    then show ?thesis using "1.prems" by (auto simp: depth_visit.simps memo_ok_def)
  next
    case None
    then obtain n where n: "mget m key = Some n" and new: "key \<notin> set visiting"
      using "1.prems"(2) by (auto simp: depth_visit.simps split: if_splits option.splits)
    obtain d' where run: "depth_deps m (key # visiting) (pn_DependsOn n) 1 depth = Inr (w, d')"
      and out: "depth' = mput key w d'"
      using "1.prems"(2) None n new by (auto simp: depth_visit.simps split: sum.splits)
    note ih = "1.IH" [OF None new n "1.prems"(1) run]
    have "settled m key w" by (rule settled_step [OF n]) (use ih in auto)
    then show ?thesis using ih out by (simp add: memo_ok_mput)
  qed
next
  case (2 m visiting2 v depth2)
  then show ?case by simp
next
  case (3 m visiting2 d ds v depth2)
  obtain p d' where v1: "depth_visit m visiting2 d depth2 = Inr (p, d')"
    and v2: "depth_deps m visiting2 ds (if p + 1 > v then p + 1 else v) d' = Inr (w2, depth2')"
    using "3.prems"(2) by (auto split: sum.splits)
  have a: "memo_ok m d'" "settled m d p" using "3.IH"(1) [OF "3.prems"(1) v1] by simp_all
  note b = "3.IH"(2) [OF v1 refl a(1) v2]
  have le: "v \<le> w2" "p + 1 \<le> w2" using b by (simp_all split: if_splits)
  have "w2 = v \<or> (\<exists>x \<in> set (d # ds). settled m x (w2 - 1))"
    using b a(2) by (auto split: if_splits)
  moreover have "\<forall>x \<in> set (d # ds). \<exists>u. settled m x u \<and> u + 1 \<le> w2"
    using b a(2) le(2) by auto
  ultimately show ?case using b le(1) by blast
qed

text \<open>On an acyclic graph with known dependencies the search always returns a depth.\<close>

lemma depth_total:
  "acyclic (dep_rel m) \<Longrightarrow> (\<And>d k. (d, k) \<in> dep_rel m \<Longrightarrow> mget m d \<noteq> None) \<Longrightarrow>
     mget m key \<noteq> None \<Longrightarrow> (\<And>u. u \<in> set visiting \<Longrightarrow> (key, u) \<in> (dep_rel m)\<^sup>+) \<Longrightarrow>
     \<exists>r. depth_visit m visiting key depth = Inr r"
  "acyclic (dep_rel m) \<Longrightarrow> (\<And>d k. (d, k) \<in> dep_rel m \<Longrightarrow> mget m d \<noteq> None) \<Longrightarrow>
     (\<And>d. d \<in> set ds \<Longrightarrow> mget m d \<noteq> None) \<Longrightarrow>
     (\<And>d u. d \<in> set ds \<Longrightarrow> u \<in> set visiting2 \<Longrightarrow> (d, u) \<in> (dep_rel m)\<^sup>+) \<Longrightarrow>
     \<exists>r. depth_deps m visiting2 ds v depth2 = Inr r"
proof (induction m visiting key depth and m visiting2 ds v depth2
    rule: depth_visit_depth_deps.induct)
  case (1 m visiting key depth)
  show ?case
  proof (cases "mget depth key")
    case None
    obtain n where n: "mget m key = Some n" using "1.prems"(3) by blast
    have new: "key \<notin> set visiting" using "1.prems"(1,4) by (auto simp: acyclic_def)
    have rel: "d \<in> set (pn_DependsOn n) \<Longrightarrow> (d, key) \<in> dep_rel m" for d
      using n by (simp add: dep_rel_def)
    have "\<exists>r. depth_deps m (key # visiting) (pn_DependsOn n) 1 depth = Inr r"
    proof (rule "1.IH" [OF None new n "1.prems"(1,2)])
      fix d u assume "d \<in> set (pn_DependsOn n)" "u \<in> set (key # visiting)"
      then show "(d, u) \<in> (dep_rel m)\<^sup>+"
        using rel [of d] "1.prems"(4) [of u] by (auto intro: trancl_into_trancl2)
    qed (use rel "1.prems"(2) in blast)+
    then show ?thesis using None n new by (auto simp: depth_visit.simps)
  qed (simp add: depth_visit.simps)
next
  case (3 m visiting2 d ds v depth2)
  have "\<exists>r. depth_visit m visiting2 d depth2 = Inr r"
    by (rule "3.IH"(1)) (use "3.prems" in auto)
  then obtain p d' where run: "depth_visit m visiting2 d depth2 = Inr (p, d')" by auto
  have "\<exists>r. depth_deps m visiting2 ds (if p + 1 > v then p + 1 else v) d' = Inr r"
    by (rule "3.IH"(2) [OF run refl]) (use "3.prems" in auto)
  then show ?case by (simp add: run)
qed simp

lemma longer_chain:
  "(a, b) \<in> (dep_rel m)\<^sup>+ \<Longrightarrow> dep_chain m (a # c) \<Longrightarrow> \<exists>c'. dep_chain m (b # c') \<and> length c < length c'"
proof (induction rule: trancl_induct)
  case (base y)
  then have "dep_chain m (y # a # c) \<and> length c < length (a # c)" by simp
  then show ?case by blast
next
  case (step y z)
  then obtain c' where "dep_chain m (y # c')" "length c < length c'" by blast
  then have "dep_chain m (z # y # c') \<and> length c < length (y # c')" using step.hyps(2) by simp
  then show ?case by blast
qed

lemma settled_acyclic: "settled m k v \<Longrightarrow> (k, k) \<notin> (dep_rel m)\<^sup>+"
  unfolding settled_def using longer_chain [of k k m] by fastforce

lemma depth_keys_correct:
  "memo_ok m depth \<Longrightarrow> depth_keys m ks mx depth = Inr d \<Longrightarrow>
   mx \<le> d \<and> (\<forall>k \<in> set ks. \<exists>v. settled m k v \<and> v \<le> d) \<and> (d = mx \<or> (\<exists>k \<in> set ks. settled m k d))"
proof (induction ks arbitrary: mx depth)
  case (Cons k ks)
  obtain v d' where run: "depth_visit m [] k depth = Inr (v, d')"
    and rest: "depth_keys m ks (if v > mx then v else mx) d' = Inr d"
    using Cons.prems(2) by (auto split: sum.splits)
  have "memo_ok m d'" "settled m k v" using depth_correct(1) [OF Cons.prems(1) run] by simp_all
  with Cons.IH [OF _ rest] show ?case by (auto split: if_splits)
qed simp

lemma depth_keys_total:
  "acyclic (dep_rel m) \<Longrightarrow> (\<And>d k. (d, k) \<in> dep_rel m \<Longrightarrow> mget m d \<noteq> None) \<Longrightarrow>
   (\<And>k. k \<in> set ks \<Longrightarrow> mget m k \<noteq> None) \<Longrightarrow> \<exists>d. depth_keys m ks mx depth = Inr d"
proof (induction ks arbitrary: mx depth)
  case (Cons k ks)
  have "\<exists>r. depth_visit m [] k depth = Inr r" by (rule depth_total(1)) (use Cons.prems in auto)
  then show ?case using Cons by auto
qed simp

lemma mget_keys: "(mget m k \<noteq> None) = (k \<in> set (map fst m))"
  unfolding mget_def by (simp add: map_of_eq_None_iff del: not_None_eq)

lemma graphDepth_settled:
  assumes "graphDepth nodes = Inr d" and m: "m = node_table nodes []"
  shows "mget m k \<noteq> None \<Longrightarrow> \<exists>v. settled m k v \<and> v \<le> d"
    and "d = 0 \<or> (\<exists>k. mget m k \<noteq> None \<and> settled m k d)"
proof -
  have "memo_ok m []" by (simp add: memo_ok_def)
  moreover have "depth_keys m (map fst m) 0 [] = Inr d"
    using assms by (simp add: graphDepth_def Let_def)
  ultimately have *: "(\<forall>k \<in> set (map fst m). \<exists>v. settled m k v \<and> v \<le> d)
      \<and> (d = 0 \<or> (\<exists>k \<in> set (map fst m). settled m k d))"
    using depth_keys_correct by blast
  show "mget m k \<noteq> None \<Longrightarrow> \<exists>v. settled m k v \<and> v \<le> d" using * unfolding mget_keys by blast
  show "d = 0 \<or> (\<exists>k. mget m k \<noteq> None \<and> settled m k d)" using * unfolding mget_keys by blast
qed

lemma graphDepth_total_iff:
  assumes m: "m = node_table nodes []"
  shows "(\<exists>d. graphDepth nodes = Inr d) \<longleftrightarrow>
    acyclic (dep_rel m) \<and> Domain (dep_rel m) \<subseteq> set (map fst m)"
proof
  assume "\<exists>d. graphDepth nodes = Inr d"
  then obtain d where d: "graphDepth nodes = Inr d" by blast
  note set = graphDepth_settled(1) [OF d m]
  have known: "(x, k) \<in> dep_rel m \<Longrightarrow> mget m k \<noteq> None" for x k by (auto simp: dep_rel_def)
  have "acyclic (dep_rel m)"
    unfolding acyclic_def using set settled_acyclic known by (metis tranclD2)
  moreover have "(x, k) \<in> dep_rel m \<Longrightarrow> mget m x \<noteq> None" for x k
    using set [OF known] unfolding settled_def by blast
  ultimately show "acyclic (dep_rel m) \<and> Domain (dep_rel m) \<subseteq> set (map fst m)"
    unfolding mget_keys by blast
next
  assume a: "acyclic (dep_rel m) \<and> Domain (dep_rel m) \<subseteq> set (map fst m)"
  have known: "\<And>x k. (x, k) \<in> dep_rel m \<Longrightarrow> mget m x \<noteq> None"
    unfolding mget_keys using a by blast
  have "\<And>k. k \<in> set (map fst m) \<Longrightarrow> mget m k \<noteq> None" unfolding mget_keys .
  with a known have "\<exists>d. depth_keys m (map fst m) 0 [] = Inr d"
    by (intro depth_keys_total) blast+
  then show "\<exists>d. graphDepth nodes = Inr d" by (simp add: graphDepth_def Let_def m)
qed

subsection \<open>What a patch does to the graph\<close>

lemma mhas_mput [simp]: "mhas (mput k v m) j = (j = k \<or> mhas m j)"
  by (simp add: mhas_def)

lemma mhas_Nil [simp]: "\<not> mhas [] k"
  by (simp add: mhas_def)

lemma mhas_fst: "mhas m k = (k \<in> fst ` set m)"
  unfolding mhas_def mget_keys by simp

lemma mhas_node_table: "mhas (node_table ns m) k = (k \<in> pn_Key ` set ns \<or> mhas m k)"
  by (induction ns arbitrary: m) auto

lemma mget_node_table:
  "distinct (map pn_Key ns) \<Longrightarrow> n \<in> set ns \<Longrightarrow> mget (node_table ns m) (pn_Key n) = Some n"
proof (induction ns arbitrary: m)
  case (Cons a ns)
  have frame: "k \<notin> pn_Key ` set ns \<Longrightarrow> mget (node_table ns m) k = mget m k" for ns m k
    by (induction ns arbitrary: m) auto
  show ?case
    using Cons frame [of "pn_Key a" ns] by (cases "n = a") auto
qed simp

text \<open>The table of added nodes: every entry is stored under its own key.\<close>

definition keyed_nodes :: "JobPlanNode gomap \<Rightarrow> bool" where
  "keyed_nodes m = (wf_map m \<and> list_all (\<lambda>(k, n). pn_Key n = k) m)"

lemma keyed_nodes_mput: "keyed_nodes m \<Longrightarrow> pn_Key n = k \<Longrightarrow> keyed_nodes (mput k n m)"
proof -
  have "list_all (\<lambda>(k, n). pn_Key n = k) m \<Longrightarrow> pn_Key n = k \<Longrightarrow>
        list_all (\<lambda>(k, n). pn_Key n = k) (mput k n m)"
    by (induction m) (auto simp: mput_def)
  then show "keyed_nodes m \<Longrightarrow> pn_Key n = k \<Longrightarrow> keyed_nodes (mput k n m)"
    by (simp add: keyed_nodes_def)
qed

lemma keyed_keys: "keyed_nodes m \<Longrightarrow> pn_Key ` set (mvals m) = fst ` set m"
proof -
  assume "keyed_nodes m"
  then have "\<And>p. p \<in> set m \<Longrightarrow> pn_Key (snd p) = fst p" by (auto simp: keyed_nodes_def list_all_iff)
  then show ?thesis by (simp add: mvals_def image_image cong: image_cong)
qed

lemma keyed_mem: "keyed_nodes m \<Longrightarrow> n \<in> set (mvals m) \<Longrightarrow> (pn_Key n, n) \<in> set m"
  by (auto simp: keyed_nodes_def mvals_def list_all_iff)

lemma patch_nodes_correct:
  "patch_nodes ex added ns = Inr added' \<Longrightarrow> keyed_nodes added \<Longrightarrow> (\<And>k. mhas added k \<Longrightarrow> \<not> mhas ex k) \<Longrightarrow>
   keyed_nodes added' \<and> (\<forall>k. mhas added' k = (mhas added k \<or> k \<in> pn_Key ` set ns))
   \<and> (\<forall>k. mhas added' k \<longrightarrow> \<not> mhas ex k)"
proof (induction ex added ns rule: patch_nodes.induct)
  case (2 ex added n ns)
  let ?n = "n\<lparr>pn_DependsOn := normalizeKeys (pn_DependsOn n)\<rparr>"
  have guards: "\<not> (blank (pn_Key n) \<or> blank (pn_Name n) \<or> blank (pn_OutputSchema n) \<or> pn_Kind n = '''')"
    "\<not> mhas ex (pn_Key n)" "\<not> mhas added (pn_Key n)"
    and run: "patch_nodes ex (mput (pn_Key n) ?n added) ns = Inr added'"
    using "2.prems"(1) by (auto split: if_splits)
  have "keyed_nodes (mput (pn_Key n) ?n added)" using "2.prems"(2) by (intro keyed_nodes_mput) simp_all
  from "2.IH" [OF guards run this] show ?case
    using "2.prems"(3) guards(2) by auto
qed auto

lemma add_dependency_keys [simp]:
  "map fst (add_dependency e m) = map fst m"
  "map (pn_Key \<circ> snd) (add_dependency e m) = map (pn_Key \<circ> snd) m"
  by (auto simp: add_dependency_def)

lemma mhas_add_dependency [simp]: "mhas (add_dependency e m) k = mhas m k"
  unfolding mhas_def mget_keys by simp

lemma keyed_add_dependency: "keyed_nodes m \<Longrightarrow> keyed_nodes (add_dependency e m)"
  unfolding keyed_nodes_def wf_map_def add_dependency_keys by (auto simp: add_dependency_def list_all_iff)

lemma patch_edges_correct:
  "patch_edges known added seen edges es = Inr (added', seen', edges') \<Longrightarrow> keyed_nodes added \<Longrightarrow>
   keyed_nodes added' \<and> map fst added' = map fst added \<and> edges' = edges @ es
   \<and> (\<forall>e \<in> set es. mhas added (pe_To e)) \<and> set seen \<subseteq> set seen'"
  by (induction known added seen edges es arbitrary: added' seen' edges' rule: patch_edges.induct)
     (auto split: if_splits simp: keyed_add_dependency)

lemma dependency_edges_correct:
  "dependency_edges known key seen edges ds = Inr (seen', edges') \<Longrightarrow>
   \<exists>new. edges' = edges @ new \<and> (\<forall>e \<in> set new. pe_To e = key)"
proof (induction known key seen edges ds rule: dependency_edges.induct)
  case (2 known key seen edges d ds)
  show ?case
  proof (cases "edge_key d key \<in> set seen")
    case True
    then show ?thesis using 2 by (auto split: if_splits)
  next
    case False
    obtain new where "edges' = (edges @ [\<lparr>pe_From = d, pe_To = key\<rparr>]) @ new" "\<forall>e \<in> set new. pe_To e = key"
      using 2 False by (auto split: if_splits)
    then show ?thesis by (intro exI [of _ "\<lparr>pe_From = d, pe_To = key\<rparr> # new"]) simp
  qed
qed simp

lemma all_dependency_edges_correct:
  "all_dependency_edges known seen edges added = Inr edges' \<Longrightarrow>
   \<exists>new. edges' = edges @ new \<and> (\<forall>e \<in> set new. pe_To e \<in> fst ` set added)"
proof (induction known seen edges added rule: all_dependency_edges.induct)
  case (2 known seen edges key node rest)
  obtain s e1 where d: "dependency_edges known key seen edges (pn_DependsOn node) = Inr (s, e1)"
    and r: "all_dependency_edges known s e1 rest = Inr edges'"
    using "2.prems" by (auto split: sum.splits)
  obtain n1 where n1: "e1 = edges @ n1" "\<forall>e \<in> set n1. pe_To e = key"
    using dependency_edges_correct [OF d] by blast
  obtain n2 where "edges' = e1 @ n2" "\<forall>e \<in> set n2. pe_To e \<in> fst ` set rest"
    using "2.IH" [OF d refl r] by blast
  with n1 show ?case by (intro exI [of _ "n1 @ n2"]) auto
qed simp

text \<open>The keys of the edges seen so far stay in step with the edges themselves.\<close>

definition edge_keys :: "JobPlanEdge list \<Rightarrow> string set" where
  "edge_keys es = (\<lambda>e. edge_key (pe_From e) (pe_To e)) ` set es"

lemma edge_keys_simps [simp]:
  "edge_keys [] = {}" "edge_keys (xs @ ys) = edge_keys xs \<union> edge_keys ys"
  "edge_keys (e # es) = insert (edge_key (pe_From e) (pe_To e)) (edge_keys es)"
  by (auto simp: edge_keys_def)

lemma patch_edges_seen:
  "patch_edges known added seen edges es = Inr (added', seen', edges') \<Longrightarrow>
   set seen = edge_keys edges \<Longrightarrow> set seen' = edge_keys edges'"
  by (induction known added seen edges es arbitrary: added' seen' edges' rule: patch_edges.induct)
     (auto split: if_splits)

lemma dependency_edges_seen:
  "dependency_edges known key seen edges ds = Inr (seen', edges') \<Longrightarrow> set seen = edge_keys edges \<Longrightarrow>
   set seen' = edge_keys edges' \<and> (\<forall>d \<in> set ds. edge_key d key \<in> set seen') \<and> set seen \<subseteq> set seen'"
  by (induction known key seen edges ds arbitrary: seen' edges' rule: dependency_edges.induct)
     (auto split: if_splits)

lemma all_dependency_edges_seen:
  "all_dependency_edges known seen edges added = Inr edges' \<Longrightarrow> set seen = edge_keys edges \<Longrightarrow>
   edge_keys edges \<subseteq> edge_keys edges'
   \<and> (\<forall>(k, n) \<in> set added. \<forall>d \<in> set (pn_DependsOn n). edge_key d k \<in> edge_keys edges')"
proof (induction known seen edges added rule: all_dependency_edges.induct)
  case (2 known seen edges key node rest)
  obtain s e1 where d: "dependency_edges known key seen edges (pn_DependsOn node) = Inr (s, e1)"
    and r: "all_dependency_edges known s e1 rest = Inr edges'"
    using "2.prems" by (auto split: sum.splits)
  note d' = dependency_edges_seen [OF d "2.prems"(2)]
  have s: "set s = edge_keys e1" using d' by blast
  note r' = "2.IH" [OF d refl r s]
  show ?case using d' r' "2.prems"(2) by auto
qed simp

lemma edge_key_inj:
  "CHR 0x00 \<notin> set f \<Longrightarrow> CHR 0x00 \<notin> set f' \<Longrightarrow> edge_key f t = edge_key f' t' \<Longrightarrow> f = f' \<and> t = t'"
proof (induction f arbitrary: f')
  case Nil
  then show ?case by (cases f') (auto simp: edge_key_def)
next
  case (Cons c f)
  then show ?case by (cases f') (auto simp: edge_key_def)
qed

lemma edge_keys_rel:
  assumes "edge_key d k \<in> edge_keys es" and "CHR 0x00 \<notin> set d"
    and "\<And>f t. (f, t) \<in> edge_rel es \<Longrightarrow> CHR 0x00 \<notin> set f"
  shows "(d, k) \<in> edge_rel es"
proof -
  obtain e where e: "e \<in> set es" "edge_key d k = edge_key (pe_From e) (pe_To e)"
    using assms(1) by (auto simp: edge_keys_def)
  then have "(pe_From e, pe_To e) \<in> edge_rel es" by (simp add: edge_rel_def)
  with assms(2,3) e(2) show ?thesis using edge_key_inj by blast
qed

lemma patch_candidate_limits: "jp_Limits (patch_candidate i plan cur patch ns es) = jp_Limits plan"
  by (simp add: patch_candidate_def)

text \<open>The stages of an accepted patch.\<close>

lemma ApplyGraphPatch_cases:
  assumes "ApplyGraphPatch newID hash plan cur patch = Inr r"
  obtains added0 added seen edges1 edges2 depth where
    "cur \<ge> 1" "gp_ExpectedGraphVersion patch = cur"
    "patch_nodes (node_table (jp_Nodes plan) []) [] (gp_AddNodes patch) = Inr added0"
    "rl_MaxDynamicDescendants (jp_Limits plan) > 0 \<Longrightarrow>
       int (length added0) \<le> rl_MaxDynamicDescendants (jp_Limits plan)"
    "patch_edges (\<lambda>k. mhas (node_table (jp_Nodes plan) []) k \<or> mhas added0 k) added0
       (map (\<lambda>e. edge_key (pe_From e) (pe_To e)) (jp_Edges plan)) (jp_Edges plan) (gp_AddEdges patch)
       = Inr (added, seen, edges1)"
    "all_dependency_edges (\<lambda>k. mhas (node_table (jp_Nodes plan) []) k \<or> mhas added0 k) seen edges1 added
       = Inr edges2"
    "jp_Nodes (gr_Plan r) = sort_by node_less (jp_Nodes plan @ mvals added)"
    "jp_Edges (gr_Plan r) = sort_by edge_less edges2"
    "JobPlanRevision_Validate (patch_candidate newID plan cur patch (jp_Nodes (gr_Plan r))
       (jp_Edges (gr_Plan r))) = None"
    "graphDepth (jp_Nodes (gr_Plan r)) = Inr depth"
    "rl_MaxDepth (jp_Limits plan) > 0 \<Longrightarrow> depth \<le> rl_MaxDepth (jp_Limits plan)"
    "list_all (mhas (node_table (jp_Nodes plan) [])) (gr_CancelPendingNodeKeys r)"
    "gr_Plan r = (patch_candidate newID plan cur patch (jp_Nodes (gr_Plan r)) (jp_Edges (gr_Plan r)))
       \<lparr>jp_Digest := patch_digest hash plan patch (jp_Nodes (gr_Plan r)) (jp_Edges (gr_Plan r))\<rparr>"
    "gr_GraphVersion r = cur + 1"
proof -
  let ?ex = "node_table (jp_Nodes plan) []"
  obtain added0 added seen edges1 edges2 depth where *:
    "\<not> (cur < 1 \<or> gp_ExpectedGraphVersion patch \<noteq> cur)"
    "patch_nodes ?ex [] (gp_AddNodes patch) = Inr added0"
    "\<not> (rl_MaxDynamicDescendants (jp_Limits plan) > 0
        \<and> int (length added0) > rl_MaxDynamicDescendants (jp_Limits plan))"
    "patch_edges (\<lambda>k. mhas ?ex k \<or> mhas added0 k) added0
       (map (\<lambda>e. edge_key (pe_From e) (pe_To e)) (jp_Edges plan)) (jp_Edges plan) (gp_AddEdges patch)
       = Inr (added, seen, edges1)"
    "all_dependency_edges (\<lambda>k. mhas ?ex k \<or> mhas added0 k) seen edges1 added = Inr edges2"
    "JobPlanRevision_Validate (patch_candidate newID plan cur patch
       (sort_by node_less (jp_Nodes plan @ mvals added)) (sort_by edge_less edges2)) = None"
    "graphDepth (sort_by node_less (jp_Nodes plan @ mvals added)) = Inr depth"
    "\<not> (rl_MaxDepth (jp_Limits plan) > 0 \<and> depth > rl_MaxDepth (jp_Limits plan))"
    "list_all (mhas ?ex) (normalizeKeys (gp_CancelPendingNodeKeys patch))"
    and r: "\<lparr>gr_Plan = (patch_candidate newID plan cur patch
          (sort_by node_less (jp_Nodes plan @ mvals added)) (sort_by edge_less edges2))
          \<lparr>jp_Digest := patch_digest hash plan patch
            (sort_by node_less (jp_Nodes plan @ mvals added)) (sort_by edge_less edges2)\<rparr>,
        gr_GraphVersion = cur + 1,
        gr_CancelPendingNodeKeys = normalizeKeys (gp_CancelPendingNodeKeys patch)\<rparr> = r"
    using assms
    unfolding ApplyGraphPatch_def Let_def require_Inr bind_res_Inr check_nil_Inr
      split_paired_Ex prod.case patch_candidate_limits sum.inject
    by (elim exE conjE) (rule that; assumption)
  show thesis
    by (rule that [OF _ _ *(2) _ *(4,5) _ _ _ _ _ _ _ _])
       (use * in \<open>simp_all add: r [symmetric] patch_candidate_def not_less\<close>)
qed

subsection \<open>Properties\<close>

lemma patch_shape:
  assumes "ApplyGraphPatch newID hash plan cur patch = Inr r"
  obtains added where "keyed_nodes added"
    "fst ` set added = pn_Key ` set (gp_AddNodes patch)"
    "pn_Key ` set (gp_AddNodes patch) \<inter> pn_Key ` set (jp_Nodes plan) = {}"
    "set (jp_Nodes (gr_Plan r)) = set (jp_Nodes plan) \<union> set (mvals added)"
    "set (jp_Edges plan) \<subseteq> set (jp_Edges (gr_Plan r))"
    "\<And>e. e \<in> set (jp_Edges (gr_Plan r)) - set (jp_Edges plan) \<Longrightarrow> pe_To e \<in> fst ` set added"
    "\<And>k n d. (k, n) \<in> set added \<Longrightarrow> d \<in> set (pn_DependsOn n) \<Longrightarrow>
       edge_key d k \<in> edge_keys (jp_Edges (gr_Plan r))"
proof (rule ApplyGraphPatch_cases [OF assms])
  fix added0 added seen edges1 edges2 depth
  let ?ex = "node_table (jp_Nodes plan) []"
  assume n: "patch_nodes ?ex [] (gp_AddNodes patch) = Inr added0"
    and e: "patch_edges (\<lambda>k. mhas ?ex k \<or> mhas added0 k) added0
       (map (\<lambda>e. edge_key (pe_From e) (pe_To e)) (jp_Edges plan)) (jp_Edges plan) (gp_AddEdges patch)
       = Inr (added, seen, edges1)"
    and d: "all_dependency_edges (\<lambda>k. mhas ?ex k \<or> mhas added0 k) seen edges1 added = Inr edges2"
    and N: "jp_Nodes (gr_Plan r) = sort_by node_less (jp_Nodes plan @ mvals added)"
    and E: "jp_Edges (gr_Plan r) = sort_by edge_less edges2"
  have "keyed_nodes []" by (simp add: keyed_nodes_def)
  then have a0: "keyed_nodes added0" "\<And>k. mhas added0 k = (k \<in> pn_Key ` set (gp_AddNodes patch))"
      "\<And>k. mhas added0 k \<Longrightarrow> \<not> mhas ?ex k"
    using patch_nodes_correct [OF n] by auto
  note a1 = patch_edges_correct [OF e a0(1)]
  have same: "fst ` set added = fst ` set added0" using a1 by (metis list.set_map)
  obtain new where new: "edges2 = edges1 @ new" "\<forall>e \<in> set new. pe_To e \<in> fst ` set added"
    using all_dependency_edges_correct [OF d] by blast
  have keys: "fst ` set added = pn_Key ` set (gp_AddNodes patch)"
    using a0(2) unfolding mhas_fst same by blast
  have seen0: "set (map (\<lambda>e. edge_key (pe_From e) (pe_To e)) (jp_Edges plan)) = edge_keys (jp_Edges plan)"
    by (simp add: edge_keys_def)
  have seen: "edge_keys edges2 = edge_keys (jp_Edges (gr_Plan r))"
    by (simp add: E edge_keys_def)
  show thesis
  proof (rule that [of added])
    show "keyed_nodes added" using a1 by blast
    show "fst ` set added = pn_Key ` set (gp_AddNodes patch)" by (rule keys)
    show "pn_Key ` set (gp_AddNodes patch) \<inter> pn_Key ` set (jp_Nodes plan) = {}"
      using a0(2,3) by (auto simp: mhas_node_table)
    show "set (jp_Nodes (gr_Plan r)) = set (jp_Nodes plan) \<union> set (mvals added)" by (simp add: N)
    show "set (jp_Edges plan) \<subseteq> set (jp_Edges (gr_Plan r))" using a1 new(1) by (simp add: E)
    show "pe_To x \<in> fst ` set added" if "x \<in> set (jp_Edges (gr_Plan r)) - set (jp_Edges plan)" for x
      using that a1 new same by (auto simp: E mhas_fst)
    show "edge_key y k \<in> edge_keys (jp_Edges (gr_Plan r))"
      if "(k, m) \<in> set added" "y \<in> set (pn_DependsOn m)" for k m y
      using all_dependency_edges_seen [OF d patch_edges_seen [OF e seen0]] that seen by blast
  qed
qed

lemma valid_plan_digest:
  "JobPlanRevision_Validate p = None \<Longrightarrow> d \<noteq> '''' \<Longrightarrow> JobPlanRevision_Validate (p\<lparr>jp_Digest := d\<rparr>) = None"
  unfolding JobPlanRevision_Validate_def validate_simps by simp

lemma patch_accepted:
  assumes "ApplyGraphPatch newID hash plan cur patch = Inr r"
  shows "JobPlanRevision_Validate (gr_Plan r) = None \<and> jp_BaseRevisionID (gr_Plan r) = jp_ID plan
    \<and> gr_GraphVersion r = cur + 1 \<and> jp_GraphVersion (gr_Plan r) = cur + 1
    \<and> set (gr_CancelPendingNodeKeys r) \<subseteq> pn_Key ` set (jp_Nodes plan)"
proof (rule ApplyGraphPatch_cases [OF assms])
  let ?c = "patch_candidate newID plan cur patch (jp_Nodes (gr_Plan r)) (jp_Edges (gr_Plan r))"
  assume c: "list_all (mhas (node_table (jp_Nodes plan) [])) (gr_CancelPendingNodeKeys r)"
    and v: "JobPlanRevision_Validate ?c = None"
    and p: "gr_Plan r = ?c\<lparr>jp_Digest :=
       patch_digest hash plan patch (jp_Nodes (gr_Plan r)) (jp_Edges (gr_Plan r))\<rparr>"
    and g: "gr_GraphVersion r = cur + 1"
  have "JobPlanRevision_Validate (gr_Plan r) = None"
    by (subst p, rule valid_plan_digest [OF v]) (simp add: patch_digest_def)
  moreover have "jp_BaseRevisionID (gr_Plan r) = jp_ID plan" "jp_GraphVersion (gr_Plan r) = cur + 1"
    by (subst p, simp add: patch_candidate_def)+
  moreover have "set (gr_CancelPendingNodeKeys r) \<subseteq> pn_Key ` set (jp_Nodes plan)"
    using c by (auto simp: list_all_iff mhas_node_table)
  ultimately show ?thesis using g by blast
qed

lemma patch_nodes_length:
  "patch_nodes ex added ns = Inr added' \<Longrightarrow> length added' = length added + length ns"
proof (induction ex added ns rule: patch_nodes.induct)
  case (2 ex added n ns)
  have "k \<notin> fst ` set m \<Longrightarrow> length (mput k v m) = Suc (length m)" for k v and m :: "JobPlanNode gomap"
    by (induction m) (auto simp: mput_def)
  with 2 show ?case by (simp add: mhas_fst split: if_splits)
qed simp

lemma patch_limits:
  assumes "ApplyGraphPatch newID hash plan cur patch = Inr r"
  shows "(rl_MaxDepth (jp_Limits plan) > 0 \<longrightarrow>
        (\<exists>depth. graphDepth (jp_Nodes (gr_Plan r)) = Inr depth \<and> depth \<le> rl_MaxDepth (jp_Limits plan)))
    \<and> (rl_MaxDynamicDescendants (jp_Limits plan) > 0 \<longrightarrow>
        int (length (gp_AddNodes patch)) \<le> rl_MaxDynamicDescendants (jp_Limits plan))"
proof (rule ApplyGraphPatch_cases [OF assms], goal_cases)
  case (1 added0 added seen edges1 edges2 depth)
  have "length added0 = length (gp_AddNodes patch)" using patch_nodes_length [OF 1(3)] by simp
  then show ?case using 1(4,10,11) by auto
qed

text \<open>
  C20. \<^verbatim>\<open>graphDepth\<close> returns a depth exactly when the dependencies are acyclic and refer to nodes
  of the plan, and the depth it returns is the length of the longest dependency chain: no chain
  is longer and one has that length.
\<close>

theorem graphDepth_correct:
  "((\<exists>d. graphDepth nodes = Inr d) \<longleftrightarrow>
      acyclic (dep_rel (node_table nodes [])) \<and>
      Domain (dep_rel (node_table nodes [])) \<subseteq> pn_Key ` set nodes)
   \<and> (graphDepth nodes = Inr d \<longrightarrow>
      (\<exists>c. dep_chain (node_table nodes []) c \<and> int (length c) = d)
      \<and> (\<forall>c. dep_chain (node_table nodes []) c \<longrightarrow> int (length c) \<le> d))"
proof -
  let ?m = "node_table nodes []"
  have keys: "set (map fst ?m) = pn_Key ` set nodes"
    using mhas_node_table [of nodes "[]"] by (auto simp: mhas_fst)
  have "\<exists>c. dep_chain ?m c \<and> int (length c) = d" "dep_chain ?m c \<Longrightarrow> int (length c) \<le> d"
    if d: "graphDepth nodes = Inr d" for c
  proof -
    show "\<exists>c. dep_chain ?m c \<and> int (length c) = d"
      using graphDepth_settled(2) [OF d refl]
    proof
      assume "d = 0"
      then have "dep_chain ?m [] \<and> int (length ([] :: string list)) = d" by simp
      then show ?thesis by blast
    qed (auto simp: settled_def)
    assume c: "dep_chain ?m c"
    show "int (length c) \<le> d"
    proof (cases c)
      case Nil
      then show ?thesis using depth_keys_correct [of ?m "[]" "map fst ?m" 0 d] d
        by (simp add: graphDepth_def Let_def memo_ok_def)
    next
      case (Cons k r)
      then obtain v where "settled ?m k v" "v \<le> d"
        using graphDepth_settled(1) [OF d refl] dep_chain_known c by blast
      then show ?thesis using c Cons unfolding settled_def by fastforce
    qed
  qed
  then show ?thesis using graphDepth_total_iff [of ?m nodes] unfolding keys by blast
qed

theorem graphDepth_correct_witness:
  "graphDepth (jp_Nodes ex_plan) = Inr 2
   \<and> (\<exists>c. dep_chain (node_table (jp_Nodes ex_plan) []) c \<and> int (length c) = 2)"
proof -
  have "graphDepth (jp_Nodes ex_plan) = Inr 2" by code_simp
  with graphDepth_correct [of "jp_Nodes ex_plan" 2] show ?thesis by blast
qed

text \<open>
  C21. An accepted patch only extends the graph. The new revision passes \<^verbatim>\<open>Validate\<close>, names the
  patched one as its base and carries the next version; every node and edge of the base is
  kept as it was; the added nodes have exactly the keys the patch lists, all of them new; an
  edge that was not there before leads to an added node, so no published node gains a
  predecessor; the edge relation is acyclic; and only nodes of the base may be cancelled.
\<close>

theorem graph_patch_extends:
  assumes "ApplyGraphPatch newID hash plan cur patch = Inr r"
  shows "JobPlanRevision_Validate (gr_Plan r) = None
    \<and> jp_BaseRevisionID (gr_Plan r) = jp_ID plan \<and> gr_GraphVersion r = cur + 1
    \<and> jp_GraphVersion (gr_Plan r) = cur + 1
    \<and> set (jp_Nodes plan) \<subseteq> set (jp_Nodes (gr_Plan r))
    \<and> pn_Key ` (set (jp_Nodes (gr_Plan r)) - set (jp_Nodes plan)) = pn_Key ` set (gp_AddNodes patch)
    \<and> pn_Key ` set (gp_AddNodes patch) \<inter> pn_Key ` set (jp_Nodes plan) = {}
    \<and> edge_rel (jp_Edges plan) \<subseteq> edge_rel (jp_Edges (gr_Plan r))
    \<and> (\<forall>f t. (f, t) \<in> edge_rel (jp_Edges (gr_Plan r)) \<and> t \<in> pn_Key ` set (jp_Nodes plan) \<longrightarrow>
          (f, t) \<in> edge_rel (jp_Edges plan))
    \<and> acyclic (edge_rel (jp_Edges (gr_Plan r)))
    \<and> set (gr_CancelPendingNodeKeys r) \<subseteq> pn_Key ` set (jp_Nodes plan)"
proof -
  obtain added where added: "keyed_nodes added" "fst ` set added = pn_Key ` set (gp_AddNodes patch)"
    and new: "pn_Key ` set (gp_AddNodes patch) \<inter> pn_Key ` set (jp_Nodes plan) = {}"
    and nodes: "set (jp_Nodes (gr_Plan r)) = set (jp_Nodes plan) \<union> set (mvals added)"
    and edges: "set (jp_Edges plan) \<subseteq> set (jp_Edges (gr_Plan r))"
      "\<And>e. e \<in> set (jp_Edges (gr_Plan r)) - set (jp_Edges plan) \<Longrightarrow> pe_To e \<in> fst ` set added"
    using patch_shape [OF assms] by metis
  have ok: "JobPlanRevision_Validate (gr_Plan r) = None"
      "jp_BaseRevisionID (gr_Plan r) = jp_ID plan" "gr_GraphVersion r = cur + 1"
      "jp_GraphVersion (gr_Plan r) = cur + 1"
      "set (gr_CancelPendingNodeKeys r) \<subseteq> pn_Key ` set (jp_Nodes plan)"
    using patch_accepted [OF assms] by simp_all
  have keys: "pn_Key ` set (mvals added) = pn_Key ` set (gp_AddNodes patch)"
    using keyed_keys [OF added(1)] added(2) by simp
  then have "set (mvals added) \<inter> set (jp_Nodes plan) = {}" using new by blast
  then have "set (jp_Nodes (gr_Plan r)) - set (jp_Nodes plan) = set (mvals added)"
    using nodes by blast
  moreover have "edge_rel (jp_Edges plan) \<subseteq> edge_rel (jp_Edges (gr_Plan r))"
    using edges(1) by (auto simp: edge_rel_def)
  moreover have "(f, t) \<in> edge_rel (jp_Edges (gr_Plan r)) \<and> t \<in> pn_Key ` set (jp_Nodes plan) \<longrightarrow>
      (f, t) \<in> edge_rel (jp_Edges plan)" for f t
  proof (intro impI, elim conjE)
    assume ft: "(f, t) \<in> edge_rel (jp_Edges (gr_Plan r))" and t: "t \<in> pn_Key ` set (jp_Nodes plan)"
    then obtain e where e: "e \<in> set (jp_Edges (gr_Plan r))" "f = pe_From e" "t = pe_To e"
      by (auto simp: edge_rel_def)
    have "pe_To e \<notin> fst ` set added" using t new e(3) unfolding added(2) by (metis IntI empty_iff)
    then have "e \<in> set (jp_Edges plan)" using edges(2) [of e] e(1) by blast
    then show "(f, t) \<in> edge_rel (jp_Edges plan)" using e by (simp add: edge_rel_def)
  qed
  ultimately show ?thesis using ok nodes keys new by (simp add: valid_plan_acyclic)
qed

theorem graph_patch_extends_witness:
  "\<exists>r. ApplyGraphPatch ''p2'' (\<lambda>_. ''d'') ex_plan 1 ex_patch = Inr r
     \<and> JobPlanRevision_Validate (gr_Plan r) = None \<and> acyclic (edge_rel (jp_Edges (gr_Plan r)))"
proof -
  have "\<not> isl (ApplyGraphPatch ''p2'' (\<lambda>_. ''d'') ex_plan 1 ex_patch)" by code_simp
  then obtain r where r: "ApplyGraphPatch ''p2'' (\<lambda>_. ''d'') ex_plan 1 ex_patch = Inr r"
    using not_isl_Inr by blast
  have "JobPlanRevision_Validate (gr_Plan r) = None \<and> acyclic (edge_rel (jp_Edges (gr_Plan r)))"
    using graph_patch_extends [OF r] by (elim conjE) (intro conjI)
  with r show ?thesis by (intro exI [of _ r] conjI) simp_all
qed

text \<open>
  The dependencies of the nodes a patch adds are edges of the new revision, so the
  scheduler's view (\<^verbatim>\<open>DependsOn\<close>) and the validated edge relation agree on them, provided no node
  key contains the NUL byte that separates the two ends of an edge in \<^verbatim>\<open>seenEdges\<close>. The depth
  of the new graph respects a positive depth limit and the number of added nodes a positive
  descendant limit.
\<close>

theorem graph_patch_dependencies:
  assumes "ApplyGraphPatch newID hash plan cur patch = Inr r"
    and "\<forall>n \<in> set (jp_Nodes (gr_Plan r)). CHR 0x00 \<notin> set (pn_Key n)"
  shows "(\<forall>n \<in> set (jp_Nodes (gr_Plan r)) - set (jp_Nodes plan). \<forall>d \<in> set (pn_DependsOn n).
            CHR 0x00 \<notin> set d \<longrightarrow> (d, pn_Key n) \<in> edge_rel (jp_Edges (gr_Plan r)))
    \<and> (rl_MaxDepth (jp_Limits plan) > 0 \<longrightarrow>
        (\<exists>depth. graphDepth (jp_Nodes (gr_Plan r)) = Inr depth \<and> depth \<le> rl_MaxDepth (jp_Limits plan)))
    \<and> (rl_MaxDynamicDescendants (jp_Limits plan) > 0 \<longrightarrow>
        int (length (gp_AddNodes patch)) \<le> rl_MaxDynamicDescendants (jp_Limits plan))"
proof -
  let ?E = "edge_rel (jp_Edges (gr_Plan r))"
  obtain added where added: "keyed_nodes added"
    and new: "pn_Key ` set (gp_AddNodes patch) \<inter> pn_Key ` set (jp_Nodes plan) = {}"
    and nodes: "set (jp_Nodes (gr_Plan r)) = set (jp_Nodes plan) \<union> set (mvals added)"
    and dep: "\<And>k n d. (k, n) \<in> set added \<Longrightarrow> d \<in> set (pn_DependsOn n) \<Longrightarrow>
       edge_key d k \<in> edge_keys (jp_Edges (gr_Plan r))"
    using patch_shape [OF assms(1)] by metis
  have "?E \<subseteq> pn_Key ` set (jp_Nodes (gr_Plan r)) \<times> UNIV"
    using valid_plan_edges patch_accepted [OF assms(1)] by blast
  then have nul: "(f, t) \<in> ?E \<Longrightarrow> CHR 0x00 \<notin> set f" for f t
    using assms(2) by blast
  have "(d, pn_Key n) \<in> ?E" if n: "n \<in> set (jp_Nodes (gr_Plan r)) - set (jp_Nodes plan)"
    and d: "d \<in> set (pn_DependsOn n)" "CHR 0x00 \<notin> set d" for n d
  proof -
    have "n \<in> set (mvals added)" using n nodes by blast
    then have "(pn_Key n, n) \<in> set added"
      using keyed_mem [OF added] by blast
    from edge_keys_rel [OF dep [OF this d(1)] d(2)] nul show ?thesis by blast
  qed
  then show ?thesis using patch_limits [OF assms(1)] by blast
qed

theorem graph_patch_dependencies_witness:
  "\<exists>r. ApplyGraphPatch ''p2'' (\<lambda>_. ''d'') ex_plan 1 ex_patch = Inr r
     \<and> (\<exists>n \<in> set (jp_Nodes (gr_Plan r)) - set (jp_Nodes ex_plan). \<exists>d \<in> set (pn_DependsOn n).
          (d, pn_Key n) \<in> edge_rel (jp_Edges (gr_Plan r)))"
proof -
  have "case ApplyGraphPatch ''p2'' (\<lambda>_. ''d'') ex_plan 1 ex_patch of Inl _ \<Rightarrow> False
        | Inr r \<Rightarrow> list_all (\<lambda>n. CHR 0x00 \<notin> set (pn_Key n)) (jp_Nodes (gr_Plan r))
            \<and> list_ex (\<lambda>n. n \<notin> set (jp_Nodes ex_plan) \<and> pn_DependsOn n \<noteq> []
                \<and> CHR 0x00 \<notin> set (hd (pn_DependsOn n))) (jp_Nodes (gr_Plan r))" by code_simp
  then obtain r n where r: "ApplyGraphPatch ''p2'' (\<lambda>_. ''d'') ex_plan 1 ex_patch = Inr r"
    and nul: "\<forall>n \<in> set (jp_Nodes (gr_Plan r)). CHR 0x00 \<notin> set (pn_Key n)"
    and n: "n \<in> set (jp_Nodes (gr_Plan r)) - set (jp_Nodes ex_plan)" "hd (pn_DependsOn n) \<in> set (pn_DependsOn n)"
      "CHR 0x00 \<notin> set (hd (pn_DependsOn n))"
    by (auto simp: list_all_iff list_ex_iff split: sum.splits)
  from r n graph_patch_dependencies [OF r nul] show ?thesis by blast
qed

end
