(* ===== verification/Fanout.thy ===== *)
theory Fanout
  imports Graph_Patch
begin

section \<open>Fan-out sets and joins (internal/runtime/model.go, fanout.go)\<close>

text \<open>
  A map node fans out into a frozen set of members; a join policy decides, from the states of
  the members alone, whether the set has succeeded, has failed or is still open
  (\<open>EvaluateJoin\<close>). The lemmas show that a terminal decision agrees with the policy's threshold
  and never has to be revised: however the outstanding members end, evaluating again gives the
  same verdict. \<open>fanoutMemberFromNode\<close> derives the state of a member from its node.

  Strategies and stop policies are the source's strings. \<open>fm_OutputRefs\<close> is an option because
  \<^verbatim>\<open>Validate\<close> distinguishes a nil slice from an empty one. \<^verbatim>\<open>stablehash.Sum\<close> is the parameter
  \<open>hash\<close>.
\<close>

subsection \<open>Data\<close>

datatype fanout_status =
    FanoutOpen | FanoutClosed | FanoutSucceeded | FanoutFailed | FanoutStatus string

datatype member_state =
    FanoutMemberPending | FanoutMemberRunning | FanoutMemberSucceeded | FanoutMemberFailed
  | FanoutMemberCancelled | FanoutMemberSkipped | MemberState string

record JoinPolicy =
  pol_Strategy :: string
  pol_MinSuccess :: int
  pol_QuorumPercent :: int
  pol_ZeroMemberPolicy :: string
  pol_QuorumStopPolicy :: string

definition NormalizeJoinPolicy :: "JoinPolicy \<Rightarrow> JoinPolicy" where
  "NormalizeJoinPolicy p =
     (if pol_ZeroMemberPolicy p = '''' then p\<lparr>pol_ZeroMemberPolicy := ''fail''\<rparr> else p)"

definition JoinPolicy_Validate :: "JoinPolicy \<Rightarrow> fault option" where
  "JoinPolicy_Validate p0 =
     (let p = NormalizeJoinPolicy p0; bad = Some (Invalid ''FANOUT_JOIN_POLICY_INVALID'') in
      if pol_Strategy p \<notin> {''all'', ''min_success'', ''quorum'', ''best_effort'', ''fail_fast''} then bad
      else if pol_Strategy p = ''min_success'' \<and> pol_MinSuccess p < 1 then bad
      else if pol_Strategy p = ''quorum'' \<and> (pol_QuorumPercent p < 1 \<or> pol_QuorumPercent p > 100) then bad
      else if pol_ZeroMemberPolicy p \<noteq> ''fail'' \<and> pol_ZeroMemberPolicy p \<noteq> ''succeed_empty'' then bad
      else if pol_Strategy p = ''quorum'' \<and> pol_QuorumStopPolicy p = '''' then bad
      else if pol_Strategy p = ''quorum'' \<and> pol_QuorumStopPolicy p \<noteq> ''wait_all_terminal''
              \<and> pol_QuorumStopPolicy p \<noteq> ''cancel_pending'' then bad
      else None)"

record FanoutSet =
  fs_ID :: string
  fs_TenantID :: string
  fs_JobRunID :: string
  fs_MapNodeKey :: string
  fs_JoinNodeKey :: string
  fs_SourceCollection :: string
  fs_SourceRevision :: int
  fs_SourceWatermark :: int
  fs_Generation :: int
  fs_IdempotencyKey :: string
  fs_MembershipDigest :: string
  fs_RequestDigest :: string
  fs_MemberCount :: int
  fs_JoinPolicy :: JoinPolicy
  fs_Status :: fanout_status
  fs_Version :: int
  fs_ClosedAt :: "time option"
  fs_CreatedAt :: time
  fs_UpdatedAt :: time

definition FanoutSet_Validate :: "FanoutSet \<Rightarrow> fault option" where
  "FanoutSet_Validate s =
     (if fs_ID s = '''' \<or> fs_TenantID s = '''' \<or> fs_JobRunID s = '''' \<or> blank (fs_MapNodeKey s)
       \<or> blank (fs_JoinNodeKey s) \<or> blank (fs_IdempotencyKey s) \<or> fs_Generation s < 1
       \<or> fs_MemberCount s < 0 \<or> fs_Version s < 1 \<or> IsZero (fs_CreatedAt s) \<or> IsZero (fs_UpdatedAt s)
      then Some (Invalid ''FANOUT_SET_INVALID'')
      else if length (fs_MembershipDigest s) \<noteq> 71 \<or> \<not> HasPrefix (fs_MembershipDigest s) ''sha256:''
            \<or> length (fs_RequestDigest s) \<noteq> 71 \<or> \<not> HasPrefix (fs_RequestDigest s) ''sha256:''
      then Some (Invalid ''FANOUT_SET_DIGEST_INVALID'')
      else case JoinPolicy_Validate (NormalizeJoinPolicy (fs_JoinPolicy s)) of
        Some e \<Rightarrow> Some e
      | None \<Rightarrow>
        (case fs_Status s of
           FanoutOpen \<Rightarrow>
             if fs_ClosedAt s \<noteq> None then Some (Invalid ''FANOUT_SET_STATE_INVALID'') else None
         | FanoutStatus _ \<Rightarrow> Some (Invalid ''FANOUT_SET_STATE_INVALID'')
         | _ \<Rightarrow> if fs_ClosedAt s = None then Some (Invalid ''FANOUT_SET_STATE_INVALID'') else None))"

record FanoutMember =
  fm_ID :: string
  fm_TenantID :: string
  fm_FanoutSetID :: string
  fm_MemberKey :: string
  fm_ItemKey :: string
  fm_ItemDigest :: string
  fm_Generation :: int
  fm_NodeRunID :: string
  fm_State :: member_state
  fm_OutputRefs :: "string list option"
  fm_OutputDigest :: string
  fm_ErrorCode :: string
  fm_Version :: int
  fm_CreatedAt :: time
  fm_UpdatedAt :: time

fun valid_member_state :: "member_state \<Rightarrow> bool" where
  "valid_member_state (MemberState _) = False"
| "valid_member_state _ = True"

definition FanoutMember_Validate :: "FanoutMember \<Rightarrow> fault option" where
  "FanoutMember_Validate m =
     (if fm_ID m = '''' \<or> fm_TenantID m = '''' \<or> fm_FanoutSetID m = '''' \<or> fm_MemberKey m = ''''
       \<or> fm_ItemKey m = '''' \<or> fm_ItemDigest m = '''' \<or> fm_NodeRunID m = '''' \<or> fm_Generation m < 1
       \<or> fm_Version m < 1 \<or> IsZero (fm_CreatedAt m) \<or> IsZero (fm_UpdatedAt m)
      then Some (Invalid ''FANOUT_MEMBER_INVALID'')
      else if \<not> valid_member_state (fm_State m) then Some (Invalid ''FANOUT_MEMBER_STATE_INVALID'')
      else if fm_OutputRefs m = None then Some (Invalid ''FANOUT_MEMBER_OUTPUT_INVALID'')
      else None)"

definition DeterministicFanoutMemberKey ::
    "(goany \<Rightarrow> string) \<Rightarrow> string \<Rightarrow> string \<Rightarrow> string \<Rightarrow> string \<Rightarrow> int \<Rightarrow> string res" where
  "DeterministicFanoutMemberKey hash jobRunID mapNodeKey fanoutSetID itemKey generation =
     (if blank jobRunID \<or> blank mapNodeKey \<or> blank fanoutSetID \<or> blank itemKey \<or> generation < 1
      then Inl (Invalid ''FANOUT_MEMBER_KEY_INVALID'')
      else Inr (''fanout:'' @ hash (AObj
        [(''job_run_id'', AStr jobRunID), (''map_node_key'', AStr mapNodeKey),
         (''fanout_set_id'', AStr fanoutSetID), (''item_key'', AStr itemKey),
         (''generation'', AInt generation)])))"

subsection \<open>The join reducer\<close>

record JoinDecision =
  jd_Status :: fanout_status
  jd_Terminal :: bool
  jd_Successful :: int
  jd_RequiredSuccess :: int
  jd_CancelMemberKeys :: "string list"

text \<open>The counting loop: successful, terminal and failed members.\<close>

fun tally :: "int \<times> int \<times> int \<Rightarrow> FanoutMember list \<Rightarrow> (int \<times> int \<times> int) res" where
  "tally acc [] = Inr acc"
| "tally (s, t, f) (m # ms) =
     (case fm_State m of
        FanoutMemberSucceeded \<Rightarrow> tally (s + 1, t + 1, f) ms
      | FanoutMemberFailed \<Rightarrow> tally (s, t + 1, f + 1) ms
      | FanoutMemberCancelled \<Rightarrow> tally (s, t + 1, f) ms
      | FanoutMemberSkipped \<Rightarrow> tally (s, t + 1, f) ms
      | FanoutMemberPending \<Rightarrow> tally (s, t, f) ms
      | FanoutMemberRunning \<Rightarrow> tally (s, t, f) ms
      | MemberState _ \<Rightarrow> Inl (Invalid ''FANOUT_MEMBER_STATE_INVALID''))"

definition pending_keys :: "FanoutMember list \<Rightarrow> string list" where
  "pending_keys ms = map fm_MemberKey (filter (\<lambda>m. fm_State m = FanoutMemberPending) ms)"

text \<open>The switch over the strategy: status, terminal flag, keys to cancel, required successes.\<close>

definition join_switch ::
    "JoinPolicy \<Rightarrow> FanoutMember list \<Rightarrow> int \<Rightarrow> int \<Rightarrow> int
     \<Rightarrow> fanout_status \<times> bool \<times> string list \<times> int" where
  "join_switch p ms successful terminal failed =
     (let n = int (length ms); undecided = (FanoutStatus '''', False) in
      if pol_Strategy p = ''all'' then
        (let (st, t) =
           (if failed > 0 then (FanoutFailed, True)
            else if terminal = n then
              (if successful = n then (FanoutSucceeded, True) else (FanoutFailed, True))
            else undecided) in (st, t, [], n))
      else if pol_Strategy p = ''min_success'' then
        (let required = pol_MinSuccess p;
             (st, t) =
           (if successful + n - terminal < required then (FanoutFailed, True)
            else if terminal = n then (FanoutSucceeded, successful \<ge> required)
            else undecided) in (st, t, [], required))
      else if pol_Strategy p = ''quorum'' then
        (let required = go_div (n * pol_QuorumPercent p + 99) 100 in
         if successful + n - terminal < required then (FanoutFailed, True, [], required)
         else if successful \<ge> required \<and> pol_QuorumStopPolicy p = ''cancel_pending'' then
           (let cancel = pending_keys ms in
            if terminal = n \<or> terminal + int (length cancel) = n
            then (FanoutSucceeded, True, cancel, required)
            else (FanoutStatus '''', False, cancel, required))
         else if terminal = n then (FanoutSucceeded, successful \<ge> required, [], required)
         else (FanoutStatus '''', False, [], required))
      else if pol_Strategy p = ''best_effort'' then
        (let (st, t) =
           (if terminal = n then
              (if successful > 0 then (FanoutSucceeded, True) else (FanoutFailed, True))
            else undecided) in (st, t, [], 0))
      else if pol_Strategy p = ''fail_fast'' then
        (if failed > 0 then (FanoutFailed, True, pending_keys ms, 0)
         else if terminal = n then
           (if successful = n then (FanoutSucceeded, True, [], 0) else (FanoutFailed, True, [], 0))
         else (FanoutStatus '''', False, [], 0))
      else (FanoutStatus '''', False, [], 0))"

definition EvaluateJoin :: "FanoutSet \<Rightarrow> FanoutMember list \<Rightarrow> JoinDecision res" where
  "EvaluateJoin s ms =
     (let p = NormalizeJoinPolicy (fs_JoinPolicy s) in
      check_nil (JoinPolicy_Validate p) (
      require (fs_Status s \<noteq> FanoutOpen) (Conflict ''FANOUT_SET_NOT_CLOSED'') (
      require (int (length ms) = fs_MemberCount s) (Conflict ''FANOUT_MEMBER_COUNT_MISMATCH'') (
      if ms = [] then
        Inr \<lparr>jd_Status = (if pol_ZeroMemberPolicy p = ''succeed_empty'' then FanoutSucceeded
                           else FanoutFailed),
             jd_Terminal = True, jd_Successful = 0, jd_RequiredSuccess = 0, jd_CancelMemberKeys = []\<rparr>
      else bind_res (tally (0, 0, 0) ms) (\<lambda>(successful, terminal, failed).
        case join_switch p ms successful terminal failed of (st, t, cancel, required) \<Rightarrow>
        Inr \<lparr>jd_Status = st, jd_Terminal = t, jd_Successful = successful,
             jd_RequiredSuccess = required, jd_CancelMemberKeys = cancel\<rparr>)))))"

subsection \<open>Members follow their nodes (fanout.go)\<close>

definition refs_text :: "string list option \<Rightarrow> string" where
  "refs_text refs = Join (case refs of None \<Rightarrow> [] | Some xs \<Rightarrow> xs) [CHR 0x00]"

definition fanoutMemberChanged :: "FanoutMember \<Rightarrow> FanoutMember \<Rightarrow> bool" where
  "fanoutMemberChanged before after =
     (fm_State before \<noteq> fm_State after \<or> fm_OutputDigest before \<noteq> fm_OutputDigest after
      \<or> fm_ErrorCode before \<noteq> fm_ErrorCode after
      \<or> refs_text (fm_OutputRefs before) \<noteq> refs_text (fm_OutputRefs after))"

definition member_state_of_node :: "node_state \<Rightarrow> member_state" where
  "member_state_of_node s =
     (if s \<in> {NodeRunning, NodeLeased, NodeWaitingExternal, NodeWaitingHuman, NodeWaitingResource,
              NodeRetryableFailed, NodeLeaseExpired} then FanoutMemberRunning
      else if s = NodeSucceeded then FanoutMemberSucceeded
      else if s = NodeFailed \<or> s = NodeBlocked then FanoutMemberFailed
      else if s = NodeCancelled then FanoutMemberCancelled
      else if s = NodeSkipped then FanoutMemberSkipped
      else FanoutMemberPending)"

definition fanoutMemberFromNode :: "FanoutMember \<Rightarrow> NodeRun \<Rightarrow> FanoutMember" where
  "fanoutMemberFromNode member node =
     (let nxt = member\<lparr>fm_State := member_state_of_node (nr_State node),
                       fm_OutputRefs := Some (nr_OutputRefs node),
                       fm_OutputDigest := nr_OutputDigest node, fm_ErrorCode := nr_ErrorCode node\<rparr>
      in if fanoutMemberChanged nxt member
         then nxt\<lparr>fm_Version := fm_Version nxt + 1, fm_UpdatedAt := nr_UpdatedAt node\<rparr> else nxt)"

subsection \<open>A small set\<close>

text \<open>A closed set of two members that needs half of them and then cancels the rest.\<close>

definition ex_set :: FanoutSet where
  "ex_set =
     \<lparr>fs_ID = ''s'', fs_TenantID = ''t'', fs_JobRunID = ''j'', fs_MapNodeKey = ''m'',
      fs_JoinNodeKey = ''n'', fs_SourceCollection = ''c'', fs_SourceRevision = 1,
      fs_SourceWatermark = 1, fs_Generation = 1, fs_IdempotencyKey = ''k'',
      fs_MembershipDigest = ''d'', fs_RequestDigest = ''d'', fs_MemberCount = 2,
      fs_JoinPolicy = \<lparr>pol_Strategy = ''quorum'', pol_MinSuccess = 0, pol_QuorumPercent = 50,
        pol_ZeroMemberPolicy = '''', pol_QuorumStopPolicy = ''cancel_pending''\<rparr>,
      fs_Status = FanoutClosed, fs_Version = 1, fs_ClosedAt = Some 1, fs_CreatedAt = 1,
      fs_UpdatedAt = 1\<rparr>"

definition ex_member :: "string \<Rightarrow> member_state \<Rightarrow> FanoutMember" where
  "ex_member key st =
     \<lparr>fm_ID = key, fm_TenantID = ''t'', fm_FanoutSetID = ''s'', fm_MemberKey = key, fm_ItemKey = key,
      fm_ItemDigest = ''d'', fm_Generation = 1, fm_NodeRunID = key, fm_State = st,
      fm_OutputRefs = Some [], fm_OutputDigest = '''', fm_ErrorCode = '''', fm_Version = 1,
      fm_CreatedAt = 1, fm_UpdatedAt = 1\<rparr>"

subsection \<open>What a policy asks for\<close>

text \<open>The contract of the join: how many members have to succeed, independent of the reducer.\<close>

definition n_succ :: "FanoutMember list \<Rightarrow> int" where
  "n_succ ms = int (length (filter (\<lambda>m. fm_State m = FanoutMemberSucceeded) ms))"

definition join_enough :: "JoinPolicy \<Rightarrow> FanoutMember list \<Rightarrow> bool" where
  "join_enough p ms =
     (if pol_Strategy p = ''min_success'' then pol_MinSuccess p \<le> n_succ ms
      else if pol_Strategy p = ''quorum'' then pol_QuorumPercent p * int (length ms) \<le> 100 * n_succ ms
      else if pol_Strategy p = ''best_effort'' then 0 < n_succ ms
      else n_succ ms = int (length ms))"

fun member_terminal :: "member_state \<Rightarrow> bool" where
  "member_terminal FanoutMemberSucceeded = True"
| "member_terminal FanoutMemberFailed = True"
| "member_terminal FanoutMemberCancelled = True"
| "member_terminal FanoutMemberSkipped = True"
| "member_terminal _ = False"

text \<open>\<open>ms'\<close> is a way the members \<open>ms\<close> may end: terminal members keep their state, all end.\<close>

definition completes :: "FanoutMember list \<Rightarrow> FanoutMember list \<Rightarrow> bool" where
  "completes ms ms' =
     list_all2 (\<lambda>m m'. member_terminal (fm_State m')
       \<and> (member_terminal (fm_State m) \<longrightarrow> fm_State m' = fm_State m)) ms ms'"

definition n_term :: "FanoutMember list \<Rightarrow> int" where
  "n_term ms = int (length (filter (\<lambda>m. member_terminal (fm_State m)) ms))"

definition n_fail :: "FanoutMember list \<Rightarrow> int" where
  "n_fail ms = int (length (filter (\<lambda>m. fm_State m = FanoutMemberFailed) ms))"

lemmas tally_counts = n_succ_def n_term_def n_fail_def

lemma tally_Inr:
  "(tally (s, t, f) ms = Inr r) \<longleftrightarrow>
   list_all (\<lambda>m. valid_member_state (fm_State m)) ms
   \<and> r = (s + n_succ ms, t + n_term ms, f + n_fail ms)"
proof (induction ms arbitrary: s t f)
  case (Cons m ms)
  show ?case by (cases "fm_State m") (auto simp: Cons tally_counts)
qed (auto simp: tally_counts)

lemma count_bounds:
  "0 \<le> n_succ ms" "0 \<le> n_fail ms" "n_succ ms + n_fail ms \<le> n_term ms" "n_term ms \<le> int (length ms)"
proof -
  show "n_succ ms + n_fail ms \<le> n_term ms"
  proof (induction ms)
    case (Cons m ms)
    then show ?case by (cases "fm_State m") (auto simp: tally_counts)
  qed (simp add: tally_counts)
qed (simp_all add: tally_counts)

lemma completes_bounds:
  "completes ms ms' \<Longrightarrow> length ms' = length ms \<and> n_term ms' = int (length ms)
   \<and> n_succ ms \<le> n_succ ms' \<and> n_succ ms' \<le> n_succ ms + int (length ms) - n_term ms
   \<and> n_fail ms \<le> n_fail ms' \<and> list_all (\<lambda>m. valid_member_state (fm_State m)) ms'"
  unfolding completes_def
proof (induction rule: list_all2_induct)
  case (Cons m ms m' ms')
  then show ?case by (cases "fm_State m"; cases "fm_State m'") (auto simp: tally_counts)
qed (simp add: tally_counts)

lemma pending_not_terminal: "int (length (pending_keys ms)) + n_term ms \<le> int (length ms)"
proof (induction ms)
  case (Cons m ms)
  then show ?case by (cases "fm_State m") (auto simp: pending_keys_def n_term_def)
qed (simp add: pending_keys_def n_term_def)

lemma quorum_required:
  "0 \<le> n \<Longrightarrow> 0 \<le> q \<Longrightarrow> (go_div (n * q + 99) 100 \<le> s) = (q * n \<le> 100 * (s :: int))"
proof -
  assume "0 \<le> n" "0 \<le> q"
  then have "0 \<le> n * q" by simp
  then have "go_div (n * q + 99) 100 = (n * q + 99) div 100" by (simp add: go_div_def)
  moreover have "((x + 99) div 100 \<le> s) = (x \<le> 100 * s)" for x :: int
    using div_mult_mod_eq [of "x + 99" 100] pos_mod_bound [of 100 "x + 99"]
      pos_mod_sign [of 100 "x + 99"] by (intro iffI; linarith)
  ultimately show ?thesis by (simp add: mult.commute)
qed

lemma normalized_policy:
  "pol_Strategy (NormalizeJoinPolicy p) = pol_Strategy p"
  "pol_QuorumPercent (NormalizeJoinPolicy p) = pol_QuorumPercent p"
  "pol_QuorumStopPolicy (NormalizeJoinPolicy p) = pol_QuorumStopPolicy p"
  by (simp_all add: NormalizeJoinPolicy_def)

lemma valid_policy:
  "JoinPolicy_Validate p = None \<Longrightarrow>
   pol_Strategy p \<in> {''all'', ''min_success'', ''quorum'', ''best_effort'', ''fail_fast''}
   \<and> (pol_Strategy p = ''quorum'' \<longrightarrow> 0 \<le> pol_QuorumPercent p)"
proof -
  assume ok: "JoinPolicy_Validate p = None"
  have "\<not> pol_Strategy p \<notin> {''all'', ''min_success'', ''quorum'', ''best_effort'', ''fail_fast''}"
    and q: "\<not> (pol_Strategy p = ''quorum'' \<and> (pol_QuorumPercent p < 1 \<or> pol_QuorumPercent p > 100))"
    using ok unfolding JoinPolicy_Validate_def Let_def validate_simps normalized_policy by blast+
  moreover have "pol_Strategy p = ''quorum'' \<longrightarrow> 0 \<le> pol_QuorumPercent p"
  proof
    assume "pol_Strategy p = ''quorum''"
    with q have "\<not> pol_QuorumPercent p < 1" by blast
    then show "0 \<le> pol_QuorumPercent p" by linarith
  qed
  ultimately show ?thesis by blast
qed

text \<open>
  A terminal branch of the switch agrees with the threshold in every way the members may end.
\<close>

lemma join_switch_verdict:
  assumes sw: "join_switch p ms (n_succ ms) (n_term ms) (n_fail ms) = (st, True, cancel, req)"
    and c: "completes ms ms'" and ok: "JoinPolicy_Validate p = None"
  shows "st = (if join_enough p ms' then FanoutSucceeded else FanoutFailed)"
proof -
  note b = count_bounds [of ms] count_bounds [of ms'] completes_bounds [OF c]
  have "0 \<le> pol_QuorumPercent p" if "pol_Strategy p = ''quorum''"
    using valid_policy [OF ok] that by blast
  note q = quorum_required [OF _ this, of "int (length ms)"]
  consider "pol_Strategy p = ''all''" | "pol_Strategy p = ''min_success''"
    | "pol_Strategy p = ''quorum''" | "pol_Strategy p = ''best_effort''" | "pol_Strategy p = ''fail_fast''"
    using valid_policy [OF ok] by blast
  then show ?thesis
  proof cases
    case 1
    then show ?thesis using sw b by (auto simp: join_switch_def Let_def join_enough_def split: if_splits)
  next
    case 2
    then show ?thesis using sw b by (auto simp: join_switch_def Let_def join_enough_def split: if_splits)
  next
    case 3
    then show ?thesis using sw b q [of "n_succ ms"] q [of "n_succ ms'"]
      by (auto simp: join_switch_def Let_def join_enough_def split: if_splits)
  next
    case 4
    then show ?thesis using sw b by (auto simp: join_switch_def Let_def join_enough_def split: if_splits)
  next
    case 5
    then show ?thesis using sw b by (auto simp: join_switch_def Let_def join_enough_def split: if_splits)
  qed
qed

text \<open>When every member has ended the switch decides.\<close>

lemma join_switch_decides:
  assumes "n_term ms = int (length ms)" and "JoinPolicy_Validate p = None"
  shows "\<exists>st cancel req. join_switch p ms (n_succ ms) (n_term ms) (n_fail ms) = (st, True, cancel, req)"
  using valid_policy [OF assms(2)] assms(1)
  by (elim conjE insertE emptyE) (auto simp: join_switch_def Let_def)

subsection \<open>Properties\<close>

lemma normalize_idem: "NormalizeJoinPolicy (NormalizeJoinPolicy p) = NormalizeJoinPolicy p"
  by (simp add: NormalizeJoinPolicy_def)

lemma validate_normalized: "JoinPolicy_Validate (NormalizeJoinPolicy p) = JoinPolicy_Validate p"
  by (simp add: JoinPolicy_Validate_def normalize_idem)

lemma enough_normalized: "join_enough (NormalizeJoinPolicy p) ms = join_enough p ms"
  by (simp add: join_enough_def NormalizeJoinPolicy_def)

lemma EvaluateJoin_cases:
  assumes "EvaluateJoin s ms = Inr d"
  shows "JoinPolicy_Validate (NormalizeJoinPolicy (fs_JoinPolicy s)) = None"
    and "fs_Status s \<noteq> FanoutOpen" and "int (length ms) = fs_MemberCount s"
    and "ms \<noteq> [] \<Longrightarrow> list_all (\<lambda>m. valid_member_state (fm_State m)) ms \<and>
       join_switch (NormalizeJoinPolicy (fs_JoinPolicy s)) ms (n_succ ms) (n_term ms) (n_fail ms)
         = (jd_Status d, jd_Terminal d, jd_CancelMemberKeys d, jd_RequiredSuccess d)
       \<and> jd_Successful d = n_succ ms"
  using assms unfolding EvaluateJoin_def Let_def
  by (auto simp: tally_Inr split: prod.splits if_splits)

lemma EvaluateJoin_ended:
  assumes "JoinPolicy_Validate (fs_JoinPolicy s) = None" "fs_Status s \<noteq> FanoutOpen"
    "int (length ms) = fs_MemberCount s" "ms \<noteq> []"
    "list_all (\<lambda>m. valid_member_state (fm_State m)) ms" "n_term ms = int (length ms)"
  shows "\<exists>d. EvaluateJoin s ms = Inr d \<and> jd_Terminal d \<and>
    (\<exists>cancel req. join_switch (NormalizeJoinPolicy (fs_JoinPolicy s)) ms (n_succ ms) (n_term ms)
       (n_fail ms) = (jd_Status d, True, cancel, req))"
proof -
  let ?p = "NormalizeJoinPolicy (fs_JoinPolicy s)"
  have ok: "JoinPolicy_Validate ?p = None" using assms(1) by (simp add: validate_normalized)
  obtain st cancel req where sw:
    "join_switch ?p ms (n_succ ms) (n_term ms) (n_fail ms) = (st, True, cancel, req)"
    using join_switch_decides [OF assms(6) ok] by blast
  have t: "tally (0, 0, 0) ms = Inr (n_succ ms, n_term ms, n_fail ms)"
    using assms(5) by (simp add: tally_Inr)
  show ?thesis
    using ok assms(2-4) by (simp add: EvaluateJoin_def Let_def t sw)
qed

lemma join_switch_cancel:
  assumes "join_switch p ms (n_succ ms) (n_term ms) (n_fail ms) = (st, t, cancel, req)"
    and ok: "JoinPolicy_Validate p = None"
  shows "cancel = [] \<or> cancel = pending_keys ms \<and>
    (pol_Strategy p = ''fail_fast'' \<and> n_fail ms > 0
     \<or> pol_Strategy p = ''quorum'' \<and> pol_QuorumStopPolicy p = ''cancel_pending'' \<and> join_enough p ms)"
proof (cases "pol_Strategy p = ''quorum''")
  case True
  have "0 \<le> pol_QuorumPercent p" using valid_policy [OF ok] True by blast
  note q = quorum_required [OF _ this, of "int (length ms)" "n_succ ms"]
  show ?thesis using assms(1) True q
    by (auto simp: join_switch_def Let_def join_enough_def split: if_splits)
next
  case False
  then show ?thesis using assms(1)
    by (cases "pol_Strategy p = ''fail_fast''")
       (simp_all add: join_switch_def Let_def split: if_splits prod.splits)
qed

text \<open>
  A terminal join decision is final: whatever way the outstanding members end, evaluating
  the set again is terminal with the same status, and for a non-empty set that status is
  \<open>succeeded\<close> exactly when the ended members meet the policy's threshold (all members for
  \<^verbatim>\<open>all\<close> and \<^verbatim>\<open>fail_fast\<close>, \<^verbatim>\<open>MinSuccess\<close> of them, \<^verbatim>\<open>QuorumPercent\<close> percent of them, or one).
\<close>

theorem join_final:
  assumes "EvaluateJoin s ms = Inr d" and "jd_Terminal d" and "completes ms ms'"
  shows "(\<exists>d'. EvaluateJoin s ms' = Inr d' \<and> jd_Terminal d' \<and> jd_Status d' = jd_Status d)
    \<and> (ms \<noteq> [] \<longrightarrow> jd_Status d =
         (if join_enough (fs_JoinPolicy s) ms' then FanoutSucceeded else FanoutFailed))"
proof (cases "ms = []")
  case True
  then have "ms' = []" using assms(3) by (simp add: completes_def)
  then show ?thesis using assms(1,2) True by auto
next
  case False
  note j = EvaluateJoin_cases [OF assms(1)]
  note b = completes_bounds [OF assms(3)]
  have v: "jd_Status d = (if join_enough (fs_JoinPolicy s) ms' then FanoutSucceeded else FanoutFailed)"
    using join_switch_verdict [OF _ assms(3) j(1)] j(4) [OF False] assms(2) enough_normalized by auto
  obtain d' c r where d': "EvaluateJoin s ms' = Inr d'" "jd_Terminal d'"
    and sw: "join_switch (NormalizeJoinPolicy (fs_JoinPolicy s)) ms' (n_succ ms') (n_term ms')
      (n_fail ms') = (jd_Status d', True, c, r)"
  proof -
    have "ms' \<noteq> []" "int (length ms') = fs_MemberCount s" using b False j(3) by auto
    moreover have "JoinPolicy_Validate (fs_JoinPolicy s) = None"
      using j(1) by (simp add: validate_normalized)
    ultimately show ?thesis using that EvaluateJoin_ended [OF _ j(2), of ms'] b by metis
  qed
  have "completes ms' ms'"
    using assms(3) unfolding completes_def list_all2_conv_all_nth by auto
  from join_switch_verdict [OF sw this j(1)] enough_normalized v d' show ?thesis by auto
qed

theorem join_final_witness:
  "(\<exists>d. EvaluateJoin ex_set [ex_member ''a'' FanoutMemberSucceeded, ex_member ''b'' FanoutMemberPending]
          = Inr d \<and> jd_Terminal d \<and> jd_Status d = FanoutSucceeded)
   \<and> join_enough (fs_JoinPolicy ex_set) [ex_member ''a'' FanoutMemberSucceeded,
       ex_member ''b'' FanoutMemberFailed]"
proof -
  let ?ms = "[ex_member ''a'' FanoutMemberSucceeded, ex_member ''b'' FanoutMemberPending]"
  let ?ms' = "[ex_member ''a'' FanoutMemberSucceeded, ex_member ''b'' FanoutMemberFailed]"
  have "case EvaluateJoin ex_set ?ms of Inl _ \<Rightarrow> False
        | Inr d \<Rightarrow> jd_Terminal d \<and> jd_Status d = FanoutSucceeded" by code_simp
  then obtain d where d: "EvaluateJoin ex_set ?ms = Inr d" "jd_Terminal d" "jd_Status d = FanoutSucceeded"
    by (auto split: sum.splits)
  have "completes ?ms ?ms'" by (simp add: completes_def ex_member_def)
  from join_final [OF d(1,2) this] d show ?thesis by (auto split: if_splits)
qed

text \<open>
  C14. A join always comes to a verdict: for a valid policy and a closed set whose recorded size
  is right, once every member has ended \<^verbatim>\<open>EvaluateJoin\<close> returns a terminal decision.
\<close>

theorem join_decides:
  assumes "JoinPolicy_Validate (fs_JoinPolicy s) = None" and "fs_Status s \<noteq> FanoutOpen"
    and "int (length ms) = fs_MemberCount s" and "\<forall>m \<in> set ms. member_terminal (fm_State m)"
  shows "\<exists>d. EvaluateJoin s ms = Inr d \<and> jd_Terminal d"
proof (cases "ms = []")
  case True
  then show ?thesis
    using assms(1-3) by (simp add: EvaluateJoin_def Let_def validate_normalized)
next
  case False
  have "valid_member_state (fm_State m)" if "m \<in> set ms" for m
    using assms(4) that by (cases "fm_State m") fastforce+
  moreover have "n_term ms = int (length ms)"
    using assms(4) by (simp add: n_term_def)
  ultimately show ?thesis
    using EvaluateJoin_ended [OF assms(1-3) False] by (auto simp: list_all_iff)
qed

theorem join_decides_witness:
  "\<exists>d. EvaluateJoin ex_set [ex_member ''a'' FanoutMemberFailed, ex_member ''b'' FanoutMemberSkipped]
         = Inr d \<and> jd_Terminal d"
proof (rule join_decides)
  show "JoinPolicy_Validate (fs_JoinPolicy ex_set) = None" by code_simp
qed (simp_all add: ex_set_def ex_member_def)

text \<open>
  The members a decision asks to cancel are pending ones, and only two policies ask for any:
  \<^verbatim>\<open>fail_fast\<close> after a failure, and \<^verbatim>\<open>quorum\<close> with \<^verbatim>\<open>cancel_pending\<close> once the quorum is reached.
\<close>

theorem join_cancels_pending:
  assumes "EvaluateJoin s ms = Inr d"
  shows "set (jd_CancelMemberKeys d) \<subseteq> set (pending_keys ms)
    \<and> (jd_CancelMemberKeys d \<noteq> [] \<longrightarrow>
        pol_Strategy (fs_JoinPolicy s) = ''fail_fast'' \<and> n_fail ms > 0
        \<or> pol_Strategy (fs_JoinPolicy s) = ''quorum''
          \<and> pol_QuorumStopPolicy (fs_JoinPolicy s) = ''cancel_pending''
          \<and> join_enough (fs_JoinPolicy s) ms)"
proof (cases "ms = []")
  case True
  then show ?thesis using assms by (auto simp: EvaluateJoin_def Let_def)
next
  case False
  note j = EvaluateJoin_cases [OF assms]
  have "join_switch (NormalizeJoinPolicy (fs_JoinPolicy s)) ms (n_succ ms) (n_term ms) (n_fail ms)
      = (jd_Status d, jd_Terminal d, jd_CancelMemberKeys d, jd_RequiredSuccess d)"
    using j(4) [OF False] by blast
  from join_switch_cancel [OF this j(1)] show ?thesis
    by (auto simp: normalized_policy enough_normalized)
qed

theorem join_cancels_pending_witness:
  "\<exists>d. EvaluateJoin ex_set [ex_member ''a'' FanoutMemberSucceeded, ex_member ''b'' FanoutMemberPending]
         = Inr d \<and> set (jd_CancelMemberKeys d) \<subseteq> {''b''}"
proof -
  have "\<not> isl (EvaluateJoin ex_set
      [ex_member ''a'' FanoutMemberSucceeded, ex_member ''b'' FanoutMemberPending])" by code_simp
  then obtain d where d: "EvaluateJoin ex_set
      [ex_member ''a'' FanoutMemberSucceeded, ex_member ''b'' FanoutMemberPending] = Inr d"
    using not_isl_Inr by blast
  from join_cancels_pending [OF d] d show ?thesis by (simp add: pending_keys_def ex_member_def)
qed

text \<open>
  Members and nodes agree on what is final: a member is terminal exactly when its node is
  terminal or blocked, and such a node never moves again, so terminal members keep their state.
\<close>

theorem member_final_with_node:
  assumes "(\<lambda>a b. node_transition a b = None)\<^sup>*\<^sup>* s t"
    and "member_terminal (member_state_of_node s)"
  shows "t = s"
proof -
  have "node_terminal s \<or> s = NodeBlocked"
    using assms(2) by (cases s) (auto simp: member_state_of_node_def)
  then show ?thesis using assms(1) node_machine.run_terminal node_run_blocked by blast
qed

theorem member_final_with_node_witness:
  "member_terminal (member_state_of_node NodeSkipped)
   \<and> \<not> (\<lambda>a b. node_transition a b = None)\<^sup>*\<^sup>* NodeSkipped NodeReady"
proof -
  have m: "member_terminal (member_state_of_node NodeSkipped)" by (simp add: member_state_of_node_def)
  then show ?thesis using member_final_with_node [OF _ m] by blast
qed

end
