(* ===== verification/Governance.thy ===== *)
theory Governance
  imports Lifecycle
begin

section \<open>Bindings, schemas, state collections, quotas and reservations (internal/runtime/model.go)\<close>

text \<open>
  The policy side of the runtime: the frozen execution binding of a job and its content digest,
  the schema registry entities and their compatibility check (schema.go), collections and
  records of shared state, resource quotas and reservations, and the capacity row of the
  fairness report (fairness.go). \<^verbatim>\<open>stablehash.Sum\<close> is the parameter \<open>hash\<close>.
  Quantities are 64-bit integers, so sums and products are reduced with \<open>i64\<close>.
\<close>

subsection \<open>Execution bindings\<close>

record ExecutionBindingSnapshot =
  eb_TenantID :: string
  eb_Digest :: string
  eb_SchemaVersion :: string
  eb_ProfileID :: string
  eb_ProfileVersion :: string
  eb_ProfileDigest :: string
  eb_RuntimePolicyID :: string
  eb_HarnessKinds :: "string list"
  eb_ProviderRef :: string
  eb_ModelRef :: string
  eb_EnvironmentID :: string
  eb_EnvironmentDigest :: string
  eb_PluginDigest :: string
  eb_SkillDigest :: string
  eb_MCPDigest :: string
  eb_AllowedTools :: "string list"
  eb_SandboxProfile :: string
  eb_IsolationProfile :: string
  eb_EgressPolicy :: string
  eb_Region :: string
  eb_DataClassification :: string
  eb_MaxTokens :: int
  eb_MaxDurationSeconds :: int
  eb_MaxCostMinor :: int
  eb_MaxDynamicDescendants :: int
  eb_FallbackPolicy :: string
  eb_WorkspaceTemplateID :: string
  eb_WorkspaceDigest :: string
  eb_Legacy :: bool
  eb_CreatedAt :: time

definition binding_normalize :: "ExecutionBindingSnapshot \<Rightarrow> ExecutionBindingSnapshot" where
  "binding_normalize b =
     b\<lparr>eb_HarnessKinds := sort (eb_HarnessKinds b), eb_AllowedTools := sort (eb_AllowedTools b)\<rparr>"

definition opt_str :: "string \<Rightarrow> string \<Rightarrow> payload" where
  "opt_str name v = (if v = '''' then [] else [(name, AStr v)])"

definition binding_json :: "ExecutionBindingSnapshot \<Rightarrow> goany" where
  "binding_json b = AObj (
     [(''schema_version'', AStr (eb_SchemaVersion b)), (''profile_id'', AStr (eb_ProfileID b)),
      (''profile_version'', AStr (eb_ProfileVersion b))]
     @ opt_str ''profile_digest'' (eb_ProfileDigest b)
     @ [(''runtime_policy_id'', AStr (eb_RuntimePolicyID b)),
        (''harness_kinds'', AStrs (eb_HarnessKinds b))]
     @ opt_str ''provider_ref'' (eb_ProviderRef b) @ opt_str ''model_ref'' (eb_ModelRef b)
     @ opt_str ''environment_id'' (eb_EnvironmentID b)
     @ opt_str ''environment_digest'' (eb_EnvironmentDigest b)
     @ opt_str ''plugin_digest'' (eb_PluginDigest b) @ opt_str ''skill_digest'' (eb_SkillDigest b)
     @ opt_str ''mcp_digest'' (eb_MCPDigest b)
     @ [(''allowed_tools'', AStrs (eb_AllowedTools b)),
        (''sandbox_profile'', AStr (eb_SandboxProfile b)),
        (''isolation_profile'', AStr (eb_IsolationProfile b)),
        (''egress_policy'', AStr (eb_EgressPolicy b))]
     @ opt_str ''region'' (eb_Region b)
     @ [(''data_classification'', AStr (eb_DataClassification b)),
        (''max_tokens'', AInt (eb_MaxTokens b)),
        (''max_duration_seconds'', AInt (eb_MaxDurationSeconds b)),
        (''max_cost_minor'', AInt (eb_MaxCostMinor b)),
        (''max_dynamic_descendants'', AInt (eb_MaxDynamicDescendants b)),
        (''fallback_policy'', AStr (eb_FallbackPolicy b))]
     @ opt_str ''workspace_template_id'' (eb_WorkspaceTemplateID b)
     @ opt_str ''workspace_digest'' (eb_WorkspaceDigest b)
     @ (if eb_Legacy b then [(''legacy'', ABool True)] else []))"

definition ContentDigest :: "(goany \<Rightarrow> string) \<Rightarrow> ExecutionBindingSnapshot \<Rightarrow> string" where
  "ContentDigest hash b = ''sha256:'' @ hash (binding_json (binding_normalize b))"

definition ExecutionBindingSnapshot_Validate ::
    "(goany \<Rightarrow> string) \<Rightarrow> ExecutionBindingSnapshot \<Rightarrow> fault option" where
  "ExecutionBindingSnapshot_Validate hash b =
     (if blank (eb_TenantID b) \<or> \<not> sha256Pattern (eb_Digest b) \<or> \<not> HasPrefix (eb_Digest b) ''sha256:''
       \<or> blank (eb_SchemaVersion b) \<or> blank (eb_ProfileID b) \<or> blank (eb_ProfileVersion b)
       \<or> blank (eb_RuntimePolicyID b) \<or> blank (eb_SandboxProfile b) \<or> blank (eb_IsolationProfile b)
       \<or> blank (eb_EgressPolicy b) \<or> blank (eb_DataClassification b) \<or> eb_MaxTokens b \<le> 0
       \<or> eb_MaxDurationSeconds b \<le> 0 \<or> eb_MaxCostMinor b < 0 \<or> eb_MaxDynamicDescendants b < 0
       \<or> blank (eb_FallbackPolicy b) \<or> IsZero (eb_CreatedAt b)
      then Some (Invalid ''EXECUTION_BINDING_SNAPSHOT_INVALID'')
      else if \<not> eb_Legacy b \<and> ContentDigest hash b \<noteq> eb_Digest b
      then Some (Conflict ''EXECUTION_BINDING_SNAPSHOT_DIGEST_MISMATCH'')
      else None)"

subsection \<open>Schemas\<close>

record RuntimeSchema =
  sch_TenantID :: string
  sch_SchemaID :: string
  sch_Revision :: int
  sch_Status :: string
  sch_Compatibility :: string
  sch_Definition :: "payload option"
  sch_Digest :: string
  sch_RetentionPolicy :: string
  sch_RetainUntil :: "time option"
  sch_CreatedBy :: string
  sch_CreatedAt :: time
  sch_PublishedAt :: "time option"
  sch_RetiredAt :: "time option"
  sch_Version :: int

definition RuntimeSchema_Validate :: "RuntimeSchema \<Rightarrow> fault option" where
  "RuntimeSchema_Validate s =
     (if blank (sch_TenantID s) \<or> blank (sch_SchemaID s) \<or> sch_Revision s < 1 \<or> sch_Version s < 1
       \<or> blank (sch_Status s) \<or> blank (sch_Compatibility s) \<or> sch_Definition s = None
       \<or> blank (sch_Digest s) \<or> blank (sch_RetentionPolicy s) \<or> blank (sch_CreatedBy s)
       \<or> IsZero (sch_CreatedAt s)
      then Some (Invalid ''RUNTIME_SCHEMA_INVALID'')
      else if \<not> validSHA256Digest (sch_Digest s) then Some (Invalid ''RUNTIME_SCHEMA_DIGEST_INVALID'')
      else if sch_Status s = ''draft'' \<and> (sch_PublishedAt s \<noteq> None \<or> sch_RetiredAt s \<noteq> None)
      then Some (Invalid ''RUNTIME_SCHEMA_DRAFT_INVALID'')
      else if sch_Status s = ''published'' \<and> (sch_PublishedAt s = None \<or> sch_RetiredAt s \<noteq> None)
      then Some (Invalid ''RUNTIME_SCHEMA_PUBLISHED_INVALID'')
      else if sch_Status s = ''retired'' \<and> (sch_PublishedAt s = None \<or> sch_RetiredAt s = None)
      then Some (Invalid ''RUNTIME_SCHEMA_RETIRED_INVALID'')
      else if sch_Status s \<notin> {''draft'', ''published'', ''retired''}
      then Some (Invalid ''RUNTIME_SCHEMA_STATUS_INVALID'')
      else if sch_Compatibility s \<notin> {''backward'', ''full'', ''none''}
      then Some (Invalid ''RUNTIME_SCHEMA_COMPATIBILITY_INVALID'')
      else None)"

text \<open>\<^verbatim>\<open>value.(string)\<close> with the zero value on failure, and an object lookup that may be absent.\<close>

fun as_string :: "goany option \<Rightarrow> string" where
  "as_string (Some (AStr s)) = s"
| "as_string _ = ''''"

fun schemaObject :: "goany option \<Rightarrow> payload" where
  "schemaObject (Some (AObj obj)) = obj"
| "schemaObject _ = []"

fun schemaStringSet :: "goany option \<Rightarrow> string list" where
  "schemaStringSet (Some (AArr vs)) =
     filter (\<lambda>s. s \<noteq> '''') (map (\<lambda>v. TrimSpace (as_string (Some v))) vs)"
| "schemaStringSet _ = []"

definition property_compatible :: "payload \<Rightarrow> string \<times> goany \<Rightarrow> bool" where
  "property_compatible nextProperties kv =
     (case mget nextProperties (fst kv) of
        None \<Rightarrow> True
      | Some nextValue \<Rightarrow>
          (let pt = as_string (mget (schemaObject (Some (snd kv))) ''type'');
               nt = as_string (mget (schemaObject (Some nextValue)) ''type'')
           in \<not> (pt \<noteq> '''' \<and> nt \<noteq> '''' \<and> pt \<noteq> nt)))"

definition schemaDefinitionsBackwardCompatible :: "payload \<Rightarrow> payload \<Rightarrow> bool" where
  "schemaDefinitionsBackwardCompatible previous nxt =
     (let pt = as_string (mget previous ''type''); nt = as_string (mget nxt ''type'') in
      if pt = '''' \<or> nt = '''' \<or> pt \<noteq> nt then False
      else if \<not> list_all (property_compatible (schemaObject (mget nxt ''properties'')))
                  (schemaObject (mget previous ''properties'')) then False
      else list_all (\<lambda>k. k \<in> set (schemaStringSet (mget previous ''required'')))
             (schemaStringSet (mget nxt ''required'')))"

subsection \<open>State collections and records\<close>

record RuntimeState =
  rs_ID :: string
  rs_TenantID :: string
  rs_JobRunID :: string
  rs_Collection :: string
  rs_SchemaVersion :: string
  rs_Revision :: int
  rs_Values :: payload
  rs_UpdatedAt :: time

record StateMutation =
  sm_Collection :: string
  sm_ExpectedRevision :: int
  sm_Set :: payload
  sm_Append :: "(string \<times> goany list) list"
  sm_IdempotencyKey :: string

definition RuntimeStateSchema :: string where
  "RuntimeStateSchema = ''contentcloud.runtime-state/1.0''"

record StateCollection =
  sc_ID :: string
  sc_TenantID :: string
  sc_JobRunID :: string
  sc_CollectionKey :: string
  sc_Scope :: string
  sc_SchemaID :: string
  sc_SchemaRevision :: int
  sc_Consistency :: string
  sc_WriterNodeKey :: string
  sc_MaxRecordBytes :: int
  sc_MaxRecords :: int
  sc_RetentionPolicy :: string
  sc_ReadPolicy :: "string list"
  sc_WritePolicy :: "string list"
  sc_Revision :: int
  sc_Watermark :: int
  sc_CreatedAt :: time
  sc_UpdatedAt :: time

definition StateCollection_Validate :: "StateCollection \<Rightarrow> fault option" where
  "StateCollection_Validate c =
     (if sc_ID c = '''' \<or> sc_TenantID c = '''' \<or> sc_JobRunID c = '''' \<or> sc_CollectionKey c = ''''
       \<or> sc_SchemaID c = '''' \<or> sc_SchemaRevision c < 1 \<or> sc_MaxRecordBytes c \<le> 0
       \<or> sc_MaxRecords c \<le> 0 \<or> sc_Revision c < 0 \<or> IsZero (sc_UpdatedAt c)
      then Some (Invalid ''STATE_COLLECTION_INVALID'')
      else if sc_Scope c \<notin> {''job'', ''branch'', ''node_private''}
      then Some (Invalid ''STATE_COLLECTION_SCOPE_INVALID'')
      else if sc_Consistency c \<notin> {''single_writer'', ''append_only'', ''cas_map'', ''reducer_owned''}
      then Some (Invalid ''STATE_COLLECTION_CONSISTENCY_INVALID'')
      else if (sc_Consistency c = ''single_writer'' \<or> sc_Consistency c = ''reducer_owned''
               \<or> sc_Scope c = ''node_private'') \<and> blank (sc_WriterNodeKey c)
      then Some (Invalid ''STATE_COLLECTION_WRITER_REQUIRED'')
      else None)"

record StateRecord =
  sr_ID :: string
  sr_TenantID :: string
  sr_CollectionID :: string
  sr_Key :: string
  sr_Value :: "payload option"
  sr_ArtifactRef :: string
  sr_SchemaRevision :: int
  sr_Version :: int
  sr_Digest :: string
  sr_CreatedBy :: string
  sr_UpdatedBy :: string
  sr_CreatedAt :: time
  sr_UpdatedAt :: time

definition StateRecord_Validate :: "StateRecord \<Rightarrow> fault option" where
  "StateRecord_Validate r =
     (if sr_ID r = '''' \<or> sr_TenantID r = '''' \<or> sr_CollectionID r = '''' \<or> sr_Key r = ''''
       \<or> sr_SchemaRevision r < 1 \<or> sr_Version r < 1 \<or> sr_Digest r = '''' \<or> blank (sr_CreatedBy r)
       \<or> blank (sr_UpdatedBy r) \<or> IsZero (sr_CreatedAt r) \<or> IsZero (sr_UpdatedAt r)
       \<or> (sr_Value r = None \<and> sr_ArtifactRef r = '''')
      then Some (Invalid ''STATE_RECORD_INVALID'')
      else if sr_Value r \<noteq> None \<and> sr_ArtifactRef r \<noteq> ''''
      then Some (Invalid ''STATE_RECORD_VALUE_INVALID'')
      else None)"

record Checkpoint =
  cp_ID :: string
  cp_TenantID :: string
  cp_JobRunID :: string
  cp_NodeKey :: string
  cp_PlanDigest :: string
  cp_StateRefs :: "string list"
  cp_StateWatermarks :: "(string \<times> int) list"
  cp_OutputRefs :: "string list"
  cp_CompletedNodes :: "string list"
  cp_EventCursor :: int
  cp_SideEffectWatermark :: string
  cp_ParentCheckpointID :: string
  cp_Digest :: string
  cp_CreatedAt :: time

subsection \<open>Quotas and reservations\<close>

record ResourceRequest =
  rreq_ResourceKey :: string
  rreq_Quantity :: int
  rreq_Unit :: string

record ResourceQuota =
  rq_TenantID :: string
  rq_ResourceKey :: string
  rq_Capacity :: int
  rq_Unit :: string
  rq_Version :: int
  rq_UpdatedAt :: time

definition ResourceQuota_Validate :: "ResourceQuota \<Rightarrow> fault option" where
  "ResourceQuota_Validate q =
     (if blank (rq_TenantID q) \<or> blank (rq_ResourceKey q) \<or> rq_Capacity q < 0 \<or> blank (rq_Unit q)
       \<or> rq_Version q < 1 \<or> IsZero (rq_UpdatedAt q)
      then Some (Invalid ''RESOURCE_QUOTA_INVALID'') else None)"

datatype reservation_state =
    ReservationHeld | ReservationConsumed | ReservationReleased | ReservationExpired
  | ReservationState string

record ResourceReservation =
  rr_ID :: string
  rr_TenantID :: string
  rr_JobRunID :: string
  rr_NodeRunID :: string
  rr_AttemptID :: string
  rr_ResourceKey :: string
  rr_Quantity :: int
  rr_Unit :: string
  rr_State :: reservation_state
  rr_FenceToken :: string
  rr_IdempotencyKey :: string
  rr_ExpiresAt :: "time option"
  rr_ReleasedAt :: "time option"
  rr_CreatedAt :: time
  rr_UpdatedAt :: time

definition ResourceReservation_Validate :: "ResourceReservation \<Rightarrow> fault option" where
  "ResourceReservation_Validate r =
     (if rr_ID r = '''' \<or> rr_TenantID r = '''' \<or> rr_JobRunID r = '''' \<or> rr_NodeRunID r = ''''
       \<or> rr_AttemptID r = '''' \<or> blank (rr_ResourceKey r) \<or> rr_Quantity r \<le> 0 \<or> blank (rr_Unit r)
       \<or> rr_IdempotencyKey r = '''' \<or> IsZero (rr_CreatedAt r) \<or> IsZero (rr_UpdatedAt r)
      then Some (Invalid ''RESOURCE_RESERVATION_INVALID'')
      else case rr_State r of
        ReservationHeld \<Rightarrow>
          if rr_FenceToken r = '''' \<or> \<not> after_opt (rr_ExpiresAt r) (rr_UpdatedAt r)
             \<or> rr_ReleasedAt r \<noteq> None
          then Some (Invalid ''RESOURCE_RESERVATION_LEASE_INVALID'') else None
      | ReservationState _ \<Rightarrow> Some (Invalid ''RESOURCE_RESERVATION_STATE_INVALID'')
      | _ \<Rightarrow>
          if rr_FenceToken r \<noteq> '''' \<or> rr_ExpiresAt r \<noteq> None \<or> rr_ReleasedAt r = None
          then Some (Invalid ''RESOURCE_RESERVATION_TERMINAL_INVALID'') else None)"

subsection \<open>The capacity row of a tenant (fairness.go)\<close>

record RuntimeTenantCapacity =
  cap_TenantID :: string
  cap_ResourceKey :: string
  cap_Unit :: string
  cap_Capacity :: int
  cap_Held :: int
  cap_ExpiredHeld :: int
  cap_UtilizationBPS :: int
  cap_ObservedAt :: time

fun capacity_loop :: "string \<Rightarrow> time \<Rightarrow> int \<times> int \<Rightarrow> ResourceReservation list \<Rightarrow> int \<times> int" where
  "capacity_loop key now acc [] = acc"
| "capacity_loop key now (held, expired) (r # rs) =
     (if rr_ResourceKey r \<noteq> key \<or> rr_State r \<noteq> ReservationHeld
      then capacity_loop key now (held, expired) rs
      else if rr_ExpiresAt r \<noteq> None \<and> \<not> after_opt (rr_ExpiresAt r) now
      then capacity_loop key now (held, i64 (expired + rr_Quantity r)) rs
      else capacity_loop key now (i64 (held + rr_Quantity r), expired) rs)"

definition ComputeTenantCapacity ::
    "string \<Rightarrow> string \<Rightarrow> ResourceQuota \<Rightarrow> ResourceReservation list \<Rightarrow> time
     \<Rightarrow> RuntimeTenantCapacity" where
  "ComputeTenantCapacity tenantID resourceKey quota reservations now =
     (let (held, expired) = capacity_loop resourceKey now (0, 0) reservations;
          util = (if rq_Capacity quota > 0 then go_div (i64 (held * 10000)) (rq_Capacity quota) else 0)
      in \<lparr>cap_TenantID = tenantID, cap_ResourceKey = resourceKey, cap_Unit = rq_Unit quota,
          cap_Capacity = rq_Capacity quota, cap_Held = held, cap_ExpiredHeld = expired,
          cap_UtilizationBPS = (if rq_Capacity quota > 0 \<and> util > 10000 then 10000 else util),
          cap_ObservedAt = now\<rparr>)"

definition uniqueTenantIDs :: "string list \<Rightarrow> string list" where
  "uniqueTenantIDs values = trim_unique [] values"

end
