(* ===== verification/Providers.thy ===== *)
theory Providers
  imports Lifecycle
begin

section \<open>Yields and provider facts (internal/runtime/yield_model.go, provider_model.go)\<close>

text \<open>
  The entities at the boundary of an execution. A \<open>RuntimeYield\<close> is the durable wait between two
  attempts of the same agent. A \<open>ProviderInboxMessage\<close> is a received callback, a
  \<open>ProviderReconciliation\<close> a disagreement with a provider that is to be settled, and a
  \<open>ProviderBillRecord\<close> a line of a provider's bill. States are the source's strings: nothing
  but \<^verbatim>\<open>Validate\<close> and the store's commands branches on them. A nil payload and an empty one are
  the same list, so \<^verbatim>\<open>NormalizeCollections\<close> is the identity. The lemmas say what a valid entity
  guarantees to its readers.
\<close>

subsection \<open>Yields\<close>

record RuntimeYield =
  ry_ID :: string
  ry_TenantID :: string
  ry_JobRunID :: string
  ry_NodeRunID :: string
  ry_AttemptID :: string
  ry_AgentInstanceID :: string
  ry_Reason :: string
  ry_WaitRefs :: "string list"
  ry_State :: string
  ry_ResumeKey :: string
  ry_Version :: int
  ry_YieldedAt :: time
  ry_ResolvedAt :: "time option"
  ry_CreatedAt :: time
  ry_UpdatedAt :: time

definition YieldWaitChildren :: string where
  "YieldWaitChildren = ''wait_children''"

definition YieldWaitHuman :: string where
  "YieldWaitHuman = ''wait_human''"

definition YieldWaitEffect :: string where
  "YieldWaitEffect = ''wait_effect''"

definition RuntimeYieldOpen :: string where
  "RuntimeYieldOpen = ''open''"

definition RuntimeYieldResolved :: string where
  "RuntimeYieldResolved = ''resolved''"

definition RuntimeYield_Validate :: "RuntimeYield \<Rightarrow> fault option" where
  "RuntimeYield_Validate y =
     (if ry_ID y = '''' \<or> ry_TenantID y = '''' \<or> ry_JobRunID y = '''' \<or> ry_NodeRunID y = ''''
       \<or> ry_AttemptID y = '''' \<or> ry_AgentInstanceID y = '''' \<or> ry_Version y < 1
       \<or> IsZero (ry_YieldedAt y) \<or> IsZero (ry_CreatedAt y) \<or> IsZero (ry_UpdatedAt y)
      then Some (Invalid ''RUNTIME_YIELD_INVALID'')
      else if ry_Reason y \<noteq> YieldWaitChildren \<and> ry_Reason y \<noteq> YieldWaitHuman
              \<and> ry_Reason y \<noteq> YieldWaitEffect
      then Some (Invalid ''RUNTIME_YIELD_REASON_INVALID'')
      else if ry_WaitRefs y = [] then Some (Invalid ''RUNTIME_YIELD_REFS_REQUIRED'')
      else if ry_State y = RuntimeYieldOpen
      then (if ry_ResolvedAt y \<noteq> None \<or> ry_ResumeKey y \<noteq> ''''
            then Some (Invalid ''RUNTIME_YIELD_OPEN_INVALID'') else None)
      else if ry_State y = RuntimeYieldResolved
      then (if ry_ResolvedAt y = None \<or> ry_ResumeKey y = ''''
            then Some (Invalid ''RUNTIME_YIELD_RESOLVED_INVALID'') else None)
      else Some (Invalid ''RUNTIME_YIELD_STATE_INVALID''))"

subsection \<open>Provider callbacks\<close>

record ProviderInboxMessage =
  pi_ID :: string
  pi_TenantID :: string
  pi_JobRunID :: string
  pi_ProviderID :: string
  pi_MessageID :: string
  pi_ReceivedDigest :: string
  pi_ExternalID :: string
  pi_EffectID :: string
  pi_ProviderState :: string
  pi_ResponseDigest :: string
  pi_CostMinor :: int
  pi_Currency :: string
  pi_SafePayload :: payload
  pi_State :: string
  pi_ErrorCode :: string
  pi_ReceivedAt :: time
  pi_ProcessedAt :: "time option"
  pi_Version :: int
  pi_CreatedAt :: time
  pi_UpdatedAt :: time

definition ProviderInboxMessage_Validate :: "ProviderInboxMessage \<Rightarrow> fault option" where
  "ProviderInboxMessage_Validate m =
     (if pi_ID m = '''' \<or> pi_TenantID m = '''' \<or> pi_JobRunID m = '''' \<or> pi_ProviderID m = ''''
       \<or> pi_MessageID m = '''' \<or> pi_ExternalID m = '''' \<or> pi_ProviderState m = ''''
       \<or> pi_Currency m = '''' \<or> pi_CostMinor m < 0 \<or> pi_Version m < 1 \<or> IsZero (pi_ReceivedAt m)
       \<or> IsZero (pi_CreatedAt m) \<or> IsZero (pi_UpdatedAt m) \<or> \<not> validSHA256Digest (pi_ReceivedDigest m)
       \<or> \<not> validSHA256Digest (pi_ResponseDigest m)
      then Some (Invalid ''PROVIDER_INBOX_INVALID'')
      else if pi_State m \<notin> {''received'', ''applied'', ''pending_reconciliation'', ''failed''}
      then Some (Invalid ''PROVIDER_INBOX_STATE_INVALID'')
      else None)"

subsection \<open>Reconciliations and bills\<close>

record ProviderReconciliation =
  rcn_ID :: string
  rcn_TenantID :: string
  rcn_JobRunID :: string
  rcn_EffectID :: string
  rcn_ProviderID :: string
  rcn_ExternalID :: string
  rcn_RequestKey :: string
  rcn_ObservedState :: string
  rcn_ResponseDigest :: string
  rcn_ExpectedMinor :: int
  rcn_ObservedMinor :: int
  rcn_Currency :: string
  rcn_Reason :: string
  rcn_Status :: string
  rcn_SafeSummary :: payload
  rcn_ResolvedAt :: "time option"
  rcn_CreatedAt :: time
  rcn_UpdatedAt :: time
  rcn_Version :: int

definition ProviderReconciliation_Validate :: "ProviderReconciliation \<Rightarrow> fault option" where
  "ProviderReconciliation_Validate r =
     (if rcn_ID r = '''' \<or> rcn_TenantID r = '''' \<or> rcn_JobRunID r = '''' \<or> rcn_ProviderID r = ''''
       \<or> rcn_ExternalID r = '''' \<or> rcn_RequestKey r = '''' \<or> rcn_ObservedState r = ''''
       \<or> \<not> validSHA256Digest (rcn_ResponseDigest r) \<or> rcn_ExpectedMinor r < 0 \<or> rcn_ObservedMinor r < 0
       \<or> rcn_Currency r = '''' \<or> rcn_Status r = '''' \<or> IsZero (rcn_CreatedAt r) \<or> IsZero (rcn_UpdatedAt r)
       \<or> rcn_Version r < 1
      then Some (Invalid ''PROVIDER_RECONCILIATION_INVALID'')
      else if rcn_Status r \<notin> {''pending'', ''matched'', ''cost_mismatch'', ''manual_action''}
      then Some (Invalid ''PROVIDER_RECONCILIATION_STATE_INVALID'')
      else None)"

record ProviderBillRecord =
  pb_ID :: string
  pb_TenantID :: string
  pb_JobRunID :: string
  pb_ProviderID :: string
  pb_BillID :: string
  pb_ExternalID :: string
  pb_EffectID :: string
  pb_BillDigest :: string
  pb_AmountMinor :: int
  pb_Currency :: string
  pb_Status :: string
  pb_ObservedAt :: time
  pb_CreatedAt :: time
  pb_UpdatedAt :: time
  pb_Version :: int

definition ProviderBillRecord_Validate :: "ProviderBillRecord \<Rightarrow> fault option" where
  "ProviderBillRecord_Validate b =
     (if pb_ID b = '''' \<or> pb_TenantID b = '''' \<or> pb_JobRunID b = '''' \<or> pb_ProviderID b = ''''
       \<or> pb_BillID b = '''' \<or> pb_ExternalID b = '''' \<or> \<not> validSHA256Digest (pb_BillDigest b)
       \<or> pb_AmountMinor b < 0 \<or> pb_Currency b = '''' \<or> IsZero (pb_ObservedAt b)
       \<or> IsZero (pb_CreatedAt b) \<or> IsZero (pb_UpdatedAt b) \<or> pb_Version b < 1
      then Some (Invalid ''PROVIDER_BILL_INVALID'')
      else if pb_Status b \<notin> {''matched'', ''disputed'', ''unmatched''}
      then Some (Invalid ''PROVIDER_BILL_STATE_INVALID'')
      else None)"

subsection \<open>What validity gives\<close>

lemmas yield_words = YieldWaitChildren_def YieldWaitHuman_def YieldWaitEffect_def
  RuntimeYieldOpen_def RuntimeYieldResolved_def

lemma yield_valid_resolution:
  assumes "RuntimeYield_Validate y = None"
  shows "ry_State y = RuntimeYieldOpen \<and> ry_ResolvedAt y = None \<and> ry_ResumeKey y = ''''
    \<or> ry_State y = RuntimeYieldResolved \<and> ry_ResolvedAt y \<noteq> None \<and> ry_ResumeKey y \<noteq> ''''"
  using assms unfolding RuntimeYield_Validate_def by (auto split: if_splits)

lemma yield_valid_reason:
  assumes "RuntimeYield_Validate y = None"
  shows "ry_Reason y \<in> {YieldWaitChildren, YieldWaitHuman, YieldWaitEffect}" "ry_WaitRefs y \<noteq> []"
  using assms unfolding RuntimeYield_Validate_def by (auto split: if_splits)

end
