(* ===== verification/Memory_Store.thy ===== *)
theory Memory_Store
  imports Fanout Governance Providers
begin

section \<open>The runtime store: tables, event log, outbox and reads\<close>

text \<open>
  The runtime part of the in-memory store (\<^verbatim>\<open>internal/persistence/memory/memory.go\<close>,
  \<^verbatim>\<open>runtime.go\<close>, and the event functions at the end of \<^verbatim>\<open>runtime_dispatch.go\<close>). The record
  \<open>Store\<close> has one field per \<^verbatim>\<open>runtime*\<close> map; the maps are keyed by \<open>tenant:id\<close>. Every method
  takes the mutex for its whole body, so a method is one atomic step: a function from the store
  to \<open>fault + (store \<times> result)\<close>. All checks of a method precede its first write unless its
  definition says otherwise, so the faulty result carries no store.

  The central facts are about the event log of a job (\<open>events_of\<close>) and the outbox:
  \<^item> an append gives the event the next sequence number and leaves every earlier event alone;
  \<^item> every logged event has an outbox message and a receipt for each of its subscribers.
  The tables of the domains outside the runtime are not part of the record.
  Reads that sort (\<^verbatim>\<open>sort.Slice\<close>) are given with \<open>sort_by\<close>; where the comparison leaves ties, Go
  may return any order of the tied rows and the model returns one of them.
\<close>

subsection \<open>Tables\<close>

record runtimeOutboxReceipt =
  or_TenantID :: string
  or_MessageID :: string
  or_Subscriber :: string
  or_Attempts :: int
  or_NextAttemptAt :: time
  or_LockedBy :: string
  or_LockedUntil :: "time option"
  or_DeliveredAt :: "time option"
  or_LastError :: string
  or_CreatedAt :: time

record Store =
  runtimePlans :: "JobPlanRevision gomap"
  runtimeExecutionBindings :: "ExecutionBindingSnapshot gomap"
  runtimeJobs :: "JobRun gomap"
  runtimeNodes :: "NodeRun gomap"
  runtimeFanoutSets :: "FanoutSet gomap"
  runtimeFanoutMembers :: "FanoutMember gomap"
  runtimeEvents :: "JobEvent list gomap"
  runtimeOutbox :: "RuntimeOutboxMessage gomap"
  runtimeOutboxReceipts :: "runtimeOutboxReceipt gomap"
  runtimeContextViews :: "ContextView gomap"
  runtimeAgents :: "AgentInstance gomap"
  runtimeAttempts :: "RuntimeAttempt gomap"
  runtimeStates :: "RuntimeState gomap"
  runtimeStateMutations :: "string gomap"
  runtimeCheckpoints :: "Checkpoint gomap"
  runtimeEffects :: "ExternalEffect gomap"
  runtimeProviderInbox :: "ProviderInboxMessage gomap"
  runtimeProviderRecons :: "ProviderReconciliation gomap"
  runtimeProviderBills :: "ProviderBillRecord gomap"
  runtimeYields :: "RuntimeYield gomap"
  runtimeStateCollections :: "StateCollection gomap"
  runtimeStateRecords :: "StateRecord gomap"
  runtimeToolCalls :: "ToolCall gomap"
  runtimeProjections :: "RuntimeExplorerView gomap"
  runtimeProjectionRebuilds :: "RuntimeProjectionRebuildRun gomap"
  runtimeMaintenance :: "RuntimeMaintenanceHeartbeat gomap"
  runtimeCleanupDiagnostics :: "RuntimeCleanupDiagnostic gomap"
  runtimeResourceQuotas :: "ResourceQuota gomap"
  runtimeReservations :: "ResourceReservation gomap"
  runtimeSchemas :: "RuntimeSchema gomap"

definition New :: Store where
  "New =
     \<lparr>runtimePlans = [], runtimeExecutionBindings = [], runtimeJobs = [], runtimeNodes = [],
      runtimeFanoutSets = [], runtimeFanoutMembers = [], runtimeEvents = [], runtimeOutbox = [],
      runtimeOutboxReceipts = [], runtimeContextViews = [], runtimeAgents = [],
      runtimeAttempts = [], runtimeStates = [], runtimeStateMutations = [],
      runtimeCheckpoints = [], runtimeEffects = [], runtimeProviderInbox = [],
      runtimeProviderRecons = [], runtimeProviderBills = [], runtimeYields = [],
      runtimeStateCollections = [],
      runtimeStateRecords = [], runtimeToolCalls = [], runtimeProjections = [],
      runtimeProjectionRebuilds = [], runtimeMaintenance = [], runtimeCleanupDiagnostics = [],
      runtimeResourceQuotas = [], runtimeReservations = [], runtimeSchemas = []\<rparr>"

type_synonym 'a cmd = "fault + (Store \<times> 'a)"

definition runtimePlanKey :: "string \<Rightarrow> string \<Rightarrow> string" where
  "runtimePlanKey tenantID i = tenantID @ '':'' @ i"

abbreviation runtimeNodeKey :: "string \<Rightarrow> string \<Rightarrow> string" where
  "runtimeNodeKey \<equiv> runtimePlanKey"

abbreviation runtimeEffectKey :: "string \<Rightarrow> string \<Rightarrow> string" where
  "runtimeEffectKey \<equiv> runtimePlanKey"

definition runtimeStateKey :: "string \<Rightarrow> string \<Rightarrow> string \<Rightarrow> string" where
  "runtimeStateKey tenantID jobID collection = tenantID @ '':'' @ jobID @ '':'' @ collection"

definition runtimeOutboxReceiptKey :: "string \<Rightarrow> string \<Rightarrow> string \<Rightarrow> string" where
  "runtimeOutboxReceiptKey tenantID messageID subscriber =
     tenantID @ '':'' @ messageID @ '':'' @ subscriber"

subsection \<open>Events and the outbox (runtime_dispatch.go)\<close>

definition events_of :: "Store \<Rightarrow> string \<Rightarrow> JobEvent list" where
  "events_of s jobRunID = (case mget (runtimeEvents s) jobRunID of None \<Rightarrow> [] | Some es \<Rightarrow> es)"

definition validateRuntimeEventFields :: "JobEvent \<Rightarrow> fault option" where
  "validateRuntimeEventFields e =
     (if je_ID e = '''' \<or> je_TenantID e = '''' \<or> je_JobRunID e = '''' \<or> je_Type e = ''''
       \<or> je_ActorType e = '''' \<or> IsZero (je_OccurredAt e)
      then Some (Invalid ''JOB_EVENT_INVALID'') else None)"

definition validateRuntimeEventLocked :: "Store \<Rightarrow> JobEvent \<Rightarrow> fault option" where
  "validateRuntimeEventLocked s e =
     (case validateRuntimeEventFields e of Some f \<Rightarrow> Some f | None \<Rightarrow>
       (case mget (runtimeJobs s) (runtimePlanKey (je_TenantID e) (je_JobRunID e)) of
          None \<Rightarrow> Some NotFound
        | Some job \<Rightarrow> if jr_TenantID job \<noteq> je_TenantID e then Some NotFound else None))"

text \<open>\<^verbatim>\<open>validateCommandEvent\<close> in runtime_commands.go makes the same checks in the same order.\<close>

definition validateCommandEvent :: "Store \<Rightarrow> JobEvent \<Rightarrow> fault option" where
  "validateCommandEvent s e =
     (if je_ID e = '''' \<or> je_TenantID e = '''' \<or> je_JobRunID e = '''' \<or> je_Type e = ''''
       \<or> je_ActorType e = '''' \<or> IsZero (je_OccurredAt e)
      then Some (Invalid ''JOB_EVENT_INVALID'')
      else case mget (runtimeJobs s) (runtimePlanKey (je_TenantID e) (je_JobRunID e)) of
        None \<Rightarrow> Some NotFound
      | Some job \<Rightarrow> if jr_TenantID job \<noteq> je_TenantID e then Some NotFound else None)"

definition outbox_message :: "JobEvent \<Rightarrow> RuntimeOutboxMessage" where
  "outbox_message e =
     \<lparr>om_ID = je_ID e, om_TenantID = je_TenantID e, om_EventID = je_ID e,
      om_SchemaVersion = RuntimeEventSchema, om_Topic = ''runtime.job_event'',
      om_AggregateID = je_JobRunID e,
      om_Payload = [(''event_id'', AStr (je_ID e)), (''job_run_id'', AStr (je_JobRunID e)),
        (''sequence'', AInt (je_Sequence e)), (''type'', AStr (je_Type e)),
        (''payload'', AObj (je_Payload e))],
      om_Subscriber = '''', om_Attempts = 0, om_NextAttemptAt = 0, om_LockedBy = '''',
      om_LockedUntil = None, om_DeliveredAt = None, om_LastError = '''',
      om_CreatedAt = je_OccurredAt e\<rparr>"

definition new_receipt :: "JobEvent \<Rightarrow> string \<Rightarrow> runtimeOutboxReceipt" where
  "new_receipt e subscriber =
     \<lparr>or_TenantID = je_TenantID e, or_MessageID = je_ID e, or_Subscriber = subscriber,
      or_Attempts = 0, or_NextAttemptAt = je_OccurredAt e, or_LockedBy = '''',
      or_LockedUntil = None, or_DeliveredAt = None, or_LastError = '''',
      or_CreatedAt = je_OccurredAt e\<rparr>"

definition put_new :: "string \<Rightarrow> 'v \<Rightarrow> 'v gomap \<Rightarrow> 'v gomap" where
  "put_new k v m = (if mget m k = None then mput k v m else m)"

fun enqueue_receipts ::
    "JobEvent \<Rightarrow> string list \<Rightarrow> runtimeOutboxReceipt gomap \<Rightarrow> runtimeOutboxReceipt gomap" where
  "enqueue_receipts e [] m = m"
| "enqueue_receipts e (sub # subs) m =
     enqueue_receipts e subs
       (put_new (runtimeOutboxReceiptKey (je_TenantID e) (je_ID e) sub) (new_receipt e sub) m)"

definition enqueueRuntimeOutboxLocked :: "Store \<Rightarrow> JobEvent \<Rightarrow> Store" where
  "enqueueRuntimeOutboxLocked s e =
     s\<lparr>runtimeOutbox :=
         put_new (runtimePlanKey (je_TenantID e) (je_ID e)) (outbox_message e) (runtimeOutbox s),
       runtimeOutboxReceipts :=
         enqueue_receipts e (RuntimeOutboxSubscribers (je_Type e)) (runtimeOutboxReceipts s)\<rparr>"

definition next_event :: "Store \<Rightarrow> JobEvent \<Rightarrow> JobEvent" where
  "next_event s e = e\<lparr>je_Sequence := int (length (events_of s (je_JobRunID e))) + 1\<rparr>"

definition appendRuntimeEventLocked :: "Store \<Rightarrow> JobEvent \<Rightarrow> Store" where
  "appendRuntimeEventLocked s e =
     (let e' = next_event s e in
      enqueueRuntimeOutboxLocked
        (s\<lparr>runtimeEvents :=
             mput (je_JobRunID e) (events_of s (je_JobRunID e) @ [e']) (runtimeEvents s)\<rparr>) e')"

definition find_event :: "Store \<Rightarrow> JobEvent \<Rightarrow> JobEvent option" where
  "find_event s e =
     (if je_IdempotencyKey e = '''' then None
      else find (\<lambda>x. je_IdempotencyKey x = je_IdempotencyKey e) (events_of s (je_JobRunID e)))"

definition AppendRuntimeEvent :: "JobEvent \<Rightarrow> Store \<Rightarrow> JobEvent cmd" where
  "AppendRuntimeEvent e s =
     (case find_event s e of
        Some existing \<Rightarrow> Inr (enqueueRuntimeOutboxLocked s existing, existing)
      | None \<Rightarrow>
        require (je_Sequence e = 0 \<or> je_Sequence e = int (length (events_of s (je_JobRunID e))) + 1)
          (Conflict ''JOB_EVENT_SEQUENCE_CONFLICT'') (
        check_nil (validateRuntimeEventLocked s e) (
        Inr (appendRuntimeEventLocked s e, next_event s e))))"

text \<open>\<^verbatim>\<open>JobEvents\<close> and \<^verbatim>\<open>JobEventsPage\<close>: the suffix of the log after a cursor.\<close>

definition JobEvents :: "string \<Rightarrow> string \<Rightarrow> int \<Rightarrow> Store \<Rightarrow> JobEvent list res" where
  "JobEvents tenantID jobID after s =
     (case mget (runtimeJobs s) (runtimePlanKey tenantID jobID) of
        None \<Rightarrow> Inl NotFound
      | Some job \<Rightarrow> if jr_TenantID job \<noteq> tenantID then Inl NotFound
          else Inr (filter (\<lambda>e. je_Sequence e > after) (events_of s jobID)))"

fun page_loop :: "int \<Rightarrow> int \<Rightarrow> JobEvent list \<Rightarrow> JobEvent list \<Rightarrow> JobEvent list" where
  "page_loop after limit result [] = result"
| "page_loop after limit result (e # es) =
     (if je_Sequence e \<le> after then page_loop after limit result es
      else if int (length (result @ [e])) = limit then result @ [e]
      else page_loop after limit (result @ [e]) es)"

definition JobEventsPage ::
    "string \<Rightarrow> string \<Rightarrow> int \<Rightarrow> int \<Rightarrow> Store \<Rightarrow> JobEvent list res" where
  "JobEventsPage tenantID jobID after limit s =
     (if limit < 1 then Inl (Invalid ''RUNTIME_PAGE_INVALID'')
      else case mget (runtimeJobs s) (runtimePlanKey tenantID jobID) of
        None \<Rightarrow> Inl NotFound
      | Some job \<Rightarrow> if jr_TenantID job \<noteq> tenantID then Inl NotFound
          else Inr (page_loop after limit [] (events_of s jobID)))"

subsection \<open>Pages\<close>

text \<open>
  \<^verbatim>\<open>end := after + limit\<close> is a 64-bit sum. When it wraps, \<^verbatim>\<open>values[after:end]\<close> is out of range and
  the program panics, which is the fault \<open>slice_panic\<close> here.
\<close>

definition slice_panic :: fault where
  "slice_panic = E ''panic'' ''runtime'' ''SLICE_BOUNDS_OUT_OF_RANGE'' 2"

definition memoryRuntimePage :: "'a list \<Rightarrow> int \<Rightarrow> int \<Rightarrow> ('a list \<times> bool) res" where
  "memoryRuntimePage values after limit =
     (if after < 0 \<or> limit < 1 then Inl (Invalid ''RUNTIME_PAGE_INVALID'')
      else if after \<ge> int (length values) then Inr ([], False)
      else let upper = i64 (after + limit) in
        if upper \<ge> int (length values) then Inr (drop (nat after) values, False)
        else if upper < after then Inl slice_panic
        else Inr (take (nat (upper - after)) (drop (nat after) values), True))"

subsection \<open>Plans, jobs and nodes (runtime.go)\<close>

definition CreatePlan :: "JobPlanRevision \<Rightarrow> Store \<Rightarrow> unit cmd" where
  "CreatePlan plan s =
     check_nil (JobPlanRevision_Validate plan) (
     let key = runtimePlanKey (jp_TenantID plan) (jp_ID plan) in
     require (mget (runtimePlans s) key = None) (Conflict ''JOB_PLAN_EXISTS'') (
     require (\<not> list_ex (\<lambda>c. jp_TenantID c = jp_TenantID plan \<and> jp_Digest c = jp_Digest plan)
                (mvals (runtimePlans s))) (Conflict ''JOB_PLAN_DIGEST_EXISTS'') (
     Inr (s\<lparr>runtimePlans := mput key plan (runtimePlans s)\<rparr>, ()))))"

definition Store_Plan :: "string \<Rightarrow> string \<Rightarrow> Store \<Rightarrow> JobPlanRevision res" where
  "Store_Plan tenantID i s =
     lookup_or NotFound (mget (runtimePlans s) (runtimePlanKey tenantID i)) Inr"

definition Plans :: "string \<Rightarrow> Store \<Rightarrow> JobPlanRevision list" where
  "Plans tenantID s =
     sort_by (\<lambda>a b. jp_CompiledAt a > jp_CompiledAt b)
       (filter (\<lambda>p. jp_TenantID p = tenantID) (mvals (runtimePlans s)))"

definition bundle_node :: "JobRun \<Rightarrow> NodeRun \<Rightarrow> fault option" where
  "bundle_node job n =
     (case NodeRun_Validate n of Some e \<Rightarrow> Some e | None \<Rightarrow>
       if nr_JobRunID n \<noteq> jr_ID job \<or> nr_TenantID n \<noteq> jr_TenantID job
       then Some (Invalid ''NODE_RUN_SCOPE_INVALID'') else None)"

definition node_key :: "NodeRun \<Rightarrow> string" where
  "node_key n = runtimeNodeKey (nr_TenantID n) (nr_ID n)"

definition CreateJobBundle :: "JobRun \<Rightarrow> NodeRun list \<Rightarrow> JobEvent \<Rightarrow> Store \<Rightarrow> unit cmd" where
  "CreateJobBundle job nodes event s =
     check_nil (JobRun_Validate job) (
     require (\<not> (jr_IdempotencyKey job \<noteq> '''' \<and>
        list_ex (\<lambda>c. jr_TenantID c = jr_TenantID job \<and> jr_IdempotencyKey c = jr_IdempotencyKey job)
          (mvals (runtimeJobs s)))) (Conflict ''JOB_RUN_IDEMPOTENCY'') (
     require (mget (runtimeJobs s) (runtimePlanKey (jr_TenantID job) (jr_ID job)) = None)
       (Conflict ''JOB_RUN_EXISTS'') (
     check_nil (check_all (bundle_node job) nodes) (
     require (\<not> (je_Sequence event \<noteq> 1 \<or> je_JobRunID event \<noteq> jr_ID job
                 \<or> je_TenantID event \<noteq> jr_TenantID job)) (Invalid ''JOB_EVENT_SEQUENCE_INVALID'') (
     check_nil (validateRuntimeEventFields event) (
     Inr (appendRuntimeEventLocked
       (s\<lparr>runtimeJobs := mput (runtimePlanKey (jr_TenantID job) (jr_ID job)) job (runtimeJobs s),
          runtimeNodes := mput_all node_key nodes (runtimeNodes s)\<rparr>) event, ())))))))"

definition Store_JobRun :: "string \<Rightarrow> string \<Rightarrow> Store \<Rightarrow> JobRun res" where
  "Store_JobRun tenantID i s =
     lookup_or NotFound (mget (runtimeJobs s) (runtimePlanKey tenantID i)) Inr"

definition JobRunByIdempotencyKey :: "string \<Rightarrow> string \<Rightarrow> Store \<Rightarrow> JobRun res" where
  "JobRunByIdempotencyKey tenantID key s =
     lookup_or NotFound
       (find (\<lambda>j. jr_TenantID j = tenantID \<and> jr_IdempotencyKey j = key) (mvals (runtimeJobs s))) Inr"

definition JobRuns :: "string \<Rightarrow> string \<Rightarrow> Store \<Rightarrow> JobRun list" where
  "JobRuns tenantID taskID s =
     sort_by (\<lambda>a b. jr_CreatedAt a > jr_CreatedAt b)
       (filter (\<lambda>j. jr_TenantID j = tenantID \<and> (taskID = '''' \<or> jr_WorkTaskID j = taskID))
         (mvals (runtimeJobs s)))"

definition JobRunsPage ::
    "string \<Rightarrow> string \<Rightarrow> string \<Rightarrow> int \<Rightarrow> int \<Rightarrow> Store \<Rightarrow> (JobRun list \<times> bool) res" where
  "JobRunsPage tenantID projectID state after limit s =
     memoryRuntimePage
       (sort_by (\<lambda>a b. if jr_UpdatedAt a = jr_UpdatedAt b then jr_ID a > jr_ID b
                       else jr_UpdatedAt a > jr_UpdatedAt b)
         (filter (\<lambda>j. jr_TenantID j = tenantID \<and> (projectID = '''' \<or> jr_ProjectID j = projectID)
                   \<and> (state = '''' \<or> job_state_str (jr_State j) = state)) (mvals (runtimeJobs s))))
       after limit"

definition NodeRuns :: "string \<Rightarrow> string \<Rightarrow> Store \<Rightarrow> NodeRun list" where
  "NodeRuns tenantID jobID s =
     sort_by (\<lambda>a b. nr_CreatedAt a < nr_CreatedAt b)
       (filter (\<lambda>n. nr_TenantID n = tenantID \<and> (jobID = '''' \<or> nr_JobRunID n = jobID))
         (mvals (runtimeNodes s)))"

definition NodeRunsPage ::
    "string \<Rightarrow> string \<Rightarrow> int \<Rightarrow> int \<Rightarrow> Store \<Rightarrow> (NodeRun list \<times> bool) res" where
  "NodeRunsPage tenantID jobID after limit s =
     memoryRuntimePage
       (sort_by (\<lambda>a b. if nr_CreatedAt a = nr_CreatedAt b then nr_ID a < nr_ID b
                       else nr_CreatedAt a < nr_CreatedAt b)
         (filter (\<lambda>n. nr_TenantID n = tenantID \<and> nr_JobRunID n = jobID) (mvals (runtimeNodes s))))
       after limit"

definition Store_NodeRun :: "string \<Rightarrow> string \<Rightarrow> Store \<Rightarrow> NodeRun res" where
  "Store_NodeRun tenantID i s =
     lookup_or NotFound (mget (runtimeNodes s) (runtimeNodeKey tenantID i)) Inr"

subsection \<open>Context views and agents (runtime.go)\<close>

fun view_clash :: "ContextView \<Rightarrow> ContextView list \<Rightarrow> fault option" where
  "view_clash v [] = None"
| "view_clash v (x # xs) =
     (if cv_TenantID x = cv_TenantID v \<and> cv_Digest x = cv_Digest v
      then Some (Conflict ''CONTEXT_VIEW_DIGEST_EXISTS'')
      else if cv_TenantID x = cv_TenantID v \<and> cv_NodeRunID x = cv_NodeRunID v
              \<and> cv_AttemptID x = cv_AttemptID v
      then Some (Conflict ''CONTEXT_VIEW_ATTEMPT_EXISTS'')
      else view_clash v xs)"

definition validateNewContextViewLocked :: "Store \<Rightarrow> ContextView \<Rightarrow> fault option" where
  "validateNewContextViewLocked s v =
     (if mget (runtimeContextViews s) (runtimePlanKey (cv_TenantID v) (cv_ID v)) \<noteq> None
      then Some (Conflict ''CONTEXT_VIEW_EXISTS'')
      else view_clash v (mvals (runtimeContextViews s)))"

definition CreateContextView :: "ContextView \<Rightarrow> Store \<Rightarrow> unit cmd" where
  "CreateContextView v s =
     check_nil (ContextView_Validate v) (
     check_nil (validateNewContextViewLocked s v) (
     Inr (s\<lparr>runtimeContextViews :=
       mput (runtimePlanKey (cv_TenantID v) (cv_ID v)) v (runtimeContextViews s)\<rparr>, ())))"

definition Store_ContextView :: "string \<Rightarrow> string \<Rightarrow> Store \<Rightarrow> ContextView res" where
  "Store_ContextView tenantID i s =
     lookup_or NotFound (mget (runtimeContextViews s) (runtimePlanKey tenantID i)) Inr"

definition runtimeStringSubset :: "string list \<Rightarrow> string list \<Rightarrow> bool" where
  "runtimeStringSubset candidate allowed = list_all (\<lambda>x. x \<in> set allowed) candidate"

text \<open>
  The check of a child agent against its parent: same job, next depth, enough descendants and
  budget left, and tools that the parent's view allows.
\<close>

definition parent_allows :: "Store \<Rightarrow> AgentInstance \<Rightarrow> AgentInstance \<Rightarrow> bool" where
  "parent_allows s parent child =
     (case (mget (runtimeContextViews s) (runtimePlanKey (ai_TenantID child) (ai_ContextViewID parent)),
            mget (runtimeContextViews s) (runtimePlanKey (ai_TenantID child) (ai_ContextViewID child))) of
        (Some parentView, Some childView) \<Rightarrow>
          \<not> (ai_JobRunID parent \<noteq> ai_JobRunID child \<or> ai_Depth child \<noteq> ai_Depth parent + 1
             \<or> ai_RemainingDescendants parent < i64 (1 + ai_RemainingDescendants child)
             \<or> ai_BudgetMinor child > ai_BudgetMinor parent - ai_UsedCostMinor parent
             \<or> \<not> runtimeStringSubset (cv_AllowedTools childView) (cv_AllowedTools parentView))
      | _ \<Rightarrow> False)"

definition CreateAgentInstance :: "AgentInstance \<Rightarrow> Store \<Rightarrow> unit cmd" where
  "CreateAgentInstance a s =
     check_nil (AgentInstance_Validate a) (
     let key = runtimePlanKey (ai_TenantID a) (ai_ID a) in
     require (mget (runtimeAgents s) key = None) (Conflict ''AGENT_INSTANCE_EXISTS'') (
     require (\<not> list_ex (\<lambda>x. ai_TenantID x = ai_TenantID a \<and> ai_ContextViewID x = ai_ContextViewID a)
                (mvals (runtimeAgents s))) (Conflict ''AGENT_INSTANCE_CONTEXT_EXISTS'') (
     if ai_ParentAgentInstanceID a = ''''
     then Inr (s\<lparr>runtimeAgents := mput key a (runtimeAgents s)\<rparr>, ())
     else
       let parentKey = runtimePlanKey (ai_TenantID a) (ai_ParentAgentInstanceID a) in
       lookup_or NotFound (mget (runtimeAgents s) parentKey) (\<lambda>parent.
       require (parent_allows s parent a) (Conflict ''AGENT_INSTANCE_PARENT_CONFLICT'') (
       let parent' = parent\<lparr>ai_RemainingDescendants :=
                        i64 (ai_RemainingDescendants parent - i64 (1 + ai_RemainingDescendants a)),
                      ai_Version := ai_Version parent + 1, ai_UpdatedAt := ai_CreatedAt a\<rparr> in
       Inr (s\<lparr>runtimeAgents := mput key a (mput parentKey parent' (runtimeAgents s))\<rparr>, ()))))))"

definition Store_AgentInstance :: "string \<Rightarrow> string \<Rightarrow> Store \<Rightarrow> AgentInstance res" where
  "Store_AgentInstance tenantID i s =
     lookup_or NotFound (mget (runtimeAgents s) (runtimePlanKey tenantID i)) Inr"

definition SaveAgentInstance :: "AgentInstance \<Rightarrow> int \<Rightarrow> Store \<Rightarrow> unit cmd" where
  "SaveAgentInstance a expectedVersion s =
     check_nil (AgentInstance_Validate a) (
     let key = runtimePlanKey (ai_TenantID a) (ai_ID a) in
     lookup_or NotFound (mget (runtimeAgents s) key) (\<lambda>old.
     require (ai_Version old = expectedVersion) (Conflict ''AGENT_INSTANCE_VERSION_CONFLICT'') (
     Inr (s\<lparr>runtimeAgents := mput key a (runtimeAgents s)\<rparr>, ()))))"

subsection \<open>Checkpoints and effects (runtime.go)\<close>

definition CreateCheckpoint :: "Checkpoint \<Rightarrow> Store \<Rightarrow> unit cmd" where
  "CreateCheckpoint c s =
     require (\<not> (cp_ID c = '''' \<or> cp_TenantID c = '''' \<or> cp_JobRunID c = '''' \<or> cp_Digest c = ''''))
       (Invalid ''CHECKPOINT_INVALID'') (
     let key = runtimePlanKey (cp_TenantID c) (cp_ID c) in
     require (mget (runtimeCheckpoints s) key = None) (Conflict ''CHECKPOINT_EXISTS'') (
     Inr (s\<lparr>runtimeCheckpoints := mput key c (runtimeCheckpoints s)\<rparr>, ())))"

definition Store_Checkpoint :: "string \<Rightarrow> string \<Rightarrow> Store \<Rightarrow> Checkpoint res" where
  "Store_Checkpoint tenantID i s =
     lookup_or NotFound (mget (runtimeCheckpoints s) (runtimePlanKey tenantID i)) Inr"

definition Checkpoints :: "string \<Rightarrow> string \<Rightarrow> Store \<Rightarrow> Checkpoint list" where
  "Checkpoints tenantID jobID s =
     sort_by (\<lambda>a b. cp_CreatedAt a > cp_CreatedAt b)
       (filter (\<lambda>c. cp_TenantID c = tenantID \<and> (jobID = '''' \<or> cp_JobRunID c = jobID))
         (mvals (runtimeCheckpoints s)))"

definition Store_Effect :: "string \<Rightarrow> string \<Rightarrow> Store \<Rightarrow> ExternalEffect res" where
  "Store_Effect tenantID i s =
     lookup_or NotFound (mget (runtimeEffects s) (runtimeEffectKey tenantID i)) Inr"

definition EffectByIdempotencyKey :: "string \<Rightarrow> string \<Rightarrow> Store \<Rightarrow> ExternalEffect res" where
  "EffectByIdempotencyKey tenantID key s =
     lookup_or NotFound
       (find (\<lambda>e. ee_TenantID e = tenantID \<and> ee_IdempotencyKey e = key) (mvals (runtimeEffects s))) Inr"

definition Effects :: "string \<Rightarrow> string \<Rightarrow> Store \<Rightarrow> ExternalEffect list" where
  "Effects tenantID jobID s =
     sort_by (\<lambda>a b. ee_CreatedAt a < ee_CreatedAt b)
       (filter (\<lambda>e. ee_TenantID e = tenantID \<and> (jobID = '''' \<or> ee_JobRunID e = jobID))
         (mvals (runtimeEffects s)))"

subsection \<open>A small store\<close>

text \<open>One running job with two nodes, created through \<open>CreateJobBundle\<close>, and a root agent.\<close>

definition ex_digest :: string where
  "ex_digest = ''sha256:'' @ replicate 64 CHR ''a''"

definition ex_job :: JobRun where
  "ex_job =
     \<lparr>jr_ID = ''j'', jr_TenantID = ''t'', jr_ProjectID = ''p'', jr_WorkTaskID = ''w'',
      jr_BusinessType = '''', jr_InputSnapshotID = '''', jr_BusinessOutputCount = 0,
      jr_PlanRevisionID = ''p1'', jr_PlanDigest = ex_digest, jr_BindingDigest = ex_digest,
      jr_InputDigest = ex_digest, jr_RuntimePolicyID = ''pol'', jr_ContractMajor = 1,
      jr_ContractMinor = 0, jr_RootJobRunID = ''j'', jr_SourceJobRunID = '''',
      jr_CheckpointID = '''', jr_IdempotencyKey = ''k'', jr_State = JobRunRunning,
      jr_Priority = 0, jr_Version = 1, jr_ErrorCode = '''', jr_CreatedBy = ''u'',
      jr_CreatedAt = 1, jr_UpdatedAt = 1\<rparr>"

definition ex_noderun :: "string \<Rightarrow> string \<Rightarrow> node_state \<Rightarrow> NodeRun" where
  "ex_noderun i key st =
     \<lparr>nr_ID = i, nr_TenantID = ''t'', nr_JobRunID = ''j'', nr_NodeKey = key, nr_State = st,
      nr_AttemptCount = 0, nr_OutputRefs = [], nr_OutputDigest = '''', nr_ErrorCode = '''',
      nr_LeaseOwner = '''', nr_FenceToken = '''', nr_LeaseExpiresAt = None, nr_Version = 1,
      nr_CreatedAt = 1, nr_UpdatedAt = 1\<rparr>"

definition ex_event :: "string \<Rightarrow> string \<Rightarrow> JobEvent" where
  "ex_event i ty =
     \<lparr>je_ID = i, je_TenantID = ''t'', je_JobRunID = ''j'', je_Sequence = 1, je_Type = ty,
      je_NodeKey = '''', je_ActorType = ''runtime'', je_ActorID = ''r'', je_CorrelationID = '''',
      je_IdempotencyKey = '''', je_Payload = [], je_OccurredAt = 1\<rparr>"

text \<open>Running a command for its effect on the store.\<close>

definition run_cmd :: "(Store \<Rightarrow> 'a cmd) \<Rightarrow> Store \<Rightarrow> Store" where
  "run_cmd c s = (case c s of Inr (s', _) \<Rightarrow> s' | Inl _ \<Rightarrow> s)"

lemma run_cmd_ok: "\<not> isl (c s) \<Longrightarrow> \<exists>r. c s = Inr (run_cmd c s, r)"
  by (cases "c s") (auto simp: run_cmd_def)

definition ex_store :: Store where
  "ex_store =
     (case CreateJobBundle ex_job [ex_noderun ''na'' ''a'' NodeReady, ex_noderun ''nb'' ''b'' NodePending]
             (ex_event ''e0'' ''job.created'') New of
        Inr (s, _) \<Rightarrow> s | Inl _ \<Rightarrow> New)"

definition ex_view :: "string \<Rightarrow> ContextView" where
  "ex_view i =
     \<lparr>cv_ID = i, cv_TenantID = ''t'', cv_JobRunID = ''j'', cv_NodeRunID = ''na'', cv_AttemptID = i,
      cv_SchemaVersion = ContextViewSchema, cv_InputRefs = [], cv_StateRefs = [],
      cv_EventRefs = [], cv_AllowedTools = [''read''], cv_MaxTokens = 10, cv_BudgetMinor = 10,
      cv_Digest = i, cv_CreatedAt = 1, cv_ExpiresAt = 100\<rparr>"

definition ex_agent :: "string \<Rightarrow> string \<Rightarrow> string \<Rightarrow> int \<Rightarrow> int \<Rightarrow> AgentInstance" where
  "ex_agent i view parent depth rem =
     \<lparr>ai_ID = i, ai_TenantID = ''t'', ai_JobRunID = ''j'', ai_NodeRunID = ''na'',
      ai_ParentAgentInstanceID = parent, ai_Role = ''worker'', ai_HarnessKind = ''h'',
      ai_SessionRef = '''', ai_ExecutionProfileID = ''x'', ai_ContextViewID = view,
      ai_State = AgentCreated, ai_Depth = depth, ai_RemainingDescendants = rem,
      ai_BudgetMinor = 5, ai_UsedCostMinor = 0, ai_Version = 1, ai_CreatedAt = 1,
      ai_UpdatedAt = 1\<rparr>"

definition ex_agents :: Store where
  "ex_agents = New\<lparr>
     runtimeContextViews := [(''t:vp'', ex_view ''vp''), (''t:vc'', ex_view ''vc'')],
     runtimeAgents := [(''t:p'', ex_agent ''p'' ''vp'' '''' 0 10)]\<rparr>"

subsection \<open>The event log only grows\<close>

lemma plan_key_inj: "plain_id t \<Longrightarrow> plain_id t' \<Longrightarrow> runtimePlanKey t i = runtimePlanKey t' i' \<longleftrightarrow> t = t' \<and> i = i'"
  by (simp add: runtimePlanKey_def plain_id_def split_at_first)

lemma append_tables [simp]:
  "runtimePlans (appendRuntimeEventLocked s e) = runtimePlans s"
  "runtimeJobs (appendRuntimeEventLocked s e) = runtimeJobs s"
  "runtimeNodes (appendRuntimeEventLocked s e) = runtimeNodes s"
  "runtimeFanoutSets (appendRuntimeEventLocked s e) = runtimeFanoutSets s"
  "runtimeFanoutMembers (appendRuntimeEventLocked s e) = runtimeFanoutMembers s"
  "runtimeContextViews (appendRuntimeEventLocked s e) = runtimeContextViews s"
  "runtimeAgents (appendRuntimeEventLocked s e) = runtimeAgents s"
  "runtimeAttempts (appendRuntimeEventLocked s e) = runtimeAttempts s"
  "runtimeStates (appendRuntimeEventLocked s e) = runtimeStates s"
  "runtimeStateMutations (appendRuntimeEventLocked s e) = runtimeStateMutations s"
  "runtimeEffects (appendRuntimeEventLocked s e) = runtimeEffects s"
  "runtimeResourceQuotas (appendRuntimeEventLocked s e) = runtimeResourceQuotas s"
  "runtimeReservations (appendRuntimeEventLocked s e) = runtimeReservations s"
  "runtimeStateCollections (appendRuntimeEventLocked s e) = runtimeStateCollections s"
  "runtimeStateRecords (appendRuntimeEventLocked s e) = runtimeStateRecords s"
  "runtimeToolCalls (appendRuntimeEventLocked s e) = runtimeToolCalls s"
  "runtimeProviderInbox (appendRuntimeEventLocked s e) = runtimeProviderInbox s"
  "runtimeProviderRecons (appendRuntimeEventLocked s e) = runtimeProviderRecons s"
  "runtimeProviderBills (appendRuntimeEventLocked s e) = runtimeProviderBills s"
  "runtimeYields (appendRuntimeEventLocked s e) = runtimeYields s"
  "runtimeProjections (appendRuntimeEventLocked s e) = runtimeProjections s"
  "runtimeExecutionBindings (appendRuntimeEventLocked s e) = runtimeExecutionBindings s"
  "runtimeSchemas (appendRuntimeEventLocked s e) = runtimeSchemas s"
  by (simp_all add: appendRuntimeEventLocked_def enqueueRuntimeOutboxLocked_def Let_def)

lemma events_of_cong: "runtimeEvents s' = runtimeEvents s \<Longrightarrow> events_of s' = events_of s"
  by (simp add: events_of_def fun_eq_iff)

lemma events_of_append:
  "events_of (appendRuntimeEventLocked s e) j =
     events_of s j @ (if j = je_JobRunID e then [next_event s e] else [])"
  by (simp add: appendRuntimeEventLocked_def enqueueRuntimeOutboxLocked_def Let_def events_of_def
      next_event_def split: option.split)

text \<open>An event has been handed to the outbox: its message exists, and a receipt per subscriber.\<close>

definition enqueued :: "Store \<Rightarrow> JobEvent \<Rightarrow> bool" where
  "enqueued s e =
     (mget (runtimeOutbox s) (runtimePlanKey (je_TenantID e) (je_ID e)) \<noteq> None
      \<and> (\<forall>sub \<in> set (RuntimeOutboxSubscribers (je_Type e)).
          mget (runtimeOutboxReceipts s) (runtimeOutboxReceiptKey (je_TenantID e) (je_ID e) sub) \<noteq> None))"

lemma put_new_some: "mget (put_new k v m) k' \<noteq> None \<longleftrightarrow> k' = k \<or> mget m k' \<noteq> None"
  by (auto simp: put_new_def)

lemma enqueue_receipts_some:
  "mget (enqueue_receipts e subs m) k \<noteq> None \<longleftrightarrow>
     k \<in> runtimeOutboxReceiptKey (je_TenantID e) (je_ID e) ` set subs \<or> mget m k \<noteq> None"
  by (induction e subs m rule: enqueue_receipts.induct) (auto simp: put_new_def)

lemma enqueued_enqueue: "enqueued s x \<or> x = e \<Longrightarrow> enqueued (enqueueRuntimeOutboxLocked s e) x"
  unfolding enqueued_def enqueueRuntimeOutboxLocked_def
  by (auto simp: put_new_some enqueue_receipts_some simp del: not_None_eq)

lemma enqueued_append:
  "enqueued s x \<or> x = next_event s e \<Longrightarrow> enqueued (appendRuntimeEventLocked s e) x"
  unfolding appendRuntimeEventLocked_def Let_def
  by (rule enqueued_enqueue) (simp add: enqueued_def)

definition log_grows :: "Store \<Rightarrow> Store \<Rightarrow> bool" where
  "log_grows s s' =
     ((\<forall>j. \<exists>new. events_of s' j = events_of s j @ new
          \<and> (\<forall>i < length new. je_Sequence (new ! i) = int (length (events_of s j) + i) + 1
               \<and> je_JobRunID (new ! i) = j)
          \<and> (\<forall>e \<in> set new. enqueued s' e))
      \<and> (\<forall>e. enqueued s e \<longrightarrow> enqueued s' e))"

lemma log_grows_refl [simp]: "log_grows s s"
  by (simp add: log_grows_def)

lemma log_grows_trans:
  assumes "log_grows s s1" and "log_grows s1 s2"
  shows "log_grows s s2"
proof -
  have "\<exists>new. events_of s2 j = events_of s j @ new
          \<and> (\<forall>i < length new. je_Sequence (new ! i) = int (length (events_of s j) + i) + 1
               \<and> je_JobRunID (new ! i) = j) \<and> (\<forall>e \<in> set new. enqueued s2 e)" for j
  proof -
    obtain n1 where n1: "events_of s1 j = events_of s j @ n1"
      "\<forall>i < length n1. je_Sequence (n1 ! i) = int (length (events_of s j) + i) + 1 \<and> je_JobRunID (n1 ! i) = j"
      "\<forall>e \<in> set n1. enqueued s1 e"
      using assms(1) unfolding log_grows_def by blast
    obtain n2 where n2: "events_of s2 j = events_of s1 j @ n2"
      "\<forall>i < length n2. je_Sequence (n2 ! i) = int (length (events_of s1 j) + i) + 1 \<and> je_JobRunID (n2 ! i) = j"
      "\<forall>e \<in> set n2. enqueued s2 e"
      using assms(2) unfolding log_grows_def by blast
    have "\<forall>e \<in> set n1. enqueued s2 e" using n1(3) assms(2) unfolding log_grows_def by blast
    moreover have "je_Sequence ((n1 @ n2) ! i) = int (length (events_of s j) + i) + 1
        \<and> je_JobRunID ((n1 @ n2) ! i) = j" if "i < length (n1 @ n2)" for i
      using that n1(1,2) n2(2) by (auto simp: nth_append)
    ultimately show ?thesis
      using n1(1) n2(1,3) by (intro exI [of _ "n1 @ n2"]) auto
  qed
  moreover have "\<forall>e. enqueued s e \<longrightarrow> enqueued s2 e"
    using assms unfolding log_grows_def by blast
  ultimately show ?thesis unfolding log_grows_def by blast
qed

lemma log_grows_same:
  "runtimeEvents s' = runtimeEvents s \<Longrightarrow> runtimeOutbox s' = runtimeOutbox s \<Longrightarrow>
   runtimeOutboxReceipts s' = runtimeOutboxReceipts s \<Longrightarrow> log_grows s s'"
  by (simp add: log_grows_def events_of_def enqueued_def)

lemma log_grows_append: "log_grows s (appendRuntimeEventLocked s e)"
  unfolding log_grows_def events_of_append
  using enqueued_append [of s _ e] by (auto simp: next_event_def)

text \<open>The shape of most commands: update tables other than the log, then append one event.\<close>

lemma log_grows_command [intro]:
  "runtimeEvents s1 = runtimeEvents s \<Longrightarrow> runtimeOutbox s1 = runtimeOutbox s \<Longrightarrow>
   runtimeOutboxReceipts s1 = runtimeOutboxReceipts s \<Longrightarrow> log_grows s (appendRuntimeEventLocked s1 e)"
  using log_grows_trans log_grows_same log_grows_append by blast

lemma log_grows_enqueue: "log_grows s (enqueueRuntimeOutboxLocked s e)"
proof -
  have "events_of (enqueueRuntimeOutboxLocked s e) = events_of s"
    by (rule events_of_cong) (simp add: enqueueRuntimeOutboxLocked_def)
  then show ?thesis unfolding log_grows_def using enqueued_enqueue by simp
qed

subsection \<open>Interface: an append-only log\<close>

text \<open>
  What a client of the log may rely on: a step adds numbered events at the end of each job's
  log and touches nothing before them. The lemmas give the client its guarantees over any
  number of steps: an event once read stays where it is, and numbering stays gap-free.
\<close>

definition contiguous :: "JobEvent list \<Rightarrow> bool" where
  "contiguous es = (\<forall>i < length es. je_Sequence (es ! i) = int i + 1)"

locale event_log =
  fixes events :: "'st \<Rightarrow> string \<Rightarrow> JobEvent list"
    and step :: "'st \<Rightarrow> 'st \<Rightarrow> bool"
  assumes step_appends: "step s s' \<Longrightarrow> \<exists>new. events s' j = events s j @ new
    \<and> (\<forall>i < length new. je_Sequence (new ! i) = int (length (events s j) + i) + 1)"
begin

lemma step_contiguous: "step s s' \<Longrightarrow> contiguous (events s j) \<Longrightarrow> contiguous (events s' j)"
  using step_appends [of s s' j] by (auto simp: contiguous_def nth_append)

lemma run_contiguous: "step\<^sup>*\<^sup>* s s' \<Longrightarrow> contiguous (events s j) \<Longrightarrow> contiguous (events s' j)"
  by (induction rule: rtranclp_induct) (auto intro: step_contiguous)

lemma run_prefix: "step\<^sup>*\<^sup>* s s' \<Longrightarrow> \<exists>new. events s' j = events s j @ new"
proof (induction rule: rtranclp_induct)
  case (step s1 s2)
  then show ?case using step_appends [of s1 s2 j] by auto
qed simp

lemma run_event_stable:
  "step\<^sup>*\<^sup>* s s' \<Longrightarrow> i < length (events s j) \<Longrightarrow> events s' j ! i = events s j ! i"
  using run_prefix [of s s' j] by (auto simp: nth_append)

end

interpretation store_log: event_log events_of log_grows
  by unfold_locales (unfold log_grows_def, blast)

subsection \<open>Reading the log by cursor\<close>

lemma contiguous_filter:
  assumes "contiguous es" and "0 \<le> after"
  shows "filter (\<lambda>e. je_Sequence e > after) es = drop (nat after) es"
proof -
  have "filter (\<lambda>e. je_Sequence e > after) xs = drop (nat (after - int k)) xs"
    if "\<forall>i < length xs. je_Sequence (xs ! i) = int (k + i) + 1" "int k \<le> after \<or> k > nat after" for xs k
    using that
  proof (induction xs arbitrary: k)
    case (Cons x xs)
    have x: "je_Sequence x = int k + 1" using Cons.prems(1) by force
    have rest: "\<forall>i < length xs. je_Sequence (xs ! i) = int (Suc k + i) + 1"
      using Cons.prems(1) by (metis Suc_less_eq add_Suc_shift length_Cons nth_Cons_Suc)
    have ih: "filter (\<lambda>e. je_Sequence e > after) xs = drop (nat (after - int (Suc k))) xs"
      by (rule Cons.IH [OF rest]) (use assms(2) in linarith)
    show ?case
    proof (cases "int k + 1 > after")
      case True
      then have "nat (after - int k) = 0" "nat (after - int (Suc k)) = 0" by simp_all
      then show ?thesis using ih x True by simp
    next
      case False
      then have "nat (after - int k) = Suc (nat (after - int (Suc k)))" by simp
      then show ?thesis using ih x False by simp
    qed
  qed simp
  from this [of es 0] show ?thesis using assms by (simp add: contiguous_def)
qed

lemma page_loop_filter:
  "int (length acc) < limit \<Longrightarrow>
   page_loop after limit acc es =
     acc @ take (nat (limit - int (length acc))) (filter (\<lambda>e. je_Sequence e > after) es)"
proof (induction after limit acc es rule: page_loop.induct)
  case (2 after limit acc e es)
  show ?case
  proof (cases "je_Sequence e \<le> after")
    case True
    then show ?thesis using 2 by simp
  next
    case False
    show ?thesis
    proof (cases "int (length (acc @ [e])) = limit")
      case True
      then have "nat (limit - int (length acc)) = 1" by simp
      then show ?thesis using True False by simp
    next
      case ne: False
      then have "nat (limit - int (length acc)) = Suc (nat (limit - int (length (acc @ [e]))))"
        using "2.prems" by simp
      then show ?thesis using "2.IH"(2) [OF _ ne] "2.prems" ne False by simp
    qed
  qed
qed simp

subsection \<open>Properties\<close>

definition agent_quota :: "Store \<Rightarrow> int" where
  "agent_quota s = (\<Sum>a \<leftarrow> mvals (runtimeAgents s). 1 + ai_RemainingDescendants a)"


text \<open>
  Reading the event log by cursor neither skips nor repeats: on a gap-free log the page after
  sequence number \<open>after\<close> is exactly the next \<open>limit\<close> events, in order, so a reader that moves its
  cursor to the last sequence it saw sees every event once.
\<close>

theorem events_page_exact:
  assumes "contiguous (events_of s jobID)" and "0 \<le> after" and "1 \<le> limit"
    and "mget (runtimeJobs s) (runtimePlanKey tenantID jobID) = Some job" and "jr_TenantID job = tenantID"
  shows "JobEventsPage tenantID jobID after limit s
           = Inr (take (nat limit) (drop (nat after) (events_of s jobID)))
    \<and> JobEvents tenantID jobID after s = Inr (drop (nat after) (events_of s jobID))"
  using assms by (simp add: JobEventsPage_def JobEvents_def page_loop_filter contiguous_filter)

theorem events_page_exact_witness:
  "JobEventsPage ''t'' ''j'' 0 5 ex_store = Inr (events_of ex_store ''j'')
   \<and> length (events_of ex_store ''j'') = 1"
proof -
  have e: "events_of ex_store ''j'' = [ex_event ''e0'' ''job.created'']" by code_simp
  have j: "mget (runtimeJobs ex_store) (runtimePlanKey ''t'' ''j'') = Some ex_job" by code_simp
  have "contiguous (events_of ex_store ''j'')" by (simp add: e contiguous_def ex_event_def)
  from events_page_exact [OF this _ _ j, of 0 5] show ?thesis by (simp add: e ex_job_def)
qed

text \<open>
  A page of a listing is the stretch of \<open>limit\<close> rows after \<open>after\<close>, and the flag says exactly
  whether rows remain, so consecutive pages tile the listing. The sum \<open>after + limit\<close> must fit in
  64 bits: otherwise it wraps and the slice expression panics.
\<close>

theorem runtime_page_tiles:
  assumes "0 \<le> after" and "1 \<le> limit" and "after + limit < 2 ^ 63"
  shows "memoryRuntimePage xs after limit =
    Inr (take (nat limit) (drop (nat after) xs), after + limit < int (length xs))"
proof -
  have "i64 (after + limit) = after + limit" using assms by (intro i64_id) simp_all
  moreover have "nat (after + limit - after) = nat limit" by simp
  moreover have "int (length xs) \<le> after + limit \<Longrightarrow> take (nat limit) (drop (nat after) xs) = drop (nat after) xs"
  proof (rule take_all)
    assume "int (length xs) \<le> after + limit"
    then have "length xs \<le> nat (after + limit)" by (simp add: le_nat_iff)
    then show "length (drop (nat after) xs) \<le> nat limit" using assms(1,2) by (simp add: nat_add_distrib)
  qed
  moreover have "int (length xs) \<le> after \<Longrightarrow> drop (nat after) xs = []"
    using assms(1) by simp
  ultimately show ?thesis using assms unfolding memoryRuntimePage_def by (auto simp: Let_def)
qed

theorem runtime_page_tiles_witness:
  "memoryRuntimePage [10, 20, 30 :: int] 1 1 = Inr ([20], True)
   \<and> memoryRuntimePage [10, 20, 30 :: int] 2 1 = Inr ([30], False)"
  using runtime_page_tiles [of 1 1 "[10, 20, 30 :: int]"] runtime_page_tiles [of 2 1 "[10, 20, 30 :: int]"]
  by (simp add: numeral_eq_Suc)

text \<open>
  C30. Descendant quotas are conserved: when the quota of the new child is below the largest 64-bit integer, creating
  it moves quota from the parent, which had it and keeps the rest, to the child. The sum over all agents of one plus
  the remaining descendants stays the same, so a root with quota \<open>n\<close> has at most \<open>n\<close> descendants however they are
  spawned. For a child with the largest quota itself the sum \<open>1 + quota\<close> wraps and the guard is void
  (\<open>descendant_quota_wraps\<close>).
\<close>

theorem descendant_quota_conserved:
  assumes "CreateAgentInstance a s = Inr (s', u)" and "ai_ParentAgentInstanceID a \<noteq> ''''"
    and "wf_map (runtimeAgents s)" and "ai_RemainingDescendants a < 2 ^ 63 - 1"
    and "\<forall>p \<in> set (mvals (runtimeAgents s)). ai_RemainingDescendants p < 2 ^ 63"
  shows "agent_quota s' = agent_quota s
    \<and> (\<exists>p p'. mget (runtimeAgents s) (runtimePlanKey (ai_TenantID a) (ai_ParentAgentInstanceID a)) = Some p
        \<and> mget (runtimeAgents s') (runtimePlanKey (ai_TenantID a) (ai_ParentAgentInstanceID a)) = Some p'
        \<and> 1 + ai_RemainingDescendants a \<le> ai_RemainingDescendants p
        \<and> ai_RemainingDescendants p' = ai_RemainingDescendants p - (1 + ai_RemainingDescendants a))"
proof -
  let ?key = "runtimePlanKey (ai_TenantID a) (ai_ID a)"
  let ?pkey = "runtimePlanKey (ai_TenantID a) (ai_ParentAgentInstanceID a)"
  obtain p where valid: "AgentInstance_Validate a = None" and new: "mget (runtimeAgents s) ?key = None"
    and p: "mget (runtimeAgents s) ?pkey = Some p" and ok: "parent_allows s p a"
    and s': "s\<lparr>runtimeAgents := mput ?key a (mput ?pkey
       (p\<lparr>ai_RemainingDescendants := i64 (ai_RemainingDescendants p - i64 (1 + ai_RemainingDescendants a)),
          ai_Version := ai_Version p + 1, ai_UpdatedAt := ai_CreatedAt a\<rparr>) (runtimeAgents s))\<rparr> = s'"
    using assms(1) unfolding CreateAgentInstance_def Let_def if_not_P [OF assms(2)]
      require_Inr check_nil_Inr lookup_or_Inr sum.inject prod.inject
    by (elim exE conjE) (rule that; assumption)
  have "0 \<le> ai_RemainingDescendants a"
    using valid unfolding AgentInstance_Validate_def validate_simps by linarith
  then have a1: "i64 (1 + ai_RemainingDescendants a) = 1 + ai_RemainingDescendants a"
    using assms(4) by (intro i64_id) simp_all
  have "1 + ai_RemainingDescendants a \<le> ai_RemainingDescendants p"
    using ok a1 by (auto simp: parent_allows_def split: option.splits)
  note had = this
  moreover have "ai_RemainingDescendants p < 2 ^ 63" using assms(5) mget_vals [OF p] by (rule bspec)
  ultimately have a2: "i64 (ai_RemainingDescendants p - (1 + ai_RemainingDescendants a))
      = ai_RemainingDescendants p - (1 + ai_RemainingDescendants a)"
    using \<open>0 \<le> ai_RemainingDescendants a\<close> by (intro i64_id) simp_all
  have "?key \<noteq> ?pkey" using new p by auto
  then show ?thesis
    using new p assms(3)
    using had by (simp add: agent_quota_def s' [symmetric] a1 a2 sum_mput_new sum_mput_old [OF assms(3) p])
qed

text \<open>
  The bound on the child's quota is needed. A parent that may have ten descendants creates a child that may have
  \<open>2 ^ 63 - 1\<close> of them: one more than that wraps to the smallest 64-bit integer, the guard passes, and the parent's own
  quota becomes negative.
\<close>

theorem descendant_quota_wraps:
  "\<exists>s' u p'. CreateAgentInstance (ex_agent ''c'' ''vc'' ''p'' 1 (2 ^ 63 - 1)) ex_agents = Inr (s', u)
     \<and> mget (runtimeAgents s') ''t:p'' = Some p' \<and> ai_RemainingDescendants p' = 10 - 2 ^ 63"
proof -
  have "case CreateAgentInstance (ex_agent ''c'' ''vc'' ''p'' 1 (2 ^ 63 - 1)) ex_agents of Inl _ \<Rightarrow> False
      | Inr (s', _) \<Rightarrow> (case mget (runtimeAgents s') ''t:p'' of None \<Rightarrow> False | Some p' \<Rightarrow> ai_RemainingDescendants p' = 10 - 2 ^ 63)"
    by code_simp
  then show ?thesis by (auto split: sum.splits option.splits)
qed

theorem descendant_quota_conserved_witness:
  "\<exists>s' u. CreateAgentInstance (ex_agent ''c'' ''vc'' ''p'' 1 3) ex_agents = Inr (s', u)
     \<and> agent_quota s' = agent_quota ex_agents"
proof -
  have "\<not> isl (CreateAgentInstance (ex_agent ''c'' ''vc'' ''p'' 1 3) ex_agents)" by code_simp
  then obtain s' u where c: "CreateAgentInstance (ex_agent ''c'' ''vc'' ''p'' 1 3) ex_agents = Inr (s', u)"
    using not_isl_Inr by (metis surj_pair)
  have "agent_quota s' = agent_quota ex_agents"
    by (rule descendant_quota_conserved [OF c, THEN conjunct1])
       (simp_all add: ex_agent_def ex_agents_def mvals_def wf_map_def)
  with c show ?thesis by blast
qed

end
