(* ===== verification/Commands.thy ===== *)
theory Commands
  imports Memory_Store "HOL-Library.Product_Lexorder"
begin

section \<open>Runtime commands of the store (internal/persistence/memory/runtime_commands.go)\<close>

text \<open>
  The commands that change a job, a node, an effect or the shared state and publish an event in
  the same step: claiming and heartbeating a node lease, the versioned transitions of jobs,
  nodes and effects, the graph patch command, state mutations, effect registration, and the
  outbox protocol (claim, acknowledge, retry).

  The versioned transitions share a contract, the locale \<open>cas_command\<close>: a command succeeds
  only against the version it read and moves it by one. Its lemmas are the compare-and-swap
  guarantees. The parameter \<open>token\<close> of the claim is the result of \<^verbatim>\<open>idgen.NewOpaqueToken\<close>.
\<close>

subsection \<open>Leases\<close>

definition zero_node :: NodeRun where
  "zero_node =
     \<lparr>nr_ID = '''', nr_TenantID = '''', nr_JobRunID = '''', nr_NodeKey = '''', nr_State = NodeState '''',
      nr_AttemptCount = 0, nr_OutputRefs = [], nr_OutputDigest = '''', nr_ErrorCode = '''',
      nr_LeaseOwner = '''', nr_FenceToken = '''', nr_LeaseExpiresAt = None, nr_Version = 0,
      nr_CreatedAt = 0, nr_UpdatedAt = 0\<rparr>"

text \<open>The score of a candidate: the priority of its job plus its waiting time in minutes.\<close>

definition node_score :: "int \<Rightarrow> time \<Rightarrow> NodeRun \<Rightarrow> int" where
  "node_score priority clock c = i64 (priority + go_div (time_Sub clock (nr_UpdatedAt c)) Minute)"

definition prefer_node :: "(NodeRun \<Rightarrow> int) \<Rightarrow> NodeRun \<Rightarrow> NodeRun \<times> int \<Rightarrow> bool" where
  "prefer_node score c sel =
     (nr_ID (fst sel) = '''' \<or> score c > snd sel
      \<or> (score c = snd sel \<and> (nr_UpdatedAt c < nr_UpdatedAt (fst sel)
          \<or> (nr_UpdatedAt c = nr_UpdatedAt (fst sel) \<and> nr_ID c < nr_ID (fst sel)))))"

fun select_loop ::
    "(NodeRun \<Rightarrow> bool) \<Rightarrow> (NodeRun \<Rightarrow> int) \<Rightarrow> NodeRun \<times> int \<Rightarrow> NodeRun list \<Rightarrow> NodeRun \<times> int" where
  "select_loop eligible score sel [] = sel"
| "select_loop eligible score sel (c # cs) =
     (if \<not> eligible c then select_loop eligible score sel cs
      else if prefer_node score c sel then select_loop eligible score (c, score c) cs
      else select_loop eligible score sel cs)"

definition claim_eligible :: "string \<Rightarrow> string \<Rightarrow> NodeRun \<Rightarrow> bool" where
  "claim_eligible tenantID jobID c =
     (\<not> (nr_TenantID c \<noteq> tenantID \<or> nr_State c \<noteq> NodeReady \<or> (jobID \<noteq> '''' \<and> nr_JobRunID c \<noteq> jobID)))"

definition claim_score :: "Store \<Rightarrow> time \<Rightarrow> NodeRun \<Rightarrow> int" where
  "claim_score s now c =
     node_score (case mget (runtimeJobs s) (runtimePlanKey (nr_TenantID c) (nr_JobRunID c)) of
                   None \<Rightarrow> 0 | Some job \<Rightarrow> jr_Priority job) now c"

definition claim_select :: "string \<Rightarrow> string \<Rightarrow> time \<Rightarrow> Store \<Rightarrow> NodeRun" where
  "claim_select tenantID jobID now s =
     fst (select_loop (claim_eligible tenantID jobID) (claim_score s now) (zero_node, -1)
           (mvals (runtimeNodes s)))"

definition lease_node :: "string \<Rightarrow> string \<Rightarrow> time \<Rightarrow> int \<Rightarrow> NodeRun \<Rightarrow> NodeRun" where
  "lease_node owner token now leaseFor n =
     n\<lparr>nr_State := NodeLeased, nr_AttemptCount := nr_AttemptCount n + 1,
       nr_LeaseOwner := TrimSpace owner, nr_FenceToken := token,
       nr_LeaseExpiresAt := Some (now + leaseFor), nr_Version := nr_Version n + 1,
       nr_UpdatedAt := now\<rparr>"

definition ClaimReadyNodeCommand ::
    "string res \<Rightarrow> string \<Rightarrow> string \<Rightarrow> string \<Rightarrow> time \<Rightarrow> int \<Rightarrow> JobEvent \<Rightarrow> Store \<Rightarrow> NodeRun cmd" where
  "ClaimReadyNodeCommand token tenantID jobID owner now leaseFor event s =
     require (\<not> (blank owner \<or> leaseFor \<le> 0)) (Invalid ''NODE_LEASE_INVALID'') (
     let selected = claim_select tenantID jobID now s in
     require (nr_ID selected \<noteq> '''') NotFound (
     check_nil (NodeRun_Transition selected NodeLeased) (
     bind_res token (\<lambda>fenceToken.
     let leased = lease_node owner fenceToken now leaseFor selected;
         event' = event\<lparr>je_TenantID := tenantID, je_JobRunID := nr_JobRunID leased,
                    je_NodeKey := nr_NodeKey leased, je_ActorID := TrimSpace owner,
                    je_Payload := mput ''lease_expires_at'' (ATime (nr_LeaseExpiresAt leased))
                      (mput ''attempt_count'' (AInt (nr_AttemptCount leased)) (je_Payload event))\<rparr> in
     check_nil (validateCommandEvent s event') (
     Inr (appendRuntimeEventLocked
       (s\<lparr>runtimeNodes := mput (runtimeNodeKey tenantID (nr_ID leased)) leased (runtimeNodes s)\<rparr>) event',
       leased))))))"

definition HeartbeatNodeCommand ::
    "string \<Rightarrow> string \<Rightarrow> string \<Rightarrow> int \<Rightarrow> time \<Rightarrow> int \<Rightarrow> JobEvent \<Rightarrow> Store \<Rightarrow> NodeRun cmd" where
  "HeartbeatNodeCommand tenantID nodeID owner expectedVersion now leaseFor event s =
     require (\<not> (blank owner \<or> leaseFor \<le> 0)) (Invalid ''NODE_HEARTBEAT_INVALID'') (
     lookup_or NotFound (mget (runtimeNodes s) (runtimeNodeKey tenantID nodeID)) (\<lambda>node.
     require (\<not> (nr_Version node \<noteq> expectedVersion \<or> nr_LeaseOwner node \<noteq> TrimSpace owner
                 \<or> \<not> after_opt (nr_LeaseExpiresAt node) now
                 \<or> (nr_State node \<noteq> NodeLeased \<and> nr_State node \<noteq> NodeRunning)))
       (Conflict ''NODE_LEASE_STALE'') (
     check_nil (if nr_State node = NodeLeased then NodeRun_Transition node NodeRunning else None) (
     let node' = node\<lparr>nr_State := NodeRunning, nr_LeaseExpiresAt := Some (now + leaseFor),
                      nr_Version := nr_Version node + 1, nr_UpdatedAt := now\<rparr>;
         event' = event\<lparr>je_TenantID := tenantID, je_JobRunID := nr_JobRunID node',
                    je_NodeKey := nr_NodeKey node', je_ActorID := TrimSpace owner,
                    je_Payload := mput ''lease_expires_at'' (ATime (nr_LeaseExpiresAt node'))
                      (mput ''state'' (AStr (node_state_str (nr_State node'))) (je_Payload event))\<rparr> in
     check_nil (validateCommandEvent s event') (
     Inr (appendRuntimeEventLocked
       (s\<lparr>runtimeNodes := mput (runtimeNodeKey tenantID (nr_ID node')) node' (runtimeNodes s)\<rparr>) event',
       node'))))))"

definition AppendFencedRuntimeEvent ::
    "string \<Rightarrow> string \<Rightarrow> string \<Rightarrow> string \<Rightarrow> time \<Rightarrow> JobEvent \<Rightarrow> Store \<Rightarrow> JobEvent cmd" where
  "AppendFencedRuntimeEvent tenantID attemptID owner fenceToken now event s =
     lookup_or NotFound (mget (runtimeAttempts s) (runtimePlanKey tenantID attemptID)) (\<lambda>attempt.
     require (\<not> (ra_State attempt \<noteq> RuntimeAttemptRunning \<or> ra_LeaseOwner attempt \<noteq> TrimSpace owner
                 \<or> ra_FenceToken attempt = '''' \<or> ra_FenceToken attempt \<noteq> fenceToken
                 \<or> \<not> after_opt (ra_LeaseExpiresAt attempt) now))
       (Conflict ''DISPATCH_FENCE_STALE'') (
     let event' = event\<lparr>je_TenantID := tenantID, je_JobRunID := ra_JobRunID attempt,
                    je_ActorType := ''harness'', je_ActorID := ra_HarnessKind attempt\<rparr> in
     check_nil (validateCommandEvent s event') (
     case find_event s event' of
       Some existing \<Rightarrow> Inr (enqueueRuntimeOutboxLocked s existing, existing)
     | None \<Rightarrow> Inr (appendRuntimeEventLocked s event', next_event s event'))))"

subsection \<open>Versioned transitions\<close>

definition job_key :: "JobRun \<Rightarrow> string" where
  "job_key j = runtimePlanKey (jr_TenantID j) (jr_ID j)"

definition effect_key :: "ExternalEffect \<Rightarrow> string" where
  "effect_key e = runtimeEffectKey (ee_TenantID e) (ee_ID e)"

definition ApplyJobTransition :: "JobRun \<Rightarrow> int \<Rightarrow> JobEvent \<Rightarrow> Store \<Rightarrow> JobRun cmd" where
  "ApplyJobTransition nxt expectedVersion event s =
     check_nil (JobRun_Validate nxt) (
     lookup_or NotFound (mget (runtimeJobs s) (job_key nxt)) (\<lambda>current.
     require (\<not> (jr_Version current \<noteq> expectedVersion \<or> jr_Version nxt \<noteq> expectedVersion + 1))
       (Conflict ''JOB_RUN_VERSION_CONFLICT'') (
     check_nil (JobRun_Transition current (jr_State nxt)) (
     let event' = event\<lparr>je_TenantID := jr_TenantID nxt, je_JobRunID := jr_ID nxt\<rparr> in
     check_nil (validateCommandEvent s event') (
     Inr (appendRuntimeEventLocked
       (s\<lparr>runtimeJobs := mput (job_key nxt) nxt (runtimeJobs s)\<rparr>) event', nxt))))))"

definition ApplyNodeTransition :: "NodeRun \<Rightarrow> int \<Rightarrow> JobEvent \<Rightarrow> Store \<Rightarrow> NodeRun cmd" where
  "ApplyNodeTransition nxt expectedVersion event s =
     check_nil (NodeRun_Validate nxt) (
     lookup_or NotFound (mget (runtimeNodes s) (node_key nxt)) (\<lambda>current.
     require (\<not> (nr_Version current \<noteq> expectedVersion \<or> nr_Version nxt \<noteq> expectedVersion + 1))
       (Conflict ''NODE_RUN_VERSION_CONFLICT'') (
     check_nil (NodeRun_Transition current (nr_State nxt)) (
     require (nr_JobRunID current = nr_JobRunID nxt) (Invalid ''NODE_RUN_SCOPE_INVALID'') (
     let event' = event\<lparr>je_TenantID := nr_TenantID nxt, je_JobRunID := nr_JobRunID nxt,
                    je_NodeKey := nr_NodeKey nxt\<rparr> in
     check_nil (validateCommandEvent s event') (
     Inr (appendRuntimeEventLocked
       (s\<lparr>runtimeNodes := mput (node_key nxt) nxt (runtimeNodes s)\<rparr>) event', nxt)))))))"

definition ApplyEffectTransition ::
    "ExternalEffect \<Rightarrow> int \<Rightarrow> JobEvent \<Rightarrow> Store \<Rightarrow> ExternalEffect cmd" where
  "ApplyEffectTransition nxt expectedVersion event s =
     lookup_or NotFound (mget (runtimeEffects s) (effect_key nxt)) (\<lambda>current.
     require (\<not> (ee_Version current \<noteq> expectedVersion \<or> ee_Version nxt \<noteq> expectedVersion + 1))
       (Conflict ''EFFECT_VERSION_CONFLICT'') (
     check_nil (ExternalEffect_Transition current (ee_State nxt)) (
     let event' = event\<lparr>je_TenantID := ee_TenantID nxt, je_JobRunID := ee_JobRunID nxt\<rparr> in
     check_nil (validateCommandEvent s event') (
     Inr (appendRuntimeEventLocked
       (s\<lparr>runtimeEffects := mput (effect_key nxt) nxt (runtimeEffects s)\<rparr>) event', nxt)))))"

subsection \<open>Graph patches\<close>

definition patch_node_check :: "Store \<Rightarrow> JobRun \<Rightarrow> NodeRun \<Rightarrow> fault option" where
  "patch_node_check s nxt n =
     (case NodeRun_Validate n of Some e \<Rightarrow> Some e | None \<Rightarrow>
       if nr_TenantID n \<noteq> jr_TenantID nxt \<or> nr_JobRunID n \<noteq> jr_ID nxt
       then Some (Invalid ''NODE_RUN_SCOPE_INVALID'')
       else if mget (runtimeNodes s) (node_key n) \<noteq> None then Some (Conflict ''NODE_RUN_EXISTS'')
       else None)"

definition in_job :: "JobRun \<Rightarrow> NodeRun \<Rightarrow> bool" where
  "in_job nxt n = (nr_TenantID n = jr_TenantID nxt \<and> nr_JobRunID n = jr_ID nxt)"

definition cancel_check :: "Store \<Rightarrow> JobRun \<Rightarrow> string \<Rightarrow> fault option" where
  "cancel_check s nxt key =
     (let hits = filter (\<lambda>n. in_job nxt n \<and> nr_NodeKey n = key) (mvals (runtimeNodes s)) in
      if list_ex (\<lambda>n. nr_State n \<noteq> NodePending \<and> nr_State n \<noteq> NodeReady \<and> nr_State n \<noteq> NodeWaitingResource) hits
      then Some (Conflict ''GRAPH_PATCH_CANCEL_CONFLICT'')
      else if hits = [] then Some NotFound else None)"

text \<open>The loop over the keys to cancel, for one node; a key listed twice counts twice.\<close>

fun cancel_node :: "time \<Rightarrow> string list \<Rightarrow> NodeRun \<Rightarrow> NodeRun" where
  "cancel_node at [] n = n"
| "cancel_node at (k # ks) n =
     cancel_node at ks
       (if nr_NodeKey n = k
        then n\<lparr>nr_State := NodeCancelled, nr_Version := nr_Version n + 1, nr_UpdatedAt := at\<rparr> else n)"

definition ApplyGraphPatchCommand ::
    "JobRun \<Rightarrow> int \<Rightarrow> JobPlanRevision \<Rightarrow> NodeRun list \<Rightarrow> string list \<Rightarrow> JobEvent \<Rightarrow> Store \<Rightarrow> JobRun cmd" where
  "ApplyGraphPatchCommand nxt expectedVersion plan addedNodes cancelNodeKeys event s =
     check_nil (JobRun_Validate nxt) (
     check_nil (JobPlanRevision_Validate plan) (
     lookup_or NotFound (mget (runtimeJobs s) (job_key nxt)) (\<lambda>current.
     require (\<not> (jr_Version current \<noteq> expectedVersion \<or> jr_Version nxt \<noteq> expectedVersion + 1
                 \<or> jr_PlanRevisionID current \<noteq> jp_BaseRevisionID plan
                 \<or> jr_PlanRevisionID nxt \<noteq> jp_ID plan \<or> jr_PlanDigest nxt \<noteq> jp_Digest plan))
       (Conflict ''GRAPH_VERSION_CONFLICT'') (
     let planKey = runtimePlanKey (jp_TenantID plan) (jp_ID plan) in
     require (mget (runtimePlans s) planKey = None) (Conflict ''JOB_PLAN_EXISTS'') (
     require (\<not> list_ex (\<lambda>p. jp_TenantID p = jp_TenantID plan \<and>
         (jp_Digest p = jp_Digest plan \<or> (jp_PatchKey plan \<noteq> '''' \<and> jp_PatchKey p = jp_PatchKey plan)))
         (mvals (runtimePlans s))) (Conflict ''GRAPH_PATCH_EXISTS'') (
     check_nil (check_all (patch_node_check s nxt) addedNodes) (
     check_nil (check_all (cancel_check s nxt) cancelNodeKeys) (
     let event' = event\<lparr>je_TenantID := jr_TenantID nxt, je_JobRunID := jr_ID nxt\<rparr> in
     check_nil (validateCommandEvent s event') (
     Inr (appendRuntimeEventLocked
       (s\<lparr>runtimePlans := mput planKey plan (runtimePlans s),
          runtimeNodes :=
            mmap (\<lambda>n. if in_job nxt n then cancel_node (je_OccurredAt event) cancelNodeKeys n else n)
              (mput_all node_key addedNodes (runtimeNodes s)),
          runtimeJobs := mput (job_key nxt) nxt (runtimeJobs s)\<rparr>) event', nxt))))))))))"

subsection \<open>Shared state and effects\<close>

definition zero_state :: RuntimeState where
  "zero_state =
     \<lparr>rs_ID = '''', rs_TenantID = '''', rs_JobRunID = '''', rs_Collection = '''', rs_SchemaVersion = '''',
      rs_Revision = 0, rs_Values = [], rs_UpdatedAt = 0\<rparr>"

fun set_values :: "payload \<Rightarrow> payload \<Rightarrow> payload" where
  "set_values [] m = m"
| "set_values ((k, v) # kvs) m = set_values kvs (mput k v m)"

fun append_values :: "(string \<times> goany list) list \<Rightarrow> payload \<Rightarrow> payload" where
  "append_values [] m = m"
| "append_values ((k, vs) # kvs) m =
     append_values kvs
       (mput k (AArr ((case mget m k of Some (AArr cur) \<Rightarrow> cur | _ \<Rightarrow> []) @ vs)) m)"

definition ApplyStateMutation ::
    "string \<Rightarrow> string \<Rightarrow> string \<Rightarrow> StateMutation \<Rightarrow> JobEvent \<Rightarrow> Store \<Rightarrow> RuntimeState cmd" where
  "ApplyStateMutation newID tenantID jobID mutation event s =
     require (\<not> (blank (sm_Collection mutation) \<or> blank (sm_IdempotencyKey mutation)))
       (Invalid ''RUNTIME_STATE_MUTATION_INVALID'') (
     let key = runtimeStateKey tenantID jobID (sm_Collection mutation);
         mutationKey = key @ '':'' @ TrimSpace (sm_IdempotencyKey mutation) in
     if mget (runtimeStateMutations s) mutationKey \<noteq> None
     then Inr (s, case mget (runtimeStates s) key of None \<Rightarrow> zero_state | Some st \<Rightarrow> st)
     else bind_res
       (case mget (runtimeStates s) key of
          Some st \<Rightarrow> Inr st
        | None \<Rightarrow> require (sm_ExpectedRevision mutation = 0) (Conflict ''RUNTIME_STATE_CAS_CONFLICT'')
            (Inr \<lparr>rs_ID = newID, rs_TenantID = tenantID, rs_JobRunID = jobID,
                  rs_Collection = sm_Collection mutation, rs_SchemaVersion = RuntimeStateSchema,
                  rs_Revision = 0, rs_Values = [], rs_UpdatedAt = je_OccurredAt event\<rparr>))
       (\<lambda>state.
       require (rs_Revision state = sm_ExpectedRevision mutation)
         (Conflict ''RUNTIME_STATE_CAS_CONFLICT'') (
       let state' = state\<lparr>rs_Values := append_values (sm_Append mutation)
                              (set_values (sm_Set mutation) (rs_Values state)),
                          rs_Revision := rs_Revision state + 1, rs_UpdatedAt := je_OccurredAt event\<rparr>;
           event' = event\<lparr>je_Payload := mput ''revision'' (AInt (rs_Revision state')) (je_Payload event),
                          je_TenantID := tenantID, je_JobRunID := jobID\<rparr> in
       check_nil (validateCommandEvent s event') (
       Inr (appendRuntimeEventLocked
         (s\<lparr>runtimeStates := mput key state' (runtimeStates s),
            runtimeStateMutations := mput mutationKey ''applied'' (runtimeStateMutations s)\<rparr>) event',
         state')))))"

definition RegisterEffectCommand :: "ExternalEffect \<Rightarrow> JobEvent \<Rightarrow> Store \<Rightarrow> ExternalEffect cmd" where
  "RegisterEffectCommand effect event s =
     (case find (\<lambda>x. ee_TenantID x = ee_TenantID effect \<and> ee_IdempotencyKey x = ee_IdempotencyKey effect)
             (mvals (runtimeEffects s)) of
        Some existing \<Rightarrow> Inr (s, existing)
      | None \<Rightarrow>
        require (\<not> (ee_ID effect = '''' \<or> ee_TenantID effect = '''' \<or> ee_JobRunID effect = ''''
                    \<or> ee_Kind effect = '''' \<or> ee_IdempotencyKey effect = '''' \<or> ee_RequestDigest effect = ''''
                    \<or> ee_Version effect < 1 \<or> IsZero (ee_CreatedAt effect) \<or> IsZero (ee_UpdatedAt effect)))
          (Invalid ''EFFECT_INVALID'') (
        let event' = event\<lparr>je_TenantID := ee_TenantID effect, je_JobRunID := ee_JobRunID effect,
                       je_NodeKey := ''''\<rparr> in
        check_nil (validateCommandEvent s event') (
        Inr (appendRuntimeEventLocked
          (s\<lparr>runtimeEffects := mput (effect_key effect) effect (runtimeEffects s)\<rparr>) event', effect))))"

definition validateAttemptFenceLocked :: "Store \<Rightarrow> string \<Rightarrow> string \<Rightarrow> string \<Rightarrow> time \<Rightarrow> fault option" where
  "validateAttemptFenceLocked s tenantID attemptID fenceToken now =
     (case mget (runtimeAttempts s) (runtimePlanKey tenantID attemptID) of
        None \<Rightarrow> Some NotFound
      | Some attempt \<Rightarrow>
          if ra_State attempt \<noteq> RuntimeAttemptRunning \<or> blank fenceToken
             \<or> ra_FenceToken attempt \<noteq> fenceToken \<or> \<not> after_opt (ra_LeaseExpiresAt attempt) now
          then Some (Conflict ''MCP_GATEWAY_FENCE_STALE'') else None)"

definition RegisterFencedEffectCommand ::
    "ExternalEffect \<Rightarrow> string \<Rightarrow> time \<Rightarrow> JobEvent \<Rightarrow> Store \<Rightarrow> ExternalEffect cmd" where
  "RegisterFencedEffectCommand effect fenceToken now event s =
     require (\<not> (ee_ID effect = '''' \<or> ee_TenantID effect = '''' \<or> ee_JobRunID effect = ''''
                 \<or> ee_AttemptID effect = '''' \<or> ee_Kind effect = '''' \<or> ee_IdempotencyKey effect = ''''
                 \<or> ee_RequestDigest effect = '''' \<or> ee_Version effect < 1
                 \<or> IsZero (ee_CreatedAt effect) \<or> IsZero (ee_UpdatedAt effect)))
       (Invalid ''EFFECT_INVALID'') (
     check_nil (validateAttemptFenceLocked s (ee_TenantID effect) (ee_AttemptID effect) fenceToken now) (
     case find (\<lambda>x. ee_TenantID x = ee_TenantID effect \<and> ee_IdempotencyKey x = ee_IdempotencyKey effect)
            (mvals (runtimeEffects s)) of
       Some existing \<Rightarrow>
         if ee_AttemptID existing \<noteq> ee_AttemptID effect \<or> ee_RequestDigest existing \<noteq> ee_RequestDigest effect
         then Inl (Conflict ''EFFECT_IDEMPOTENCY_MISMATCH'') else Inr (s, existing)
     | None \<Rightarrow>
         let event' = event\<lparr>je_TenantID := ee_TenantID effect, je_JobRunID := ee_JobRunID effect,
                        je_NodeKey := ''''\<rparr> in
         check_nil (validateCommandEvent s event') (
         Inr (appendRuntimeEventLocked
           (s\<lparr>runtimeEffects := mput (effect_key effect) effect (runtimeEffects s)\<rparr>) event', effect))))"

subsection \<open>The outbox protocol\<close>

definition joinRuntimeOutboxReceipt ::
    "RuntimeOutboxMessage \<Rightarrow> runtimeOutboxReceipt \<Rightarrow> RuntimeOutboxMessage" where
  "joinRuntimeOutboxReceipt m r =
     m\<lparr>om_Subscriber := or_Subscriber r, om_Attempts := or_Attempts r,
       om_NextAttemptAt := or_NextAttemptAt r, om_LockedBy := or_LockedBy r,
       om_LockedUntil := or_LockedUntil r, om_DeliveredAt := or_DeliveredAt r,
       om_LastError := or_LastError r\<rparr>"

definition receipt_due :: "string \<Rightarrow> string \<Rightarrow> time \<Rightarrow> runtimeOutboxReceipt \<Rightarrow> bool" where
  "receipt_due tenantID subscriber now r =
     (\<not> (or_TenantID r \<noteq> tenantID \<or> or_Subscriber r \<noteq> subscriber \<or> or_DeliveredAt r \<noteq> None
         \<or> or_NextAttemptAt r > now \<or> after_opt (or_LockedUntil r) now))"

definition message_less :: "RuntimeOutboxMessage \<Rightarrow> RuntimeOutboxMessage \<Rightarrow> bool" where
  "message_less a b =
     (if om_NextAttemptAt a = om_NextAttemptAt b then om_ID a < om_ID b
      else om_NextAttemptAt a < om_NextAttemptAt b)"

definition due_messages :: "string \<Rightarrow> string \<Rightarrow> time \<Rightarrow> int \<Rightarrow> Store \<Rightarrow> RuntimeOutboxMessage list" where
  "due_messages tenantID subscriber now limit s =
     (let limit' = (if limit \<le> 0 then 100 else limit);
          due = filter (receipt_due tenantID subscriber now) (mvals (runtimeOutboxReceipts s));
          result = List.map_filter (\<lambda>r.
            map_option (\<lambda>m. joinRuntimeOutboxReceipt m r)
              (mget (runtimeOutbox s) (runtimePlanKey tenantID (or_MessageID r)))) due
      in take (nat limit') (sort_by message_less result))"

definition RuntimeOutboxMessages ::
    "string \<Rightarrow> string \<Rightarrow> time \<Rightarrow> int \<Rightarrow> Store \<Rightarrow> RuntimeOutboxMessage list res" where
  "RuntimeOutboxMessages tenantID subscriber now limit s =
     (if blank subscriber then Inl (Invalid ''OUTBOX_SUBSCRIBER_REQUIRED'')
      else Inr (due_messages tenantID (TrimSpace subscriber) now limit s))"

definition zero_receipt :: runtimeOutboxReceipt where
  "zero_receipt =
     \<lparr>or_TenantID = '''', or_MessageID = '''', or_Subscriber = '''', or_Attempts = 0,
      or_NextAttemptAt = 0, or_LockedBy = '''', or_LockedUntil = None, or_DeliveredAt = None,
      or_LastError = '''', or_CreatedAt = 0\<rparr>"

definition zero_message :: RuntimeOutboxMessage where
  "zero_message =
     \<lparr>om_ID = '''', om_TenantID = '''', om_EventID = '''', om_SchemaVersion = '''', om_Topic = '''',
      om_AggregateID = '''', om_Payload = [], om_Subscriber = '''', om_Attempts = 0,
      om_NextAttemptAt = 0, om_LockedBy = '''', om_LockedUntil = None, om_DeliveredAt = None,
      om_LastError = '''', om_CreatedAt = 0\<rparr>"

definition lock_receipt :: "string \<Rightarrow> time \<Rightarrow> runtimeOutboxReceipt \<Rightarrow> runtimeOutboxReceipt" where
  "lock_receipt worker until r =
     r\<lparr>or_LockedBy := worker, or_LockedUntil := Some until, or_Attempts := or_Attempts r + 1\<rparr>"

definition receipt_at :: "string \<Rightarrow> runtimeOutboxReceipt gomap \<Rightarrow> runtimeOutboxReceipt" where
  "receipt_at key m = (case mget m key of None \<Rightarrow> zero_receipt | Some r \<Rightarrow> r)"

text \<open>The loop that locks the selected receipts and returns the messages as they are now.\<close>

fun lock_loop ::
    "string \<Rightarrow> string \<Rightarrow> string \<Rightarrow> time \<Rightarrow> RuntimeOutboxMessage gomap \<Rightarrow> RuntimeOutboxMessage list
     \<Rightarrow> runtimeOutboxReceipt gomap \<Rightarrow> runtimeOutboxReceipt gomap \<times> RuntimeOutboxMessage list" where
  "lock_loop tenantID subscriber worker until outbox [] m = (m, [])"
| "lock_loop tenantID subscriber worker until outbox (x # xs) m =
     (let key = runtimeOutboxReceiptKey tenantID (om_ID x) subscriber;
          r = lock_receipt worker until (receipt_at key m);
          out = (case mget outbox (runtimePlanKey tenantID (or_MessageID r)) of
                   None \<Rightarrow> joinRuntimeOutboxReceipt zero_message r
                 | Some msg \<Rightarrow> joinRuntimeOutboxReceipt msg r);
          (m', outs) = lock_loop tenantID subscriber worker until outbox xs (mput key r m)
      in (m', out # outs))"

definition ClaimRuntimeOutbox ::
    "string \<Rightarrow> string \<Rightarrow> string \<Rightarrow> time \<Rightarrow> int \<Rightarrow> int \<Rightarrow> Store \<Rightarrow> RuntimeOutboxMessage list cmd" where
  "ClaimRuntimeOutbox tenantID subscriber worker now leaseFor limit s =
     require (\<not> (blank subscriber \<or> blank worker \<or> leaseFor \<le> 0)) (Invalid ''OUTBOX_CLAIM_INVALID'') (
     let (m, outs) = lock_loop tenantID (TrimSpace subscriber) (TrimSpace worker) (now + leaseFor)
           (runtimeOutbox s) (due_messages tenantID (TrimSpace subscriber) now limit s)
           (runtimeOutboxReceipts s)
     in Inr (s\<lparr>runtimeOutboxReceipts := m\<rparr>, outs))"

definition holds_receipt :: "string \<Rightarrow> time \<Rightarrow> runtimeOutboxReceipt \<Rightarrow> bool" where
  "holds_receipt worker at r =
     (\<not> (or_DeliveredAt r \<noteq> None \<or> or_LockedBy r \<noteq> worker \<or> \<not> after_opt (or_LockedUntil r) at))"

definition AckRuntimeOutbox ::
    "string \<Rightarrow> string \<Rightarrow> string \<Rightarrow> string \<Rightarrow> time \<Rightarrow> Store \<Rightarrow> unit cmd" where
  "AckRuntimeOutbox tenantID messageID subscriber worker deliveredAt s =
     require (\<not> (blank subscriber \<or> blank worker \<or> IsZero deliveredAt)) (Invalid ''OUTBOX_ACK_INVALID'') (
     let key = runtimeOutboxReceiptKey tenantID messageID (TrimSpace subscriber) in
     lookup_or (Conflict ''OUTBOX_LEASE_STALE'') (mget (runtimeOutboxReceipts s) key) (\<lambda>r.
     require (holds_receipt (TrimSpace worker) deliveredAt r) (Conflict ''OUTBOX_LEASE_STALE'') (
     Inr (s\<lparr>runtimeOutboxReceipts := mput key
            (r\<lparr>or_DeliveredAt := Some deliveredAt, or_LockedBy := '''', or_LockedUntil := None,
               or_LastError := ''''\<rparr>) (runtimeOutboxReceipts s)\<rparr>, ()))))"

definition RetryRuntimeOutbox ::
    "string \<Rightarrow> string \<Rightarrow> string \<Rightarrow> string \<Rightarrow> time \<Rightarrow> time \<Rightarrow> string \<Rightarrow> Store \<Rightarrow> unit cmd" where
  "RetryRuntimeOutbox tenantID messageID subscriber worker now nextAttemptAt lastError s =
     require (\<not> (blank subscriber \<or> blank worker \<or> IsZero now \<or> IsZero nextAttemptAt \<or> blank lastError))
       (Invalid ''OUTBOX_RETRY_INVALID'') (
     require (\<not> nextAttemptAt < now) (Invalid ''OUTBOX_RETRY_INVALID'') (
     let key = runtimeOutboxReceiptKey tenantID messageID (TrimSpace subscriber) in
     lookup_or (Conflict ''OUTBOX_LEASE_STALE'') (mget (runtimeOutboxReceipts s) key) (\<lambda>r.
     require (holds_receipt (TrimSpace worker) now r) (Conflict ''OUTBOX_LEASE_STALE'') (
     Inr (s\<lparr>runtimeOutboxReceipts := mput key
            (r\<lparr>or_NextAttemptAt := nextAttemptAt, or_LockedBy := '''', or_LockedUntil := None,
               or_LastError := TrimSpace lastError\<rparr>) (runtimeOutboxReceipts s)\<rparr>, ())))))"

subsection \<open>Interface: compare and swap\<close>

text \<open>
  \<open>cas_command\<close> is the contract of a versioned command: success means that the stored entity had
  the expected version and a state from which the new state is allowed, that the new version is
  the next one, and that nothing else in the table has changed. \<open>cas_versions\<close> adds the steps of
  the whole system: a step never removes an entity and never lowers a version. Under both, an
  update that was accepted cannot be overwritten by a writer that read the same version.
  \<open>cas_table\<close> adds that steps move states only along allowed transitions, and \<open>cas_machine\<close> adds
  terminal states, which are then frozen.
\<close>

locale cas_command =
  fixes get :: "'st \<Rightarrow> string \<Rightarrow> 'v option"
    and key :: "'v \<Rightarrow> string"
    and ver :: "'v \<Rightarrow> int"
    and sta :: "'v \<Rightarrow> 's"
    and trans :: "'s \<Rightarrow> 's \<Rightarrow> fault option"
    and cmd :: "'v \<Rightarrow> int \<Rightarrow> 'e \<Rightarrow> 'st \<Rightarrow> fault + ('st \<times> 'v)"
  assumes cmd_ok: "cmd n x e s = Inr (s', v) \<Longrightarrow>
    v = n \<and> (\<exists>c. get s (key n) = Some c \<and> ver c = x \<and> trans (sta c) (sta n) = None)
    \<and> ver n = x + 1 \<and> (\<forall>k. get s' k = (if k = key n then Some n else get s k))"
begin

lemma stale_rejected: "get s (key n) = Some c \<Longrightarrow> ver c \<noteq> x \<Longrightarrow> \<exists>f. cmd n x e s = Inl f"
proof (cases "cmd n x e s")
  case (Inr r)
  assume "get s (key n) = Some c" "ver c \<noteq> x"
  with cmd_ok [of n x e s "fst r" "snd r"] Inr show ?thesis by simp
qed simp

end

locale cas_versions = cas_command get key ver sta trans cmd
  for get :: "'st \<Rightarrow> string \<Rightarrow> 'v option" and key ver and sta :: "'v \<Rightarrow> 's" and trans cmd +
  fixes step :: "'st \<Rightarrow> 'st \<Rightarrow> bool"
  assumes step_version: "step s s' \<Longrightarrow> get s k = Some c \<Longrightarrow> \<exists>c'. get s' k = Some c' \<and> ver c \<le> ver c'"
begin

lemma run_version: "step\<^sup>*\<^sup>* s s' \<Longrightarrow> get s k = Some c \<Longrightarrow> \<exists>c'. get s' k = Some c' \<and> ver c \<le> ver c'"
proof (induction rule: rtranclp_induct)
  case (step s1 s2)
  then obtain c1 where "get s1 k = Some c1" "ver c \<le> ver c1" by blast
  with step_version [OF step.hyps(2)] show ?case by (meson order_trans)
qed auto

lemma no_lost_update:
  assumes "cmd n x e s = Inr (s1, v)" and "step\<^sup>*\<^sup>* s1 s2" and "key n' = key n"
  shows "\<exists>f. cmd n' x e' s2 = Inl f"
proof -
  have "get s1 (key n) = Some n" "ver n = x + 1" using cmd_ok [OF assms(1)] by auto
  then obtain c where "get s2 (key n') = Some c" "x + 1 \<le> ver c"
    using run_version [OF assms(2), of "key n" n] assms(3) by auto
  then show ?thesis using stale_rejected [of s2 n' c x] by simp
qed

end

locale cas_table = cas_command get key ver sta trans cmd
  for get :: "'st \<Rightarrow> string \<Rightarrow> 'v option" and key ver and sta :: "'v \<Rightarrow> 's" and trans cmd +
  fixes step :: "'st \<Rightarrow> 'st \<Rightarrow> bool"
  assumes step_keeps: "step s s' \<Longrightarrow> get s k = Some c \<Longrightarrow>
    \<exists>c'. get s' k = Some c' \<and> ver c \<le> ver c' \<and> (\<lambda>a b. trans a b = None)\<^sup>*\<^sup>* (sta c) (sta c')"
begin

lemma run_keeps: "step\<^sup>*\<^sup>* s s' \<Longrightarrow> get s k = Some c \<Longrightarrow>
  \<exists>c'. get s' k = Some c' \<and> ver c \<le> ver c' \<and> (\<lambda>a b. trans a b = None)\<^sup>*\<^sup>* (sta c) (sta c')"
proof (induction rule: rtranclp_induct)
  case (step s1 s2)
  then obtain c1 where c1: "get s1 k = Some c1" "ver c \<le> ver c1"
    "(\<lambda>a b. trans a b = None)\<^sup>*\<^sup>* (sta c) (sta c1)" by blast
  from step_keeps [OF step.hyps(2) c1(1)] c1 show ?case by (meson order_trans rtranclp_trans)
qed auto

end

sublocale cas_table \<subseteq> cas_versions get key ver sta trans cmd step
  by unfold_locales (use step_keeps in blast)

locale cas_machine = cas_table get key ver sta trans cmd step + guarded_machine trans valid terminal
  for get :: "'st \<Rightarrow> string \<Rightarrow> 'v option" and key ver and sta :: "'v \<Rightarrow> 's" and trans cmd step valid terminal
begin

lemma terminal_frozen:
  "step\<^sup>*\<^sup>* s s' \<Longrightarrow> get s k = Some c \<Longrightarrow> terminal (sta c) \<Longrightarrow>
   \<exists>c'. get s' k = Some c' \<and> sta c' = sta c"
  using run_keeps run_terminal by blast

end

lemma ApplyJobTransition_ok:
  assumes "ApplyJobTransition n x e s = Inr (s', v)"
  shows "v = n \<and> JobRun_Validate n = None
    \<and> (\<exists>c. mget (runtimeJobs s) (job_key n) = Some c \<and> jr_Version c = x
         \<and> job_transition (jr_State c) (jr_State n) = None)
    \<and> jr_Version n = x + 1
    \<and> (\<exists>e'. s' = appendRuntimeEventLocked (s\<lparr>runtimeJobs := mput (job_key n) n (runtimeJobs s)\<rparr>) e')"
  using assms unfolding ApplyJobTransition_def JobRun_Transition_def Let_def
  by (simp only: check_nil_Inr lookup_or_Inr require_Inr sum.inject prod.inject) blast

lemma ApplyNodeTransition_ok:
  assumes "ApplyNodeTransition n x e s = Inr (s', v)"
  shows "v = n \<and> NodeRun_Validate n = None
    \<and> (\<exists>c. mget (runtimeNodes s) (node_key n) = Some c \<and> nr_Version c = x
         \<and> node_transition (nr_State c) (nr_State n) = None)
    \<and> nr_Version n = x + 1
    \<and> (\<exists>e'. s' = appendRuntimeEventLocked (s\<lparr>runtimeNodes := mput (node_key n) n (runtimeNodes s)\<rparr>) e')"
  using assms unfolding ApplyNodeTransition_def NodeRun_Transition_def Let_def
  by (simp only: check_nil_Inr lookup_or_Inr require_Inr sum.inject prod.inject) blast

lemma ApplyEffectTransition_ok:
  assumes "ApplyEffectTransition n x e s = Inr (s', v)"
  shows "v = n
    \<and> (\<exists>c. mget (runtimeEffects s) (effect_key n) = Some c \<and> ee_Version c = x
         \<and> effect_transition (ee_State c) (ee_State n) = None)
    \<and> ee_Version n = x + 1
    \<and> (\<exists>e'. s' = appendRuntimeEventLocked (s\<lparr>runtimeEffects := mput (effect_key n) n (runtimeEffects s)\<rparr>) e')"
  using assms unfolding ApplyEffectTransition_def ExternalEffect_Transition_def Let_def
  by (simp only: check_nil_Inr lookup_or_Inr require_Inr sum.inject prod.inject) blast

interpretation job_cas: cas_command "\<lambda>s. mget (runtimeJobs s)" job_key jr_Version jr_State
  job_transition ApplyJobTransition
proof
  fix n x e s s' v assume "ApplyJobTransition n x e s = Inr (s', v)"
  from ApplyJobTransition_ok [OF this]
  show "v = n \<and> (\<exists>c. mget (runtimeJobs s) (job_key n) = Some c \<and> jr_Version c = x
      \<and> job_transition (jr_State c) (jr_State n) = None) \<and> jr_Version n = x + 1
    \<and> (\<forall>k. mget (runtimeJobs s') k = (if k = job_key n then Some n else mget (runtimeJobs s) k))"
    by auto
qed

interpretation node_cas: cas_command "\<lambda>s. mget (runtimeNodes s)" node_key nr_Version nr_State
  node_transition ApplyNodeTransition
proof
  fix n x e s s' v assume "ApplyNodeTransition n x e s = Inr (s', v)"
  from ApplyNodeTransition_ok [OF this]
  show "v = n \<and> (\<exists>c. mget (runtimeNodes s) (node_key n) = Some c \<and> nr_Version c = x
      \<and> node_transition (nr_State c) (nr_State n) = None) \<and> nr_Version n = x + 1
    \<and> (\<forall>k. mget (runtimeNodes s') k = (if k = node_key n then Some n else mget (runtimeNodes s) k))"
    by auto
qed

interpretation effect_cas: cas_command "\<lambda>s. mget (runtimeEffects s)" effect_key ee_Version ee_State
  effect_transition ApplyEffectTransition
proof
  fix n x e s s' v assume "ApplyEffectTransition n x e s = Inr (s', v)"
  from ApplyEffectTransition_ok [OF this]
  show "v = n \<and> (\<exists>c. mget (runtimeEffects s) (effect_key n) = Some c \<and> ee_Version c = x
      \<and> effect_transition (ee_State c) (ee_State n) = None) \<and> ee_Version n = x + 1
    \<and> (\<forall>k. mget (runtimeEffects s') k = (if k = effect_key n then Some n else mget (runtimeEffects s) k))"
    by auto
qed

subsection \<open>The scheduler picks the best candidate\<close>

text \<open>The order of preference: higher score, then longer waiting, then smaller identifier.\<close>

definition node_rank :: "(NodeRun \<Rightarrow> int) \<Rightarrow> NodeRun \<Rightarrow> int \<times> time \<times> string" where
  "node_rank score c = (- score c, nr_UpdatedAt c, nr_ID c)"

lemma prefer_rank:
  "nr_ID n \<noteq> '''' \<Longrightarrow> prefer_node score c (n, score n) = (node_rank score c < node_rank score n)"
  by (auto simp: prefer_node_def node_rank_def)

lemma select_loop_min:
  assumes "nr_ID n0 \<noteq> ''''" and "\<forall>c \<in> set cs. eligible c \<longrightarrow> nr_ID c \<noteq> ''''"
  shows "\<exists>n. select_loop eligible score (n0, score n0) cs = (n, score n)
    \<and> (n = n0 \<or> n \<in> set cs \<and> eligible n) \<and> node_rank score n \<le> node_rank score n0
    \<and> (\<forall>c \<in> set cs. eligible c \<longrightarrow> node_rank score n \<le> node_rank score c)"
  using assms
proof (induction cs arbitrary: n0)
  case (Cons c cs)
  show ?case
  proof (cases "eligible c \<and> prefer_node score c (n0, score n0)")
    case True
    then have lt: "node_rank score c < node_rank score n0" using Cons.prems(1) prefer_rank by blast
    obtain n where "select_loop eligible score (c, score c) cs = (n, score n)"
      "n = c \<or> n \<in> set cs \<and> eligible n" "node_rank score n \<le> node_rank score c"
      "\<forall>c \<in> set cs. eligible c \<longrightarrow> node_rank score n \<le> node_rank score c"
      using Cons.IH [of c] Cons.prems(2) True by auto
    then show ?thesis using True lt by (intro exI [of _ n]) auto
  next
    case False
    then have same: "select_loop eligible score (n0, score n0) (c # cs) = select_loop eligible score (n0, score n0) cs"
      by auto
    have ge: "eligible c \<Longrightarrow> node_rank score n0 \<le> node_rank score c"
      using False prefer_rank [OF Cons.prems(1), of score c] by auto
    obtain n where "select_loop eligible score (n0, score n0) cs = (n, score n)"
      "n = n0 \<or> n \<in> set cs \<and> eligible n" "node_rank score n \<le> node_rank score n0"
      "\<forall>c \<in> set cs. eligible c \<longrightarrow> node_rank score n \<le> node_rank score c"
      using Cons.IH [of n0] Cons.prems by auto
    then show ?thesis unfolding same using ge by (intro exI [of _ n]) auto
  qed
qed auto

lemma select_loop_first:
  assumes "nr_ID z = ''''" and ids: "\<forall>c \<in> set cs. eligible c \<longrightarrow> nr_ID c \<noteq> ''''"
  shows "(\<forall>c \<in> set cs. \<not> eligible c) \<and> select_loop eligible score (z, k) cs = (z, k)
    \<or> (\<exists>n \<in> set cs. eligible n \<and> select_loop eligible score (z, k) cs = (n, score n)
        \<and> (\<forall>c \<in> set cs. eligible c \<longrightarrow> node_rank score n \<le> node_rank score c))"
  using ids
proof (induction cs)
  case (Cons c cs)
  show ?case
  proof (cases "eligible c")
    case True
    have "prefer_node score c (z, k)" using assms(1) by (simp add: prefer_node_def)
    then have "select_loop eligible score (z, k) (c # cs) = select_loop eligible score (c, score c) cs"
      using True by simp
    then show ?thesis
      using select_loop_min [of c cs eligible score] Cons.prems True by auto
  next
    case False
    then show ?thesis using Cons by auto
  qed
qed simp

lemma claim_select_best:
  assumes ids: "\<forall>c \<in> set (mvals (runtimeNodes s)). nr_ID c \<noteq> ''''"
    and sel: "nr_ID (claim_select tenantID jobID now s) \<noteq> ''''"
  shows "claim_select tenantID jobID now s \<in> set (mvals (runtimeNodes s))
    \<and> claim_eligible tenantID jobID (claim_select tenantID jobID now s)
    \<and> (\<forall>c \<in> set (mvals (runtimeNodes s)). claim_eligible tenantID jobID c \<longrightarrow>
         node_rank (claim_score s now) (claim_select tenantID jobID now s)
           \<le> node_rank (claim_score s now) c)"
  using select_loop_first [of zero_node "mvals (runtimeNodes s)" "claim_eligible tenantID jobID"
      "claim_score s now" "-1"] ids sel
  unfolding claim_select_def by (auto simp: zero_node_def)

lemma claim_select_none:
  assumes ids: "\<forall>c \<in> set (mvals (runtimeNodes s)). nr_ID c \<noteq> ''''"
    and "nr_ID (claim_select tenantID jobID now s) = ''''"
  shows "\<forall>c \<in> set (mvals (runtimeNodes s)). \<not> claim_eligible tenantID jobID c"
  using select_loop_first [of zero_node "mvals (runtimeNodes s)" "claim_eligible tenantID jobID"
      "claim_score s now" "-1"] assms
  unfolding claim_select_def by (auto simp: zero_node_def)

end
