(* ===== verification/Dispatch.thy ===== *)
theory Dispatch
  imports Commands
begin

section \<open>Dispatch, leases and resource reservations\<close>

text \<open>
  The store side of executing a node (\<^verbatim>\<open>internal/persistence/memory/runtime_dispatch.go\<close>,
  \<^verbatim>\<open>runtime_resources.go\<close>, and \<^verbatim>\<open>ExpireNodeLeases\<close> of \<^verbatim>\<open>runtime.go\<close>): choosing the next ready node,
  preparing an attempt with its context view, agent, fence token and reservations, activating
  it, extending its lease, finalising it, and expiring what has run out of time.

  A Go method that returns a node, an attempt and an agent returns the triple here. The
  identifiers \<^verbatim>\<open>idgen.New\<close> gives the events of \<^verbatim>\<open>ExpireNodeLeases\<close> are the supply \<open>ids\<close>, indexed by
  the position in the loop; \<open>clock\<close> of \<open>NextReadyNode\<close> is \<^verbatim>\<open>time.Now()\<close>.
\<close>

subsection \<open>Choosing a node\<close>

definition containsString :: "string list \<Rightarrow> string \<Rightarrow> bool" where
  "containsString values target = list_ex (\<lambda>v. TrimSpace v = target) values"

definition next_job :: "Store \<Rightarrow> NodeRun \<Rightarrow> JobRun option" where
  "next_job s c = mget (runtimeJobs s) (runtimePlanKey (nr_TenantID c) (nr_JobRunID c))"

definition next_eligible ::
    "string \<Rightarrow> string \<Rightarrow> string list option \<Rightarrow> Store \<Rightarrow> NodeRun \<Rightarrow> bool" where
  "next_eligible tenantID jobID allowedProjectIDs s c =
     (\<not> (nr_TenantID c \<noteq> tenantID \<or> (jobID \<noteq> '''' \<and> nr_JobRunID c \<noteq> jobID) \<or> nr_State c \<noteq> NodeReady)
      \<and> (case next_job s c of
           None \<Rightarrow> False
         | Some job \<Rightarrow>
             \<not> (jr_State job = JobRunPaused \<or> jr_State job = JobRunCompleted \<or> jr_State job = JobRunFailed
                \<or> jr_State job = JobRunCancelled \<or> jr_State job = JobRunRejected)
             \<and> (case allowedProjectIDs of None \<Rightarrow> True | Some ids \<Rightarrow> containsString ids (jr_ProjectID job))))"

definition next_score :: "Store \<Rightarrow> time \<Rightarrow> NodeRun \<Rightarrow> int" where
  "next_score s clock c =
     node_score (case next_job s c of None \<Rightarrow> 0 | Some job \<Rightarrow> jr_Priority job) clock c"

definition NextReadyNode ::
    "time \<Rightarrow> string \<Rightarrow> string \<Rightarrow> string list option \<Rightarrow> Store \<Rightarrow> NodeRun res" where
  "NextReadyNode clock tenantID jobID allowedProjectIDs s =
     (let selected = fst (select_loop (next_eligible tenantID jobID allowedProjectIDs s)
                       (next_score s clock) (zero_node, -1) (mvals (runtimeNodes s)))
      in if nr_ID selected = '''' then Inl NotFound else Inr selected)"

definition zero_agent :: AgentInstance where
  "zero_agent =
     \<lparr>ai_ID = '''', ai_TenantID = '''', ai_JobRunID = '''', ai_NodeRunID = '''',
      ai_ParentAgentInstanceID = '''', ai_Role = '''', ai_HarnessKind = '''', ai_SessionRef = '''',
      ai_ExecutionProfileID = '''', ai_ContextViewID = '''', ai_State = AgentState '''', ai_Depth = 0,
      ai_RemainingDescendants = 0, ai_BudgetMinor = 0, ai_UsedCostMinor = 0, ai_Version = 0,
      ai_CreatedAt = 0, ai_UpdatedAt = 0\<rparr>"

fun agent_loop :: "string \<Rightarrow> string \<Rightarrow> AgentInstance \<Rightarrow> AgentInstance list \<Rightarrow> AgentInstance" where
  "agent_loop tenantID nodeID sel [] = sel"
| "agent_loop tenantID nodeID sel (c # cs) =
     (if ai_TenantID c \<noteq> tenantID \<or> ai_NodeRunID c \<noteq> nodeID \<or> ai_ParentAgentInstanceID c \<noteq> ''''
      then agent_loop tenantID nodeID sel cs
      else if ai_ID sel = '''' \<or> ai_CreatedAt c < ai_CreatedAt sel
              \<or> (ai_CreatedAt c = ai_CreatedAt sel \<and> ai_ID c < ai_ID sel)
      then agent_loop tenantID nodeID c cs
      else agent_loop tenantID nodeID sel cs)"

definition AgentInstanceForNode :: "string \<Rightarrow> string \<Rightarrow> Store \<Rightarrow> AgentInstance res" where
  "AgentInstanceForNode tenantID nodeID s =
     (let selected = agent_loop tenantID nodeID zero_agent (mvals (runtimeAgents s))
      in if ai_ID selected = '''' then Inl NotFound else Inr selected)"

definition Store_RuntimeAttempt :: "string \<Rightarrow> string \<Rightarrow> Store \<Rightarrow> RuntimeAttempt res" where
  "Store_RuntimeAttempt tenantID i s =
     lookup_or NotFound (mget (runtimeAttempts s) (runtimePlanKey tenantID i)) Inr"

definition RuntimeAttemptByGatewayTokenHash :: "string \<Rightarrow> Store \<Rightarrow> RuntimeAttempt res" where
  "RuntimeAttemptByGatewayTokenHash tokenHash s =
     lookup_or NotFound (find (\<lambda>a. ra_GatewayTokenHash a = tokenHash) (mvals (runtimeAttempts s))) Inr"

definition RuntimeAttempts :: "string \<Rightarrow> string \<Rightarrow> Store \<Rightarrow> RuntimeAttempt list" where
  "RuntimeAttempts tenantID jobID s =
     sort_by (\<lambda>a b. if ra_CreatedAt a = ra_CreatedAt b then ra_ID a < ra_ID b
                     else ra_CreatedAt a < ra_CreatedAt b)
       (filter (\<lambda>a. ra_TenantID a = tenantID \<and> (jobID = '''' \<or> ra_JobRunID a = jobID))
         (mvals (runtimeAttempts s)))"

subsection \<open>Quotas and reservations (runtime_resources.go)\<close>

abbreviation resourceQuotaKey :: "string \<Rightarrow> string \<Rightarrow> string" where
  "resourceQuotaKey \<equiv> runtimePlanKey"

definition SaveResourceQuota :: "ResourceQuota \<Rightarrow> Store \<Rightarrow> unit cmd" where
  "SaveResourceQuota quota s =
     check_nil (ResourceQuota_Validate quota) (
     let key = resourceQuotaKey (rq_TenantID quota) (rq_ResourceKey quota) in
     require (case mget (runtimeResourceQuotas s) key of
                None \<Rightarrow> True | Some previous \<Rightarrow> rq_Version previous = rq_Version quota - 1)
       (Conflict ''RESOURCE_QUOTA_VERSION_CONFLICT'') (
     Inr (s\<lparr>runtimeResourceQuotas := mput key quota (runtimeResourceQuotas s)\<rparr>, ())))"

definition reservation_key :: "ResourceReservation \<Rightarrow> string" where
  "reservation_key r = runtimePlanKey (rr_TenantID r) (rr_ID r)"

definition reservation_quota :: "ResourceReservation \<Rightarrow> string" where
  "reservation_quota r = resourceQuotaKey (rr_TenantID r) (rr_ResourceKey r)"

text \<open>The first loop: validate the reservations and add up what is requested per quota.\<close>

fun request_loop :: "Store \<Rightarrow> int gomap \<Rightarrow> ResourceReservation list \<Rightarrow> int gomap res" where
  "request_loop s requested [] = Inr requested"
| "request_loop s requested (r # rs) =
     (case ResourceReservation_Validate r of
        Some e \<Rightarrow> Inl e
      | None \<Rightarrow>
        (case mget (runtimeReservations s) (reservation_key r) of
           Some previous \<Rightarrow>
             if rr_IdempotencyKey previous = rr_IdempotencyKey r then request_loop s requested rs
             else Inl (Conflict ''RESOURCE_RESERVATION_EXISTS'')
         | None \<Rightarrow>
             if list_ex (\<lambda>x. rr_TenantID x = rr_TenantID r \<and> rr_IdempotencyKey x = rr_IdempotencyKey r)
                  (mvals (runtimeReservations s))
             then Inl (Conflict ''RESOURCE_RESERVATION_IDEMPOTENCY'')
             else request_loop s
               (mput (reservation_quota r)
                 (i64 (deg requested (reservation_quota r) + rr_Quantity r)) requested) rs))"

text \<open>The inner loop: what the held reservations of a quota use.\<close>

fun used_loop :: "string \<Rightarrow> string \<Rightarrow> int \<Rightarrow> ResourceReservation list \<Rightarrow> int res" where
  "used_loop key unit used [] = Inr used"
| "used_loop key unit used (x # xs) =
     (if reservation_quota x = key \<and> rr_State x = ReservationHeld then
        (if TrimSpace (rr_Unit x) \<noteq> unit then Inl (Invalid ''RESOURCE_UNIT_MISMATCH'')
         else used_loop key unit (i64 (used + rr_Quantity x)) xs)
      else used_loop key unit used xs)"

fun quota_loop :: "Store \<Rightarrow> int gomap \<Rightarrow> fault option" where
  "quota_loop s [] = None"
| "quota_loop s ((key, amount) # rest) =
     (case mget (runtimeResourceQuotas s) key of
        None \<Rightarrow> quota_loop s rest
      | Some quota \<Rightarrow>
        (case used_loop key (rq_Unit quota) 0 (mvals (runtimeReservations s)) of
           Inl e \<Rightarrow> Some e
         | Inr used \<Rightarrow>
             if i64 (used + amount) > rq_Capacity quota then Some (Conflict ''RESOURCE_QUOTA_EXCEEDED'')
             else quota_loop s rest))"

definition validateResourceReservationsLocked ::
    "Store \<Rightarrow> ResourceReservation list \<Rightarrow> fault option" where
  "validateResourceReservationsLocked s reservations =
     (case request_loop s [] reservations of Inl e \<Rightarrow> Some e | Inr requested \<Rightarrow> quota_loop s requested)"

subsection \<open>The dispatch protocol\<close>

definition attempt_key :: "RuntimeAttempt \<Rightarrow> string" where
  "attempt_key a = runtimePlanKey (ra_TenantID a) (ra_ID a)"

definition agent_key :: "AgentInstance \<Rightarrow> string" where
  "agent_key a = runtimePlanKey (ai_TenantID a) (ai_ID a)"

definition sameDispatchScope ::
    "NodeRun \<Rightarrow> RuntimeAttempt \<Rightarrow> string \<times> string \<times> string \<Rightarrow> AgentInstance \<Rightarrow> bool" where
  "sameDispatchScope node attempt view agent =
     (nr_TenantID node = ra_TenantID attempt \<and> nr_TenantID node = fst view
      \<and> nr_TenantID node = ai_TenantID agent \<and> nr_JobRunID node = ra_JobRunID attempt
      \<and> nr_JobRunID node = fst (snd view) \<and> nr_JobRunID node = ai_JobRunID agent
      \<and> nr_ID node = ra_NodeRunID attempt \<and> nr_ID node = snd (snd view) \<and> nr_ID node = ai_NodeRunID agent)"

definition sameTimePointer :: "time option \<Rightarrow> time option \<Rightarrow> bool" where
  "sameTimePointer l r = (l \<noteq> None \<and> r \<noteq> None \<and> l = r)"

definition prepare_agent_check ::
    "Store \<Rightarrow> AgentInstance \<Rightarrow> bool \<Rightarrow> int \<Rightarrow> fault option" where
  "prepare_agent_check s agent createAgent expectedAgentVersion =
     (if createAgent then
        (if mget (runtimeAgents s) (agent_key agent) \<noteq> None \<or> expectedAgentVersion \<noteq> 0
         then Some (Conflict ''AGENT_INSTANCE_EXISTS'') else None)
      else case mget (runtimeAgents s) (agent_key agent) of
        None \<Rightarrow> Some NotFound
      | Some current \<Rightarrow>
          if ai_Version current \<noteq> expectedAgentVersion \<or> ai_Version agent \<noteq> expectedAgentVersion + 1
             \<or> ai_JobRunID current \<noteq> ai_JobRunID agent \<or> ai_NodeRunID current \<noteq> ai_NodeRunID agent
             \<or> ai_ParentAgentInstanceID current \<noteq> '''' \<or> ai_HarnessKind current \<noteq> ai_HarnessKind agent
             \<or> ai_ExecutionProfileID current \<noteq> ai_ExecutionProfileID agent
          then Some (Conflict ''AGENT_INSTANCE_DISPATCH_CONFLICT'')
          else AgentInstance_Transition current AgentRunnable)"

definition PrepareDispatch ::
    "NodeRun \<Rightarrow> int \<Rightarrow> RuntimeAttempt \<Rightarrow> ContextView \<Rightarrow> AgentInstance \<Rightarrow> bool \<Rightarrow> int
     \<Rightarrow> ResourceReservation list \<Rightarrow> JobEvent \<Rightarrow> Store \<Rightarrow> (NodeRun \<times> RuntimeAttempt \<times> AgentInstance) cmd" where
  "PrepareDispatch node expectedNodeVersion attempt view agent createAgent expectedAgentVersion
      reservations event s =
     check_nil (NodeRun_Validate node) (
     check_nil (RuntimeAttempt_Validate attempt) (
     check_nil (ContextView_Validate view) (
     check_nil (AgentInstance_Validate agent) (
     lookup_or NotFound (mget (runtimeNodes s) (node_key node)) (\<lambda>currentNode.
     require (\<not> (nr_Version currentNode \<noteq> expectedNodeVersion \<or> nr_State currentNode \<noteq> NodeReady))
       (Conflict ''NODE_DISPATCH_CONFLICT'') (
     require (\<not> (nr_FenceToken node = '''' \<or> ra_FenceToken attempt = ''''
                 \<or> nr_FenceToken node \<noteq> ra_FenceToken attempt)) (Invalid ''DISPATCH_FENCE_INVALID'') (
     require (\<not> (length (ra_GatewayTokenHash attempt) \<noteq> 64 \<or> ra_GatewayExpiresAt attempt = None))
       (Invalid ''DISPATCH_GATEWAY_CREDENTIAL_INVALID'') (
     require (\<not> (nr_Version node \<noteq> expectedNodeVersion + 1 \<or> nr_State node \<noteq> NodeLeased
                 \<or> nr_AttemptCount node \<noteq> nr_AttemptCount currentNode + 1
                 \<or> nr_AttemptCount node \<noteq> ra_AttemptNo attempt
                 \<or> nr_LeaseOwner node \<noteq> ra_LeaseOwner attempt
                 \<or> \<not> sameTimePointer (nr_LeaseExpiresAt node) (ra_LeaseExpiresAt attempt)))
       (Invalid ''DISPATCH_PREPARE_INVALID'') (
     require (\<not> (\<not> sameDispatchScope node attempt (cv_TenantID view, cv_JobRunID view, cv_NodeRunID view) agent
                 \<or> cv_AttemptID view \<noteq> ra_ID attempt \<or> ra_ContextViewID attempt \<noteq> cv_ID view
                 \<or> ra_AgentInstanceID attempt \<noteq> ai_ID agent \<or> ai_ContextViewID agent \<noteq> cv_ID view
                 \<or> ai_State agent \<noteq> AgentRunnable))
       (Invalid ''DISPATCH_SCOPE_INVALID'') (
     require (mget (runtimeAttempts s) (attempt_key attempt) = None) (Conflict ''RUNTIME_ATTEMPT_EXISTS'') (
     require (\<not> list_ex (\<lambda>x. ra_TenantID x = ra_TenantID attempt \<and> ra_NodeRunID x = ra_NodeRunID attempt
                 \<and> ra_AttemptNo x = ra_AttemptNo attempt) (mvals (runtimeAttempts s)))
       (Conflict ''RUNTIME_ATTEMPT_NUMBER_EXISTS'') (
     check_nil (validateNewContextViewLocked s view) (
     check_nil (prepare_agent_check s agent createAgent expectedAgentVersion) (
     require (\<not> list_ex (\<lambda>x. ai_TenantID x = ai_TenantID agent \<and> ai_ContextViewID x = ai_ContextViewID agent
                 \<and> ai_ID x \<noteq> ai_ID agent) (mvals (runtimeAgents s)))
       (Conflict ''AGENT_INSTANCE_CONTEXT_EXISTS'') (
     check_nil (validateRuntimeEventLocked s event) (
     check_nil (validateResourceReservationsLocked s reservations) (
     Inr (appendRuntimeEventLocked
       (s\<lparr>runtimeNodes := mput (node_key node) node (runtimeNodes s),
          runtimeContextViews := mput (runtimePlanKey (cv_TenantID view) (cv_ID view)) view
            (runtimeContextViews s),
          runtimeAgents := mput (agent_key agent) agent (runtimeAgents s),
          runtimeAttempts := mput (attempt_key attempt) attempt (runtimeAttempts s),
          runtimeReservations := mput_all reservation_key reservations (runtimeReservations s)\<rparr>) event,
       (node, attempt, agent)))))))))))))))))))"

definition dispatchStateLocked ::
    "string \<Rightarrow> string \<Rightarrow> string \<Rightarrow> string \<Rightarrow> Store \<Rightarrow> (NodeRun \<times> RuntimeAttempt \<times> AgentInstance) res" where
  "dispatchStateLocked tenantID nodeID attemptID agentID s =
     lookup_or NotFound (mget (runtimeNodes s) (runtimeNodeKey tenantID nodeID)) (\<lambda>node.
     lookup_or NotFound (mget (runtimeAttempts s) (runtimePlanKey tenantID attemptID)) (\<lambda>attempt.
     lookup_or NotFound (mget (runtimeAgents s) (runtimePlanKey tenantID agentID)) (\<lambda>agent.
     Inr (node, attempt, agent))))"

definition node_scope :: "NodeRun \<Rightarrow> string \<times> string \<times> string" where
  "node_scope node = (nr_TenantID node, nr_JobRunID node, nr_ID node)"

text \<open>The writes of \<^verbatim>\<open>ActivateDispatch\<close> and \<^verbatim>\<open>FinalizeDispatch\<close>: node, attempt and agent.\<close>

definition put_dispatch :: "NodeRun \<Rightarrow> RuntimeAttempt \<Rightarrow> AgentInstance \<Rightarrow> Store \<Rightarrow> Store" where
  "put_dispatch node attempt agent s =
     s\<lparr>runtimeNodes := mput (node_key node) node (runtimeNodes s),
       runtimeAttempts := mput (attempt_key attempt) attempt (runtimeAttempts s),
       runtimeAgents := mput (agent_key agent) agent (runtimeAgents s)\<rparr>"

definition ActivateDispatch ::
    "NodeRun \<Rightarrow> int \<Rightarrow> RuntimeAttempt \<Rightarrow> int \<Rightarrow> AgentInstance \<Rightarrow> int \<Rightarrow> JobEvent \<Rightarrow> Store
     \<Rightarrow> (NodeRun \<times> RuntimeAttempt \<times> AgentInstance) cmd" where
  "ActivateDispatch node expectedNodeVersion attempt expectedAttemptVersion agent expectedAgentVersion
      event s =
     check_nil (NodeRun_Validate node) (
     check_nil (RuntimeAttempt_Validate attempt) (
     check_nil (AgentInstance_Validate agent) (
     bind_res (dispatchStateLocked (nr_TenantID node) (nr_ID node) (ra_ID attempt) (ai_ID agent) s)
       (\<lambda>(currentNode, currentAttempt, currentAgent).
     require (\<not> (nr_Version currentNode \<noteq> expectedNodeVersion \<or> ra_Version currentAttempt \<noteq> expectedAttemptVersion
                 \<or> ai_Version currentAgent \<noteq> expectedAgentVersion)) (Conflict ''DISPATCH_VERSION_CONFLICT'') (
     require (\<not> (nr_State currentNode \<noteq> NodeLeased \<or> ra_State currentAttempt \<noteq> RuntimeAttemptPrepared
                 \<or> ai_State currentAgent \<noteq> AgentRunnable
                 \<or> nr_LeaseOwner currentNode \<noteq> ra_LeaseOwner currentAttempt
                 \<or> ra_LeaseOwner currentAttempt \<noteq> je_ActorID event \<or> nr_FenceToken currentNode = ''''
                 \<or> nr_FenceToken currentNode \<noteq> ra_FenceToken currentAttempt
                 \<or> nr_FenceToken currentNode \<noteq> nr_FenceToken node
                 \<or> \<not> after_opt (ra_LeaseExpiresAt currentAttempt) (ra_UpdatedAt attempt)))
       (Conflict ''DISPATCH_LEASE_STALE'') (
     check_nil (NodeRun_Transition currentNode (nr_State node)) (
     check_nil (RuntimeAttempt_Transition currentAttempt (ra_State attempt)) (
     check_nil (AgentInstance_Transition currentAgent (ai_State agent)) (
     require (\<not> (\<not> sameDispatchScope node attempt (node_scope node) agent \<or> ra_SessionRef attempt = ''''
                 \<or> ai_SessionRef agent \<noteq> ra_SessionRef attempt \<or> nr_Version node \<noteq> expectedNodeVersion + 1
                 \<or> ra_Version attempt \<noteq> expectedAttemptVersion + 1
                 \<or> ai_Version agent \<noteq> expectedAgentVersion + 1))
       (Invalid ''DISPATCH_ACTIVATE_INVALID'') (
     check_nil (validateRuntimeEventLocked s event) (
     Inr (appendRuntimeEventLocked (put_dispatch node attempt agent s) event,
          (node, attempt, agent)))))))))))))"

definition extend_reservation :: "string \<Rightarrow> string \<Rightarrow> string \<Rightarrow> time \<Rightarrow> time \<Rightarrow> ResourceReservation \<Rightarrow> ResourceReservation" where
  "extend_reservation tenantID attemptID fenceToken now expires r =
     (if rr_TenantID r = tenantID \<and> rr_AttemptID r = attemptID \<and> rr_State r = ReservationHeld
         \<and> rr_FenceToken r = fenceToken
      then r\<lparr>rr_ExpiresAt := Some expires, rr_UpdatedAt := now\<rparr> else r)"

definition HeartbeatDispatch ::
    "string \<Rightarrow> string \<Rightarrow> string \<Rightarrow> string \<Rightarrow> int \<Rightarrow> int \<Rightarrow> time \<Rightarrow> int \<Rightarrow> Store
     \<Rightarrow> (NodeRun \<times> RuntimeAttempt) cmd" where
  "HeartbeatDispatch tenantID attemptID owner fenceToken expectedNodeVersion expectedAttemptVersion
      now leaseFor s =
     require (\<not> (blank owner \<or> blank fenceToken \<or> leaseFor \<le> 0)) (Invalid ''DISPATCH_HEARTBEAT_INVALID'') (
     lookup_or NotFound (mget (runtimeAttempts s) (runtimePlanKey tenantID attemptID)) (\<lambda>attempt.
     lookup_or NotFound (mget (runtimeNodes s) (runtimeNodeKey tenantID (ra_NodeRunID attempt))) (\<lambda>node.
     require (\<not> (nr_Version node \<noteq> expectedNodeVersion \<or> ra_Version attempt \<noteq> expectedAttemptVersion))
       (Conflict ''DISPATCH_VERSION_CONFLICT'') (
     require (\<not> (nr_State node \<noteq> NodeRunning \<or> ra_State attempt \<noteq> RuntimeAttemptRunning
                 \<or> nr_LeaseOwner node \<noteq> owner \<or> ra_LeaseOwner attempt \<noteq> owner
                 \<or> nr_FenceToken node \<noteq> fenceToken \<or> ra_FenceToken attempt \<noteq> fenceToken
                 \<or> \<not> after_opt (nr_LeaseExpiresAt node) now \<or> \<not> after_opt (ra_LeaseExpiresAt attempt) now))
       (Conflict ''DISPATCH_LEASE_STALE'') (
     let expires = now + leaseFor;
         node' = node\<lparr>nr_LeaseExpiresAt := Some expires, nr_Version := nr_Version node + 1, nr_UpdatedAt := now\<rparr>;
         attempt' = attempt\<lparr>ra_LeaseExpiresAt := Some expires, ra_Version := ra_Version attempt + 1,
                            ra_UpdatedAt := now\<rparr> in
     Inr (s\<lparr>runtimeNodes := mput (runtimeNodeKey tenantID (nr_ID node')) node' (runtimeNodes s),
            runtimeAttempts := mput (runtimePlanKey tenantID (ra_ID attempt')) attempt' (runtimeAttempts s),
            runtimeReservations :=
              mmap (extend_reservation tenantID (ra_ID attempt') fenceToken now expires) (runtimeReservations s)\<rparr>,
          (node', attempt')))))))"

definition consume_reservation :: "RuntimeAttempt \<Rightarrow> time \<Rightarrow> ResourceReservation \<Rightarrow> ResourceReservation" where
  "consume_reservation attempt at r =
     (if rr_TenantID r = ra_TenantID attempt \<and> rr_AttemptID r = ra_ID attempt \<and> rr_State r = ReservationHeld
      then r\<lparr>rr_State := ReservationConsumed, rr_FenceToken := '''', rr_ExpiresAt := None,
             rr_ReleasedAt := Some at, rr_UpdatedAt := at\<rparr> else r)"

definition FinalizeDispatch ::
    "NodeRun \<Rightarrow> int \<Rightarrow> RuntimeAttempt \<Rightarrow> int \<Rightarrow> AgentInstance \<Rightarrow> int \<Rightarrow> string \<Rightarrow> JobEvent \<Rightarrow> Store
     \<Rightarrow> (NodeRun \<times> RuntimeAttempt \<times> AgentInstance) cmd" where
  "FinalizeDispatch node expectedNodeVersion attempt expectedAttemptVersion agent expectedAgentVersion
      fenceToken event s =
     check_nil (NodeRun_Validate node) (
     check_nil (RuntimeAttempt_Validate attempt) (
     check_nil (AgentInstance_Validate agent) (
     bind_res (dispatchStateLocked (nr_TenantID node) (nr_ID node) (ra_ID attempt) (ai_ID agent) s)
       (\<lambda>(currentNode, currentAttempt, currentAgent).
     if RuntimeAttempt_Terminal currentAttempt then
       (if ra_State currentAttempt = ra_State attempt \<and> ra_ResultDigest currentAttempt = ra_ResultDigest attempt
        then Inr (s, (currentNode, currentAttempt, currentAgent))
        else Inl (Conflict ''RUNTIME_ATTEMPT_RESULT_CONFLICT''))
     else
     require (\<not> (nr_Version currentNode \<noteq> expectedNodeVersion \<or> ra_Version currentAttempt \<noteq> expectedAttemptVersion
                 \<or> ai_Version currentAgent \<noteq> expectedAgentVersion)) (Conflict ''DISPATCH_VERSION_CONFLICT'') (
     require (\<not> (nr_LeaseOwner currentNode = '''' \<or> nr_LeaseOwner currentNode \<noteq> ra_LeaseOwner currentAttempt
                 \<or> ra_LeaseOwner currentAttempt \<noteq> je_ActorID event \<or> blank fenceToken
                 \<or> nr_FenceToken currentNode \<noteq> fenceToken \<or> ra_FenceToken currentAttempt \<noteq> fenceToken
                 \<or> \<not> after_opt (nr_LeaseExpiresAt currentNode) (je_OccurredAt event)
                 \<or> \<not> after_opt (ra_LeaseExpiresAt currentAttempt) (je_OccurredAt event)))
       (Conflict ''DISPATCH_LEASE_STALE'') (
     check_nil (NodeRun_Transition currentNode (nr_State node)) (
     check_nil (RuntimeAttempt_Transition currentAttempt (ra_State attempt)) (
     check_nil (AgentInstance_Transition currentAgent (ai_State agent)) (
     require (\<not> (nr_Version node \<noteq> expectedNodeVersion + 1 \<or> ra_Version attempt \<noteq> expectedAttemptVersion + 1
                 \<or> ai_Version agent \<noteq> expectedAgentVersion + 1
                 \<or> \<not> sameDispatchScope node attempt (node_scope node) agent))
       (Invalid ''DISPATCH_FINALIZE_INVALID'') (
     check_nil (validateRuntimeEventLocked s event) (
     Inr (appendRuntimeEventLocked
       ((put_dispatch node attempt agent s)\<lparr>runtimeReservations :=
          mmap (consume_reservation attempt (je_OccurredAt event)) (runtimeReservations s)\<rparr>) event,
       (node, attempt, agent)))))))))))))"

subsection \<open>Expiry (runtime.go)\<close>

definition attempt_expired :: "string \<Rightarrow> time \<Rightarrow> RuntimeAttempt \<Rightarrow> bool" where
  "attempt_expired tenantID now a =
     (\<not> (ra_TenantID a \<noteq> tenantID \<or> ra_LeaseExpiresAt a = None \<or> after_opt (ra_LeaseExpiresAt a) now
         \<or> (ra_State a \<noteq> RuntimeAttemptPrepared \<and> ra_State a \<noteq> RuntimeAttemptRunning)))"

definition expire_attempt :: "time \<Rightarrow> RuntimeAttempt \<Rightarrow> RuntimeAttempt" where
  "expire_attempt now a =
     a\<lparr>ra_State := RuntimeAttemptExpired, ra_ErrorCode := ''DISPATCH_LEASE_EXPIRED'', ra_LeaseOwner := '''',
       ra_FenceToken := '''', ra_LeaseExpiresAt := None, ra_FinishedAt := Some now,
       ra_Version := ra_Version a + 1, ra_UpdatedAt := now\<rparr>"

definition expire_reservation :: "string \<Rightarrow> string \<Rightarrow> time \<Rightarrow> ResourceReservation \<Rightarrow> ResourceReservation" where
  "expire_reservation tenantID attemptID now r =
     (if rr_TenantID r = tenantID \<and> rr_AttemptID r = attemptID \<and> rr_State r = ReservationHeld
      then r\<lparr>rr_State := ReservationExpired, rr_FenceToken := '''', rr_ExpiresAt := None,
             rr_ReleasedAt := Some now, rr_UpdatedAt := now\<rparr> else r)"

definition release_agent :: "string \<Rightarrow> time \<Rightarrow> string \<Rightarrow> AgentInstance gomap \<Rightarrow> AgentInstance gomap" where
  "release_agent tenantID now agentID m =
     (case mget m (runtimePlanKey tenantID agentID) of
        None \<Rightarrow> m
      | Some ag \<Rightarrow>
          if ai_State ag = AgentActive
          then mput (runtimePlanKey tenantID (ai_ID ag))
                 (ag\<lparr>ai_State := AgentRunnable, ai_Version := ai_Version ag + 1, ai_UpdatedAt := now\<rparr>) m
          else m)"

definition expiry_event :: "string \<Rightarrow> string \<Rightarrow> time \<Rightarrow> RuntimeAttempt \<Rightarrow> JobEvent" where
  "expiry_event newID tenantID now a =
     \<lparr>je_ID = newID, je_TenantID = tenantID, je_JobRunID = ra_JobRunID a, je_Sequence = 0,
      je_Type = ''attempt.expired'', je_NodeKey = '''', je_ActorType = ''runtime'', je_ActorID = '''',
      je_CorrelationID = '''', je_IdempotencyKey = '''',
      je_Payload = [(''attempt_id'', AStr (ra_ID a)), (''error_code'', AStr (ra_ErrorCode a))],
      je_OccurredAt = now\<rparr>"

fun expire_loop :: "(nat \<Rightarrow> string) \<Rightarrow> string \<Rightarrow> time \<Rightarrow> nat \<Rightarrow> RuntimeAttempt gomap \<Rightarrow> Store \<Rightarrow> Store" where
  "expire_loop ids tenantID now i [] s = s"
| "expire_loop ids tenantID now i ((k, a) # rest) s =
     (if \<not> attempt_expired tenantID now a then expire_loop ids tenantID now (Suc i) rest s
      else
        let a' = expire_attempt now a;
            s1 = s\<lparr>runtimeAttempts := mput k a' (runtimeAttempts s),
                   runtimeReservations := mmap (expire_reservation tenantID (ra_ID a') now) (runtimeReservations s),
                   runtimeAgents := release_agent tenantID now (ra_AgentInstanceID a') (runtimeAgents s)\<rparr>
        in expire_loop ids tenantID now (Suc i) rest
             (appendRuntimeEventLocked s1 (expiry_event (ids i) tenantID now a')))"

definition expire_node :: "string \<Rightarrow> time \<Rightarrow> NodeRun \<Rightarrow> NodeRun" where
  "expire_node tenantID now n =
     (if nr_TenantID n = tenantID \<and> nr_LeaseExpiresAt n \<noteq> None \<and> \<not> after_opt (nr_LeaseExpiresAt n) now
         \<and> (nr_State n = NodeLeased \<or> nr_State n = NodeRunning)
      then n\<lparr>nr_State := NodeLeaseExpired, nr_ErrorCode := ''DISPATCH_LEASE_EXPIRED'', nr_LeaseOwner := '''',
             nr_FenceToken := '''', nr_LeaseExpiresAt := None, nr_Version := nr_Version n + 1,
             nr_UpdatedAt := now\<rparr> else n)"

definition ExpireNodeLeases :: "(nat \<Rightarrow> string) \<Rightarrow> string \<Rightarrow> time \<Rightarrow> Store \<Rightarrow> Store" where
  "ExpireNodeLeases ids tenantID now s =
     (let s' = expire_loop ids tenantID now 0 (runtimeAttempts s) s
      in s'\<lparr>runtimeNodes := mmap (expire_node tenantID now) (runtimeNodes s')\<rparr>)"

subsection \<open>What a successful dispatch command has checked\<close>

lemma dispatchStateLocked_Inr:
  "dispatchStateLocked t nid aid gid s = Inr (cn, ca, cg) \<longleftrightarrow>
     mget (runtimeNodes s) (runtimeNodeKey t nid) = Some cn
     \<and> mget (runtimeAttempts s) (runtimePlanKey t aid) = Some ca
     \<and> mget (runtimeAgents s) (runtimePlanKey t gid) = Some cg"
  by (auto simp: dispatchStateLocked_def)

lemma PrepareDispatch_ok:
  assumes "PrepareDispatch node x attempt view agent create z reservations event s = Inr (s', r)"
  obtains cn where "mget (runtimeNodes s) (node_key node) = Some cn"
    and "nr_Version cn = x" and "nr_State cn = NodeReady" and "nr_State node = NodeLeased"
    and "nr_Version node = x + 1" and "nr_AttemptCount node = nr_AttemptCount cn + 1"
    and "ra_AttemptNo attempt = nr_AttemptCount node"
    and "nr_FenceToken node = ra_FenceToken attempt" and "nr_FenceToken node \<noteq> ''''"
    and "NodeRun_Validate node = None" and "RuntimeAttempt_Validate attempt = None"
    and "nr_TenantID node = ra_TenantID attempt" and "nr_ID node = ra_NodeRunID attempt"
    and "mget (runtimeAttempts s) (attempt_key attempt) = None"
    and "\<not> list_ex (\<lambda>x. ra_TenantID x = ra_TenantID attempt \<and> ra_NodeRunID x = ra_NodeRunID attempt
            \<and> ra_AttemptNo x = ra_AttemptNo attempt) (mvals (runtimeAttempts s))"
    and "validateResourceReservationsLocked s reservations = None"
    and "s' = appendRuntimeEventLocked
       (s\<lparr>runtimeNodes := mput (node_key node) node (runtimeNodes s),
          runtimeContextViews := mput (runtimePlanKey (cv_TenantID view) (cv_ID view)) view
            (runtimeContextViews s),
          runtimeAgents := mput (agent_key agent) agent (runtimeAgents s),
          runtimeAttempts := mput (attempt_key attempt) attempt (runtimeAttempts s),
          runtimeReservations := mput_all reservation_key reservations (runtimeReservations s)\<rparr>) event"
    and "r = (node, attempt, agent)"
  using assms unfolding PrepareDispatch_def sameDispatchScope_def
  apply (simp only: check_nil_Inr lookup_or_Inr require_Inr sum.inject prod.inject de_Morgan_disj not_not)
  apply (elim exE conjE)
  apply (rule that; (assumption | rule sym, assumption)?)
  done

lemma ActivateDispatch_ok:
  assumes "ActivateDispatch node x attempt y agent z event s = Inr (s', r)"
  obtains cn ca cg where "mget (runtimeNodes s) (node_key node) = Some cn"
    and "mget (runtimeAttempts s) (runtimePlanKey (nr_TenantID node) (ra_ID attempt)) = Some ca"
    and "mget (runtimeAgents s) (runtimePlanKey (nr_TenantID node) (ai_ID agent)) = Some cg"
    and "nr_Version cn = x" and "ra_Version ca = y" and "ai_Version cg = z"
    and "nr_State cn = NodeLeased" and "ra_State ca = RuntimeAttemptPrepared" and "ai_State cg = AgentRunnable"
    and "nr_LeaseOwner cn = ra_LeaseOwner ca" and "ra_LeaseOwner ca = je_ActorID event"
    and "nr_FenceToken cn = ra_FenceToken ca" and "nr_FenceToken cn \<noteq> ''''"
    and "after_opt (ra_LeaseExpiresAt ca) (ra_UpdatedAt attempt)"
    and "node_transition (nr_State cn) (nr_State node) = None"
    and "attempt_transition (ra_State ca) (ra_State attempt) = None"
    and "agent_transition (ai_State cg) (ai_State agent) = None"
    and "nr_Version node = x + 1" and "ra_Version attempt = y + 1" and "ai_Version agent = z + 1"
    and "nr_TenantID node = ra_TenantID attempt" and "nr_TenantID node = ai_TenantID agent"
    and "NodeRun_Validate node = None" and "RuntimeAttempt_Validate attempt = None"
    and "s' = appendRuntimeEventLocked (put_dispatch node attempt agent s) event"
    and "r = (node, attempt, agent)"
proof -
  from assms obtain st where
    "dispatchStateLocked (nr_TenantID node) (nr_ID node) (ra_ID attempt) (ai_ID agent) s = Inr st"
    unfolding ActivateDispatch_def by (simp only: check_nil_Inr bind_res_Inr) blast
  then obtain cn ca cg where st:
    "dispatchStateLocked (nr_TenantID node) (nr_ID node) (ra_ID attempt) (ai_ID agent) s = Inr (cn, ca, cg)"
    by (cases st) auto
  then have m: "mget (runtimeNodes s) (node_key node) = Some cn"
    "mget (runtimeAttempts s) (runtimePlanKey (nr_TenantID node) (ra_ID attempt)) = Some ca"
    "mget (runtimeAgents s) (runtimePlanKey (nr_TenantID node) (ai_ID agent)) = Some cg"
    by (simp_all add: dispatchStateLocked_Inr node_key_def)
  from assms show ?thesis
    unfolding ActivateDispatch_def st bind_res_simps prod.case sameDispatchScope_def node_scope_def
      NodeRun_Transition_def RuntimeAttempt_Transition_def AgentInstance_Transition_def
    apply (simp only: check_nil_Inr require_Inr sum.inject prod.inject de_Morgan_disj not_not)
    apply (elim exE conjE)
    apply (rule that [OF m]; (assumption | rule sym, assumption)?)
    done
qed

lemma HeartbeatDispatch_ok:
  assumes "HeartbeatDispatch t aid owner fence x y now lease s = Inr (s', r)"
  obtains cn ca where "mget (runtimeAttempts s) (runtimePlanKey t aid) = Some ca"
    and "mget (runtimeNodes s) (runtimePlanKey t (ra_NodeRunID ca)) = Some cn"
    and "0 < lease" and "nr_State cn = NodeRunning" and "ra_State ca = RuntimeAttemptRunning"
    and "nr_LeaseOwner cn = owner" and "ra_LeaseOwner ca = owner"
    and "nr_FenceToken cn = fence" and "ra_FenceToken ca = fence"
    and "after_opt (nr_LeaseExpiresAt cn) now" and "after_opt (ra_LeaseExpiresAt ca) now"
    and "s' = s\<lparr>runtimeNodes := mput (runtimePlanKey t (nr_ID cn))
             (cn\<lparr>nr_LeaseExpiresAt := Some (now + lease), nr_Version := nr_Version cn + 1,
                 nr_UpdatedAt := now\<rparr>) (runtimeNodes s),
           runtimeAttempts := mput (runtimePlanKey t (ra_ID ca))
             (ca\<lparr>ra_LeaseExpiresAt := Some (now + lease), ra_Version := ra_Version ca + 1,
                 ra_UpdatedAt := now\<rparr>) (runtimeAttempts s),
           runtimeReservations := mmap (extend_reservation t (ra_ID ca) fence now (now + lease))
             (runtimeReservations s)\<rparr>"
  using assms unfolding HeartbeatDispatch_def Let_def
  apply (simp only: lookup_or_Inr require_Inr sum.inject prod.inject de_Morgan_disj not_not not_le)
  apply (elim exE conjE)
  apply (rule that; (assumption | (hypsubst, simp))?)
  done

lemma FinalizeDispatch_ok:
  assumes "FinalizeDispatch node x attempt y agent z fence event s = Inr (s', r)"
  obtains (replay) cn ca cg where
      "mget (runtimeAttempts s) (runtimePlanKey (nr_TenantID node) (ra_ID attempt)) = Some ca"
      and "attempt_terminal (ra_State ca)" and "ra_State attempt = ra_State ca"
      and "ra_ResultDigest attempt = ra_ResultDigest ca" and "s' = s" and "r = (cn, ca, cg)"
  | (stored) cn ca cg where "mget (runtimeNodes s) (node_key node) = Some cn"
      and "mget (runtimeAttempts s) (runtimePlanKey (nr_TenantID node) (ra_ID attempt)) = Some ca"
      and "mget (runtimeAgents s) (runtimePlanKey (nr_TenantID node) (ai_ID agent)) = Some cg"
      and "\<not> attempt_terminal (ra_State ca)"
      and "nr_Version cn = x" and "ra_Version ca = y" and "ai_Version cg = z"
      and "nr_LeaseOwner cn = je_ActorID event" and "ra_LeaseOwner ca = je_ActorID event"
      and "\<not> blank fence" and "nr_FenceToken cn = fence" and "ra_FenceToken ca = fence"
      and "after_opt (nr_LeaseExpiresAt cn) (je_OccurredAt event)"
      and "after_opt (ra_LeaseExpiresAt ca) (je_OccurredAt event)"
      and "node_transition (nr_State cn) (nr_State node) = None"
      and "attempt_transition (ra_State ca) (ra_State attempt) = None"
      and "agent_transition (ai_State cg) (ai_State agent) = None"
      and "nr_Version node = x + 1" and "ra_Version attempt = y + 1" and "ai_Version agent = z + 1"
      and "nr_TenantID node = ra_TenantID attempt" and "nr_TenantID node = ai_TenantID agent"
      and "NodeRun_Validate node = None" and "RuntimeAttempt_Validate attempt = None"
      and "s' = appendRuntimeEventLocked
            ((put_dispatch node attempt agent s)\<lparr>runtimeReservations :=
               mmap (consume_reservation attempt (je_OccurredAt event)) (runtimeReservations s)\<rparr>) event"
      and "r = (node, attempt, agent)"
proof -
  from assms obtain st where
    "dispatchStateLocked (nr_TenantID node) (nr_ID node) (ra_ID attempt) (ai_ID agent) s = Inr st"
    unfolding FinalizeDispatch_def by (simp only: check_nil_Inr bind_res_Inr) blast
  then obtain cn ca cg where st:
    "dispatchStateLocked (nr_TenantID node) (nr_ID node) (ra_ID attempt) (ai_ID agent) s = Inr (cn, ca, cg)"
    by (cases st) auto
  then have m: "mget (runtimeNodes s) (node_key node) = Some cn"
    "mget (runtimeAttempts s) (runtimePlanKey (nr_TenantID node) (ra_ID attempt)) = Some ca"
    "mget (runtimeAgents s) (runtimePlanKey (nr_TenantID node) (ai_ID agent)) = Some cg"
    by (simp_all add: dispatchStateLocked_Inr node_key_def)
  note fin = assms [unfolded FinalizeDispatch_def st bind_res_simps prod.case sameDispatchScope_def
      node_scope_def NodeRun_Transition_def RuntimeAttempt_Transition_def AgentInstance_Transition_def
      RuntimeAttempt_Terminal_def]
  show ?thesis
  proof (cases "attempt_terminal (ra_State ca)")
    case True
    with fin have "ra_State ca = ra_State attempt" "ra_ResultDigest ca = ra_ResultDigest attempt"
      "s' = s" "r = (cn, ca, cg)" by (simp_all split: if_splits)
    with replay [OF m(2) True] show ?thesis by simp
  next
    case False
    have owner: "nr_LeaseOwner cn = je_ActorID event" "ra_LeaseOwner ca = je_ActorID event"
      using fin unfolding if_not_P [OF False] check_nil_Inr require_Inr by simp_all
    from fin show ?thesis unfolding if_not_P [OF False]
      apply (simp only: check_nil_Inr require_Inr sum.inject prod.inject de_Morgan_disj not_not)
      apply (elim exE conjE)
      apply (rule stored [OF m False]; (assumption | rule owner | rule sym, assumption)?)
      done
  qed
qed

subsection \<open>Expiry\<close>

lemma expire_loop_attempts:
  "wf_map rest \<Longrightarrow> mget (runtimeAttempts (expire_loop ids t now i rest s)) k =
     (case mget rest k of
        Some a \<Rightarrow> if attempt_expired t now a then Some (expire_attempt now a) else mget (runtimeAttempts s) k
      | None \<Rightarrow> mget (runtimeAttempts s) k)"
proof (induction ids t now i rest s rule: expire_loop.induct)
  case (2 ids t now i k' a rest s)
  have fresh: "mget rest k' = None" and wf: "wf_map rest"
    using 2(3) by (simp_all add: wf_Cons)
  show ?case
  proof (cases "attempt_expired t now a")
    case True
    then show ?thesis using 2(2) [OF _ refl refl wf] fresh by (simp add: Let_def split: option.split)
  next
    case False
    then show ?thesis using 2(1) [OF _ wf] fresh by simp
  qed
qed simp

lemma ExpireNodeLeases_attempt:
  "wf_map (runtimeAttempts s) \<Longrightarrow>
   mget (runtimeAttempts (ExpireNodeLeases ids t now s)) k =
     map_option (\<lambda>a. if attempt_expired t now a then expire_attempt now a else a)
       (mget (runtimeAttempts s) k)"
  by (simp add: ExpireNodeLeases_def Let_def expire_loop_attempts split: option.split)

lemma expire_loop_reservations:
  "runtimeReservations (expire_loop ids t now i rest s) =
   mmap (\<lambda>r. if rr_TenantID r = t \<and> rr_State r = ReservationHeld
              \<and> (\<exists>a \<in> set (mvals rest). attempt_expired t now a \<and> ra_ID a = rr_AttemptID r)
            then expire_reservation t (rr_AttemptID r) now r else r) (runtimeReservations s)"
proof (induction ids t now i rest s rule: expire_loop.induct)
  case (2 ids t now i k' a rest s)
  have comp: "mmap f (mmap g m) = mmap (\<lambda>x. f (g x)) m" for f g and m :: "ResourceReservation gomap"
    by (simp add: mmap_def comp_def case_prod_unfold)
  have ext: "mmap f m = mmap g m" if "\<And>x. f x = g x" for f g and m :: "ResourceReservation gomap"
    using that by (simp add: mmap_def)
  show ?case
  proof (cases "attempt_expired t now a")
    case True
    let ?a = "expire_attempt now a"
    let ?s1 = "s\<lparr>runtimeAttempts := mput k' ?a (runtimeAttempts s),
         runtimeReservations := mmap (expire_reservation t (ra_ID ?a) now) (runtimeReservations s),
         runtimeAgents := release_agent t now (ra_AgentInstanceID ?a) (runtimeAgents s)\<rparr>"
    have step: "expire_loop ids t now i ((k', a) # rest) s = expire_loop ids t now (Suc i) rest
        (appendRuntimeEventLocked ?s1 (expiry_event (ids i) t now ?a))"
      using True by (simp add: Let_def)
    have res: "runtimeReservations (appendRuntimeEventLocked ?s1 (expiry_event (ids i) t now ?a)) =
        mmap (expire_reservation t (ra_ID ?a) now) (runtimeReservations s)" by simp
    have pt: "(let r1 = expire_reservation t (ra_ID ?a) now r in
          if rr_TenantID r1 = t \<and> rr_State r1 = ReservationHeld
             \<and> (\<exists>a \<in> set (mvals rest). attempt_expired t now a \<and> ra_ID a = rr_AttemptID r1)
          then expire_reservation t (rr_AttemptID r1) now r1 else r1) =
        (if rr_TenantID r = t \<and> rr_State r = ReservationHeld
             \<and> (\<exists>x \<in> set (mvals ((k', a) # rest)). attempt_expired t now x \<and> ra_ID x = rr_AttemptID r)
         then expire_reservation t (rr_AttemptID r) now r else r)" for r
    proof (cases "rr_TenantID r = t \<and> rr_AttemptID r = ra_ID a \<and> rr_State r = ReservationHeld")
      case hit: True
      with True show ?thesis by (simp add: expire_reservation_def expire_attempt_def mvals_def)
    next
      case miss: False
      have aid: "ra_ID ?a = ra_ID a" by (simp add: expire_attempt_def)
      have id: "expire_reservation t (ra_ID ?a) now r = r"
        unfolding expire_reservation_def aid by (rule if_not_P [OF miss])
      have "(rr_TenantID r = t \<and> rr_State r = ReservationHeld
          \<and> (\<exists>x \<in> set (mvals ((k', a) # rest)). attempt_expired t now x \<and> ra_ID x = rr_AttemptID r)) =
        (rr_TenantID r = t \<and> rr_State r = ReservationHeld
          \<and> (\<exists>x \<in> set (mvals rest). attempt_expired t now x \<and> ra_ID x = rr_AttemptID r))"
        using miss by (auto simp: mvals_def)
      then show ?thesis unfolding id Let_def by presburger
    qed
    show ?thesis
      unfolding step 2(2) [OF not_not [THEN iffD2, OF True] refl refl] res comp
      by (rule ext) (rule pt [unfolded Let_def])
  next
    case False
    then show ?thesis by (simp add: 2(1)) (rule ext, auto simp: mvals_def)
  qed
qed (simp add: mmap_def mvals_def)

lemma expire_loop_nodes: "runtimeNodes (expire_loop ids t now i rest s) = runtimeNodes s"
  by (induction ids t now i rest s rule: expire_loop.induct) (simp_all add: Let_def)

lemma ExpireNodeLeases_nodes:
  "runtimeNodes (ExpireNodeLeases ids t now s) = mmap (expire_node t now) (runtimeNodes s)"
  by (simp add: ExpireNodeLeases_def Let_def expire_loop_nodes)

lemma ExpireNodeLeases_reservations:
  "runtimeReservations (ExpireNodeLeases ids t now s) =
   mmap (\<lambda>r. if rr_TenantID r = t \<and> rr_State r = ReservationHeld
              \<and> (\<exists>a \<in> set (mvals (runtimeAttempts s)). attempt_expired t now a \<and> ra_ID a = rr_AttemptID r)
            then expire_reservation t (rr_AttemptID r) now r else r) (runtimeReservations s)"
  by (simp add: ExpireNodeLeases_def Let_def expire_loop_reservations)

lemma log_grows_expire_loop: "log_grows s (expire_loop ids t now i rest s)"
proof (induction ids t now i rest s rule: expire_loop.induct)
  case (2 ids t now i k a rest s)
  show ?case
  proof (cases "attempt_expired t now a")
    case True
    let ?a = "expire_attempt now a"
    let ?s1 = "s\<lparr>runtimeAttempts := mput k ?a (runtimeAttempts s),
         runtimeReservations := mmap (expire_reservation t (ra_ID ?a) now) (runtimeReservations s),
         runtimeAgents := release_agent t now (ra_AgentInstanceID ?a) (runtimeAgents s)\<rparr>"
    have "log_grows s (appendRuntimeEventLocked ?s1 (expiry_event (ids i) t now ?a))"
      by (rule log_grows_command) simp_all
    moreover have "log_grows (appendRuntimeEventLocked ?s1 (expiry_event (ids i) t now ?a))
        (expire_loop ids t now i ((k, a) # rest) s)"
      using 2(2) [OF not_not [THEN iffD2, OF True] refl refl] True by (simp add: Let_def)
    ultimately show ?thesis by (rule log_grows_trans)
  next
    case False
    then show ?thesis using 2(1) by simp
  qed
qed simp

lemma log_grows_expire: "log_grows s (ExpireNodeLeases ids t now s)"
  unfolding ExpireNodeLeases_def Let_def
  by (rule log_grows_trans [OF log_grows_expire_loop log_grows_same]) simp_all

subsection \<open>A dispatch, step by step\<close>

text \<open>The node \<open>na\<close> of the small store is dispatched to worker \<open>w\<close> until time 50, then activated.\<close>

definition ex_attempt :: "attempt_state \<Rightarrow> int \<Rightarrow> RuntimeAttempt" where
  "ex_attempt st v =
     (let live = (st = RuntimeAttemptPrepared \<or> st = RuntimeAttemptRunning) in
     \<lparr>ra_ID = ''at'', ra_TenantID = ''t'', ra_JobRunID = ''j'', ra_NodeRunID = ''na'',
      ra_AgentInstanceID = ''ag'', ra_ContextViewID = ''at'', ra_AttemptNo = 1, ra_HarnessKind = ''h'',
      ra_Capabilities = [], ra_SessionRef = ''sess'', ra_State = st,
      ra_LeaseOwner = if live then ''w'' else '''', ra_FenceToken = if live then ''f'' else '''',
      ra_GatewayTokenHash = replicate 64 CHR ''0'', ra_GatewayExpiresAt = Some 100,
      ra_LeaseExpiresAt = if live then Some 50 else None, ra_OutputRefs = [],
      ra_ResultDigest = if live then '''' else ''out'', ra_SafeSummary = [], ra_ErrorCode = '''',
      ra_Version = v, ra_CreatedAt = 10, ra_StartedAt = Some 10,
      ra_FinishedAt = if live then None else Some 20, ra_UpdatedAt = 10\<rparr>)"

definition ex_dnode :: "node_state \<Rightarrow> int \<Rightarrow> NodeRun" where
  "ex_dnode st v =
     (let live = (st = NodeLeased \<or> st = NodeRunning) in
     (ex_noderun ''na'' ''a'' st)\<lparr>nr_AttemptCount := 1, nr_Version := v, nr_UpdatedAt := 10,
       nr_LeaseOwner := if live then ''w'' else '''', nr_FenceToken := if live then ''f'' else '''',
       nr_LeaseExpiresAt := if live then Some 50 else None\<rparr>)"

definition ex_dagent :: "agent_state \<Rightarrow> int \<Rightarrow> AgentInstance" where
  "ex_dagent st v = (ex_agent ''ag'' ''at'' '''' 0 0)\<lparr>ai_State := st, ai_Version := v, ai_SessionRef := ''sess''\<rparr>"

definition ex_devent :: "string \<Rightarrow> string \<Rightarrow> time \<Rightarrow> JobEvent" where
  "ex_devent i ty at = (ex_event i ty)\<lparr>je_ActorID := ''w'', je_OccurredAt := at\<rparr>"

definition ex_reservation :: "string \<Rightarrow> string \<Rightarrow> int \<Rightarrow> ResourceReservation" where
  "ex_reservation i unit q =
     \<lparr>rr_ID = i, rr_TenantID = ''t'', rr_JobRunID = ''j'', rr_NodeRunID = ''na'', rr_AttemptID = ''at'',
      rr_ResourceKey = ''gpu'', rr_Quantity = q, rr_Unit = unit, rr_State = ReservationHeld,
      rr_FenceToken = ''f'', rr_IdempotencyKey = i, rr_ExpiresAt = Some 50, rr_ReleasedAt = None,
      rr_CreatedAt = 10, rr_UpdatedAt = 10\<rparr>"

definition ex_quota :: ResourceQuota where
  "ex_quota = \<lparr>rq_TenantID = ''t'', rq_ResourceKey = ''gpu'', rq_Capacity = 10, rq_Unit = ''card'',
     rq_Version = 1, rq_UpdatedAt = 1\<rparr>"

definition ex_quoted :: Store where
  "ex_quoted = run_cmd (SaveResourceQuota ex_quota) ex_store"

definition ex_prepare :: "ResourceReservation list \<Rightarrow> Store \<Rightarrow> (NodeRun \<times> RuntimeAttempt \<times> AgentInstance) cmd" where
  "ex_prepare rs = PrepareDispatch (ex_dnode NodeLeased 2) 1 (ex_attempt RuntimeAttemptPrepared 1)
     (ex_view ''at'') (ex_dagent AgentRunnable 1) True 0 rs (ex_devent ''e1'' ''attempt.prepared'' 10)"

definition ex_activate :: "Store \<Rightarrow> (NodeRun \<times> RuntimeAttempt \<times> AgentInstance) cmd" where
  "ex_activate = ActivateDispatch (ex_dnode NodeRunning 3) 2 (ex_attempt RuntimeAttemptRunning 2) 1
     (ex_dagent AgentActive 2) 1 (ex_devent ''e2'' ''attempt.started'' 10)"

definition ex_finalize :: "string \<Rightarrow> time \<Rightarrow> Store \<Rightarrow> (NodeRun \<times> RuntimeAttempt \<times> AgentInstance) cmd" where
  "ex_finalize fence at = FinalizeDispatch (ex_dnode NodeSucceeded 4) 3 (ex_attempt RuntimeAttemptSucceeded 3) 2
     (ex_dagent AgentRunnable 3) 2 fence (ex_devent ''e3'' ''attempt.succeeded'' at)"

definition ex_running :: Store where
  "ex_running = run_cmd ex_activate (run_cmd (ex_prepare [ex_reservation ''r1'' ''card'' 4]) ex_quoted)"

lemma consume_reservation_fields [simp]:
  "rr_TenantID (consume_reservation a at r) = rr_TenantID r"
  "rr_AttemptID (consume_reservation a at r) = rr_AttemptID r"
  "rr_State (consume_reservation a at r) =
     (if rr_TenantID r = ra_TenantID a \<and> rr_AttemptID r = ra_ID a \<and> rr_State r = ReservationHeld
      then ReservationConsumed else rr_State r)"
  by (simp_all add: consume_reservation_def)

lemma expire_reservation_fields [simp]:
  "rr_TenantID (expire_reservation t aid now r) = rr_TenantID r"
  "rr_AttemptID (expire_reservation t aid now r) = rr_AttemptID r"
  "rr_State (expire_reservation t aid now r) =
     (if rr_TenantID r = t \<and> rr_AttemptID r = aid \<and> rr_State r = ReservationHeld
      then ReservationExpired else rr_State r)"
  by (simp_all add: expire_reservation_def)

subsection \<open>Properties: fencing\<close>

text \<open>
  C6. Only the holder of the lease can finish an attempt. When \<^verbatim>\<open>FinalizeDispatch\<close> succeeds for an
  attempt that is not finished yet, the caller presented the fence token of the attempt, the
  event names the lease owner, and the lease had not run out at the time of the event; the new
  attempt is stored with the next version, the event is appended, and no reservation of the
  attempt is left held.
\<close>

theorem finalize_fenced:
  assumes "FinalizeDispatch node x attempt y agent z fence event s = Inr (s', r)"
    and "mget (runtimeAttempts s) (runtimePlanKey (nr_TenantID node) (ra_ID attempt)) = Some ca"
    and "\<not> attempt_terminal (ra_State ca)"
  shows "fence \<noteq> '''' \<and> ra_FenceToken ca = fence \<and> ra_LeaseOwner ca = je_ActorID event
    \<and> after_opt (ra_LeaseExpiresAt ca) (je_OccurredAt event)
    \<and> attempt_transition (ra_State ca) (ra_State attempt) = None
    \<and> mget (runtimeAttempts s') (attempt_key attempt) = Some attempt
    \<and> ra_Version attempt = ra_Version ca + 1
    \<and> (\<exists>e. events_of s' (je_JobRunID event) = events_of s (je_JobRunID event) @ [e])
    \<and> (\<forall>k r. mget (runtimeReservations s') k = Some r \<and> rr_TenantID r = ra_TenantID attempt
         \<and> rr_AttemptID r = ra_ID attempt \<longrightarrow> rr_State r \<noteq> ReservationHeld)"
  using assms(1)
proof (cases rule: FinalizeDispatch_ok)
  case (stored cn ca' cg)
  have held: "rr_State r \<noteq> ReservationHeld"
    if h: "mget (runtimeReservations s') k = Some r" "rr_TenantID r = ra_TenantID attempt"
      "rr_AttemptID r = ra_ID attempt" for k r
  proof -
    obtain r0 where "r = consume_reservation attempt (je_OccurredAt event) r0"
      using h(1) unfolding stored(25) by auto
    then show ?thesis using h(2,3) by simp
  qed
  have log: "events_of (put_dispatch node attempt agent s
      \<lparr>runtimeReservations := m\<rparr>) j = events_of s j" for m j
    by (simp add: events_of_def put_dispatch_def)
  have att: "mget (runtimeAttempts s') (attempt_key attempt) = Some attempt"
    unfolding stored(25) by (simp add: put_dispatch_def)
  have ev: "\<exists>e. events_of s' (je_JobRunID event) = events_of s (je_JobRunID event) @ [e]"
    unfolding stored(25) events_of_append log by simp
  have "ca' = ca" using stored(2) assms(2) by simp
  with stored have "fence \<noteq> ''''" "ra_FenceToken ca = fence" "ra_LeaseOwner ca = je_ActorID event"
    "after_opt (ra_LeaseExpiresAt ca) (je_OccurredAt event)"
    "attempt_transition (ra_State ca) (ra_State attempt) = None" "ra_Version attempt = ra_Version ca + 1"
    by auto
  with att ev held show ?thesis by (intro conjI allI impI) (assumption | (elim conjE, rule held, assumption+))+
next
  case replay
  then show ?thesis using assms(2,3) by simp
qed

theorem finalize_fenced_witness:
  "\<exists>s' r. ex_finalize ''f'' 20 ex_running = Inr (s', r)
     \<and> mget (runtimeAttempts s') ''t:at'' = Some (ex_attempt RuntimeAttemptSucceeded 3)"
proof -
  have "\<not> isl (ex_finalize ''f'' 20 ex_running)" by code_simp
  then obtain s' r where f: "ex_finalize ''f'' 20 ex_running = Inr (s', r)"
    using not_isl_Inr by (metis surj_pair)
  have g: "mget (runtimeAttempts ex_running) (runtimePlanKey (nr_TenantID (ex_dnode NodeSucceeded 4))
      (ra_ID (ex_attempt RuntimeAttemptSucceeded 3))) = Some (ex_attempt RuntimeAttemptRunning 2)"
    by code_simp
  have "\<not> attempt_terminal (ra_State (ex_attempt RuntimeAttemptRunning 2))" by code_simp
  from finalize_fenced [OF f [unfolded ex_finalize_def] g this]
  have "mget (runtimeAttempts s') (attempt_key (ex_attempt RuntimeAttemptSucceeded 3))
      = Some (ex_attempt RuntimeAttemptSucceeded 3)" by (elim conjE)
  moreover have "attempt_key (ex_attempt RuntimeAttemptSucceeded 3) = ''t:at''" by code_simp
  ultimately show ?thesis using f by (intro exI conjI) simp_all
qed

text \<open>
  An attempt is finished at most once. After a finalisation that reached a terminal state,
  every further successful finalisation of the same attempt is a replay of it: it carries the
  same state and the same result digest, and it leaves the store as it is.
\<close>

theorem finalize_once:
  assumes "FinalizeDispatch n1 x1 a1 y1 g1 z1 f1 e1 s = Inr (s1, r1)" and "attempt_terminal (ra_State a1)"
    and "FinalizeDispatch n2 x2 a2 y2 g2 z2 f2 e2 s1 = Inr (s2, r2)"
    and "ra_ID a2 = ra_ID a1" and "nr_TenantID n2 = nr_TenantID n1"
  shows "s2 = s1 \<and> ra_State a2 = ra_State a1 \<and> ra_ResultDigest a2 = ra_ResultDigest a1"
proof -
  let ?k = "runtimePlanKey (nr_TenantID n1) (ra_ID a1)"
  have "\<exists>c. mget (runtimeAttempts s1) ?k = Some c \<and> attempt_terminal (ra_State c)
      \<and> ra_State c = ra_State a1 \<and> ra_ResultDigest c = ra_ResultDigest a1"
    using assms(1)
  proof (cases rule: FinalizeDispatch_ok)
    case (stored cn ca cg)
    then show ?thesis using assms(2) by (simp add: put_dispatch_def attempt_key_def)
  qed auto
  then obtain c where c: "mget (runtimeAttempts s1) ?k = Some c" "attempt_terminal (ra_State c)"
    "ra_State c = ra_State a1" "ra_ResultDigest c = ra_ResultDigest a1" by blast
  from assms(3) show ?thesis
  proof (cases rule: FinalizeDispatch_ok)
    case (stored cn ca cg)
    then show ?thesis using c assms(4,5) by simp
  next
    case replay
    then show ?thesis using c assms(4,5) by simp
  qed
qed

theorem finalize_once_witness:
  "\<exists>s' r. ex_finalize ''f'' 20 (run_cmd (ex_finalize ''f'' 20) ex_running) = Inr (s', r)
     \<and> s' = run_cmd (ex_finalize ''f'' 20) ex_running"
proof -
  let ?s1 = "run_cmd (ex_finalize ''f'' 20) ex_running"
  have "\<not> isl (ex_finalize ''f'' 20 ex_running)" by code_simp
  then obtain r1 where f1: "ex_finalize ''f'' 20 ex_running = Inr (?s1, r1)" using run_cmd_ok by blast
  have "\<not> isl (ex_finalize ''f'' 20 ?s1)" by code_simp
  then obtain s' r where f2: "ex_finalize ''f'' 20 ?s1 = Inr (s', r)"
    using not_isl_Inr by (metis surj_pair)
  have "attempt_terminal (ra_State (ex_attempt RuntimeAttemptSucceeded 3))" by code_simp
  from finalize_once [OF f1 [unfolded ex_finalize_def] this f2 [unfolded ex_finalize_def] refl refl]
  have "s' = ?s1" unfolding ex_finalize_def by (elim conjE)
  with f2 show ?thesis by blast
qed

text \<open>
  C7. A worker whose lease has run out is fenced out. Once \<^verbatim>\<open>ExpireNodeLeases\<close> has run, an attempt
  whose lease had expired is stored as expired; from then on it cannot be finalised with any
  other result, its heartbeat is rejected, every gateway call made with its fence token is
  rejected, and the quota it held is free again.
\<close>

theorem expiry_fences_out:
  assumes "wf_map (runtimeAttempts s)"
    and "mget (runtimeAttempts s) (runtimePlanKey t aid) = Some a" and "attempt_expired t now a"
    and "s' = ExpireNodeLeases ids t now s"
  shows "mget (runtimeAttempts s') (runtimePlanKey t aid) = Some (expire_attempt now a)
    \<and> (nr_TenantID node = t \<and> ra_ID attempt = aid \<and> ra_State attempt \<noteq> RuntimeAttemptExpired
        \<longrightarrow> isl (FinalizeDispatch node x attempt y agent z fence event s'))
    \<and> isl (HeartbeatDispatch t aid owner fence x y now' lease s')
    \<and> validateAttemptFenceLocked s' t aid fence now' \<noteq> None
    \<and> (\<forall>k r. mget (runtimeReservations s') k = Some r \<and> rr_TenantID r = t \<and> rr_AttemptID r = ra_ID a
         \<longrightarrow> rr_State r \<noteq> ReservationHeld)"
proof -
  let ?e = "expire_attempt now a"
  have e: "mget (runtimeAttempts s') (runtimePlanKey t aid) = Some ?e"
    using assms by (simp add: ExpireNodeLeases_attempt)
  have st: "ra_State ?e = RuntimeAttemptExpired" by (simp add: expire_attempt_def)
  have fin: "isl (FinalizeDispatch node x attempt y agent z fence event s')"
    if h: "nr_TenantID node = t \<and> ra_ID attempt = aid \<and> ra_State attempt \<noteq> RuntimeAttemptExpired"
  proof (rule ccontr)
    assume "\<not> ?thesis"
    then obtain s2 r where "FinalizeDispatch node x attempt y agent z fence event s' = Inr (s2, r)"
      using not_isl_Inr by (metis surj_pair)
    then show False by (cases rule: FinalizeDispatch_ok) (use e st h in auto)
  qed
  have hb: "isl (HeartbeatDispatch t aid owner fence x y now' lease s')"
  proof (rule ccontr)
    assume "\<not> ?thesis"
    then obtain s2 r where "HeartbeatDispatch t aid owner fence x y now' lease s' = Inr (s2, r)"
      using not_isl_Inr by (metis surj_pair)
    then show False by (cases rule: HeartbeatDispatch_ok) (use e st in auto)
  qed
  have fenced: "validateAttemptFenceLocked s' t aid fence now' \<noteq> None"
    unfolding validateAttemptFenceLocked_def e using st by simp
  have free: "rr_State r \<noteq> ReservationHeld"
    if h: "mget (runtimeReservations s') k = Some r" "rr_TenantID r = t" "rr_AttemptID r = ra_ID a" for k r
  proof -
    have a: "a \<in> set (mvals (runtimeAttempts s))" by (rule mget_vals [OF assms(2)])
    obtain r0 where r0: "r = (if rr_TenantID r0 = t \<and> rr_State r0 = ReservationHeld
        \<and> (\<exists>a \<in> set (mvals (runtimeAttempts s)). attempt_expired t now a \<and> ra_ID a = rr_AttemptID r0)
      then expire_reservation t (rr_AttemptID r0) now r0 else r0)"
      using h(1) unfolding assms(4) ExpireNodeLeases_reservations by auto
    then have "rr_TenantID r = rr_TenantID r0" "rr_AttemptID r = rr_AttemptID r0"
      by (simp_all split: if_splits)
    with r0 h a assms(3) show ?thesis by (auto split: if_splits)
  qed
  from e fin hb fenced free show ?thesis
    by (intro conjI allI impI) (assumption | (elim conjE, rule free, assumption+) | rule fin)+
qed

theorem expiry_fences_out_witness:
  "isl (ex_finalize ''f'' 20 (ExpireNodeLeases (\<lambda>_. ''x'') ''t'' 60 ex_running))
   \<and> \<not> isl (ex_finalize ''f'' 20 ex_running)"
proof -
  have wf: "wf_map (runtimeAttempts ex_running)" by code_simp
  have a: "mget (runtimeAttempts ex_running) (runtimePlanKey ''t'' ''at'')
      = Some (ex_attempt RuntimeAttemptRunning 2)" by code_simp
  have x: "attempt_expired ''t'' 60 (ex_attempt RuntimeAttemptRunning 2)" by code_simp
  have "nr_TenantID (ex_dnode NodeSucceeded 4) = ''t'' \<and> ra_ID (ex_attempt RuntimeAttemptSucceeded 3) = ''at''
      \<and> ra_State (ex_attempt RuntimeAttemptSucceeded 3) \<noteq> RuntimeAttemptExpired" by code_simp
  then have "isl (ex_finalize ''f'' 20 (ExpireNodeLeases (\<lambda>_. ''x'') ''t'' 60 ex_running))"
    unfolding ex_finalize_def using expiry_fences_out [OF wf a x refl] by blast
  moreover have "\<not> isl (ex_finalize ''f'' 20 ex_running)" by code_simp
  ultimately show ?thesis by blast
qed

definition attempts_unique :: "Store \<Rightarrow> bool" where
  "attempts_unique s =
     (\<forall>k1 k2 a1 a2. mget (runtimeAttempts s) k1 = Some a1 \<and> mget (runtimeAttempts s) k2 = Some a2
        \<and> ra_TenantID a1 = ra_TenantID a2 \<and> ra_NodeRunID a1 = ra_NodeRunID a2
        \<and> ra_AttemptNo a1 = ra_AttemptNo a2 \<longrightarrow> k1 = k2)"

text \<open>
  C5. Dispatch is exclusive. \<^verbatim>\<open>PrepareDispatch\<close> takes a ready node to a lease with a fresh attempt
  whose number no other attempt of the node has; after it, no other dispatch of that node can be
  prepared and no scheduler is offered it, whatever version, attempt or tenant scope is presented.
\<close>

theorem prepare_exclusive:
  assumes "PrepareDispatch node x attempt view agent create z reservations event s = Inr (s', r)"
    and "attempts_unique s"
  shows "attempts_unique s'
    \<and> mget (runtimeNodes s') (node_key node) = Some node \<and> nr_State node = NodeLeased
    \<and> mget (runtimeAttempts s') (attempt_key attempt) = Some attempt
    \<and> nr_FenceToken node = ra_FenceToken attempt
    \<and> \<not> next_eligible t j allowed s' node \<and> \<not> claim_eligible t j node
    \<and> (node_key node2 = node_key node \<longrightarrow>
        isl (PrepareDispatch node2 x2 attempt2 view2 agent2 create2 z2 reservations2 event2 s'))"
  using assms(1)
proof (cases rule: PrepareDispatch_ok)
  case (1 cn)
  have same: "mget (runtimeAttempts s') k = (if k = attempt_key attempt then Some attempt
      else mget (runtimeAttempts s) k)" for k unfolding 1(17) by simp
  have new: "\<not> (ra_TenantID a = ra_TenantID attempt \<and> ra_NodeRunID a = ra_NodeRunID attempt
      \<and> ra_AttemptNo a = ra_AttemptNo attempt)" if "mget (runtimeAttempts s) k = Some a" for k a
    using 1(15) mget_vals [OF that] by (auto simp: list_ex_iff)
  have uniq: "attempts_unique s'"
    unfolding attempts_unique_def
  proof (intro allI impI, elim conjE)
    fix k1 k2 a1 a2
    assume h: "mget (runtimeAttempts s') k1 = Some a1" "mget (runtimeAttempts s') k2 = Some a2"
      "ra_TenantID a1 = ra_TenantID a2" "ra_NodeRunID a1 = ra_NodeRunID a2" "ra_AttemptNo a1 = ra_AttemptNo a2"
    show "k1 = k2"
    proof (cases "k1 = attempt_key attempt \<or> k2 = attempt_key attempt")
      case True
      then show ?thesis using h new [of k1 a1] new [of k2 a2] unfolding same by (auto split: if_splits)
    next
      case False
      then have "mget (runtimeAttempts s) k1 = Some a1" "mget (runtimeAttempts s) k2 = Some a2"
        using h(1,2) unfolding same by simp_all
      with h(3-5) assms(2) show ?thesis unfolding attempts_unique_def by blast
    qed
  qed
  have node: "mget (runtimeNodes s') (node_key node) = Some node" unfolding 1(17) by simp
  have again: "isl (PrepareDispatch node2 x2 attempt2 view2 agent2 create2 z2 reservations2 event2 s')"
    if h: "node_key node2 = node_key node"
  proof (rule ccontr)
    assume "\<not> ?thesis"
    then obtain s2 r2 where
      "PrepareDispatch node2 x2 attempt2 view2 agent2 create2 z2 reservations2 event2 s' = Inr (s2, r2)"
      using not_isl_Inr by (metis surj_pair)
    then show False by (cases rule: PrepareDispatch_ok) (use node h 1(4) in auto)
  qed
  have "\<not> next_eligible t j allowed s' node" "\<not> claim_eligible t j node"
    using 1(4) by (simp_all add: next_eligible_def claim_eligible_def)
  moreover have "mget (runtimeAttempts s') (attempt_key attempt) = Some attempt" unfolding same by simp
  ultimately show ?thesis using uniq node again 1(4,8) by (intro conjI impI) assumption+
qed

theorem prepare_exclusive_witness:
  "attempts_unique (run_cmd (ex_prepare []) ex_quoted) \<and> isl (ex_prepare [] (run_cmd (ex_prepare []) ex_quoted))"
proof -
  have "\<not> isl (ex_prepare [] ex_quoted)" by code_simp
  then obtain r where p: "ex_prepare [] ex_quoted = Inr (run_cmd (ex_prepare []) ex_quoted, r)"
    using run_cmd_ok by blast
  have "runtimeAttempts ex_quoted = []" by code_simp
  then have "attempts_unique ex_quoted" by (simp add: attempts_unique_def)
  from prepare_exclusive [OF p [unfolded ex_prepare_def] this]
  show ?thesis unfolding ex_prepare_def by blast
qed

end
