(* ===== verification/Resources.thy ===== *)
theory Resources
  imports Dispatch
begin

section \<open>Quotas are not oversold\<close>

text \<open>
  The accounting of \<^verbatim>\<open>validateResourceReservationsLocked\<close> (\<^verbatim>\<open>runtime_resources.go\<close>) and of
  \<^verbatim>\<open>ComputeTenantCapacity\<close> (\<^verbatim>\<open>fairness.go\<close>), which \<open>Dispatch\<close> and \<open>Governance\<close> define. The loops add
  64-bit quantities; the lemmas show that they compute the exact sums as long as these fit, and
  that then a dispatch never takes a quota above its capacity. Two properties show where the
  code departs from this: sums that do not fit, and the unit of a new reservation.
\<close>

subsection \<open>What is held and what is requested\<close>

definition held_total :: "string \<Rightarrow> ResourceReservation list \<Rightarrow> int" where
  "held_total key rs =
     (\<Sum>r \<leftarrow> rs. if reservation_quota r = key \<and> rr_State r = ReservationHeld then rr_Quantity r else 0)"

definition requested_total :: "string \<Rightarrow> ResourceReservation list \<Rightarrow> int" where
  "requested_total key rs = (\<Sum>r \<leftarrow> rs. if reservation_quota r = key then rr_Quantity r else 0)"

lemma held_total_simps [simp]:
  "held_total key [] = 0"
  "held_total key (r # rs) =
     (if reservation_quota r = key \<and> rr_State r = ReservationHeld then rr_Quantity r else 0) + held_total key rs"
  by (simp_all add: held_total_def)

lemma requested_total_simps [simp]:
  "requested_total key [] = 0"
  "requested_total key (r # rs) = (if reservation_quota r = key then rr_Quantity r else 0) + requested_total key rs"
  by (simp_all add: requested_total_def)

lemma held_total_nonneg: "\<forall>r \<in> set rs. 0 \<le> rr_Quantity r \<Longrightarrow> 0 \<le> held_total key rs"
  by (induction rs) auto

lemma requested_total_nonneg: "\<forall>r \<in> set rs. 0 \<le> rr_Quantity r \<Longrightarrow> 0 \<le> requested_total key rs"
  by (induction rs) auto

lemma held_le_requested: "\<forall>r \<in> set rs. 0 \<le> rr_Quantity r \<Longrightarrow> held_total key rs \<le> requested_total key rs"
  by (induction rs) auto

lemma ResourceReservation_Validate_quantity: "ResourceReservation_Validate r = None \<Longrightarrow> 0 < rr_Quantity r"
  unfolding ResourceReservation_Validate_def validate_simps by linarith

subsection \<open>The loops compute these sums\<close>

lemma used_loop_exact:
  assumes "used_loop key unit used rs = Inr u" and "\<forall>r \<in> set rs. 0 \<le> rr_Quantity r"
    and "0 \<le> used" and "used + held_total key rs < 2 ^ 63"
  shows "u = used + held_total key rs"
  using assms
proof (induction key unit used rs rule: used_loop.induct)
  case (2 key unit used x xs)
  show ?case
  proof (cases "reservation_quota x = key \<and> rr_State x = ReservationHeld")
    case True
    have "0 \<le> held_total key xs" using "2.prems"(2) by (intro held_total_nonneg) simp
    moreover have fits: "used + (rr_Quantity x + held_total key xs) < 2 ^ 63" using "2.prems"(4) True by simp
    ultimately have "i64 (used + rr_Quantity x) = used + rr_Quantity x"
      using "2.prems"(2,3) by (intro i64_id) simp_all
    then show ?thesis using 2 True fits by (auto split: if_splits)
  next
    case False
    then show ?thesis using 2 by (auto split: if_splits)
  qed
qed simp

lemma request_loop_valid:
  "request_loop s req rs = Inr req' \<Longrightarrow> \<forall>r \<in> set rs. ResourceReservation_Validate r = None"
proof (induction s req rs rule: request_loop.induct)
  case (2 s req r rs)
  have v: "ResourceReservation_Validate r = None" using "2.prems" by (simp split: option.splits)
  have "\<forall>r \<in> set rs. ResourceReservation_Validate r = None"
  proof (cases "mget (runtimeReservations s) (reservation_key r)")
    case None
    with "2.prems" v "2.IH"(1) [OF v None] show ?thesis by (simp split: if_splits)
  next
    case (Some p)
    with "2.prems" v "2.IH"(2) [OF v Some] show ?thesis by (simp split: if_splits)
  qed
  with v show ?case by simp
qed simp

lemma request_loop_exact:
  assumes "request_loop s req rs = Inr req'"
    and "\<forall>r \<in> set rs. mget (runtimeReservations s) (reservation_key r) = None"
    and "0 \<le> deg req key" and "deg req key + requested_total key rs < 2 ^ 63"
  shows "deg req' key = deg req key + requested_total key rs
    \<and> (mget req key \<noteq> None \<or> (\<exists>r \<in> set rs. reservation_quota r = key) \<longrightarrow> mget req' key \<noteq> None)"
  using assms
proof (induction s req rs rule: request_loop.induct)
  case (2 s req r rs)
  let ?req = "mput (reservation_quota r) (i64 (deg req (reservation_quota r) + rr_Quantity r)) req"
  have none: "mget (runtimeReservations s) (reservation_key r) = None" using "2.prems"(2) by simp
  have valid: "\<forall>x \<in> set (r # rs). ResourceReservation_Validate x = None"
    by (rule request_loop_valid [OF "2.prems"(1)])
  then have pos: "\<forall>x \<in> set (r # rs). 0 \<le> rr_Quantity x"
    using ResourceReservation_Validate_quantity order_less_imp_le by blast
  have fresh: "\<not> list_ex (\<lambda>x. rr_TenantID x = rr_TenantID r \<and> rr_IdempotencyKey x = rr_IdempotencyKey r)
      (mvals (runtimeReservations s))"
    using "2.prems"(1) none valid by (auto split: if_splits)
  have loop: "request_loop s ?req rs = Inr req'" using "2.prems"(1) none valid fresh by simp
  have deg: "deg ?req key = deg req key + (if reservation_quota r = key then rr_Quantity r else 0)"
  proof (cases "reservation_quota r = key")
    case True
    have "0 \<le> requested_total key rs" using pos by (intro requested_total_nonneg) simp
    then have "i64 (deg req key + rr_Quantity r) = deg req key + rr_Quantity r"
      using "2.prems"(3,4) True pos by (intro i64_id) simp_all
    then show ?thesis using True by (simp add: deg_mput)
  qed (simp add: deg_mput)
  have "deg req' key = deg ?req key + requested_total key rs
    \<and> (mget ?req key \<noteq> None \<or> (\<exists>r \<in> set rs. reservation_quota r = key) \<longrightarrow> mget req' key \<noteq> None)"
  proof (rule "2.IH"(1) [OF _ none fresh loop])
    show "ResourceReservation_Validate r = None" using valid by simp
    show "0 \<le> deg ?req key" using deg "2.prems"(3) pos by simp
    show "deg ?req key + requested_total key rs < 2 ^ 63" using deg "2.prems"(4) by simp
  qed (use "2.prems"(2) in simp)
  then show ?case unfolding deg by auto
qed simp

lemma quota_loop_bound:
  assumes "quota_loop s req = None" and "mget req key = Some amount"
    and "mget (runtimeResourceQuotas s) key = Some q"
  shows "\<exists>u. used_loop key (rq_Unit q) 0 (mvals (runtimeReservations s)) = Inr u
    \<and> i64 (u + amount) \<le> rq_Capacity q"
  using assms(1,2)
proof (induction req)
  case (Cons p rest)
  obtain k a where p: "p = (k, a)" by (cases p)
  show ?case
  proof (cases "k = key")
    case True
    with Cons.prems assms(3) show ?thesis by (auto simp: p split: sum.splits if_splits)
  next
    case False
    have "quota_loop s rest = None"
      using Cons.prems(1) by (simp add: p split: option.splits sum.splits if_splits)
    then show ?thesis using Cons.IH Cons.prems(2) False by (simp add: p)
  qed
qed simp

lemma held_total_mput_all:
  "distinct (map reservation_key rs) \<Longrightarrow> \<forall>r \<in> set rs. mget m (reservation_key r) = None \<Longrightarrow>
   held_total key (mvals (mput_all reservation_key rs m)) = held_total key (mvals m) + held_total key rs"
proof (induction rs arbitrary: m)
  case (Cons r rs)
  have "\<forall>x \<in> set rs. mget (mput (reservation_key r) r m) (reservation_key x) = None"
  proof
    fix x assume "x \<in> set rs"
    moreover from this have "reservation_key x \<noteq> reservation_key r" using Cons.prems(1) by (metis distinct.simps(2) image_eqI list.simps(9) set_map)
    ultimately show "mget (mput (reservation_key r) r m) (reservation_key x) = None"
      using Cons.prems(2) by simp
  qed
  then have "held_total key (mvals (mput_all reservation_key (r # rs) m))
      = held_total key (mvals (mput (reservation_key r) r m)) + held_total key rs"
    using Cons.IH Cons.prems(1) by simp
  moreover have "mget m (reservation_key r) = None" using Cons.prems(2) by simp
  ultimately show ?case
    unfolding held_total_def by (simp add: sum_mput_new)
qed simp

lemma validated_within_capacity:
  assumes "validateResourceReservationsLocked s rs = None"
    and "mget (runtimeResourceQuotas s) key = Some q" and "\<exists>r \<in> set rs. reservation_quota r = key"
    and "\<forall>r \<in> set rs. mget (runtimeReservations s) (reservation_key r) = None"
    and "\<forall>r \<in> set (mvals (runtimeReservations s)). 0 \<le> rr_Quantity r"
    and "held_total key (mvals (runtimeReservations s)) + requested_total key rs < 2 ^ 63"
  shows "held_total key (mvals (runtimeReservations s)) + requested_total key rs \<le> rq_Capacity q"
proof -
  obtain req where req: "request_loop s [] rs = Inr req" and ql: "quota_loop s req = None"
    using assms(1) unfolding validateResourceReservationsLocked_def by (auto split: sum.splits)
  have pos: "\<forall>r \<in> set rs. 0 \<le> rr_Quantity r"
    using request_loop_valid [OF req] ResourceReservation_Validate_quantity order_less_imp_le by blast
  have h0: "0 \<le> held_total key (mvals (runtimeReservations s))" by (rule held_total_nonneg [OF assms(5)])
  have r0: "0 \<le> requested_total key rs" by (rule requested_total_nonneg [OF pos])
  have zero: "deg [] key = 0" by (simp add: deg_def)
  have fits: "deg [] key + requested_total key rs < 2 ^ 63" using zero assms(6) h0 by linarith
  have "deg req key = requested_total key rs" and "mget req key \<noteq> None"
    using request_loop_exact [OF req assms(4) _ fits] zero assms(3) by auto
  then have amount: "mget req key = Some (requested_total key rs)" by (auto simp: deg_def)
  obtain u where u: "used_loop key (rq_Unit q) 0 (mvals (runtimeReservations s)) = Inr u"
    "i64 (u + requested_total key rs) \<le> rq_Capacity q"
    using quota_loop_bound [OF ql amount assms(2)] by blast
  have "u = held_total key (mvals (runtimeReservations s))"
    using used_loop_exact [OF u(1) assms(5)] assms(6) r0 by simp
  moreover have "i64 (u + requested_total key rs) = u + requested_total key rs"
    by (rule i64_id) (use calculation h0 r0 assms(6) in linarith)+
  ultimately show ?thesis using u(2) by simp
qed

subsection \<open>Properties\<close>

text \<open>
  C10. A dispatch with new reservations does not oversell a quota. When \<^verbatim>\<open>PrepareDispatch\<close> is accepted with
  reservations that are pairwise different and not in the store yet, what the store then holds of every quota they
  touch is within its capacity, provided the sum of what is held and requested fits in 64 bits. Both provisos are
  needed: see \<open>known_reservation_oversells\<close> and \<open>quota_overflow_oversells\<close>.
\<close>

theorem quota_not_oversold:
  assumes "PrepareDispatch node x attempt view agent create z rs event s = Inr (s', r)"
    and "mget (runtimeResourceQuotas s) key = Some q" and "\<exists>r \<in> set rs. reservation_quota r = key"
    and "distinct (map reservation_key rs)"
    and "\<forall>r \<in> set rs. mget (runtimeReservations s) (reservation_key r) = None"
    and "\<forall>r \<in> set (mvals (runtimeReservations s)). 0 \<le> rr_Quantity r"
    and "held_total key (mvals (runtimeReservations s)) + requested_total key rs < 2 ^ 63"
  shows "held_total key (mvals (runtimeReservations s')) \<le> rq_Capacity q"
  using assms(1)
proof (cases rule: PrepareDispatch_ok)
  case (1 cn)
  have "\<forall>r \<in> set rs. 0 \<le> rr_Quantity r"
  proof -
    obtain req where "request_loop s [] rs = Inr req"
      using 1(16) unfolding validateResourceReservationsLocked_def by (auto split: sum.splits)
    from request_loop_valid [OF this] show ?thesis
      using ResourceReservation_Validate_quantity order_less_imp_le by blast
  qed
  then have "held_total key rs \<le> requested_total key rs" by (rule held_le_requested)
  moreover have "held_total key (mvals (runtimeReservations s))
      + requested_total key rs \<le> rq_Capacity q"
    by (rule validated_within_capacity [OF 1(16) assms(2,3,5,6,7)])
  moreover have "held_total key (mvals (runtimeReservations s'))
      = held_total key (mvals (runtimeReservations s)) + held_total key rs"
    unfolding 1(17) using held_total_mput_all [OF assms(4,5)] by simp
  ultimately show ?thesis by linarith
qed

theorem quota_not_oversold_witness:
  "\<exists>s' r. ex_prepare [ex_reservation ''r1'' ''card'' 4, ex_reservation ''r2'' ''card'' 6] ex_quoted = Inr (s', r)
     \<and> held_total ''t:gpu'' (mvals (runtimeReservations s')) \<le> 10"
proof -
  let ?rs = "[ex_reservation ''r1'' ''card'' 4, ex_reservation ''r2'' ''card'' 6]"
  have "\<not> isl (ex_prepare ?rs ex_quoted)" by code_simp
  then obtain s' r where p: "ex_prepare ?rs ex_quoted = Inr (s', r)"
    using not_isl_Inr by (metis surj_pair)
  have q: "mget (runtimeResourceQuotas ex_quoted) ''t:gpu'' = Some ex_quota" by code_simp
  have none: "runtimeReservations ex_quoted = []" by code_simp
  have key: "reservation_quota (ex_reservation i u n) = ''t:gpu''"
    "reservation_key (ex_reservation i u n) = ''t:'' @ i" "rr_Quantity (ex_reservation i u n) = n" for i u n
    by (simp_all add: ex_reservation_def reservation_quota_def reservation_key_def runtimePlanKey_def)
  have "held_total ''t:gpu'' (mvals (runtimeReservations s')) \<le> rq_Capacity ex_quota"
    by (rule quota_not_oversold [OF p [unfolded ex_prepare_def] q]) (simp_all add: none key mvals_def)
  with p show ?thesis by (intro exI [of _ s'] exI [of _ r]) (simp add: ex_quota_def)
qed

text \<open>
  That the reservations are new is needed. A reservation that is presented again with its idempotency key is skipped
  by the check, but written with the quantity it now names: ten times the capacity in the example.
\<close>

theorem known_reservation_oversells:
  "\<exists>s' r. ex_prepare [ex_reservation ''r1'' ''card'' 100]
         (ex_quoted\<lparr>runtimeReservations := [(''t:r1'', ex_reservation ''r1'' ''card'' 4)]\<rparr>) = Inr (s', r)
     \<and> mget (runtimeResourceQuotas s') ''t:gpu'' = Some ex_quota \<and> rq_Capacity ex_quota = 10
     \<and> held_total ''t:gpu'' (mvals (runtimeReservations s')) = 100"
proof -
  have "case ex_prepare [ex_reservation ''r1'' ''card'' 100]
         (ex_quoted\<lparr>runtimeReservations := [(''t:r1'', ex_reservation ''r1'' ''card'' 4)]\<rparr>) of Inl _ \<Rightarrow> False
      | Inr (s', _) \<Rightarrow> mget (runtimeResourceQuotas s') ''t:gpu'' = Some ex_quota
          \<and> held_total ''t:gpu'' (mvals (runtimeReservations s')) = 100" by code_simp
  then show ?thesis by (auto simp: ex_quota_def split: sum.splits prod.splits)
qed

text \<open>
  The bound on the sum is needed. Two reservations of \<open>2 ^ 62\<close> units each are accepted
  against a capacity of 10 in a store that holds nothing: their sum wraps to a negative number,
  which is below the capacity.
\<close>

theorem quota_overflow_oversells:
  "\<exists>s' r. ex_prepare [ex_reservation ''r1'' ''card'' (2 ^ 62), ex_reservation ''r2'' ''card'' (2 ^ 62)] ex_quoted
       = Inr (s', r)
     \<and> mget (runtimeResourceQuotas s') ''t:gpu'' = Some ex_quota \<and> rq_Capacity ex_quota = 10
     \<and> held_total ''t:gpu'' (mvals (runtimeReservations s')) = 2 ^ 63"
proof -
  let ?rs = "[ex_reservation ''r1'' ''card'' (2 ^ 62), ex_reservation ''r2'' ''card'' (2 ^ 62)]"
  have "\<not> isl (ex_prepare ?rs ex_quoted)" by code_simp
  then obtain s' r where p: "ex_prepare ?rs ex_quoted = Inr (s', r)"
    using not_isl_Inr by (metis surj_pair)
  have "case ex_prepare ?rs ex_quoted of Inl _ \<Rightarrow> False
      | Inr (s', _) \<Rightarrow> mget (runtimeResourceQuotas s') ''t:gpu'' = Some ex_quota
          \<and> held_total ''t:gpu'' (mvals (runtimeReservations s')) = 2 ^ 63" by code_simp
  with p show ?thesis by (intro exI [of _ s'] exI [of _ r]) (simp add: ex_quota_def)
qed

text \<open>
  The unit of a new reservation is not compared with the unit of the quota: a reservation in
  another unit is accepted and counted, and while it is held every further dispatch on that
  quota fails with \<^verbatim>\<open>RESOURCE_UNIT_MISMATCH\<close>, also one in the unit of the quota.
\<close>

theorem unit_mismatch_blocks_quota:
  "\<exists>s' r e. ex_prepare [ex_reservation ''r1'' ''hour'' 4] ex_quoted = Inr (s', r)
     \<and> rq_Unit ex_quota = ''card''
     \<and> validateResourceReservationsLocked s' [ex_reservation ''r2'' ''card'' 1] = Some e
     \<and> f_Code e = ''RESOURCE_UNIT_MISMATCH''"
proof -
  let ?p = "ex_prepare [ex_reservation ''r1'' ''hour'' 4] ex_quoted"
  have "case ?p of Inl _ \<Rightarrow> False
      | Inr (s', _) \<Rightarrow> (case validateResourceReservationsLocked s' [ex_reservation ''r2'' ''card'' 1] of
          None \<Rightarrow> False | Some e \<Rightarrow> f_Code e = ''RESOURCE_UNIT_MISMATCH'')" by code_simp
  then show ?thesis by (auto simp: ex_quota_def split: sum.splits prod.splits option.splits)
qed

end
