(* ===== verification/Scheduling.thy ===== *)
theory Scheduling
  imports Dispatch
begin

section \<open>Which node is offered next\<close>

text \<open>
  The two selection loops of the store, \<^verbatim>\<open>NextReadyNode\<close> (\<^verbatim>\<open>runtime_dispatch.go\<close>) and the one inside
  \<^verbatim>\<open>ClaimReadyNodeCommand\<close> (\<^verbatim>\<open>runtime_commands.go\<close>). Both scan a Go map, whose enumeration order is
  unspecified, with a running best candidate. The interface \<open>ready_selector\<close> is what a selection
  promises (an eligible candidate of least rank, or none when there is none); from it follows
  that the outcome does not depend on the enumeration order. Both loops are interpretations.
\<close>

subsection \<open>Interface: selecting a ready node\<close>

definition keyed_nodes_of :: "Store \<Rightarrow> bool" where
  "keyed_nodes_of s =
     (wf_map (runtimeNodes s)
      \<and> (\<forall>k n. mget (runtimeNodes s) k = Some n \<longrightarrow> k = node_key n \<and> nr_ID n \<noteq> ''''))"

text \<open>Two stores whose node and job maps have the same entries, in whatever order.\<close>

definition same_maps :: "Store \<Rightarrow> Store \<Rightarrow> bool" where
  "same_maps s s' =
     ((\<forall>k. mget (runtimeNodes s) k = mget (runtimeNodes s') k)
      \<and> (\<forall>k. mget (runtimeJobs s) k = mget (runtimeJobs s') k))"

locale ready_selector =
  fixes eligible :: "string \<Rightarrow> 'q \<Rightarrow> Store \<Rightarrow> NodeRun \<Rightarrow> bool"
    and score :: "'q \<Rightarrow> Store \<Rightarrow> NodeRun \<Rightarrow> int"
    and select :: "string \<Rightarrow> 'q \<Rightarrow> Store \<Rightarrow> NodeRun res"
  assumes tenant: "eligible t q s n \<Longrightarrow> nr_TenantID n = t"
    and reads_maps: "same_maps s s' \<Longrightarrow> eligible t q s n = eligible t q s' n"
      "same_maps s s' \<Longrightarrow> score q s n = score q s' n"
    and select_best: "keyed_nodes_of s \<Longrightarrow> select t q s = Inr n \<Longrightarrow>
      n \<in> set (mvals (runtimeNodes s)) \<and> eligible t q s n
      \<and> (\<forall>c \<in> set (mvals (runtimeNodes s)). eligible t q s c \<longrightarrow>
           node_rank (score q s) n \<le> node_rank (score q s) c)"
    and select_none: "keyed_nodes_of s \<Longrightarrow> select t q s = Inl f \<Longrightarrow>
      f = NotFound \<and> (\<forall>c \<in> set (mvals (runtimeNodes s)). \<not> eligible t q s c)"
begin

lemma stored_nodes:
  "keyed_nodes_of s \<Longrightarrow> n \<in> set (mvals (runtimeNodes s)) \<longleftrightarrow> mget (runtimeNodes s) (node_key n) = Some n"
  unfolding keyed_nodes_of_def using mvals_get mget_vals by metis

lemma rank_unique:
  assumes "keyed_nodes_of s" and "n \<in> set (mvals (runtimeNodes s))" and "n' \<in> set (mvals (runtimeNodes s))"
    and "eligible t q s n" and "eligible t q s n'"
    and "node_rank (score q s) n = node_rank (score q s) n'"
  shows "n = n'"
proof -
  have "nr_ID n = nr_ID n'" using assms(6) by (simp add: node_rank_def)
  moreover have "nr_TenantID n = nr_TenantID n'" using assms(4,5) tenant by metis
  ultimately have "node_key n = node_key n'" by (simp add: node_key_def)
  then show ?thesis using assms(1-3) stored_nodes by (metis option.inject)
qed

lemma order_independent:
  assumes s: "keyed_nodes_of s" and s': "keyed_nodes_of s'" and same: "same_maps s s'"
  shows "select t q s = select t q s'"
proof -
  have vals: "set (mvals (runtimeNodes s)) = set (mvals (runtimeNodes s'))"
    using same unfolding same_maps_def by (intro set_eqI) (simp add: stored_nodes [OF s] stored_nodes [OF s'])
  have el: "eligible t q s' = eligible t q s" using reads_maps(1) [OF same] by (intro ext) simp
  have sc: "score q s' = score q s" using reads_maps(2) [OF same] by (intro ext) simp
  show ?thesis
  proof (cases "select t q s")
    case (Inl f)
    from select_none [OF s Inl] have none: "\<forall>c \<in> set (mvals (runtimeNodes s')). \<not> eligible t q s' c"
      and f: "f = NotFound" unfolding vals el by blast+
    show ?thesis
    proof (cases "select t q s'")
      case (Inl f')
      then show ?thesis using select_none [OF s' Inl] f \<open>select t q s = Inl f\<close> by simp
    next
      case (Inr n)
      then show ?thesis using select_best [OF s' Inr] none by blast
    qed
  next
    case (Inr n)
    note n = select_best [OF s Inr]
    show ?thesis
    proof (cases "select t q s'")
      case (Inl f)
      from select_none [OF s' Inl] have "\<not> eligible t q s n" using n unfolding vals el by blast
      then show ?thesis using n by blast
    next
      case Inr': (Inr n')
      note n' = select_best [OF s' Inr', unfolded el sc vals [symmetric]]
      have "node_rank (score q s) n = node_rank (score q s) n'" using n n' by (meson order_antisym)
      then have "n = n'" using rank_unique [OF s] n n' by blast
      then show ?thesis using Inr Inr' by simp
    qed
  qed
qed

end

subsection \<open>The two selections\<close>

definition claim_node :: "string \<Rightarrow> string \<times> time \<Rightarrow> Store \<Rightarrow> NodeRun res" where
  "claim_node t q s =
     (let n = claim_select t (fst q) (snd q) s in if nr_ID n = '''' then Inl NotFound else Inr n)"

lemma keyed_ids: "keyed_nodes_of s \<Longrightarrow> n \<in> set (mvals (runtimeNodes s)) \<Longrightarrow> nr_ID n \<noteq> ''''"
  unfolding keyed_nodes_of_def using mvals_get by metis

lemma selected_cases:
  assumes "keyed_nodes_of s" and "nr_ID z = ''''"
  shows "(\<forall>c \<in> set (mvals (runtimeNodes s)). \<not> el c) \<and> select_loop el sc (z, k) (mvals (runtimeNodes s)) = (z, k)
    \<or> (\<exists>n \<in> set (mvals (runtimeNodes s)). el n \<and> nr_ID n \<noteq> ''''
        \<and> select_loop el sc (z, k) (mvals (runtimeNodes s)) = (n, sc n)
        \<and> (\<forall>c \<in> set (mvals (runtimeNodes s)). el c \<longrightarrow> node_rank sc n \<le> node_rank sc c))"
  using select_loop_first [of z "mvals (runtimeNodes s)" el sc k] keyed_ids [OF assms(1)] assms(2)
  by blast

interpretation next_sel: ready_selector
  "\<lambda>t q s. next_eligible t (fst q) (fst (snd q)) s"
  "\<lambda>q s. next_score s (snd (snd q))"
  "\<lambda>t q s. NextReadyNode (snd (snd q)) t (fst q) (fst (snd q)) s"
proof
  fix t s s' n f and q :: "string \<times> string list option \<times> time"
  show "next_eligible t (fst q) (fst (snd q)) s n \<Longrightarrow> nr_TenantID n = t"
    by (simp add: next_eligible_def)
  show "same_maps s s' \<Longrightarrow> next_eligible t (fst q) (fst (snd q)) s n = next_eligible t (fst q) (fst (snd q)) s' n"
    by (simp add: next_eligible_def next_job_def same_maps_def)
  show "same_maps s s' \<Longrightarrow> next_score s (snd (snd q)) n = next_score s' (snd (snd q)) n"
    by (simp add: next_score_def next_job_def same_maps_def)
  have z: "nr_ID zero_node = ''''" by (simp add: zero_node_def)
  show "n \<in> set (mvals (runtimeNodes s)) \<and> next_eligible t (fst q) (fst (snd q)) s n
      \<and> (\<forall>c \<in> set (mvals (runtimeNodes s)). next_eligible t (fst q) (fst (snd q)) s c \<longrightarrow>
           node_rank (next_score s (snd (snd q))) n \<le> node_rank (next_score s (snd (snd q))) c)"
    if "keyed_nodes_of s" "NextReadyNode (snd (snd q)) t (fst q) (fst (snd q)) s = Inr n"
    using selected_cases [OF that(1) z, of "next_eligible t (fst q) (fst (snd q)) s" "next_score s (snd (snd q))" "-1"]
      that(2) z by (auto simp: NextReadyNode_def Let_def split: if_splits)
  show "f = NotFound \<and> (\<forall>c \<in> set (mvals (runtimeNodes s)). \<not> next_eligible t (fst q) (fst (snd q)) s c)"
    if "keyed_nodes_of s" "NextReadyNode (snd (snd q)) t (fst q) (fst (snd q)) s = Inl f"
    using selected_cases [OF that(1) z, of "next_eligible t (fst q) (fst (snd q)) s" "next_score s (snd (snd q))" "-1"]
      that(2) by (auto simp: NextReadyNode_def Let_def split: if_splits)
qed

interpretation claim_sel: ready_selector
  "\<lambda>t q s. claim_eligible t (fst q)" "\<lambda>q s. claim_score s (snd q)" claim_node
proof
  fix t s s' n f and q :: "string \<times> time"
  show "claim_eligible t (fst q) n \<Longrightarrow> nr_TenantID n = t" by (simp add: claim_eligible_def)
  show "same_maps s s' \<Longrightarrow> claim_eligible t (fst q) n = claim_eligible t (fst q) n" by simp
  show "same_maps s s' \<Longrightarrow> claim_score s (snd q) n = claim_score s' (snd q) n"
    by (simp add: claim_score_def same_maps_def)
  have z: "nr_ID zero_node = ''''" by (simp add: zero_node_def)
  show "n \<in> set (mvals (runtimeNodes s)) \<and> claim_eligible t (fst q) n
      \<and> (\<forall>c \<in> set (mvals (runtimeNodes s)). claim_eligible t (fst q) c \<longrightarrow>
           node_rank (claim_score s (snd q)) n \<le> node_rank (claim_score s (snd q)) c)"
    if "keyed_nodes_of s" "claim_node t q s = Inr n"
    using selected_cases [OF that(1) z, of "claim_eligible t (fst q)" "claim_score s (snd q)" "-1"]
      that(2) z by (auto simp: claim_node_def claim_select_def Let_def split: if_splits)
  show "f = NotFound \<and> (\<forall>c \<in> set (mvals (runtimeNodes s)). \<not> claim_eligible t (fst q) c)"
    if "keyed_nodes_of s" "claim_node t q s = Inl f"
    using selected_cases [OF that(1) z, of "claim_eligible t (fst q)" "claim_score s (snd q)" "-1"]
      that(2) by (auto simp: claim_node_def claim_select_def Let_def split: if_splits)
qed

lemma ClaimReadyNodeCommand_ok:
  assumes "ClaimReadyNodeCommand token t j owner now lease event s = Inr (s', n)"
  obtains c fence e where "claim_node t (j, now) s = Inr c" and "\<not> blank owner" and "0 < lease"
    and "token = Inr fence" and "n = lease_node owner fence now lease c"
    and "s' = appendRuntimeEventLocked
           (s\<lparr>runtimeNodes := mput (runtimeNodeKey t (nr_ID c)) n (runtimeNodes s)\<rparr>) e"
    and "je_JobRunID e = nr_JobRunID c"
proof -
  let ?c = "claim_select t j now s"
  have id: "nr_ID (lease_node owner f now lease ?c) = nr_ID ?c"
    and job: "nr_JobRunID (lease_node owner f now lease ?c) = nr_JobRunID ?c" for f
    by (simp_all add: lease_node_def)
  from assms obtain fence e where "\<not> (blank owner \<or> lease \<le> 0)" "nr_ID ?c \<noteq> ''''" "token = Inr fence"
    "je_JobRunID e = nr_JobRunID ?c" "lease_node owner fence now lease ?c = n"
    "appendRuntimeEventLocked (s\<lparr>runtimeNodes := mput (runtimeNodeKey t (nr_ID ?c))
       (lease_node owner fence now lease ?c) (runtimeNodes s)\<rparr>) e = s'"
    unfolding ClaimReadyNodeCommand_def Let_def id job require_Inr bind_res_Inr check_nil_Inr sum.inject prod.inject
    by (elim exE conjE) (rule that; (assumption | simp)?)
  then show ?thesis by (intro that [of ?c fence e]) (auto simp: claim_node_def Let_def)
qed

lemma job_terminal_iff:
  "job_terminal x \<longleftrightarrow> x = JobRunCompleted \<or> x = JobRunFailed \<or> x = JobRunCancelled \<or> x = JobRunRejected"
  by (cases x) simp_all

lemma ex_store_keyed: "keyed_nodes_of ex_store"
proof -
  have n: "runtimeNodes ex_store = [(''t:na'', ex_noderun ''na'' ''a'' NodeReady),
      (''t:nb'', ex_noderun ''nb'' ''b'' NodePending)]" by code_simp
  show ?thesis unfolding keyed_nodes_of_def n
    by (auto simp: wf_map_def node_key_def ex_noderun_def runtimePlanKey_def split: if_splits)
qed

subsection \<open>Properties\<close>

text \<open>
  The scheduler is offered the best ready node: \<^verbatim>\<open>NextReadyNode\<close> returns a ready node of the
  tenant whose job exists, is neither paused nor finished and belongs to an allowed project, and
  no other such node has a higher priority-plus-waiting score, or the same score and an older
  update time, or both equal and a smaller identifier; it reports \<open>not found\<close> exactly when there is
  no such node. The result does not depend on the order in which Go enumerates the node map.
\<close>

theorem next_ready_best:
  assumes "keyed_nodes_of s"
  shows "(case NextReadyNode clock t j allowed s of
      Inr n \<Rightarrow> n \<in> set (mvals (runtimeNodes s)) \<and> nr_State n = NodeReady \<and> nr_TenantID n = t
        \<and> (\<exists>job. next_job s n = Some job \<and> jr_State job \<noteq> JobRunPaused \<and> \<not> job_terminal (jr_State job))
        \<and> (\<forall>c \<in> set (mvals (runtimeNodes s)). next_eligible t j allowed s c \<longrightarrow>
             (- next_score s clock n, nr_UpdatedAt n, nr_ID n) \<le> (- next_score s clock c, nr_UpdatedAt c, nr_ID c))
    | Inl f \<Rightarrow> f = NotFound \<and> (\<forall>c \<in> set (mvals (runtimeNodes s)). \<not> next_eligible t j allowed s c))
    \<and> (keyed_nodes_of s' \<and> same_maps s s' \<longrightarrow>
        NextReadyNode clock t j allowed s' = NextReadyNode clock t j allowed s)"
proof (intro conjI impI)
  let ?q = "(j, allowed, clock)"
  show "case NextReadyNode clock t j allowed s of
      Inr n \<Rightarrow> n \<in> set (mvals (runtimeNodes s)) \<and> nr_State n = NodeReady \<and> nr_TenantID n = t
        \<and> (\<exists>job. next_job s n = Some job \<and> jr_State job \<noteq> JobRunPaused \<and> \<not> job_terminal (jr_State job))
        \<and> (\<forall>c \<in> set (mvals (runtimeNodes s)). next_eligible t j allowed s c \<longrightarrow>
             (- next_score s clock n, nr_UpdatedAt n, nr_ID n) \<le> (- next_score s clock c, nr_UpdatedAt c, nr_ID c))
    | Inl f \<Rightarrow> f = NotFound \<and> (\<forall>c \<in> set (mvals (runtimeNodes s)). \<not> next_eligible t j allowed s c)"
  proof (cases "NextReadyNode clock t j allowed s")
    case (Inl f)
    then show ?thesis using next_sel.select_none [OF assms, where t = t and q = ?q and f = f] by simp
  next
    case (Inr n)
    have best: "n \<in> set (mvals (runtimeNodes s))" "next_eligible t j allowed s n"
      "\<forall>c \<in> set (mvals (runtimeNodes s)). next_eligible t j allowed s c \<longrightarrow>
         node_rank (next_score s clock) n \<le> node_rank (next_score s clock) c"
      using next_sel.select_best [OF assms, where t = t and q = ?q and n = n] Inr by simp_all
    have "\<exists>job. next_job s n = Some job \<and> jr_State job \<noteq> JobRunPaused \<and> \<not> job_terminal (jr_State job)"
      using best(2) by (auto simp: next_eligible_def job_terminal_iff split: option.splits)
    with best show ?thesis unfolding Inr node_rank_def by (simp add: next_eligible_def)
  qed
  assume "keyed_nodes_of s' \<and> same_maps s s'"
  then show "NextReadyNode clock t j allowed s' = NextReadyNode clock t j allowed s"
    using next_sel.order_independent [OF assms, where s' = s' and t = t and q = ?q] by simp
qed

theorem next_ready_best_witness:
  "keyed_nodes_of ex_store \<and> NextReadyNode 5 ''t'' '''' None ex_store = Inr (ex_noderun ''na'' ''a'' NodeReady)
   \<and> nr_State (ex_noderun ''na'' ''a'' NodeReady) = NodeReady"
proof -
  have "NextReadyNode 5 ''t'' '''' None ex_store = Inr (ex_noderun ''na'' ''a'' NodeReady)" by code_simp
  with next_ready_best [OF ex_store_keyed, where clock = 5 and t = "''t''" and j = "''''" and allowed = None]
    ex_store_keyed show ?thesis by simp
qed

text \<open>
  A claim leases the best ready node to exactly one owner: the claimed node was ready and of
  least rank; it is stored leased to the trimmed owner with a positive lease, the next version
  and the next attempt number; every other node is untouched; and it is not claimable again.
\<close>

theorem claim_leases_best:
  assumes "ClaimReadyNodeCommand token t j owner now lease event s = Inr (s', n)" and "keyed_nodes_of s"
  shows "\<exists>c. mget (runtimeNodes s) (node_key n) = Some c \<and> nr_State c = NodeReady
      \<and> (\<forall>d \<in> set (mvals (runtimeNodes s)). claim_eligible t j d \<longrightarrow>
           node_rank (claim_score s now) c \<le> node_rank (claim_score s now) d)
      \<and> nr_State n = NodeLeased \<and> nr_LeaseOwner n = TrimSpace owner \<and> nr_LeaseOwner n \<noteq> ''''
      \<and> nr_LeaseExpiresAt n = Some (now + lease) \<and> 0 < lease
      \<and> nr_Version n = nr_Version c + 1 \<and> nr_AttemptCount n = nr_AttemptCount c + 1
      \<and> (\<forall>k. mget (runtimeNodes s') k = (if k = node_key n then Some n else mget (runtimeNodes s) k))
      \<and> claim_node t (j, now') s' \<noteq> Inr n"
  using assms(1)
proof (cases rule: ClaimReadyNodeCommand_ok)
  case (1 c fence e)
  note best = claim_sel.select_best [OF assms(2) 1(1)]
  have "mget (runtimeNodes s) (node_key c) = Some c"
    using best claim_sel.stored_nodes [OF assms(2)] by blast
  moreover have key: "node_key n = node_key c" "runtimePlanKey t (nr_ID c) = node_key c"
    using best by (simp_all add: 1(5) lease_node_def node_key_def claim_eligible_def)
  moreover have st: "nr_State n = NodeLeased" "nr_LeaseOwner n = TrimSpace owner"
    "nr_LeaseExpiresAt n = Some (now + lease)" "nr_Version n = nr_Version c + 1"
    "nr_AttemptCount n = nr_AttemptCount c + 1" by (simp_all add: 1(5) lease_node_def)
  moreover have nodes: "mget (runtimeNodes s') k = (if k = node_key n then Some n else mget (runtimeNodes s) k)" for k
    unfolding 1(6) key by (simp add: key)
  moreover have "keyed_nodes_of s'"
  proof -
    have "wf_map (runtimeNodes s')" using assms(2) unfolding 1(6) keyed_nodes_of_def by simp
    moreover have "nr_ID n \<noteq> ''''"
      using keyed_ids [OF assms(2)] best by (simp add: 1(5) lease_node_def)
    ultimately show ?thesis
      using assms(2) unfolding keyed_nodes_of_def nodes by (auto split: if_splits)
  qed
  then have "claim_node t (j, now') s' \<noteq> Inr n"
    using claim_sel.select_best [of s' t "(j, now')" n] st(1) by (auto simp: claim_eligible_def)
  ultimately show ?thesis using best 1(2,3) by (intro exI [of _ c]) (auto simp: claim_eligible_def)
qed

theorem claim_leases_best_witness:
  "\<exists>s' n. ClaimReadyNodeCommand (Inr ''tok'') ''t'' '''' ''w'' 5 10 (ex_event ''e1'' ''node.leased'') ex_store
       = Inr (s', n) \<and> nr_State n = NodeLeased \<and> mget (runtimeNodes s') (node_key n) = Some n"
proof -
  have "\<not> isl (ClaimReadyNodeCommand (Inr ''tok'') ''t'' '''' ''w'' 5 10 (ex_event ''e1'' ''node.leased'') ex_store)"
    by code_simp
  then obtain s' n where c: "ClaimReadyNodeCommand (Inr ''tok'') ''t'' '''' ''w'' 5 10
      (ex_event ''e1'' ''node.leased'') ex_store = Inr (s', n)"
    using not_isl_Inr by (metis surj_pair)
  from claim_leases_best [OF c ex_store_keyed, of 0] have "nr_State n = NodeLeased"
    "mget (runtimeNodes s') (node_key n) = Some n" by auto
  with c show ?thesis by (intro exI [of _ s'] exI [of _ n]) simp
qed

text \<open>
  Claiming does not look at the state of the job. A ready node of a paused job is never
  offered by \<^verbatim>\<open>NextReadyNode\<close>, but \<^verbatim>\<open>ClaimReadyNodeCommand\<close> leases it.
\<close>

theorem claim_ignores_pause:
  "\<exists>s s' n. mget (runtimeJobs s) ''t:j'' = Some (ex_job\<lparr>jr_State := JobRunPaused, jr_Version := 2\<rparr>)
     \<and> NextReadyNode 5 ''t'' '''' None s = Inl NotFound
     \<and> ClaimReadyNodeCommand (Inr ''tok'') ''t'' '''' ''w'' 5 10 (ex_event ''e2'' ''node.leased'') s = Inr (s', n)
     \<and> nr_JobRunID n = ''j'' \<and> nr_State n = NodeLeased"
proof -
  let ?s = "run_cmd (ApplyJobTransition (ex_job\<lparr>jr_State := JobRunPaused, jr_Version := 2\<rparr>) 1
      (ex_event ''e1'' ''job.paused'')) ex_store"
  let ?c = "ClaimReadyNodeCommand (Inr ''tok'') ''t'' '''' ''w'' 5 10 (ex_event ''e2'' ''node.leased'') ?s"
  have "mget (runtimeJobs ?s) ''t:j'' = Some (ex_job\<lparr>jr_State := JobRunPaused, jr_Version := 2\<rparr>)" by code_simp
  moreover have "NextReadyNode 5 ''t'' '''' None ?s = Inl NotFound" by code_simp
  moreover have "case ?c of Inl _ \<Rightarrow> False | Inr (_, n) \<Rightarrow> nr_JobRunID n = ''j'' \<and> nr_State n = NodeLeased"
    by code_simp
  then obtain s' n where "?c = Inr (s', n)" "nr_JobRunID n = ''j''" "nr_State n = NodeLeased"
    by (auto split: sum.splits prod.splits)
  ultimately show ?thesis by (intro exI [of _ ?s] exI [of _ s'] exI [of _ n]) simp
qed

end
