(* ===== verification/Outbox.thy ===== *)
theory Outbox
  imports Commands
begin

section \<open>The outbox delivers each event to one worker at a time\<close>

text \<open>
  Proofs about the outbox protocol of \<^verbatim>\<open>runtime_commands.go\<close> (\<open>ClaimRuntimeOutbox\<close>, \<open>AckRuntimeOutbox\<close>,
  \<open>RetryRuntimeOutbox\<close>) and about \<open>enqueueRuntimeOutboxLocked\<close>, which \<open>Commands\<close> and \<open>Memory_Store\<close>
  define. \<open>outbox_wf\<close> is the invariant: receipts and messages are stored under the keys built from
  their own fields, and tenant identifiers contain no colon. Without the latter the keys
  \<^verbatim>\<open>tenant:message\<close> would be ambiguous (the store does not check it; the identifiers the
  program generates have none).
\<close>

subsection \<open>Keys\<close>

lemma receipt_key_inj: "runtimeOutboxReceiptKey t m sub = runtimeOutboxReceiptKey t m' sub \<longleftrightarrow> m = m'"
  by (simp add: runtimeOutboxReceiptKey_def)

definition receipts_ok :: "runtimeOutboxReceipt gomap \<Rightarrow> bool" where
  "receipts_ok m = (\<forall>k r. mget m k = Some r \<longrightarrow>
     k = runtimeOutboxReceiptKey (or_TenantID r) (or_MessageID r) (or_Subscriber r) \<and> plain_id (or_TenantID r))"

definition messages_ok :: "RuntimeOutboxMessage gomap \<Rightarrow> bool" where
  "messages_ok ob = (\<forall>k m. mget ob k = Some m \<longrightarrow>
     k = runtimePlanKey (om_TenantID m) (om_ID m) \<and> plain_id (om_TenantID m))"

definition outbox_wf :: "Store \<Rightarrow> bool" where
  "outbox_wf s = (wf_map (runtimeOutboxReceipts s) \<and> receipts_ok (runtimeOutboxReceipts s)
     \<and> messages_ok (runtimeOutbox s))"

lemma receipts_okD:
  "receipts_ok m \<Longrightarrow> mget m k = Some r \<Longrightarrow>
   k = runtimeOutboxReceiptKey (or_TenantID r) (or_MessageID r) (or_Subscriber r) \<and> plain_id (or_TenantID r)"
  unfolding receipts_ok_def by (drule spec, drule spec, erule mp)

lemma messages_okD:
  "messages_ok ob \<Longrightarrow> mget ob k = Some m \<Longrightarrow> k = runtimePlanKey (om_TenantID m) (om_ID m) \<and> plain_id (om_TenantID m)"
  unfolding messages_ok_def by (drule spec, drule spec, erule mp)

lemma outbox_wf_receipt:
  assumes "outbox_wf s" and "mget (runtimeOutboxReceipts s) k = Some r"
  shows "k = runtimeOutboxReceiptKey (or_TenantID r) (or_MessageID r) (or_Subscriber r)" "plain_id (or_TenantID r)"
proof -
  have "receipts_ok (runtimeOutboxReceipts s)" using assms(1) by (simp add: outbox_wf_def)
  note ok = receipts_okD [OF this assms(2)]
  show "k = runtimeOutboxReceiptKey (or_TenantID r) (or_MessageID r) (or_Subscriber r)" by (rule conjunct1 [OF ok])
  show "plain_id (or_TenantID r)" by (rule conjunct2 [OF ok])
qed

lemma outbox_wf_message:
  assumes "outbox_wf s" and "plain_id t" and "mget (runtimeOutbox s) (runtimePlanKey t i) = Some m"
  shows "om_ID m = i" "om_TenantID m = t"
proof -
  have "runtimePlanKey t i = runtimePlanKey (om_TenantID m) (om_ID m)" "plain_id (om_TenantID m)"
    using messages_okD [OF _ assms(3)] assms(1) unfolding outbox_wf_def by simp_all
  then show "om_ID m = i" "om_TenantID m = t" using assms(2) plan_key_inj by simp_all
qed

subsection \<open>The invariant is kept\<close>

lemma enqueue_receipts_get:
  "mget (enqueue_receipts e subs m) k = Some r \<Longrightarrow> mget m k = Some r
     \<or> (\<exists>sub. k = runtimeOutboxReceiptKey (je_TenantID e) (je_ID e) sub \<and> r = new_receipt e sub)"
  by (induction e subs m rule: enqueue_receipts.induct) (auto simp: put_new_def split: if_splits)

lemma wf_put_new: "wf_map m \<Longrightarrow> wf_map (put_new k v m)"
  by (simp add: put_new_def)

lemma wf_enqueue_receipts: "wf_map m \<Longrightarrow> wf_map (enqueue_receipts e subs m)"
  by (induction e subs m rule: enqueue_receipts.induct) (simp_all add: wf_put_new)

lemma receipts_ok_enqueue:
  assumes "receipts_ok m" and "plain_id (je_TenantID e)"
  shows "receipts_ok (enqueue_receipts e subs m)"
  unfolding receipts_ok_def
proof (intro allI impI)
  fix k r assume "mget (enqueue_receipts e subs m) k = Some r"
  from enqueue_receipts_get [OF this]
  show "k = runtimeOutboxReceiptKey (or_TenantID r) (or_MessageID r) (or_Subscriber r) \<and> plain_id (or_TenantID r)"
    using receipts_okD [OF assms(1), of k r] assms(2) by (elim disjE exE conjE) (simp_all add: new_receipt_def)
qed

lemma messages_ok_put:
  assumes "messages_ok ob" and "plain_id (je_TenantID e)"
  shows "messages_ok (put_new (runtimePlanKey (je_TenantID e) (je_ID e)) (outbox_message e) ob)"
  unfolding messages_ok_def
proof (intro allI impI)
  fix k m assume "mget (put_new (runtimePlanKey (je_TenantID e) (je_ID e)) (outbox_message e) ob) k = Some m"
  then have "mget ob k = Some m \<or> k = runtimePlanKey (je_TenantID e) (je_ID e) \<and> m = outbox_message e"
    by (simp add: put_new_def split: if_splits)
  then show "k = runtimePlanKey (om_TenantID m) (om_ID m) \<and> plain_id (om_TenantID m)"
    using messages_okD [OF assms(1), of k m] assms(2) by (elim disjE conjE) (simp_all add: outbox_message_def)
qed

lemma outbox_wf_enqueue:
  assumes "outbox_wf s" and "plain_id (je_TenantID e)"
  shows "outbox_wf (enqueueRuntimeOutboxLocked s e)"
  using assms unfolding outbox_wf_def enqueueRuntimeOutboxLocked_def
  by (simp add: wf_enqueue_receipts receipts_ok_enqueue messages_ok_put)

lemma outbox_wf_cong:
  "runtimeOutbox s' = runtimeOutbox s \<Longrightarrow> runtimeOutboxReceipts s' = runtimeOutboxReceipts s \<Longrightarrow>
   outbox_wf s' = outbox_wf s"
  by (simp add: outbox_wf_def)

lemma outbox_wf_append:
  "outbox_wf s \<Longrightarrow> plain_id (je_TenantID e) \<Longrightarrow> outbox_wf (appendRuntimeEventLocked s e)"
  unfolding appendRuntimeEventLocked_def Let_def
  by (rule outbox_wf_enqueue) (simp_all add: outbox_wf_def next_event_def)

text \<open>An update of one stored receipt that keeps its identity.\<close>

lemma outbox_wf_update:
  assumes "outbox_wf s" and "mget (runtimeOutboxReceipts s) k = Some r"
    and "or_TenantID r' = or_TenantID r" "or_MessageID r' = or_MessageID r" "or_Subscriber r' = or_Subscriber r"
  shows "outbox_wf (s\<lparr>runtimeOutboxReceipts := mput k r' (runtimeOutboxReceipts s)\<rparr>)"
proof -
  have "receipts_ok (mput k r' (runtimeOutboxReceipts s))"
    unfolding receipts_ok_def
  proof (intro allI impI)
    fix k' x assume "mget (mput k r' (runtimeOutboxReceipts s)) k' = Some x"
    then show "k' = runtimeOutboxReceiptKey (or_TenantID x) (or_MessageID x) (or_Subscriber x) \<and> plain_id (or_TenantID x)"
      using outbox_wf_receipt [OF assms(1,2)] outbox_wf_receipt [OF assms(1), of k' x] assms(3-5)
      by (cases "k' = k") simp_all
  qed
  then show ?thesis using assms(1) by (simp add: outbox_wf_def)
qed

subsection \<open>Claiming\<close>

lemma due_messages_receipt:
  assumes "outbox_wf s" and "x \<in> set (due_messages t sub now limit s)"
  obtains r m where "mget (runtimeOutboxReceipts s) (runtimeOutboxReceiptKey t (om_ID x) sub) = Some r"
    and "receipt_due t sub now r" and "or_MessageID r = om_ID x" and "plain_id t"
    and "mget (runtimeOutbox s) (runtimePlanKey t (om_ID x)) = Some m" and "om_ID m = om_ID x"
proof -
  obtain r m where r: "r \<in> set (mvals (runtimeOutboxReceipts s))" "receipt_due t sub now r"
    and m: "mget (runtimeOutbox s) (runtimePlanKey t (or_MessageID r)) = Some m"
    and x: "x = joinRuntimeOutboxReceipt m r"
  proof -
    have "x \<in> set (List.map_filter (\<lambda>r. map_option (\<lambda>m. joinRuntimeOutboxReceipt m r)
        (mget (runtimeOutbox s) (runtimePlanKey t (or_MessageID r))))
        (filter (receipt_due t sub now) (mvals (runtimeOutboxReceipts s))))"
      using assms(2) unfolding due_messages_def Let_def by (drule_tac in_set_takeD) simp
    then show ?thesis using that by (auto simp: List.map_filter_def)
  qed
  have "wf_map (runtimeOutboxReceipts s)" using assms(1) by (simp add: outbox_wf_def)
  then obtain k where k: "mget (runtimeOutboxReceipts s) k = Some r" using mvals_get [OF _ r(1)] by blast
  have t: "or_TenantID r = t" "or_Subscriber r = sub" using r(2) by (simp_all add: receipt_due_def)
  have plain: "plain_id t" using outbox_wf_receipt(2) [OF assms(1) k] t by simp
  have mid: "om_ID m = or_MessageID r" by (rule outbox_wf_message(1) [OF assms(1) plain m])
  then have id: "or_MessageID r = om_ID x" using x by (simp add: joinRuntimeOutboxReceipt_def)
  have "k = runtimeOutboxReceiptKey t (or_MessageID r) sub"
    using outbox_wf_receipt(1) [OF assms(1) k] t by simp
  with k have "mget (runtimeOutboxReceipts s) (runtimeOutboxReceiptKey t (om_ID x) sub) = Some r" by (simp add: id)
  then show ?thesis by (rule that [OF _ r(2) id plain m [unfolded id] mid [unfolded id]])
qed

text \<open>What the locking loop leaves in the receipts, and which messages it returns.\<close>

definition locked_for :: "string \<Rightarrow> time \<Rightarrow> runtimeOutboxReceipt option \<Rightarrow> bool" where
  "locked_for worker u r =
     (case r of None \<Rightarrow> False | Some x \<Rightarrow> or_LockedBy x = worker \<and> or_LockedUntil x = Some u)"

lemma lock_loop_receipts:
  "fst (lock_loop t sub w u ob xs m) =
     foldl (\<lambda>m x. mput (runtimeOutboxReceiptKey t (om_ID x) sub)
       (lock_receipt w u (receipt_at (runtimeOutboxReceiptKey t (om_ID x) sub) m)) m) m xs"
  by (induction xs arbitrary: m) (simp_all add: Let_def split_beta)

lemma lock_loop_locked:
  "x \<in> set xs \<or> locked_for w u (mget m (runtimeOutboxReceiptKey t (om_ID x) sub)) \<Longrightarrow>
   locked_for w u (mget (fst (lock_loop t sub w u ob xs m)) (runtimeOutboxReceiptKey t (om_ID x) sub))"
proof (induction xs arbitrary: m)
  case (Cons y ys)
  let ?m = "mput (runtimeOutboxReceiptKey t (om_ID y) sub)
    (lock_receipt w u (receipt_at (runtimeOutboxReceiptKey t (om_ID y) sub) m)) m"
  have "x \<in> set ys \<or> locked_for w u (mget ?m (runtimeOutboxReceiptKey t (om_ID x) sub))"
    using Cons.prems by (auto simp: locked_for_def lock_receipt_def)
  from Cons.IH [OF this] show ?case by (simp add: Let_def split_beta)
qed simp

text \<open>A receipt keeps its identity and whether it has been delivered.\<close>

definition same_receipt :: "runtimeOutboxReceipt \<Rightarrow> runtimeOutboxReceipt \<Rightarrow> bool" where
  "same_receipt r r' = (or_TenantID r' = or_TenantID r \<and> or_MessageID r' = or_MessageID r
     \<and> or_Subscriber r' = or_Subscriber r \<and> or_DeliveredAt r' = or_DeliveredAt r
     \<and> or_NextAttemptAt r' = or_NextAttemptAt r)"

lemma lock_loop_same:
  "mget m k = Some r \<Longrightarrow> \<exists>r'. mget (fst (lock_loop t sub w u ob xs m)) k = Some r' \<and> same_receipt r r'"
proof (induction xs arbitrary: m r)
  case (Cons y ys)
  let ?k = "runtimeOutboxReceiptKey t (om_ID y) sub"
  let ?m = "mput ?k (lock_receipt w u (receipt_at ?k m)) m"
  have "\<exists>r1. mget ?m k = Some r1 \<and> same_receipt r r1"
    using Cons.prems by (cases "k = ?k") (simp_all add: same_receipt_def lock_receipt_def receipt_at_def)
  then obtain r1 where r1: "mget ?m k = Some r1" "same_receipt r r1" by blast
  from Cons.IH [OF r1(1)] show ?case using r1(2) by (auto simp: Let_def split_beta same_receipt_def)
qed (simp add: same_receipt_def)

lemma lock_loop_other:
  "k \<notin> (\<lambda>x. runtimeOutboxReceiptKey t (om_ID x) sub) ` set xs \<Longrightarrow>
   mget (fst (lock_loop t sub w u ob xs m)) k = mget m k"
  by (induction xs arbitrary: m) (simp_all add: Let_def split_beta)

lemma lock_loop_wf: "wf_map m \<Longrightarrow> wf_map (fst (lock_loop t sub w u ob xs m))"
  by (induction xs arbitrary: m) (simp_all add: Let_def split_beta)

lemma lock_loop_ids:
  assumes "\<forall>x \<in> set xs. \<exists>r. mget m (runtimeOutboxReceiptKey t (om_ID x) sub) = Some r \<and> or_MessageID r = om_ID x"
    and "\<forall>x \<in> set xs. \<exists>msg. mget ob (runtimePlanKey t (om_ID x)) = Some msg \<and> om_ID msg = om_ID x"
  shows "map om_ID (snd (lock_loop t sub w u ob xs m)) = map om_ID xs
    \<and> (\<forall>y \<in> set (snd (lock_loop t sub w u ob xs m)). om_LockedBy y = w \<and> om_LockedUntil y = Some u)"
  using assms
proof (induction xs arbitrary: m)
  case (Cons y ys)
  let ?k = "runtimeOutboxReceiptKey t (om_ID y) sub"
  let ?r = "lock_receipt w u (receipt_at ?k m)"
  obtain r where r: "mget m ?k = Some r" "or_MessageID r = om_ID y" using Cons.prems(1) by auto
  obtain msg where msg: "mget ob (runtimePlanKey t (om_ID y)) = Some msg" "om_ID msg = om_ID y"
    using Cons.prems(2) by auto
  have rid: "or_MessageID ?r = om_ID y" using r by (simp add: lock_receipt_def receipt_at_def)
  have "\<forall>x \<in> set ys. \<exists>r'. mget (mput ?k ?r m) (runtimeOutboxReceiptKey t (om_ID x) sub) = Some r'
      \<and> or_MessageID r' = om_ID x"
    using Cons.prems(1) rid by (auto simp: receipt_key_inj)
  then have "map om_ID (snd (lock_loop t sub w u ob ys (mput ?k ?r m))) = map om_ID ys
    \<and> (\<forall>z \<in> set (snd (lock_loop t sub w u ob ys (mput ?k ?r m))). om_LockedBy z = w \<and> om_LockedUntil z = Some u)"
    using Cons.prems(2) by (intro Cons.IH) simp_all
  then show ?case
    by (simp add: Let_def split_beta rid msg) (simp add: joinRuntimeOutboxReceipt_def lock_receipt_def msg)
qed simp

text \<open>A claim, spelled out.\<close>

lemma ClaimRuntimeOutbox_ok:
  assumes "ClaimRuntimeOutbox t sub w now lease limit s = Inr (s', ms)"
  shows "0 < lease \<and> ms = snd (lock_loop t (TrimSpace sub) (TrimSpace w) (now + lease) (runtimeOutbox s)
      (due_messages t (TrimSpace sub) now limit s) (runtimeOutboxReceipts s))
    \<and> s' = s\<lparr>runtimeOutboxReceipts := fst (lock_loop t (TrimSpace sub) (TrimSpace w) (now + lease) (runtimeOutbox s)
      (due_messages t (TrimSpace sub) now limit s) (runtimeOutboxReceipts s))\<rparr>"
  using assms unfolding ClaimRuntimeOutbox_def Let_def split_beta
  by (simp only: require_Inr sum.inject prod.inject) auto

lemma ClaimRuntimeOutbox_messages:
  assumes "ClaimRuntimeOutbox t sub w now lease limit s = Inr (s', ms)" and "outbox_wf s"
  shows "map om_ID ms = map om_ID (due_messages t (TrimSpace sub) now limit s)
    \<and> (\<forall>y \<in> set ms. om_LockedBy y = TrimSpace w \<and> om_LockedUntil y = Some (now + lease))"
proof -
  let ?xs = "due_messages t (TrimSpace sub) now limit s"
  have "\<forall>x \<in> set ?xs. \<exists>r. mget (runtimeOutboxReceipts s) (runtimeOutboxReceiptKey t (om_ID x) (TrimSpace sub)) = Some r
      \<and> or_MessageID r = om_ID x"
    by (intro ballI) (erule due_messages_receipt [OF assms(2)], blast)
  moreover have "\<forall>x \<in> set ?xs. \<exists>msg. mget (runtimeOutbox s) (runtimePlanKey t (om_ID x)) = Some msg \<and> om_ID msg = om_ID x"
    by (intro ballI) (erule due_messages_receipt [OF assms(2)], blast)
  ultimately show ?thesis
    using lock_loop_ids ClaimRuntimeOutbox_ok [OF assms(1)] by simp
qed

lemma outbox_wf_claim:
  assumes "ClaimRuntimeOutbox t sub w now lease limit s = Inr (s', ms)" and "outbox_wf s"
  shows "outbox_wf s'"
proof -
  let ?xs = "due_messages t (TrimSpace sub) now limit s"
  let ?m = "fst (lock_loop t (TrimSpace sub) (TrimSpace w) (now + lease) (runtimeOutbox s) ?xs (runtimeOutboxReceipts s))"
  have s': "s' = s\<lparr>runtimeOutboxReceipts := ?m\<rparr>" using ClaimRuntimeOutbox_ok [OF assms(1)] by blast
  have "receipts_ok ?m"
    unfolding receipts_ok_def
  proof (intro allI impI)
    fix k r assume r: "mget ?m k = Some r"
    have "\<exists>r0. mget (runtimeOutboxReceipts s) k = Some r0"
    proof (cases "k \<in> (\<lambda>x. runtimeOutboxReceiptKey t (om_ID x) (TrimSpace sub)) ` set ?xs")
      case True
      then obtain x where "x \<in> set ?xs" "k = runtimeOutboxReceiptKey t (om_ID x) (TrimSpace sub)" by blast
      then show ?thesis using due_messages_receipt [OF assms(2)] by metis
    next
      case False
      then show ?thesis using lock_loop_other r by metis
    qed
    then obtain r0 where r0: "mget (runtimeOutboxReceipts s) k = Some r0" by blast
    from lock_loop_same [OF this] r have "same_receipt r0 r" by (metis option.inject)
    then show "k = runtimeOutboxReceiptKey (or_TenantID r) (or_MessageID r) (or_Subscriber r) \<and> plain_id (or_TenantID r)"
      using outbox_wf_receipt [OF assms(2) r0] by (simp add: same_receipt_def)
  qed
  then show ?thesis using assms(2) unfolding s' outbox_wf_def by (simp add: lock_loop_wf)
qed

subsection \<open>Properties\<close>

text \<open>
  A claimed message belongs to one worker until its lease ends: while the lease of a claim
  runs, no other claim for the same subscriber returns any of its messages, and every returned
  message carries the worker's name and the end of the lease.
\<close>

theorem outbox_claim_exclusive:
  assumes "outbox_wf s" and "ClaimRuntimeOutbox t sub w now lease limit s = Inr (s1, ms)"
    and "ClaimRuntimeOutbox t sub2 w2 now2 lease2 limit2 s1 = Inr (s2, ms2)"
    and "TrimSpace sub2 = TrimSpace sub" and "now2 < now + lease"
  shows "set (map om_ID ms) \<inter> set (map om_ID ms2) = {}
    \<and> (\<forall>y \<in> set ms. om_LockedBy y = TrimSpace w \<and> om_LockedUntil y = Some (now + lease))"
proof -
  let ?sub = "TrimSpace sub"
  note c1 = ClaimRuntimeOutbox_messages [OF assms(2,1)]
  have wf1: "outbox_wf s1" by (rule outbox_wf_claim [OF assms(2,1)])
  note c2 = ClaimRuntimeOutbox_messages [OF assms(3) wf1, unfolded assms(4)]
  have "i \<notin> set (map om_ID ms2)" if i: "i \<in> set (map om_ID ms)" for i
  proof
    assume "i \<in> set (map om_ID ms2)"
    then obtain y where y: "y \<in> set (due_messages t ?sub now2 limit2 s1)" "om_ID y = i"
      using c2 by (metis (no_types, lifting) imageE set_map)
    from y(1) obtain r where r: "mget (runtimeOutboxReceipts s1) (runtimeOutboxReceiptKey t i ?sub) = Some r"
      "receipt_due t ?sub now2 r"
      by (rule due_messages_receipt [OF wf1]) (simp add: y(2) that)
    obtain x where x: "x \<in> set (due_messages t ?sub now limit s)" "om_ID x = i"
      using c1 i by (metis (no_types, lifting) imageE set_map)
    have "locked_for (TrimSpace w) (now + lease) (mget (runtimeOutboxReceipts s1) (runtimeOutboxReceiptKey t i ?sub))"
      using ClaimRuntimeOutbox_ok [OF assms(2)] lock_loop_locked [OF disjI1 [OF x(1)]] by (simp add: x(2))
    with r assms(5) show False by (simp add: locked_for_def receipt_due_def after_opt_def)
  qed
  with c1 show ?thesis by blast
qed

lemma ex_store_outbox: "outbox_wf ex_store"
proof -
  let ?e = "ex_event ''e0'' ''job.created''"
  have r: "runtimeOutboxReceipts ex_store =
      [(runtimeOutboxReceiptKey ''t'' ''e0'' RuntimeOutboxSubscriberProjection,
        new_receipt ?e RuntimeOutboxSubscriberProjection)]" by code_simp
  have o: "runtimeOutbox ex_store = [(''t:e0'', outbox_message ?e)]" by code_simp
  show ?thesis
    unfolding outbox_wf_def receipts_ok_def messages_ok_def r o
    by (simp add: wf_map_def new_receipt_def outbox_message_def ex_event_def plain_id_def runtimePlanKey_def)
qed

theorem outbox_claim_exclusive_witness:
  "\<exists>s1 ms s2 ms2. ClaimRuntimeOutbox ''t'' RuntimeOutboxSubscriberProjection ''w1'' 5 10 0 ex_store = Inr (s1, ms)
     \<and> ms \<noteq> [] \<and> ClaimRuntimeOutbox ''t'' RuntimeOutboxSubscriberProjection ''w2'' 6 10 0 s1 = Inr (s2, ms2)
     \<and> set (map om_ID ms) \<inter> set (map om_ID ms2) = {}"
proof -
  let ?c = "\<lambda>w now. ClaimRuntimeOutbox ''t'' RuntimeOutboxSubscriberProjection w now 10 0"
  have "case ?c ''w1'' 5 ex_store of Inl _ \<Rightarrow> False
      | Inr (s1, ms) \<Rightarrow> ms \<noteq> [] \<and> \<not> isl (?c ''w2'' 6 s1)" by code_simp
  then obtain s1 ms where c1: "?c ''w1'' 5 ex_store = Inr (s1, ms)" "ms \<noteq> []" "\<not> isl (?c ''w2'' 6 s1)"
    by (auto split: sum.splits prod.splits)
  then obtain s2 ms2 where c2: "?c ''w2'' 6 s1 = Inr (s2, ms2)" using not_isl_Inr by (metis surj_pair)
  from outbox_claim_exclusive [OF ex_store_outbox c1(1) c2] have "set (map om_ID ms) \<inter> set (map om_ID ms2) = {}"
    by simp
  with c1 c2 show ?thesis by blast
qed

end
