(* ===== verification/Idempotency.thy ===== *)
theory Idempotency
  imports Commands
begin

section \<open>Commands that may be retried\<close>

text \<open>
  Two commands of \<^verbatim>\<open>runtime_commands.go\<close> carry an idempotency key: \<open>ApplyStateMutation\<close> and
  \<open>RegisterEffectCommand\<close>. Both are instances of one interface, \<open>idempotent_command\<close>: after a
  successful call on a store that satisfies an invariant, every call with the same key answers
  with the same value and leaves the store alone. The properties add what the first, effective call does.
\<close>

subsection \<open>Interface: an idempotent command\<close>

locale idempotent_command =
  fixes inv :: "'st \<Rightarrow> bool"
    and cmd :: "'a \<Rightarrow> 'st \<Rightarrow> fault + ('st \<times> 'v)"
    and same_key :: "'a \<Rightarrow> 'a \<Rightarrow> bool"
    and remembers :: "'st \<Rightarrow> 'a \<Rightarrow> 'v \<Rightarrow> bool"
  assumes first: "inv s \<Longrightarrow> cmd a s = Inr (s', v) \<Longrightarrow> remembers s' a v"
    and again: "remembers s a v \<Longrightarrow> same_key a b \<Longrightarrow> cmd b s = Inr (s, v)"
    and refl_key: "same_key a a"
begin

lemma retry: "inv s \<Longrightarrow> cmd a s = Inr (s', v) \<Longrightarrow> same_key a b \<Longrightarrow> cmd b s' = Inr (s', v)"
  using first again by blast

lemma retry_many:
  assumes "inv s" and "cmd a s = Inr (s', v)"
    and "(\<lambda>x y. \<exists>u b. same_key a b \<and> cmd b x = Inr (y, u))\<^sup>*\<^sup>* s' s''"
  shows "s'' = s'"
  using assms(3)
proof (induction rule: rtranclp_induct)
  case (step x y)
  then obtain u b where b: "same_key a b" "cmd b s' = Inr (y, u)" by blast
  from retry [OF assms(1,2) b(1)] b(2) show ?case by simp
qed simp

end

subsection \<open>State mutations\<close>

type_synonym mutation_call = "string \<times> string \<times> string \<times> StateMutation \<times> JobEvent"

definition mutation_key :: "string \<Rightarrow> string \<Rightarrow> StateMutation \<Rightarrow> string" where
  "mutation_key t j m = runtimeStateKey t j (sm_Collection m) @ '':'' @ TrimSpace (sm_IdempotencyKey m)"

definition state_at :: "Store \<Rightarrow> string \<Rightarrow> string \<Rightarrow> StateMutation \<Rightarrow> RuntimeState" where
  "state_at s t j m =
     (case mget (runtimeStates s) (runtimeStateKey t j (sm_Collection m)) of None \<Rightarrow> zero_state | Some st \<Rightarrow> st)"

fun mutate :: "mutation_call \<Rightarrow> Store \<Rightarrow> RuntimeState cmd" where
  "mutate (i, t, j, m, e) s = ApplyStateMutation i t j m e s"

fun same_mutation :: "mutation_call \<Rightarrow> mutation_call \<Rightarrow> bool" where
  "same_mutation (i, t, j, m, e) (i', t', j', m', e') =
     (t' = t \<and> j' = j \<and> sm_Collection m' = sm_Collection m
      \<and> TrimSpace (sm_IdempotencyKey m') = TrimSpace (sm_IdempotencyKey m))"

fun mutation_done :: "Store \<Rightarrow> mutation_call \<Rightarrow> RuntimeState \<Rightarrow> bool" where
  "mutation_done s (i, t, j, m, e) st =
     (\<not> blank (sm_Collection m) \<and> \<not> blank (sm_IdempotencyKey m)
      \<and> mget (runtimeStateMutations s) (mutation_key t j m) \<noteq> None \<and> st = state_at s t j m)"

lemma ApplyStateMutation_ok:
  assumes "ApplyStateMutation i t j m e s = Inr (s', st)"
  obtains (replay) "\<not> blank (sm_Collection m)" "\<not> blank (sm_IdempotencyKey m)"
      "mget (runtimeStateMutations s) (mutation_key t j m) \<noteq> None" "s' = s" "st = state_at s t j m"
  | (applied) st0 e' where "\<not> blank (sm_Collection m)" "\<not> blank (sm_IdempotencyKey m)"
      "mget (runtimeStateMutations s) (mutation_key t j m) = None"
      "mget (runtimeStates s) (runtimeStateKey t j (sm_Collection m)) = Some st0
       \<or> mget (runtimeStates s) (runtimeStateKey t j (sm_Collection m)) = None \<and> rs_Values st0 = [] \<and> rs_Revision st0 = 0"
      "rs_Revision st0 = sm_ExpectedRevision m"
      "st = st0\<lparr>rs_Values := append_values (sm_Append m) (set_values (sm_Set m) (rs_Values st0)),
               rs_Revision := rs_Revision st0 + 1, rs_UpdatedAt := je_OccurredAt e\<rparr>"
      "je_JobRunID e' = j"
      "s' = appendRuntimeEventLocked
         (s\<lparr>runtimeStates := mput (runtimeStateKey t j (sm_Collection m)) st (runtimeStates s),
            runtimeStateMutations := mput (mutation_key t j m) ''applied'' (runtimeStateMutations s)\<rparr>) e'"
proof (cases "mget (runtimeStateMutations s) (mutation_key t j m) = None")
  case False
  with assms have "\<not> blank (sm_Collection m)" "\<not> blank (sm_IdempotencyKey m)" "s' = s" "st = state_at s t j m"
    unfolding ApplyStateMutation_def Let_def mutation_key_def state_at_def by (simp_all only: require_Inr) auto
  with replay False show ?thesis by blast
next
  case True
  let ?init = "case mget (runtimeStates s) (runtimeStateKey t j (sm_Collection m)) of
      Some st \<Rightarrow> Inr st
    | None \<Rightarrow> require (sm_ExpectedRevision m = 0) (Conflict ''RUNTIME_STATE_CAS_CONFLICT'')
        (Inr \<lparr>rs_ID = i, rs_TenantID = t, rs_JobRunID = j, rs_Collection = sm_Collection m,
              rs_SchemaVersion = RuntimeStateSchema, rs_Revision = 0, rs_Values = [],
              rs_UpdatedAt = je_OccurredAt e\<rparr>)"
  let ?next = "\<lambda>st0. st0\<lparr>rs_Values := append_values (sm_Append m) (set_values (sm_Set m) (rs_Values st0)),
      rs_Revision := rs_Revision st0 + 1, rs_UpdatedAt := je_OccurredAt e\<rparr>"
  let ?ev = "\<lambda>st. e\<lparr>je_Payload := mput ''revision'' (AInt (rs_Revision st)) (je_Payload e),
      je_TenantID := t, je_JobRunID := j\<rparr>"
  obtain st0 where f: "\<not> (blank (sm_Collection m) \<or> blank (sm_IdempotencyKey m))" "?init = Inr st0"
    "rs_Revision st0 = sm_ExpectedRevision m" "?next st0 = st"
    "appendRuntimeEventLocked
       (s\<lparr>runtimeStates := mput (runtimeStateKey t j (sm_Collection m)) (?next st0) (runtimeStates s),
          runtimeStateMutations := mput (mutation_key t j m) ''applied'' (runtimeStateMutations s)\<rparr>) (?ev (?next st0)) = s'"
    using assms
    unfolding ApplyStateMutation_def Let_def mutation_key_def [symmetric]
    unfolding True not_not if_False simp_thms require_Inr bind_res_Inr check_nil_Inr sum.inject prod.inject
    by (elim exE conjE) (rule that; assumption)
  have init: "mget (runtimeStates s) (runtimeStateKey t j (sm_Collection m)) = Some st0
    \<or> mget (runtimeStates s) (runtimeStateKey t j (sm_Collection m)) = None \<and> rs_Values st0 = [] \<and> rs_Revision st0 = 0"
    using f(2) by (auto split: option.splits)
  have blank: "\<not> blank (sm_Collection m)" "\<not> blank (sm_IdempotencyKey m)" using f(1) by auto
  show ?thesis
    by (rule applied [OF blank True init f(3) f(4) [symmetric] _ f(5) [unfolded f(4), symmetric]]) simp
qed

lemma mutation_key_same:
  "same_mutation (i, t, j, m, e) (i', t', j', m', e') \<Longrightarrow>
   mutation_key t' j' m' = mutation_key t j m \<and> state_at s t' j' m' = state_at s t j m"
  by (simp add: mutation_key_def state_at_def)

interpretation mutations: idempotent_command "\<lambda>s. True" mutate same_mutation mutation_done
proof
  fix a s s' v assume "mutate a s = Inr (s', v)"
  then show "mutation_done s' a v"
  proof (cases a)
    case (fields i t j m e)
    with \<open>mutate a s = Inr (s', v)\<close> have "ApplyStateMutation i t j m e s = Inr (s', v)" by simp
    then show ?thesis
      by (cases rule: ApplyStateMutation_ok) (simp_all add: fields state_at_def)
  qed
next
  fix s a v b assume d: "mutation_done s a v" and k: "same_mutation a b"
  obtain i t j m e where a: "a = (i, t, j, m, e)" by (cases a)
  obtain i' t' j' m' e' where b: "b = (i', t', j', m', e')" by (cases b)
  have mk: "mutation_key t' j' m' = mutation_key t j m" "state_at s t' j' m' = state_at s t j m"
    using mutation_key_same k a b by blast+
  have nb: "\<not> blank (sm_Collection m')" "\<not> blank (sm_IdempotencyKey m')" using d k by (simp_all add: a b)
  have "mget (runtimeStateMutations s) (mutation_key t' j' m') \<noteq> None" "v = state_at s t' j' m'"
    using d by (simp_all add: a mk)
  then show "mutate b s = Inr (s, v)"
    using nb unfolding b mutate.simps ApplyStateMutation_def Let_def mutation_key_def state_at_def by simp
next
  fix a show "same_mutation a a" by (cases a) simp
qed

subsection \<open>What a mutation writes\<close>

lemma set_values_get:
  "wf_map kvs \<Longrightarrow> mget (set_values kvs m) k = (case mget kvs k of Some v \<Rightarrow> Some v | None \<Rightarrow> mget m k)"
  by (induction kvs m rule: set_values.induct) (auto simp: wf_Cons split: option.splits)

definition list_of :: "goany option \<Rightarrow> goany list" where
  "list_of v = (case v of Some (AArr xs) \<Rightarrow> xs | _ \<Rightarrow> [])"

lemma append_values_get:
  "wf_map kvs \<Longrightarrow> mget (append_values kvs m) k =
     (case mget kvs k of Some vs \<Rightarrow> Some (AArr (list_of (mget m k) @ vs)) | None \<Rightarrow> mget m k)"
proof (induction kvs m rule: append_values.induct)
  case (2 k' vs kvs m)
  then show ?case by (auto simp: wf_Cons list_of_def split: option.splits)
qed simp

subsection \<open>Effects\<close>

lemma find_mput:
  assumes "find P (mvals m) = None" and "P v"
  shows "find P (mvals (mput k v m)) = Some v"
proof -
  have "v \<in> set (mvals (mput k v m))" by (rule mget_vals [of _ k]) simp
  with assms(2) obtain x where x: "find P (mvals (mput k v m)) = Some x"
    by (metis find_None_iff not_Some_eq)
  then have "P x" "x \<in> set (mvals (mput k v m))" by (auto simp: find_Some_iff)
  then have "x = v" using assms(1) set_mvals_mput [of k v m] by (auto simp: find_None_iff)
  with x show ?thesis by simp
qed

type_synonym effect_call = "ExternalEffect \<times> JobEvent"

fun register :: "effect_call \<Rightarrow> Store \<Rightarrow> ExternalEffect cmd" where
  "register (x, e) s = RegisterEffectCommand x e s"

fun same_effect :: "effect_call \<Rightarrow> effect_call \<Rightarrow> bool" where
  "same_effect (x, e) (x', e') = (ee_TenantID x' = ee_TenantID x \<and> ee_IdempotencyKey x' = ee_IdempotencyKey x)"

fun effect_known :: "Store \<Rightarrow> effect_call \<Rightarrow> ExternalEffect \<Rightarrow> bool" where
  "effect_known s (x, e) v =
     (find (\<lambda>y. ee_TenantID y = ee_TenantID x \<and> ee_IdempotencyKey y = ee_IdempotencyKey x)
        (mvals (runtimeEffects s)) = Some v)"

lemma RegisterEffectCommand_ok:
  assumes "RegisterEffectCommand x e s = Inr (s', v)"
  obtains (known) "effect_known s (x, e) v" "s' = s"
  | (new) e' where
      "find (\<lambda>y. ee_TenantID y = ee_TenantID x \<and> ee_IdempotencyKey y = ee_IdempotencyKey x)
         (mvals (runtimeEffects s)) = None"
      "v = x" "1 \<le> ee_Version x" "je_JobRunID e' = ee_JobRunID x"
      "s' = appendRuntimeEventLocked (s\<lparr>runtimeEffects := mput (effect_key x) x (runtimeEffects s)\<rparr>) e'"
proof (cases "find (\<lambda>y. ee_TenantID y = ee_TenantID x \<and> ee_IdempotencyKey y = ee_IdempotencyKey x)
    (mvals (runtimeEffects s))")
  case None
  let ?e = "e\<lparr>je_TenantID := ee_TenantID x, je_JobRunID := ee_JobRunID x, je_NodeKey := ''''\<rparr>"
  have "v = x \<and> 1 \<le> ee_Version x
    \<and> s' = appendRuntimeEventLocked (s\<lparr>runtimeEffects := mput (effect_key x) x (runtimeEffects s)\<rparr>) ?e"
    using assms unfolding RegisterEffectCommand_def Let_def None option.case require_Inr check_nil_Inr
      sum.inject prod.inject de_Morgan_disj not_less by (elim conjE) (intro conjI; (assumption | erule sym))
  then have f: "v = x" "1 \<le> ee_Version x"
    "s' = appendRuntimeEventLocked (s\<lparr>runtimeEffects := mput (effect_key x) x (runtimeEffects s)\<rparr>) ?e"
    by simp_all
  have "je_JobRunID ?e = ee_JobRunID x" by simp
  from new [of ?e, OF None f(1,2) this f(3)] show ?thesis .
next
  case (Some y)
  with assms have "y = v" "s = s'" unfolding RegisterEffectCommand_def by simp_all
  then have "effect_known s (x, e) v" "s' = s" using Some by simp_all
  then show ?thesis by (rule known)
qed

interpretation effects: idempotent_command "\<lambda>s. True" register same_effect effect_known
proof
  fix a s s' v assume r: "register a s = Inr (s', v)"
  obtain x e where a: "a = (x, e)" by (cases a)
  from r have "RegisterEffectCommand x e s = Inr (s', v)" by (simp add: a)
  then show "effect_known s' a v"
  proof (cases rule: RegisterEffectCommand_ok)
    case known
    then show ?thesis by (simp add: a)
  next
    case (new e')
    from find_mput [OF new(1), of x "effect_key x"] show ?thesis by (simp add: a new(2,5))
  qed
next
  fix s a v b assume k: "effect_known s a v" and "same_effect a b"
  moreover obtain x e where "a = (x, e)" by (cases a)
  moreover obtain x' e' where "b = (x', e')" by (cases b)
  ultimately show "register b s = Inr (s, v)" by (simp add: RegisterEffectCommand_def)
next
  fix a show "same_effect a a" by (cases a) simp
qed

subsection \<open>Examples\<close>

definition ex_mutation :: "int \<Rightarrow> string \<Rightarrow> StateMutation" where
  "ex_mutation r key =
     \<lparr>sm_Collection = ''notes'', sm_ExpectedRevision = r, sm_Set = [(''title'', AStr ''x'')],
      sm_Append = [(''lines'', [AInt 1, AInt 2])], sm_IdempotencyKey = key\<rparr>"

definition ex_effect :: "string \<Rightarrow> string \<Rightarrow> ExternalEffect" where
  "ex_effect i key =
     \<lparr>ee_ID = i, ee_TenantID = ''t'', ee_JobRunID = ''j'', ee_NodeRunID = ''na'', ee_AttemptID = ''at'',
      ee_ResourceReservationID = '''', ee_Kind = ''publish'', ee_IdempotencyKey = key,
      ee_State = EffectRegistered, ee_ExternalID = '''', ee_RequestDigest = ex_digest,
      ee_ResponseDigest = '''', ee_CostMinor = 0, ee_Currency = '''', ee_SafeSummary = [],
      ee_ErrorCode = '''', ee_Version = 1, ee_CreatedAt = 1, ee_UpdatedAt = 1\<rparr>"

subsection \<open>Properties\<close>

text \<open>
  A state mutation takes effect exactly once. After a successful mutation, any number of
  further calls with the same collection and (trimmed) idempotency key, whatever they set, append
  or expect, answer with the resulting state and change nothing. The effective call needs the
  expected revision, moves it by one and publishes one event.
\<close>

theorem state_mutation_once:
  assumes "ApplyStateMutation i t j m e s = Inr (s', st)"
  shows "(same_mutation (i, t, j, m, e) (i', t, j, m', e')
           \<longrightarrow> ApplyStateMutation i' t j m' e' s' = Inr (s', st))
    \<and> (mget (runtimeStateMutations s) (mutation_key t j m) = None \<longrightarrow>
        rs_Revision st = sm_ExpectedRevision m + 1
        \<and> mget (runtimeStates s') (runtimeStateKey t j (sm_Collection m)) = Some st
        \<and> (\<exists>ev. events_of s' j = events_of s j @ [ev]))"
proof (intro conjI impI)
  assume "same_mutation (i, t, j, m, e) (i', t, j, m', e')"
  then show "ApplyStateMutation i' t j m' e' s' = Inr (s', st)"
    using mutations.retry [of "(i, t, j, m, e)" s s' st "(i', t, j, m', e')"] assms by simp
next
  assume new: "mget (runtimeStateMutations s) (mutation_key t j m) = None"
  from assms have "rs_Revision st = sm_ExpectedRevision m + 1
    \<and> mget (runtimeStates s') (runtimeStateKey t j (sm_Collection m)) = Some st
    \<and> (\<exists>ev. events_of s' j = events_of s j @ [ev])"
  proof (cases rule: ApplyStateMutation_ok)
    case replay
    then show ?thesis using new by simp
  next
    case (applied st0 ev)
    have "events_of (s\<lparr>runtimeStates := a, runtimeStateMutations := b\<rparr>) j = events_of s j" for a b
      by (simp add: events_of_def)
    then show ?thesis using applied(5,6,7) unfolding applied(8) by (simp add: events_of_append)
  qed
  then show "rs_Revision st = sm_ExpectedRevision m + 1"
    "mget (runtimeStates s') (runtimeStateKey t j (sm_Collection m)) = Some st"
    "\<exists>ev. events_of s' j = events_of s j @ [ev]" by blast+
qed

theorem state_mutation_once_witness:
  "\<exists>s' st. ApplyStateMutation ''i'' ''t'' ''j'' (ex_mutation 0 ''k'') (ex_event ''e1'' ''state.changed'') ex_store
       = Inr (s', st)
     \<and> ApplyStateMutation ''i2'' ''t'' ''j'' (ex_mutation 7 '' k '') (ex_event ''e2'' ''state.changed'') s' = Inr (s', st)
     \<and> rs_Revision st = 1"
proof -
  let ?e = "ex_event ''e1'' ''state.changed''"
  have "\<not> isl (ApplyStateMutation ''i'' ''t'' ''j'' (ex_mutation 0 ''k'') ?e ex_store)" by code_simp
  then obtain s' st where f: "ApplyStateMutation ''i'' ''t'' ''j'' (ex_mutation 0 ''k'') ?e ex_store = Inr (s', st)"
    using not_isl_Inr by (metis surj_pair)
  have "same_mutation (''i'', ''t'', ''j'', ex_mutation 0 ''k'', ?e)
      (''i2'', ''t'', ''j'', ex_mutation 7 '' k '', ex_event ''e2'' ''state.changed'')" by code_simp
  moreover have "mget (runtimeStateMutations ex_store) (mutation_key ''t'' ''j'' (ex_mutation 0 ''k'')) = None"
    by code_simp
  ultimately have "ApplyStateMutation ''i2'' ''t'' ''j'' (ex_mutation 7 '' k '') (ex_event ''e2'' ''state.changed'') s'
      = Inr (s', st)" "rs_Revision st = 1"
    using state_mutation_once [OF f] by (blast, simp add: ex_mutation_def)
  with f show ?thesis by blast
qed

text \<open>
  What a mutation writes, key by key: an appended key holds its previous list (the one just
  set, if the same mutation sets it, and the empty list if it holds no list) followed by the new
  elements; a key that is only set holds the new value; every other key keeps its value.
\<close>

theorem state_mutation_values:
  assumes "ApplyStateMutation i t j m e s = Inr (s', st)"
    and "mget (runtimeStateMutations s) (mutation_key t j m) = None"
    and "wf_map (sm_Set m)" and "wf_map (sm_Append m)"
  shows "mget (rs_Values st) k =
    (let old = mget (rs_Values (state_at s t j m)) k;
         now = (case mget (sm_Set m) k of Some v \<Rightarrow> Some v | None \<Rightarrow> old)
     in case mget (sm_Append m) k of Some vs \<Rightarrow> Some (AArr (list_of now @ vs)) | None \<Rightarrow> now)"
  using assms(1)
proof (cases rule: ApplyStateMutation_ok)
  case replay
  then show ?thesis using assms(2) by simp
next
  case (applied st0 ev)
  have "rs_Values st0 = rs_Values (state_at s t j m)"
    using applied(4) by (auto simp: state_at_def zero_state_def)
  then show ?thesis
    unfolding applied(6) Let_def
    by (simp add: append_values_get assms(4) set_values_get assms(3) split: option.split)
qed

theorem state_mutation_values_witness:
  "\<exists>s' st. ApplyStateMutation ''i'' ''t'' ''j'' (ex_mutation 0 ''k'') (ex_event ''e1'' ''state.changed'') ex_store
       = Inr (s', st)
     \<and> mget (rs_Values st) ''lines'' = Some (AArr [AInt 1, AInt 2]) \<and> mget (rs_Values st) ''title'' = Some (AStr ''x'')"
proof -
  let ?e = "ex_event ''e1'' ''state.changed''"
  have "\<not> isl (ApplyStateMutation ''i'' ''t'' ''j'' (ex_mutation 0 ''k'') ?e ex_store)" by code_simp
  then obtain s' st where f: "ApplyStateMutation ''i'' ''t'' ''j'' (ex_mutation 0 ''k'') ?e ex_store = Inr (s', st)"
    using not_isl_Inr by (metis surj_pair)
  have n: "mget (runtimeStateMutations ex_store) (mutation_key ''t'' ''j'' (ex_mutation 0 ''k'')) = None" by code_simp
  have w: "wf_map (sm_Set (ex_mutation 0 ''k''))" "wf_map (sm_Append (ex_mutation 0 ''k''))" by code_simp+
  have st: "runtimeStates ex_store = []" by code_simp
  have "mget (rs_Values st) ''lines'' = Some (AArr [AInt 1, AInt 2])" "mget (rs_Values st) ''title'' = Some (AStr ''x'')"
    by (simp_all add: state_mutation_values [OF f n w] state_at_def st ex_mutation_def list_of_def zero_state_def)
  with f show ?thesis by blast
qed

text \<open>
  Registering an effect is idempotent in the tenant and the idempotency key: after a
  successful registration every registration with the same key, also one that describes another
  effect, returns the effect registered first and changes nothing; and retries in any number and
  order leave the store as the first one left it.
\<close>

theorem effect_registered_once:
  assumes "RegisterEffectCommand x e s = Inr (s', v)"
    and "ee_TenantID x' = ee_TenantID x" and "ee_IdempotencyKey x' = ee_IdempotencyKey x"
    and "(\<lambda>a b. \<exists>y ev u. ee_TenantID y = ee_TenantID x \<and> ee_IdempotencyKey y = ee_IdempotencyKey x
           \<and> RegisterEffectCommand y ev a = Inr (b, u))\<^sup>*\<^sup>* s' s''"
  shows "RegisterEffectCommand x' e' s' = Inr (s', v) \<and> s'' = s'"
proof
  show "RegisterEffectCommand x' e' s' = Inr (s', v)"
    using effects.retry [of "(x, e)" s s' v "(x', e')"] assms(1-3) by simp
  have "(\<lambda>a b. \<exists>u c. same_effect (x, e) c \<and> register c a = Inr (b, u))\<^sup>*\<^sup>* s' s''"
    using assms(4) by (rule rtranclp_mono [THEN predicate2D, rotated]) fastforce
  then show "s'' = s'" using effects.retry_many [of "(x, e)" s s' v s''] assms(1) by simp
qed

theorem effect_registered_once_witness:
  "\<exists>s' v. RegisterEffectCommand (ex_effect ''x1'' ''k'') (ex_event ''e1'' ''effect.registered'') ex_store = Inr (s', v)
     \<and> RegisterEffectCommand (ex_effect ''x2'' ''k'') (ex_event ''e2'' ''effect.registered'') s' = Inr (s', v)"
proof -
  have "\<not> isl (RegisterEffectCommand (ex_effect ''x1'' ''k'') (ex_event ''e1'' ''effect.registered'') ex_store)"
    by code_simp
  then obtain s' v where
    r: "RegisterEffectCommand (ex_effect ''x1'' ''k'') (ex_event ''e1'' ''effect.registered'') ex_store = Inr (s', v)"
    using not_isl_Inr by (metis surj_pair)
  from effect_registered_once [OF r _ _ rtranclp.rtrancl_refl, of "ex_effect ''x2'' ''k''"] r
  show ?thesis by (auto simp: ex_effect_def)
qed

end
