(* ===== verification/Registry.thy ===== *)
theory Registry
  imports Commands
begin

section \<open>Registries of the store: schemas, bindings, diagnostics, projections\<close>

text \<open>
  The tables of the in-memory store that no execution command touches
  (\<^verbatim>\<open>runtime_schema.go\<close>, \<^verbatim>\<open>runtime_execution_binding.go\<close>, \<^verbatim>\<open>runtime_cleanup.go\<close>,
  \<^verbatim>\<open>runtime_projection.go\<close>, \<^verbatim>\<open>runtime_projection_rebuild.go\<close>), and the listings of
  \<^verbatim>\<open>runtime.go\<close> and \<^verbatim>\<open>runtime_resources.go\<close>. The writes are collected in the step relation
  \<open>registry_step\<close>. Along its steps a schema revision moves only forward through its life cycle,
  a blob has one cleanup diagnostic whose final status is kept, and a projection never goes back
  to an older event.
\<close>

subsection \<open>Schemas (runtime_schema.go)\<close>

definition runtimeSchemaKey :: "string \<Rightarrow> string \<Rightarrow> int \<Rightarrow> string" where
  "runtimeSchemaKey tenantID schemaID revision = tenantID @ '':'' @ schemaID @ '':'' @ Itoa revision"

definition schema_key :: "RuntimeSchema \<Rightarrow> string" where
  "schema_key c = runtimeSchemaKey (sch_TenantID c) (sch_SchemaID c) (sch_Revision c)"

definition CreateRuntimeSchema :: "RuntimeSchema \<Rightarrow> Store \<Rightarrow> unit cmd" where
  "CreateRuntimeSchema schema s =
     check_nil (RuntimeSchema_Validate schema) (
     require (mget (runtimeSchemas s) (schema_key schema) = None) (Conflict ''RUNTIME_SCHEMA_EXISTS'') (
     Inr (s\<lparr>runtimeSchemas := mput (schema_key schema) schema (runtimeSchemas s)\<rparr>, ())))"

definition Store_RuntimeSchema :: "string \<Rightarrow> string \<Rightarrow> int \<Rightarrow> Store \<Rightarrow> RuntimeSchema res" where
  "Store_RuntimeSchema tenantID schemaID revision s =
     lookup_or NotFound (mget (runtimeSchemas s) (runtimeSchemaKey tenantID schemaID revision)) Inr"

definition RuntimeSchemas :: "string \<Rightarrow> string \<Rightarrow> Store \<Rightarrow> RuntimeSchema list" where
  "RuntimeSchemas tenantID schemaID s =
     sort_by (\<lambda>a b. if sch_SchemaID a = sch_SchemaID b then sch_Revision a > sch_Revision b
                     else sch_SchemaID a < sch_SchemaID b)
       (filter (\<lambda>c. sch_TenantID c = tenantID \<and> (schemaID = '''' \<or> sch_SchemaID c = schemaID))
         (mvals (runtimeSchemas s)))"

definition transitionRuntimeSchema ::
    "RuntimeSchema \<Rightarrow> int \<Rightarrow> string \<Rightarrow> string \<Rightarrow> Store \<Rightarrow> RuntimeSchema cmd" where
  "transitionRuntimeSchema nxt expectedVersion expectedState nextState s =
     check_nil (RuntimeSchema_Validate nxt) (
     lookup_or NotFound (mget (runtimeSchemas s) (schema_key nxt)) (\<lambda>current.
     require (\<not> (sch_Version current \<noteq> expectedVersion \<or> sch_Status current \<noteq> expectedState
                 \<or> sch_Version nxt \<noteq> expectedVersion + 1 \<or> sch_Status nxt \<noteq> nextState))
       (Conflict ''RUNTIME_SCHEMA_VERSION_CONFLICT'') (
     Inr (s\<lparr>runtimeSchemas := mput (schema_key nxt) nxt (runtimeSchemas s)\<rparr>, nxt))))"

definition PublishRuntimeSchema :: "RuntimeSchema \<Rightarrow> int \<Rightarrow> Store \<Rightarrow> RuntimeSchema cmd" where
  "PublishRuntimeSchema nxt expectedVersion s =
     transitionRuntimeSchema nxt expectedVersion ''draft'' ''published'' s"

definition RetireRuntimeSchema :: "RuntimeSchema \<Rightarrow> int \<Rightarrow> Store \<Rightarrow> RuntimeSchema cmd" where
  "RetireRuntimeSchema nxt expectedVersion s =
     transitionRuntimeSchema nxt expectedVersion ''published'' ''retired'' s"

subsection \<open>Execution bindings (runtime_execution_binding.go)\<close>

text \<open>
  \<^verbatim>\<open>NormalizeCollections\<close> sorts the lists of the binding; the store keeps the sorted value. The
  second guard of the source, on the digest of the row that is found, is part of the condition.
\<close>

definition CreateExecutionBindingSnapshot ::
    "(goany \<Rightarrow> string) \<Rightarrow> ExecutionBindingSnapshot \<Rightarrow> Store \<Rightarrow> unit cmd" where
  "CreateExecutionBindingSnapshot hash b0 s =
     (let b = binding_normalize b0; key = runtimePlanKey (eb_TenantID b) (eb_Digest b) in
      check_nil (ExecutionBindingSnapshot_Validate hash b) (
      require (\<not> (case mget (runtimeExecutionBindings s) key of
                    None \<Rightarrow> False | Some existing \<Rightarrow> eb_Digest existing = eb_Digest b))
        (Conflict ''EXECUTION_BINDING_SNAPSHOT_EXISTS'') (
      Inr (s\<lparr>runtimeExecutionBindings := mput key b (runtimeExecutionBindings s)\<rparr>, ()))))"

definition Store_ExecutionBindingSnapshot ::
    "string \<Rightarrow> string \<Rightarrow> Store \<Rightarrow> ExecutionBindingSnapshot res" where
  "Store_ExecutionBindingSnapshot tenantID digest s =
     lookup_or NotFound (mget (runtimeExecutionBindings s) (runtimePlanKey tenantID digest)) Inr"

subsection \<open>Cleanup diagnostics (runtime_cleanup.go)\<close>

abbreviation runtimeCleanupKey :: "string \<Rightarrow> string \<Rightarrow> string" where
  "runtimeCleanupKey \<equiv> runtimePlanKey"

fun cleanup_status_str :: "cleanup_status \<Rightarrow> string" where
  "cleanup_status_str RuntimeCleanupPending = ''pending''"
| "cleanup_status_str RuntimeCleanupRetrying = ''retrying''"
| "cleanup_status_str RuntimeCleanupCleaned = ''cleaned''"
| "cleanup_status_str RuntimeCleanupNotFound = ''not_found''"
| "cleanup_status_str RuntimeCleanupFailed = ''failed''"
| "cleanup_status_str (CleanupStatus s) = s"

definition cleanup_key :: "RuntimeCleanupDiagnostic \<Rightarrow> string" where
  "cleanup_key d = runtimeCleanupKey (cd_TenantID d) (cd_ID d)"

definition CreateRuntimeCleanupDiagnostic :: "RuntimeCleanupDiagnostic \<Rightarrow> Store \<Rightarrow> unit cmd" where
  "CreateRuntimeCleanupDiagnostic d s =
     check_nil (RuntimeCleanupDiagnostic_Validate d) (
     require (\<not> list_ex (\<lambda>x. cd_TenantID x = cd_TenantID d \<and> cd_ObjectKey x = cd_ObjectKey d)
               (mvals (runtimeCleanupDiagnostics s))) (Conflict ''RUNTIME_CLEANUP_DIAGNOSTIC_EXISTS'') (
     require (mget (runtimeCleanupDiagnostics s) (cleanup_key d) = None)
       (Conflict ''RUNTIME_CLEANUP_DIAGNOSTIC_EXISTS'') (
     Inr (s\<lparr>runtimeCleanupDiagnostics := mput (cleanup_key d) d (runtimeCleanupDiagnostics s)\<rparr>, ()))))"

definition UpdateRuntimeCleanupDiagnostic ::
    "RuntimeCleanupDiagnostic \<Rightarrow> int \<Rightarrow> Store \<Rightarrow> unit cmd" where
  "UpdateRuntimeCleanupDiagnostic d expectedVersion s =
     check_nil (RuntimeCleanupDiagnostic_Validate d) (
     lookup_or NotFound (mget (runtimeCleanupDiagnostics s) (cleanup_key d)) (\<lambda>current.
     require (\<not> (cd_Version current \<noteq> expectedVersion \<or> cd_Version d \<noteq> expectedVersion + 1))
       (Conflict ''RUNTIME_CLEANUP_DIAGNOSTIC_VERSION_CONFLICT'') (
     check_nil (RuntimeCleanupDiagnostic_ValidateTransition d current) (
     Inr (s\<lparr>runtimeCleanupDiagnostics := mput (cleanup_key d) d (runtimeCleanupDiagnostics s)\<rparr>, ())))))"

definition Store_RuntimeCleanupDiagnostic ::
    "string \<Rightarrow> string \<Rightarrow> Store \<Rightarrow> RuntimeCleanupDiagnostic res" where
  "Store_RuntimeCleanupDiagnostic tenantID i s =
     lookup_or NotFound (mget (runtimeCleanupDiagnostics s) (runtimeCleanupKey tenantID i)) Inr"

definition RuntimeCleanupDiagnostics ::
    "string \<Rightarrow> string \<Rightarrow> int \<Rightarrow> Store \<Rightarrow> RuntimeCleanupDiagnostic list" where
  "RuntimeCleanupDiagnostics tenantID status limit s =
     (let limit' = (if limit \<le> 0 \<or> limit > 500 then 100 else limit) in
      take (nat limit')
        (sort_by (\<lambda>a b. if cd_UpdatedAt a = cd_UpdatedAt b then cd_ID a < cd_ID b
                        else cd_UpdatedAt a < cd_UpdatedAt b)
          (filter (\<lambda>d. cd_TenantID d = tenantID
                    \<and> (status = '''' \<or> cleanup_status_str (cd_Status d) = status))
            (mvals (runtimeCleanupDiagnostics s)))))"

subsection \<open>Projections, statistics and heartbeats (runtime_projection.go)\<close>

abbreviation projectionKey :: "string \<Rightarrow> string \<Rightarrow> string" where
  "projectionKey \<equiv> runtimePlanKey"

definition SaveRuntimeExplorer :: "RuntimeExplorerView \<Rightarrow> Store \<Rightarrow> unit cmd" where
  "SaveRuntimeExplorer view s =
     require (\<not> (rv_TenantID view = '''' \<or> rv_JobRunID view = '''' \<or> IsZero (rv_ProjectedAt view)))
       (Invalid ''RUNTIME_PROJECTION_INVALID'') (
     let key = projectionKey (rv_TenantID view) (rv_JobRunID view) in
     require (\<not> (case mget (runtimeProjections s) key of
                   None \<Rightarrow> False | Some previous \<Rightarrow> rv_LastEventSeq previous > rv_LastEventSeq view))
       (Conflict ''RUNTIME_PROJECTION_STALE'') (
     Inr (s\<lparr>runtimeProjections := mput key view (runtimeProjections s)\<rparr>, ())))"

definition RuntimeExplorer :: "string \<Rightarrow> string \<Rightarrow> Store \<Rightarrow> RuntimeExplorerView res" where
  "RuntimeExplorer tenantID jobID s =
     lookup_or NotFound (mget (runtimeProjections s) (projectionKey tenantID jobID)) Inr"

record RuntimeOutboxStats =
  os_TenantID :: string
  os_Subscriber :: string
  os_Pending :: int
  os_OldestPending :: "time option"

record RuntimeProjectionStats =
  ps_TenantID :: string
  ps_Pending :: int
  ps_OldestPending :: "time option"
  ps_LastProjectedAt :: "time option"

text \<open>The loop over the receipts: how many are pending and when the oldest was created.\<close>

definition receipt_pending :: "string \<Rightarrow> string \<Rightarrow> runtimeOutboxReceipt \<Rightarrow> bool" where
  "receipt_pending tenantID subscriber r =
     (or_TenantID r = tenantID \<and> or_Subscriber r = subscriber \<and> or_DeliveredAt r = None)"

fun pending_loop ::
    "string \<Rightarrow> string \<Rightarrow> int \<times> time option \<Rightarrow> runtimeOutboxReceipt list \<Rightarrow> int \<times> time option" where
  "pending_loop tenantID subscriber acc [] = acc"
| "pending_loop tenantID subscriber (n, oldest) (r # rs) =
     (if receipt_pending tenantID subscriber r
      then pending_loop tenantID subscriber
             (n + 1, case oldest of None \<Rightarrow> Some (or_CreatedAt r)
                     | Some t \<Rightarrow> if or_CreatedAt r < t then Some (or_CreatedAt r) else Some t) rs
      else pending_loop tenantID subscriber (n, oldest) rs)"

fun projected_loop :: "string \<Rightarrow> time option \<Rightarrow> RuntimeExplorerView list \<Rightarrow> time option" where
  "projected_loop tenantID latest [] = latest"
| "projected_loop tenantID latest (v # vs) =
     projected_loop tenantID
       (if rv_TenantID v = tenantID \<and> (case latest of None \<Rightarrow> True | Some t \<Rightarrow> rv_ProjectedAt v > t)
        then Some (rv_ProjectedAt v) else latest) vs"

definition RuntimeProjectionStats_of :: "string \<Rightarrow> Store \<Rightarrow> RuntimeProjectionStats" where
  "RuntimeProjectionStats_of tenantID s =
     (let (n, oldest) = pending_loop tenantID RuntimeOutboxSubscriberProjection (0, None)
            (mvals (runtimeOutboxReceipts s))
      in \<lparr>ps_TenantID = tenantID, ps_Pending = n, ps_OldestPending = oldest,
          ps_LastProjectedAt = projected_loop tenantID None (mvals (runtimeProjections s))\<rparr>)"

definition RuntimeOutboxStats_of :: "string \<Rightarrow> string \<Rightarrow> Store \<Rightarrow> RuntimeOutboxStats res" where
  "RuntimeOutboxStats_of tenantID subscriber s =
     (if blank subscriber then Inl (Invalid ''OUTBOX_SUBSCRIBER_REQUIRED'')
      else let (n, oldest) = pending_loop tenantID (TrimSpace subscriber) (0, None)
                 (mvals (runtimeOutboxReceipts s))
           in Inr \<lparr>os_TenantID = tenantID, os_Subscriber = TrimSpace subscriber, os_Pending = n,
                   os_OldestPending = oldest\<rparr>)"

abbreviation runtimeMaintenanceKey :: "string \<Rightarrow> string \<Rightarrow> string" where
  "runtimeMaintenanceKey \<equiv> runtimePlanKey"

definition SaveRuntimeMaintenanceHeartbeat :: "RuntimeMaintenanceHeartbeat \<Rightarrow> Store \<Rightarrow> unit cmd" where
  "SaveRuntimeMaintenanceHeartbeat h s =
     check_nil (RuntimeMaintenanceHeartbeat_Validate h) (
     let key = runtimeMaintenanceKey (mh_TenantID h) (mh_Kind h) in
     case mget (runtimeMaintenance s) key of
       Some previous \<Rightarrow>
         if mh_UpdatedAt h < mh_UpdatedAt previous then Inr (s, ())
         else let h' = h\<lparr>mh_LastSuccessAt := (if mh_LastSuccessAt h = None then mh_LastSuccessAt previous
                                               else mh_LastSuccessAt h),
                         mh_Version := mh_Version previous + 1\<rparr>
              in Inr (s\<lparr>runtimeMaintenance := mput key h' (runtimeMaintenance s)\<rparr>, ())
     | None \<Rightarrow> Inr (s\<lparr>runtimeMaintenance := mput key (h\<lparr>mh_Version := 1\<rparr>) (runtimeMaintenance s)\<rparr>, ()))"

definition Store_RuntimeMaintenanceHeartbeat ::
    "string \<Rightarrow> string \<Rightarrow> Store \<Rightarrow> RuntimeMaintenanceHeartbeat res" where
  "Store_RuntimeMaintenanceHeartbeat tenantID kind s =
     lookup_or NotFound (mget (runtimeMaintenance s) (runtimeMaintenanceKey tenantID kind)) Inr"

definition sortedProjectionNodes :: "NodeRun list \<Rightarrow> NodeRun list" where
  "sortedProjectionNodes nodes = sort_by (\<lambda>a b. nr_NodeKey a < nr_NodeKey b) nodes"

subsection \<open>Projection rebuilds (runtime_projection_rebuild.go)\<close>

definition rebuild_key :: "RuntimeProjectionRebuildRun \<Rightarrow> string" where
  "rebuild_key r = runtimePlanKey (pr_TenantID r) (pr_ID r)"

definition CreateRuntimeProjectionRebuild :: "RuntimeProjectionRebuildRun \<Rightarrow> Store \<Rightarrow> unit cmd" where
  "CreateRuntimeProjectionRebuild r s =
     check_nil (RuntimeProjectionRebuildRun_Validate r) (
     require (mget (runtimeProjectionRebuilds s) (rebuild_key r) = None)
       (Conflict ''RUNTIME_PROJECTION_REBUILD_EXISTS'') (
     Inr (s\<lparr>runtimeProjectionRebuilds := mput (rebuild_key r) r (runtimeProjectionRebuilds s)\<rparr>, ())))"

definition UpdateRuntimeProjectionRebuild ::
    "RuntimeProjectionRebuildRun \<Rightarrow> int \<Rightarrow> Store \<Rightarrow> unit cmd" where
  "UpdateRuntimeProjectionRebuild r expectedVersion s =
     check_nil (RuntimeProjectionRebuildRun_Validate r) (
     lookup_or NotFound (mget (runtimeProjectionRebuilds s) (rebuild_key r)) (\<lambda>current.
     require (\<not> (pr_Version current \<noteq> expectedVersion \<or> pr_Version r \<noteq> expectedVersion + 1))
       (Conflict ''RUNTIME_PROJECTION_REBUILD_VERSION_CONFLICT'') (
     Inr (s\<lparr>runtimeProjectionRebuilds := mput (rebuild_key r) r (runtimeProjectionRebuilds s)\<rparr>, ()))))"

definition RuntimeProjectionRebuilds :: "string \<Rightarrow> string \<Rightarrow> Store \<Rightarrow> RuntimeProjectionRebuildRun list" where
  "RuntimeProjectionRebuilds tenantID jobID s =
     sort_by (\<lambda>a b. pr_StartedAt a > pr_StartedAt b)
       (filter (\<lambda>r. pr_TenantID r = tenantID \<and> (jobID = '''' \<or> pr_JobRunID r = jobID))
         (mvals (runtimeProjectionRebuilds s)))"

subsection \<open>Listings (runtime.go, runtime_resources.go)\<close>

definition ContextViews :: "string \<Rightarrow> string \<Rightarrow> Store \<Rightarrow> ContextView list" where
  "ContextViews tenantID jobID s =
     sort_by (\<lambda>a b. if cv_CreatedAt a = cv_CreatedAt b then cv_ID a < cv_ID b
                     else cv_CreatedAt a < cv_CreatedAt b)
       (filter (\<lambda>v. cv_TenantID v = tenantID \<and> (jobID = '''' \<or> cv_JobRunID v = jobID))
         (mvals (runtimeContextViews s)))"

definition AgentInstances :: "string \<Rightarrow> string \<Rightarrow> Store \<Rightarrow> AgentInstance list" where
  "AgentInstances tenantID jobID s =
     sort_by (\<lambda>a b. if ai_CreatedAt a = ai_CreatedAt b then ai_ID a < ai_ID b
                     else ai_CreatedAt a < ai_CreatedAt b)
       (filter (\<lambda>a. ai_TenantID a = tenantID \<and> (jobID = '''' \<or> ai_JobRunID a = jobID))
         (mvals (runtimeAgents s)))"

definition Store_RuntimeState :: "string \<Rightarrow> string \<Rightarrow> string \<Rightarrow> Store \<Rightarrow> RuntimeState res" where
  "Store_RuntimeState tenantID jobID collection s =
     lookup_or NotFound (mget (runtimeStates s) (runtimeStateKey tenantID jobID collection)) Inr"

definition CheckpointsPage ::
    "string \<Rightarrow> string \<Rightarrow> int \<Rightarrow> int \<Rightarrow> Store \<Rightarrow> (Checkpoint list \<times> bool) res" where
  "CheckpointsPage tenantID jobID after limit s =
     memoryRuntimePage
       (sort_by (\<lambda>a b. if cp_CreatedAt a = cp_CreatedAt b then cp_ID a > cp_ID b
                       else cp_CreatedAt a > cp_CreatedAt b)
         (filter (\<lambda>c. cp_TenantID c = tenantID \<and> cp_JobRunID c = jobID) (mvals (runtimeCheckpoints s))))
       after limit"

definition EffectByExternalID :: "string \<Rightarrow> string \<Rightarrow> string \<Rightarrow> Store \<Rightarrow> ExternalEffect res" where
  "EffectByExternalID tenantID providerID externalID s =
     lookup_or NotFound
       (find (\<lambda>e. ee_TenantID e = tenantID \<and> ee_ExternalID e = externalID
               \<and> (providerID = '''' \<or> ee_Kind e = providerID
                  \<or> mget (ee_SafeSummary e) ''provider_id'' = Some (AStr providerID)))
         (mvals (runtimeEffects s))) Inr"

definition EffectsPage ::
    "string \<Rightarrow> string \<Rightarrow> int \<Rightarrow> int \<Rightarrow> Store \<Rightarrow> (ExternalEffect list \<times> bool) res" where
  "EffectsPage tenantID jobID after limit s =
     memoryRuntimePage
       (sort_by (\<lambda>a b. if ee_CreatedAt a = ee_CreatedAt b then ee_ID a < ee_ID b
                       else ee_CreatedAt a < ee_CreatedAt b)
         (filter (\<lambda>e. ee_TenantID e = tenantID \<and> ee_JobRunID e = jobID) (mvals (runtimeEffects s))))
       after limit"

definition ResourceQuotas :: "string \<Rightarrow> Store \<Rightarrow> ResourceQuota list" where
  "ResourceQuotas tenantID s =
     sort_by (\<lambda>a b. rq_ResourceKey a < rq_ResourceKey b)
       (filter (\<lambda>q. rq_TenantID q = tenantID) (mvals (runtimeResourceQuotas s)))"

definition ResourceReservations :: "string \<Rightarrow> string \<Rightarrow> Store \<Rightarrow> ResourceReservation list" where
  "ResourceReservations tenantID jobID s =
     sort_by (\<lambda>a b. if rr_CreatedAt a = rr_CreatedAt b then rr_ID a < rr_ID b
                     else rr_CreatedAt a < rr_CreatedAt b)
       (filter (\<lambda>r. rr_TenantID r = tenantID \<and> (jobID = '''' \<or> rr_JobRunID r = jobID))
         (mvals (runtimeReservations s)))"

subsection \<open>Writes as steps\<close>

inductive registry_step :: "Store \<Rightarrow> Store \<Rightarrow> bool" where
  create_schema: "CreateRuntimeSchema c s = Inr (s', u) \<Longrightarrow> registry_step s s'"
| publish_schema: "PublishRuntimeSchema c x s = Inr (s', v) \<Longrightarrow> registry_step s s'"
| retire_schema: "RetireRuntimeSchema c x s = Inr (s', v) \<Longrightarrow> registry_step s s'"
| create_binding: "CreateExecutionBindingSnapshot hash b s = Inr (s', u) \<Longrightarrow> registry_step s s'"
| create_cleanup: "CreateRuntimeCleanupDiagnostic d s = Inr (s', u) \<Longrightarrow> registry_step s s'"
| update_cleanup: "UpdateRuntimeCleanupDiagnostic d x s = Inr (s', u) \<Longrightarrow> registry_step s s'"
| save_explorer: "SaveRuntimeExplorer view s = Inr (s', u) \<Longrightarrow> registry_step s s'"
| save_heartbeat: "SaveRuntimeMaintenanceHeartbeat h s = Inr (s', u) \<Longrightarrow> registry_step s s'"
| create_rebuild: "CreateRuntimeProjectionRebuild r s = Inr (s', u) \<Longrightarrow> registry_step s s'"
| update_rebuild: "UpdateRuntimeProjectionRebuild r x s = Inr (s', u) \<Longrightarrow> registry_step s s'"

lemma transitionRuntimeSchema_ok:
  assumes "transitionRuntimeSchema n x a b s = Inr (s', v)"
  shows "v = n" "RuntimeSchema_Validate n = None"
    "\<exists>c. mget (runtimeSchemas s) (schema_key n) = Some c \<and> sch_Version c = x \<and> sch_Status c = a"
    "sch_Version n = x + 1" "sch_Status n = b"
    "s' = s\<lparr>runtimeSchemas := mput (schema_key n) n (runtimeSchemas s)\<rparr>"
  using assms unfolding transitionRuntimeSchema_def by auto

lemma UpdateRuntimeCleanupDiagnostic_ok:
  assumes "UpdateRuntimeCleanupDiagnostic d x s = Inr (s', u)"
  shows "\<exists>c. mget (runtimeCleanupDiagnostics s) (cleanup_key d) = Some c \<and> cd_Version c = x
      \<and> RuntimeCleanupDiagnostic_ValidateTransition d c = None"
    "cd_Version d = x + 1"
    "s' = s\<lparr>runtimeCleanupDiagnostics := mput (cleanup_key d) d (runtimeCleanupDiagnostics s)\<rparr>"
  using assms unfolding UpdateRuntimeCleanupDiagnostic_def by auto

text \<open>What a registry write does to the store: the tables it may change, all others kept.\<close>

lemma registry_step_cases:
  assumes "registry_step s s'"
  obtains
    (schema_new) c where "mget (runtimeSchemas s) (schema_key c) = None" "RuntimeSchema_Validate c = None"
      "s' = s\<lparr>runtimeSchemas := mput (schema_key c) c (runtimeSchemas s)\<rparr>"
  | (schema_next) c n where "mget (runtimeSchemas s) (schema_key n) = Some c"
      "sch_Version n = sch_Version c + 1" "RuntimeSchema_Validate n = None"
      "(sch_Status c, sch_Status n) \<in> {(''draft'', ''published''), (''published'', ''retired'')}"
      "s' = s\<lparr>runtimeSchemas := mput (schema_key n) n (runtimeSchemas s)\<rparr>"
  | (cleanup_new) d where "RuntimeCleanupDiagnostic_Validate d = None"
      "mget (runtimeCleanupDiagnostics s) (cleanup_key d) = None"
      "\<forall>x \<in> set (mvals (runtimeCleanupDiagnostics s)).
         \<not> (cd_TenantID x = cd_TenantID d \<and> cd_ObjectKey x = cd_ObjectKey d)"
      "s' = s\<lparr>runtimeCleanupDiagnostics := mput (cleanup_key d) d (runtimeCleanupDiagnostics s)\<rparr>"
  | (cleanup_next) d c where "mget (runtimeCleanupDiagnostics s) (cleanup_key d) = Some c"
      "cd_Version d = cd_Version c + 1" "RuntimeCleanupDiagnostic_ValidateTransition d c = None"
      "s' = s\<lparr>runtimeCleanupDiagnostics := mput (cleanup_key d) d (runtimeCleanupDiagnostics s)\<rparr>"
  | (projection) v where
      "\<forall>p. mget (runtimeProjections s) (projectionKey (rv_TenantID v) (rv_JobRunID v)) = Some p
         \<longrightarrow> rv_LastEventSeq p \<le> rv_LastEventSeq v"
      "s' = s\<lparr>runtimeProjections :=
         mput (projectionKey (rv_TenantID v) (rv_JobRunID v)) v (runtimeProjections s)\<rparr>"
  | (other) b m r where "s' = s\<lparr>runtimeExecutionBindings := b, runtimeMaintenance := m,
         runtimeProjectionRebuilds := r\<rparr>"
  using assms
proof cases
  case (create_schema c u)
  then show ?thesis using schema_new unfolding CreateRuntimeSchema_def by auto
next
  case (publish_schema n x v)
  note t = transitionRuntimeSchema_ok [OF publish_schema [unfolded PublishRuntimeSchema_def]]
  from t(3) obtain c where "mget (runtimeSchemas s) (schema_key n) = Some c" "sch_Version c = x"
    "sch_Status c = ''draft''" by (elim exE conjE)
  then show ?thesis using schema_next [of n c] t by simp
next
  case (retire_schema n x v)
  note t = transitionRuntimeSchema_ok [OF retire_schema [unfolded RetireRuntimeSchema_def]]
  from t(3) obtain c where "mget (runtimeSchemas s) (schema_key n) = Some c" "sch_Version c = x"
    "sch_Status c = ''published''" by (elim exE conjE)
  then show ?thesis using schema_next [of n c] t by simp
next
  case (create_binding hash b u)
  then show ?thesis using other [where m = "runtimeMaintenance s" and r = "runtimeProjectionRebuilds s"]
    unfolding CreateExecutionBindingSnapshot_def Let_def by auto
next
  case (create_cleanup d u)
  then show ?thesis using cleanup_new unfolding CreateRuntimeCleanupDiagnostic_def
    by (auto simp: list_ex_iff)
next
  case (update_cleanup d x u)
  note t = UpdateRuntimeCleanupDiagnostic_ok [OF update_cleanup]
  from t(1) obtain c where "mget (runtimeCleanupDiagnostics s) (cleanup_key d) = Some c" "cd_Version c = x"
    "RuntimeCleanupDiagnostic_ValidateTransition d c = None" by (elim exE conjE)
  then show ?thesis using cleanup_next [of d c] t by simp
next
  case (save_explorer v u)
  then show ?thesis using projection [of v] unfolding SaveRuntimeExplorer_def Let_def
    by (auto split: option.splits)
next
  case (save_heartbeat h u)
  have "\<exists>m. s' = s\<lparr>runtimeMaintenance := m\<rparr>"
    using save_heartbeat unfolding SaveRuntimeMaintenanceHeartbeat_def Let_def
    by (auto split: option.splits if_splits intro: exI [of _ "runtimeMaintenance s"])
  then show ?thesis using other [where b = "runtimeExecutionBindings s" and r = "runtimeProjectionRebuilds s"] by auto
next
  case (create_rebuild r u)
  then show ?thesis using other [where b = "runtimeExecutionBindings s" and m = "runtimeMaintenance s"]
    unfolding CreateRuntimeProjectionRebuild_def by auto
next
  case (update_rebuild r x u)
  then show ?thesis using other [where b = "runtimeExecutionBindings s" and m = "runtimeMaintenance s"]
    unfolding UpdateRuntimeProjectionRebuild_def by auto
qed

subsection \<open>Schemas only move forward\<close>

definition schema_transition :: "string \<Rightarrow> string \<Rightarrow> fault option" where
  "schema_transition a b =
     (if (a, b) \<in> {(''draft'', ''published''), (''published'', ''retired'')} then None
      else Some (Conflict ''RUNTIME_SCHEMA_VERSION_CONFLICT''))"

lemma schema_step_keeps:
  assumes "registry_step s s'" and "mget (runtimeSchemas s) k = Some c"
  shows "\<exists>c'. mget (runtimeSchemas s') k = Some c'
    \<and> (c' = c \<or> sch_Version c' = sch_Version c + 1 \<and> schema_transition (sch_Status c) (sch_Status c') = None)"
  using assms(1)
proof (cases rule: registry_step_cases)
  case (schema_new c1)
  then show ?thesis using assms(2) by auto
next
  case (schema_next c1 n)
  then show ?thesis using assms(2) by (auto simp: schema_transition_def)
qed (use assms(2) in auto)

lemma schema_table:
  "registry_step s s' \<Longrightarrow> mget (runtimeSchemas s) k = Some c \<Longrightarrow>
   \<exists>c'. mget (runtimeSchemas s') k = Some c' \<and> sch_Version c \<le> sch_Version c'
     \<and> (\<lambda>a b. schema_transition a b = None)\<^sup>*\<^sup>* (sch_Status c) (sch_Status c')"
  using schema_step_keeps [of s s' k c] by fastforce

interpretation publish: cas_machine "\<lambda>s. mget (runtimeSchemas s)" schema_key sch_Version sch_Status
  schema_transition "\<lambda>n x (e :: unit). PublishRuntimeSchema n x" registry_step
  "\<lambda>a. a \<in> {''draft'', ''published'', ''retired''}" "\<lambda>a. a = ''retired''"
proof unfold_locales
  fix n x s s' v assume "PublishRuntimeSchema n x s = Inr (s', v)"
  from transitionRuntimeSchema_ok [OF this [unfolded PublishRuntimeSchema_def]]
  show "v = n \<and> (\<exists>c. mget (runtimeSchemas s) (schema_key n) = Some c \<and> sch_Version c = x
      \<and> schema_transition (sch_Status c) (sch_Status n) = None) \<and> sch_Version n = x + 1
    \<and> (\<forall>k. mget (runtimeSchemas s') k = (if k = schema_key n then Some n else mget (runtimeSchemas s) k))"
    by (auto simp: schema_transition_def)
qed (rule schema_table, auto simp: schema_transition_def split: if_splits)

interpretation retire: cas_table "\<lambda>s. mget (runtimeSchemas s)" schema_key sch_Version sch_Status
  schema_transition "\<lambda>n x (e :: unit). RetireRuntimeSchema n x" registry_step
proof unfold_locales
  fix n x s s' v assume "RetireRuntimeSchema n x s = Inr (s', v)"
  from transitionRuntimeSchema_ok [OF this [unfolded RetireRuntimeSchema_def]]
  show "v = n \<and> (\<exists>c. mget (runtimeSchemas s) (schema_key n) = Some c \<and> sch_Version c = x
      \<and> schema_transition (sch_Status c) (sch_Status n) = None) \<and> sch_Version n = x + 1
    \<and> (\<forall>k. mget (runtimeSchemas s') k = (if k = schema_key n then Some n else mget (runtimeSchemas s) k))"
    by (auto simp: schema_transition_def)
qed (rule schema_table)

subsection \<open>Cleanup diagnostics\<close>

definition cleanup_transition :: "cleanup_status \<Rightarrow> cleanup_status \<Rightarrow> fault option" where
  "cleanup_transition a b =
     (if cleanup_valid_step a b then None
      else Some (Conflict ''RUNTIME_CLEANUP_DIAGNOSTIC_TRANSITION_INVALID''))"

fun cleanup_terminal :: "cleanup_status \<Rightarrow> bool" where
  "cleanup_terminal RuntimeCleanupCleaned = True"
| "cleanup_terminal RuntimeCleanupNotFound = True"
| "cleanup_terminal _ = False"

fun cleanup_valid :: "cleanup_status \<Rightarrow> bool" where
  "cleanup_valid (CleanupStatus _) = False"
| "cleanup_valid _ = True"

lemma cleanup_ValidateTransition_ok:
  assumes "RuntimeCleanupDiagnostic_ValidateTransition d c = None"
  shows "cleanup_transition (cd_Status c) (cd_Status d) = None" "cd_TenantID d = cd_TenantID c"
    "cd_ObjectKey d = cd_ObjectKey c" "cd_ID d = cd_ID c"
  using assms unfolding RuntimeCleanupDiagnostic_ValidateTransition_def validate_simps
  by (simp_all add: cleanup_transition_def)

lemma cleanup_step_keeps:
  assumes "registry_step s s'" and "mget (runtimeCleanupDiagnostics s) k = Some c"
  shows "\<exists>c'. mget (runtimeCleanupDiagnostics s') k = Some c' \<and> cd_Version c \<le> cd_Version c'
    \<and> (\<lambda>a b. cleanup_transition a b = None)\<^sup>*\<^sup>* (cd_Status c) (cd_Status c')"
  using assms(1)
proof (cases rule: registry_step_cases)
  case (cleanup_new d)
  then show ?thesis using assms(2) by (intro exI [of _ c]) auto
next
  case (cleanup_next d c1)
  show ?thesis
  proof (cases "k = cleanup_key d")
    case True
    then show ?thesis
      using cleanup_next assms(2) cleanup_ValidateTransition_ok(1) [OF cleanup_next(3)]
      by (intro exI [of _ d]) auto
  next
    case False
    then show ?thesis using cleanup_next assms(2) by (intro exI [of _ c]) auto
  qed
qed (use assms(2) in auto)

interpretation cleanup: cas_machine "\<lambda>s. mget (runtimeCleanupDiagnostics s)" cleanup_key cd_Version
  cd_Status cleanup_transition
  "\<lambda>d x (e :: unit) s. map_sum id (\<lambda>(s', _). (s', d)) (UpdateRuntimeCleanupDiagnostic d x s)"
  registry_step cleanup_valid cleanup_terminal
proof unfold_locales
  fix n x s s' v
  assume "map_sum id (\<lambda>(s', _). (s', n)) (UpdateRuntimeCleanupDiagnostic n x s) = Inr (s', v)"
  then obtain u where u: "UpdateRuntimeCleanupDiagnostic n x s = Inr (s', u)" and v: "v = n"
    by (cases "UpdateRuntimeCleanupDiagnostic n x s") auto
  note t = UpdateRuntimeCleanupDiagnostic_ok [OF u]
  then show "v = n \<and> (\<exists>c. mget (runtimeCleanupDiagnostics s) (cleanup_key n) = Some c
      \<and> cd_Version c = x \<and> cleanup_transition (cd_Status c) (cd_Status n) = None) \<and> cd_Version n = x + 1
    \<and> (\<forall>k. mget (runtimeCleanupDiagnostics s') k =
         (if k = cleanup_key n then Some n else mget (runtimeCleanupDiagnostics s) k))"
    using v cleanup_ValidateTransition_ok(1) by auto
next
  fix s s' k c assume "registry_step s s'" "mget (runtimeCleanupDiagnostics s) k = Some c"
  then show "\<exists>c'. mget (runtimeCleanupDiagnostics s') k = Some c' \<and> cd_Version c \<le> cd_Version c'
      \<and> (\<lambda>a b. cleanup_transition a b = None)\<^sup>*\<^sup>* (cd_Status c) (cd_Status c')"
    by (rule cleanup_step_keeps)
next
  fix a b assume "cleanup_transition a b = None"
  then show "cleanup_valid b" by (auto simp: cleanup_transition_def cleanup_valid_step_def split: if_splits)
next
  fix a b assume "cleanup_terminal a" "cleanup_transition a b = None"
  then show "b = a" by (auto simp: cleanup_transition_def cleanup_valid_step_def split: if_splits)
qed

text \<open>One diagnostic per blob.\<close>

definition cleanup_unique :: "Store \<Rightarrow> bool" where
  "cleanup_unique s =
     (\<forall>k1 k2 c1 c2. mget (runtimeCleanupDiagnostics s) k1 = Some c1 \<longrightarrow>
        mget (runtimeCleanupDiagnostics s) k2 = Some c2 \<longrightarrow> cd_TenantID c1 = cd_TenantID c2 \<longrightarrow>
        cd_ObjectKey c1 = cd_ObjectKey c2 \<longrightarrow> k1 = k2)"

lemma cleanup_unique_put:
  assumes "cleanup_unique s"
    and "\<forall>k c. mget (runtimeCleanupDiagnostics s) k = Some c \<longrightarrow> cd_TenantID c = cd_TenantID d \<longrightarrow>
           cd_ObjectKey c = cd_ObjectKey d \<longrightarrow> k = k0"
  shows "cleanup_unique (s\<lparr>runtimeCleanupDiagnostics := mput k0 d (runtimeCleanupDiagnostics s)\<rparr>)"
proof -
  have old: "mget (runtimeCleanupDiagnostics s) k1 = Some c1 \<Longrightarrow> mget (runtimeCleanupDiagnostics s) k2 = Some c2
    \<Longrightarrow> cd_TenantID c1 = cd_TenantID c2 \<Longrightarrow> cd_ObjectKey c1 = cd_ObjectKey c2 \<Longrightarrow> k1 = k2" for k1 k2 c1 c2
    by (rule assms(1) [unfolded cleanup_unique_def, rule_format])
  have new: "mget (runtimeCleanupDiagnostics s) k = Some c \<Longrightarrow> cd_TenantID c = cd_TenantID d \<Longrightarrow>
    cd_ObjectKey c = cd_ObjectKey d \<Longrightarrow> k = k0" for k c
    by (rule assms(2) [rule_format])
  show ?thesis
    unfolding cleanup_unique_def
  proof (intro allI impI)
    fix k1 k2 c1 c2
    let ?m = "runtimeCleanupDiagnostics (s\<lparr>runtimeCleanupDiagnostics := mput k0 d (runtimeCleanupDiagnostics s)\<rparr>)"
    assume h: "mget ?m k1 = Some c1" "mget ?m k2 = Some c2" "cd_TenantID c1 = cd_TenantID c2"
      "cd_ObjectKey c1 = cd_ObjectKey c2"
    show "k1 = k2"
    proof (cases "k1 = k0")
      case True
      then have "c1 = d" using h(1) by simp
      then show ?thesis using True h new [of k2 c2] by (cases "k2 = k0") simp_all
    next
      case False
      then have m1: "mget (runtimeCleanupDiagnostics s) k1 = Some c1" using h(1) by simp
      show ?thesis
      proof (cases "k2 = k0")
        case True
        then have "c2 = d" using h(2) by simp
        then show ?thesis using True h(3,4) new [OF m1] by simp
      next
        case False
        then show ?thesis using old [OF m1 _ h(3,4)] h(2) by simp
      qed
    qed
  qed
qed

lemma cleanup_unique_step:
  assumes "registry_step s s'" and "cleanup_unique s" shows "cleanup_unique s'"
  using assms(1)
proof (cases rule: registry_step_cases)
  case (cleanup_new d)
  show ?thesis unfolding cleanup_new(4)
  proof (rule cleanup_unique_put [OF assms(2)], intro allI impI)
    fix k c assume c: "mget (runtimeCleanupDiagnostics s) k = Some c"
      "cd_TenantID c = cd_TenantID d" "cd_ObjectKey c = cd_ObjectKey d"
    from bspec [OF cleanup_new(3) mget_vals [OF c(1)]] c(2,3) show "k = cleanup_key d" by simp
  qed
next
  case (cleanup_next d c)
  note same = cleanup_ValidateTransition_ok [OF cleanup_next(3)]
  have "k = cleanup_key d" if "mget (runtimeCleanupDiagnostics s) k = Some c1"
    "cd_TenantID c1 = cd_TenantID d" "cd_ObjectKey c1 = cd_ObjectKey d" for k c1
    using assms(2) [unfolded cleanup_unique_def, rule_format, OF that(1) cleanup_next(1)] that(2,3) same(2,3)
    by simp
  then show ?thesis unfolding cleanup_next(4)
    by (intro cleanup_unique_put [OF assms(2)] allI impI)
qed (use assms(2) in \<open>simp_all add: cleanup_unique_def\<close>)

subsection \<open>Projections\<close>

lemma projection_step_keeps:
  assumes "registry_step s s'" and "mget (runtimeProjections s) k = Some p"
  shows "\<exists>p'. mget (runtimeProjections s') k = Some p' \<and> rv_LastEventSeq p \<le> rv_LastEventSeq p'"
  using assms(1)
proof (cases rule: registry_step_cases)
  case (projection v)
  then show ?thesis using assms(2) by auto
qed (use assms(2) in auto)

subsection \<open>Statistics\<close>

definition pending_of :: "string \<Rightarrow> string \<Rightarrow> Store \<Rightarrow> runtimeOutboxReceipt list" where
  "pending_of tenantID subscriber s = filter (receipt_pending tenantID subscriber) (mvals (runtimeOutboxReceipts s))"

definition oldest :: "time list \<Rightarrow> time option" where
  "oldest ts = (if ts = [] then None else Some (Min (set ts)))"

lemma pending_loop_exact:
  "pending_loop t sub (n, old) rs =
     (n + int (length (filter (receipt_pending t sub) rs)),
      oldest (case_option [] (\<lambda>x. [x]) old @ map or_CreatedAt (filter (receipt_pending t sub) rs)))"
proof (induction rs arbitrary: n old)
  case (Cons r rs)
  show ?case
  proof (cases "receipt_pending t sub r")
    case True
    show ?thesis
    proof (cases old)
      case None
      then show ?thesis using True Cons by simp
    next
      case (Some x)
      let ?T = "set (map or_CreatedAt (filter (receipt_pending t sub) rs))"
      have "Min (insert (if or_CreatedAt r < x then or_CreatedAt r else x) ?T)
          = Min (insert x (insert (or_CreatedAt r) ?T))"
        by (cases "?T = {}") (auto simp: min_def)
      then show ?thesis
        using True Cons Some by (cases "or_CreatedAt r < x") (simp_all add: oldest_def)
    qed
  qed (use Cons in simp)
qed (simp add: oldest_def split: option.split)

text \<open>
  The outbox statistics a monitor reads are exact: the number of pending deliveries is the
  number of receipts of this tenant and subscriber that are not delivered, and the age reported
  is the creation time of the oldest of them, absent exactly when nothing is pending.
\<close>

theorem outbox_stats_exact:
  assumes "TrimSpace subscriber \<noteq> ''''"
  shows "\<exists>stats. RuntimeOutboxStats_of tenantID subscriber s = Inr stats
    \<and> os_Pending stats = int (length (pending_of tenantID (TrimSpace subscriber) s))
    \<and> os_OldestPending stats = oldest (map or_CreatedAt (pending_of tenantID (TrimSpace subscriber) s))"
  using assms by (simp add: RuntimeOutboxStats_of_def pending_loop_exact pending_of_def)

theorem outbox_stats_exact_witness:
  "\<exists>stats. RuntimeOutboxStats_of ''t'' RuntimeOutboxSubscriberProjection ex_store = Inr stats
    \<and> os_Pending stats = 1 \<and> os_OldestPending stats = Some 1"
proof -
  have b: "TrimSpace RuntimeOutboxSubscriberProjection = RuntimeOutboxSubscriberProjection" by code_simp
  have p: "map or_CreatedAt (pending_of ''t'' RuntimeOutboxSubscriberProjection ex_store) = [1]" by code_simp
  then have l: "length (pending_of ''t'' RuntimeOutboxSubscriberProjection ex_store) = 1"
    by (metis length_map length_Cons list.size(3) One_nat_def)
  show ?thesis
    using outbox_stats_exact [of RuntimeOutboxSubscriberProjection "''t''" ex_store]
    unfolding b p l by (simp add: oldest_def RuntimeOutboxSubscriberProjection_def)
qed

end
