(* ===== verification/Fanout_Store.thy ===== *)
theory Fanout_Store
  imports Commands
begin

section \<open>Fan-out sets in the store\<close>

text \<open>
  The store side of fan-out sets (\<^verbatim>\<open>internal/persistence/memory/runtime_fanout.go\<close>): creating a
  frozen membership with one child node per item, and joining the set when its members progress.

  \<open>ApplyFanoutJoinCommand\<close> writes the members and cancels nodes while it still checks, so a fault
  leaves those writes behind. Its result is therefore \<open>Store \<times> (fault + FanoutSet)\<close>: the store in
  the first component is what the fault leaves.
\<close>

subsection \<open>Keys and reads (runtime_fanout.go)\<close>

abbreviation runtimeFanoutKey :: "string \<Rightarrow> string \<Rightarrow> string" where
  "runtimeFanoutKey \<equiv> runtimePlanKey"

definition runtimeFanoutMemberKey :: "string \<Rightarrow> string \<Rightarrow> string \<Rightarrow> string" where
  "runtimeFanoutMemberKey tenantID setID memberKey = tenantID @ '':'' @ setID @ '':'' @ memberKey"

definition set_key :: "FanoutSet \<Rightarrow> string" where
  "set_key f = runtimeFanoutKey (fs_TenantID f) (fs_ID f)"

definition member_key :: "FanoutMember \<Rightarrow> string" where
  "member_key m = runtimeFanoutMemberKey (fm_TenantID m) (fm_FanoutSetID m) (fm_MemberKey m)"

definition Store_FanoutSet :: "string \<Rightarrow> string \<Rightarrow> Store \<Rightarrow> FanoutSet res" where
  "Store_FanoutSet tenantID i s =
     lookup_or NotFound (mget (runtimeFanoutSets s) (runtimeFanoutKey tenantID i)) Inr"

definition FanoutSetByIdempotencyKey :: "string \<Rightarrow> string \<Rightarrow> string \<Rightarrow> Store \<Rightarrow> FanoutSet res" where
  "FanoutSetByIdempotencyKey tenantID jobID key s =
     lookup_or NotFound
       (find (\<lambda>f. fs_TenantID f = tenantID \<and> fs_JobRunID f = jobID \<and> fs_IdempotencyKey f = key)
         (mvals (runtimeFanoutSets s))) Inr"

definition FanoutSets :: "string \<Rightarrow> string \<Rightarrow> Store \<Rightarrow> FanoutSet list" where
  "FanoutSets tenantID jobID s =
     sort_by (\<lambda>a b. if fs_CreatedAt a = fs_CreatedAt b then fs_ID a < fs_ID b
                     else fs_CreatedAt a < fs_CreatedAt b)
       (filter (\<lambda>f. fs_TenantID f = tenantID \<and> (jobID = '''' \<or> fs_JobRunID f = jobID))
         (mvals (runtimeFanoutSets s)))"

text \<open>A copied member has a non-nil list of outputs.\<close>

definition copy_member :: "FanoutMember \<Rightarrow> FanoutMember" where
  "copy_member m = m\<lparr>fm_OutputRefs := Some (case fm_OutputRefs m of None \<Rightarrow> [] | Some xs \<Rightarrow> xs)\<rparr>"

definition FanoutMembers :: "string \<Rightarrow> string \<Rightarrow> Store \<Rightarrow> FanoutMember list" where
  "FanoutMembers tenantID setID s =
     sort_by (\<lambda>a b. fm_MemberKey a < fm_MemberKey b)
       (map copy_member
         (filter (\<lambda>m. fm_TenantID m = tenantID \<and> fm_FanoutSetID m = setID)
           (mvals (runtimeFanoutMembers s))))"

subsection \<open>Creating a set (runtime_fanout.go)\<close>

fun create_members_check :: "FanoutSet \<Rightarrow> string list \<Rightarrow> FanoutMember list \<Rightarrow> fault option" where
  "create_members_check f seen [] = None"
| "create_members_check f seen (m # ms) =
     (case FanoutMember_Validate m of Some e \<Rightarrow> Some e | None \<Rightarrow>
       if fm_TenantID m \<noteq> fs_TenantID f \<or> fm_FanoutSetID m \<noteq> fs_ID f
          \<or> fm_Generation m \<noteq> fs_Generation f \<or> fm_MemberKey m \<in> set seen
       then Some (Invalid ''FANOUT_MEMBER_SCOPE_INVALID'')
       else create_members_check f (fm_MemberKey m # seen) ms)"

definition create_node_check :: "FanoutSet \<Rightarrow> Store \<Rightarrow> NodeRun \<Rightarrow> fault option" where
  "create_node_check f s n =
     (case NodeRun_Validate n of Some e \<Rightarrow> Some e | None \<Rightarrow>
       if nr_TenantID n \<noteq> fs_TenantID f \<or> nr_JobRunID n \<noteq> fs_JobRunID f
       then Some (Invalid ''NODE_RUN_SCOPE_INVALID'')
       else if mget (runtimeNodes s) (node_key n) \<noteq> None then Some (Conflict ''NODE_RUN_EXISTS'')
       else None)"

definition member_new_check :: "Store \<Rightarrow> FanoutMember \<Rightarrow> fault option" where
  "member_new_check s m =
     (if mget (runtimeFanoutMembers s) (member_key m) \<noteq> None
      then Some (Conflict ''FANOUT_MEMBER_EXISTS'') else None)"

definition same_fanout_request :: "FanoutSet \<Rightarrow> FanoutSet \<Rightarrow> bool" where
  "same_fanout_request f x =
     (fs_TenantID x = fs_TenantID f \<and> fs_JobRunID x = fs_JobRunID f \<and> fs_IdempotencyKey x = fs_IdempotencyKey f)"

definition CreateFanoutSetCommand ::
    "JobRun \<Rightarrow> int \<Rightarrow> JobPlanRevision \<Rightarrow> FanoutSet \<Rightarrow> FanoutMember list \<Rightarrow> NodeRun list \<Rightarrow> JobEvent
     \<Rightarrow> Store \<Rightarrow> JobRun cmd" where
  "CreateFanoutSetCommand nextJob expectedJobVersion plan f0 members nodes event s =
     (let f = f0\<lparr>fs_JoinPolicy := NormalizeJoinPolicy (fs_JoinPolicy f0)\<rparr> in
     check_nil (JobRun_Validate nextJob) (
     check_nil (JobPlanRevision_Validate plan) (
     check_nil (FanoutSet_Validate f) (
     require (\<not> ((fs_Status f \<noteq> FanoutOpen \<and> fs_Status f \<noteq> FanoutClosed)
                 \<or> fs_MemberCount f \<noteq> int (length members))) (Invalid ''FANOUT_SET_CREATE_INVALID'') (
     lookup_or NotFound (mget (runtimeJobs s) (job_key nextJob)) (\<lambda>currentJob.
     require (\<not> (jr_Version currentJob \<noteq> expectedJobVersion \<or> jr_Version nextJob \<noteq> expectedJobVersion + 1
                 \<or> jr_PlanRevisionID currentJob \<noteq> jp_BaseRevisionID plan
                 \<or> jr_PlanRevisionID nextJob \<noteq> jp_ID plan \<or> jr_PlanDigest nextJob \<noteq> jp_Digest plan))
       (Conflict ''GRAPH_VERSION_CONFLICT'') (
     let planKey = runtimePlanKey (jp_TenantID plan) (jp_ID plan) in
     require (mget (runtimePlans s) planKey = None) (Conflict ''JOB_PLAN_EXISTS'') (
     require (mget (runtimeFanoutSets s) (set_key f) = None) (Conflict ''FANOUT_SET_EXISTS'') (
     require (\<not> list_ex (same_fanout_request f) (mvals (runtimeFanoutSets s)))
       (Conflict ''FANOUT_SET_IDEMPOTENCY'') (
     require (\<not> (je_TenantID event \<noteq> fs_TenantID f \<or> je_JobRunID event \<noteq> fs_JobRunID f))
       (Invalid ''JOB_EVENT_SCOPE_INVALID'') (
     check_nil (validateRuntimeEventFields event) (
     check_nil (create_members_check f [] members) (
     check_nil (check_all (create_node_check f s) nodes) (
     check_nil (check_all (member_new_check s) members) (
     Inr (appendRuntimeEventLocked
       (s\<lparr>runtimePlans := mput planKey plan (runtimePlans s),
          runtimeJobs := mput (job_key nextJob) nextJob (runtimeJobs s),
          runtimeFanoutSets := mput (set_key f) f (runtimeFanoutSets s),
          runtimeFanoutMembers := mput_all member_key members (runtimeFanoutMembers s),
          runtimeNodes := mput_all node_key nodes (runtimeNodes s)\<rparr>) event, nextJob))))))))))))))))"

subsection \<open>Joining a set (runtime_fanout.go)\<close>

definition join_member_check :: "FanoutSet \<Rightarrow> Store \<Rightarrow> FanoutMember \<Rightarrow> fault option" where
  "join_member_check current s m =
     (case FanoutMember_Validate m of Some e \<Rightarrow> Some e | None \<Rightarrow>
       if fm_TenantID m \<noteq> fs_TenantID current \<or> fm_FanoutSetID m \<noteq> fs_ID current
       then Some (Invalid ''FANOUT_MEMBER_SCOPE_INVALID'')
       else case mget (runtimeFanoutMembers s) (member_key m) of
         None \<Rightarrow> Some NotFound
       | Some stored \<Rightarrow>
           if fm_Version m \<noteq> fm_Version stored \<and> fm_Version m \<noteq> fm_Version stored + 1
           then Some (Conflict ''FANOUT_MEMBER_VERSION_CONFLICT'') else None)"

definition cancel_hit :: "FanoutSet \<Rightarrow> string \<Rightarrow> FanoutMember \<Rightarrow> bool" where
  "cancel_hit current key m =
     (fm_TenantID m = fs_TenantID current \<and> fm_FanoutSetID m = fs_ID current \<and> fm_MemberKey m = key
      \<and> fm_State m = FanoutMemberPending)"

definition cancelled_node :: "time \<Rightarrow> NodeRun \<Rightarrow> NodeRun" where
  "cancelled_node at n =
     n\<lparr>nr_State := NodeCancelled, nr_Version := nr_Version n + 1, nr_UpdatedAt := at,
       nr_LeaseOwner := '''', nr_FenceToken := '''', nr_LeaseExpiresAt := None\<rparr>"

definition cancelled_member :: "time \<Rightarrow> FanoutMember \<Rightarrow> FanoutMember" where
  "cancelled_member at m =
     m\<lparr>fm_State := FanoutMemberCancelled, fm_Version := fm_Version m + 1, fm_UpdatedAt := at\<rparr>"

text \<open>The loop over the members for one key: it cancels node and member, or stops with a fault.\<close>

fun cancel_members ::
    "FanoutSet \<Rightarrow> time \<Rightarrow> string \<Rightarrow> FanoutMember gomap \<Rightarrow> bool \<Rightarrow> Store \<Rightarrow> Store \<times> bool res" where
  "cancel_members current at key [] found s = (s, Inr found)"
| "cancel_members current at key ((k, m) # rest) found s =
     (if cancel_hit current key m
      then (case mget (runtimeNodes s) (runtimeNodeKey (fm_TenantID m) (fm_NodeRunID m)) of
              None \<Rightarrow> (s, Inl NotFound)
            | Some node \<Rightarrow>
                if nr_State node \<noteq> NodePending \<and> nr_State node \<noteq> NodeReady
                then (s, Inl (Conflict ''FANOUT_CANCEL_CONFLICT''))
                else cancel_members current at key rest True
                  (s\<lparr>runtimeNodes := mput (node_key node) (cancelled_node at node) (runtimeNodes s),
                     runtimeFanoutMembers := mput k (cancelled_member at m) (runtimeFanoutMembers s)\<rparr>))
      else cancel_members current at key rest found s)"

fun cancel_loop :: "FanoutSet \<Rightarrow> time \<Rightarrow> string list \<Rightarrow> Store \<Rightarrow> Store \<times> unit res" where
  "cancel_loop current at [] s = (s, Inr ())"
| "cancel_loop current at (key # keys) s =
     (case cancel_members current at key (runtimeFanoutMembers s) False s of
        (s1, Inl e) \<Rightarrow> (s1, Inl e)
      | (s1, Inr found) \<Rightarrow> if found then cancel_loop current at keys s1 else (s1, Inl NotFound))"

text \<open>All checks that precede the first write.\<close>

definition join_checks ::
    "FanoutSet \<Rightarrow> int \<Rightarrow> FanoutMember list \<Rightarrow> JobEvent \<Rightarrow> Store \<Rightarrow> FanoutSet res" where
  "join_checks f expectedVersion members event s =
     check_nil (FanoutSet_Validate f) (
     lookup_or NotFound (mget (runtimeFanoutSets s) (set_key f)) (\<lambda>current.
     require (\<not> (fs_Version current \<noteq> expectedVersion \<or> fs_Version f \<noteq> expectedVersion + 1
                 \<or> fs_ID f \<noteq> fs_ID current \<or> fs_TenantID f \<noteq> fs_TenantID current))
       (Conflict ''FANOUT_SET_VERSION_CONFLICT'') (
     require (int (length members) = fs_MemberCount current) (Conflict ''FANOUT_MEMBER_COUNT_MISMATCH'') (
     require (\<not> (je_TenantID event \<noteq> fs_TenantID current \<or> je_JobRunID event \<noteq> fs_JobRunID current))
       (Invalid ''JOB_EVENT_SCOPE_INVALID'') (
     check_nil (validateCommandEvent s event) (
     check_nil (check_all (join_member_check current s) members) (
     Inr current)))))))"

definition ApplyFanoutJoinCommand ::
    "FanoutSet \<Rightarrow> int \<Rightarrow> FanoutMember list \<Rightarrow> string list \<Rightarrow> JobEvent \<Rightarrow> Store \<Rightarrow> Store \<times> FanoutSet res" where
  "ApplyFanoutJoinCommand f expectedVersion members cancelMemberKeys event s =
     (case join_checks f expectedVersion members event s of
        Inl e \<Rightarrow> (s, Inl e)
      | Inr current \<Rightarrow>
          let s1 = s\<lparr>runtimeFanoutMembers := mput_all member_key members (runtimeFanoutMembers s)\<rparr> in
          case cancel_loop current (je_OccurredAt event) cancelMemberKeys s1 of
            (s2, Inl e) \<Rightarrow> (s2, Inl e)
          | (s2, Inr _) \<Rightarrow>
              (appendRuntimeEventLocked
                 (s2\<lparr>runtimeFanoutSets := mput (set_key f) f (runtimeFanoutSets s2)\<rparr>) event, Inr f))"

end
