(* ===== verification/State_Tools.thy ===== *)
theory State_Tools
  imports Commands
begin

section \<open>State records and tool calls (internal/persistence/memory/runtime_state_tools.go)\<close>

text \<open>
  The shared-state collections of a job with their versioned records, and the ledger of tool
  calls. The length of \<^verbatim>\<open>json.Marshal(record.Value)\<close> is the parameter \<open>json_len\<close>. The fenced
  variants first check that the calling attempt still holds its fence.

  The lemmas show: a record is written only against the version that was read and the collection
  counts every write; an append-only collection never loses or changes a record; a collection
  never exceeds its record limit; a tool call is registered only for an active attempt and agent
  whose context view allows the tool, at most once per idempotency key; a finished call is frozen.
\<close>

subsection \<open>State records\<close>

abbreviation stateCollectionKey :: "string \<Rightarrow> string \<Rightarrow> string" where
  "stateCollectionKey \<equiv> runtimePlanKey"

definition stateRecordKey :: "string \<Rightarrow> string \<Rightarrow> string \<Rightarrow> string" where
  "stateRecordKey tenantID collectionID key = tenantID @ '':'' @ collectionID @ '':'' @ key"

abbreviation toolCallKey :: "string \<Rightarrow> string \<Rightarrow> string" where
  "toolCallKey \<equiv> runtimePlanKey"

definition collection_key :: "StateCollection \<Rightarrow> string" where
  "collection_key c = stateCollectionKey (sc_TenantID c) (sc_ID c)"

definition record_key :: "StateRecord \<Rightarrow> string" where
  "record_key r = stateRecordKey (sr_TenantID r) (sr_CollectionID r) (sr_Key r)"

definition tool_key :: "ToolCall \<Rightarrow> string" where
  "tool_key c = toolCallKey (tc_TenantID c) (tc_ID c)"

definition CreateStateCollection :: "StateCollection \<Rightarrow> Store \<Rightarrow> unit cmd" where
  "CreateStateCollection c s =
     check_nil (StateCollection_Validate c) (
     require (mget (runtimeStateCollections s) (collection_key c) = None) (Conflict ''STATE_COLLECTION_EXISTS'') (
     require (\<not> list_ex (\<lambda>x. sc_TenantID x = sc_TenantID c \<and> sc_JobRunID x = sc_JobRunID c
                            \<and> sc_CollectionKey x = sc_CollectionKey c)
               (mvals (runtimeStateCollections s))) (Conflict ''STATE_COLLECTION_KEY_EXISTS'') (
     Inr (s\<lparr>runtimeStateCollections := mput (collection_key c) c (runtimeStateCollections s)\<rparr>, ()))))"

definition Store_StateCollection :: "string \<Rightarrow> string \<Rightarrow> Store \<Rightarrow> StateCollection res" where
  "Store_StateCollection tenantID i s =
     lookup_or NotFound (mget (runtimeStateCollections s) (stateCollectionKey tenantID i)) Inr"

definition StateCollections :: "string \<Rightarrow> string \<Rightarrow> Store \<Rightarrow> StateCollection list" where
  "StateCollections tenantID jobID s =
     sort_by (\<lambda>a b. sc_CollectionKey a < sc_CollectionKey b)
       (filter (\<lambda>c. sc_TenantID c = tenantID \<and> (jobID = '''' \<or> sc_JobRunID c = jobID))
         (mvals (runtimeStateCollections s)))"

definition Store_StateRecord :: "string \<Rightarrow> string \<Rightarrow> Store \<Rightarrow> StateRecord res" where
  "Store_StateRecord tenantID i s =
     lookup_or NotFound
       (find (\<lambda>r. sr_TenantID r = tenantID \<and> sr_ID r = i) (mvals (runtimeStateRecords s))) Inr"

definition in_collection :: "string \<Rightarrow> string \<Rightarrow> StateRecord \<Rightarrow> bool" where
  "in_collection tenantID collectionID r = (sr_TenantID r = tenantID \<and> sr_CollectionID r = collectionID)"

definition StateRecords :: "string \<Rightarrow> string \<Rightarrow> Store \<Rightarrow> StateRecord list" where
  "StateRecords tenantID collectionID s =
     sort_by (\<lambda>a b. sr_Key a < sr_Key b)
       (filter (in_collection tenantID collectionID) (mvals (runtimeStateRecords s)))"

text \<open>The counting loop of the record limit.\<close>

definition record_count :: "string \<Rightarrow> string \<Rightarrow> Store \<Rightarrow> int" where
  "record_count tenantID collectionID s =
     int (length (filter (in_collection tenantID collectionID) (mvals (runtimeStateRecords s))))"

definition applyStateRecordLocked ::
    "(payload \<Rightarrow> int) \<Rightarrow> Store \<Rightarrow> StateRecord \<Rightarrow> int \<Rightarrow> StateRecord cmd" where
  "applyStateRecordLocked json_len s r expectedVersion =
     lookup_or NotFound (mget (runtimeStateCollections s)
       (stateCollectionKey (sr_TenantID r) (sr_CollectionID r))) (\<lambda>collection.
     require (sr_TenantID r = sc_TenantID collection) (Invalid ''STATE_RECORD_SCOPE_INVALID'') (
     require (sr_SchemaRevision r = sc_SchemaRevision collection)
       (Conflict ''STATE_SCHEMA_REVISION_CONFLICT'') (
     let current = mget (runtimeStateRecords s) (record_key r) in
     require (\<not> (expectedVersion = 0 \<and> current \<noteq> None)) (Conflict ''STATE_RECORD_VERSION_CONFLICT'') (
     require (\<not> (case current of None \<Rightarrow> False | Some cur \<Rightarrow> sr_Version cur \<noteq> expectedVersion))
       (Conflict ''STATE_RECORD_VERSION_CONFLICT'') (
     require (\<not> (current = None \<and> expectedVersion \<noteq> 0)) (Conflict ''STATE_RECORD_VERSION_CONFLICT'') (
     require (\<not> (sc_Consistency collection = ''append_only'' \<and> current \<noteq> None))
       (Policy ''STATE_APPEND_ONLY_UPDATE_FORBIDDEN'') (
     require (\<not> (current = None \<and>
                 record_count (sr_TenantID r) (sr_CollectionID r) s \<ge> sc_MaxRecords collection))
       (Policy ''STATE_COLLECTION_RECORD_LIMIT'') (
     require (\<not> (case sr_Value r of None \<Rightarrow> False | Some v \<Rightarrow> json_len v > sc_MaxRecordBytes collection))
       (Policy ''STATE_RECORD_TOO_LARGE'') (
     let r' = r\<lparr>sr_Version := (case current of None \<Rightarrow> 1 | Some cur \<Rightarrow> sr_Version cur + 1)\<rparr>;
         collection' = collection\<lparr>sc_Revision := sc_Revision collection + 1,
                         sc_Watermark := sc_Watermark collection + 1, sc_UpdatedAt := sr_UpdatedAt r\<rparr> in
     Inr (s\<lparr>runtimeStateRecords := mput (record_key r) r' (runtimeStateRecords s),
            runtimeStateCollections :=
              mput (stateCollectionKey (sr_TenantID r) (sr_CollectionID r)) collection'
                (runtimeStateCollections s)\<rparr>, r'))))))))))"

definition ApplyStateRecordCAS ::
    "(payload \<Rightarrow> int) \<Rightarrow> StateRecord \<Rightarrow> int \<Rightarrow> Store \<Rightarrow> StateRecord cmd" where
  "ApplyStateRecordCAS json_len r expectedVersion s =
     check_nil (StateRecord_Validate r) (applyStateRecordLocked json_len s r expectedVersion)"

definition ApplyStateRecordCommand ::
    "(payload \<Rightarrow> int) \<Rightarrow> StateRecord \<Rightarrow> int \<Rightarrow> JobEvent \<Rightarrow> Store \<Rightarrow> StateRecord cmd" where
  "ApplyStateRecordCommand json_len r expectedVersion event s =
     check_nil (StateRecord_Validate r) (
     check_nil (validateRuntimeEventLocked s event) (
     bind_res (applyStateRecordLocked json_len s r expectedVersion) (\<lambda>(s1, r').
     Inr (appendRuntimeEventLocked s1 event, r'))))"

definition ApplyFencedStateRecordCommand ::
    "(payload \<Rightarrow> int) \<Rightarrow> StateRecord \<Rightarrow> int \<Rightarrow> string \<Rightarrow> string \<Rightarrow> time \<Rightarrow> JobEvent \<Rightarrow> Store \<Rightarrow> StateRecord cmd" where
  "ApplyFencedStateRecordCommand json_len r expectedVersion attemptID fenceToken now event s =
     check_nil (StateRecord_Validate r) (
     check_nil (validateAttemptFenceLocked s (sr_TenantID r) attemptID fenceToken now) (
     check_nil (validateRuntimeEventLocked s event) (
     bind_res (applyStateRecordLocked json_len s r expectedVersion) (\<lambda>(s1, r').
     Inr (appendRuntimeEventLocked s1 event, r')))))"

subsection \<open>Tool calls\<close>

definition toolCallIdempotencyKey :: "ToolCall \<Rightarrow> string" where
  "toolCallIdempotencyKey c = TrimSpace (as_string (mget (tc_SafeRequest c) ''idempotency_key''))"

definition same_tool_request :: "ToolCall \<Rightarrow> ToolCall \<Rightarrow> bool" where
  "same_tool_request c x =
     (tc_TenantID x = tc_TenantID c \<and> tc_AttemptID x = tc_AttemptID c \<and> tc_ToolName x = tc_ToolName c
      \<and> toolCallIdempotencyKey x = toolCallIdempotencyKey c)"

definition toolCallIdempotencyExistsLocked :: "Store \<Rightarrow> ToolCall \<Rightarrow> bool" where
  "toolCallIdempotencyExistsLocked s c =
     (if toolCallIdempotencyKey c = '''' then False
      else list_ex (same_tool_request c) (mvals (runtimeToolCalls s)))"

definition validateToolCallLocked :: "Store \<Rightarrow> ToolCall \<Rightarrow> fault option" where
  "validateToolCallLocked s c =
     (case mget (runtimeAttempts s) (runtimePlanKey (tc_TenantID c) (tc_AttemptID c)) of
        None \<Rightarrow> Some NotFound
      | Some attempt \<Rightarrow>
     (case mget (runtimeAgents s) (runtimePlanKey (tc_TenantID c) (tc_AgentInstanceID c)) of
        None \<Rightarrow> Some NotFound
      | Some agent \<Rightarrow>
     (case mget (runtimeNodes s) (runtimeNodeKey (tc_TenantID c) (tc_NodeRunID c)) of
        None \<Rightarrow> Some NotFound
      | Some node \<Rightarrow>
     (case mget (runtimeContextViews s) (runtimePlanKey (tc_TenantID c) (ra_ContextViewID attempt)) of
        None \<Rightarrow> Some NotFound
      | Some view \<Rightarrow>
        if ra_JobRunID attempt \<noteq> tc_JobRunID c \<or> ra_NodeRunID attempt \<noteq> tc_NodeRunID c
           \<or> ra_AgentInstanceID attempt \<noteq> tc_AgentInstanceID c \<or> ai_JobRunID agent \<noteq> tc_JobRunID c
           \<or> ai_NodeRunID agent \<noteq> tc_NodeRunID c \<or> ai_ContextViewID agent \<noteq> cv_ID view
           \<or> nr_JobRunID node \<noteq> tc_JobRunID c \<or> cv_JobRunID view \<noteq> tc_JobRunID c
           \<or> cv_NodeRunID view \<noteq> tc_NodeRunID c \<or> cv_AttemptID view \<noteq> tc_AttemptID c
        then Some (Invalid ''TOOL_CALL_SCOPE_INVALID'')
        else if ra_State attempt \<noteq> RuntimeAttemptPrepared \<and> ra_State attempt \<noteq> RuntimeAttemptRunning
        then Some (Conflict ''TOOL_CALL_ATTEMPT_NOT_ACTIVE'')
        else if ai_State agent \<noteq> AgentRunnable \<and> ai_State agent \<noteq> AgentActive
        then Some (Conflict ''TOOL_CALL_AGENT_NOT_ACTIVE'')
        else if \<not> AllowsTool view (tc_ToolName c) then Some (Policy ''TOOL_CALL_NOT_ALLOWED'')
        else None))))"

definition put_tool :: "ToolCall \<Rightarrow> Store \<Rightarrow> Store" where
  "put_tool c s = s\<lparr>runtimeToolCalls := mput (tool_key c) c (runtimeToolCalls s)\<rparr>"

definition RegisterToolCallCommand :: "ToolCall \<Rightarrow> JobEvent \<Rightarrow> Store \<Rightarrow> ToolCall cmd" where
  "RegisterToolCallCommand c event s =
     check_nil (ToolCall_Validate c) (
     check_nil (validateToolCallLocked s c) (
     check_nil (validateRuntimeEventLocked s event) (
     require (mget (runtimeToolCalls s) (tool_key c) = None) (Conflict ''TOOL_CALL_EXISTS'') (
     require (\<not> toolCallIdempotencyExistsLocked s c) (Conflict ''TOOL_CALL_IDEMPOTENCY_EXISTS'') (
     Inr (appendRuntimeEventLocked (put_tool c s) event, c))))))"

definition RegisterFencedToolCallCommand ::
    "ToolCall \<Rightarrow> string \<Rightarrow> time \<Rightarrow> JobEvent \<Rightarrow> Store \<Rightarrow> ToolCall cmd" where
  "RegisterFencedToolCallCommand c fenceToken now event s =
     check_nil (ToolCall_Validate c) (
     check_nil (validateAttemptFenceLocked s (tc_TenantID c) (tc_AttemptID c) fenceToken now) (
     check_nil (validateToolCallLocked s c) (
     check_nil (validateRuntimeEventLocked s event) (
     require (mget (runtimeToolCalls s) (tool_key c) = None) (Conflict ''TOOL_CALL_EXISTS'') (
     require (\<not> toolCallIdempotencyExistsLocked s c) (Conflict ''TOOL_CALL_IDEMPOTENCY_EXISTS'') (
     Inr (appendRuntimeEventLocked (put_tool c s) event, c)))))))"

fun tool_terminal :: "tool_state \<Rightarrow> bool" where
  "tool_terminal ToolCallSucceeded = True"
| "tool_terminal ToolCallFailed = True"
| "tool_terminal ToolCallUnknown = True"
| "tool_terminal _ = False"

definition ApplyToolCallTransitionCommand :: "ToolCall \<Rightarrow> int \<Rightarrow> JobEvent \<Rightarrow> Store \<Rightarrow> ToolCall cmd" where
  "ApplyToolCallTransitionCommand nxt expectedVersion event s =
     check_nil (ToolCall_Validate nxt) (
     check_nil (validateRuntimeEventLocked s event) (
     lookup_or NotFound (mget (runtimeToolCalls s) (tool_key nxt)) (\<lambda>current.
     require (\<not> (tc_Version current \<noteq> expectedVersion \<or> tc_Version nxt \<noteq> expectedVersion + 1))
       (Conflict ''TOOL_CALL_VERSION_CONFLICT'') (
     require (\<not> tool_terminal (tc_State current)) (Conflict ''TOOL_CALL_TERMINAL'') (
     Inr (appendRuntimeEventLocked (put_tool nxt s) event, nxt))))))"

definition ApplyFencedToolCallTransitionCommand ::
    "ToolCall \<Rightarrow> int \<Rightarrow> string \<Rightarrow> time \<Rightarrow> JobEvent \<Rightarrow> Store \<Rightarrow> ToolCall cmd" where
  "ApplyFencedToolCallTransitionCommand nxt expectedVersion fenceToken now event s =
     check_nil (ToolCall_Validate nxt) (
     check_nil (validateAttemptFenceLocked s (tc_TenantID nxt) (tc_AttemptID nxt) fenceToken now) (
     check_nil (validateRuntimeEventLocked s event) (
     lookup_or NotFound (mget (runtimeToolCalls s) (tool_key nxt)) (\<lambda>current.
     require (\<not> (tc_Version current \<noteq> expectedVersion \<or> tc_Version nxt \<noteq> expectedVersion + 1))
       (Conflict ''TOOL_CALL_VERSION_CONFLICT'') (
     require (\<not> tool_terminal (tc_State current)) (Conflict ''TOOL_CALL_TERMINAL'') (
     Inr (appendRuntimeEventLocked (put_tool nxt s) event, nxt)))))))"

definition CreateToolCall :: "ToolCall \<Rightarrow> Store \<Rightarrow> unit cmd" where
  "CreateToolCall c s =
     check_nil (ToolCall_Validate c) (
     check_nil (validateToolCallLocked s c) (
     require (mget (runtimeToolCalls s) (tool_key c) = None) (Conflict ''TOOL_CALL_EXISTS'') (
     require (\<not> toolCallIdempotencyExistsLocked s c) (Conflict ''TOOL_CALL_IDEMPOTENCY_EXISTS'') (
     Inr (put_tool c s, ())))))"

definition Store_ToolCall :: "string \<Rightarrow> string \<Rightarrow> Store \<Rightarrow> ToolCall res" where
  "Store_ToolCall tenantID i s =
     lookup_or NotFound (mget (runtimeToolCalls s) (toolCallKey tenantID i)) Inr"

definition ToolCallByIdempotencyKey ::
    "string \<Rightarrow> string \<Rightarrow> string \<Rightarrow> string \<Rightarrow> Store \<Rightarrow> ToolCall res" where
  "ToolCallByIdempotencyKey tenantID attemptID toolName idempotencyKey s =
     lookup_or NotFound
       (find (\<lambda>x. tc_TenantID x = tenantID \<and> tc_AttemptID x = attemptID \<and> tc_ToolName x = toolName
                \<and> toolCallIdempotencyKey x = idempotencyKey) (mvals (runtimeToolCalls s))) Inr"

definition ToolCalls :: "string \<Rightarrow> string \<Rightarrow> Store \<Rightarrow> ToolCall list" where
  "ToolCalls tenantID attemptID s =
     sort_by (\<lambda>a b. tc_CreatedAt a < tc_CreatedAt b)
       (filter (\<lambda>x. tc_TenantID x = tenantID \<and> (attemptID = '''' \<or> tc_AttemptID x = attemptID))
         (mvals (runtimeToolCalls s)))"

definition ApplyToolCallTransition :: "ToolCall \<Rightarrow> int \<Rightarrow> Store \<Rightarrow> ToolCall cmd" where
  "ApplyToolCallTransition nxt expectedVersion s =
     check_nil (ToolCall_Validate nxt) (
     lookup_or NotFound (mget (runtimeToolCalls s) (tool_key nxt)) (\<lambda>current.
     require (\<not> (tc_Version current \<noteq> expectedVersion \<or> tc_Version nxt \<noteq> expectedVersion + 1))
       (Conflict ''TOOL_CALL_VERSION_CONFLICT'') (
     require (\<not> tool_terminal (tc_State current)) (Conflict ''TOOL_CALL_TERMINAL'') (
     check_nil (validateToolCallLocked s current) (
     let current' = current\<lparr>tc_State := tc_State nxt, tc_SafeResult := tc_SafeResult nxt,
                      tc_ResultDigest := tc_ResultDigest nxt, tc_ErrorCode := tc_ErrorCode nxt,
                      tc_StartedAt := tc_StartedAt nxt, tc_FinishedAt := tc_FinishedAt nxt,
                      tc_Version := tc_Version nxt, tc_UpdatedAt := tc_UpdatedAt nxt\<rparr> in
     Inr (s\<lparr>runtimeToolCalls := mput (tool_key nxt) current' (runtimeToolCalls s)\<rparr>, current'))))))"

subsection \<open>Writing a record\<close>

lemma applyStateRecordLocked_ok:
  assumes "applyStateRecordLocked json_len s r x = Inr (s', r')"
  obtains c where
    "mget (runtimeStateCollections s) (stateCollectionKey (sr_TenantID r) (sr_CollectionID r)) = Some c"
    "sc_TenantID c = sr_TenantID r" "sr_SchemaRevision r = sc_SchemaRevision c"
    "case mget (runtimeStateRecords s) (record_key r) of
       None \<Rightarrow> x = 0 \<and> record_count (sr_TenantID r) (sr_CollectionID r) s < sc_MaxRecords c
     | Some cur \<Rightarrow> x \<noteq> 0 \<and> sr_Version cur = x \<and> sc_Consistency c \<noteq> ''append_only''"
    "\<forall>v. sr_Value r = Some v \<longrightarrow> json_len v \<le> sc_MaxRecordBytes c"
    "r' = r\<lparr>sr_Version := x + 1\<rparr>"
    "s' = s\<lparr>runtimeStateRecords := mput (record_key r) r' (runtimeStateRecords s),
            runtimeStateCollections := mput (stateCollectionKey (sr_TenantID r) (sr_CollectionID r))
              (c\<lparr>sc_Revision := sc_Revision c + 1, sc_Watermark := sc_Watermark c + 1,
                 sc_UpdatedAt := sr_UpdatedAt r\<rparr>) (runtimeStateCollections s)\<rparr>"
proof -
  note f = assms [unfolded applyStateRecordLocked_def Let_def lookup_or_Inr require_Inr sum.inject prod.inject]
  obtain c where
    c: "mget (runtimeStateCollections s) (stateCollectionKey (sr_TenantID r) (sr_CollectionID r)) = Some c"
    and t: "sr_TenantID r = sc_TenantID c" "sr_SchemaRevision r = sc_SchemaRevision c"
    and v: "\<not> (x = 0 \<and> mget (runtimeStateRecords s) (record_key r) \<noteq> None)"
      "\<not> (case mget (runtimeStateRecords s) (record_key r) of None \<Rightarrow> False | Some cur \<Rightarrow> sr_Version cur \<noteq> x)"
      "\<not> (mget (runtimeStateRecords s) (record_key r) = None \<and> x \<noteq> 0)"
      "\<not> (sc_Consistency c = ''append_only'' \<and> mget (runtimeStateRecords s) (record_key r) \<noteq> None)"
      "\<not> (mget (runtimeStateRecords s) (record_key r) = None
          \<and> record_count (sr_TenantID r) (sr_CollectionID r) s \<ge> sc_MaxRecords c)"
    and b: "\<not> (case sr_Value r of None \<Rightarrow> False | Some v \<Rightarrow> json_len v > sc_MaxRecordBytes c)"
    and r': "r\<lparr>sr_Version := (case mget (runtimeStateRecords s) (record_key r) of
                 None \<Rightarrow> 1 | Some cur \<Rightarrow> sr_Version cur + 1)\<rparr> = r'"
    and s': "s\<lparr>runtimeStateRecords := mput (record_key r)
                 (r\<lparr>sr_Version := (case mget (runtimeStateRecords s) (record_key r) of
                    None \<Rightarrow> 1 | Some cur \<Rightarrow> sr_Version cur + 1)\<rparr>) (runtimeStateRecords s),
            runtimeStateCollections := mput (stateCollectionKey (sr_TenantID r) (sr_CollectionID r))
              (c\<lparr>sc_Revision := sc_Revision c + 1, sc_Watermark := sc_Watermark c + 1,
                 sc_UpdatedAt := sr_UpdatedAt r\<rparr>) (runtimeStateCollections s)\<rparr> = s'"
    using f by (elim exE conjE) (rule that; assumption)
  have ver: "(case mget (runtimeStateRecords s) (record_key r) of None \<Rightarrow> 1 | Some cur \<Rightarrow> sr_Version cur + 1) = x + 1"
    using v(1-3) by (cases "mget (runtimeStateRecords s) (record_key r)") simp_all
  show ?thesis
  proof (rule that [OF c t(1) [symmetric] t(2)])
    show "case mget (runtimeStateRecords s) (record_key r) of
        None \<Rightarrow> x = 0 \<and> record_count (sr_TenantID r) (sr_CollectionID r) s < sc_MaxRecords c
      | Some cur \<Rightarrow> x \<noteq> 0 \<and> sr_Version cur = x \<and> sc_Consistency c \<noteq> ''append_only''"
      using v by (cases "mget (runtimeStateRecords s) (record_key r)") simp_all
    show "\<forall>v. sr_Value r = Some v \<longrightarrow> json_len v \<le> sc_MaxRecordBytes c"
      using b by (simp split: option.splits)
    show "r' = r\<lparr>sr_Version := x + 1\<rparr>" using r' ver by simp
    show "s' = s\<lparr>runtimeStateRecords := mput (record_key r) r' (runtimeStateRecords s),
            runtimeStateCollections := mput (stateCollectionKey (sr_TenantID r) (sr_CollectionID r))
              (c\<lparr>sc_Revision := sc_Revision c + 1, sc_Watermark := sc_Watermark c + 1,
                 sc_UpdatedAt := sr_UpdatedAt r\<rparr>) (runtimeStateCollections s)\<rparr>"
      using s' r' by simp
  qed
qed

text \<open>The three entry points share their effect: an inner write, then possibly an event.\<close>

lemma ApplyStateRecordCommand_ok:
  assumes "ApplyStateRecordCommand json_len r x e s = Inr (s', r')"
  obtains s1 where "applyStateRecordLocked json_len s r x = Inr (s1, r')" "s' = appendRuntimeEventLocked s1 e"
  using assms unfolding ApplyStateRecordCommand_def by auto

lemma ApplyFencedStateRecordCommand_ok:
  assumes "ApplyFencedStateRecordCommand json_len r x a f now e s = Inr (s', r')"
  obtains s1 where "applyStateRecordLocked json_len s r x = Inr (s1, r')" "s' = appendRuntimeEventLocked s1 e"
    "validateAttemptFenceLocked s (sr_TenantID r) a f now = None"
  using assms unfolding ApplyFencedStateRecordCommand_def by auto

inductive record_write :: "(payload \<Rightarrow> int) \<Rightarrow> Store \<Rightarrow> Store \<Rightarrow> bool" for json_len where
  collection: "CreateStateCollection c s = Inr (s', u) \<Longrightarrow> plain_id (sc_TenantID c) \<Longrightarrow> plain_id (sc_ID c)
    \<Longrightarrow> record_write json_len s s'"
| cas: "ApplyStateRecordCAS json_len r x s = Inr (s', r') \<Longrightarrow> record_write json_len s s'"
| command: "ApplyStateRecordCommand json_len r x e s = Inr (s', r') \<Longrightarrow> record_write json_len s s'"
| fenced: "ApplyFencedStateRecordCommand json_len r x a f now e s = Inr (s', r') \<Longrightarrow> record_write json_len s s'"

lemma record_write_cases:
  assumes "record_write json_len s s'"
  obtains (new) c where "plain_id (sc_TenantID c)" "plain_id (sc_ID c)" "StateCollection_Validate c = None"
      "mget (runtimeStateCollections s) (collection_key c) = None"
      "s' = s\<lparr>runtimeStateCollections := mput (collection_key c) c (runtimeStateCollections s)\<rparr>"
  | (written) r x r' s1 where "applyStateRecordLocked json_len s r x = Inr (s1, r')"
      "runtimeStateRecords s' = runtimeStateRecords s1"
      "runtimeStateCollections s' = runtimeStateCollections s1"
      "s' = s1 \<or> (\<exists>e. s' = appendRuntimeEventLocked s1 e)"
  using assms
proof cases
  case (collection c u)
  then show ?thesis using new [of c] unfolding CreateStateCollection_def by simp
next
  case (cas r x r')
  then show ?thesis using written [of r x s' r'] unfolding ApplyStateRecordCAS_def by simp
next
  case (command r x e r')
  from ApplyStateRecordCommand_ok [OF command] obtain s1 where
    "applyStateRecordLocked json_len s r x = Inr (s1, r')" "s' = appendRuntimeEventLocked s1 e" .
  then show ?thesis using written [of r x s1 r'] by auto
next
  case (fenced r x a f now e r')
  from ApplyFencedStateRecordCommand_ok [OF fenced] obtain s1 where
    "applyStateRecordLocked json_len s r x = Inr (s1, r')" "s' = appendRuntimeEventLocked s1 e" .
  then show ?thesis using written [of r x s1 r'] by auto
qed

subsection \<open>Collections stay within their limits\<close>

definition records_wf :: "Store \<Rightarrow> bool" where
  "records_wf s =
     (keyed collection_key (runtimeStateCollections s) \<and> keyed record_key (runtimeStateRecords s)
      \<and> (\<forall>k c. mget (runtimeStateCollections s) k = Some c \<longrightarrow> plain_id (sc_TenantID c) \<and> plain_id (sc_ID c))
      \<and> (\<forall>k r. mget (runtimeStateRecords s) k = Some r \<longrightarrow>
           plain_id (sr_TenantID r) \<and> plain_id (sr_CollectionID r)
           \<and> mget (runtimeStateCollections s) (stateCollectionKey (sr_TenantID r) (sr_CollectionID r)) \<noteq> None))"

definition records_bounded :: "Store \<Rightarrow> bool" where
  "records_bounded s =
     (\<forall>k c. mget (runtimeStateCollections s) k = Some c \<longrightarrow>
        record_count (sc_TenantID c) (sc_ID c) s \<le> sc_MaxRecords c)"

lemma record_key_inj:
  assumes "record_key r = record_key r'" and "plain_id (sr_TenantID r)" "plain_id (sr_CollectionID r)"
    "plain_id (sr_TenantID r')" "plain_id (sr_CollectionID r')"
  shows "sr_TenantID r' = sr_TenantID r" "sr_CollectionID r' = sr_CollectionID r" "sr_Key r' = sr_Key r"
proof -
  have "sr_TenantID r = sr_TenantID r' \<and> sr_CollectionID r @ CHR '':'' # sr_Key r
      = sr_CollectionID r' @ CHR '':'' # sr_Key r'"
    using assms(1,2,4) split_at_first [of "CHR '':''" "sr_TenantID r" "sr_TenantID r'"]
    by (simp add: record_key_def stateRecordKey_def plain_id_def)
  moreover from this have "sr_CollectionID r = sr_CollectionID r' \<and> sr_Key r = sr_Key r'"
    using assms(3,5) split_at_first [of "CHR '':''" "sr_CollectionID r" "sr_CollectionID r'"]
    by (simp add: plain_id_def)
  ultimately show "sr_TenantID r' = sr_TenantID r" "sr_CollectionID r' = sr_CollectionID r" "sr_Key r' = sr_Key r"
    by simp_all
qed

lemma count_mput_new:
  "mget m k = None \<Longrightarrow>
   int (length (filter P (mvals (mput k v m)))) = int (length (filter P (mvals m))) + (if P v then 1 else 0)"
  by (induction m) (auto simp: mvals_def mput_def mget_def split: if_splits)

lemma count_mput_old:
  "wf_map m \<Longrightarrow> mget m k = Some old \<Longrightarrow> P old = P v \<Longrightarrow>
   length (filter P (mvals (mput k v m))) = length (filter P (mvals m))"
  by (induction m) (auto simp: wf_map_def mvals_def mput_def mget_def split: if_splits)

lemma records_wf_write:
  assumes "record_write json_len s s'" and wf: "records_wf s"
  shows "records_wf s'"
  using assms(1)
proof (cases rule: record_write_cases)
  case (new c)
  have "keyed collection_key (runtimeStateCollections s')"
    using wf unfolding new(5) records_wf_def by (simp add: keyed_mput)
  then show ?thesis using wf new unfolding records_wf_def by auto
next
  case (written r x r' s1)
  from written(1) obtain c where c:
    "mget (runtimeStateCollections s) (stateCollectionKey (sr_TenantID r) (sr_CollectionID r)) = Some c"
    "sc_TenantID c = sr_TenantID r" "r' = r\<lparr>sr_Version := x + 1\<rparr>"
    "s1 = s\<lparr>runtimeStateRecords := mput (record_key r) r' (runtimeStateRecords s),
            runtimeStateCollections := mput (stateCollectionKey (sr_TenantID r) (sr_CollectionID r))
              (c\<lparr>sc_Revision := sc_Revision c + 1, sc_Watermark := sc_Watermark c + 1,
                 sc_UpdatedAt := sr_UpdatedAt r\<rparr>) (runtimeStateCollections s)\<rparr>"
    by (rule applyStateRecordLocked_ok)
  have k: "stateCollectionKey (sr_TenantID r) (sr_CollectionID r) = collection_key c"
    using wf c(1) unfolding records_wf_def keyed_def by blast
  then have id: "sc_ID c = sr_CollectionID r" using c(2) by (simp add: collection_key_def runtimePlanKey_def)
  have plain: "plain_id (sr_TenantID r)" "plain_id (sr_CollectionID r)"
    using wf c(1,2) id unfolding records_wf_def by metis+
  show ?thesis
    unfolding records_wf_def written(2,3)
  proof (intro conjI allI impI)
    show "keyed collection_key (runtimeStateCollections s1)"
      using wf k unfolding records_wf_def c(4) by (simp add: keyed_mput collection_key_def)
    show "keyed record_key (runtimeStateRecords s1)"
      using wf unfolding records_wf_def c(4) by (simp add: keyed_mput record_key_def c(3))
  next
    fix k' c' assume "mget (runtimeStateCollections s1) k' = Some c'"
    then show "plain_id (sc_TenantID c')" "plain_id (sc_ID c')"
      using wf c(1,2) id plain unfolding records_wf_def c(4) by (auto split: if_splits)
  next
    fix k' q assume q: "mget (runtimeStateRecords s1) k' = Some q"
    then have "q = r' \<or> mget (runtimeStateRecords s) k' = Some q" unfolding c(4) by (simp split: if_splits)
    then have old: "plain_id (sr_TenantID q) \<and> plain_id (sr_CollectionID q)
      \<and> mget (runtimeStateCollections s) (stateCollectionKey (sr_TenantID q) (sr_CollectionID q)) \<noteq> None"
      using wf plain c(1,3) unfolding records_wf_def by auto
    then show "plain_id (sr_TenantID q)" "plain_id (sr_CollectionID q)" by simp_all
    show "mget (runtimeStateCollections s1) (stateCollectionKey (sr_TenantID q) (sr_CollectionID q)) \<noteq> None"
      using old unfolding c(4) by simp
  qed
qed

text \<open>How a write changes the number of records of a collection.\<close>

lemma record_count_write:
  assumes "records_wf s" and "applyStateRecordLocked json_len s r x = Inr (s1, r')"
    and plain: "plain_id (sr_TenantID r)" "plain_id (sr_CollectionID r)"
  shows "record_count t i s1 = record_count t i s
    + (if mget (runtimeStateRecords s) (record_key r) = None \<and> in_collection t i r then 1 else 0)"
proof -
  from assms(2) obtain c where r': "r' = r\<lparr>sr_Version := x + 1\<rparr>"
    and s1: "runtimeStateRecords s1 = mput (record_key r) r' (runtimeStateRecords s)"
    by (rule applyStateRecordLocked_ok) simp
  show ?thesis
  proof (cases "mget (runtimeStateRecords s) (record_key r)")
    case None
    then show ?thesis
      unfolding record_count_def s1 by (simp add: count_mput_new) (simp add: r' in_collection_def)
  next
    case (Some old)
    have "record_key r = record_key old" "plain_id (sr_TenantID old)" "plain_id (sr_CollectionID old)"
      using assms(1) Some unfolding records_wf_def keyed_def by blast+
    from record_key_inj [OF this(1) plain this(2,3)]
    have "in_collection t i old = in_collection t i r'" by (simp add: in_collection_def r')
    moreover have "wf_map (runtimeStateRecords s)" using assms(1) by (simp add: records_wf_def keyed_def)
    ultimately show ?thesis
      unfolding record_count_def s1 using Some by (simp add: count_mput_old)
  qed
qed

lemma records_bounded_write:
  assumes "record_write json_len s s'" and wf: "records_wf s" and "records_bounded s"
  shows "records_bounded s'"
  using assms(1)
proof (cases rule: record_write_cases)
  case (new c)
  have none: "record_count (sc_TenantID c) (sc_ID c) s = 0"
  proof -
    have "\<not> in_collection (sc_TenantID c) (sc_ID c) r" if "r \<in> set (mvals (runtimeStateRecords s))" for r
    proof
      assume "in_collection (sc_TenantID c) (sc_ID c) r"
      then have k: "stateCollectionKey (sr_TenantID r) (sr_CollectionID r) = collection_key c"
        by (simp add: in_collection_def collection_key_def)
      have "wf_map (runtimeStateRecords s)" using wf by (simp add: records_wf_def keyed_def)
      from mvals_get [OF this that] obtain k' where "mget (runtimeStateRecords s) k' = Some r" by blast
      then have "mget (runtimeStateCollections s) (stateCollectionKey (sr_TenantID r) (sr_CollectionID r)) \<noteq> None"
        using wf unfolding records_wf_def by blast
      with k new(4) show False by simp
    qed
    then show ?thesis by (simp add: record_count_def filter_empty_conv)
  qed
  have same: "record_count t i s' = record_count t i s" for t i by (simp add: record_count_def new(5))
  have "0 < sc_MaxRecords c"
    using new(3) unfolding StateCollection_Validate_def validate_simps by linarith
  show ?thesis
    unfolding records_bounded_def same
  proof (intro allI impI)
    fix k c' assume c': "mget (runtimeStateCollections s') k = Some c'"
    show "record_count (sc_TenantID c') (sc_ID c') s \<le> sc_MaxRecords c'"
    proof (cases "k = collection_key c")
      case True
      then have "c' = c" using c' by (simp add: new(5))
      then show ?thesis using none \<open>0 < sc_MaxRecords c\<close> by simp
    next
      case False
      then have "mget (runtimeStateCollections s) k = Some c'" using c' by (simp add: new(5))
      then show ?thesis using assms(3) unfolding records_bounded_def by simp
    qed
  qed
next
  case (written r x r' s1)
  from written(1) obtain c where c:
    "mget (runtimeStateCollections s) (stateCollectionKey (sr_TenantID r) (sr_CollectionID r)) = Some c"
    "sc_TenantID c = sr_TenantID r"
    and lim: "case mget (runtimeStateRecords s) (record_key r) of
       None \<Rightarrow> x = 0 \<and> record_count (sr_TenantID r) (sr_CollectionID r) s < sc_MaxRecords c
     | Some cur \<Rightarrow> x \<noteq> 0 \<and> sr_Version cur = x \<and> sc_Consistency c \<noteq> ''append_only''"
    and s1: "runtimeStateCollections s1 = mput (stateCollectionKey (sr_TenantID r) (sr_CollectionID r))
       (c\<lparr>sc_Revision := sc_Revision c + 1, sc_Watermark := sc_Watermark c + 1,
          sc_UpdatedAt := sr_UpdatedAt r\<rparr>) (runtimeStateCollections s)"
    by (rule applyStateRecordLocked_ok) simp
  have "stateCollectionKey (sr_TenantID r) (sr_CollectionID r) = collection_key c"
    using wf c(1) unfolding records_wf_def keyed_def by blast
  then have id: "sc_ID c = sr_CollectionID r" using c(2) by (simp add: collection_key_def runtimePlanKey_def)
  have plain: "plain_id (sr_TenantID r)" "plain_id (sr_CollectionID r)"
    using wf c(1,2) id unfolding records_wf_def by metis+
  note count = record_count_write [OF wf written(1) plain]
  show ?thesis
    unfolding records_bounded_def written(3)
  proof (intro allI impI)
    fix k c' assume c': "mget (runtimeStateCollections s1) k = Some c'"
    then obtain c0 where c0: "mget (runtimeStateCollections s) k = Some c0" "sc_TenantID c' = sc_TenantID c0"
      "sc_ID c' = sc_ID c0" "sc_MaxRecords c' = sc_MaxRecords c0"
      unfolding s1 using c(1) by (cases "k = stateCollectionKey (sr_TenantID r) (sr_CollectionID r)") auto
    have b: "record_count (sc_TenantID c0) (sc_ID c0) s \<le> sc_MaxRecords c0"
      using assms(3) c0(1) unfolding records_bounded_def by blast
    have "record_count (sc_TenantID c0) (sc_ID c0) s1 \<le> sc_MaxRecords c0"
    proof (cases "mget (runtimeStateRecords s) (record_key r) = None \<and> in_collection (sc_TenantID c0) (sc_ID c0) r")
      case True
      then have "k = collection_key c0" "sc_TenantID c0 = sr_TenantID r" "sc_ID c0 = sr_CollectionID r"
        using wf c0(1) unfolding records_wf_def keyed_def in_collection_def by auto
      then have "c0 = c" using c0(1) c(1) by (simp add: collection_key_def)
      then show ?thesis using count [of "sc_TenantID c0" "sc_ID c0"] True lim c(2) id by simp
    next
      case False
      then show ?thesis using count [of "sc_TenantID c0" "sc_ID c0"] b unfolding if_not_P [OF False] by simp
    qed
    moreover have "record_count (sc_TenantID c') (sc_ID c') s' = record_count (sc_TenantID c0) (sc_ID c0) s1"
      by (simp add: record_count_def written(2) c0)
    ultimately show "record_count (sc_TenantID c') (sc_ID c') s' \<le> sc_MaxRecords c'" using c0(4) by simp
  qed
qed

subsection \<open>Records only move forward\<close>

definition collection_of :: "Store \<Rightarrow> StateRecord \<Rightarrow> StateCollection option" where
  "collection_of s r = mget (runtimeStateCollections s) (stateCollectionKey (sr_TenantID r) (sr_CollectionID r))"

definition frozen_record :: "Store \<Rightarrow> StateRecord \<Rightarrow> bool" where
  "frozen_record s r = (\<exists>c. collection_of s r = Some c \<and> sc_Consistency c = ''append_only'')"

lemma record_write_collections:
  assumes "record_write json_len s s'"
  shows "moves (\<lambda>c c'. sc_Consistency c' = sc_Consistency c \<and> sc_MaxRecords c' = sc_MaxRecords c
    \<and> sc_Revision c \<le> sc_Revision c') (runtimeStateCollections s) (runtimeStateCollections s')"
  using assms
proof (cases rule: record_write_cases)
  case (new c)
  then show ?thesis by (auto intro: moves_mput)
next
  case (written r x r' s1)
  from written(1) obtain c where
    "mget (runtimeStateCollections s) (stateCollectionKey (sr_TenantID r) (sr_CollectionID r)) = Some c"
    "runtimeStateCollections s1 = mput (stateCollectionKey (sr_TenantID r) (sr_CollectionID r))
       (c\<lparr>sc_Revision := sc_Revision c + 1, sc_Watermark := sc_Watermark c + 1,
          sc_UpdatedAt := sr_UpdatedAt r\<rparr>) (runtimeStateCollections s)"
    by (rule applyStateRecordLocked_ok) simp
  then show ?thesis unfolding written(3) by (auto intro: moves_mput)
qed

lemma record_write_records:
  assumes "record_write json_len s s'" and wf: "records_wf s"
  shows "moves (\<lambda>a b. sr_Version a \<le> sr_Version b \<and> (frozen_record s a \<longrightarrow> b = a))
    (runtimeStateRecords s) (runtimeStateRecords s')"
  using assms(1)
proof (cases rule: record_write_cases)
  case (new c)
  then show ?thesis by (auto intro: moves_refl)
next
  case (written r x r' s1)
  from written(1) obtain c where
    c: "mget (runtimeStateCollections s) (stateCollectionKey (sr_TenantID r) (sr_CollectionID r)) = Some c"
    and tc: "sc_TenantID c = sr_TenantID r"
    and cur: "case mget (runtimeStateRecords s) (record_key r) of
       None \<Rightarrow> x = 0 \<and> record_count (sr_TenantID r) (sr_CollectionID r) s < sc_MaxRecords c
     | Some cur \<Rightarrow> x \<noteq> 0 \<and> sr_Version cur = x \<and> sc_Consistency c \<noteq> ''append_only''"
    and r': "r' = r\<lparr>sr_Version := x + 1\<rparr>"
    and s1: "runtimeStateRecords s1 = mput (record_key r) r' (runtimeStateRecords s)"
    by (rule applyStateRecordLocked_ok) simp
  have "stateCollectionKey (sr_TenantID r) (sr_CollectionID r) = collection_key c"
    using wf c unfolding records_wf_def keyed_def by blast
  then have id: "sc_ID c = sr_CollectionID r" using tc by (simp add: collection_key_def runtimePlanKey_def)
  have plain: "plain_id (sr_TenantID r)" "plain_id (sr_CollectionID r)"
    using wf c tc id unfolding records_wf_def by metis+
  show ?thesis unfolding written(2) s1
  proof (rule moves_mput)
    fix old assume old: "mget (runtimeStateRecords s) (record_key r) = Some old"
    have "record_key r = record_key old" "plain_id (sr_TenantID old)" "plain_id (sr_CollectionID old)"
      using wf old unfolding records_wf_def keyed_def by blast+
    from record_key_inj [OF this(1) plain this(2,3)]
    have "collection_of s old = Some c" using c by (simp add: collection_of_def)
    then show "sr_Version old \<le> sr_Version r' \<and> (frozen_record s old \<longrightarrow> r' = old)"
      using cur old by (simp add: r' frozen_record_def)
  qed simp
qed

lemma record_run:
  assumes "(record_write json_len)\<^sup>*\<^sup>* s s'" and "records_wf s"
  shows "records_wf s' \<and> (records_bounded s \<longrightarrow> records_bounded s')
    \<and> moves (\<lambda>c c'. sc_Consistency c' = sc_Consistency c) (runtimeStateCollections s) (runtimeStateCollections s')
    \<and> moves (\<lambda>a b. sr_Version a \<le> sr_Version b \<and> (frozen_record s a \<longrightarrow> b = a))
        (runtimeStateRecords s) (runtimeStateRecords s')"
  using assms
proof (induction rule: rtranclp_induct)
  case base
  then show ?case by (auto intro: moves_refl)
next
  case (step s1 s2)
  have wf: "records_wf s1" and cons: "moves (\<lambda>c c'. sc_Consistency c' = sc_Consistency c)
      (runtimeStateCollections s) (runtimeStateCollections s1)"
    using step by simp_all
  note c12 = record_write_collections [OF step.hyps(2)]
  have cons2: "moves (\<lambda>c c'. sc_Consistency c' = sc_Consistency c)
      (runtimeStateCollections s1) (runtimeStateCollections s2)"
    unfolding moves_def
  proof (intro allI impI)
    fix k c assume "mget (runtimeStateCollections s1) k = Some c"
    from moves_get [OF c12 this]
    show "\<exists>c'. mget (runtimeStateCollections s2) k = Some c' \<and> sc_Consistency c' = sc_Consistency c"
      by (elim exE conjE) (rule exI, rule conjI, assumption+)
  qed
  have fr: "frozen_record s1 a" if "frozen_record s a" for a
    using that moves_get [OF cons] unfolding frozen_record_def collection_of_def by (metis (no_types))
  have rec: "moves (\<lambda>a b. sr_Version a \<le> sr_Version b \<and> (frozen_record s a \<longrightarrow> b = a))
      (runtimeStateRecords s) (runtimeStateRecords s2)"
    unfolding moves_def
  proof (intro allI impI)
    fix k a assume a: "mget (runtimeStateRecords s) k = Some a"
    have "moves (\<lambda>a b. sr_Version a \<le> sr_Version b \<and> (frozen_record s a \<longrightarrow> b = a))
      (runtimeStateRecords s) (runtimeStateRecords s1)" using step by simp
    from moves_get [OF this a] obtain b where b: "mget (runtimeStateRecords s1) k = Some b"
      "sr_Version a \<le> sr_Version b" "frozen_record s a \<longrightarrow> b = a" by (elim exE conjE)
    from moves_get [OF record_write_records [OF step.hyps(2) wf] b(1)] obtain d where
      d: "mget (runtimeStateRecords s2) k = Some d" "sr_Version b \<le> sr_Version d" "frozen_record s1 b \<longrightarrow> d = b"
      by (elim exE conjE)
    have "frozen_record s a \<longrightarrow> d = a" using b(3) d(3) fr by auto
    then show "\<exists>v'. mget (runtimeStateRecords s2) k = Some v' \<and> sr_Version a \<le> sr_Version v'
        \<and> (frozen_record s a \<longrightarrow> v' = a)" using d(1,2) b(2) by auto
  qed
  have tr: "moves (\<lambda>c c'. sc_Consistency c' = sc_Consistency c)
      (runtimeStateCollections s) (runtimeStateCollections s2)"
    by (rule moves_trans [OF cons cons2]) simp
  show ?case
    using records_wf_write [OF step.hyps(2) wf] records_bounded_write [OF step.hyps(2) wf] step.IH step.prems rec tr
    by simp
qed

subsection \<open>A small collection\<close>

definition ex_collection :: "string \<Rightarrow> int \<Rightarrow> StateCollection" where
  "ex_collection mode limit =
     \<lparr>sc_ID = ''c'', sc_TenantID = ''t'', sc_JobRunID = ''j'', sc_CollectionKey = ''facts'',
      sc_Scope = ''job'', sc_SchemaID = ''s'', sc_SchemaRevision = 1, sc_Consistency = mode,
      sc_WriterNodeKey = '''', sc_MaxRecordBytes = 100, sc_MaxRecords = limit,
      sc_RetentionPolicy = '''', sc_ReadPolicy = [], sc_WritePolicy = [], sc_Revision = 0,
      sc_Watermark = 0, sc_CreatedAt = 1, sc_UpdatedAt = 1\<rparr>"

definition ex_record :: "string \<Rightarrow> string \<Rightarrow> StateRecord" where
  "ex_record key digest =
     \<lparr>sr_ID = key, sr_TenantID = ''t'', sr_CollectionID = ''c'', sr_Key = key,
      sr_Value = Some [(''v'', AStr digest)], sr_ArtifactRef = '''', sr_SchemaRevision = 1,
      sr_Version = 1, sr_Digest = digest, sr_CreatedBy = ''u'', sr_UpdatedBy = ''u'',
      sr_CreatedAt = 1, sr_UpdatedAt = 1\<rparr>"

definition ex_json_len :: "payload \<Rightarrow> int" where
  "ex_json_len p = int (length p)"

definition ex_collected :: "string \<Rightarrow> Store" where
  "ex_collected mode = run_cmd (CreateStateCollection (ex_collection mode 1)) ex_store"

definition ex_put :: "string \<Rightarrow> int \<Rightarrow> Store \<Rightarrow> StateRecord cmd" where
  "ex_put digest x = ApplyStateRecordCommand ex_json_len (ex_record ''a'' digest) x (ex_event ''e1'' ''state.updated'')"

lemma ex_put_ok: "\<not> isl (ex_put d x s) \<Longrightarrow> \<exists>r. ex_put d x s = Inr (run_cmd (ex_put d x) s, r)"
  by (rule run_cmd_ok)

lemma ex_put_app:
  "ApplyStateRecordCommand ex_json_len (ex_record ''a'' d) x (ex_event ''e1'' ''state.updated'') s = ex_put d x s"
  by (simp add: ex_put_def)

lemma ex_put_write: "ex_put d x s = Inr (s', r) \<Longrightarrow> record_write ex_json_len s s'"
  unfolding ex_put_def by (rule record_write.command)

lemma ex_collected_wf:
  "records_wf (ex_collected ''append_only'')" "records_bounded (ex_collected ''append_only'')"
  "records_wf (ex_collected ''cas_map'')"
proof -
  have c: "runtimeStateCollections (ex_collected ''append_only'') = [(''t:c'', ex_collection ''append_only'' 1)]"
    "runtimeStateCollections (ex_collected ''cas_map'') = [(''t:c'', ex_collection ''cas_map'' 1)]"
    by code_simp+
  have r: "runtimeStateRecords (ex_collected ''append_only'') = []" "runtimeStateRecords (ex_collected ''cas_map'') = []"
    by code_simp+
  show "records_wf (ex_collected ''append_only'')" "records_wf (ex_collected ''cas_map'')"
    unfolding records_wf_def c r
    by (simp_all add: keyed_def wf_Cons collection_key_def ex_collection_def runtimePlanKey_def plain_id_def)
  show "records_bounded (ex_collected ''append_only'')"
    unfolding records_bounded_def record_count_def c r by (simp add: ex_collection_def mvals_def)
qed

subsection \<open>Properties\<close>

text \<open>
  Shared state stays within its declared shape, whatever sequence of collection and record
  writes runs, plain or fenced: no collection ever holds more records than its limit, no record
  disappears or moves back to an earlier version, and the records of an append-only collection
  are never changed at all. Identifiers of tenants and collections are assumed to contain no
  colon, the separator of the composite keys.
\<close>

theorem state_records_bounded:
  assumes "(record_write json_len)\<^sup>*\<^sup>* s s'" and "records_wf s" and "records_bounded s"
  shows "records_bounded s'
    \<and> (\<forall>k r. mget (runtimeStateRecords s) k = Some r \<longrightarrow>
         (\<exists>r'. mget (runtimeStateRecords s') k = Some r' \<and> sr_Version r \<le> sr_Version r'
            \<and> (frozen_record s r \<longrightarrow> r' = r)))"
  using record_run [OF assms(1,2)] assms(3) unfolding moves_def by simp

theorem state_records_bounded_witness:
  "\<exists>s'. record_write ex_json_len (ex_collected ''append_only'') s' \<and> records_bounded s'
     \<and> record_count ''t'' ''c'' s' = 1 \<and> isl (ex_put ''d2'' 1 s')"
proof -
  let ?s = "ex_collected ''append_only''" and ?s' = "run_cmd (ex_put ''d'' 0) (ex_collected ''append_only'')"
  have "\<not> isl (ex_put ''d'' 0 ?s)" by code_simp
  from ex_put_ok [OF this] obtain r where "ex_put ''d'' 0 ?s = Inr (?s', r)" by blast
  then have w: "record_write ex_json_len ?s ?s'" by (rule ex_put_write)
  then have "(record_write ex_json_len)\<^sup>*\<^sup>* ?s ?s'" by (rule r_into_rtranclp)
  from state_records_bounded [OF this ex_collected_wf(1,2)] have "records_bounded ?s'" by blast
  moreover have "record_count ''t'' ''c'' ?s' = 1" "isl (ex_put ''d2'' 1 ?s')" by code_simp+
  ultimately show ?thesis using w by blast
qed

text \<open>
  C28. No update of a record is lost: once a write that expected version \<open>x\<close> of a record was
  accepted, every later write to the same record that still expects \<open>x\<close> is refused, however many
  other writes run in between.
\<close>

theorem state_record_no_lost_update:
  assumes "ApplyStateRecordCommand json_len r x e s = Inr (s1, r')" and "records_wf s"
    and "(record_write json_len)\<^sup>*\<^sup>* s1 s2" and "record_key q = record_key r"
  shows "sr_Version r' = x + 1 \<and> (\<exists>f. ApplyStateRecordCommand json_len q x e' s2 = Inl f)"
proof -
  from assms(1) obtain s0 where inner: "applyStateRecordLocked json_len s r x = Inr (s0, r')"
    and s1: "s1 = appendRuntimeEventLocked s0 e" by (rule ApplyStateRecordCommand_ok)
  from inner have v: "sr_Version r' = x + 1"
    and stored: "mget (runtimeStateRecords s0) (record_key r) = Some r'"
    by (rule applyStateRecordLocked_ok, simp)+
  have "record_write json_len s s1" using assms(1) by (rule record_write.command)
  then have "records_wf s1" using assms(2) by (rule records_wf_write)
  from record_run [OF assms(3) this] obtain b where
    b: "mget (runtimeStateRecords s2) (record_key r) = Some b" "sr_Version r' \<le> sr_Version b"
    using stored s1 unfolding moves_def by fastforce
  have "\<exists>f. ApplyStateRecordCommand json_len q x e' s2 = Inl f"
  proof (cases "ApplyStateRecordCommand json_len q x e' s2")
    case (Inr p)
    then have "ApplyStateRecordCommand json_len q x e' s2 = Inr (fst p, snd p)" by simp
    then obtain s3 where "applyStateRecordLocked json_len s2 q x = Inr (s3, snd p)"
      by (rule ApplyStateRecordCommand_ok)
    then have "sr_Version b = x" by (rule applyStateRecordLocked_ok) (simp add: assms(4) b(1))
    with b(2) v show ?thesis by simp
  qed simp
  with v show ?thesis by blast
qed

theorem state_record_no_lost_update_witness:
  "\<exists>s1 s2 r1 r2 f. ex_put ''d'' 0 (ex_collected ''cas_map'') = Inr (s1, r1) \<and> ex_put ''d2'' 1 s1 = Inr (s2, r2)
     \<and> ex_put ''d3'' 1 (run_cmd (ex_put ''d4'' 2) s2) = Inl f"
proof -
  let ?s = "ex_collected ''cas_map''"
  let ?s1 = "run_cmd (ex_put ''d'' 0) ?s"
  let ?s2 = "run_cmd (ex_put ''d2'' 1) ?s1"
  let ?s3 = "run_cmd (ex_put ''d4'' 2) ?s2"
  have "\<not> isl (ex_put ''d'' 0 ?s)" "\<not> isl (ex_put ''d2'' 1 ?s1)" "\<not> isl (ex_put ''d4'' 2 ?s2)" by code_simp+
  from this [THEN ex_put_ok] obtain r1 r2 r3 where r: "ex_put ''d'' 0 ?s = Inr (?s1, r1)"
    "ex_put ''d2'' 1 ?s1 = Inr (?s2, r2)" "ex_put ''d4'' 2 ?s2 = Inr (?s3, r3)" by blast
  have w: "records_wf ?s1" by (rule records_wf_write [OF ex_put_write [OF r(1)] ex_collected_wf(3)])
  have "(record_write ex_json_len)\<^sup>*\<^sup>* ?s2 ?s3" by (rule r_into_rtranclp) (rule ex_put_write [OF r(3)])
  from state_record_no_lost_update [where json_len = ex_json_len and r = "ex_record ''a'' ''d2''" and q = "ex_record ''a'' ''d3''"
      and e = "ex_event ''e1'' ''state.updated''" and e' = "ex_event ''e1'' ''state.updated''",
      unfolded ex_put_app, OF r(2) w this]
  have "\<exists>f. ex_put ''d3'' 1 ?s3 = Inl f" by (simp add: record_key_def ex_record_def)
  with r show ?thesis by blast
qed

end
