(* ===== verification/Tool_Calls.thy ===== *)
theory Tool_Calls
  imports State_Tools Dispatch
begin

section \<open>The ledger of tool calls\<close>

text \<open>
  What the commands on tool calls of \<open>State_Tools\<close> guarantee, stated over the step relation
  \<open>tool_write\<close> of all of them: who may register a call, that a request is registered once per
  idempotency key, and that a finished call is frozen. The two versioned transitions are
  instances of \<open>cas_command\<close>, the states with their terminal ones of \<open>guarded_machine\<close>.
\<close>

subsection \<open>Writes as steps\<close>

inductive tool_write :: "Store \<Rightarrow> Store \<Rightarrow> bool" where
  create: "CreateToolCall c s = Inr (s', u) \<Longrightarrow> tool_write s s'"
| register: "RegisterToolCallCommand c e s = Inr (s', v) \<Longrightarrow> tool_write s s'"
| register_fenced: "RegisterFencedToolCallCommand c f now e s = Inr (s', v) \<Longrightarrow> tool_write s s'"
| advance: "ApplyToolCallTransition c x s = Inr (s', v) \<Longrightarrow> tool_write s s'"
| transit: "ApplyToolCallTransitionCommand c x e s = Inr (s', v) \<Longrightarrow> tool_write s s'"
| transit_fenced: "ApplyFencedToolCallTransitionCommand c x f now e s = Inr (s', v) \<Longrightarrow> tool_write s s'"

definition log_only :: "Store \<Rightarrow> Store \<Rightarrow> bool" where
  "log_only s s' = (s' = s \<or> (\<exists>e. s' = appendRuntimeEventLocked s e))"

text \<open>A write either registers a checked call or replaces one that has not finished.\<close>

lemma tool_write_cases:
  assumes "tool_write s s'"
  obtains (new) c where "validateToolCallLocked s c = None" "ToolCall_Validate c = None"
      "mget (runtimeToolCalls s) (tool_key c) = None" "\<not> toolCallIdempotencyExistsLocked s c"
      "log_only (put_tool c s) s'"
  | (replace) n c where "mget (runtimeToolCalls s) (tool_key n) = Some c" "\<not> tool_terminal (tc_State c)"
      "tc_Version n = tc_Version c + 1"
      "log_only (s\<lparr>runtimeToolCalls := mput (tool_key n) n (runtimeToolCalls s)\<rparr>) s'"
      "ToolCall_Validate n = None"
  | (advance) n c k where "mget (runtimeToolCalls s) k = Some c" "\<not> tool_terminal (tc_State c)"
      "tc_Version n = tc_Version c + 1" "same_tool_request c n" "tc_TenantID n = tc_TenantID c" "tc_ID n = tc_ID c"
      "s' = s\<lparr>runtimeToolCalls := mput k n (runtimeToolCalls s)\<rparr>"
  using assms
proof cases
  case (create c u)
  then show ?thesis using new [of c] unfolding CreateToolCall_def log_only_def by simp
next
  case (register c e v)
  then show ?thesis using new [of c] unfolding RegisterToolCallCommand_def log_only_def by auto
next
  case (register_fenced c f now e v)
  then show ?thesis using new [of c] unfolding RegisterFencedToolCallCommand_def log_only_def by auto
next
  case (transit n x e v)
  then show ?thesis using replace [of n] unfolding ApplyToolCallTransitionCommand_def log_only_def put_tool_def by auto
next
  case (transit_fenced n x f now e v)
  then show ?thesis using replace [of n] unfolding ApplyFencedToolCallTransitionCommand_def log_only_def put_tool_def by auto
next
  case (advance n x v)
  let ?upd = "\<lambda>c. c\<lparr>tc_State := tc_State n, tc_SafeResult := tc_SafeResult n,
       tc_ResultDigest := tc_ResultDigest n, tc_ErrorCode := tc_ErrorCode n,
       tc_StartedAt := tc_StartedAt n, tc_FinishedAt := tc_FinishedAt n,
       tc_Version := tc_Version n, tc_UpdatedAt := tc_UpdatedAt n\<rparr>"
  from advance obtain c where "mget (runtimeToolCalls s) (tool_key n) = Some c" "tc_Version c = x"
    "tc_Version n = x + 1" "\<not> tool_terminal (tc_State c)"
    "s' = s\<lparr>runtimeToolCalls := mput (tool_key n) (?upd c) (runtimeToolCalls s)\<rparr>"
    unfolding ApplyToolCallTransition_def Let_def by auto
  then show ?thesis using that(3) [of "tool_key n" c "?upd c"]
    by (simp add: same_tool_request_def toolCallIdempotencyKey_def)
qed

lemma log_only_tools: "log_only s s' \<Longrightarrow> runtimeToolCalls s' = runtimeToolCalls s"
  by (auto simp: log_only_def)

lemma tool_write_moves:
  assumes "tool_write s s'"
  shows "moves (\<lambda>a b. tc_Version a \<le> tc_Version b \<and> (tool_terminal (tc_State a) \<longrightarrow> b = a))
    (runtimeToolCalls s) (runtimeToolCalls s')"
  using assms
proof (cases rule: tool_write_cases)
  case (new c)
  then show ?thesis unfolding log_only_tools [OF new(5)] put_tool_def by (auto intro: moves_mput)
next
  case (replace n c)
  then show ?thesis unfolding log_only_tools [OF replace(4)] by (auto intro: moves_mput)
next
  case (advance n c k)
  then show ?thesis by (auto intro: moves_mput)
qed

definition tool_transition :: "tool_state \<Rightarrow> tool_state \<Rightarrow> fault option" where
  "tool_transition a b =
     (if tool_terminal a then Some (Conflict ''TOOL_CALL_TERMINAL'') else
      case b of ToolState _ \<Rightarrow> Some (Invalid ''TOOL_CALL_STATE_INVALID'') | _ \<Rightarrow> None)"

lemma valid_tool_state: "ToolCall_Validate c = None \<Longrightarrow> \<not> tool_terminal a \<Longrightarrow> tool_transition a (tc_State c) = None"
  by (auto simp: ToolCall_Validate_def tool_transition_def split: tool_state.splits if_splits)

interpretation tool_cas: cas_command "\<lambda>s. mget (runtimeToolCalls s)" tool_key tc_Version tc_State
  tool_transition ApplyToolCallTransitionCommand
proof
  fix n x e s s' v assume "ApplyToolCallTransitionCommand n x e s = Inr (s', v)"
  then show "v = n \<and> (\<exists>c. mget (runtimeToolCalls s) (tool_key n) = Some c \<and> tc_Version c = x
      \<and> tool_transition (tc_State c) (tc_State n) = None) \<and> tc_Version n = x + 1
    \<and> (\<forall>k. mget (runtimeToolCalls s') k = (if k = tool_key n then Some n else mget (runtimeToolCalls s) k))"
    unfolding ApplyToolCallTransitionCommand_def put_tool_def by (auto intro: valid_tool_state)
qed

interpretation tool_fenced_cas: cas_command "\<lambda>s. mget (runtimeToolCalls s)" tool_key tc_Version tc_State
  tool_transition "\<lambda>n x (f, now, e). ApplyFencedToolCallTransitionCommand n x f now e"
proof
  fix n x s s' v and fe :: "string \<times> time \<times> JobEvent"
  assume "(case fe of (f, now, e) \<Rightarrow> ApplyFencedToolCallTransitionCommand n x f now e) s = Inr (s', v)"
  then show "v = n \<and> (\<exists>c. mget (runtimeToolCalls s) (tool_key n) = Some c \<and> tc_Version c = x
      \<and> tool_transition (tc_State c) (tc_State n) = None) \<and> tc_Version n = x + 1
    \<and> (\<forall>k. mget (runtimeToolCalls s') k = (if k = tool_key n then Some n else mget (runtimeToolCalls s) k))"
    unfolding ApplyFencedToolCallTransitionCommand_def put_tool_def
    by (auto intro: valid_tool_state split: prod.splits)
qed

interpretation tool_machine: guarded_machine tool_transition
  "\<lambda>b. case b of ToolState _ \<Rightarrow> False | _ \<Rightarrow> True" tool_terminal
  by unfold_locales (auto simp: tool_transition_def split: tool_state.splits if_splits)

lemma validateToolCallLocked_ok:
  assumes "validateToolCallLocked s c = None"
  obtains attempt agent node view where
    "mget (runtimeAttempts s) (runtimePlanKey (tc_TenantID c) (tc_AttemptID c)) = Some attempt"
    "mget (runtimeAgents s) (runtimePlanKey (tc_TenantID c) (tc_AgentInstanceID c)) = Some agent"
    "mget (runtimeNodes s) (runtimeNodeKey (tc_TenantID c) (tc_NodeRunID c)) = Some node"
    "mget (runtimeContextViews s) (runtimePlanKey (tc_TenantID c) (ra_ContextViewID attempt)) = Some view"
    "ra_State attempt \<in> {RuntimeAttemptPrepared, RuntimeAttemptRunning}"
    "ai_State agent \<in> {AgentRunnable, AgentActive}"
    "AllowsTool view (tc_ToolName c)" "cv_AttemptID view = tc_AttemptID c"
    "ra_AgentInstanceID attempt = tc_AgentInstanceID c" "ra_NodeRunID attempt = tc_NodeRunID c"
    "ra_JobRunID attempt = tc_JobRunID c"
  using assms unfolding validateToolCallLocked_def
  by (auto split: option.splits if_splits)

subsection \<open>A tool call\<close>

definition ex_call :: "string \<Rightarrow> string \<Rightarrow> tool_state \<Rightarrow> int \<Rightarrow> ToolCall" where
  "ex_call i tool st v =
     \<lparr>tc_ID = i, tc_TenantID = ''t'', tc_JobRunID = ''j'', tc_NodeRunID = ''na'', tc_AttemptID = ''at'',
      tc_AgentInstanceID = ''ag'', tc_ToolName = tool, tc_SchemaVersion = ''1'', tc_RequestDigest = ''d'',
      tc_SafeRequest = [(''idempotency_key'', AStr '' k '')], tc_SafeResult = [], tc_ResultDigest = '''',
      tc_State = st, tc_ErrorCode = '''', tc_StartedAt = None, tc_FinishedAt = None, tc_Version = v,
      tc_CreatedAt = 10, tc_UpdatedAt = 10\<rparr>"

definition ex_register :: "string \<Rightarrow> string \<Rightarrow> Store \<Rightarrow> ToolCall cmd" where
  "ex_register i tool = RegisterFencedToolCallCommand (ex_call i tool ToolCallProposed 1) ''f'' 20
     (ex_devent i ''tool.proposed'' 20)"

definition ex_finish :: "tool_state \<Rightarrow> int \<Rightarrow> Store \<Rightarrow> ToolCall cmd" where
  "ex_finish st x = ApplyToolCallTransitionCommand (ex_call ''c'' ''read'' st (x + 1)) x
     (ex_devent ''e9'' ''tool.finished'' 30)"

subsection \<open>Properties\<close>

text \<open>
  C32. A tool call enters the ledger only under governance. A fenced registration succeeds only
  while the calling attempt is running, presents its fence token and has an unexpired lease, its
  agent is runnable or active, and the frozen context view of that very attempt lists the tool.
  The call was not known before, neither by its identifier nor, when it carries an idempotency
  key, by an earlier call of the same attempt to the same tool with that key.
\<close>

theorem tool_call_governed:
  assumes "RegisterFencedToolCallCommand c fence now e s = Inr (s', v)"
  shows "(\<exists>attempt agent view.
      mget (runtimeAttempts s) (runtimePlanKey (tc_TenantID c) (tc_AttemptID c)) = Some attempt
    \<and> ra_State attempt = RuntimeAttemptRunning \<and> ra_FenceToken attempt = fence
    \<and> after_opt (ra_LeaseExpiresAt attempt) now
    \<and> mget (runtimeAgents s) (runtimePlanKey (tc_TenantID c) (ra_AgentInstanceID attempt)) = Some agent
    \<and> ai_State agent \<in> {AgentRunnable, AgentActive}
    \<and> mget (runtimeContextViews s) (runtimePlanKey (tc_TenantID c) (ra_ContextViewID attempt)) = Some view
    \<and> cv_AttemptID view = tc_AttemptID c
    \<and> TrimSpace (tc_ToolName c) \<in> TrimSpace ` set (cv_AllowedTools view))
    \<and> (mget (runtimeToolCalls s) (tool_key c) = None \<and> mget (runtimeToolCalls s') (tool_key c) = Some c)
    \<and> (toolCallIdempotencyKey c \<noteq> '''' \<longrightarrow> (\<forall>x \<in> set (mvals (runtimeToolCalls s)). \<not> same_tool_request c x))"
    (is "?governed \<and> ?stored \<and> ?once")
proof -
  have f: "validateAttemptFenceLocked s (tc_TenantID c) (tc_AttemptID c) fence now = None"
    and t: "validateToolCallLocked s c = None" and new: "mget (runtimeToolCalls s) (tool_key c) = None"
    and idem: "\<not> toolCallIdempotencyExistsLocked s c"
    and s': "s' = appendRuntimeEventLocked (put_tool c s) e"
    using assms unfolding RegisterFencedToolCallCommand_def by auto
  from t obtain attempt agent node view where g:
    "mget (runtimeAttempts s) (runtimePlanKey (tc_TenantID c) (tc_AttemptID c)) = Some attempt"
    "mget (runtimeAgents s) (runtimePlanKey (tc_TenantID c) (tc_AgentInstanceID c)) = Some agent"
    "mget (runtimeNodes s) (runtimeNodeKey (tc_TenantID c) (tc_NodeRunID c)) = Some node"
    "mget (runtimeContextViews s) (runtimePlanKey (tc_TenantID c) (ra_ContextViewID attempt)) = Some view"
    "ra_State attempt \<in> {RuntimeAttemptPrepared, RuntimeAttemptRunning}"
    "ai_State agent \<in> {AgentRunnable, AgentActive}"
    "AllowsTool view (tc_ToolName c)" "cv_AttemptID view = tc_AttemptID c"
    "ra_AgentInstanceID attempt = tc_AgentInstanceID c" "ra_NodeRunID attempt = tc_NodeRunID c"
    "ra_JobRunID attempt = tc_JobRunID c" by (rule validateToolCallLocked_ok)
  have fence: "ra_State attempt = RuntimeAttemptRunning" "ra_FenceToken attempt = fence"
    "after_opt (ra_LeaseExpiresAt attempt) now"
    using f g(1) unfolding validateAttemptFenceLocked_def by (auto split: if_splits)
  have "TrimSpace (tc_ToolName c) \<in> TrimSpace ` set (cv_AllowedTools view)"
    using g(7) unfolding AllowsTool_def Let_def list_ex_iff
    by (elim conjE bexE) (rule image_eqI, erule sym, assumption)
  then have ?governed
    using fence g(1,2,4,6,8,9) by (intro exI [of _ attempt] exI [of _ agent] exI [of _ view]) simp
  moreover have ?stored
    using new by (simp add: s' put_tool_def)
  moreover have ?once
    using idem unfolding toolCallIdempotencyExistsLocked_def list_ex_iff
    by (cases "toolCallIdempotencyKey c = ''''") (simp_all only: if_True if_False, blast+)
  ultimately show ?thesis by (rule conjI [OF _ conjI])
qed

theorem tool_call_governed_witness:
  "\<exists>v s'. ex_register ''c'' ''read'' ex_running = Inr (s', v)
     \<and> mget (runtimeToolCalls s') ''t:c'' = Some (ex_call ''c'' ''read'' ToolCallProposed 1)
     \<and> isl (ex_register ''c2'' ''read'' s') \<and> isl (ex_register ''c3'' ''write'' s')"
proof -
  let ?s' = "run_cmd (ex_register ''c'' ''read'') ex_running"
  have "\<not> isl (ex_register ''c'' ''read'' ex_running)" by code_simp
  then obtain v where v: "ex_register ''c'' ''read'' ex_running = Inr (?s', v)"
    using run_cmd_ok [of "ex_register ''c'' ''read''" ex_running] by blast
  have k: "tool_key (ex_call ''c'' ''read'' ToolCallProposed 1) = ''t:c''" by code_simp
  from tool_call_governed [OF v [unfolded ex_register_def]]
  have "mget (runtimeToolCalls ?s') ''t:c'' = Some (ex_call ''c'' ''read'' ToolCallProposed 1)"
    unfolding k ex_register_def by blast
  moreover have "isl (ex_register ''c2'' ''read'' ?s')" "isl (ex_register ''c3'' ''write'' ?s')" by code_simp+
  ultimately show ?thesis using v by blast
qed

text \<open>
  The ledger keeps what happened: along any sequence of tool-call writes no call disappears,
  versions never decrease, and a call that has succeeded, failed or ended unknown keeps every
  field, result and error code included.
\<close>

theorem tool_calls_final:
  assumes "tool_write\<^sup>*\<^sup>* s s'" and "mget (runtimeToolCalls s) k = Some c"
  shows "\<exists>c'. mget (runtimeToolCalls s') k = Some c' \<and> tc_Version c \<le> tc_Version c'
    \<and> (tool_terminal (tc_State c) \<longrightarrow> c' = c)"
  using assms
proof (induction rule: rtranclp_induct)
  case (step s1 s2)
  then obtain c1 where c1: "mget (runtimeToolCalls s1) k = Some c1" "tc_Version c \<le> tc_Version c1"
    "tool_terminal (tc_State c) \<longrightarrow> c1 = c" by blast
  from moves_get [OF tool_write_moves [OF step.hyps(2)] c1(1)] obtain c2 where
    "mget (runtimeToolCalls s2) k = Some c2" "tc_Version c1 \<le> tc_Version c2"
    "tool_terminal (tc_State c1) \<longrightarrow> c2 = c1" by (elim exE conjE)
  with c1 show ?case by auto
qed auto

theorem tool_calls_final_witness:
  "\<exists>s1 s2 v1 v2. ex_register ''c'' ''read'' ex_running = Inr (s1, v1) \<and> ex_finish ToolCallFailed 1 s1 = Inr (s2, v2)
     \<and> mget (runtimeToolCalls s2) ''t:c'' = Some (ex_call ''c'' ''read'' ToolCallFailed 2)
     \<and> \<not> tool_write\<^sup>*\<^sup>* s2 s1"
proof -
  let ?s1 = "run_cmd (ex_register ''c'' ''read'') ex_running"
  let ?s2 = "run_cmd (ex_finish ToolCallFailed 1) ?s1"
  have "\<not> isl (ex_register ''c'' ''read'' ex_running)" "\<not> isl (ex_finish ToolCallFailed 1 ?s1)" by code_simp+
  then obtain v1 v2 where v: "ex_register ''c'' ''read'' ex_running = Inr (?s1, v1)"
    "ex_finish ToolCallFailed 1 ?s1 = Inr (?s2, v2)"
    using run_cmd_ok [of "ex_register ''c'' ''read''" ex_running] run_cmd_ok [of "ex_finish ToolCallFailed 1" ?s1]
    by blast
  have g2: "mget (runtimeToolCalls ?s2) ''t:c'' = Some (ex_call ''c'' ''read'' ToolCallFailed 2)" by code_simp
  have g1: "mget (runtimeToolCalls ?s1) ''t:c'' = Some (ex_call ''c'' ''read'' ToolCallProposed 1)" by code_simp
  have "\<not> tool_write\<^sup>*\<^sup>* ?s2 ?s1"
  proof
    assume "tool_write\<^sup>*\<^sup>* ?s2 ?s1"
    from tool_calls_final [OF this g2] g1 show False by (simp add: ex_call_def)
  qed
  with v g2 show ?thesis by blast
qed

text \<open>
  The memory store replaces the whole row in a versioned transition: nothing ties the new value
  to the attempt or the tool of the stored call, and the fence that is checked is the one of the
  attempt named in the new value.
\<close>

lemma transition_replaces_identity:
  assumes "mget (runtimeToolCalls s) (tool_key n) = Some c" and "\<not> tool_terminal (tc_State c)"
    and "tc_Version n = tc_Version c + 1" and "ToolCall_Validate n = None"
    and "validateAttemptFenceLocked s (tc_TenantID n) (tc_AttemptID n) f now = None"
    and "validateRuntimeEventLocked s e = None"
  shows "\<exists>s'. ApplyFencedToolCallTransitionCommand n (tc_Version c) f now e s = Inr (s', n)
    \<and> mget (runtimeToolCalls s') (tool_key n) = Some n"
  using assms unfolding ApplyFencedToolCallTransitionCommand_def by (simp add: put_tool_def)

end
