(* ===== verification/Yields.thy ===== *)
theory Yields
  imports Dispatch Idempotency
begin

section \<open>Yielding and resuming an execution\<close>

text \<open>
  The store commands that end an attempt with a durable wait and that resolve the wait
  (\<^verbatim>\<open>internal/persistence/memory/runtime_yield.go\<close>), and the service that resumes a wait
  (\<open>ResumeYield\<close> and \<open>validateYieldRefs\<close> of \<^verbatim>\<open>internal/runtime/yield.go\<close>).

  The lemmas show that only the lease holder can yield, that a yield frees the lease and the
  reservations of the attempt, that a node is resumed only when everything it waits for has
  succeeded, and that resuming is idempotent in its key: \<open>ResumeYield\<close> is an instance of
  \<open>idempotent_command\<close>.
\<close>

subsection \<open>Store (runtime_yield.go)\<close>

definition yield_key :: "RuntimeYield \<Rightarrow> string" where
  "yield_key y = runtimePlanKey (ry_TenantID y) (ry_ID y)"

definition Store_RuntimeYield :: "string \<Rightarrow> string \<Rightarrow> Store \<Rightarrow> RuntimeYield res" where
  "Store_RuntimeYield tenantID i s =
     lookup_or NotFound (mget (runtimeYields s) (runtimePlanKey tenantID i)) Inr"

definition RuntimeYields :: "string \<Rightarrow> string \<Rightarrow> Store \<Rightarrow> RuntimeYield list" where
  "RuntimeYields tenantID jobID s =
     sort_by (\<lambda>a b. if ry_YieldedAt a = ry_YieldedAt b then ry_ID a < ry_ID b
                     else ry_YieldedAt a < ry_YieldedAt b)
       (filter (\<lambda>y. ry_TenantID y = tenantID \<and> (jobID = '''' \<or> ry_JobRunID y = jobID))
         (mvals (runtimeYields s)))"

definition release_reservation ::
    "RuntimeAttempt \<Rightarrow> string \<Rightarrow> time \<Rightarrow> ResourceReservation \<Rightarrow> ResourceReservation" where
  "release_reservation attempt fenceToken at r =
     (if rr_TenantID r = ra_TenantID attempt \<and> rr_AttemptID r = ra_ID attempt
         \<and> rr_State r = ReservationHeld \<and> rr_FenceToken r = fenceToken
      then r\<lparr>rr_State := ReservationReleased, rr_FenceToken := '''', rr_ExpiresAt := None,
             rr_ReleasedAt := Some at, rr_UpdatedAt := at\<rparr>
      else r)"

definition Store_YieldDispatch ::
    "RuntimeYield \<Rightarrow> NodeRun \<Rightarrow> int \<Rightarrow> RuntimeAttempt \<Rightarrow> int \<Rightarrow> AgentInstance \<Rightarrow> int \<Rightarrow> string \<Rightarrow> JobEvent
     \<Rightarrow> Store \<Rightarrow> (RuntimeYield \<times> NodeRun \<times> RuntimeAttempt \<times> AgentInstance) cmd" where
  "Store_YieldDispatch y node expectedNodeVersion attempt expectedAttemptVersion agent expectedAgentVersion
      fenceToken event s =
     check_nil (RuntimeYield_Validate y) (
     check_nil (NodeRun_Validate node) (
     check_nil (RuntimeAttempt_Validate attempt) (
     check_nil (AgentInstance_Validate agent) (
     bind_res (dispatchStateLocked (nr_TenantID node) (nr_ID node) (ra_ID attempt) (ai_ID agent) s)
       (\<lambda>(currentNode, currentAttempt, currentAgent).
     case mget (runtimeYields s) (yield_key y) of
       Some existing \<Rightarrow> Inr (s, (existing, currentNode, currentAttempt, currentAgent))
     | None \<Rightarrow>
     require (\<not> (nr_Version currentNode \<noteq> expectedNodeVersion \<or> ra_Version currentAttempt \<noteq> expectedAttemptVersion
                 \<or> ai_Version currentAgent \<noteq> expectedAgentVersion)) (Conflict ''DISPATCH_VERSION_CONFLICT'') (
     require (\<not> (nr_State currentNode \<noteq> NodeRunning \<or> ra_State currentAttempt \<noteq> RuntimeAttemptRunning
                 \<or> ai_State currentAgent \<noteq> AgentActive \<or> nr_LeaseOwner currentNode \<noteq> ra_LeaseOwner currentAttempt
                 \<or> ra_LeaseOwner currentAttempt \<noteq> je_ActorID event \<or> fenceToken = ''''
                 \<or> nr_FenceToken currentNode \<noteq> fenceToken \<or> ra_FenceToken currentAttempt \<noteq> fenceToken))
       (Conflict ''DISPATCH_LEASE_STALE'') (
     require (\<not> (ry_TenantID y \<noteq> nr_TenantID node \<or> ry_JobRunID y \<noteq> nr_JobRunID node
                 \<or> ry_NodeRunID y \<noteq> nr_ID node \<or> ry_AttemptID y \<noteq> ra_ID attempt
                 \<or> ry_AgentInstanceID y \<noteq> ai_ID agent)) (Invalid ''RUNTIME_YIELD_SCOPE_INVALID'') (
     require (\<not> (nr_Version node \<noteq> expectedNodeVersion + 1 \<or> ra_Version attempt \<noteq> expectedAttemptVersion + 1
                 \<or> ai_Version agent \<noteq> expectedAgentVersion + 1)) (Invalid ''RUNTIME_YIELD_VERSION_INVALID'') (
     check_nil (NodeRun_Transition currentNode (nr_State node)) (
     check_nil (RuntimeAttempt_Transition currentAttempt (ra_State attempt)) (
     check_nil (AgentInstance_Transition currentAgent (ai_State agent)) (
     check_nil (validateRuntimeEventLocked s event) (
     Inr (appendRuntimeEventLocked
       ((put_dispatch node attempt agent s)\<lparr>
          runtimeYields := mput (yield_key y) y (runtimeYields s),
          runtimeReservations :=
            mmap (release_reservation attempt fenceToken (je_OccurredAt event)) (runtimeReservations s)\<rparr>) event,
       (y, node, attempt, agent)))))))))))))))"

text \<open>A replayed resolution returns the rows as they are now, the zero value for a missing one.\<close>

definition ResolveRuntimeYield ::
    "RuntimeYield \<Rightarrow> int \<Rightarrow> NodeRun \<Rightarrow> int \<Rightarrow> AgentInstance \<Rightarrow> int \<Rightarrow> JobEvent
     \<Rightarrow> Store \<Rightarrow> (RuntimeYield \<times> NodeRun \<times> AgentInstance) cmd" where
  "ResolveRuntimeYield y expectedYieldVersion node expectedNodeVersion agent expectedAgentVersion event s =
     check_nil (RuntimeYield_Validate y) (
     check_nil (NodeRun_Validate node) (
     check_nil (AgentInstance_Validate agent) (
     lookup_or NotFound (mget (runtimeYields s) (yield_key y)) (\<lambda>currentYield.
     if ry_State currentYield = RuntimeYieldResolved then
       (if ry_ResumeKey currentYield = ry_ResumeKey y
        then Inr (s, (currentYield,
               case mget (runtimeNodes s) (node_key node) of None \<Rightarrow> zero_node | Some n \<Rightarrow> n,
               case mget (runtimeAgents s) (agent_key agent) of None \<Rightarrow> zero_agent | Some a \<Rightarrow> a))
        else Inl (Conflict ''RUNTIME_YIELD_ALREADY_RESOLVED''))
     else
     lookup_or NotFound (mget (runtimeNodes s) (node_key node)) (\<lambda>currentNode.
     lookup_or NotFound (mget (runtimeAgents s) (agent_key agent)) (\<lambda>currentAgent.
     require (\<not> (ry_Version currentYield \<noteq> expectedYieldVersion \<or> nr_Version currentNode \<noteq> expectedNodeVersion
                 \<or> ai_Version currentAgent \<noteq> expectedAgentVersion \<or> ry_Version y \<noteq> expectedYieldVersion + 1
                 \<or> nr_Version node \<noteq> expectedNodeVersion + 1 \<or> ai_Version agent \<noteq> expectedAgentVersion + 1))
       (Conflict ''RUNTIME_YIELD_VERSION_CONFLICT'') (
     check_nil (NodeRun_Transition currentNode (nr_State node)) (
     check_nil (AgentInstance_Transition currentAgent (ai_State agent)) (
     check_nil (validateRuntimeEventLocked s event) (
     Inr (appendRuntimeEventLocked
       (s\<lparr>runtimeYields := mput (yield_key y) y (runtimeYields s),
          runtimeNodes := mput (node_key node) node (runtimeNodes s),
          runtimeAgents := mput (agent_key agent) agent (runtimeAgents s)\<rparr>) event,
       (y, node, agent))))))))))))"

subsection \<open>Service (yield.go)\<close>

definition yield_ref_check :: "Store \<Rightarrow> NodeRun \<Rightarrow> string \<Rightarrow> bool \<Rightarrow> string \<Rightarrow> fault option" where
  "yield_ref_check s node reason requireReady ref =
     (if reason = YieldWaitChildren then
        (case mget (runtimeNodes s) (runtimeNodeKey (nr_TenantID node) ref) of
           None \<Rightarrow> Some NotFound
         | Some child \<Rightarrow>
             if nr_JobRunID child \<noteq> nr_JobRunID node \<or> nr_ID child = nr_ID node
             then Some (Invalid ''RUNTIME_YIELD_CHILD_SCOPE_INVALID'')
             else if requireReady \<and> nr_State child \<noteq> NodeSucceeded \<and> nr_State child \<noteq> NodeSkipped
             then (if nr_State child = NodeFailed \<or> nr_State child = NodeBlocked \<or> nr_State child = NodeCancelled
                   then Some (Conflict ''RUNTIME_YIELD_CHILD_FAILED'')
                   else Some (Conflict ''RUNTIME_YIELD_NOT_READY''))
             else None)
      else if reason = YieldWaitEffect then
        (case mget (runtimeEffects s) (runtimeEffectKey (nr_TenantID node) ref) of
           None \<Rightarrow> Some NotFound
         | Some effect \<Rightarrow>
             if ee_JobRunID effect \<noteq> nr_JobRunID node \<or> ee_NodeRunID effect \<noteq> nr_ID node
             then Some (Invalid ''RUNTIME_YIELD_EFFECT_SCOPE_INVALID'')
             else if requireReady \<and> ee_State effect \<noteq> EffectSucceeded
             then (if ee_State effect = EffectFailed \<or> ee_State effect = EffectManual
                   then Some (Conflict ''RUNTIME_YIELD_EFFECT_FAILED'')
                   else Some (Conflict ''RUNTIME_YIELD_NOT_READY''))
             else None)
      else if reason = YieldWaitHuman then
        (if blank ref then Some (Invalid ''RUNTIME_YIELD_HUMAN_REF_INVALID'') else None)
      else None)"

definition validateYieldRefs :: "Store \<Rightarrow> NodeRun \<Rightarrow> string \<Rightarrow> string list \<Rightarrow> bool \<Rightarrow> fault option" where
  "validateYieldRefs s node reason refs requireReady =
     check_all (yield_ref_check s node reason requireReady) refs"

definition resume_event :: "string \<Rightarrow> time \<Rightarrow> string \<Rightarrow> string \<Rightarrow> RuntimeYield \<Rightarrow> NodeRun \<Rightarrow> JobEvent" where
  "resume_event newID now tenantID actorID y node =
     \<lparr>je_ID = newID, je_TenantID = tenantID, je_JobRunID = ry_JobRunID y, je_Sequence = 0,
      je_Type = ''attempt.resume_ready'', je_NodeKey = nr_NodeKey node, je_ActorType = ''runtime'',
      je_ActorID = TrimSpace actorID, je_CorrelationID = '''',
      je_IdempotencyKey = ''yield-resume:'' @ ry_ResumeKey y,
      je_Payload = [(''yield_id'', AStr (ry_ID y)), (''attempt_id'', AStr (ry_AttemptID y)),
        (''reason'', AStr (ry_Reason y))],
      je_OccurredAt = now\<rparr>"

definition ResumeYield ::
    "string \<Rightarrow> time \<Rightarrow> string \<Rightarrow> string \<Rightarrow> string \<Rightarrow> string \<Rightarrow> Store \<Rightarrow> RuntimeYield cmd" where
  "ResumeYield newID now tenantID yieldID resumeKey0 actorID s =
     (let resumeKey = TrimSpace resumeKey0 in
     require (resumeKey \<noteq> '''') (Invalid ''RUNTIME_YIELD_RESUME_KEY_REQUIRED'') (
     bind_res (Store_RuntimeYield tenantID yieldID s) (\<lambda>y.
     if ry_State y = RuntimeYieldResolved then
       (if ry_ResumeKey y = resumeKey then Inr (s, y)
        else Inl (Conflict ''RUNTIME_YIELD_ALREADY_RESOLVED''))
     else
     bind_res (Store_NodeRun tenantID (ry_NodeRunID y) s) (\<lambda>node.
     bind_res (Store_AgentInstance tenantID (ry_AgentInstanceID y) s) (\<lambda>agent.
     check_nil (validateYieldRefs s node (ry_Reason y) (ry_WaitRefs y) True) (
     check_nil (NodeRun_Transition node NodeReady) (
     check_nil (AgentInstance_Transition agent AgentRunnable) (
     let y' = y\<lparr>ry_State := RuntimeYieldResolved, ry_ResumeKey := resumeKey, ry_ResolvedAt := Some now,
                ry_Version := ry_Version y + 1, ry_UpdatedAt := now\<rparr>;
         node' = node\<lparr>nr_State := NodeReady, nr_Version := nr_Version node + 1, nr_UpdatedAt := now\<rparr>;
         agent' = agent\<lparr>ai_State := AgentRunnable, ai_Version := ai_Version agent + 1, ai_UpdatedAt := now\<rparr> in
     bind_res (ResolveRuntimeYield y' (ry_Version y) node' (nr_Version node) agent' (ai_Version agent)
                (resume_event newID now tenantID actorID y' node') s) (\<lambda>(s', y'', _).
     Inr (s', y''))))))))))"

subsection \<open>What a successful command has checked\<close>

lemma Store_YieldDispatch_ok:
  assumes "Store_YieldDispatch y node x attempt v agent z fence event s = Inr (s', r)"
  obtains (replay) existing where "mget (runtimeYields s) (yield_key y) = Some existing" and "s' = s"
  | (yielded) cn ca cg where "mget (runtimeNodes s) (node_key node) = Some cn"
      and "mget (runtimeAttempts s) (runtimePlanKey (nr_TenantID node) (ra_ID attempt)) = Some ca"
      and "mget (runtimeAgents s) (runtimePlanKey (nr_TenantID node) (ai_ID agent)) = Some cg"
      and "RuntimeYield_Validate y = None" and "NodeRun_Validate node = None" and "RuntimeAttempt_Validate attempt = None"
      and "mget (runtimeYields s) (yield_key y) = None"
      and "nr_Version cn = x" and "ra_Version ca = v" and "ai_Version cg = z"
      and "nr_State cn = NodeRunning" and "ra_State ca = RuntimeAttemptRunning" and "ai_State cg = AgentActive"
      and "ra_LeaseOwner ca = je_ActorID event" and "fence \<noteq> ''''" and "nr_FenceToken cn = fence"
      and "ra_FenceToken ca = fence" and "ry_TenantID y = nr_TenantID node" and "ry_NodeRunID y = nr_ID node"
      and "nr_Version node = x + 1" and "ra_Version attempt = v + 1" and "ai_Version agent = z + 1"
      and "node_transition (nr_State cn) (nr_State node) = None"
      and "attempt_transition (ra_State ca) (ra_State attempt) = None"
      and "agent_transition (ai_State cg) (ai_State agent) = None"
      and "s' = appendRuntimeEventLocked
            ((put_dispatch node attempt agent s)\<lparr>
               runtimeYields := mput (yield_key y) y (runtimeYields s),
               runtimeReservations :=
                 mmap (release_reservation attempt fence (je_OccurredAt event)) (runtimeReservations s)\<rparr>) event"
      and "r = (y, node, attempt, agent)"
proof -
  from assms obtain st where
    "dispatchStateLocked (nr_TenantID node) (nr_ID node) (ra_ID attempt) (ai_ID agent) s = Inr st"
    unfolding Store_YieldDispatch_def by (simp only: check_nil_Inr bind_res_Inr) blast
  then obtain cn ca cg where st:
    "dispatchStateLocked (nr_TenantID node) (nr_ID node) (ra_ID attempt) (ai_ID agent) s = Inr (cn, ca, cg)"
    by (cases st) auto
  then have m: "mget (runtimeNodes s) (node_key node) = Some cn"
    "mget (runtimeAttempts s) (runtimePlanKey (nr_TenantID node) (ra_ID attempt)) = Some ca"
    "mget (runtimeAgents s) (runtimePlanKey (nr_TenantID node) (ai_ID agent)) = Some cg"
    by (simp_all add: dispatchStateLocked_Inr node_key_def)
  note fin = assms [unfolded Store_YieldDispatch_def st bind_res_simps prod.case NodeRun_Transition_def
      RuntimeAttempt_Transition_def AgentInstance_Transition_def]
  show ?thesis
  proof (cases "mget (runtimeYields s) (yield_key y)")
    case (Some existing)
    with fin have "s' = s" by simp
    with replay [OF Some] show ?thesis by simp
  next
    case None
    from fin show ?thesis unfolding None option.case
      apply (simp only: check_nil_Inr require_Inr sum.inject prod.inject de_Morgan_disj not_not)
      apply (elim exE conjE)
      apply (rule yielded [OF m]; (assumption | rule None | rule sym, assumption)?)
      done
  qed
qed

lemma ResolveRuntimeYield_ok:
  assumes "ResolveRuntimeYield y v node x agent z event s = Inr (s', r)"
  obtains (replay) cy n a where "mget (runtimeYields s) (yield_key y) = Some cy"
      and "ry_State cy = RuntimeYieldResolved" and "ry_ResumeKey cy = ry_ResumeKey y" and "s' = s"
      and "r = (cy, n, a)"
  | (resolved) cy cn cg where "mget (runtimeYields s) (yield_key y) = Some cy"
      and "mget (runtimeNodes s) (node_key node) = Some cn"
      and "mget (runtimeAgents s) (agent_key agent) = Some cg"
      and "RuntimeYield_Validate y = None" and "NodeRun_Validate node = None"
      and "ry_State cy \<noteq> RuntimeYieldResolved"
      and "ry_Version cy = v" and "nr_Version cn = x" and "ai_Version cg = z" and "ry_Version y = v + 1"
      and "nr_Version node = x + 1" and "ai_Version agent = z + 1"
      and "node_transition (nr_State cn) (nr_State node) = None"
      and "agent_transition (ai_State cg) (ai_State agent) = None"
      and "s' = appendRuntimeEventLocked
            (s\<lparr>runtimeYields := mput (yield_key y) y (runtimeYields s),
               runtimeNodes := mput (node_key node) node (runtimeNodes s),
               runtimeAgents := mput (agent_key agent) agent (runtimeAgents s)\<rparr>) event"
      and "r = (y, node, agent)"
proof -
  from assms obtain cy where cy: "mget (runtimeYields s) (yield_key y) = Some cy"
    unfolding ResolveRuntimeYield_def by (simp only: check_nil_Inr lookup_or_Inr) blast
  note fin = assms [unfolded ResolveRuntimeYield_def cy lookup_or_simps NodeRun_Transition_def
      AgentInstance_Transition_def]
  show ?thesis
  proof (cases "ry_State cy = RuntimeYieldResolved")
    case True
    with fin have "ry_ResumeKey cy = ry_ResumeKey y" "s' = s" "\<exists>n a. r = (cy, n, a)"
      by (simp_all split: if_splits) blast
    with replay [OF cy True] show ?thesis by blast
  next
    case False
    from fin show ?thesis unfolding if_not_P [OF False]
      apply (simp only: check_nil_Inr require_Inr lookup_or_Inr sum.inject prod.inject de_Morgan_disj not_not)
      apply (elim exE conjE)
      apply (rule resolved [OF cy]; (assumption | rule False | rule sym, assumption)?)
      done
  qed
qed

lemma ResumeYield_ok:
  assumes "ResumeYield i now t yid key actor s = Inr (s', y')"
  obtains (replay) "mget (runtimeYields s) (runtimePlanKey t yid) = Some y'" "TrimSpace key \<noteq> ''''"
      "ry_State y' = RuntimeYieldResolved" "ry_ResumeKey y' = TrimSpace key" "s' = s"
  | (resumed) y node agent r where "mget (runtimeYields s) (runtimePlanKey t yid) = Some y"
      "mget (runtimeNodes s) (runtimePlanKey t (ry_NodeRunID y)) = Some node"
      "mget (runtimeAgents s) (runtimePlanKey t (ry_AgentInstanceID y)) = Some agent"
      "TrimSpace key \<noteq> ''''" "ry_State y \<noteq> RuntimeYieldResolved"
      "\<forall>ref \<in> set (ry_WaitRefs y). yield_ref_check s node (ry_Reason y) True ref = None"
      "node_transition (nr_State node) NodeReady = None"
      "ResolveRuntimeYield
         (y\<lparr>ry_State := RuntimeYieldResolved, ry_ResumeKey := TrimSpace key, ry_ResolvedAt := Some now,
            ry_Version := ry_Version y + 1, ry_UpdatedAt := now\<rparr>) (ry_Version y)
         (node\<lparr>nr_State := NodeReady, nr_Version := nr_Version node + 1, nr_UpdatedAt := now\<rparr>) (nr_Version node)
         (agent\<lparr>ai_State := AgentRunnable, ai_Version := ai_Version agent + 1, ai_UpdatedAt := now\<rparr>) (ai_Version agent)
         (resume_event i now t actor
           (y\<lparr>ry_State := RuntimeYieldResolved, ry_ResumeKey := TrimSpace key, ry_ResolvedAt := Some now,
              ry_Version := ry_Version y + 1, ry_UpdatedAt := now\<rparr>)
           (node\<lparr>nr_State := NodeReady, nr_Version := nr_Version node + 1, nr_UpdatedAt := now\<rparr>)) s
       = Inr (s', y', r)"
proof -
  from assms obtain y where y: "mget (runtimeYields s) (runtimePlanKey t yid) = Some y"
    unfolding ResumeYield_def Let_def Store_RuntimeYield_def
    by (simp only: require_Inr bind_res_Inr lookup_or_Inr) blast
  note fin = assms [unfolded ResumeYield_def Let_def Store_RuntimeYield_def y lookup_or_simps bind_res_simps]
  show ?thesis
  proof (cases "ry_State y = RuntimeYieldResolved")
    case True
    with fin have "ry_ResumeKey y = TrimSpace key" "s' = s" "y' = y" "TrimSpace key \<noteq> ''''"
      by (simp_all split: if_splits)
    with True y replay show ?thesis by blast
  next
    case False
    note f = fin [unfolded if_not_P [OF False] Store_NodeRun_def Store_AgentInstance_def require_Inr bind_res_Inr
        lookup_or_Inr check_nil_Inr sum.inject prod.inject]
    from f have key: "TrimSpace key \<noteq> ''''" by blast
    from f show ?thesis
      apply (elim exE conjE)
      apply (simp only: sum.inject prod.inject validateYieldRefs_def check_all_None NodeRun_Transition_def
          split_paired_all prod.case)
      apply (rule resumed [OF y _ _ key False]; assumption?)
      done
  qed
qed

subsection \<open>What a reference that is ready means\<close>

lemma child_ready:
  "yield_ref_check s node YieldWaitChildren True ref = None \<Longrightarrow>
   \<exists>child. mget (runtimeNodes s) (runtimeNodeKey (nr_TenantID node) ref) = Some child
     \<and> nr_JobRunID child = nr_JobRunID node \<and> nr_State child \<in> {NodeSucceeded, NodeSkipped}"
  by (cases "mget (runtimeNodes s) (runtimeNodeKey (nr_TenantID node) ref)")
     (auto simp: yield_ref_check_def split: if_splits)

lemma effect_ready:
  "yield_ref_check s node YieldWaitEffect True ref = None \<Longrightarrow>
   \<exists>effect. mget (runtimeEffects s) (runtimeEffectKey (nr_TenantID node) ref) = Some effect
     \<and> ee_NodeRunID effect = nr_ID node \<and> ee_State effect = EffectSucceeded"
  by (cases "mget (runtimeEffects s) (runtimeEffectKey (nr_TenantID node) ref)")
     (auto simp: yield_ref_check_def yield_words split: if_splits)

lemma human_ready: "yield_ref_check s node YieldWaitHuman True ref = None \<Longrightarrow> \<not> blank ref"
  by (simp add: yield_ref_check_def yield_words split: if_splits)

subsection \<open>Resuming is idempotent\<close>

type_synonym resume_call = "string \<times> time \<times> string \<times> string \<times> string \<times> string"

fun resume :: "resume_call \<Rightarrow> Store \<Rightarrow> RuntimeYield cmd" where
  "resume (i, now, t, yid, key, actor) s = ResumeYield i now t yid key actor s"

fun same_resume :: "resume_call \<Rightarrow> resume_call \<Rightarrow> bool" where
  "same_resume (i, now, t, yid, key, actor) (i', now', t', yid', key', actor') =
     (t' = t \<and> yid' = yid \<and> TrimSpace key' = TrimSpace key)"

fun resume_done :: "Store \<Rightarrow> resume_call \<Rightarrow> RuntimeYield \<Rightarrow> bool" where
  "resume_done s (i, now, t, yid, key, actor) y =
     (mget (runtimeYields s) (runtimePlanKey t yid) = Some y \<and> TrimSpace key \<noteq> ''''
      \<and> ry_State y = RuntimeYieldResolved \<and> ry_ResumeKey y = TrimSpace key)"

lemma ResumeYield_done:
  assumes "keyed yield_key (runtimeYields s)" and "ResumeYield i now t yid key actor s = Inr (s', y')"
  shows "resume_done s' (i, now, t, yid, key, actor) y'"
  using assms(2)
proof (cases rule: ResumeYield_ok)
  case replay
  then show ?thesis by simp
next
  case (resumed y node agent r)
  have k: "runtimePlanKey t yid = yield_key y" using keyed_key [OF assms(1) resumed(1)] .
  from resumed(8) show ?thesis
  proof (cases rule: ResolveRuntimeYield_ok)
    case (replay cy n a)
    then show ?thesis using resumed(1,4) k by (simp add: yield_key_def)
  next
    case (resolved cy cn cg)
    then show ?thesis using resumed(4) k by (simp add: yield_key_def)
  qed
qed

interpretation resumes: idempotent_command "\<lambda>s. keyed yield_key (runtimeYields s)" resume same_resume resume_done
proof
  fix s a s' v assume "keyed yield_key (runtimeYields s)" and r: "resume a s = Inr (s', v)"
  moreover obtain i now t yid key actor where a: "a = (i, now, t, yid, key, actor)" by (cases a)
  ultimately show "resume_done s' a v" using ResumeYield_done [of s i now t yid key actor s' v] by simp
next
  fix s a v b assume d: "resume_done s a v" and k: "same_resume a b"
  obtain i now t yid key actor where a: "a = (i, now, t, yid, key, actor)" by (cases a)
  obtain i' now' t' yid' key' actor' where b: "b = (i', now', t', yid', key', actor')" by (cases b)
  show "resume b s = Inr (s, v)"
    using d k by (simp add: a b ResumeYield_def Store_RuntimeYield_def)
next
  fix a show "same_resume a a" by (cases a) simp
qed

subsection \<open>An execution that waits\<close>

definition ex_yield :: "string \<Rightarrow> string \<Rightarrow> RuntimeYield" where
  "ex_yield reason ref =
     \<lparr>ry_ID = ''y'', ry_TenantID = ''t'', ry_JobRunID = ''j'', ry_NodeRunID = ''na'', ry_AttemptID = ''at'',
      ry_AgentInstanceID = ''ag'', ry_Reason = reason, ry_WaitRefs = [ref], ry_State = RuntimeYieldOpen,
      ry_ResumeKey = '''', ry_Version = 1, ry_YieldedAt = 20, ry_ResolvedAt = None, ry_CreatedAt = 20,
      ry_UpdatedAt = 20\<rparr>"

definition ex_yielding :: "Store \<Rightarrow> (RuntimeYield \<times> NodeRun \<times> RuntimeAttempt \<times> AgentInstance) cmd" where
  "ex_yielding = Store_YieldDispatch (ex_yield YieldWaitChildren ''nb'')
     (ex_dnode NodeWaitingChildren 4) 3 (ex_attempt RuntimeAttemptYielded 3) 2
     (ex_dagent AgentWaitingChildren 3) 2 ''f'' (ex_devent ''e3'' ''attempt.yielded'' 20)"

definition ex_waiting :: Store where
  "ex_waiting = run_cmd ex_yielding ex_running"

definition ex_skip :: "Store \<Rightarrow> NodeRun cmd" where
  "ex_skip = ApplyNodeTransition ((ex_noderun ''nb'' ''b'' NodeSkipped)\<lparr>nr_Version := 2\<rparr>) 1
     (ex_event ''e4'' ''node.skipped'')"

subsection \<open>Properties\<close>

text \<open>
  C37. A suspended node runs again only when what it waits for has succeeded. When \<^verbatim>\<open>ResumeYield\<close>
  succeeds on an open wait, every awaited child node has succeeded or was skipped, every awaited
  external effect has succeeded, and every awaited human reference is non-blank; the node has
  then moved to ready and the agent to runnable with the next versions, the wait is resolved
  under the caller's key and one event is logged.
\<close>

theorem resume_only_when_ready:
  assumes "ResumeYield i now t yid key actor s = Inr (s', y')" and "keyed yield_key (runtimeYields s)"
    and "mget (runtimeYields s) (runtimePlanKey t yid) = Some y" and "ry_State y \<noteq> RuntimeYieldResolved"
    and "mget (runtimeNodes s) (runtimePlanKey t (ry_NodeRunID y)) = Some node"
  shows "(ry_Reason y = YieldWaitChildren \<longrightarrow> (\<forall>ref \<in> set (ry_WaitRefs y). \<exists>child.
            mget (runtimeNodes s) (runtimeNodeKey (nr_TenantID node) ref) = Some child
            \<and> nr_JobRunID child = nr_JobRunID node \<and> nr_State child \<in> {NodeSucceeded, NodeSkipped}))
    \<and> (ry_Reason y = YieldWaitEffect \<longrightarrow> (\<forall>ref \<in> set (ry_WaitRefs y). \<exists>effect.
            mget (runtimeEffects s) (runtimeEffectKey (nr_TenantID node) ref) = Some effect
            \<and> ee_NodeRunID effect = nr_ID node \<and> ee_State effect = EffectSucceeded))
    \<and> (ry_Reason y = YieldWaitHuman \<longrightarrow> (\<forall>ref \<in> set (ry_WaitRefs y). \<not> blank ref))
    \<and> (\<exists>n'. mget (runtimeNodes s') (node_key node) = Some n' \<and> nr_State n' = NodeReady
         \<and> nr_Version n' = nr_Version node + 1)
    \<and> (\<exists>agent a'. mget (runtimeAgents s) (runtimePlanKey t (ry_AgentInstanceID y)) = Some agent
         \<and> mget (runtimeAgents s') (agent_key agent) = Some a' \<and> ai_State a' = AgentRunnable
         \<and> ai_Version a' = ai_Version agent + 1)
    \<and> mget (runtimeYields s') (runtimePlanKey t yid) = Some y' \<and> ry_State y' = RuntimeYieldResolved
    \<and> ry_ResumeKey y' = TrimSpace key
    \<and> length (events_of s' (ry_JobRunID y)) = length (events_of s (ry_JobRunID y)) + 1"
  using assms(1)
proof (cases rule: ResumeYield_ok)
  case replay
  with assms(3,4) show ?thesis by simp
next
  case (resumed y0 node0 agent r)
  have same: "y0 = y" "node0 = node" using resumed(1,2) assms(3,5) by simp_all
  note refs = resumed(6) [unfolded same]
  have ky: "runtimePlanKey t yid = yield_key y" using keyed_key [OF assms(2,3)] .
  have children: "ry_Reason y = YieldWaitChildren \<longrightarrow> (\<forall>ref \<in> set (ry_WaitRefs y). \<exists>child.
            mget (runtimeNodes s) (runtimeNodeKey (nr_TenantID node) ref) = Some child
            \<and> nr_JobRunID child = nr_JobRunID node \<and> nr_State child \<in> {NodeSucceeded, NodeSkipped})"
  proof (intro impI ballI)
    fix ref assume "ry_Reason y = YieldWaitChildren" "ref \<in> set (ry_WaitRefs y)"
    with refs show "\<exists>child. mget (runtimeNodes s) (runtimeNodeKey (nr_TenantID node) ref) = Some child
      \<and> nr_JobRunID child = nr_JobRunID node \<and> nr_State child \<in> {NodeSucceeded, NodeSkipped}"
      by (intro child_ready) simp
  qed
  have effects: "ry_Reason y = YieldWaitEffect \<longrightarrow> (\<forall>ref \<in> set (ry_WaitRefs y). \<exists>effect.
            mget (runtimeEffects s) (runtimeEffectKey (nr_TenantID node) ref) = Some effect
            \<and> ee_NodeRunID effect = nr_ID node \<and> ee_State effect = EffectSucceeded)"
  proof (intro impI ballI)
    fix ref assume "ry_Reason y = YieldWaitEffect" "ref \<in> set (ry_WaitRefs y)"
    with refs show "\<exists>effect. mget (runtimeEffects s) (runtimeEffectKey (nr_TenantID node) ref) = Some effect
      \<and> ee_NodeRunID effect = nr_ID node \<and> ee_State effect = EffectSucceeded"
      by (intro effect_ready) simp
  qed
  have human: "ry_Reason y = YieldWaitHuman \<longrightarrow> (\<forall>ref \<in> set (ry_WaitRefs y). \<not> blank ref)"
  proof (intro impI ballI)
    fix ref assume "ry_Reason y = YieldWaitHuman" "ref \<in> set (ry_WaitRefs y)"
    with refs show "\<not> blank ref" by (intro human_ready [of s node]) simp
  qed
  have effect: "(\<exists>n'. mget (runtimeNodes s') (node_key node) = Some n' \<and> nr_State n' = NodeReady
         \<and> nr_Version n' = nr_Version node + 1)
    \<and> (\<exists>agent a'. mget (runtimeAgents s) (runtimePlanKey t (ry_AgentInstanceID y)) = Some agent
         \<and> mget (runtimeAgents s') (agent_key agent) = Some a' \<and> ai_State a' = AgentRunnable
         \<and> ai_Version a' = ai_Version agent + 1)
    \<and> mget (runtimeYields s') (runtimePlanKey t yid) = Some y' \<and> ry_State y' = RuntimeYieldResolved
    \<and> ry_ResumeKey y' = TrimSpace key
    \<and> length (events_of s' (ry_JobRunID y)) = length (events_of s (ry_JobRunID y)) + 1"
    using resumed(8) [unfolded same]
  proof (cases rule: ResolveRuntimeYield_ok)
    case (replay cy n a)
    then show ?thesis using assms(3,4) ky by (simp add: yield_key_def)
  next
    case (resolved cy cn cg)
    have y': "y' = y\<lparr>ry_State := RuntimeYieldResolved, ry_ResumeKey := TrimSpace key, ry_ResolvedAt := Some now,
        ry_Version := ry_Version y + 1, ry_UpdatedAt := now\<rparr>" using resolved(16) by simp
    show ?thesis unfolding resolved(15) events_of_append y' ky
      using resumed(3) [unfolded same] by (simp add: yield_key_def node_key_def agent_key_def resume_event_def events_of_def)
  qed
  show ?thesis using children effects human effect by blast
qed



lemma ex_skipped:
  "\<exists>s n s' y'. ex_skip ex_waiting = Inr (s, n) \<and> runtimeYields s = [(''t:y'', ex_yield YieldWaitChildren ''nb'')]
     \<and> mget (runtimeNodes s) (runtimePlanKey ''t'' ''na'') = Some (ex_dnode NodeWaitingChildren 4)
     \<and> ResumeYield ''e5'' 30 ''t'' ''y'' ''k'' '''' s = Inr (s', y')"
proof -
  have "case ex_skip ex_waiting of Inl _ \<Rightarrow> False | Inr (s, n) \<Rightarrow> runtimeYields s = [(''t:y'', ex_yield YieldWaitChildren ''nb'')]
     \<and> mget (runtimeNodes s) (runtimePlanKey ''t'' ''na'') = Some (ex_dnode NodeWaitingChildren 4)
     \<and> \<not> isl (ResumeYield ''e5'' 30 ''t'' ''y'' ''k'' '''' s)" by code_simp
  then show ?thesis by (auto split: sum.splits) (metis not_isl_Inr surj_pair)
qed

lemma ex_skipped_keyed: "m = [(''t:y'', ex_yield YieldWaitChildren ''nb'')] \<Longrightarrow> keyed yield_key m"
  by (simp add: keyed_def wf_Cons yield_key_def ex_yield_def runtimePlanKey_def)

theorem resume_only_when_ready_witness:
  "\<exists>s s' n y'. ex_skip ex_waiting = Inr (s, n) \<and> isl (ResumeYield ''e5'' 30 ''t'' ''y'' ''k'' '''' ex_waiting)
     \<and> ResumeYield ''e5'' 30 ''t'' ''y'' ''k'' '''' s = Inr (s', y') \<and> ry_ResumeKey y' = ''k''
     \<and> (\<exists>n'. mget (runtimeNodes s') ''t:na'' = Some n' \<and> nr_State n' = NodeReady \<and> nr_Version n' = 5)"
proof -
  obtain s n s' y' where n: "ex_skip ex_waiting = Inr (s, n)"
    and ys: "runtimeYields s = [(''t:y'', ex_yield YieldWaitChildren ''nb'')]"
    and nd: "mget (runtimeNodes s) (runtimePlanKey ''t'' ''na'') = Some (ex_dnode NodeWaitingChildren 4)"
    and r: "ResumeYield ''e5'' 30 ''t'' ''y'' ''k'' '''' s = Inr (s', y')" using ex_skipped by blast
  have y: "mget (runtimeYields s) (runtimePlanKey ''t'' ''y'') = Some (ex_yield YieldWaitChildren ''nb'')"
    by (simp add: ys mget_def runtimePlanKey_def)
  have bad: "isl (ResumeYield ''e5'' 30 ''t'' ''y'' ''k'' '''' ex_waiting)" by code_simp
  have k: "TrimSpace ''k'' = ''k''" "node_key (ex_dnode NodeWaitingChildren 4) = ''t:na''" by code_simp+
  from resume_only_when_ready [OF r ex_skipped_keyed [OF ys] y, of "ex_dnode NodeWaitingChildren 4"] nd
  have "(\<exists>n'. mget (runtimeNodes s') ''t:na'' = Some n' \<and> nr_State n' = NodeReady \<and> nr_Version n' = 5)
      \<and> ry_ResumeKey y' = ''k''"
    unfolding k by (simp add: ex_yield_def yield_words ex_dnode_def)
  with n r bad show ?thesis by blast
qed

text \<open>
  A wait is resolved once. After a successful \<^verbatim>\<open>ResumeYield\<close>, a retry with the same key (up to
  surrounding white space), at any time and by any actor, returns the same resolved wait and
  changes nothing; a request with another key is refused as already resolved.
\<close>

theorem resume_once:
  assumes "ResumeYield i now t yid key actor s = Inr (s', y)" and "keyed yield_key (runtimeYields s)"
    and "TrimSpace key' \<noteq> ''''"
  shows "ResumeYield i' now' t yid key' actor' s' =
    (if TrimSpace key' = TrimSpace key then Inr (s', y) else Inl (Conflict ''RUNTIME_YIELD_ALREADY_RESOLVED''))"
proof (cases "TrimSpace key' = TrimSpace key")
  case True
  then show ?thesis
    using resumes.retry [of s "(i, now, t, yid, key, actor)" s' y "(i', now', t, yid, key', actor')"] assms(1,2) by simp
next
  case False
  from ResumeYield_done [OF assms(2,1)] False assms(3)
  show ?thesis by (simp add: ResumeYield_def Store_RuntimeYield_def)
qed

theorem resume_once_witness:
  "\<exists>s' y'. ResumeYield ''e5'' 30 ''t'' ''y'' ''k'' '''' (run_cmd ex_skip ex_waiting) = Inr (s', y')
     \<and> ResumeYield ''e6'' 40 ''t'' ''y'' '' k '' ''u'' s' = Inr (s', y')
     \<and> ResumeYield ''e7'' 40 ''t'' ''y'' ''other'' ''u'' s' = Inl (Conflict ''RUNTIME_YIELD_ALREADY_RESOLVED'')"
proof -
  obtain s n s' y' where n: "ex_skip ex_waiting = Inr (s, n)"
    and ys: "runtimeYields s = [(''t:y'', ex_yield YieldWaitChildren ''nb'')]"
    and r: "ResumeYield ''e5'' 30 ''t'' ''y'' ''k'' '''' s = Inr (s', y')" using ex_skipped by blast
  note w = ex_skipped_keyed [OF ys]
  have s: "run_cmd ex_skip ex_waiting = s" by (simp add: run_cmd_def n)
  have k: "TrimSpace ''k'' = ''k''" "TrimSpace '' k '' = ''k''" "TrimSpace ''other'' = ''other''" by code_simp+
  show ?thesis
    using r resume_once [OF r w, of "'' k ''" "''e6''" 40 "''u''"]
      resume_once [OF r w, of "''other''" "''e7''" 40 "''u''"] unfolding k s by simp
qed

end
