(* ===== verification/Provider_Store.thy ===== *)
theory Provider_Store
  imports Registry Idempotency
begin

section \<open>Provider callbacks, bills and reconciliations in the store\<close>

text \<open>
  \<^verbatim>\<open>internal/persistence/memory/runtime_provider.go\<close>: the durable inbox of provider and agent
  callbacks, the bills of providers and the reconciliations that settle a disagreement. A Go
  pointer that may be nil is an option. Both ingress commands are idempotent in the identity the
  provider chose: they are instances of \<open>idempotent_command\<close>.
\<close>

subsection \<open>Keys and reads\<close>

definition providerInboxKey :: "string \<Rightarrow> string \<Rightarrow> string \<Rightarrow> string" where
  "providerInboxKey tenantID providerID messageID = tenantID @ '':'' @ providerID @ '':'' @ messageID"

definition providerReconKey :: "string \<Rightarrow> string \<Rightarrow> string" where
  "providerReconKey tenantID requestKey = tenantID @ '':'' @ requestKey"

definition providerBillKey :: "string \<Rightarrow> string \<Rightarrow> string \<Rightarrow> string" where
  "providerBillKey tenantID providerID billID = tenantID @ '':'' @ providerID @ '':'' @ billID"

definition inbox_key :: "ProviderInboxMessage \<Rightarrow> string" where
  "inbox_key m = providerInboxKey (pi_TenantID m) (pi_ProviderID m) (pi_MessageID m)"

definition recon_key :: "ProviderReconciliation \<Rightarrow> string" where
  "recon_key r = providerReconKey (rcn_TenantID r) (rcn_RequestKey r)"

definition bill_key :: "ProviderBillRecord \<Rightarrow> string" where
  "bill_key b = providerBillKey (pb_TenantID b) (pb_ProviderID b) (pb_BillID b)"

definition Store_ProviderInboxMessage :: "string \<Rightarrow> string \<Rightarrow> Store \<Rightarrow> ProviderInboxMessage res" where
  "Store_ProviderInboxMessage tenantID i s =
     lookup_or NotFound
       (find (\<lambda>m. pi_TenantID m = tenantID \<and> pi_ID m = i) (mvals (runtimeProviderInbox s))) Inr"

definition ProviderInboxMessages :: "string \<Rightarrow> string \<Rightarrow> Store \<Rightarrow> ProviderInboxMessage list" where
  "ProviderInboxMessages tenantID jobID s =
     sort_by (\<lambda>a b. if pi_ReceivedAt a = pi_ReceivedAt b then pi_ID a < pi_ID b
                     else pi_ReceivedAt a < pi_ReceivedAt b)
       (filter (\<lambda>m. pi_TenantID m = tenantID \<and> (jobID = '''' \<or> pi_JobRunID m = jobID))
         (mvals (runtimeProviderInbox s)))"

definition ProviderReconciliations :: "string \<Rightarrow> string \<Rightarrow> Store \<Rightarrow> ProviderReconciliation list" where
  "ProviderReconciliations tenantID effectID s =
     sort_by (\<lambda>a b. rcn_CreatedAt a < rcn_CreatedAt b)
       (filter (\<lambda>r. rcn_TenantID r = tenantID \<and> (effectID = '''' \<or> rcn_EffectID r = effectID))
         (mvals (runtimeProviderRecons s)))"

definition Store_ProviderReconciliation :: "string \<Rightarrow> string \<Rightarrow> Store \<Rightarrow> ProviderReconciliation res" where
  "Store_ProviderReconciliation tenantID i s =
     lookup_or NotFound
       (find (\<lambda>r. rcn_TenantID r = tenantID \<and> rcn_ID r = i) (mvals (runtimeProviderRecons s))) Inr"

definition ProviderBillRecords :: "string \<Rightarrow> string \<Rightarrow> Store \<Rightarrow> ProviderBillRecord list" where
  "ProviderBillRecords tenantID effectID s =
     sort_by (\<lambda>a b. pb_ObservedAt a < pb_ObservedAt b)
       (filter (\<lambda>b. pb_TenantID b = tenantID \<and> (effectID = '''' \<or> pb_EffectID b = effectID))
         (mvals (runtimeProviderBills s)))"

subsection \<open>Provider callbacks\<close>

definition zero_effect :: ExternalEffect where
  "zero_effect =
     \<lparr>ee_ID = '''', ee_TenantID = '''', ee_JobRunID = '''', ee_NodeRunID = '''', ee_AttemptID = '''',
      ee_ResourceReservationID = '''', ee_Kind = '''', ee_IdempotencyKey = '''', ee_State = EffectState '''',
      ee_ExternalID = '''', ee_RequestDigest = '''', ee_ResponseDigest = '''', ee_CostMinor = 0,
      ee_Currency = '''', ee_SafeSummary = [], ee_ErrorCode = '''', ee_Version = 0, ee_CreatedAt = 0,
      ee_UpdatedAt = 0\<rparr>"

definition providerEffectEqual :: "ExternalEffect \<Rightarrow> ExternalEffect \<Rightarrow> bool" where
  "providerEffectEqual l r =
     (ee_ID l = ee_ID r \<and> ee_TenantID l = ee_TenantID r \<and> ee_JobRunID l = ee_JobRunID r
      \<and> ee_NodeRunID l = ee_NodeRunID r \<and> ee_AttemptID l = ee_AttemptID r
      \<and> ee_ResourceReservationID l = ee_ResourceReservationID r \<and> ee_Kind l = ee_Kind r
      \<and> ee_IdempotencyKey l = ee_IdempotencyKey r \<and> ee_State l = ee_State r
      \<and> ee_ExternalID l = ee_ExternalID r \<and> ee_RequestDigest l = ee_RequestDigest r
      \<and> ee_ResponseDigest l = ee_ResponseDigest r \<and> ee_CostMinor l = ee_CostMinor r
      \<and> ee_Currency l = ee_Currency r \<and> ee_ErrorCode l = ee_ErrorCode r \<and> ee_Version l = ee_Version r)"

text \<open>The checks on the effect a callback carries, if it carries one.\<close>

definition inbox_effect_check ::
    "ProviderInboxMessage \<Rightarrow> ExternalEffect \<Rightarrow> int \<Rightarrow> Store \<Rightarrow> fault option" where
  "inbox_effect_check message effect expectedEffectVersion s =
     (case mget (runtimeEffects s) (effect_key effect) of
        None \<Rightarrow> Some NotFound
      | Some current \<Rightarrow>
          let noEffectChange = (ee_Version current = expectedEffectVersion \<and> ee_Version effect = ee_Version current
                                \<and> providerEffectEqual current effect) in
          if \<not> noEffectChange \<and> (ee_Version current \<noteq> expectedEffectVersion
                                  \<or> ee_Version effect \<noteq> expectedEffectVersion + 1)
          then Some (Conflict ''EFFECT_VERSION_CONFLICT'')
          else case (if noEffectChange then None else ExternalEffect_Transition current (ee_State effect)) of
            Some e \<Rightarrow> Some e
          | None \<Rightarrow>
              if ee_TenantID effect \<noteq> pi_TenantID message \<or> ee_JobRunID effect \<noteq> pi_JobRunID message
                 \<or> ee_ExternalID effect \<noteq> pi_ExternalID message
              then Some (Invalid ''PROVIDER_INBOX_EFFECT_SCOPE_INVALID'') else None)"

definition inbox_recon_check :: "ProviderInboxMessage \<Rightarrow> ProviderReconciliation \<Rightarrow> fault option" where
  "inbox_recon_check message r =
     (case ProviderReconciliation_Validate r of Some e \<Rightarrow> Some e | None \<Rightarrow>
       if rcn_TenantID r \<noteq> pi_TenantID message \<or> rcn_JobRunID r \<noteq> pi_JobRunID message
       then Some (Invalid ''PROVIDER_RECONCILIATION_SCOPE_INVALID'') else None)"

definition put_recon :: "ProviderReconciliation option \<Rightarrow> Store \<Rightarrow> Store" where
  "put_recon r s =
     (case r of None \<Rightarrow> s
      | Some x \<Rightarrow> s\<lparr>runtimeProviderRecons := mput (recon_key x) x (runtimeProviderRecons s)\<rparr>)"

definition put_effect :: "ExternalEffect option \<Rightarrow> Store \<Rightarrow> Store" where
  "put_effect e s =
     (case e of None \<Rightarrow> s
      | Some x \<Rightarrow> s\<lparr>runtimeEffects := mput (effect_key x) x (runtimeEffects s)\<rparr>)"

definition inbox_stored :: "ProviderInboxMessage \<Rightarrow> ExternalEffect option \<Rightarrow> time \<Rightarrow> ProviderInboxMessage" where
  "inbox_stored message effect at =
     (case effect of
        None \<Rightarrow> message\<lparr>pi_State := ''pending_reconciliation''\<rparr>
      | Some x \<Rightarrow> message\<lparr>pi_EffectID := ee_ID x, pi_State := ''applied'', pi_ProcessedAt := Some at\<rparr>)"

definition ReceiveProviderInboxCommand ::
    "ProviderInboxMessage \<Rightarrow> ExternalEffect option \<Rightarrow> int \<Rightarrow> ProviderReconciliation option \<Rightarrow> JobEvent
     \<Rightarrow> Store \<Rightarrow> (ProviderInboxMessage \<times> ExternalEffect) cmd" where
  "ReceiveProviderInboxCommand message effect expectedEffectVersion reconciliation event s =
     check_nil (ProviderInboxMessage_Validate message) (
     case mget (runtimeProviderInbox s) (inbox_key message) of
       Some existing \<Rightarrow>
         if pi_ReceivedDigest existing \<noteq> pi_ReceivedDigest message
         then Inl (Conflict ''PROVIDER_INBOX_DIGEST_CONFLICT'')
         else if pi_EffectID existing \<noteq> ''''
         then Inr (s, (existing,
                case mget (runtimeEffects s) (runtimeEffectKey (pi_TenantID existing) (pi_EffectID existing)) of
                  None \<Rightarrow> zero_effect | Some x \<Rightarrow> x))
         else Inr (s, (existing, zero_effect))
     | None \<Rightarrow>
     require (\<not> (je_TenantID event \<noteq> pi_TenantID message \<or> je_JobRunID event \<noteq> pi_JobRunID message))
       (Invalid ''JOB_EVENT_SCOPE_INVALID'') (
     check_nil (validateCommandEvent s event) (
     check_nil (case effect of None \<Rightarrow> None
                | Some x \<Rightarrow> inbox_effect_check message x expectedEffectVersion s) (
     check_nil (case reconciliation of None \<Rightarrow> None | Some r \<Rightarrow> inbox_recon_check message r) (
     let message' = inbox_stored message effect (je_OccurredAt event);
         s1 = put_effect effect (put_recon reconciliation s) in
     Inr (appendRuntimeEventLocked
       (s1\<lparr>runtimeProviderInbox := mput (inbox_key message) message' (runtimeProviderInbox s1)\<rparr>) event,
       (message', case effect of None \<Rightarrow> zero_effect | Some x \<Rightarrow> x)))))))"

subsection \<open>Agent callbacks\<close>

definition ReceiveAgentInboxCommand ::
    "ProviderInboxMessage \<Rightarrow> JobEvent \<Rightarrow> Store \<Rightarrow> ProviderInboxMessage cmd" where
  "ReceiveAgentInboxCommand message event s =
     check_nil (ProviderInboxMessage_Validate message) (
     require (\<not> (pi_State message \<noteq> ''received'' \<or> pi_EffectID message \<noteq> '''' \<or> pi_ProcessedAt message \<noteq> None))
       (Invalid ''AGENT_INBOX_STATE_INVALID'') (
     case mget (runtimeProviderInbox s) (inbox_key message) of
       Some existing \<Rightarrow>
         if pi_ReceivedDigest existing \<noteq> pi_ReceivedDigest message
         then Inl (Conflict ''PROVIDER_INBOX_DIGEST_CONFLICT'') else Inr (s, existing)
     | None \<Rightarrow>
     require (\<not> (je_TenantID event \<noteq> pi_TenantID message \<or> je_JobRunID event \<noteq> pi_JobRunID message))
       (Invalid ''JOB_EVENT_SCOPE_INVALID'') (
     check_nil (validateCommandEvent s event) (
     Inr (appendRuntimeEventLocked
       (s\<lparr>runtimeProviderInbox := mput (inbox_key message) message (runtimeProviderInbox s)\<rparr>) event,
       message)))))"

definition CompleteAgentInboxCommand ::
    "ProviderInboxMessage \<Rightarrow> int \<Rightarrow> JobEvent \<Rightarrow> Store \<Rightarrow> ProviderInboxMessage cmd" where
  "CompleteAgentInboxCommand message expectedVersion event s =
     check_nil (ProviderInboxMessage_Validate message) (
     require (\<not> (pi_State message \<noteq> ''applied'' \<and> pi_State message \<noteq> ''failed''))
       (Invalid ''AGENT_INBOX_STATE_INVALID'') (
     require (\<not> (pi_EffectID message \<noteq> '''' \<or> pi_ProcessedAt message = None
                 \<or> pi_Version message \<noteq> expectedVersion + 1)) (Invalid ''AGENT_INBOX_COMPLETION_INVALID'') (
     lookup_or NotFound (mget (runtimeProviderInbox s) (inbox_key message)) (\<lambda>current.
     require (\<not> (pi_ReceivedDigest current \<noteq> pi_ReceivedDigest message \<or> pi_ID current \<noteq> pi_ID message))
       (Conflict ''PROVIDER_INBOX_DIGEST_CONFLICT'') (
     if pi_State current = pi_State message \<and> pi_Version current = pi_Version message
     then Inr (s, current)
     else
     require (\<not> (pi_State current \<noteq> ''received'' \<or> pi_Version current \<noteq> expectedVersion))
       (Conflict ''AGENT_INBOX_VERSION_CONFLICT'') (
     require (\<not> (je_TenantID event \<noteq> pi_TenantID message \<or> je_JobRunID event \<noteq> pi_JobRunID message))
       (Invalid ''JOB_EVENT_SCOPE_INVALID'') (
     check_nil (validateCommandEvent s event) (
     Inr (appendRuntimeEventLocked
       (s\<lparr>runtimeProviderInbox := mput (inbox_key message) message (runtimeProviderInbox s)\<rparr>) event,
       message)))))))))"

subsection \<open>Bills and reconciliations\<close>

definition RecordProviderBillCommand ::
    "ProviderBillRecord \<Rightarrow> ProviderReconciliation option \<Rightarrow> JobEvent \<Rightarrow> Store \<Rightarrow> ProviderBillRecord cmd" where
  "RecordProviderBillCommand bill reconciliation event s =
     check_nil (ProviderBillRecord_Validate bill) (
     case mget (runtimeProviderBills s) (bill_key bill) of
       Some existing \<Rightarrow>
         if pb_BillDigest existing \<noteq> pb_BillDigest bill
         then Inl (Conflict ''PROVIDER_BILL_DIGEST_CONFLICT'') else Inr (s, existing)
     | None \<Rightarrow>
     require (\<not> (je_TenantID event \<noteq> pb_TenantID bill \<or> je_JobRunID event \<noteq> pb_JobRunID bill))
       (Invalid ''JOB_EVENT_SCOPE_INVALID'') (
     check_nil (validateCommandEvent s event) (
     check_nil (case reconciliation of None \<Rightarrow> None | Some r \<Rightarrow> ProviderReconciliation_Validate r) (
     let s1 = put_recon reconciliation s in
     Inr (appendRuntimeEventLocked
       (s1\<lparr>runtimeProviderBills := mput (bill_key bill) bill (runtimeProviderBills s1)\<rparr>) event, bill)))))"

definition ResolveProviderReconciliationCommand ::
    "ProviderReconciliation \<Rightarrow> ExternalEffect \<Rightarrow> int \<Rightarrow> JobEvent
     \<Rightarrow> Store \<Rightarrow> (ProviderReconciliation \<times> ExternalEffect) cmd" where
  "ResolveProviderReconciliationCommand r effect expectedEffectVersion event s =
     check_nil (ProviderReconciliation_Validate r) (
     lookup_or NotFound (mget (runtimeProviderRecons s) (recon_key r)) (\<lambda>currentRecon.
     require (rcn_Version currentRecon = rcn_Version r - 1) (Conflict ''PROVIDER_RECONCILIATION_VERSION_CONFLICT'') (
     lookup_or NotFound (mget (runtimeEffects s) (effect_key effect)) (\<lambda>currentEffect.
     require (\<not> (ee_Version currentEffect \<noteq> expectedEffectVersion \<or> ee_Version effect \<noteq> expectedEffectVersion + 1))
       (Conflict ''EFFECT_VERSION_CONFLICT'') (
     check_nil (if ee_State effect \<noteq> ee_State currentEffect
                then ExternalEffect_Transition currentEffect (ee_State effect) else None) (
     require (\<not> (je_TenantID event \<noteq> ee_TenantID effect \<or> je_JobRunID event \<noteq> ee_JobRunID effect))
       (Invalid ''JOB_EVENT_SCOPE_INVALID'') (
     check_nil (validateCommandEvent s event) (
     Inr (appendRuntimeEventLocked
       (s\<lparr>runtimeProviderRecons := mput (recon_key r) r (runtimeProviderRecons s),
          runtimeEffects := mput (effect_key effect) effect (runtimeEffects s)\<rparr>) event, (r, effect))))))))))"

subsection \<open>What a successful command did\<close>

definition put_inbox :: "ProviderInboxMessage \<Rightarrow> Store \<Rightarrow> Store" where
  "put_inbox m s = s\<lparr>runtimeProviderInbox := mput (inbox_key m) m (runtimeProviderInbox s)\<rparr>"

definition put_bill :: "ProviderBillRecord \<Rightarrow> Store \<Rightarrow> Store" where
  "put_bill b s = s\<lparr>runtimeProviderBills := mput (bill_key b) b (runtimeProviderBills s)\<rparr>"

lemma inbox_stored_sel [simp]:
  "inbox_key (inbox_stored m eff at) = inbox_key m"
  "pi_ReceivedDigest (inbox_stored m eff at) = pi_ReceivedDigest m"
  "pi_TenantID (inbox_stored m eff at) = pi_TenantID m"
  "pi_JobRunID (inbox_stored m eff at) = pi_JobRunID m"
  "pi_ID (inbox_stored m eff at) = pi_ID m"
  by (simp_all add: inbox_stored_def inbox_key_def split: option.split)

lemma put_recon_sel [simp]:
  "runtimeProviderInbox (put_recon r s) = runtimeProviderInbox s"
  "runtimeProviderBills (put_recon r s) = runtimeProviderBills s"
  "runtimeEffects (put_recon r s) = runtimeEffects s"
  "runtimeEvents (put_recon r s) = runtimeEvents s"
  by (simp_all add: put_recon_def split: option.split)

lemma put_effect_sel [simp]:
  "runtimeProviderInbox (put_effect x s) = runtimeProviderInbox s"
  "runtimeProviderBills (put_effect x s) = runtimeProviderBills s"
  "runtimeProviderRecons (put_effect x s) = runtimeProviderRecons s"
  "runtimeEvents (put_effect x s) = runtimeEvents s"
  by (simp_all add: put_effect_def split: option.split)

lemma put_inbox_sel [simp]:
  "runtimeProviderInbox (put_inbox m s) = mput (inbox_key m) m (runtimeProviderInbox s)"
  "runtimeProviderRecons (put_inbox m s) = runtimeProviderRecons s"
  "runtimeEffects (put_inbox m s) = runtimeEffects s"
  "runtimeEvents (put_inbox m s) = runtimeEvents s"
  by (simp_all add: put_inbox_def)

lemma put_bill_sel [simp]:
  "runtimeProviderBills (put_bill b s) = mput (bill_key b) b (runtimeProviderBills s)"
  "runtimeProviderRecons (put_bill b s) = runtimeProviderRecons s"
  "runtimeEffects (put_bill b s) = runtimeEffects s"
  by (simp_all add: put_bill_def)

lemma ReceiveProviderInboxCommand_ok:
  assumes "ReceiveProviderInboxCommand m eff ev rc e s = Inr (s', m', x')"
  obtains (replay) "ProviderInboxMessage_Validate m = None"
      "mget (runtimeProviderInbox s) (inbox_key m) = Some m'"
      "pi_ReceivedDigest m' = pi_ReceivedDigest m" "s' = s"
  | (received) "ProviderInboxMessage_Validate m = None" "mget (runtimeProviderInbox s) (inbox_key m) = None"
      "je_TenantID e = pi_TenantID m" "je_JobRunID e = pi_JobRunID m" "validateCommandEvent s e = None"
      "\<And>x. eff = Some x \<Longrightarrow> inbox_effect_check m x ev s = None"
      "\<And>r. rc = Some r \<Longrightarrow> inbox_recon_check m r = None"
      "m' = inbox_stored m eff (je_OccurredAt e)"
      "s' = appendRuntimeEventLocked (put_inbox m' (put_effect eff (put_recon rc s))) e"
      "x' = (case eff of None \<Rightarrow> zero_effect | Some x \<Rightarrow> x)"
proof (cases "mget (runtimeProviderInbox s) (inbox_key m)")
  case (Some old)
  then have v: "ProviderInboxMessage_Validate m = None" and "pi_ReceivedDigest old = pi_ReceivedDigest m" "m' = old" "s' = s"
    using assms unfolding ReceiveProviderInboxCommand_def check_nil_Inr by (auto split: if_splits)
  with replay Some show ?thesis by blast
next
  case None
  have *: "ProviderInboxMessage_Validate m = None" "je_TenantID e = pi_TenantID m \<and> je_JobRunID e = pi_JobRunID m"
    "validateCommandEvent s e = None"
    "(case eff of None \<Rightarrow> None | Some x \<Rightarrow> inbox_effect_check m x ev s) = None"
    "(case rc of None \<Rightarrow> None | Some r \<Rightarrow> inbox_recon_check m r) = None"
    "m' = inbox_stored m eff (je_OccurredAt e)"
    "s' = appendRuntimeEventLocked (put_inbox m' (put_effect eff (put_recon rc s))) e"
    "x' = (case eff of None \<Rightarrow> zero_effect | Some x \<Rightarrow> x)"
    using assms
    unfolding ReceiveProviderInboxCommand_def None option.case Let_def require_Inr check_nil_Inr sum.inject prod.inject
    by (auto simp: put_inbox_def)
  show ?thesis using * by (intro received) (simp_all add: None)
qed

lemma ReceiveAgentInboxCommand_ok:
  assumes "ReceiveAgentInboxCommand m e s = Inr (s', m')"
  obtains (replay) "mget (runtimeProviderInbox s) (inbox_key m) = Some m'"
      "pi_ReceivedDigest m' = pi_ReceivedDigest m" "s' = s"
  | (received) "mget (runtimeProviderInbox s) (inbox_key m) = None" "m' = m" "pi_State m = ''received''"
      "je_TenantID e = pi_TenantID m" "je_JobRunID e = pi_JobRunID m"
      "s' = appendRuntimeEventLocked (put_inbox m s) e"
proof (cases "mget (runtimeProviderInbox s) (inbox_key m)")
  case (Some old)
  then have "pi_ReceivedDigest old = pi_ReceivedDigest m" "m' = old" "s' = s"
    using assms unfolding ReceiveAgentInboxCommand_def check_nil_Inr require_Inr by (auto split: if_splits)
  with replay Some show ?thesis by blast
next
  case None
  have "m' = m" "pi_State m = ''received''" "je_TenantID e = pi_TenantID m" "je_JobRunID e = pi_JobRunID m"
    "s' = appendRuntimeEventLocked (put_inbox m s) e"
    using assms
    unfolding ReceiveAgentInboxCommand_def None option.case require_Inr check_nil_Inr sum.inject prod.inject
    by (auto simp: put_inbox_def)
  then show ?thesis by (intro received [OF None])
qed

lemma RecordProviderBillCommand_ok:
  assumes "RecordProviderBillCommand b rc e s = Inr (s', b')"
  obtains (replay) "ProviderBillRecord_Validate b = None" "mget (runtimeProviderBills s) (bill_key b) = Some b'"
      "pb_BillDigest b' = pb_BillDigest b" "s' = s"
  | (recorded) "ProviderBillRecord_Validate b = None" "mget (runtimeProviderBills s) (bill_key b) = None" "b' = b"
      "\<And>r. rc = Some r \<Longrightarrow> ProviderReconciliation_Validate r = None"
      "s' = appendRuntimeEventLocked (put_bill b (put_recon rc s)) e"
proof (cases "mget (runtimeProviderBills s) (bill_key b)")
  case (Some old)
  then have "ProviderBillRecord_Validate b = None" "pb_BillDigest old = pb_BillDigest b" "b' = old" "s' = s"
    using assms unfolding RecordProviderBillCommand_def check_nil_Inr by (auto split: if_splits)
  with replay Some show ?thesis by blast
next
  case None
  have "ProviderBillRecord_Validate b = None" "b' = b" "(case rc of None \<Rightarrow> None | Some r \<Rightarrow> ProviderReconciliation_Validate r) = None"
    "s' = appendRuntimeEventLocked (put_bill b (put_recon rc s)) e"
    using assms
    unfolding RecordProviderBillCommand_def None option.case Let_def require_Inr check_nil_Inr sum.inject prod.inject
    by (auto simp: put_bill_def)
  then show ?thesis by (intro recorded [OF _ None]) (simp_all)
qed

subsection \<open>The ingress commands are idempotent\<close>

text \<open>
  The identity of a callback is the message id its provider chose, the identity of a bill the
  bill id; the digest guards both against a change of meaning. The value a retry answers with is
  the stored fact.
\<close>

type_synonym inbox_call =
  "ProviderInboxMessage \<times> ExternalEffect option \<times> int \<times> ProviderReconciliation option \<times> JobEvent"

fun receive :: "inbox_call \<Rightarrow> Store \<Rightarrow> ProviderInboxMessage cmd" where
  "receive (m, x, ev, r, e) s = map_sum id (map_prod id fst) (ReceiveProviderInboxCommand m x ev r e s)"

fun same_message :: "inbox_call \<Rightarrow> inbox_call \<Rightarrow> bool" where
  "same_message (m, _) (m', _) =
     (inbox_key m' = inbox_key m \<and> pi_ReceivedDigest m' = pi_ReceivedDigest m
      \<and> (ProviderInboxMessage_Validate m = None \<longrightarrow> ProviderInboxMessage_Validate m' = None))"

fun message_known :: "Store \<Rightarrow> inbox_call \<Rightarrow> ProviderInboxMessage \<Rightarrow> bool" where
  "message_known s (m, _) v =
     (ProviderInboxMessage_Validate m = None \<and> mget (runtimeProviderInbox s) (inbox_key m) = Some v
      \<and> pi_ReceivedDigest v = pi_ReceivedDigest m)"

lemma receive_Inr:
  "receive (m, x, ev, r, e) s = Inr (s', v) \<longleftrightarrow> (\<exists>y. ReceiveProviderInboxCommand m x ev r e s = Inr (s', v, y))"
  by (cases "ReceiveProviderInboxCommand m x ev r e s") auto

lemma inbox_known:
  assumes "ReceiveProviderInboxCommand m x ev r e s = Inr (s', v, y)"
  shows "mget (runtimeProviderInbox s') (inbox_key m) = Some v \<and> pi_ReceivedDigest v = pi_ReceivedDigest m
    \<and> ProviderInboxMessage_Validate m = None"
  using assms by (cases rule: ReceiveProviderInboxCommand_ok) simp_all

lemma inbox_replay:
  assumes "mget (runtimeProviderInbox s) (inbox_key m) = Some v" and "pi_ReceivedDigest v = pi_ReceivedDigest m"
    and "ProviderInboxMessage_Validate m = None"
  shows "\<exists>y. ReceiveProviderInboxCommand m x ev r e s = Inr (s, v, y)"
  using assms by (simp add: ReceiveProviderInboxCommand_def)

interpretation callbacks: idempotent_command "\<lambda>s. True" receive same_message message_known
proof
  fix s a s' v assume r: "receive a s = Inr (s', v)"
  obtain m x ev rc e where a: "a = (m, x, ev, rc, e)" by (cases a)
  from r show "message_known s' a v" unfolding a receive_Inr by (auto dest!: inbox_known)
next
  fix s a v b assume k: "message_known s a v" "same_message a b"
  obtain m x ev rc e where a: "a = (m, x, ev, rc, e)" by (cases a)
  obtain m' x' ev' rc' e' where b: "b = (m', x', ev', rc', e')" by (cases b)
  from k show "receive b s = Inr (s, v)" unfolding a b receive_Inr by (intro inbox_replay) simp_all
next
  fix a show "same_message a a" by (cases a) simp
qed

type_synonym bill_call = "ProviderBillRecord \<times> ProviderReconciliation option \<times> JobEvent"

fun bill :: "bill_call \<Rightarrow> Store \<Rightarrow> ProviderBillRecord cmd" where
  "bill (b, r, e) s = RecordProviderBillCommand b r e s"

fun same_bill :: "bill_call \<Rightarrow> bill_call \<Rightarrow> bool" where
  "same_bill (b, _) (b', _) =
     (bill_key b' = bill_key b \<and> pb_BillDigest b' = pb_BillDigest b
      \<and> (ProviderBillRecord_Validate b = None \<longrightarrow> ProviderBillRecord_Validate b' = None))"

fun bill_known :: "Store \<Rightarrow> bill_call \<Rightarrow> ProviderBillRecord \<Rightarrow> bool" where
  "bill_known s (b, _) v =
     (ProviderBillRecord_Validate b = None \<and> mget (runtimeProviderBills s) (bill_key b) = Some v
      \<and> pb_BillDigest v = pb_BillDigest b)"

interpretation bills: idempotent_command "\<lambda>s. True" bill same_bill bill_known
proof
  fix s a s' v assume "bill a s = Inr (s', v)"
  moreover obtain b r e where a: "a = (b, r, e)" by (cases a)
  ultimately have "RecordProviderBillCommand b r e s = Inr (s', v)" by simp
  then show "bill_known s' a v" unfolding a by (cases rule: RecordProviderBillCommand_ok) simp_all
next
  fix s a v b assume "bill_known s a v" "same_bill a b"
  then show "bill b s = Inr (s, v)" by (cases a; cases b) (auto simp: RecordProviderBillCommand_def)
next
  fix a show "same_bill a a" by (cases a) simp
qed

lemma inbox_conflict:
  assumes "mget (runtimeProviderInbox s) (inbox_key m) = Some v" and "pi_ReceivedDigest v \<noteq> pi_ReceivedDigest m"
  shows "isl (ReceiveProviderInboxCommand m x ev r e s)"
  using assms by (simp add: ReceiveProviderInboxCommand_def check_nil_def split: option.split)

end
