(* ===== verification/Provider_Service.thy ===== *)
theory Provider_Service
  imports Provider_Store
begin

section \<open>Provider callbacks, bills and reconciliations in the service\<close>

text \<open>
  \<^verbatim>\<open>internal/runtime/provider.go\<close>: what the service makes of a provider's callback or bill before
  it hands one atomic command to the store. \<open>hash\<close> stands for \<^verbatim>\<open>stablehash.Sum\<close> and the fresh
  identifiers of \<^verbatim>\<open>idgen.New\<close> are the arguments \<open>mid\<close>, \<open>rid\<close> and \<open>eid\<close>; \<open>now\<close> is the clock. The
  reasons the service writes are UTF-8 texts, given by their bytes.
\<close>

subsection \<open>Inputs\<close>

record ProviderCallbackInput =
  ci_TenantID :: string
  ci_JobRunID :: string
  ci_EffectID :: string
  ci_ProviderID :: string
  ci_MessageID :: string
  ci_ExternalID :: string
  ci_ProviderState :: string
  ci_ReceivedDigest :: string
  ci_ResponseDigest :: string
  ci_CostMinor :: int
  ci_Currency :: string
  ci_SafePayload :: "payload option"
  ci_ErrorCode :: string
  ci_ReceivedAt :: time

record ProviderBillInput =
  bi_TenantID :: string
  bi_JobRunID :: string
  bi_EffectID :: string
  bi_ProviderID :: string
  bi_BillID :: string
  bi_ExternalID :: string
  bi_BillDigest :: string
  bi_AmountMinor :: int
  bi_Currency :: string
  bi_ObservedAt :: time

definition payload_of :: "payload option \<Rightarrow> payload" where
  "payload_of p = (case p of None \<Rightarrow> [] | Some m \<Rightarrow> m)"

definition received_json :: "ProviderCallbackInput \<Rightarrow> goany" where
  "received_json i = AObj
     [(''provider_id'', AStr (ci_ProviderID i)), (''message_id'', AStr (ci_MessageID i)),
      (''external_id'', AStr (ci_ExternalID i)), (''provider_state'', AStr (ci_ProviderState i)),
      (''cost_minor'', AInt (ci_CostMinor i)), (''currency'', AStr (ci_Currency i)),
      (''payload'', AObj (payload_of (ci_SafePayload i)))]"

definition response_json :: "ProviderCallbackInput \<Rightarrow> goany" where
  "response_json i = AObj
     [(''provider_id'', AStr (ci_ProviderID i)), (''external_id'', AStr (ci_ExternalID i)),
      (''provider_state'', AStr (ci_ProviderState i)), (''cost_minor'', AInt (ci_CostMinor i)),
      (''currency'', AStr (ci_Currency i)), (''payload'', AObj (payload_of (ci_SafePayload i)))]"

definition callback_defaults :: "time \<Rightarrow> ProviderCallbackInput \<Rightarrow> ProviderCallbackInput" where
  "callback_defaults now i =
     i\<lparr>ci_Currency := ToUpper (TrimSpace (if ci_Currency i = '''' then ''CNY'' else ci_Currency i)),
       ci_ReceivedAt := (if IsZero (ci_ReceivedAt i) then now else ci_ReceivedAt i),
       ci_SafePayload := Some (payload_of (ci_SafePayload i))\<rparr>"

definition callback_digests :: "(goany \<Rightarrow> string) \<Rightarrow> ProviderCallbackInput \<Rightarrow> ProviderCallbackInput" where
  "callback_digests hash i =
     i\<lparr>ci_ReceivedDigest :=
         (if ci_ReceivedDigest i = '''' then ''sha256:'' @ hash (received_json i) else ci_ReceivedDigest i),
       ci_ResponseDigest :=
         (if ci_ResponseDigest i = '''' then ''sha256:'' @ hash (response_json i) else ci_ResponseDigest i)\<rparr>"

subsection \<open>Callbacks\<close>

definition providerEffectTarget :: "effect_state \<Rightarrow> string \<Rightarrow> effect_state" where
  "providerEffectTarget currentState providerState =
     (let w = ToLower (TrimSpace providerState) in
      if w \<in> set [''succeeded'', ''success'', ''completed'', ''complete''] then EffectSucceeded
      else if w \<in> set [''failed'', ''failure'', ''cancelled'', ''canceled''] then EffectFailed
      else if w \<in> set [''submitted'', ''queued'', ''accepted''] then
        (if currentState = EffectRegistered then EffectSubmitted else EffectAcknowledged)
      else if w \<in> set [''unknown'', ''timeout''] then EffectUnknown
      else currentState)"

definition newProviderReconciliation ::
    "string \<Rightarrow> ProviderInboxMessage \<Rightarrow> ExternalEffect \<Rightarrow> string \<Rightarrow> string \<Rightarrow> string \<Rightarrow> ProviderReconciliation" where
  "newProviderReconciliation rid message effect observedState status reason =
     \<lparr>rcn_ID = rid, rcn_TenantID = pi_TenantID message, rcn_JobRunID = pi_JobRunID message,
      rcn_EffectID = ee_ID effect, rcn_ProviderID = pi_ProviderID message, rcn_ExternalID = pi_ExternalID message,
      rcn_RequestKey = ''provider-reconcile:'' @ pi_ProviderID message @ '':'' @ pi_MessageID message,
      rcn_ObservedState = observedState, rcn_ResponseDigest = pi_ResponseDigest message,
      rcn_ExpectedMinor = ee_CostMinor effect, rcn_ObservedMinor = pi_CostMinor message,
      rcn_Currency = pi_Currency message, rcn_Reason = reason, rcn_Status = status,
      rcn_SafeSummary = [(''message_id'', AStr (pi_MessageID message))], rcn_ResolvedAt = None,
      rcn_CreatedAt = pi_ReceivedAt message, rcn_UpdatedAt = pi_ReceivedAt message, rcn_Version = 1\<rparr>"

definition late_reason :: string where
  "late_reason = [
     CHR 0xE5, CHR 0xA4, CHR 0x96, CHR 0xE9, CHR 0x83, CHR 0xA8, CHR 0xE7, CHR 0xBB, CHR 0x93, CHR 0xE6,
     CHR 0x9E, CHR 0x9C, CHR 0xE5, CHR 0x9C, CHR 0xA8, CHR 0xE6, CHR 0x9C, CHR 0xAC, CHR 0xE5, CHR 0x9C,
     CHR 0xB0, CHR 0xE8, CHR 0xAF, CHR 0xB7, CHR 0xE6, CHR 0xB1, CHR 0x82, CHR 0xE8, CHR 0xB6, CHR 0x85,
     CHR 0xE6, CHR 0x97, CHR 0xB6, CHR 0xE5, CHR 0x90, CHR 0x8E, CHR 0xE5, CHR 0x88, CHR 0xB0, CHR 0xE8,
     CHR 0xBE, CHR 0xBE, CHR 0xEF, CHR 0xBC, CHR 0x8C, CHR 0xE7, CHR 0xAD, CHR 0x89, CHR 0xE5, CHR 0xBE,
     CHR 0x85, CHR 0xE6, CHR 0x8E, CHR 0x88, CHR 0xE6, CHR 0x9D, CHR 0x83, CHR 0xE6, CHR 0x94, CHR 0xB6,
     CHR 0xE6, CHR 0x95, CHR 0x9B]"

definition callback_message :: "string \<Rightarrow> string \<Rightarrow> ProviderCallbackInput \<Rightarrow> ProviderInboxMessage" where
  "callback_message mid jobID i =
     \<lparr>pi_ID = mid, pi_TenantID = ci_TenantID i, pi_JobRunID = jobID, pi_ProviderID = ci_ProviderID i,
      pi_MessageID = ci_MessageID i, pi_ReceivedDigest = ci_ReceivedDigest i, pi_ExternalID = ci_ExternalID i,
      pi_EffectID = '''', pi_ProviderState = ci_ProviderState i, pi_ResponseDigest = ci_ResponseDigest i,
      pi_CostMinor = ci_CostMinor i, pi_Currency = ci_Currency i, pi_SafePayload = payload_of (ci_SafePayload i),
      pi_State = ''received'', pi_ErrorCode = ci_ErrorCode i, pi_ReceivedAt = ci_ReceivedAt i,
      pi_ProcessedAt = None, pi_Version = 1, pi_CreatedAt = ci_ReceivedAt i, pi_UpdatedAt = ci_ReceivedAt i\<rparr>"

definition callback_target :: "ExternalEffect \<Rightarrow> string \<Rightarrow> effect_state" where
  "callback_target effect providerState =
     (let target = providerEffectTarget (ee_State effect) providerState in
      if ee_State effect = EffectUnknown \<and> (target = EffectSucceeded \<or> target = EffectFailed)
      then EffectReconciling else target)"

definition callback_effect :: "ExternalEffect \<Rightarrow> ProviderCallbackInput \<Rightarrow> ExternalEffect" where
  "callback_effect effect i =
     (let target = callback_target effect (ci_ProviderState i) in
      effect\<lparr>ee_State := target, ee_ExternalID := ci_ExternalID i, ee_ResponseDigest := ci_ResponseDigest i,
        ee_CostMinor := ci_CostMinor i, ee_Currency := ci_Currency i, ee_ErrorCode := ci_ErrorCode i,
        ee_Version := (if target \<noteq> ee_State effect then ee_Version effect + 1 else ee_Version effect),
        ee_UpdatedAt := ci_ReceivedAt i\<rparr>)"

definition orphan_reconciliation :: "string \<Rightarrow> ProviderInboxMessage \<Rightarrow> ProviderReconciliation" where
  "orphan_reconciliation rid message =
     \<lparr>rcn_ID = rid, rcn_TenantID = pi_TenantID message, rcn_JobRunID = pi_JobRunID message, rcn_EffectID = '''',
      rcn_ProviderID = pi_ProviderID message, rcn_ExternalID = pi_ExternalID message,
      rcn_RequestKey = ''provider-inbox:'' @ pi_ProviderID message @ '':'' @ pi_MessageID message,
      rcn_ObservedState = pi_ProviderState message, rcn_ResponseDigest = pi_ResponseDigest message,
      rcn_ExpectedMinor = 0, rcn_ObservedMinor = pi_CostMinor message, rcn_Currency = pi_Currency message,
      rcn_Reason = '''', rcn_Status = ''pending'', rcn_SafeSummary = [(''message_id'', AStr (pi_MessageID message))],
      rcn_ResolvedAt = None, rcn_CreatedAt = pi_ReceivedAt message, rcn_UpdatedAt = pi_ReceivedAt message,
      rcn_Version = 1\<rparr>"

definition callback_event :: "string \<Rightarrow> ProviderInboxMessage \<Rightarrow> JobEvent" where
  "callback_event eid message =
     \<lparr>je_ID = eid, je_TenantID = pi_TenantID message, je_JobRunID = pi_JobRunID message, je_Sequence = 0,
      je_Type = ''provider.inbox.received'', je_NodeKey = '''', je_ActorType = ''provider'',
      je_ActorID = pi_ProviderID message, je_CorrelationID = '''',
      je_IdempotencyKey = ''provider-inbox:'' @ pi_ProviderID message @ '':'' @ pi_MessageID message,
      je_Payload = [(''provider_id'', AStr (pi_ProviderID message)), (''external_id'', AStr (pi_ExternalID message)),
        (''provider_state'', AStr (pi_ProviderState message))],
      je_OccurredAt = pi_ReceivedAt message\<rparr>"

text \<open>The effect a callback or a bill is about: by its identity if it names one, else by the provider's own.\<close>

definition find_effect :: "bool \<Rightarrow> string \<Rightarrow> string \<Rightarrow> string \<Rightarrow> string \<Rightarrow> Store \<Rightarrow> ExternalEffect res" where
  "find_effect named tenantID effectID providerID externalID s =
     (if named then Store_Effect tenantID effectID s else EffectByExternalID tenantID providerID externalID s)"

definition ReceiveProviderCallback ::
    "(goany \<Rightarrow> string) \<Rightarrow> string \<Rightarrow> string \<Rightarrow> string \<Rightarrow> time \<Rightarrow> ProviderCallbackInput
     \<Rightarrow> Store \<Rightarrow> (ProviderInboxMessage \<times> ExternalEffect) cmd" where
  "ReceiveProviderCallback hash mid rid eid now i0 s =
     require (\<not> (blank (ci_TenantID i0) \<or> blank (ci_ProviderID i0) \<or> blank (ci_MessageID i0)
                 \<or> blank (ci_ExternalID i0) \<or> blank (ci_ProviderState i0)))
       (Invalid ''PROVIDER_CALLBACK_INVALID'') (
     let i = callback_digests hash (callback_defaults now i0);
         found = find_effect (\<not> blank (ci_EffectID i)) (ci_TenantID i) (ci_EffectID i) (ci_ProviderID i)
                   (ci_ExternalID i) s in
     require (case found of Inl e \<Rightarrow> IsNotFound e | Inr _ \<Rightarrow> True)
       (case found of Inl e \<Rightarrow> e | Inr _ \<Rightarrow> NotFound) (
     let jobID = (case found of Inl _ \<Rightarrow> ci_JobRunID i | Inr x \<Rightarrow> ee_JobRunID x) in
     require (\<not> blank jobID) (Invalid ''PROVIDER_CALLBACK_SCOPE_REQUIRED'') (
     let message = callback_message mid jobID i in
     case found of
       Inl _ \<Rightarrow>
         ReceiveProviderInboxCommand message None 0 (Some (orphan_reconciliation rid message))
           (callback_event eid message) s
     | Inr existing \<Rightarrow>
         let effect = callback_effect existing i;
             reconciliation =
               (if ee_State effect = EffectReconciling
                then Some (newProviderReconciliation rid message effect (ci_ProviderState i) ''pending'' late_reason)
                else None);
             expected =
               (if ee_State effect \<noteq> ee_State existing \<or> ee_Version effect \<noteq> ee_Version existing
                then ee_Version effect - 1 else ee_Version effect) in
         ReceiveProviderInboxCommand message (Some effect) expected reconciliation (callback_event eid message) s)))"

subsection \<open>Settling a reconciliation\<close>

definition resolve_event ::
    "string \<Rightarrow> time \<Rightarrow> string \<Rightarrow> string \<Rightarrow> ProviderReconciliation \<Rightarrow> ExternalEffect \<Rightarrow> effect_state \<Rightarrow> JobEvent" where
  "resolve_event eid now tenantID actorID r effect nextState =
     \<lparr>je_ID = eid, je_TenantID = tenantID, je_JobRunID = ee_JobRunID effect, je_Sequence = 0,
      je_Type = ''provider.reconciliation.resolved'', je_NodeKey = '''', je_ActorType = ''operator'',
      je_ActorID = TrimSpace actorID, je_CorrelationID = '''',
      je_IdempotencyKey = ''provider-reconcile-resolve:'' @ rcn_ID r @ '':'' @ effect_state_str nextState,
      je_Payload = [(''reconciliation_id'', AStr (rcn_ID r)), (''effect_id'', AStr (ee_ID effect)),
        (''state'', AStr (effect_state_str nextState))],
      je_OccurredAt = now\<rparr>"

definition ResolveProviderReconciliation ::
    "string \<Rightarrow> time \<Rightarrow> string \<Rightarrow> string \<Rightarrow> effect_state \<Rightarrow> string
     \<Rightarrow> Store \<Rightarrow> (ProviderReconciliation \<times> ExternalEffect) cmd" where
  "ResolveProviderReconciliation eid now tenantID reconciliationID nextState actorID s =
     bind_res (Store_ProviderReconciliation tenantID reconciliationID s) (\<lambda>r.
     require (rcn_EffectID r \<noteq> '''') (Policy ''PROVIDER_EFFECT_REQUIRED'') (
     bind_res (Store_Effect tenantID (rcn_EffectID r) s) (\<lambda>effect.
     check_nil (ExternalEffect_Transition effect nextState) (
     let effect' = effect\<lparr>ee_State := nextState, ee_Version := ee_Version effect + 1, ee_UpdatedAt := now\<rparr>;
         r' = r\<lparr>rcn_Version := rcn_Version r + 1,
                rcn_Status := (if nextState = EffectManual then ''manual_action'' else ''matched''),
                rcn_ResolvedAt := Some now, rcn_UpdatedAt := now\<rparr> in
     ResolveProviderReconciliationCommand r' effect' (ee_Version effect' - 1)
       (resolve_event eid now tenantID actorID r' effect' nextState) s))))"

subsection \<open>Bills\<close>

definition bill_reason :: string where
  "bill_reason = [
     CHR 0xE8, CHR 0xB4, CHR 0xA6, CHR 0xE5, CHR 0x8D, CHR 0x95, CHR 0xE4, CHR 0xB8, CHR 0x8E, CHR 0x20,
     CHR 0x52, CHR 0x75, CHR 0x6E, CHR 0x74, CHR 0x69, CHR 0x6D, CHR 0x65, CHR 0x20, CHR 0x45, CHR 0x66,
     CHR 0x66, CHR 0x65, CHR 0x63, CHR 0x74, CHR 0x20, CHR 0xE8, CHR 0xB4, CHR 0xB9, CHR 0xE7, CHR 0x94,
     CHR 0xA8, CHR 0xE5, CHR 0xAF, CHR 0xB9, CHR 0xE8, CHR 0xB4, CHR 0xA6]"

definition orphan_reason :: string where
  "orphan_reason = [
     CHR 0xE8, CHR 0xB4, CHR 0xA6, CHR 0xE5, CHR 0x8D, CHR 0x95, CHR 0xE5, CHR 0x88, CHR 0xB0, CHR 0xE8,
     CHR 0xBE, CHR 0xBE, CHR 0xE6, CHR 0x97, CHR 0xB6, CHR 0xE6, CHR 0xB2, CHR 0xA1, CHR 0xE6, CHR 0x9C,
     CHR 0x89, CHR 0xE5, CHR 0x8C, CHR 0xB9, CHR 0xE9, CHR 0x85, CHR 0x8D, CHR 0xE7, CHR 0x9A, CHR 0x84,
     CHR 0x20, CHR 0x52, CHR 0x75, CHR 0x6E, CHR 0x74, CHR 0x69, CHR 0x6D, CHR 0x65, CHR 0x20, CHR 0x45,
     CHR 0x66, CHR 0x66, CHR 0x65, CHR 0x63, CHR 0x74]"

definition bill_json :: "ProviderBillInput \<Rightarrow> goany" where
  "bill_json i = AObj
     [(''provider_id'', AStr (bi_ProviderID i)), (''bill_id'', AStr (bi_BillID i)),
      (''external_id'', AStr (bi_ExternalID i)), (''amount_minor'', AInt (bi_AmountMinor i)),
      (''currency'', AStr (bi_Currency i))]"

definition bill_defaults :: "(goany \<Rightarrow> string) \<Rightarrow> time \<Rightarrow> ProviderBillInput \<Rightarrow> ProviderBillInput" where
  "bill_defaults hash now i0 =
     (let i = i0\<lparr>bi_ObservedAt := (if IsZero (bi_ObservedAt i0) then now else bi_ObservedAt i0),
                 bi_Currency := (if bi_Currency i0 = '''' then ''CNY'' else bi_Currency i0)\<rparr> in
      i\<lparr>bi_BillDigest := (if bi_BillDigest i = '''' then ''sha256:'' @ hash (bill_json i) else bi_BillDigest i)\<rparr>)"

definition new_bill :: "string \<Rightarrow> ProviderBillInput \<Rightarrow> ProviderBillRecord" where
  "new_bill bid i =
     \<lparr>pb_ID = bid, pb_TenantID = bi_TenantID i, pb_JobRunID = bi_JobRunID i, pb_ProviderID = bi_ProviderID i,
      pb_BillID = bi_BillID i, pb_ExternalID = bi_ExternalID i, pb_EffectID = bi_EffectID i,
      pb_BillDigest = bi_BillDigest i, pb_AmountMinor = bi_AmountMinor i, pb_Currency = bi_Currency i,
      pb_Status = ''unmatched'', pb_ObservedAt = bi_ObservedAt i, pb_CreatedAt = bi_ObservedAt i,
      pb_UpdatedAt = bi_ObservedAt i, pb_Version = 1\<rparr>"

definition effect_bill :: "string \<Rightarrow> ProviderBillInput \<Rightarrow> ExternalEffect \<Rightarrow> ProviderBillRecord" where
  "effect_bill bid i effect =
     (new_bill bid i)\<lparr>pb_JobRunID := ee_JobRunID effect, pb_EffectID := ee_ID effect,
        pb_Status := (if ee_Currency effect = bi_Currency i \<and> ee_CostMinor effect = bi_AmountMinor i
                      then ''matched'' else ''disputed'')\<rparr>"

definition effect_bill_recon ::
    "string \<Rightarrow> ProviderBillInput \<Rightarrow> ExternalEffect \<Rightarrow> string \<Rightarrow> ProviderReconciliation" where
  "effect_bill_recon rid i effect billStatus =
     \<lparr>rcn_ID = rid, rcn_TenantID = bi_TenantID i, rcn_JobRunID = ee_JobRunID effect, rcn_EffectID = ee_ID effect,
      rcn_ProviderID = bi_ProviderID i, rcn_ExternalID = bi_ExternalID i,
      rcn_RequestKey = ''provider-bill:'' @ bi_ProviderID i @ '':'' @ bi_BillID i,
      rcn_ObservedState = effect_state_str (ee_State effect), rcn_ResponseDigest = bi_BillDigest i,
      rcn_ExpectedMinor = ee_CostMinor effect, rcn_ObservedMinor = bi_AmountMinor i, rcn_Currency = bi_Currency i,
      rcn_Reason = bill_reason, rcn_Status = (if billStatus = ''matched'' then ''matched'' else ''cost_mismatch''),
      rcn_SafeSummary = [(''bill_id'', AStr (bi_BillID i))], rcn_ResolvedAt = None,
      rcn_CreatedAt = bi_ObservedAt i, rcn_UpdatedAt = bi_ObservedAt i, rcn_Version = 1\<rparr>"

definition orphan_bill_recon :: "string \<Rightarrow> ProviderBillInput \<Rightarrow> ProviderReconciliation" where
  "orphan_bill_recon rid i =
     \<lparr>rcn_ID = rid, rcn_TenantID = bi_TenantID i, rcn_JobRunID = bi_JobRunID i, rcn_EffectID = '''',
      rcn_ProviderID = bi_ProviderID i, rcn_ExternalID = bi_ExternalID i,
      rcn_RequestKey = ''provider-bill:'' @ bi_ProviderID i @ '':'' @ bi_BillID i,
      rcn_ObservedState = ''bill_only'', rcn_ResponseDigest = bi_BillDigest i, rcn_ExpectedMinor = 0,
      rcn_ObservedMinor = bi_AmountMinor i, rcn_Currency = bi_Currency i, rcn_Reason = orphan_reason,
      rcn_Status = ''pending'', rcn_SafeSummary = [(''bill_id'', AStr (bi_BillID i))], rcn_ResolvedAt = None,
      rcn_CreatedAt = bi_ObservedAt i, rcn_UpdatedAt = bi_ObservedAt i, rcn_Version = 1\<rparr>"

definition bill_event :: "string \<Rightarrow> ProviderBillRecord \<Rightarrow> JobEvent" where
  "bill_event eid b =
     \<lparr>je_ID = eid, je_TenantID = pb_TenantID b, je_JobRunID = pb_JobRunID b, je_Sequence = 0,
      je_Type = ''provider.bill.recorded'', je_NodeKey = '''', je_ActorType = ''provider'',
      je_ActorID = pb_ProviderID b, je_CorrelationID = '''',
      je_IdempotencyKey = ''provider-bill:'' @ pb_ProviderID b @ '':'' @ pb_BillID b,
      je_Payload = [(''bill_id'', AStr (pb_BillID b)), (''status'', AStr (pb_Status b)),
        (''amount_minor'', AInt (pb_AmountMinor b))],
      je_OccurredAt = pb_ObservedAt b\<rparr>"

text \<open>The service answers with the bill it built, not with the one the store holds.\<close>

definition RecordProviderBill ::
    "(goany \<Rightarrow> string) \<Rightarrow> string \<Rightarrow> string \<Rightarrow> string \<Rightarrow> time \<Rightarrow> ProviderBillInput \<Rightarrow> Store \<Rightarrow> ProviderBillRecord cmd" where
  "RecordProviderBill hash bid rid eid now i0 s =
     require (\<not> (blank (bi_TenantID i0) \<or> blank (bi_ProviderID i0) \<or> blank (bi_BillID i0) \<or> blank (bi_ExternalID i0)))
       (Invalid ''PROVIDER_BILL_INPUT_INVALID'') (
     let i = bill_defaults hash now i0;
         found = find_effect (bi_EffectID i \<noteq> '''') (bi_TenantID i) (bi_EffectID i) (bi_ProviderID i)
                   (bi_ExternalID i) s in
     require (case found of Inl e \<Rightarrow> IsNotFound e | Inr _ \<Rightarrow> True)
       (case found of Inl e \<Rightarrow> e | Inr _ \<Rightarrow> NotFound) (
     let b = (case found of Inl _ \<Rightarrow> new_bill bid i | Inr x \<Rightarrow> effect_bill bid i x);
         r = (case found of Inl _ \<Rightarrow> orphan_bill_recon rid i | Inr x \<Rightarrow> effect_bill_recon rid i x (pb_Status b)) in
     bind_res (RecordProviderBillCommand b (Some r) (bill_event eid b) s) (\<lambda>(s', _). Inr (s', b))))"

subsection \<open>What a successful call has done\<close>

definition callback_input :: "(goany \<Rightarrow> string) \<Rightarrow> time \<Rightarrow> ProviderCallbackInput \<Rightarrow> ProviderCallbackInput" where
  "callback_input hash now i0 = callback_digests hash (callback_defaults now i0)"

definition callback_lookup :: "ProviderCallbackInput \<Rightarrow> Store \<Rightarrow> ExternalEffect res" where
  "callback_lookup i s =
     find_effect (\<not> blank (ci_EffectID i)) (ci_TenantID i) (ci_EffectID i) (ci_ProviderID i) (ci_ExternalID i) s"

definition callback_recon ::
    "string \<Rightarrow> ProviderInboxMessage \<Rightarrow> ExternalEffect \<Rightarrow> ProviderCallbackInput \<Rightarrow> ProviderReconciliation option" where
  "callback_recon rid m effect i =
     (if ee_State effect = EffectReconciling
      then Some (newProviderReconciliation rid m effect (ci_ProviderState i) ''pending'' late_reason) else None)"

lemma callback_input_sel [simp]:
  "ci_TenantID (callback_input hash now i) = ci_TenantID i"
  "ci_JobRunID (callback_input hash now i) = ci_JobRunID i"
  "ci_EffectID (callback_input hash now i) = ci_EffectID i"
  "ci_ProviderID (callback_input hash now i) = ci_ProviderID i"
  "ci_MessageID (callback_input hash now i) = ci_MessageID i"
  "ci_ExternalID (callback_input hash now i) = ci_ExternalID i"
  "ci_ProviderState (callback_input hash now i) = ci_ProviderState i"
  "ci_CostMinor (callback_input hash now i) = ci_CostMinor i"
  "ci_ErrorCode (callback_input hash now i) = ci_ErrorCode i"
  "ci_ReceivedAt (callback_input hash now i) = (if IsZero (ci_ReceivedAt i) then now else ci_ReceivedAt i)"
  by (simp_all add: callback_input_def callback_digests_def callback_defaults_def)

lemma callback_input_clock:
  "ci_Currency (callback_input hash now i) = ci_Currency (callback_input hash now' i)"
  "ci_SafePayload (callback_input hash now i) = ci_SafePayload (callback_input hash now' i)"
  "ci_ReceivedDigest (callback_input hash now i) = ci_ReceivedDigest (callback_input hash now' i)"
  "ci_ResponseDigest (callback_input hash now i) = ci_ResponseDigest (callback_input hash now' i)"
  by (simp_all add: callback_input_def callback_digests_def callback_defaults_def received_json_def response_json_def)

lemma callback_effect_sel [simp]:
  "ee_State (callback_effect x i) = callback_target x (ci_ProviderState i)"
  "ee_Version (callback_effect x i) = ee_Version x + (if callback_target x (ci_ProviderState i) \<noteq> ee_State x then 1 else 0)"
  "ee_ID (callback_effect x i) = ee_ID x" "ee_TenantID (callback_effect x i) = ee_TenantID x"
  "ee_JobRunID (callback_effect x i) = ee_JobRunID x" "ee_Kind (callback_effect x i) = ee_Kind x"
  "ee_SafeSummary (callback_effect x i) = ee_SafeSummary x" "ee_ExternalID (callback_effect x i) = ci_ExternalID i"
  "ee_CostMinor (callback_effect x i) = ci_CostMinor i" "effect_key (callback_effect x i) = effect_key x"
  by (simp_all add: callback_effect_def Let_def effect_key_def)

lemma callback_lookup_input [simp]: "callback_lookup (callback_input hash now i) s = callback_lookup i s"
  by (simp add: callback_lookup_def)

lemma callback_lookup_missing: "callback_lookup i s = Inl e \<Longrightarrow> e = NotFound"
  by (auto simp: callback_lookup_def find_effect_def Store_Effect_def EffectByExternalID_def lookup_or_def
      split: if_splits option.splits)

lemma ReceiveProviderCallback_eq:
  "ReceiveProviderCallback hash mid rid eid now i0 s =
     require (\<not> (blank (ci_TenantID i0) \<or> blank (ci_ProviderID i0) \<or> blank (ci_MessageID i0)
                 \<or> blank (ci_ExternalID i0) \<or> blank (ci_ProviderState i0)))
       (Invalid ''PROVIDER_CALLBACK_INVALID'')
     (let i = callback_input hash now i0 in
      case callback_lookup i0 s of
        Inl _ \<Rightarrow>
          require (\<not> blank (ci_JobRunID i0)) (Invalid ''PROVIDER_CALLBACK_SCOPE_REQUIRED'')
          (let m = callback_message mid (ci_JobRunID i0) i in
           ReceiveProviderInboxCommand m None 0 (Some (orphan_reconciliation rid m)) (callback_event eid m) s)
      | Inr x \<Rightarrow>
          require (\<not> blank (ee_JobRunID x)) (Invalid ''PROVIDER_CALLBACK_SCOPE_REQUIRED'')
          (let m = callback_message mid (ee_JobRunID x) i; x' = callback_effect x i in
           ReceiveProviderInboxCommand m (Some x') (ee_Version x) (callback_recon rid m x' i) (callback_event eid m) s))"
proof (cases "callback_lookup i0 s")
  case (Inl e)
  with callback_lookup_missing [OF Inl] show ?thesis
    by (simp add: ReceiveProviderCallback_def callback_input_def [symmetric] callback_lookup_def Let_def require_def)
next
  case (Inr x)
  from Inr show ?thesis
    by (simp add: ReceiveProviderCallback_def callback_input_def [symmetric] callback_lookup_def Let_def require_def
        callback_recon_def)
qed

lemma callback_lookup_stored:
  assumes "keyed effect_key (runtimeEffects s)" and "callback_lookup i s = Inr x"
  shows "mget (runtimeEffects s) (effect_key x) = Some x"
proof -
  have "x \<in> set (mvals (runtimeEffects s))"
    using assms(2) mget_vals by (fastforce simp: callback_lookup_def find_effect_def Store_Effect_def EffectByExternalID_def
        lookup_or_def find_Some_iff split: if_splits option.splits)
  then show ?thesis using keyed_vals [OF assms(1)] by simp
qed

lemma callback_effect_same:
  assumes "providerEffectEqual x (callback_effect x i)"
  shows "callback_effect x i = x\<lparr>ee_UpdatedAt := ci_ReceivedAt i\<rparr>"
  using assms by (simp add: providerEffectEqual_def callback_effect_def Let_def)

lemma inbox_effect_checked:
  assumes "inbox_effect_check m (callback_effect x i) (ee_Version x) s = None"
    and "mget (runtimeEffects s) (effect_key x) = Some x"
  shows "callback_effect x i = x\<lparr>ee_UpdatedAt := ci_ReceivedAt i\<rparr>
    \<or> callback_target x (ci_ProviderState i) \<noteq> ee_State x
      \<and> effect_transition (ee_State x) (callback_target x (ci_ProviderState i)) = None"
  using assms callback_effect_same [of x i]
  by (auto simp: inbox_effect_check_def Let_def ExternalEffect_Transition_def split: if_splits option.splits)

lemma callback_target_unknown:
  assumes "ee_State x = EffectUnknown" and "effect_transition EffectUnknown (callback_target x w) = None"
  shows "callback_target x w = EffectReconciling"
  using assms by (auto simp: callback_target_def providerEffectTarget_def Let_def effect_transition_def split: if_splits)

definition awaits_settlement :: "ExternalEffect \<Rightarrow> Store \<Rightarrow> bool" where
  "awaits_settlement x s =
     list_ex (\<lambda>r. rcn_EffectID r = ee_ID x \<and> rcn_TenantID r = ee_TenantID x \<and> rcn_Status r = ''pending'')
       (mvals (runtimeProviderRecons s))"

lemma callback_recon_awaits:
  assumes "callback_target x (ci_ProviderState i) = EffectReconciling" and "pi_TenantID m = ee_TenantID x"
    and "runtimeProviderRecons s' = runtimeProviderRecons (put_recon (callback_recon rid m (callback_effect x i) i) s)"
  shows "awaits_settlement (callback_effect x i) s'"
proof -
  let ?r = "newProviderReconciliation rid m (callback_effect x i) (ci_ProviderState i) ''pending'' late_reason"
  have "mget (runtimeProviderRecons s') (recon_key ?r) = Some ?r"
    using assms by (simp add: put_recon_def callback_recon_def)
  then have "?r \<in> set (mvals (runtimeProviderRecons s'))" by (rule mget_vals)
  moreover have "rcn_EffectID ?r = ee_ID x" "rcn_TenantID ?r = ee_TenantID x" "rcn_Status ?r = ''pending''"
    using assms(2) by (simp_all add: newProviderReconciliation_def)
  ultimately show ?thesis unfolding awaits_settlement_def list_ex_iff by auto
qed

text \<open>
  C33. Provider callbacks respect the effect machine. Whatever a provider reports, every effect
  the store holds is, after a successful callback, either untouched but for its time stamp, or has
  moved by one allowed transition with its version increased by one. In particular an effect whose
  outcome is unknown is never taken to succeeded or failed by a late result: it goes to reconciling,
  and a pending reconciliation of that effect is on file.
\<close>

theorem callback_guarded:
  assumes "keyed effect_key (runtimeEffects s)"
    and "ReceiveProviderCallback hash mid rid eid now i s = Inr (s', m, y)"
    and "mget (runtimeEffects s) k = Some x"
  shows "\<exists>x'. mget (runtimeEffects s') k = Some x'
    \<and> (x' = x\<lparr>ee_UpdatedAt := ee_UpdatedAt x'\<rparr>
       \<or> ee_Version x' = ee_Version x + 1 \<and> effect_transition (ee_State x) (ee_State x') = None
         \<and> (ee_State x \<noteq> EffectUnknown \<or> ee_State x' = EffectReconciling \<and> awaits_settlement x' s'))"
proof (cases "callback_lookup i s")
  case (Inl e)
  with assms(2) obtain n where "ReceiveProviderInboxCommand n None 0 (Some (orphan_reconciliation rid n)) (callback_event eid n) s
    = Inr (s', m, y)" unfolding ReceiveProviderCallback_eq Let_def by (auto simp: require_Inr)
  then have "runtimeEffects s' = runtimeEffects s"
    by (cases rule: ReceiveProviderInboxCommand_ok) (simp_all add: put_effect_def)
  with assms(3) show ?thesis by simp
next
  case (Inr z)
  let ?i = "callback_input hash now i"
  let ?z = "callback_effect z ?i"
  let ?m = "callback_message mid (ee_JobRunID z) ?i"
  have st: "mget (runtimeEffects s) (effect_key z) = Some z" using callback_lookup_stored [OF assms(1) Inr] by blast
  from Inr assms(2) have "ReceiveProviderInboxCommand ?m (Some ?z) (ee_Version z) (callback_recon rid ?m ?z ?i)
      (callback_event eid ?m) s = Inr (s', m, y)"
    unfolding ReceiveProviderCallback_eq Let_def by (simp add: require_Inr)
  then show ?thesis
  proof (cases rule: ReceiveProviderInboxCommand_ok)
    case replay
    with assms(3) show ?thesis by simp
  next
    case received
    have eff: "runtimeEffects s' = mput (effect_key z) ?z (runtimeEffects s)"
      unfolding received(9) by (simp add: put_effect_def)
    have rec: "runtimeProviderRecons s' = runtimeProviderRecons (put_recon (callback_recon rid ?m ?z ?i) s)"
      unfolding received(9) by simp
    have ten: "pi_TenantID ?m = ee_TenantID z"
      using received(6) [OF refl] st by (auto simp: inbox_effect_check_def Let_def split: if_splits option.splits)
    show ?thesis
    proof (cases "k = effect_key z")
      case False
      then show ?thesis using assms(3) by (simp add: eff)
    next
      case True
      with assms(3) st have xz: "x = z" by simp
      from inbox_effect_checked [OF received(6) [OF refl] st]
      have "?z = z\<lparr>ee_UpdatedAt := ee_UpdatedAt ?z\<rparr> \<or> ee_Version ?z = ee_Version z + 1
        \<and> effect_transition (ee_State z) (ee_State ?z) = None
        \<and> (ee_State z \<noteq> EffectUnknown \<or> ee_State ?z = EffectReconciling \<and> awaits_settlement ?z s')"
        using callback_target_unknown [of z "ci_ProviderState i"] callback_recon_awaits [OF _ ten rec] by auto
      then show ?thesis unfolding xz True eff by simp
    qed
  qed
qed

subsection \<open>A redelivered callback\<close>

lemma callback_lookup_cong: "runtimeEffects s' = runtimeEffects s \<Longrightarrow> callback_lookup i s' = callback_lookup i s"
  by (simp add: callback_lookup_def find_effect_def Store_Effect_def EffectByExternalID_def)

lemma callback_lookup_again:
  assumes "keyed effect_key (runtimeEffects s)" and "callback_lookup i s = Inr x"
    and "runtimeEffects s' = mput (effect_key x) (callback_effect x (callback_input hash now i)) (runtimeEffects s)"
  shows "callback_lookup i s' = Inr (callback_effect x (callback_input hash now i))"
proof (cases "blank (ci_EffectID i)")
  case False
  with assms(2) have "mget (runtimeEffects s) (runtimeEffectKey (ci_TenantID i) (ci_EffectID i)) = Some x"
    by (auto simp: callback_lookup_def find_effect_def Store_Effect_def lookup_or_def split: option.splits)
  with keyed_key [OF assms(1)] have "runtimeEffectKey (ci_TenantID i) (ci_EffectID i) = effect_key x" .
  with False show ?thesis
    by (simp add: callback_lookup_def find_effect_def Store_Effect_def assms(3) lookup_or_def)
next
  case True
  let ?P = "\<lambda>e. ee_TenantID e = ci_TenantID i \<and> ee_ExternalID e = ci_ExternalID i
    \<and> (ci_ProviderID i = '''' \<or> ee_Kind e = ci_ProviderID i
       \<or> mget (ee_SafeSummary e) ''provider_id'' = Some (AStr (ci_ProviderID i)))"
  have f: "find ?P (mvals (runtimeEffects s)) = Some x"
    using assms(2) True
    by (auto simp: callback_lookup_def find_effect_def EffectByExternalID_def lookup_or_def split: option.splits)
  then have "?P x" by (auto simp: find_Some_iff)
  then have "?P (callback_effect x (callback_input hash now i))" by simp
  from find_mput_same [where P = ?P, OF keyed_entries [OF assms(1)] f this] True show ?thesis
    by (simp add: callback_lookup_def find_effect_def EffectByExternalID_def assms(3) lookup_or_def)
qed

lemma callback_message_again:
  assumes "ProviderInboxMessage_Validate (callback_message mid j (callback_input hash now i)) = None"
    and "mid' \<noteq> ''''" and "\<not> IsZero now'" and "j' \<noteq> ''''"
  shows "ProviderInboxMessage_Validate (callback_message mid' j' (callback_input hash now' i)) = None"
  using assms
  by (simp add: ProviderInboxMessage_Validate_def callback_message_def callback_input_clock [of hash now' i now]
      split: if_splits)

lemma callback_message_key:
  "inbox_key (callback_message mid' j' (callback_input hash now' i)) = inbox_key (callback_message mid j (callback_input hash now i))"
  "pi_ReceivedDigest (callback_message mid' j' (callback_input hash now' i))
   = pi_ReceivedDigest (callback_message mid j (callback_input hash now i))"
  by (simp_all add: inbox_key_def callback_message_def callback_input_clock [of hash now' i now])

lemma blank_nonempty: "\<not> blank x \<Longrightarrow> x \<noteq> ''''"
  by auto

lemma callback_replays:
  assumes "mget (runtimeProviderInbox s) (inbox_key n) = Some m \<and> pi_ReceivedDigest m = pi_ReceivedDigest n
      \<and> ProviderInboxMessage_Validate n = None"
    and n: "n = callback_message mid j (callback_input hash now i)"
    and input: "\<not> (blank (ci_TenantID i) \<or> blank (ci_ProviderID i) \<or> blank (ci_MessageID i) \<or> blank (ci_ExternalID i)
      \<or> blank (ci_ProviderState i))"
    and job: "\<not> blank (case callback_lookup i s of Inl _ \<Rightarrow> ci_JobRunID i | Inr x \<Rightarrow> ee_JobRunID x)"
    and "mid' \<noteq> ''''" and "\<not> IsZero now'"
  shows "\<exists>y. ReceiveProviderCallback hash mid' rid' eid' now' i s = Inr (s, m, y)"
proof -
  let ?j = "case callback_lookup i s of Inl _ \<Rightarrow> ci_JobRunID i | Inr x \<Rightarrow> ee_JobRunID x"
  let ?n = "callback_message mid' ?j (callback_input hash now' i)"
  have v: "ProviderInboxMessage_Validate ?n = None"
    by (rule callback_message_again [OF _ assms(5,6) blank_nonempty [OF job], of mid j hash now]) (use assms(1) n in simp)
  have "mget (runtimeProviderInbox s) (inbox_key ?n) = Some m" "pi_ReceivedDigest m = pi_ReceivedDigest ?n"
    using assms(1) callback_message_key [of mid' ?j hash now' i mid j now] unfolding n by simp_all
  from inbox_replay [OF this v]
  have *: "\<exists>y. ReceiveProviderInboxCommand ?n x ev r e s = Inr (s, m, y)" for x ev r e .
  show ?thesis
    using * input job unfolding ReceiveProviderCallback_eq Let_def
    by (cases "callback_lookup i s") (simp_all add: require_def)
qed

text \<open>
  A provider may deliver a callback as often as it likes: after one successful delivery, a
  redelivery of the same input, with whatever fresh identifiers and clock, answers with the stored
  message and changes nothing in the store.
\<close>

theorem callback_once:
  assumes "keyed effect_key (runtimeEffects s)"
    and "ReceiveProviderCallback hash mid rid eid now i s = Inr (s', m, y)"
    and "mid' \<noteq> ''''" and "\<not> IsZero now'"
  shows "\<exists>y'. ReceiveProviderCallback hash mid' rid' eid' now' i s' = Inr (s', m, y')"
proof -
  let ?i = "callback_input hash now i"
  have input: "\<not> (blank (ci_TenantID i) \<or> blank (ci_ProviderID i) \<or> blank (ci_MessageID i) \<or> blank (ci_ExternalID i)
      \<or> blank (ci_ProviderState i))"
    using assms(2) unfolding ReceiveProviderCallback_eq require_Inr by blast
  show ?thesis
  proof (cases "callback_lookup i s")
    case (Inl e)
    let ?m = "callback_message mid (ci_JobRunID i) ?i"
    have b: "\<not> blank (ci_JobRunID i)" and r: "ReceiveProviderInboxCommand ?m None 0 (Some (orphan_reconciliation rid ?m))
        (callback_event eid ?m) s = Inr (s', m, y)"
      using assms(2) Inl unfolding ReceiveProviderCallback_eq Let_def by (simp_all add: require_Inr)
    have "runtimeEffects s' = runtimeEffects s"
      using r by (cases rule: ReceiveProviderInboxCommand_ok) (simp_all add: put_effect_def)
    then have "callback_lookup i s' = Inl e" using callback_lookup_cong Inl by metis
    then show ?thesis using b callback_replays [OF inbox_known [OF r] refl input _ assms(3,4)] by simp
  next
    case (Inr x)
    let ?m = "callback_message mid (ee_JobRunID x) ?i"
    let ?x = "callback_effect x ?i"
    have b: "\<not> blank (ee_JobRunID x)" and r: "ReceiveProviderInboxCommand ?m (Some ?x) (ee_Version x)
        (callback_recon rid ?m ?x ?i) (callback_event eid ?m) s = Inr (s', m, y)"
      using assms(2) Inr unfolding ReceiveProviderCallback_eq Let_def by (simp_all add: require_Inr)
    have "\<exists>z. callback_lookup i s' = Inr z \<and> ee_JobRunID z = ee_JobRunID x"
      using r
    proof (cases rule: ReceiveProviderInboxCommand_ok)
      case received
      have "runtimeEffects s' = mput (effect_key x) ?x (runtimeEffects s)"
        unfolding received(9) by (simp add: put_effect_def)
      from callback_lookup_again [OF assms(1) Inr this] show ?thesis by simp
    qed (simp add: Inr)
    then show ?thesis using b callback_replays [OF inbox_known [OF r] refl input _ assms(3,4)] by auto
  qed
qed

subsection \<open>What a callback cannot do\<close>

text \<open>
  The reconciliation a late result opens is meant to compare the expected cost with the observed
  one. It is built from the effect after the observed cost has been written into it: the two amounts
  are always equal, whatever the effect was registered with.
\<close>

lemma callback_recon_blind:
  assumes "callback_recon rid (callback_message mid j i) (callback_effect x i) i = Some r"
  shows "rcn_ExpectedMinor r = rcn_ObservedMinor r"
  using assms by (auto simp: callback_recon_def newProviderReconciliation_def callback_message_def split: if_splits)

text \<open>
  A callback that leaves the state of the effect where it is, a progress report or a second terminal
  report, is accepted only when it repeats the effect's fields: one that carries another cost is
  refused, and the inbox keeps no trace of it.
\<close>

lemma callback_progress_refused:
  assumes "keyed effect_key (runtimeEffects s)" and "callback_lookup i s = Inr x"
    and "callback_target x (ci_ProviderState i) = ee_State x" and "ci_CostMinor i \<noteq> ee_CostMinor x"
    and "mget (runtimeProviderInbox s) (providerInboxKey (ci_TenantID i) (ci_ProviderID i) (ci_MessageID i)) = None"
  shows "isl (ReceiveProviderCallback hash mid rid eid now i s)"
proof (rule ccontr)
  let ?i = "callback_input hash now i"
  let ?m = "callback_message mid (ee_JobRunID x) ?i"
  assume "\<not> ?thesis"
  then obtain s' m y where "ReceiveProviderCallback hash mid rid eid now i s = Inr (s', m, y)"
    using not_isl_Inr by (metis surj_pair)
  then have "ReceiveProviderInboxCommand ?m (Some (callback_effect x ?i)) (ee_Version x)
      (callback_recon rid ?m (callback_effect x ?i) ?i) (callback_event eid ?m) s = Inr (s', m, y)"
    using assms(2) unfolding ReceiveProviderCallback_eq Let_def by (simp add: require_Inr)
  then show False
  proof (cases rule: ReceiveProviderInboxCommand_ok)
    case replay
    then show False using assms(5) by (simp add: inbox_key_def callback_message_def)
  next
    case received
    from inbox_effect_checked [OF received(6) [OF refl] callback_lookup_stored [OF assms(1,2)]] assms(3)
    have "callback_effect x ?i = x\<lparr>ee_UpdatedAt := ci_ReceivedAt ?i\<rparr>" by simp
    then have "ee_CostMinor (callback_effect x ?i) = ee_CostMinor x" by simp
    then show False using assms(4) by simp
  qed
qed

subsection \<open>A late result\<close>

definition ex_provider_hash :: "goany \<Rightarrow> string" where
  "ex_provider_hash v = replicate 64 CHR ''b''"

definition ex_provider_callback :: "string \<Rightarrow> int \<Rightarrow> ProviderCallbackInput" where
  "ex_provider_callback st cost =
     \<lparr>ci_TenantID = ''t'', ci_JobRunID = '''', ci_EffectID = ''x'', ci_ProviderID = ''prov'', ci_MessageID = ''m1'',
      ci_ExternalID = ''ext'', ci_ProviderState = st, ci_ReceivedDigest = '''', ci_ResponseDigest = '''',
      ci_CostMinor = cost, ci_Currency = '' cny '', ci_SafePayload = None, ci_ErrorCode = '''', ci_ReceivedAt = 5\<rparr>"

definition ex_provider_unknown :: Store where
  "ex_provider_unknown = ex_store\<lparr>runtimeEffects := mput ''t:x'' ((ex_effect ''x'' ''k'')\<lparr>ee_State := EffectUnknown, ee_Version := 3\<rparr>) []\<rparr>"

abbreviation ex_receive :: "string \<Rightarrow> Store \<Rightarrow> (ProviderInboxMessage \<times> ExternalEffect) cmd" where
  "ex_receive mid \<equiv> ReceiveProviderCallback ex_provider_hash mid ''r1'' ''e1'' 9 (ex_provider_callback '' Completed '' 7)"

lemma ex_provider_unknown_keyed: "keyed effect_key (runtimeEffects ex_provider_unknown)"
  unfolding ex_provider_unknown_def by (simp add: keyed_mput effect_key_def ex_effect_def runtimePlanKey_def)

lemma ex_late: "\<exists>m y. ex_receive ''m'' ex_provider_unknown = Inr (run_cmd (ex_receive ''m'') ex_provider_unknown, m, y)"
proof -
  have "\<not> isl (ex_receive ''m'' ex_provider_unknown)" by code_simp
  then show ?thesis using run_cmd_ok [of "ex_receive ''m''" ex_provider_unknown] by (metis surj_pair)
qed

theorem callback_guarded_witness:
  "\<exists>s' m y x'. ex_receive ''m'' ex_provider_unknown = Inr (s', m, y) \<and> mget (runtimeEffects s') ''t:x'' = Some x'
     \<and> ee_State x' = EffectReconciling \<and> ee_Version x' = 4 \<and> awaits_settlement x' s'"
proof -
  let ?s' = "run_cmd (ex_receive ''m'') ex_provider_unknown"
  obtain m y where r: "ex_receive ''m'' ex_provider_unknown = Inr (?s', m, y)" using ex_late by blast
  have x: "mget (runtimeEffects ex_provider_unknown) ''t:x'' = Some ((ex_effect ''x'' ''k'')\<lparr>ee_State := EffectUnknown, ee_Version := 3\<rparr>)"
    by (simp add: ex_provider_unknown_def)
  have v: "map_option ee_Version (mget (runtimeEffects ?s') ''t:x'') = Some 4" by code_simp
  let ?x = "(ex_effect ''x'' ''k'')\<lparr>ee_State := EffectUnknown, ee_Version := 3\<rparr>"
  obtain x' where x': "mget (runtimeEffects ?s') ''t:x'' = Some x'"
    and d: "x' = ?x\<lparr>ee_UpdatedAt := ee_UpdatedAt x'\<rparr> \<or> ee_Version x' = ee_Version ?x + 1
      \<and> effect_transition (ee_State ?x) (ee_State x') = None
      \<and> (ee_State ?x \<noteq> EffectUnknown \<or> ee_State x' = EffectReconciling \<and> awaits_settlement x' ?s')"
    using callback_guarded [OF ex_provider_unknown_keyed r x] by blast
  have v4: "ee_Version x' = 4" using v x' by simp
  have "x' \<noteq> ?x\<lparr>ee_UpdatedAt := ee_UpdatedAt x'\<rparr>"
  proof
    assume "x' = ?x\<lparr>ee_UpdatedAt := ee_UpdatedAt x'\<rparr>"
    from arg_cong [OF this, of ee_Version] v4 show False by simp
  qed
  with d have "ee_State x' = EffectReconciling" "awaits_settlement x' ?s'" by simp_all
  with r x' v4 show ?thesis by blast
qed

theorem callback_once_witness:
  "\<exists>s' m y y'. ex_receive ''m'' ex_provider_unknown = Inr (s', m, y) \<and> ex_receive ''m2'' s' = Inr (s', m, y')"
proof -
  obtain m y where r: "ex_receive ''m'' ex_provider_unknown = Inr (run_cmd (ex_receive ''m'') ex_provider_unknown, m, y)" using ex_late by blast
  have "\<not> IsZero 9" by (simp add: IsZero_def)
  from callback_once [OF ex_provider_unknown_keyed r _ this, of "''m2''" "''r1''" "''e1''"] r show ?thesis by auto
qed

end
