(* ===== verification/Service_Base.thy ===== *)
theory Service_Base
  imports Memory_Store
begin

section \<open>Service operations as sequences of store steps\<close>

text \<open>
  A service operation (\<^verbatim>\<open>internal/runtime/*.go\<close>) reads the store, decides, and issues one command
  or several, one after the other. When a later command fails the earlier ones have already been
  committed, so the outcome of an operation is the store it leaves together with a result or a fault:
  \<open>'a svc\<close>, the operations \<open>('s, 'a) op\<close> over the runtime store. \<open>query\<close> lifts a read, \<open>exec\<close> a store command, \<open>bind_svc\<close> is sequencing with Go's early
  return. An operation that ends with a single command keeps the simpler type \<open>cmd\<close> of the store.

  An operation is modelled without other requests between its steps; what a concurrent request may
  change in between is what the version checks of the commands are for, and the step relation of
  theory System interleaves commands freely. \<open>steps_of R m\<close> says that \<open>m\<close> only takes steps of \<open>R\<close>,
  whether it succeeds or not: it is how the properties of command sequences reach the services.

  The second part is the rollout gate of \<^verbatim>\<open>service.go\<close>.
\<close>

subsection \<open>Operations\<close>

type_synonym ('s, 'a) op = "'s \<Rightarrow> 's \<times> 'a res"

type_synonym 'a svc = "(Store, 'a) op"

definition ret :: "'a \<Rightarrow> ('s, 'a) op" where
  "ret v s = (s, Inr v)"

definition fail :: "fault \<Rightarrow> ('s, 'a) op" where
  "fail e s = (s, Inl e)"

definition query :: "('s \<Rightarrow> 'a res) \<Rightarrow> ('s, 'a) op" where
  "query f s = (s, f s)"

definition exec :: "('s \<Rightarrow> fault + ('s \<times> 'a)) \<Rightarrow> ('s, 'a) op" where
  "exec c s = (case c s of Inl e \<Rightarrow> (s, Inl e) | Inr (s', v) \<Rightarrow> (s', Inr v))"

definition bind_svc :: "('s, 'a) op \<Rightarrow> ('a \<Rightarrow> ('s, 'b) op) \<Rightarrow> ('s, 'b) op" where
  "bind_svc m f s = (case m s of (s', Inl e) \<Rightarrow> (s', Inl e) | (s', Inr v) \<Rightarrow> f v s')"

definition guard_svc :: "bool \<Rightarrow> fault \<Rightarrow> ('s, 'a) op \<Rightarrow> ('s, 'a) op" where
  "guard_svc b e m = (if b then m else fail e)"

definition check_svc :: "fault option \<Rightarrow> ('s, 'a) op \<Rightarrow> ('s, 'a) op" where
  "check_svc c m = (case c of None \<Rightarrow> m | Some e \<Rightarrow> fail e)"

text \<open>Running an operation whose error the caller drops (\<^verbatim>\<open>_, _ = f()\<close>), and a loop that stops at an error.\<close>

definition attempt_svc :: "('s, 'a) op \<Rightarrow> ('s, unit) op" where
  "attempt_svc m s = (fst (m s), Inr ())"

text \<open>Going on with whatever an operation returned, fault or not.\<close>

definition try_svc :: "('s, 'a) op \<Rightarrow> ('a res \<Rightarrow> ('s, 'b) op) \<Rightarrow> ('s, 'b) op" where
  "try_svc m f s = f (snd (m s)) (fst (m s))"

fun each :: "('a \<Rightarrow> ('s, unit) op) \<Rightarrow> 'a list \<Rightarrow> ('s, unit) op" where
  "each f [] = ret ()"
| "each f (x # xs) = bind_svc (f x) (\<lambda>_. each f xs)"

subsection \<open>Results\<close>

named_theorems svc_simps "evaluation of the primitive operations"

lemma svc_eval [svc_simps]:
  "ret v s = (s, Inr v)" "fail e s = (s, Inl e)" "query f s = (s, f s)" "attempt_svc m s = (fst (m s), Inr ())"
  "guard_svc True e m = m" "guard_svc False e m = fail e"
  "check_svc None m = m" "check_svc (Some e) m = fail e"
  by (simp_all add: ret_def fail_def query_def attempt_svc_def guard_svc_def check_svc_def)

lemma bind_svc_Inr:
  "bind_svc m f s = (s', Inr v) \<longleftrightarrow> (\<exists>s1 u. m s = (s1, Inr u) \<and> f u s1 = (s', Inr v))"
  by (auto simp: bind_svc_def split: prod.splits sum.splits)

lemma exec_Inr: "exec c s = (s', Inr v) \<longleftrightarrow> c s = Inr (s', v)"
  by (auto simp: exec_def split: sum.splits prod.splits)

lemma query_Inr: "query f s = (s', Inr v) \<longleftrightarrow> s' = s \<and> f s = Inr v"
  by (auto simp: query_def)

lemma guard_svc_Inr: "guard_svc b e m s = (s', Inr v) \<longleftrightarrow> b \<and> m s = (s', Inr v)"
  by (simp add: guard_svc_def fail_def)

lemma check_svc_Inr: "check_svc c m s = (s', Inr v) \<longleftrightarrow> c = None \<and> m s = (s', Inr v)"
  by (simp add: check_svc_def fail_def split: option.split)

lemma ret_Inr: "ret u s = (s', Inr v) \<longleftrightarrow> s' = s \<and> v = u"
  by (auto simp: ret_def)

lemma bind_query_Inr: "bind_svc (query f) g s = (s', Inr v) \<longleftrightarrow> (\<exists>u. f s = Inr u \<and> g u s = (s', Inr v))"
  by (auto simp: bind_svc_Inr query_Inr)

lemma bind_exec_Inr: "bind_svc (exec c) g s = (s', Inr v) \<longleftrightarrow> (\<exists>s1 u. c s = Inr (s1, u) \<and> g u s1 = (s', Inr v))"
  by (simp add: bind_svc_Inr exec_Inr)

lemma svc_ok: "\<not> isl (snd p) \<Longrightarrow> \<exists>v. p = (fst p, Inr v)"
  by (cases p; cases "snd p") auto

lemmas svc_Inr = bind_svc_Inr exec_Inr query_Inr guard_svc_Inr check_svc_Inr ret_Inr

subsection \<open>Steps\<close>

definition steps_of :: "('s \<Rightarrow> 's \<Rightarrow> bool) \<Rightarrow> ('s, 'a) op \<Rightarrow> bool" where
  "steps_of R m = (\<forall>s. R\<^sup>*\<^sup>* s (fst (m s)))"

named_theorems svc_steps "how the steps of an operation compose"

lemma steps_of_ret [svc_steps]: "steps_of R (ret v)"
  by (simp add: steps_of_def ret_def)

lemma steps_of_fail [svc_steps]: "steps_of R (fail e)"
  by (simp add: steps_of_def fail_def)

lemma steps_of_query [svc_steps]: "steps_of R (query f)"
  by (simp add: steps_of_def query_def)

lemma steps_of_exec:
  assumes "\<And>s s' v. c s = Inr (s', v) \<Longrightarrow> R\<^sup>*\<^sup>* s s'"
  shows "steps_of R (exec c)"
  using assms by (auto simp: steps_of_def exec_def split: sum.splits prod.splits)

lemma steps_of_bind [svc_steps]:
  assumes "steps_of R m" and "\<And>v. steps_of R (f v)"
  shows "steps_of R (bind_svc m f)"
proof -
  have "R\<^sup>*\<^sup>* s (fst (bind_svc m f s))" for s
  proof (cases "m s")
    case (Pair s1 r)
    have 1: "R\<^sup>*\<^sup>* s s1" using assms(1) Pair by (metis steps_of_def fst_conv)
    show ?thesis
    proof (cases r)
      case (Inr v)
      have "R\<^sup>*\<^sup>* s1 (fst (f v s1))" using assms(2) [of v] by (simp add: steps_of_def)
      with 1 show ?thesis by (simp add: bind_svc_def Pair Inr)
    qed (simp add: bind_svc_def Pair 1)
  qed
  then show ?thesis by (simp add: steps_of_def)
qed

lemma steps_of_guard [svc_steps]: "steps_of R m \<Longrightarrow> steps_of R (guard_svc b e m)"
  by (simp add: guard_svc_def steps_of_fail)

lemma steps_of_check [svc_steps]: "steps_of R m \<Longrightarrow> steps_of R (check_svc c m)"
  by (simp add: check_svc_def steps_of_fail split: option.split)

lemma steps_of_attempt [svc_steps]: "steps_of R m \<Longrightarrow> steps_of R (attempt_svc m)"
  by (simp add: steps_of_def attempt_svc_def)

lemma steps_of_each [svc_steps]: "(\<And>x. steps_of R (f x)) \<Longrightarrow> steps_of R (each f xs)"
  by (induction xs) (simp_all add: steps_of_ret steps_of_bind)

lemma steps_of_if [svc_steps]: "steps_of R m \<Longrightarrow> steps_of R n \<Longrightarrow> steps_of R (if b then m else n)"
  by simp

lemma steps_of_try [svc_steps]:
  assumes "steps_of R m" and "\<And>r. steps_of R (f r)"
  shows "steps_of R (try_svc m f)"
  using assms unfolding steps_of_def try_svc_def by (meson rtranclp_trans)

lemma steps_of_option [svc_steps]:
  "steps_of R n \<Longrightarrow> (\<And>x. steps_of R (m x)) \<Longrightarrow> steps_of R (case r of None \<Rightarrow> n | Some x \<Rightarrow> m x)"
  by (cases r) simp_all

lemma steps_of_sum [svc_steps]:
  "(\<And>e. steps_of R (n e)) \<Longrightarrow> (\<And>x. steps_of R (m x)) \<Longrightarrow> steps_of R (case r of Inl e \<Rightarrow> n e | Inr x \<Rightarrow> m x)"
  by (cases r) simp_all

lemma steps_of_pair [svc_steps]: "(\<And>x y. steps_of R (f x y)) \<Longrightarrow> steps_of R (case p of (x, y) \<Rightarrow> f x y)"
  by (cases p) simp

lemma steps_of_invariant:
  assumes "steps_of R m" and "\<And>a b. I a \<Longrightarrow> R a b \<Longrightarrow> I b" and "I s"
  shows "I (fst (m s))"
proof -
  have "R\<^sup>*\<^sup>* s (fst (m s))" using assms(1) by (simp add: steps_of_def)
  then show ?thesis using assms(3) by (induction rule: rtranclp_induct) (use assms(2) in blast)+
qed

subsection \<open>New nodes and events\<close>

text \<open>The fields a service leaves out of a composite literal are the zero values of their types.\<close>

definition new_node_run :: "string \<Rightarrow> string \<Rightarrow> string \<Rightarrow> string \<Rightarrow> time \<Rightarrow> NodeRun" where
  "new_node_run tenantID jobID key i now =
     \<lparr>nr_ID = i, nr_TenantID = tenantID, nr_JobRunID = jobID, nr_NodeKey = key, nr_State = NodePending,
      nr_AttemptCount = 0, nr_OutputRefs = [], nr_OutputDigest = '''', nr_ErrorCode = '''', nr_LeaseOwner = '''',
      nr_FenceToken = '''', nr_LeaseExpiresAt = None, nr_Version = 1, nr_CreatedAt = now, nr_UpdatedAt = now\<rparr>"

definition new_event ::
    "string \<Rightarrow> string \<Rightarrow> string \<Rightarrow> string \<Rightarrow> string \<Rightarrow> string \<Rightarrow> string \<Rightarrow> string \<Rightarrow> payload \<Rightarrow> time \<Rightarrow> JobEvent" where
  "new_event i tenantID jobID nodeKey ty actorType actorID idempotencyKey pl at =
     \<lparr>je_ID = i, je_TenantID = tenantID, je_JobRunID = jobID, je_Sequence = 0, je_Type = ty, je_NodeKey = nodeKey,
      je_ActorType = actorType, je_ActorID = actorID, je_CorrelationID = '''', je_IdempotencyKey = idempotencyKey,
      je_Payload = pl, je_OccurredAt = at\<rparr>"

subsection \<open>Rollout (service.go)\<close>

record RolloutPolicy =
  ro_AdmissionEnabled :: bool
  ro_DynamicGraphEnabled :: bool
  ro_TenantIDs :: "string list"

record Service =
  sv_rollout :: RolloutPolicy
  sv_rolloutTenants :: "string list"

definition DefaultRolloutPolicy :: RolloutPolicy where
  "DefaultRolloutPolicy = \<lparr>ro_AdmissionEnabled = True, ro_DynamicGraphEnabled = True, ro_TenantIDs = []\<rparr>"

definition NewService :: Service where
  "NewService = \<lparr>sv_rollout = DefaultRolloutPolicy, sv_rolloutTenants = []\<rparr>"

definition SetRolloutPolicy :: "RolloutPolicy \<Rightarrow> Service \<Rightarrow> Service" where
  "SetRolloutPolicy policy sv =
     sv\<lparr>sv_rollout := policy,
        sv_rolloutTenants := filter (\<lambda>t. t \<noteq> '''') (map TrimSpace (ro_TenantIDs policy))\<rparr>"

definition rolloutTenantAllowed :: "Service \<Rightarrow> string \<Rightarrow> bool" where
  "rolloutTenantAllowed sv tenantID =
     (if sv_rolloutTenants sv = [] then True else TrimSpace tenantID \<in> set (sv_rolloutTenants sv))"

definition DynamicGraphEnabled :: "Service \<Rightarrow> string \<Rightarrow> bool" where
  "DynamicGraphEnabled sv tenantID = (ro_DynamicGraphEnabled (sv_rollout sv) \<and> rolloutTenantAllowed sv tenantID)"

definition requireAdmission :: "Service \<Rightarrow> string \<Rightarrow> fault option" where
  "requireAdmission sv tenantID =
     (if \<not> ro_AdmissionEnabled (sv_rollout sv) \<or> \<not> rolloutTenantAllowed sv tenantID
      then Some (Policy ''RUNTIME_ADMISSION_DISABLED'') else None)"

definition requireDynamicGraph :: "Service \<Rightarrow> string \<Rightarrow> fault option" where
  "requireDynamicGraph sv tenantID =
     (if \<not> ro_DynamicGraphEnabled (sv_rollout sv) \<or> \<not> rolloutTenantAllowed sv tenantID
      then Some (Policy ''RUNTIME_DYNAMIC_GRAPH_DISABLED'') else None)"

text \<open>Five minutes, in nanoseconds.\<close>

definition DefaultNodeLeaseDuration :: int where
  "DefaultNodeLeaseDuration = 5 * 60 * 1000000000"

text \<open>
  A policy whose tenant list names only blanks opens the runtime to every tenant: an empty list of
  tenants is no restriction.
\<close>

lemma blank_tenants_allow_all:
  "list_all blank (ro_TenantIDs policy) \<Longrightarrow> rolloutTenantAllowed (SetRolloutPolicy policy sv) t"
  by (auto simp: rolloutTenantAllowed_def SetRolloutPolicy_def filter_empty_conv list_all_iff)

end
