(* ===== verification/Fanout_Service.thy ===== *)
theory Fanout_Service
  imports Fanout_Store Service_Base
begin

section \<open>Fan-out in the service\<close>

text \<open>
  \<^verbatim>\<open>internal/runtime/fanout.go\<close>: \<open>CreateFanoutSet\<close> freezes the items of a fan-out, derives a
  deterministic child node for each and hands plan, job, set, members and nodes to the store in one
  command; \<open>JoinFanoutSet\<close> brings the members up to date with their nodes, evaluates the join and
  writes the outcome. \<open>hash\<close> stands for \<^verbatim>\<open>stablehash.Sum\<close>; \<open>ids\<close> are the results of \<^verbatim>\<open>idgen.New\<close> in
  the order of the calls (the set, a node and a member per item, the plan revision, the event);
  \<open>now\<close> is the clock.
\<close>

subsection \<open>Creating a set\<close>

record FanoutItemInput =
  it_ItemKey :: string
  it_ItemDigest :: string

record CreateFanoutSetInput =
  cf_TenantID :: string
  cf_JobRunID :: string
  cf_MapNodeKey :: string
  cf_JoinNodeKey :: string
  cf_SourceCollection :: string
  cf_SourceRevision :: int
  cf_SourceWatermark :: int
  cf_Generation :: int
  cf_IdempotencyKey :: string
  cf_Reason :: string
  cf_JoinPolicy :: JoinPolicy
  cf_NodeTemplate :: JobPlanNode
  cf_Items :: "FanoutItemInput list"

record FanoutSetResult =
  fr_Plan :: JobPlanRevision
  fr_Job :: JobRun
  fr_Set :: FanoutSet
  fr_Members :: "FanoutMember list"
  fr_Nodes :: "NodeRun list"

fun items_check :: "string list \<Rightarrow> FanoutItemInput list \<Rightarrow> fault option" where
  "items_check seen [] = None"
| "items_check seen (x # xs) =
     (if blank (it_ItemKey x) \<or> blank (it_ItemDigest x) \<or> it_ItemKey x \<in> set seen
      then Some (Invalid ''FANOUT_ITEM_INVALID'') else items_check (it_ItemKey x # seen) xs)"

definition json_item :: "FanoutItemInput \<Rightarrow> goany" where
  "json_item x = AObj [(''item_key'', AStr (it_ItemKey x)), (''item_digest'', AStr (it_ItemDigest x))]"

definition canonicalFanoutMembership ::
    "(goany \<Rightarrow> string) \<Rightarrow> CreateFanoutSetInput \<Rightarrow> (FanoutItemInput list \<times> string) res" where
  "canonicalFanoutMembership hash input =
     (let items = sort_by (\<lambda>a b. it_ItemKey a < it_ItemKey b) (cf_Items input) in
      check_nil (items_check [] items) (
      Inr (items, hash (AObj
        [(''source_collection'', AStr (cf_SourceCollection input)), (''source_revision'', AInt (cf_SourceRevision input)),
         (''source_watermark'', AInt (cf_SourceWatermark input)), (''generation'', AInt (cf_Generation input)),
         (''items'', AArr (map json_item items))]))))"

definition omit_zero :: "string \<Rightarrow> int \<Rightarrow> payload" where
  "omit_zero name v = (if v = 0 then [] else [(name, AInt v)])"

definition json_policy :: "JoinPolicy \<Rightarrow> goany" where
  "json_policy p = AObj (
     [(''strategy'', AStr (pol_Strategy p))] @ omit_zero ''min_success'' (pol_MinSuccess p)
     @ omit_zero ''quorum_percent'' (pol_QuorumPercent p)
     @ [(''zero_member_policy'', AStr (pol_ZeroMemberPolicy p))]
     @ omit_empty ''quorum_stop_policy'' (pol_QuorumStopPolicy p))"

definition fanout_request_json :: "CreateFanoutSetInput \<Rightarrow> JobPlanNode \<Rightarrow> FanoutItemInput list \<Rightarrow> goany" where
  "fanout_request_json input template items = AObj
     [(''tenant_id'', AStr (cf_TenantID input)), (''job_run_id'', AStr (cf_JobRunID input)),
      (''map_node_key'', AStr (cf_MapNodeKey input)), (''join_node_key'', AStr (cf_JoinNodeKey input)),
      (''source_collection'', AStr (cf_SourceCollection input)), (''source_revision'', AInt (cf_SourceRevision input)),
      (''source_watermark'', AInt (cf_SourceWatermark input)), (''generation'', AInt (cf_Generation input)),
      (''join_policy'', json_policy (cf_JoinPolicy input)), (''node_template'', json_node template),
      (''items'', AArr (map json_item items))]"

definition fanout_defaults :: "CreateFanoutSetInput \<Rightarrow> CreateFanoutSetInput" where
  "fanout_defaults i =
     i\<lparr>cf_Generation := (if cf_Generation i < 1 then 1 else cf_Generation i),
       cf_JoinPolicy := NormalizeJoinPolicy (cf_JoinPolicy i)\<rparr>"

definition fanout_template :: "JobPlanNode \<Rightarrow> JobPlanNode" where
  "fanout_template t =
     t\<lparr>pn_Kind := (if pn_Kind t = '''' then ''fanout_item'' else pn_Kind t),
       pn_RetryMaxAttempts := (if pn_RetryMaxAttempts t < 1 then 1 else pn_RetryMaxAttempts t)\<rparr>"

definition child_node :: "CreateFanoutSetInput \<Rightarrow> JobPlanNode \<Rightarrow> string \<Rightarrow> FanoutItemInput \<Rightarrow> JobPlanNode" where
  "child_node input template memberKey x =
     template\<lparr>pn_Key := memberKey,
       pn_Name := (if blank (pn_Name template) then ''Fanout '' @ it_ItemKey x
                   else pn_Name template @ '' ['' @ it_ItemKey x @ '']''),
       pn_DependsOn := pn_DependsOn template @ [cf_MapNodeKey input]\<rparr>"

definition child_member ::
    "CreateFanoutSetInput \<Rightarrow> time \<Rightarrow> string \<Rightarrow> string \<Rightarrow> string \<Rightarrow> string \<Rightarrow> FanoutItemInput \<Rightarrow> FanoutMember" where
  "child_member input now setID memberID nodeID memberKey x =
     \<lparr>fm_ID = memberID, fm_TenantID = cf_TenantID input, fm_FanoutSetID = setID, fm_MemberKey = memberKey,
      fm_ItemKey = it_ItemKey x, fm_ItemDigest = it_ItemDigest x, fm_Generation = cf_Generation input,
      fm_NodeRunID = nodeID, fm_State = FanoutMemberPending, fm_OutputRefs = Some [], fm_OutputDigest = '''',
      fm_ErrorCode = '''', fm_Version = 1, fm_CreatedAt = now, fm_UpdatedAt = now\<rparr>"

fun children ::
    "(goany \<Rightarrow> string) \<Rightarrow> (nat \<Rightarrow> string) \<Rightarrow> time \<Rightarrow> CreateFanoutSetInput \<Rightarrow> JobPlanNode \<Rightarrow> string \<Rightarrow> nat
     \<Rightarrow> FanoutItemInput list \<Rightarrow> (JobPlanNode list \<times> FanoutMember list \<times> NodeRun list) res" where
  "children hash ids now input template setID k [] = Inr ([], [], [])"
| "children hash ids now input template setID k (x # xs) =
     bind_res (DeterministicFanoutMemberKey hash (cf_JobRunID input) (cf_MapNodeKey input) setID (it_ItemKey x)
                 (cf_Generation input)) (\<lambda>key.
     bind_res (children hash ids now input template setID (k + 2) xs) (\<lambda>(ps, ms, ns).
     Inr (child_node input template key x # ps,
          child_member input now setID (ids (k + 1)) (ids k) key x # ms,
          new_node_run (cf_TenantID input) (cf_JobRunID input) key (ids k) now # ns)))"

text \<open>The join node must exist and must not have been claimed.\<close>

definition join_node_check :: "string \<Rightarrow> NodeRun list \<Rightarrow> fault option" where
  "join_node_check key nodes =
     (let hits = filter (\<lambda>n. nr_NodeKey n = key) nodes in
      if \<not> list_all (\<lambda>n. nr_State n \<in> {NodePending, NodeBlocked, NodeSkipped, NodeCancelled}) hits
      then Some (Conflict ''FANOUT_JOIN_NODE_ACTIVE'')
      else if hits = [] then Some NotFound else None)"

definition new_fanout_set ::
    "CreateFanoutSetInput \<Rightarrow> time \<Rightarrow> string \<Rightarrow> string \<Rightarrow> string \<Rightarrow> nat \<Rightarrow> FanoutSet" where
  "new_fanout_set input now setID membershipDigest requestDigest n =
     \<lparr>fs_ID = setID, fs_TenantID = cf_TenantID input, fs_JobRunID = cf_JobRunID input,
      fs_MapNodeKey = cf_MapNodeKey input, fs_JoinNodeKey = cf_JoinNodeKey input,
      fs_SourceCollection = cf_SourceCollection input, fs_SourceRevision = cf_SourceRevision input,
      fs_SourceWatermark = cf_SourceWatermark input, fs_Generation = cf_Generation input,
      fs_IdempotencyKey = cf_IdempotencyKey input, fs_MembershipDigest = ''sha256:'' @ membershipDigest,
      fs_RequestDigest = ''sha256:'' @ requestDigest, fs_MemberCount = int n, fs_JoinPolicy = cf_JoinPolicy input,
      fs_Status = FanoutClosed, fs_Version = 1, fs_ClosedAt = Some now, fs_CreatedAt = now, fs_UpdatedAt = now\<rparr>"

definition fanout_event :: "string \<Rightarrow> time \<Rightarrow> CreateFanoutSetInput \<Rightarrow> FanoutSet \<Rightarrow> nat \<Rightarrow> JobEvent" where
  "fanout_event eid now input f n =
     new_event eid (cf_TenantID input) (cf_JobRunID input) '''' ''fanout.created'' ''runtime'' ''runtime.fanout''
       (''fanout:'' @ cf_IdempotencyKey input)
       [(''fanout_set_id'', AStr (fs_ID f)), (''member_count'', AInt (int n)),
        (''membership_digest'', AStr (fs_MembershipDigest f))] now"

definition load_fanout :: "CreateFanoutSetInput \<Rightarrow> FanoutSet \<Rightarrow> Store \<Rightarrow> FanoutSetResult cmd" where
  "load_fanout input existing s =
     bind_res (Store_JobRun (cf_TenantID input) (cf_JobRunID input) s) (\<lambda>job.
     bind_res (Store_Plan (cf_TenantID input) (jr_PlanRevisionID job) s) (\<lambda>plan.
     Inr (s, \<lparr>fr_Plan = plan, fr_Job = job, fr_Set = existing,
             fr_Members = FanoutMembers (cf_TenantID input) (fs_ID existing) s,
             fr_Nodes = NodeRuns (cf_TenantID input) (cf_JobRunID input) s\<rparr>)))"

definition CreateFanoutSet ::
    "Service \<Rightarrow> (goany \<Rightarrow> string) \<Rightarrow> (nat \<Rightarrow> string) \<Rightarrow> time \<Rightarrow> CreateFanoutSetInput \<Rightarrow> Store \<Rightarrow> FanoutSetResult cmd" where
  "CreateFanoutSet sv hash ids now input0 s =
     require (\<not> (blank (cf_TenantID input0) \<or> blank (cf_JobRunID input0) \<or> blank (cf_MapNodeKey input0)
                 \<or> blank (cf_JoinNodeKey input0) \<or> blank (cf_IdempotencyKey input0)))
       (Invalid ''FANOUT_INPUT_INVALID'') (
     require (TrimSpace (cf_MapNodeKey input0) \<noteq> TrimSpace (cf_JoinNodeKey input0)) (Invalid ''FANOUT_NODE_INVALID'') (
     let input = fanout_defaults input0 in
     check_nil (JoinPolicy_Validate (cf_JoinPolicy input)) (
     bind_res (canonicalFanoutMembership hash input) (\<lambda>(items, membershipDigest).
     require (pn_OutputSchema (cf_NodeTemplate input) \<noteq> '''') (Invalid ''FANOUT_NODE_TEMPLATE_INVALID'') (
     let template = fanout_template (cf_NodeTemplate input);
         requestDigest = hash (fanout_request_json input template items) in
     case FanoutSetByIdempotencyKey (cf_TenantID input) (cf_JobRunID input) (cf_IdempotencyKey input) s of
       Inr existing \<Rightarrow>
         require (fs_RequestDigest existing = ''sha256:'' @ requestDigest) (Conflict ''FANOUT_IDEMPOTENCY_MISMATCH'')
           (load_fanout input existing s)
     | Inl e \<Rightarrow>
     require (IsNotFound e) e (
     check_nil (requireDynamicGraph sv (cf_TenantID input)) (
     bind_res (Store_JobRun (cf_TenantID input) (cf_JobRunID input) s) (\<lambda>job.
     bind_res (Store_Plan (cf_TenantID input) (jr_PlanRevisionID job) s) (\<lambda>plan.
     require (planNodeExists plan (cf_MapNodeKey input) \<and> planNodeExists plan (cf_JoinNodeKey input))
       (Invalid ''FANOUT_NODE_NOT_FOUND'') (
     require (planHasPath plan (cf_MapNodeKey input) (cf_JoinNodeKey input)) (Invalid ''FANOUT_JOIN_NOT_DOWNSTREAM'') (
     check_nil (join_node_check (cf_JoinNodeKey input) (NodeRuns (cf_TenantID input) (cf_JobRunID input) s)) (
     let setID = ids 0; n = length items in
     bind_res (children hash ids now input template setID 1 items) (\<lambda>(patchNodes, members, nodes).
     bind_res (ApplyGraphPatch (ids (2 * n + 1)) hash plan (jp_GraphVersion plan)
                 \<lparr>gp_ExpectedGraphVersion = jp_GraphVersion plan, gp_IdempotencyKey = cf_IdempotencyKey input,
                  gp_Reason = cf_Reason input, gp_AddNodes = patchNodes, gp_AddEdges = [],
                  gp_CancelPendingNodeKeys = []\<rparr>) (\<lambda>patched.
     let f = new_fanout_set input now setID membershipDigest requestDigest n;
         job' = job\<lparr>jr_Version := jr_Version job + 1, jr_PlanRevisionID := jp_ID (gr_Plan patched),
                    jr_PlanDigest := jp_Digest (gr_Plan patched), jr_UpdatedAt := now\<rparr> in
     bind_res (CreateFanoutSetCommand job' (jr_Version job' - 1) (gr_Plan patched) f members nodes
                 (fanout_event (ids (2 * n + 2)) now input f n) s) (\<lambda>(s', updatedJob).
     Inr (s', \<lparr>fr_Plan = gr_Plan patched, fr_Job = updatedJob, fr_Set = f, fr_Members = members,
              fr_Nodes = nodes\<rparr>))))))))))))))))"

subsection \<open>Joining a set\<close>

fun fanout_status_str :: "fanout_status \<Rightarrow> string" where
  "fanout_status_str FanoutOpen = ''open''"
| "fanout_status_str FanoutClosed = ''closed''"
| "fanout_status_str FanoutSucceeded = ''succeeded''"
| "fanout_status_str FanoutFailed = ''failed''"
| "fanout_status_str (FanoutStatus x) = x"

text \<open>The members as their nodes are now, and whether one of them changed.\<close>

fun refresh_members ::
    "string \<Rightarrow> FanoutMember list \<Rightarrow> Store \<Rightarrow> (FanoutMember list \<times> bool) res" where
  "refresh_members tenantID [] s = Inr ([], False)"
| "refresh_members tenantID (m # ms) s =
     bind_res (Store_NodeRun tenantID (fm_NodeRunID m) s) (\<lambda>node.
     let m' = fanoutMemberFromNode m node in
     bind_res (refresh_members tenantID ms s) (\<lambda>(ms', changed).
     Inr (m' # ms', fanoutMemberChanged m m' \<or> changed)))"

definition join_event :: "string \<Rightarrow> time \<Rightarrow> string \<Rightarrow> string \<Rightarrow> FanoutSet \<Rightarrow> FanoutSet \<Rightarrow> JoinDecision \<Rightarrow> JobEvent" where
  "join_event eid now tenantID actorID f nxt d =
     new_event eid tenantID (fs_JobRunID f) ''''
       (if jd_Terminal d \<or> jd_CancelMemberKeys d \<noteq> [] then ''fanout.joined'' else ''fanout.progressed'')
       ''runtime'' (TrimSpace actorID) (''fanout-join:'' @ fs_ID f @ '':'' @ Itoa (fs_Version nxt))
       [(''fanout_set_id'', AStr (fs_ID f)), (''status'', AStr (fanout_status_str (jd_Status d))),
        (''successful'', AInt (jd_Successful d)), (''required_success'', AInt (jd_RequiredSuccess d)),
        (''cancelled_member_keys'', AStrs (jd_CancelMemberKeys d))] now"

definition JoinFanoutSet :: "string \<Rightarrow> time \<Rightarrow> string \<Rightarrow> string \<Rightarrow> string \<Rightarrow> FanoutSet svc" where
  "JoinFanoutSet eid now tenantID setID actorID =
     bind_svc (query (Store_FanoutSet tenantID setID)) (\<lambda>f.
     if fs_Status f = FanoutSucceeded \<or> fs_Status f = FanoutFailed then ret f
     else
     bind_svc (query (\<lambda>s. refresh_members tenantID (FanoutMembers tenantID setID s) s)) (\<lambda>(members, changed).
     bind_svc (query (\<lambda>s. EvaluateJoin f members)) (\<lambda>d.
     if jd_Status d = FanoutStatus '''' \<and> jd_CancelMemberKeys d = [] \<and> \<not> changed then ret f
     else
     let nxt = f\<lparr>fs_Version := fs_Version f + 1, fs_UpdatedAt := now,
                 fs_Status := (if jd_Terminal d then jd_Status d else fs_Status f)\<rparr> in
     ApplyFanoutJoinCommand nxt (fs_Version f) members (jd_CancelMemberKeys d)
       (join_event eid now tenantID actorID f nxt d))))"

subsection \<open>A set whose children have ended is settled\<close>

definition set_intact :: "string \<Rightarrow> string \<Rightarrow> Store \<Rightarrow> FanoutSet \<Rightarrow> bool" where
  "set_intact t i s f =
     (mget (runtimeFanoutSets s) (runtimeFanoutKey t i) = Some f \<and> fs_ID f = i \<and> fs_TenantID f = t
      \<and> FanoutSet_Validate f = None \<and> fs_Status f = FanoutClosed
      \<and> int (length (FanoutMembers t i s)) = fs_MemberCount f
      \<and> list_all (\<lambda>m. FanoutMember_Validate m = None) (FanoutMembers t i s))"

definition ended_node :: "string \<Rightarrow> Store \<Rightarrow> FanoutMember \<Rightarrow> NodeRun option" where
  "ended_node t s m =
     (case mget (runtimeNodes s) (runtimeNodeKey t (fm_NodeRunID m)) of
        None \<Rightarrow> None
      | Some n \<Rightarrow> if member_terminal (member_state_of_node (nr_State n)) \<and> \<not> IsZero (nr_UpdatedAt n) then Some n else None)"

definition members_ended :: "string \<Rightarrow> string \<Rightarrow> Store \<Rightarrow> bool" where
  "members_ended t i s = list_all (\<lambda>m. ended_node t s m \<noteq> None) (FanoutMembers t i s)"

text \<open>The contract: how a set ends once the final states of its children are known.\<close>

definition final_members :: "string \<Rightarrow> string \<Rightarrow> Store \<Rightarrow> FanoutMember list" where
  "final_members t i s = map (\<lambda>m. fanoutMemberFromNode m (the (ended_node t s m))) (FanoutMembers t i s)"

definition join_verdict :: "JoinPolicy \<Rightarrow> FanoutMember list \<Rightarrow> fanout_status" where
  "join_verdict p ms =
     (if ms = [] then (if pol_ZeroMemberPolicy p = ''succeed_empty'' then FanoutSucceeded else FanoutFailed)
      else if join_enough p ms then FanoutSucceeded else FanoutFailed)"

lemma member_from_node_sel [simp]:
  "fm_State (fanoutMemberFromNode m n) = member_state_of_node (nr_State n)"
  "fm_TenantID (fanoutMemberFromNode m n) = fm_TenantID m" "fm_FanoutSetID (fanoutMemberFromNode m n) = fm_FanoutSetID m"
  "fm_MemberKey (fanoutMemberFromNode m n) = fm_MemberKey m" "member_key (fanoutMemberFromNode m n) = member_key m"
  by (simp_all add: fanoutMemberFromNode_def member_key_def Let_def)

lemma copy_member_sel [simp]:
  "member_key (copy_member m) = member_key m" "fm_Version (copy_member m) = fm_Version m"
  "fm_TenantID (copy_member m) = fm_TenantID m" "fm_FanoutSetID (copy_member m) = fm_FanoutSetID m"
  by (simp_all add: copy_member_def member_key_def)

lemma FanoutMembers_stored:
  assumes "keyed member_key (runtimeFanoutMembers s)" and "m \<in> set (FanoutMembers t i s)"
  obtains m0 where "mget (runtimeFanoutMembers s) (member_key m) = Some m0" "m = copy_member m0"
    "fm_TenantID m = t" "fm_FanoutSetID m = i"
proof -
  from assms(2) obtain m0 where m0: "m0 \<in> set (mvals (runtimeFanoutMembers s))" "m = copy_member m0"
    "fm_TenantID m0 = t" "fm_FanoutSetID m0 = i"
    by (auto simp: FanoutMembers_def set_sort_by)
  with keyed_vals [OF assms(1)] show ?thesis by (intro that [of m0]) simp_all
qed

lemma refresh_members_ended:
  assumes "list_all (\<lambda>m. ended_node t s m \<noteq> None) ms"
  shows "\<exists>ch. refresh_members t ms s = Inr (map (\<lambda>m. fanoutMemberFromNode m (the (ended_node t s m))) ms, ch)"
  using assms
proof (induction ms)
  case (Cons m ms)
  then obtain n where n: "ended_node t s m = Some n" by auto
  then have "Store_NodeRun t (fm_NodeRunID m) s = Inr n"
    by (auto simp: ended_node_def Store_NodeRun_def split: option.splits if_splits)
  with Cons n show ?case by (auto simp: Let_def)
qed auto

lemma member_from_node_valid:
  assumes "FanoutMember_Validate m = None" and "ended_node t s m = Some n"
  shows "FanoutMember_Validate (fanoutMemberFromNode m n) = None"
proof -
  have "\<not> IsZero (nr_UpdatedAt n)" "member_terminal (member_state_of_node (nr_State n))"
    using assms(2) by (auto simp: ended_node_def split: option.splits if_splits)
  moreover from this(2) have "valid_member_state (member_state_of_node (nr_State n))"
    by (cases "member_state_of_node (nr_State n)") simp_all
  ultimately show ?thesis
    using assms(1) by (auto simp: FanoutMember_Validate_def fanoutMemberFromNode_def Let_def split: if_splits)
qed

lemma member_from_node_version: "fm_Version (fanoutMemberFromNode m n) \<in> {fm_Version m, fm_Version m + 1}"
  by (simp add: fanoutMemberFromNode_def Let_def)

lemma final_member_checks:
  assumes "keyed member_key (runtimeFanoutMembers s)" and "fs_TenantID f = t" and "fs_ID f = i"
    and "list_all (\<lambda>m. FanoutMember_Validate m = None) (FanoutMembers t i s)" and "members_ended t i s"
  shows "check_all (join_member_check f s) (final_members t i s) = None"
proof -
  have "join_member_check f s (fanoutMemberFromNode m (the (ended_node t s m))) = None"
    if m: "m \<in> set (FanoutMembers t i s)" for m
  proof -
    obtain n where n: "ended_node t s m = Some n" using assms(5) m by (auto simp: members_ended_def list_all_iff)
    have v: "FanoutMember_Validate (fanoutMemberFromNode m n) = None"
      using member_from_node_valid [OF _ n] assms(4) m by (simp add: list_all_iff)
    from FanoutMembers_stored [OF assms(1) m] obtain m0 where
      "mget (runtimeFanoutMembers s) (member_key m) = Some m0" "m = copy_member m0" "fm_TenantID m = t" "fm_FanoutSetID m = i" .
    then show ?thesis
      using v n assms(2,3) member_from_node_version [of m n] by (auto simp: join_member_check_def)
  qed
  then show ?thesis by (auto simp: final_members_def check_all_None)
qed

lemma EvaluateJoin_verdict:
  assumes "JoinPolicy_Validate (fs_JoinPolicy f) = None" and "fs_Status f = FanoutClosed"
    and "int (length ms) = fs_MemberCount f" and "\<forall>m \<in> set ms. member_terminal (fm_State m)"
  shows "\<exists>d. EvaluateJoin f ms = Inr d \<and> jd_Terminal d \<and> jd_CancelMemberKeys d = []
    \<and> jd_Status d = join_verdict (NormalizeJoinPolicy (fs_JoinPolicy f)) ms"
proof (cases "ms = []")
  case True
  then show ?thesis
    using assms(1-3) by (simp add: EvaluateJoin_def Let_def validate_normalized join_verdict_def)
next
  case False
  let ?p = "NormalizeJoinPolicy (fs_JoinPolicy f)"
  have ok: "JoinPolicy_Validate ?p = None" using assms(1) by (simp add: validate_normalized)
  have val: "list_all (\<lambda>m. valid_member_state (fm_State m)) ms"
    unfolding list_all_iff
  proof
    fix m assume "m \<in> set ms"
    with assms(4) have "member_terminal (fm_State m)" by blast
    then show "valid_member_state (fm_State m)" by (cases "fm_State m") simp_all
  qed
  have ended: "n_term ms = int (length ms)" using assms(4) by (simp add: n_term_def)
  have comp: "completes ms ms" using assms(4) by (auto simp: completes_def list_all2_same)
  have none: "pending_keys ms = []"
    using pending_not_terminal [of ms] ended by simp
  obtain d where d: "EvaluateJoin f ms = Inr d" "jd_Terminal d"
    using EvaluateJoin_ended [OF assms(1) _ assms(3) False val ended] assms(2) by auto
  note j = EvaluateJoin_cases(4) [OF d(1) False]
  have "jd_Status d = (if join_enough ?p ms then FanoutSucceeded else FanoutFailed)"
    using join_switch_verdict [OF _ comp ok] j d(2) by auto
  moreover have "jd_CancelMemberKeys d = []"
    using join_switch_cancel [OF _ ok] j none by (metis (no_types))
  ultimately show ?thesis using d False by (simp add: join_verdict_def)
qed

text \<open>
  C13. A fan-out set does not stay open when its children have ended: if every child node of an
  intact closed set is in a final state, \<^verbatim>\<open>JoinFanoutSet\<close> succeeds, the set it returns and stores is
  settled as succeeded exactly when the policy's threshold is met by the final states, and its
  members are stored as their nodes left them.
\<close>

theorem join_settles:
  assumes "keyed member_key (runtimeFanoutMembers s)" and "set_intact t i s f" and "members_ended t i s"
    and "eid \<noteq> ''''" and "\<not> IsZero now"
    and "mget (runtimeJobs s) (runtimePlanKey t (fs_JobRunID f)) = Some job" and "jr_TenantID job = t"
  shows "\<exists>s' f'. JoinFanoutSet eid now t i actor s = (s', Inr f')
    \<and> fs_Status f' = join_verdict (NormalizeJoinPolicy (fs_JoinPolicy f)) (final_members t i s)
    \<and> mget (runtimeFanoutSets s') (runtimeFanoutKey t i) = Some f'
    \<and> runtimeFanoutMembers s' = mput_all member_key (final_members t i s) (runtimeFanoutMembers s)"
proof -
  let ?ms = "final_members t i s"
  have f: "mget (runtimeFanoutSets s) (runtimeFanoutKey t i) = Some f" "fs_ID f = i" "fs_TenantID f = t"
    "FanoutSet_Validate f = None" "fs_Status f = FanoutClosed" "int (length (FanoutMembers t i s)) = fs_MemberCount f"
    "list_all (\<lambda>m. FanoutMember_Validate m = None) (FanoutMembers t i s)"
    using assms(2) by (simp_all add: set_intact_def)
  have pol: "JoinPolicy_Validate (fs_JoinPolicy f) = None"
    using f(4) by (auto simp: FanoutSet_Validate_def validate_normalized split: if_splits option.splits)
  obtain ch where rm: "refresh_members t (FanoutMembers t i s) s = Inr (?ms, ch)"
    using refresh_members_ended assms(3) unfolding members_ended_def final_members_def by blast
  have ended: "\<forall>m \<in> set ?ms. member_terminal (fm_State m)"
    using assms(3) by (auto simp: final_members_def members_ended_def list_all_iff ended_node_def split: option.splits if_splits)
  obtain d where d: "EvaluateJoin f ?ms = Inr d" "jd_Terminal d" "jd_CancelMemberKeys d = []"
    "jd_Status d = join_verdict (NormalizeJoinPolicy (fs_JoinPolicy f)) ?ms"
    using EvaluateJoin_verdict [OF pol f(5) _ ended] f(6) by (auto simp: final_members_def)
  have st: "jd_Status d = FanoutSucceeded \<or> jd_Status d = FanoutFailed" by (simp add: d(4) join_verdict_def)
  let ?f = "f\<lparr>fs_Version := fs_Version f + 1, fs_UpdatedAt := now, fs_Status := jd_Status d\<rparr>"
  let ?e = "join_event eid now t actor f ?f d"
  have fv: "FanoutSet_Validate ?f = None"
    using f(4,5) st assms(5) by (auto simp: FanoutSet_Validate_def split: if_splits option.splits)
  have ev: "validateCommandEvent s ?e = None" "je_TenantID ?e = t" "je_JobRunID ?e = fs_JobRunID f"
    using f(3,4) assms(4-7) by (auto simp: validateCommandEvent_def join_event_def new_event_def FanoutSet_Validate_def split: if_splits)
  have len: "length ?ms = length (FanoutMembers t i s)" by (simp add: final_members_def)
  have "join_checks ?f (fs_Version f) ?ms ?e s = Inr f"
    unfolding join_checks_def fv ev len
    using f by (simp add: set_key_def require_def check_nil_def lookup_or_def
        final_member_checks [OF assms(1) f(3) f(2) f(7) assms(3)] del: check_all_None)
  then have j: "ApplyFanoutJoinCommand ?f (fs_Version f) ?ms [] ?e s =
      (appendRuntimeEventLocked (s\<lparr>runtimeFanoutMembers := mput_all member_key ?ms (runtimeFanoutMembers s),
         runtimeFanoutSets := mput (set_key ?f) ?f (runtimeFanoutSets s)\<rparr>) ?e, Inr ?f)"
    by (simp add: ApplyFanoutJoinCommand_def)
  have "JoinFanoutSet eid now t i actor s = ApplyFanoutJoinCommand ?f (fs_Version f) ?ms [] ?e s"
    using f(1,5) rm d st
    by (auto simp: JoinFanoutSet_def bind_svc_def query_def Store_FanoutSet_def lookup_or_def Let_def)
  moreover have "set_key ?f = runtimeFanoutKey t i" using f(2,3) by (simp add: set_key_def)
  ultimately show ?thesis using j d(4) by simp
qed

subsection \<open>A set of two children\<close>

definition ex_fanned :: "node_state \<Rightarrow> node_state \<Rightarrow> Store" where
  "ex_fanned a b =
     ex_store\<lparr>runtimeNodes := [(''t:a'', ex_noderun ''a'' ''a'' a), (''t:b'', ex_noderun ''b'' ''b'' b)],
       runtimeFanoutSets := [(''t:s'', ex_set\<lparr>fs_MembershipDigest := ex_digest, fs_RequestDigest := ex_digest\<rparr>)],
       runtimeFanoutMembers := mput_all member_key
         [ex_member ''a'' FanoutMemberPending, ex_member ''b'' FanoutMemberPending] []\<rparr>"

lemma ex_fanned_keyed: "keyed member_key (runtimeFanoutMembers (ex_fanned a b))"
proof -
  have "runtimeFanoutMembers (ex_fanned a b) =
    mput_all member_key [ex_member ''a'' FanoutMemberPending, ex_member ''b'' FanoutMemberPending] []"
    by (simp add: ex_fanned_def)
  then show ?thesis using keyed_mput_all [OF keyed_Nil] by metis
qed

theorem join_settles_witness:
  "\<exists>s' f'. JoinFanoutSet ''e'' 9 ''t'' ''s'' ''runtime.join'' (ex_fanned NodeSucceeded NodeFailed) = (s', Inr f')
     \<and> fs_Status f' = FanoutSucceeded \<and> mget (runtimeFanoutSets s') ''t:s'' = Some f'"
proof -
  let ?s = "ex_fanned NodeSucceeded NodeFailed"
  let ?f = "ex_set\<lparr>fs_MembershipDigest := ex_digest, fs_RequestDigest := ex_digest\<rparr>"
  have i: "set_intact ''t'' ''s'' ?s ?f" by code_simp
  have m: "members_ended ''t'' ''s'' ?s" by code_simp
  have v: "join_verdict (NormalizeJoinPolicy (fs_JoinPolicy ?f)) (final_members ''t'' ''s'' ?s) = FanoutSucceeded" by code_simp
  have "map_option jr_TenantID (mget (runtimeJobs ?s) (runtimePlanKey ''t'' (fs_JobRunID ?f))) = Some ''t''" by code_simp
  then obtain job where "mget (runtimeJobs ?s) (runtimePlanKey ''t'' (fs_JobRunID ?f)) = Some job" "jr_TenantID job = ''t''"
    by auto
  from join_settles [OF ex_fanned_keyed i m _ _ this, of "''e''" 9 "''runtime.join''"] v
  show ?thesis by (auto simp: runtimePlanKey_def IsZero_def)
qed

text \<open>
  A child that waits for children of its own counts as pending for the join, but its node is
  neither pending nor ready: when a quorum is reached and the rest is to be cancelled, the command
  stops with \<^verbatim>\<open>FANOUT_CANCEL_CONFLICT\<close> after it has already written the members, and the set stays
  closed although its policy is met. The same call on the store it left fails the same way.
\<close>

theorem waiting_child_blocks_join:
  "case JoinFanoutSet ''e'' 9 ''t'' ''s'' ''runtime.join'' (ex_fanned NodeSucceeded NodeWaitingChildren) of
     (s', r) \<Rightarrow> r = Inl (Conflict ''FANOUT_CANCEL_CONFLICT'')
       \<and> map_option fm_State (mget (runtimeFanoutMembers s') ''t:s:a'') = Some FanoutMemberSucceeded
       \<and> map_option fs_Status (mget (runtimeFanoutSets s') ''t:s'') = Some FanoutClosed
       \<and> runtimeEvents s' = runtimeEvents (ex_fanned NodeSucceeded NodeWaitingChildren)
       \<and> snd (JoinFanoutSet ''e'' 9 ''t'' ''s'' ''runtime.join'' s') = Inl (Conflict ''FANOUT_CANCEL_CONFLICT'')"
  by code_simp

end
