(* ===== verification/Scheduler.thy ===== *)
theory Scheduler
  imports Fanout_Service
begin

section \<open>Refreshing a job: dependencies, joins and the state of the job\<close>

text \<open>
  \<^verbatim>\<open>Service.refresh\<close> of \<^verbatim>\<open>internal/runtime/service.go\<close> is what drives a job: it settles the fan-out
  sets, releases or blocks the nodes whose dependencies have ended, and derives the state of the job
  from the states of its nodes. It issues one command per change and stops at the first fault; what
  it wrote before stays. The notification of idle workers is a hint outside the store and is left out.

  \<open>ids\<close> gives the fresh identifier of the event about a set, a node key or the job; the clock \<open>now\<close>
  stands still during one refresh.
\<close>

subsection \<open>Readiness\<close>

definition dep_done :: "NodeRun gomap \<Rightarrow> string \<Rightarrow> bool" where
  "dep_done byKey dep =
     (case mget byKey dep of None \<Rightarrow> False | Some d \<Rightarrow> nr_State d = NodeSucceeded \<or> nr_State d = NodeSkipped)"

definition dep_broken :: "NodeRun gomap \<Rightarrow> string \<Rightarrow> bool" where
  "dep_broken byKey dep =
     (case mget byKey dep of None \<Rightarrow> False
      | Some d \<Rightarrow> nr_State d = NodeFailed \<or> nr_State d = NodeBlocked \<or> nr_State d = NodeCancelled)"

definition refreshable :: "node_state \<Rightarrow> bool" where
  "refreshable st = (st = NodePending \<or> st = NodeRetryableFailed \<or> st = NodeLeaseExpired \<or> st = NodeWaitingResource)"

definition next_node_state :: "FanoutSet list \<Rightarrow> NodeRun gomap \<Rightarrow> JobPlanNode \<Rightarrow> NodeRun \<Rightarrow> node_state" where
  "next_node_state sets byKey spec node =
     (let joins = filter (\<lambda>f. fs_JoinNodeKey f = pn_Key spec) sets;
          blocked = (list_ex (\<lambda>f. fs_Status f = FanoutFailed) joins \<or> list_ex (dep_broken byKey) (pn_DependsOn spec));
          fanoutWaiting = list_ex (\<lambda>f. fs_Status f \<noteq> FanoutFailed \<and> fs_Status f \<noteq> FanoutSucceeded) joins;
          allSucceeded = list_all (dep_done byKey) (pn_DependsOn spec) in
      if \<not> refreshable (nr_State node) then nr_State node
      else if blocked then NodeBlocked
      else if allSucceeded \<and> \<not> fanoutWaiting then NodeReady
      else nr_State node)"

definition node_event :: "string \<Rightarrow> JobRun \<Rightarrow> NodeRun \<Rightarrow> JobEvent" where
  "node_event eid job node =
     new_event eid (jr_TenantID job) (jr_ID job) (nr_NodeKey node) (''node.'' @ node_state_str (nr_State node))
       ''runtime'' '''' '''' [] (nr_UpdatedAt node)"

fun refresh_nodes ::
    "(string \<Rightarrow> string) \<Rightarrow> time \<Rightarrow> JobRun \<Rightarrow> FanoutSet list \<Rightarrow> JobPlanNode list \<Rightarrow> NodeRun gomap \<Rightarrow> bool \<Rightarrow> bool svc" where
  "refresh_nodes ids now job sets [] byKey changed = ret changed"
| "refresh_nodes ids now job sets (spec # specs) byKey changed =
     (case mget byKey (pn_Key spec) of
        None \<Rightarrow> refresh_nodes ids now job sets specs byKey changed
      | Some node \<Rightarrow>
          let nxt = next_node_state sets byKey spec node in
          if nxt = nr_State node then refresh_nodes ids now job sets specs byKey changed
          else check_svc (NodeRun_Transition node nxt) (
            let node' = node\<lparr>nr_State := nxt, nr_Version := nr_Version node + 1, nr_UpdatedAt := now\<rparr> in
            bind_svc (exec (ApplyNodeTransition node' (nr_Version node' - 1) (node_event (ids (nr_NodeKey node')) job node')))
              (\<lambda>_. refresh_nodes ids now job sets specs (mput (nr_NodeKey node') node' byKey) True)))"

subsection \<open>The state of the job\<close>

definition count_nodes :: "node_state list \<Rightarrow> NodeRun list \<Rightarrow> int" where
  "count_nodes sts nodes = int (length (filter (\<lambda>n. nr_State n \<in> set sts) nodes))"

definition next_job_state :: "job_state \<Rightarrow> NodeRun list \<Rightarrow> job_state" where
  "next_job_state st nodes =
     (let ready = count_nodes [NodeReady] nodes;
          active = count_nodes [NodeLeased, NodeRunning, NodeWaitingChildren, NodeWaitingExternal] nodes;
          waiting = count_nodes [NodeWaitingHuman] nodes;
          failed = count_nodes [NodeFailed, NodeBlocked] nodes;
          terminal = count_nodes [NodeSucceeded, NodeSkipped, NodeCancelled] nodes in
      if st = JobRunCreated then JobRunAdmitted
      else if failed > 0 then JobRunFailed
      else if terminal = int (length nodes) \<and> nodes \<noteq> [] then JobRunCompleted
      else if waiting > 0 then JobRunWaitingHuman
      else if active > 0 \<or> ready > 0 then JobRunRunning
      else st)"

definition job_event :: "string \<Rightarrow> JobRun \<Rightarrow> NodeRun list \<Rightarrow> JobEvent" where
  "job_event eid job nodes =
     new_event eid (jr_TenantID job) (jr_ID job) '''' (''job.'' @ job_state_str (jr_State job)) ''runtime'' '''' ''''
       [(''ready'', AInt (count_nodes [NodeReady] nodes)),
        (''active'', AInt (count_nodes [NodeLeased, NodeRunning, NodeWaitingChildren, NodeWaitingExternal] nodes)),
        (''waiting_human'', AInt (count_nodes [NodeWaitingHuman] nodes)),
        (''failed'', AInt (count_nodes [NodeFailed, NodeBlocked] nodes))] (jr_UpdatedAt job)"

definition refresh_job :: "(string \<Rightarrow> string) \<Rightarrow> time \<Rightarrow> JobRun \<Rightarrow> NodeRun list \<Rightarrow> JobRun svc" where
  "refresh_job ids now job nodes =
     (let nxt = next_job_state (jr_State job) nodes in
      if nxt = jr_State job then ret job
      else check_svc (JobRun_Transition job nxt) (
        let job' = job\<lparr>jr_State := nxt, jr_Version := jr_Version job + 1, jr_UpdatedAt := now\<rparr> in
        bind_svc (exec (ApplyJobTransition job' (jr_Version job' - 1) (job_event (ids (jr_ID job')) job' nodes)))
          (\<lambda>_. ret job')))"

subsection \<open>Refresh\<close>

definition refreshFanoutJoins :: "(string \<Rightarrow> string) \<Rightarrow> time \<Rightarrow> JobRun \<Rightarrow> unit svc" where
  "refreshFanoutJoins ids now job =
     bind_svc (query (\<lambda>s. Inr (FanoutSets (jr_TenantID job) (jr_ID job) s))) (\<lambda>sets.
     each (\<lambda>f. if fs_Status f \<noteq> FanoutClosed then ret ()
               else bind_svc (JoinFanoutSet (ids (fs_ID f)) now (jr_TenantID job) (fs_ID f) ''runtime.join'') (\<lambda>_. ret ()))
       sets)"

definition settled_job :: "job_state \<Rightarrow> bool" where
  "settled_job st =
     (st = JobRunPaused \<or> st = JobRunCompleted \<or> st = JobRunFailed \<or> st = JobRunCancelled \<or> st = JobRunRejected)"

definition refresh :: "(string \<Rightarrow> string) \<Rightarrow> time \<Rightarrow> JobRun \<Rightarrow> JobRun svc" where
  "refresh ids now job =
     (if settled_job (jr_State job) then ret job
      else
      bind_svc (query (Store_Plan (jr_TenantID job) (jr_PlanRevisionID job))) (\<lambda>plan.
      bind_svc (refreshFanoutJoins ids now job) (\<lambda>_.
      bind_svc (query (\<lambda>s. Inr (FanoutSets (jr_TenantID job) (jr_ID job) s))) (\<lambda>sets.
      bind_svc (query (\<lambda>s. Inr (NodeRuns (jr_TenantID job) (jr_ID job) s))) (\<lambda>nodes.
      bind_svc (refresh_nodes ids now job sets (jp_Nodes plan) (mput_all nr_NodeKey nodes []) False) (\<lambda>changed.
      bind_svc (query (\<lambda>s. Inr (if changed then NodeRuns (jr_TenantID job) (jr_ID job) s else nodes))) (\<lambda>nodes'.
      refresh_job ids now job nodes')))))))"

definition Refresh :: "(string \<Rightarrow> string) \<Rightarrow> time \<Rightarrow> string \<Rightarrow> string \<Rightarrow> JobRun svc" where
  "Refresh ids now tenantID jobID =
     bind_svc (query (Store_JobRun tenantID jobID)) (\<lambda>job. refresh ids now job)"

subsection \<open>Joins only cancel nodes\<close>

definition only_cancels :: "Store \<Rightarrow> Store \<Rightarrow> bool" where
  "only_cancels s s' =
     (keyed node_key (runtimeNodes s) \<longrightarrow> keyed node_key (runtimeNodes s')
      \<and> (\<forall>k n. mget (runtimeNodes s') k = Some n \<longrightarrow> mget (runtimeNodes s) k = Some n \<or> nr_State n = NodeCancelled))"

lemma only_cancels_same: "runtimeNodes s' = runtimeNodes s \<Longrightarrow> only_cancels s s'"
  by (simp add: only_cancels_def)

lemma only_cancels_trans: "only_cancels s s1 \<Longrightarrow> only_cancels s1 s2 \<Longrightarrow> only_cancels s s2"
  unfolding only_cancels_def by meson

lemma only_cancels_run: "only_cancels\<^sup>*\<^sup>* s s' \<Longrightarrow> only_cancels s s'"
  by (induction rule: rtranclp_induct) (auto intro: only_cancels_trans simp: only_cancels_def)

lemma only_cancels_put:
  assumes "mget (runtimeNodes s) k = Some n" and "runtimeNodes s' = mput (node_key n) (cancelled_node at n) (runtimeNodes s)"
  shows "only_cancels s s'"
  unfolding only_cancels_def assms(2)
  by (auto intro!: keyed_mput simp: cancelled_node_def node_key_def)

lemma cancel_members_only: "only_cancels s (fst (cancel_members current at key ms found s))"
proof (induction current at key ms found s rule: cancel_members.induct)
  case (2 current at key k m rest found s)
  show ?case
  proof (cases "cancel_hit current key m")
    case hit: True
    show ?thesis
    proof (cases "mget (runtimeNodes s) (runtimeNodeKey (fm_TenantID m) (fm_NodeRunID m))")
      case (Some n)
      show ?thesis
      proof (cases "nr_State n \<noteq> NodePending \<and> nr_State n \<noteq> NodeReady")
        case False
        let ?s = "s\<lparr>runtimeNodes := mput (node_key n) (cancelled_node at n) (runtimeNodes s),
          runtimeFanoutMembers := mput k (cancelled_member at m) (runtimeFanoutMembers s)\<rparr>"
        have "only_cancels s ?s" by (rule only_cancels_put [OF Some]) simp
        with only_cancels_trans "2.IH"(1) [OF hit Some False] show ?thesis
          unfolding cancel_members.simps using hit Some False by (simp only: if_True option.case if_False)
      qed (simp add: hit Some only_cancels_same)
    qed (simp add: hit only_cancels_same)
  next
    case False
    with "2.IH"(2) show ?thesis by simp
  qed
qed (simp add: only_cancels_same)

lemma cancel_loop_only: "only_cancels s (fst (cancel_loop current at keys s))"
proof (induction keys arbitrary: s)
  case (Cons key keys)
  obtain s1 r where c: "cancel_members current at key (runtimeFanoutMembers s) False s = (s1, r)" by fastforce
  with cancel_members_only [of s current at key] have 1: "only_cancels s s1" by (metis fst_conv)
  have 2: "only_cancels s (fst (cancel_loop current at keys s1))" by (rule only_cancels_trans [OF 1 Cons.IH])
  show ?case using 1 2 by (cases r) (simp_all add: c)
qed (simp add: only_cancels_same)

lemma ApplyFanoutJoin_only: "only_cancels s (fst (ApplyFanoutJoinCommand f x ms keys e s))"
proof (cases "join_checks f x ms e s")
  case (Inr current)
  let ?s1 = "s\<lparr>runtimeFanoutMembers := mput_all member_key ms (runtimeFanoutMembers s)\<rparr>"
  obtain s2 r where c: "cancel_loop current (je_OccurredAt e) keys ?s1 = (s2, r)" by fastforce
  have "only_cancels s ?s1" by (simp add: only_cancels_same)
  with cancel_loop_only [of ?s1 current "je_OccurredAt e" keys] c have 12: "only_cancels s s2"
    using only_cancels_trans by (metis fst_conv)
  show ?thesis
  proof (cases r)
    case (Inr u)
    have "only_cancels s2 (appendRuntimeEventLocked (s2\<lparr>runtimeFanoutSets := mput (set_key f) f (runtimeFanoutSets s2)\<rparr>) e)"
      by (simp add: only_cancels_same)
    with 12 only_cancels_trans show ?thesis
      by (simp add: ApplyFanoutJoinCommand_def \<open>join_checks f x ms e s = Inr current\<close> c Inr)
  qed (simp add: ApplyFanoutJoinCommand_def Inr c 12)
qed (simp add: ApplyFanoutJoinCommand_def only_cancels_same)

lemma JoinFanoutSet_only [svc_steps]: "steps_of only_cancels (JoinFanoutSet eid now t i actor)"
proof -
  have "steps_of only_cancels (ApplyFanoutJoinCommand f x ms keys e)" for f x ms keys e
    using ApplyFanoutJoin_only by (auto simp: steps_of_def)
  then show ?thesis
    unfolding JoinFanoutSet_def by (intro svc_steps) (auto intro!: svc_steps simp: Let_def split: prod.split)
qed

lemma refreshFanoutJoins_only: "only_cancels s (fst (refreshFanoutJoins ids now job s))"
proof (rule only_cancels_run)
  have "steps_of only_cancels (refreshFanoutJoins ids now job)"
    unfolding refreshFanoutJoins_def by (intro svc_steps)
  then show "only_cancels\<^sup>*\<^sup>* s (fst (refreshFanoutJoins ids now job s))" by (simp add: steps_of_def)
qed

subsection \<open>A node is released only when its dependencies are done\<close>

definition finished :: "node_state \<Rightarrow> bool" where
  "finished st = (st = NodeSucceeded \<or> st = NodeSkipped)"

definition deps_finished :: "JobRun \<Rightarrow> JobPlanNode \<Rightarrow> Store \<Rightarrow> bool" where
  "deps_finished job spec s =
     list_all (\<lambda>dep. list_ex (\<lambda>d. nr_NodeKey d = dep \<and> finished (nr_State d)) (NodeRuns (jr_TenantID job) (jr_ID job) s))
       (pn_DependsOn spec)"

definition released :: "JobRun \<Rightarrow> FanoutSet list \<Rightarrow> JobPlanNode list \<Rightarrow> Store \<Rightarrow> NodeRun \<Rightarrow> bool" where
  "released job sets specs s n =
     list_ex (\<lambda>spec. pn_Key spec = nr_NodeKey n \<and> deps_finished job spec s
       \<and> list_all (\<lambda>f. fs_JoinNodeKey f = pn_Key spec \<longrightarrow> fs_Status f = FanoutSucceeded) sets) specs"

definition table_ok :: "JobRun \<Rightarrow> NodeRun gomap \<Rightarrow> Store \<Rightarrow> bool" where
  "table_ok job byKey s =
     (keyed node_key (runtimeNodes s)
      \<and> (\<forall>key n. mget byKey key = Some n \<longrightarrow> nr_NodeKey n = key \<and> mget (runtimeNodes s) (node_key n) = Some n
           \<and> nr_TenantID n = jr_TenantID job \<and> (jr_ID job = '''' \<or> nr_JobRunID n = jr_ID job)))"

definition keeps_finished :: "Store \<Rightarrow> Store \<Rightarrow> bool" where
  "keeps_finished s s' =
     (\<forall>k n. mget (runtimeNodes s) k = Some n \<longrightarrow> finished (nr_State n) \<longrightarrow> mget (runtimeNodes s') k = Some n)"

lemma NodeRuns_get:
  assumes "keyed node_key (runtimeNodes s)"
  shows "d \<in> set (NodeRuns t j s) \<longleftrightarrow>
    mget (runtimeNodes s) (node_key d) = Some d \<and> nr_TenantID d = t \<and> (j = '''' \<or> nr_JobRunID d = j)"
  using keyed_vals [OF assms, of d] by (auto simp: NodeRuns_def)

lemma deps_finished_mono:
  assumes "keyed node_key (runtimeNodes s)" and "keeps_finished s s'" and "deps_finished job spec s"
  shows "deps_finished job spec s'"
proof -
  have "\<exists>d. d \<in> set (NodeRuns (jr_TenantID job) (jr_ID job) s') \<and> nr_NodeKey d = dep \<and> finished (nr_State d)"
    if dep: "dep \<in> set (pn_DependsOn spec)" for dep
  proof -
    obtain d where d: "d \<in> set (NodeRuns (jr_TenantID job) (jr_ID job) s)" "nr_NodeKey d = dep" "finished (nr_State d)"
      using assms(3) dep unfolding deps_finished_def list_all_iff list_ex_iff by blast
    then have "mget (runtimeNodes s) (node_key d) = Some d" using NodeRuns_get [OF assms(1)] by blast
    with assms(2) d(3) have "mget (runtimeNodes s') (node_key d) = Some d" by (simp add: keeps_finished_def)
    from mget_vals [OF this] d show ?thesis by (auto simp: NodeRuns_def)
  qed
  then show ?thesis unfolding deps_finished_def list_all_iff list_ex_iff by blast
qed

lemma released_mono:
  assumes "keyed node_key (runtimeNodes s)" and "keeps_finished s s'" and "released job sets specs s n"
  shows "released job sets specs s' n"
  using assms(3) deps_finished_mono [OF assms(1,2)] unfolding released_def list_ex_iff by blast

lemma released_more: "set specs \<subseteq> set specs' \<Longrightarrow> released job sets specs s n \<Longrightarrow> released job sets specs' s n"
  unfolding released_def list_ex_iff by blast

lemma keeps_finished_trans: "keeps_finished s s1 \<Longrightarrow> keeps_finished s1 s2 \<Longrightarrow> keeps_finished s s2"
  unfolding keeps_finished_def by blast

lemma table_okD:
  "table_ok job byKey s \<Longrightarrow> mget byKey key = Some n \<Longrightarrow>
   nr_NodeKey n = key \<and> mget (runtimeNodes s) (node_key n) = Some n \<and> nr_TenantID n = jr_TenantID job
   \<and> (jr_ID job = '''' \<or> nr_JobRunID n = jr_ID job)"
  unfolding table_ok_def by blast

text \<open>The decision to release, in the terms above.\<close>

lemma next_node_state_ready:
  assumes "table_ok job byKey s" and "next_node_state sets byKey spec node = NodeReady" and "nr_State node \<noteq> NodeReady"
  shows "deps_finished job spec s"
    and "list_all (\<lambda>f. fs_JoinNodeKey f = pn_Key spec \<longrightarrow> fs_Status f = FanoutSucceeded) sets"
proof -
  have k: "keyed node_key (runtimeNodes s)" using assms(1) by (simp add: table_ok_def)
  have d: "list_all (dep_done byKey) (pn_DependsOn spec)"
    and f: "\<not> list_ex (\<lambda>f. fs_Status f = FanoutFailed) (filter (\<lambda>f. fs_JoinNodeKey f = pn_Key spec) sets)"
      "\<not> list_ex (\<lambda>f. fs_Status f \<noteq> FanoutFailed \<and> fs_Status f \<noteq> FanoutSucceeded) (filter (\<lambda>f. fs_JoinNodeKey f = pn_Key spec) sets)"
    using assms(2,3) by (auto simp: next_node_state_def Let_def split: if_splits)
  from f show "list_all (\<lambda>f. fs_JoinNodeKey f = pn_Key spec \<longrightarrow> fs_Status f = FanoutSucceeded) sets"
    by (auto simp: list_all_iff list_ex_iff)
  have "\<exists>x. x \<in> set (NodeRuns (jr_TenantID job) (jr_ID job) s) \<and> nr_NodeKey x = dep \<and> finished (nr_State x)"
    if "dep_done byKey dep" for dep
  proof -
    from that obtain x where "mget byKey dep = Some x" "finished (nr_State x)"
      by (auto simp: dep_done_def finished_def split: option.splits)
    from table_okD [OF assms(1) this(1)] NodeRuns_get [OF k, of x] \<open>finished (nr_State x)\<close> show ?thesis by blast
  qed
  with d show "deps_finished job spec s" unfolding deps_finished_def list_all_iff list_ex_iff by blast
qed

lemma table_ok_put:
  assumes "table_ok job byKey s" and "mget byKey key = Some node"
    and "runtimeNodes s' = mput (node_key node') node' (runtimeNodes s)" and "node_key node' = node_key node"
    and "nr_NodeKey node' = key" and "nr_TenantID node' = nr_TenantID node" and "nr_JobRunID node' = nr_JobRunID node"
  shows "table_ok job (mput key node' byKey) s'"
proof -
  have k: "keyed node_key (runtimeNodes s)" and n: "mget (runtimeNodes s) (node_key node) = Some node"
    "nr_TenantID node = jr_TenantID job" "jr_ID job = '''' \<or> nr_JobRunID node = jr_ID job" "nr_NodeKey node = key"
    using table_okD [OF assms(1,2)] assms(1) unfolding table_ok_def by blast+
  have other: "node_key x \<noteq> node_key node" if "mget byKey key' = Some x" "key' \<noteq> key" for key' x
  proof
    assume e: "node_key x = node_key node"
    have "mget (runtimeNodes s) (node_key node) = Some x" "nr_NodeKey x = key'"
      using table_okD [OF assms(1) that(1)] unfolding e by blast+
    then have "x = node" using n(1) by (metis option.inject)
    then show False using n(4) that(2) \<open>nr_NodeKey x = key'\<close> by blast
  qed
  have "keyed node_key (runtimeNodes s')" unfolding assms(3) by (rule keyed_mput [OF k refl])
  moreover have "nr_NodeKey x = key' \<and> mget (runtimeNodes s') (node_key x) = Some x \<and> nr_TenantID x = jr_TenantID job
      \<and> (jr_ID job = '''' \<or> nr_JobRunID x = jr_ID job)" if "mget (mput key node' byKey) key' = Some x" for key' x
  proof (cases "key' = key")
    case True
    with that have "x = node'" by simp
    with True assms(3,5-7) n show ?thesis by simp
  next
    case False
    with that have x: "mget byKey key' = Some x" by simp
    have "nr_NodeKey x = key' \<and> mget (runtimeNodes s) (node_key x) = Some x \<and> nr_TenantID x = jr_TenantID job
      \<and> (jr_ID job = '''' \<or> nr_JobRunID x = jr_ID job)"
      by (rule table_okD [OF assms(1) x])
    with other [OF x False] assms(4) show ?thesis unfolding assms(3) by simp
  qed
  ultimately show ?thesis unfolding table_ok_def by blast
qed

definition released_between :: "JobRun \<Rightarrow> FanoutSet list \<Rightarrow> JobPlanNode list \<Rightarrow> Store \<Rightarrow> Store \<Rightarrow> bool" where
  "released_between job sets specs s s' =
     (keeps_finished s s' \<and> runtimeFanoutSets s' = runtimeFanoutSets s \<and> keyed node_key (runtimeNodes s')
      \<and> (\<forall>k n. mget (runtimeNodes s') k = Some n \<longrightarrow> nr_State n = NodeReady \<longrightarrow>
           mget (runtimeNodes s) k = Some n \<or> released job sets specs s' n))"

lemma released_between_refl: "keyed node_key (runtimeNodes s) \<Longrightarrow> released_between job sets specs s s"
  by (simp add: released_between_def keeps_finished_def)

lemma released_between_more:
  "released_between job sets specs s s' \<Longrightarrow> set specs \<subseteq> set specs' \<Longrightarrow> released_between job sets specs' s s'"
  using released_more unfolding released_between_def by blast

lemma released_between_trans:
  assumes 1: "released_between job sets specs s s1" and 2: "released_between job sets specs s1 s2"
  shows "released_between job sets specs s s2"
  unfolding released_between_def
proof (intro conjI allI impI)
  show "keeps_finished s s2" using 1 2 keeps_finished_trans unfolding released_between_def by blast
  show "runtimeFanoutSets s2 = runtimeFanoutSets s" using 1 2 by (simp add: released_between_def)
  show "keyed node_key (runtimeNodes s2)" using 2 by (simp add: released_between_def)
  fix k n assume n: "mget (runtimeNodes s2) k = Some n" "nr_State n = NodeReady"
  have mono: "released job sets specs s2 n" if "released job sets specs s1 n"
    using released_mono [OF _ _ that] 1 2 unfolding released_between_def by blast
  show "mget (runtimeNodes s) k = Some n \<or> released job sets specs s2 n"
    using 1 2 n mono unfolding released_between_def by blast
qed

lemma release_step:
  assumes t: "table_ok job byKey s" and n: "mget byKey (pn_Key spec) = Some node"
    and nxt: "next_node_state sets byKey spec node \<noteq> nr_State node"
    and n': "node' = node\<lparr>nr_State := next_node_state sets byKey spec node, nr_Version := v, nr_UpdatedAt := now\<rparr>"
    and st: "runtimeNodes s1 = mput (node_key node') node' (runtimeNodes s)" "runtimeFanoutSets s1 = runtimeFanoutSets s"
  shows "released_between job sets (spec # specs) s s1" and "table_ok job (mput (nr_NodeKey node') node' byKey) s1"
proof -
  note d = table_okD [OF t n]
  have key: "node_key node' = node_key node" "nr_NodeKey node' = pn_Key spec" using d by (simp_all add: n' node_key_def)
  show t1: "table_ok job (mput (nr_NodeKey node') node' byKey) s1"
    unfolding key(2) by (rule table_ok_put [OF t n st(1) key(1) key(2)]) (simp_all add: n')
  have ref: "\<not> finished (nr_State node)"
    using nxt by (auto simp: next_node_state_def Let_def refreshable_def finished_def split: if_splits)
  have keep: "keeps_finished s s1"
    unfolding keeps_finished_def st(1) using d key(1) ref by auto
  have rel: "released job sets (spec # specs) s1 node'" if "nr_State node' = NodeReady"
  proof -
    have ready: "next_node_state sets byKey spec node = NodeReady" using that by (simp add: n')
    have "nr_State node \<noteq> NodeReady" using nxt ready by simp
    note r = next_node_state_ready [OF t ready this]
    have "keyed node_key (runtimeNodes s)" using t by (simp add: table_ok_def)
    from deps_finished_mono [OF this keep r(1)] r(2) key(2) show ?thesis by (simp add: released_def)
  qed
  have "keyed node_key (runtimeNodes s1)" using t1 by (simp add: table_ok_def)
  moreover have "mget (runtimeNodes s) k = Some x \<or> released job sets (spec # specs) s1 x"
    if "mget (runtimeNodes s1) k = Some x" "nr_State x = NodeReady" for k x
  proof (cases "k = node_key node'")
    case True
    then have "x = node'" using that(1) by (simp add: st(1))
    then show ?thesis using rel that(2) by simp
  qed (use that(1) in \<open>simp add: st(1)\<close>)
  ultimately show "released_between job sets (spec # specs) s s1"
    using keep st(2) unfolding released_between_def by blast
qed

lemma refresh_nodes_sound:
  assumes "table_ok job byKey s"
  shows "released_between job sets specs s (fst (refresh_nodes ids now job sets specs byKey ch s))"
  using assms
proof (induction specs arbitrary: byKey ch s)
  case Nil
  then show ?case by (simp add: svc_simps table_ok_def released_between_refl)
next
  case (Cons spec specs)
  have skip: "released_between job sets (spec # specs) s (fst (refresh_nodes ids now job sets specs byKey ch s))" for ch
    by (rule released_between_more [OF Cons.IH [OF Cons.prems]]) auto
  show ?case
  proof (cases "mget byKey (pn_Key spec)")
    case None
    then show ?thesis using skip by simp
  next
    case (Some node)
    let ?nxt = "next_node_state sets byKey spec node"
    let ?n = "node\<lparr>nr_State := ?nxt, nr_Version := nr_Version node + 1, nr_UpdatedAt := now\<rparr>"
    let ?c = "ApplyNodeTransition ?n (nr_Version ?n - 1) (node_event (ids (nr_NodeKey ?n)) job ?n)"
    have stay: "released_between job sets (spec # specs) s s"
      using Cons.prems by (simp add: table_ok_def released_between_refl)
    consider (same) "?nxt = nr_State node" | (refused) e where "?nxt \<noteq> nr_State node" "NodeRun_Transition node ?nxt = Some e"
      | (failed) e where "?nxt \<noteq> nr_State node" "NodeRun_Transition node ?nxt = None" "?c s = Inl e"
      | (applied) s1 v where "?nxt \<noteq> nr_State node" "NodeRun_Transition node ?nxt = None" "?c s = Inr (s1, v)"
      by (cases "?c s"; cases "NodeRun_Transition node ?nxt") fastforce+
    then show ?thesis
    proof cases
      case same
      then show ?thesis using skip Some by simp
    next
      case refused
      then show ?thesis using stay Some by (simp add: Let_def svc_simps)
    next
      case failed
      then show ?thesis using stay Some by (simp add: Let_def svc_simps bind_svc_def exec_def)
    next
      case applied
      from ApplyNodeTransition_ok [OF applied(3)] obtain e' where
        s1: "s1 = appendRuntimeEventLocked (s\<lparr>runtimeNodes := mput (node_key ?n) ?n (runtimeNodes s)\<rparr>) e'" by blast
      have st: "runtimeNodes s1 = mput (node_key ?n) ?n (runtimeNodes s)" "runtimeFanoutSets s1 = runtimeFanoutSets s"
        unfolding s1 by simp_all
      note r = release_step [OF Cons.prems Some applied(1) refl st]
      have "released_between job sets (spec # specs) s1
          (fst (refresh_nodes ids now job sets specs (mput (nr_NodeKey ?n) ?n byKey) True s1))"
        by (rule released_between_more [OF Cons.IH [OF r(2)]]) auto
      from released_between_trans [OF r(1) this] show ?thesis
        using Some applied by (simp add: Let_def svc_simps bind_svc_def exec_def)
    qed
  qed
qed

lemma table_ok_initial:
  assumes "keyed node_key (runtimeNodes s)"
  shows "table_ok job (mput_all nr_NodeKey (NodeRuns (jr_TenantID job) (jr_ID job) s) []) s"
  unfolding table_ok_def
proof (intro conjI allI impI)
  fix key n assume "mget (mput_all nr_NodeKey (NodeRuns (jr_TenantID job) (jr_ID job) s) []) key = Some n"
  from mget_mput_all_in [OF this] have "n \<in> set (NodeRuns (jr_TenantID job) (jr_ID job) s)" "nr_NodeKey n = key" by auto
  with NodeRuns_get [OF assms, of n] show "nr_NodeKey n = key" "mget (runtimeNodes s) (node_key n) = Some n"
    "nr_TenantID n = jr_TenantID job" "jr_ID job = '''' \<or> nr_JobRunID n = jr_ID job" by blast+
qed (rule assms)

lemma refresh_job_tables:
  "runtimeNodes (fst (refresh_job ids now job nodes s)) = runtimeNodes s
   \<and> runtimeFanoutSets (fst (refresh_job ids now job nodes s)) = runtimeFanoutSets s"
proof -
  have "runtimeNodes s1 = runtimeNodes s \<and> runtimeFanoutSets s1 = runtimeFanoutSets s"
    if "ApplyJobTransition j x e s = Inr (s1, v)" for j x e s1 v
    using ApplyJobTransition_ok [OF that] by auto
  then show ?thesis
    by (auto simp: refresh_job_def Let_def svc_simps check_svc_def bind_svc_def exec_def split: option.split sum.split)
qed

text \<open>The stores a refresh goes through: after the joins, after the nodes, at the end.\<close>

lemma refresh_phases:
  assumes "\<not> settled_job (jr_State job)" and "Store_Plan (jr_TenantID job) (jr_PlanRevisionID job) s = Inr plan"
  obtains (joins) "fst (refresh ids now job s) = fst (refreshFanoutJoins ids now job s)"
  | (nodes) s1 s2 sets byKey where "s1 = fst (refreshFanoutJoins ids now job s)"
      "sets = FanoutSets (jr_TenantID job) (jr_ID job) s1"
      "byKey = mput_all nr_NodeKey (NodeRuns (jr_TenantID job) (jr_ID job) s1) []"
      "s2 = fst (refresh_nodes ids now job sets (jp_Nodes plan) byKey False s1)"
      "runtimeNodes (fst (refresh ids now job s)) = runtimeNodes s2"
      "runtimeFanoutSets (fst (refresh ids now job s)) = runtimeFanoutSets s2"
proof -
  obtain s1 r where j: "refreshFanoutJoins ids now job s = (s1, r)" by fastforce
  show ?thesis
  proof (cases r)
    case (Inl e)
    then have "fst (refresh ids now job s) = fst (refreshFanoutJoins ids now job s)"
      using assms j by (simp add: refresh_def bind_svc_def query_def)
    then show ?thesis by (rule joins)
  next
    case (Inr u)
    let ?sets = "FanoutSets (jr_TenantID job) (jr_ID job) s1"
    let ?by = "mput_all nr_NodeKey (NodeRuns (jr_TenantID job) (jr_ID job) s1) []"
    obtain s2 q where q: "refresh_nodes ids now job ?sets (jp_Nodes plan) ?by False s1 = (s2, q)" by fastforce
    have e: "refresh ids now job s = (case q of Inl e \<Rightarrow> (s2, Inl e) | Inr ch \<Rightarrow>
        refresh_job ids now job (if ch then NodeRuns (jr_TenantID job) (jr_ID job) s2
          else NodeRuns (jr_TenantID job) (jr_ID job) s1) s2)"
      using assms j Inr q by (simp add: refresh_def bind_svc_def query_def split: sum.split)
    have "runtimeNodes (fst (refresh ids now job s)) = runtimeNodes s2
      \<and> runtimeFanoutSets (fst (refresh ids now job s)) = runtimeFanoutSets s2"
      unfolding e using refresh_job_tables by (cases q) simp_all
    then show ?thesis using nodes [OF _ refl refl, of s1 s2] j q by simp
  qed
qed

text \<open>
  C11. Dependencies come first: whatever a refresh does, and even when it stops half way with a
  fault, a node that is ready afterwards and was not so before belongs to a plan node all of whose
  dependencies have a succeeded or skipped run in the resulting store, and every fan-out set that
  joins at this node has succeeded.
\<close>

theorem refresh_releases:
  assumes "keyed node_key (runtimeNodes s)"
    and "Store_Plan (jr_TenantID job) (jr_PlanRevisionID job) s = Inr plan"
    and "refresh ids now job s = (s', r)"
    and "mget (runtimeNodes s') k = Some n" and "nr_State n = NodeReady" and "mget (runtimeNodes s) k \<noteq> Some n"
  shows "released job (FanoutSets (jr_TenantID job) (jr_ID job) s') (jp_Nodes plan) s' n"
proof (cases "settled_job (jr_State job)")
  case True
  then have "s' = s" using assms(3) by (simp add: refresh_def svc_simps)
  with assms(4,6) show ?thesis by simp
next
  case False
  have s': "fst (refresh ids now job s) = s'" using assms(3) by simp
  let ?s1 = "fst (refreshFanoutJoins ids now job s)"
  have oc: "keyed node_key (runtimeNodes ?s1)"
    "\<And>k n. mget (runtimeNodes ?s1) k = Some n \<Longrightarrow> mget (runtimeNodes s) k = Some n \<or> nr_State n = NodeCancelled"
    using refreshFanoutJoins_only [of s ids now job] assms(1) unfolding only_cancels_def by blast+
  from False assms(2) show ?thesis
  proof (cases rule: refresh_phases [where ids = ids and now = now])
    case joins
    with s' oc(2) [of k n] assms(4-6) show ?thesis by simp
  next
    case (nodes s1 s2 sets byKey)
    have b: "released_between job sets (jp_Nodes plan) s1 s2"
      unfolding nodes(4) by (rule refresh_nodes_sound, unfold nodes(3), rule table_ok_initial) (use nodes(1) oc(1) in simp)
    have "mget (runtimeNodes s2) k = Some n" using nodes(5) s' assms(4) by simp
    moreover have "mget (runtimeNodes s1) k \<noteq> Some n" using oc(2) [of k n] nodes(1) assms(5,6) by auto
    ultimately have "released job sets (jp_Nodes plan) s2 n" using b assms(5) unfolding released_between_def by blast
    moreover have "sets = FanoutSets (jr_TenantID job) (jr_ID job) s'"
      using nodes(2,6) b s' by (simp add: FanoutSets_def released_between_def)
    moreover have "runtimeNodes s' = runtimeNodes s2" using nodes(5) s' by simp
    ultimately show ?thesis by (simp add: released_def deps_finished_def NodeRuns_def)
  qed
qed

subsection \<open>A job whose nodes have ended\<close>

definition all_ended :: "JobRun \<Rightarrow> Store \<Rightarrow> bool" where
  "all_ended job s =
     (NodeRuns (jr_TenantID job) (jr_ID job) s \<noteq> []
      \<and> list_all (\<lambda>n. nr_State n \<in> {NodeSucceeded, NodeSkipped, NodeCancelled}) (NodeRuns (jr_TenantID job) (jr_ID job) s)
      \<and> list_all (\<lambda>f. fs_Status f \<noteq> FanoutClosed) (FanoutSets (jr_TenantID job) (jr_ID job) s))"

lemma each_ret: "(\<And>x. x \<in> set xs \<Longrightarrow> f x = ret ()) \<Longrightarrow> each f xs = ret ()"
  by (induction xs) (auto simp: bind_svc_def ret_def)

lemma refresh_joins_idle:
  assumes "list_all (\<lambda>f. fs_Status f \<noteq> FanoutClosed) (FanoutSets (jr_TenantID job) (jr_ID job) s)"
  shows "refreshFanoutJoins ids now job s = (s, Inr ())"
proof -
  have "each (\<lambda>f. if fs_Status f \<noteq> FanoutClosed then ret ()
      else bind_svc (JoinFanoutSet (ids (fs_ID f)) now (jr_TenantID job) (fs_ID f) ''runtime.join'') (\<lambda>_. ret ()))
      (FanoutSets (jr_TenantID job) (jr_ID job) s) = ret ()"
    using assms by (intro each_ret) (auto simp: list_all_iff)
  then show ?thesis by (simp add: refreshFanoutJoins_def bind_svc_def query_def ret_def)
qed

lemma refresh_nodes_idle:
  assumes "\<And>key n. mget byKey key = Some n \<Longrightarrow> \<not> refreshable (nr_State n)"
  shows "refresh_nodes ids now job sets specs byKey ch = ret ch"
  using assms
proof (induction specs)
  case (Cons spec specs)
  then show ?case by (auto simp: next_node_state_def Let_def split: option.split)
qed simp

lemma next_job_state_ended:
  assumes "all_ended job s" and "jr_State job \<noteq> JobRunCreated"
  shows "next_job_state (jr_State job) (NodeRuns (jr_TenantID job) (jr_ID job) s) = JobRunCompleted"
proof -
  let ?ns = "NodeRuns (jr_TenantID job) (jr_ID job) s"
  have all: "nr_State n \<in> {NodeSucceeded, NodeSkipped, NodeCancelled}" if "n \<in> set ?ns" for n
    using assms(1) that by (simp add: all_ended_def list_all_iff)
  have "filter (\<lambda>n. nr_State n \<in> set [NodeFailed, NodeBlocked]) ?ns = []"
    unfolding filter_empty_conv using all by fastforce
  moreover have "filter (\<lambda>n. nr_State n \<in> set [NodeSucceeded, NodeSkipped, NodeCancelled]) ?ns = ?ns"
    unfolding filter_id_conv using all by fastforce
  ultimately show ?thesis using assms by (simp add: next_job_state_def count_nodes_def all_ended_def Let_def)
qed

lemma refresh_ended:
  assumes "all_ended job s" and "\<not> settled_job (jr_State job)"
    and "Store_Plan (jr_TenantID job) (jr_PlanRevisionID job) s = Inr plan"
  shows "refresh ids now job s = refresh_job ids now job (NodeRuns (jr_TenantID job) (jr_ID job) s) s"
proof -
  let ?ns = "NodeRuns (jr_TenantID job) (jr_ID job) s"
  have "refreshFanoutJoins ids now job s = (s, Inr ())"
    using refresh_joins_idle assms(1) by (simp add: all_ended_def)
  moreover have "refresh_nodes ids now job sets specs (mput_all nr_NodeKey ?ns []) False = ret False" for sets specs
  proof (rule refresh_nodes_idle)
    fix key n assume "mget (mput_all nr_NodeKey ?ns []) key = Some n"
    from mget_mput_all_in [OF this] have "n \<in> set ?ns" by simp
    with assms(1) show "\<not> refreshable (nr_State n)" by (auto simp: all_ended_def list_all_iff refreshable_def)
  qed
  ultimately show ?thesis using assms(2,3) by (simp add: refresh_def bind_svc_def query_def ret_def)
qed

text \<open>
  C12. Work that is done ends the job: when every node of an admitted or running job has succeeded,
  been skipped or been cancelled and no fan-out set is left to join, a refresh succeeds and the job
  is stored as completed.
\<close>

theorem refresh_completes:
  assumes "all_ended job s" and "jr_State job = JobRunAdmitted \<or> jr_State job = JobRunRunning"
    and "Store_Plan (jr_TenantID job) (jr_PlanRevisionID job) s = Inr plan"
    and "mget (runtimeJobs s) (job_key job) = Some job" and "JobRun_Validate job = None"
    and "ids (jr_ID job) \<noteq> ''''" and "\<not> IsZero now"
  shows "\<exists>s' job'. refresh ids now job s = (s', Inr job') \<and> mget (runtimeJobs s') (job_key job) = Some job'
    \<and> jr_State job' = JobRunCompleted \<and> jr_Version job' = jr_Version job + 1"
proof -
  let ?ns = "NodeRuns (jr_TenantID job) (jr_ID job) s"
  let ?j = "job\<lparr>jr_State := JobRunCompleted, jr_Version := jr_Version job + 1, jr_UpdatedAt := now\<rparr>"
  let ?e = "job_event (ids (jr_ID job)) ?j ?ns"
  have nxt: "next_job_state (jr_State job) ?ns = JobRunCompleted"
    using next_job_state_ended [OF assms(1)] assms(2) by auto
  have tr: "JobRun_Transition job JobRunCompleted = None"
    using assms(2) by (auto simp: JobRun_Transition_def job_transition_def)
  have key: "job_key ?j = job_key job" by (simp add: job_key_def)
  have val: "JobRun_Validate ?j = None" using assms(5,7) by (simp add: JobRun_Validate_def split: if_splits)
  have ids': "jr_TenantID job \<noteq> ''''" "jr_ID job \<noteq> ''''" using assms(5) by (auto simp: JobRun_Validate_def split: if_splits)
  have ev: "validateCommandEvent s (?e\<lparr>je_TenantID := jr_TenantID ?j, je_JobRunID := jr_ID ?j\<rparr>) = None"
    using assms(4,6,7) ids' by (simp add: validateCommandEvent_def job_event_def new_event_def job_key_def)
  have c: "ApplyJobTransition ?j (jr_Version ?j - 1) ?e s = Inr (appendRuntimeEventLocked
      (s\<lparr>runtimeJobs := mput (job_key job) ?j (runtimeJobs s)\<rparr>) (?e\<lparr>je_TenantID := jr_TenantID ?j, je_JobRunID := jr_ID ?j\<rparr>), ?j)"
    unfolding ApplyJobTransition_def key val assms(4) Let_def ev
    using tr assms(4) by (simp add: require_def check_nil_def lookup_or_def)
  have "refresh ids now job s = refresh_job ids now job ?ns s"
    by (rule refresh_ended [OF assms(1) _ assms(3)]) (use assms(2) in \<open>auto simp: settled_job_def\<close>)
  also have "\<dots> = (appendRuntimeEventLocked (s\<lparr>runtimeJobs := mput (job_key job) ?j (runtimeJobs s)\<rparr>)
      (?e\<lparr>je_TenantID := jr_TenantID ?j, je_JobRunID := jr_ID ?j\<rparr>), Inr ?j)"
    unfolding refresh_job_def nxt Let_def using tr c assms(2) by (auto simp: svc_simps bind_svc_def exec_def)
  finally show ?thesis by simp
qed

text \<open>
  C39. A job that waits for a human cannot end well: the state machine has no transition from
  \<^verbatim>\<open>waiting_human\<close> to \<^verbatim>\<open>completed\<close>. Once every node of such a job has succeeded, been skipped or been cancelled
  and no fan-out set of it is closed and left to join, every refresh fails with
  \<^verbatim>\<open>JOB_RUN_TRANSITION_INVALID\<close> and leaves the store as it is. (With a failed node the job does move: to failed.)
\<close>

theorem waiting_human_stuck:
  assumes "all_ended job s" and "jr_State job = JobRunWaitingHuman"
    and "Store_Plan (jr_TenantID job) (jr_PlanRevisionID job) s = Inr plan"
  shows "refresh ids now job s = (s, Inl (Conflict ''JOB_RUN_TRANSITION_INVALID''))"
proof -
  have "refresh ids now job s = refresh_job ids now job (NodeRuns (jr_TenantID job) (jr_ID job) s) s"
    by (rule refresh_ended [OF assms(1) _ assms(3)]) (simp add: assms(2) settled_job_def)
  moreover have "next_job_state (jr_State job) (NodeRuns (jr_TenantID job) (jr_ID job) s) = JobRunCompleted"
    by (rule next_job_state_ended [OF assms(1)]) (simp add: assms(2))
  moreover have "JobRun_Transition job JobRunCompleted = Some (Conflict ''JOB_RUN_TRANSITION_INVALID'')"
    using assms(2) by (simp add: JobRun_Transition_def job_transition_def)
  ultimately show ?thesis using assms(2) by (simp add: refresh_job_def Let_def svc_simps)
qed

subsection \<open>A job of two stages\<close>

definition ex_at :: "job_state \<Rightarrow> JobRun" where
  "ex_at st = ex_job\<lparr>jr_State := st\<rparr>"

definition ex_staged :: "job_state \<Rightarrow> node_state \<Rightarrow> node_state \<Rightarrow> Store" where
  "ex_staged st a b =
     ex_store\<lparr>runtimePlans := [(''t:p1'', ex_plan)], runtimeJobs := [(''t:j'', ex_at st)],
       runtimeNodes := [(''t:na'', ex_noderun ''na'' ''a'' a), (''t:nb'', ex_noderun ''nb'' ''b'' b)]\<rparr>"

definition ex_ids :: "string \<Rightarrow> string" where
  "ex_ids x = ''e-'' @ x"

lemma ex_staged_keyed: "keyed node_key (runtimeNodes (ex_staged st a b))"
proof -
  have "runtimeNodes (ex_staged st a b) = mput_all node_key [ex_noderun ''na'' ''a'' a, ex_noderun ''nb'' ''b'' b] []"
    by (simp add: ex_staged_def node_key_def runtimePlanKey_def ex_noderun_def mput_def)
  then show ?thesis using keyed_mput_all [OF keyed_Nil] by metis
qed

lemma ex_staged_plan:
  "Store_Plan (jr_TenantID (ex_at st)) (jr_PlanRevisionID (ex_at st)) (ex_staged st a b) = Inr ex_plan"
  by (simp add: Store_Plan_def ex_staged_def ex_at_def ex_job_def runtimePlanKey_def lookup_or_def)

theorem refresh_releases_witness:
  "\<exists>s' r n. refresh ex_ids 9 (ex_at JobRunRunning) (ex_staged JobRunRunning NodeSucceeded NodePending) = (s', r)
     \<and> mget (runtimeNodes s') ''t:nb'' = Some n \<and> nr_State n = NodeReady
     \<and> released (ex_at JobRunRunning) (FanoutSets ''t'' ''j'' s') (jp_Nodes ex_plan) s' n"
proof -
  let ?j = "ex_at JobRunRunning" and ?s = "ex_staged JobRunRunning NodeSucceeded NodePending"
  obtain s' r where r: "refresh ex_ids 9 ?j ?s = (s', r)" by fastforce
  have "map_option nr_State (mget (runtimeNodes (fst (refresh ex_ids 9 ?j ?s))) ''t:nb'') = Some NodeReady" by code_simp
  then obtain n where n: "mget (runtimeNodes s') ''t:nb'' = Some n" "nr_State n = NodeReady" using r by auto
  have "mget (runtimeNodes ?s) ''t:nb'' \<noteq> Some n" using n(2) by (auto simp: ex_staged_def ex_noderun_def)
  from refresh_releases [OF ex_staged_keyed ex_staged_plan r n this] r n show ?thesis
    by (auto simp: ex_at_def ex_job_def)
qed

theorem refresh_completes_witness:
  "\<exists>s' job'. refresh ex_ids 9 (ex_at JobRunRunning) (ex_staged JobRunRunning NodeSucceeded NodeSkipped) = (s', Inr job')
     \<and> mget (runtimeJobs s') ''t:j'' = Some job' \<and> jr_State job' = JobRunCompleted"
proof -
  let ?j = "ex_at JobRunRunning" and ?s = "ex_staged JobRunRunning NodeSucceeded NodeSkipped"
  have "all_ended ?j ?s" "JobRun_Validate ?j = None" by code_simp+
  moreover have "mget (runtimeJobs ?s) (job_key ?j) = Some ?j" "job_key ?j = ''t:j''" "jr_State ?j = JobRunRunning"
    by (simp_all add: ex_staged_def ex_at_def ex_job_def job_key_def runtimePlanKey_def)
  ultimately show ?thesis
    using refresh_completes [of ?j ?s ex_plan ex_ids 9, OF _ _ ex_staged_plan] by (auto simp: ex_ids_def IsZero_def)
qed

theorem waiting_human_stuck_witness:
  "refresh ex_ids 9 (ex_at JobRunWaitingHuman) (ex_staged JobRunWaitingHuman NodeSucceeded NodeSucceeded)
     = (ex_staged JobRunWaitingHuman NodeSucceeded NodeSucceeded, Inl (Conflict ''JOB_RUN_TRANSITION_INVALID''))"
proof (rule waiting_human_stuck [OF _ _ ex_staged_plan])
  show "all_ended (ex_at JobRunWaitingHuman) (ex_staged JobRunWaitingHuman NodeSucceeded NodeSucceeded)" by code_simp
qed (simp add: ex_at_def)

end
