(* ===== verification/System.thy ===== *)
theory System
  imports Registry Provider_Store Fanout_Store Tool_Calls Yields Idempotency
begin

section \<open>The store as a whole\<close>

text \<open>
  All operations of the store that write, as one step relation \<open>store_step\<close>. The store takes its
  lock for each of them, so any execution of concurrent callers is a sequence of such steps, in any
  order: the relation is their free interleaving. An operation that fails leaves the store as it
  is, except \<open>ApplyFanoutJoinCommand\<close>, whose rule therefore also covers its faults.

  Some rules have a premise beyond success, for what the operation leaves to its caller. The graph
  patch and the creation of a fan-out set store the job they are given without checking its
  state against the state machine; the services that call them keep the state of the job they read,
  and \<^verbatim>\<open>PatchGraph\<close> adds only pending nodes.
  The other premises are on identifiers, which come from \<^verbatim>\<open>idgen\<close>. A claim is given a fence token
  that is not blank. \<open>CreateJobBundle\<close> writes its
  nodes without looking whether their identifiers are taken. A heartbeat looks a node up under the tenant it is given and writes it back under that
  tenant; keys are texts joined by a colon, so this is the same row when no row of another tenant
  can be found there (\<open>tenant_nodes\<close>, true of identifiers without a colon).

  Two results hold of every interleaving: the event log of each job stays gap-free with every
  event handed to the outbox, and a node or a job is only ever replaced by a higher version of
  itself, along the transitions of its state machine. Together with the compare-and-swap contract
  this rules out lost updates and makes final states final.
\<close>

subsection \<open>Steps\<close>

definition tenant_nodes :: "string \<Rightarrow> Store \<Rightarrow> bool" where
  "tenant_nodes t s = (\<forall>i n. mget (runtimeNodes s) (runtimeNodeKey t i) = Some n \<longrightarrow> nr_TenantID n = t)"

inductive store_step :: "Store \<Rightarrow> Store \<Rightarrow> bool" where
  registry: "registry_step s s' \<Longrightarrow> store_step s s'"
| tools: "tool_write s s' \<Longrightarrow> store_step s s'"
| append_event: "AppendRuntimeEvent e s = Inr (s', v) \<Longrightarrow> store_step s s'"
| append_fenced: "AppendFencedRuntimeEvent t a own f now e s = Inr (s', v) \<Longrightarrow> store_step s s'"
| create_plan: "CreatePlan p s = Inr (s', u) \<Longrightarrow> store_step s s'"
| create_job: "CreateJobBundle j ns e s = Inr (s', u)
    \<Longrightarrow> (\<And>n. n \<in> set ns \<Longrightarrow> mget (runtimeNodes s) (node_key n) = None) \<Longrightarrow> store_step s s'"
| create_view: "CreateContextView w s = Inr (s', u) \<Longrightarrow> store_step s s'"
| create_agent: "CreateAgentInstance g s = Inr (s', u) \<Longrightarrow> store_step s s'"
| save_agent: "SaveAgentInstance g x s = Inr (s', u) \<Longrightarrow> store_step s s'"
| create_checkpoint: "CreateCheckpoint c s = Inr (s', u) \<Longrightarrow> store_step s s'"
| claim_node: "ClaimReadyNodeCommand (Inr tok) t j own now d e s = Inr (s', n) \<Longrightarrow> \<not> blank tok \<Longrightarrow> store_step s s'"
| heartbeat_node: "HeartbeatNodeCommand t i own x now d e s = Inr (s', n) \<Longrightarrow> tenant_nodes t s \<Longrightarrow> store_step s s'"
| job_transition: "ApplyJobTransition j x e s = Inr (s', j') \<Longrightarrow> store_step s s'"
| node_transition: "ApplyNodeTransition n x e s = Inr (s', n') \<Longrightarrow> store_step s s'"
| effect_transition: "ApplyEffectTransition f x e s = Inr (s', f') \<Longrightarrow> store_step s s'"
| graph_patch: "ApplyGraphPatchCommand j x p ns ks e s = Inr (s', j')
    \<Longrightarrow> (\<And>c. mget (runtimeJobs s) (job_key j) = Some c \<Longrightarrow> jr_State j = jr_State c)
    \<Longrightarrow> (\<And>n. n \<in> set ns \<Longrightarrow> nr_State n = NodePending) \<Longrightarrow> store_step s s'"
| mutate_state: "ApplyStateMutation i t j m e s = Inr (s', st) \<Longrightarrow> store_step s s'"
| register_effect: "RegisterEffectCommand f e s = Inr (s', f') \<Longrightarrow> store_step s s'"
| register_fenced: "RegisterFencedEffectCommand f tok now e s = Inr (s', f') \<Longrightarrow> store_step s s'"
| claim_outbox: "ClaimRuntimeOutbox t sub w now d l s = Inr (s', ms) \<Longrightarrow> store_step s s'"
| ack_outbox: "AckRuntimeOutbox t i sub w at s = Inr (s', u) \<Longrightarrow> store_step s s'"
| retry_outbox: "RetryRuntimeOutbox t i sub w now at err s = Inr (s', u) \<Longrightarrow> store_step s s'"
| save_quota: "SaveResourceQuota q s = Inr (s', u) \<Longrightarrow> store_step s s'"
| prepare: "PrepareDispatch n x a w g cr z rs e s = Inr (s', r) \<Longrightarrow> store_step s s'"
| activate: "ActivateDispatch n x a y g z e s = Inr (s', r) \<Longrightarrow> store_step s s'"
| heartbeat: "HeartbeatDispatch t a own f x y now d s = Inr (s', hr) \<Longrightarrow> tenant_nodes t s \<Longrightarrow> store_step s s'"
| finalize: "FinalizeDispatch n x a y g z f e s = Inr (s', r) \<Longrightarrow> store_step s s'"
| expire: "s' = ExpireNodeLeases ids t now s \<Longrightarrow> store_step s s'"
| yield: "Store_YieldDispatch w n x a y g z f e s = Inr (s', yr) \<Longrightarrow> store_step s s'"
| resolve: "ResolveRuntimeYield w v n x g z e s = Inr (s', rr) \<Longrightarrow> store_step s s'"
| create_fanout: "CreateFanoutSetCommand j x p f ms ns e s = Inr (s', j')
    \<Longrightarrow> (\<And>c. mget (runtimeJobs s) (job_key j) = Some c \<Longrightarrow> jr_State j = jr_State c) \<Longrightarrow> store_step s s'"
| join_fanout: "ApplyFanoutJoinCommand f x ms ks e s = (s', fr) \<Longrightarrow> store_step s s'"
| create_collection: "CreateStateCollection c s = Inr (s', u) \<Longrightarrow> store_step s s'"
| record_cas: "ApplyStateRecordCAS len r x s = Inr (s', r') \<Longrightarrow> store_step s s'"
| record_command: "ApplyStateRecordCommand len r x e s = Inr (s', r') \<Longrightarrow> store_step s s'"
| record_fenced: "ApplyFencedStateRecordCommand len r x a f now e s = Inr (s', r') \<Longrightarrow> store_step s s'"
| provider_inbox: "ReceiveProviderInboxCommand m f x rc e s = Inr (s', mf) \<Longrightarrow> store_step s s'"
| agent_inbox: "ReceiveAgentInboxCommand m e s = Inr (s', m') \<Longrightarrow> store_step s s'"
| complete_inbox: "CompleteAgentInboxCommand m x e s = Inr (s', m') \<Longrightarrow> store_step s s'"
| provider_bill: "RecordProviderBillCommand b rc e s = Inr (s', b') \<Longrightarrow> store_step s s'"
| provider_recon: "ResolveProviderReconciliationCommand rc f x e s = Inr (s', rf) \<Longrightarrow> store_step s s'"

subsection \<open>How tables change\<close>

text \<open>
  \<open>rows_ok\<close>: rows sit under their own keys and satisfy \<open>I\<close>. \<open>table_step\<close>: this is kept, no row
  disappears, each moves by \<open>R\<close>.
\<close>

definition rows_ok :: "('v \<Rightarrow> string) \<Rightarrow> ('v \<Rightarrow> bool) \<Rightarrow> 'v gomap \<Rightarrow> bool" where
  "rows_ok key I m = (keyed key m \<and> (\<forall>k v. mget m k = Some v \<longrightarrow> I v))"

definition table_step ::
    "('v \<Rightarrow> string) \<Rightarrow> ('v \<Rightarrow> bool) \<Rightarrow> ('v \<Rightarrow> 'v \<Rightarrow> bool) \<Rightarrow> 'v gomap \<Rightarrow> 'v gomap \<Rightarrow> bool" where
  "table_step key I R m m' = (rows_ok key I m \<longrightarrow> rows_ok key I m' \<and> moves R m m')"

definition node_evolves :: "NodeRun \<Rightarrow> NodeRun \<Rightarrow> bool" where
  "node_evolves n n' =
     ((n' = n \<or> nr_Version n < nr_Version n')
      \<and> (\<lambda>a b. node_transition a b = None)\<^sup>*\<^sup>* (nr_State n) (nr_State n'))"

definition job_evolves :: "JobRun \<Rightarrow> JobRun \<Rightarrow> bool" where
  "job_evolves j j' =
     ((j' = j \<or> jr_Version j < jr_Version j')
      \<and> (\<lambda>a b. job_transition a b = None)\<^sup>*\<^sup>* (jr_State j) (jr_State j'))"

definition node_ok :: "NodeRun \<Rightarrow> bool" where
  "node_ok n = (NodeRun_Validate n = None)"

definition job_ok :: "JobRun \<Rightarrow> bool" where
  "job_ok j = (JobRun_Validate j = None)"

abbreviation nodes_step :: "NodeRun gomap \<Rightarrow> NodeRun gomap \<Rightarrow> bool" where
  "nodes_step \<equiv> table_step node_key node_ok node_evolves"

abbreviation jobs_step :: "JobRun gomap \<Rightarrow> JobRun gomap \<Rightarrow> bool" where
  "jobs_step \<equiv> table_step job_key job_ok job_evolves"

definition progress :: "Store \<Rightarrow> Store \<Rightarrow> bool" where
  "progress s s' =
     (log_grows s s' \<and> nodes_step (runtimeNodes s) (runtimeNodes s') \<and> jobs_step (runtimeJobs s) (runtimeJobs s'))"

lemma node_evolves_refl [simp]: "node_evolves n n"
  by (simp add: node_evolves_def)

lemma job_evolves_refl [simp]: "job_evolves j j"
  by (simp add: job_evolves_def)

lemma node_evolves_trans: "node_evolves a b \<Longrightarrow> node_evolves b c \<Longrightarrow> node_evolves a c"
  unfolding node_evolves_def by (meson less_trans rtranclp_trans)

lemma node_evolves_next:
  "node_transition (nr_State n) (nr_State n') = None \<Longrightarrow> nr_Version n' = nr_Version n + 1 \<Longrightarrow> node_evolves n n'"
  by (simp add: node_evolves_def r_into_rtranclp)

lemma rows_ok_get: "rows_ok key I m \<Longrightarrow> mget m k = Some v \<Longrightarrow> I v \<and> key v = k"
  using keyed_key [of key m k v] by (simp add: rows_ok_def)

lemma rows_ok_mput: "rows_ok key I m \<Longrightarrow> I v \<Longrightarrow> rows_ok key I (mput (key v) v m)"
  by (auto simp: rows_ok_def keyed_mput split: if_splits)

lemma rows_ok_mput_all: "rows_ok key I m \<Longrightarrow> (\<And>v. v \<in> set vs \<Longrightarrow> I v) \<Longrightarrow> rows_ok key I (mput_all key vs m)"
  using mget_mput_all_in [of key vs m] by (simp add: rows_ok_def keyed_mput_all) blast

lemma rows_ok_mmap:
  "rows_ok key I m \<Longrightarrow> (\<And>v. key (f v) = key v) \<Longrightarrow> (\<And>k v. mget m k = Some v \<Longrightarrow> I v \<Longrightarrow> I (f v))
   \<Longrightarrow> rows_ok key I (mmap f m)"
  by (auto simp: rows_ok_def keyed_mmap)

lemma table_step_refl [simp]: "(\<And>v. R v v) \<Longrightarrow> table_step key I R m m"
  by (simp add: table_step_def moves_refl)

lemma table_step_trans:
  "table_step key I R m1 m2 \<Longrightarrow> table_step key I R m2 m3 \<Longrightarrow> (\<And>a b c. R a b \<Longrightarrow> R b c \<Longrightarrow> R a c)
   \<Longrightarrow> table_step key I R m1 m3"
  unfolding table_step_def using moves_trans [of R m1 m2 m3] by blast

lemma table_step_put:
  "mget m (key v) = Some c \<Longrightarrow> I v \<Longrightarrow> R c v \<Longrightarrow> (\<And>v. R v v) \<Longrightarrow> table_step key I R m (mput (key v) v m)"
  unfolding table_step_def by (auto intro!: rows_ok_mput moves_mput)

lemma table_step_new:
  "(\<And>x. x \<in> set vs \<Longrightarrow> mget m (key x) = None \<and> I x) \<Longrightarrow> (\<And>v. R v v)
   \<Longrightarrow> table_step key I R m (mput_all key vs m)"
  by (simp add: table_step_def rows_ok_mput_all moves_mput_all_new)

lemma table_step_mmap:
  "(\<And>v. R v (f v)) \<Longrightarrow> (\<And>v. key (f v) = key v) \<Longrightarrow> (\<And>v. I v \<Longrightarrow> I (f v)) \<Longrightarrow> table_step key I R m (mmap f m)"
  by (simp add: table_step_def rows_ok_mmap moves_mmap)

text \<open>A write to an entry found under \<open>k\<close>: in a table whose rows sit under their keys it stays there.\<close>

lemma table_step_put_at:
  "mget m k = Some c \<Longrightarrow> (key c = k \<Longrightarrow> key v = k) \<Longrightarrow> (I c \<Longrightarrow> I v) \<Longrightarrow> R c v \<Longrightarrow> (\<And>v. R v v)
   \<Longrightarrow> table_step key I R m (mput (key v) v m)"
  unfolding table_step_def using rows_ok_get [of key I m k c] by (auto intro!: rows_ok_mput moves_mput)

lemma progressI:
  "log_grows s s' \<Longrightarrow> nodes_step (runtimeNodes s) (runtimeNodes s') \<Longrightarrow> jobs_step (runtimeJobs s) (runtimeJobs s')
   \<Longrightarrow> progress s s'"
  by (simp add: progress_def)

lemma progress_quiet:
  "log_grows s s' \<Longrightarrow> runtimeNodes s' = runtimeNodes s \<Longrightarrow> runtimeJobs s' = runtimeJobs s \<Longrightarrow> progress s s'"
  by (simp add: progress_def)

text \<open>A command that writes other tables, with or without an event.\<close>

definition frame :: "Store \<Rightarrow> Store \<Rightarrow> bool" where
  "frame s s1 =
     (runtimeEvents s1 = runtimeEvents s \<and> runtimeOutbox s1 = runtimeOutbox s
      \<and> runtimeOutboxReceipts s1 = runtimeOutboxReceipts s \<and> runtimeNodes s1 = runtimeNodes s
      \<and> runtimeJobs s1 = runtimeJobs s)"

lemma progress_frame: "frame s s1 \<Longrightarrow> progress s s1"
  by (simp add: frame_def progress_quiet log_grows_same)

lemma progress_logged: "frame s s1 \<Longrightarrow> progress s (appendRuntimeEventLocked s1 e)"
  by (simp add: frame_def progress_quiet log_grows_command)

lemma progress_enqueue: "progress s (enqueueRuntimeOutboxLocked s e)"
  by (rule progress_quiet [OF log_grows_enqueue]) (simp_all add: enqueueRuntimeOutboxLocked_def)

lemma progress_refl [simp]: "progress s s"
  by (simp add: progress_frame frame_def)

subsection \<open>Operations that leave jobs and nodes alone\<close>

lemma quiet_registry: "registry_step s s' \<Longrightarrow> progress s s'"
  by (erule registry_step_cases) (auto intro: progress_frame simp: frame_def)

lemma quiet_tools: "tool_write s s' \<Longrightarrow> progress s s'"
  by (erule tool_write_cases)
    (auto intro: progress_frame progress_logged simp: frame_def log_only_def put_tool_def)

lemma quiet_append: "AppendRuntimeEvent e s = Inr (s', v) \<Longrightarrow> progress s s'"
  unfolding AppendRuntimeEvent_def
  by (auto split: option.splits intro: progress_logged progress_enqueue simp: frame_def)

lemma quiet_append_fenced: "AppendFencedRuntimeEvent t a own f now e s = Inr (s', v) \<Longrightarrow> progress s s'"
  unfolding AppendFencedRuntimeEvent_def Let_def
  by (auto split: option.splits intro: progress_logged progress_enqueue simp: frame_def)

lemma quiet_creates:
  "CreatePlan p s = Inr (s', u) \<Longrightarrow> progress s s'"
  "CreateContextView w s = Inr (s', u) \<Longrightarrow> progress s s'"
  "CreateAgentInstance g s = Inr (s', u) \<Longrightarrow> progress s s'"
  "SaveAgentInstance g x s = Inr (s', u) \<Longrightarrow> progress s s'"
  "CreateCheckpoint c s = Inr (s', u) \<Longrightarrow> progress s s'"
  "SaveResourceQuota q s = Inr (s', u) \<Longrightarrow> progress s s'"
  "CreateStateCollection k s = Inr (s', u) \<Longrightarrow> progress s s'"
  unfolding CreatePlan_def CreateContextView_def CreateAgentInstance_def SaveAgentInstance_def
    CreateCheckpoint_def SaveResourceQuota_def CreateStateCollection_def Let_def
  by (auto split: if_splits intro: progress_frame simp: frame_def)

lemma quiet_effects:
  "ApplyEffectTransition f x e s = Inr (s', f') \<Longrightarrow> progress s s'"
  "RegisterEffectCommand f e s = Inr (s', f') \<Longrightarrow> progress s s'"
  "RegisterFencedEffectCommand f tok now e s = Inr (s', f') \<Longrightarrow> progress s s'"
  subgoal by (drule ApplyEffectTransition_ok) (auto intro: progress_logged simp: frame_def)
  subgoal by (erule RegisterEffectCommand_ok) (auto intro: progress_logged simp: frame_def)
  subgoal unfolding RegisterFencedEffectCommand_def Let_def
    by (auto split: option.splits if_splits intro: progress_logged simp: frame_def)
  done

lemma quiet_mutation: "ApplyStateMutation i t j m e s = Inr (s', st) \<Longrightarrow> progress s s'"
  by (erule ApplyStateMutation_ok) (auto intro: progress_logged simp: frame_def)

lemma frame_record: "applyStateRecordLocked len s r x = Inr (s1, r') \<Longrightarrow> frame s s1"
  unfolding applyStateRecordLocked_def Let_def by (auto simp: frame_def)

lemma quiet_records:
  "ApplyStateRecordCAS len r x s = Inr (s', r') \<Longrightarrow> progress s s'"
  "ApplyStateRecordCommand len r x e s = Inr (s', r') \<Longrightarrow> progress s s'"
  "ApplyFencedStateRecordCommand len r x a f now e s = Inr (s', r') \<Longrightarrow> progress s s'"
  unfolding ApplyStateRecordCAS_def ApplyStateRecordCommand_def ApplyFencedStateRecordCommand_def
  by (auto dest: frame_record intro: progress_frame progress_logged)

lemma frame_puts [simp]: "frame s (put_recon r s1) = frame s s1" "frame s (put_effect f s1) = frame s s1"
  by (simp_all add: frame_def put_recon_def put_effect_def split: option.split)

lemma frame_refl [simp]: "frame s s"
  by (simp add: frame_def)

lemma frame_upd [simp]:
  "frame s (s1\<lparr>runtimeProviderInbox := a\<rparr>) = frame s s1" "frame s (s1\<lparr>runtimeProviderBills := b\<rparr>) = frame s s1"
  "frame s (s1\<lparr>runtimeProviderRecons := c\<rparr>) = frame s s1" "frame s (s1\<lparr>runtimeEffects := d\<rparr>) = frame s s1"
  by (simp_all add: frame_def)

lemma quiet_provider:
  "ReceiveProviderInboxCommand m f x rc e s = Inr (s', mf) \<Longrightarrow> progress s s'"
  "ReceiveAgentInboxCommand m e s = Inr (s', m') \<Longrightarrow> progress s s'"
  "CompleteAgentInboxCommand m x e s = Inr (s', m') \<Longrightarrow> progress s s'"
  "RecordProviderBillCommand b rc e s = Inr (s', b') \<Longrightarrow> progress s s'"
  "ResolveProviderReconciliationCommand rn g x e s = Inr (s', rf) \<Longrightarrow> progress s s'"
  subgoal unfolding ReceiveProviderInboxCommand_def Let_def
    by (auto split: option.splits if_splits intro!: progress_logged)
  subgoal unfolding ReceiveAgentInboxCommand_def
    by (auto split: option.splits if_splits intro!: progress_logged simp: frame_def)
  subgoal unfolding CompleteAgentInboxCommand_def
    by (auto split: if_splits intro!: progress_logged simp: frame_def)
  subgoal unfolding RecordProviderBillCommand_def Let_def
    by (auto split: option.splits if_splits intro!: progress_logged)
  subgoal unfolding ResolveProviderReconciliationCommand_def
    by (auto intro!: progress_logged simp: frame_def)
  done

subsection \<open>The outbox protocol\<close>

text \<open>Receipts are only updated, so an event that was enqueued stays so.\<close>

lemma progress_receipts:
  assumes "\<And>k. mget (runtimeOutboxReceipts s) k \<noteq> None \<Longrightarrow> mget m k \<noteq> None"
  shows "progress s (s\<lparr>runtimeOutboxReceipts := m\<rparr>)"
proof (rule progress_quiet)
  have "events_of (s\<lparr>runtimeOutboxReceipts := m\<rparr>) = events_of s" by (rule events_of_cong) simp
  moreover have "enqueued s e \<Longrightarrow> enqueued (s\<lparr>runtimeOutboxReceipts := m\<rparr>) e" for e
    using assms unfolding enqueued_def by simp
  ultimately show "log_grows s (s\<lparr>runtimeOutboxReceipts := m\<rparr>)" unfolding log_grows_def by simp
qed simp_all

lemma lock_loop_keeps:
  "mget m k \<noteq> None \<Longrightarrow> mget (fst (lock_loop t sub w u ob xs m)) k \<noteq> None"
  by (induction xs arbitrary: m) (auto simp: Let_def split_beta)

lemma quiet_outbox:
  "ClaimRuntimeOutbox t sub w now d l s = Inr (s', ms) \<Longrightarrow> progress s s'"
  "AckRuntimeOutbox t i sub w at s = Inr (s', u) \<Longrightarrow> progress s s'"
  "RetryRuntimeOutbox t i sub w now at err s = Inr (s', u) \<Longrightarrow> progress s s'"
  subgoal unfolding ClaimRuntimeOutbox_def Let_def split_beta
    by (auto intro!: progress_receipts lock_loop_keeps [simplified])
  subgoal unfolding AckRuntimeOutbox_def Let_def by (auto intro!: progress_receipts)
  subgoal unfolding RetryRuntimeOutbox_def Let_def by (auto intro!: progress_receipts)
  done

subsection \<open>Operations on nodes\<close>

text \<open>
  The write of one node, found under its key and replaced by its next version along an allowed
  transition, together with other tables and one event.
\<close>

lemma progress_node:
  assumes "mget (runtimeNodes s) (node_key n) = Some c" and "nr_Version n = nr_Version c + 1"
    and "node_transition (nr_State c) (nr_State n) = None" and "NodeRun_Validate n = None"
    and "runtimeNodes s1 = mput (node_key n) n (runtimeNodes s)" and "runtimeJobs s1 = runtimeJobs s"
    and "log_grows s s1"
  shows "progress s s1"
  using assms by (intro progressI) (simp_all add: table_step_put node_evolves_next node_ok_def)

text \<open>The same for a node that was found under another key and is written back under its own.\<close>

lemma progress_node_at:
  assumes "mget (runtimeNodes s) k = Some c" and "node_key n = node_key c" and "nr_Version n = nr_Version c + 1"
    and "node_transition (nr_State c) (nr_State n) = None \<or> nr_State n = nr_State c"
    and "NodeRun_Validate c = None \<Longrightarrow> NodeRun_Validate n = None"
    and "runtimeNodes s1 = mput (node_key n) n (runtimeNodes s)" and "runtimeJobs s1 = runtimeJobs s"
    and "log_grows s s1"
  shows "progress s s1"
proof (rule progressI)
  have "node_evolves c n" using assms(3,4) by (auto intro: node_evolves_next simp: node_evolves_def)
  then show "nodes_step (runtimeNodes s) (runtimeNodes s1)"
    unfolding assms(6) by (intro table_step_put_at [OF assms(1)]) (simp_all add: assms(2,5) node_ok_def)
qed (use assms in simp_all)

lemma step_ApplyNode: "ApplyNodeTransition n x e s = Inr (s', n') \<Longrightarrow> progress s s'"
  by (drule ApplyNodeTransition_ok) (auto intro!: progress_node)

lemma ready_leased: "node_transition NodeReady NodeLeased = None"
  by code_simp

lemma step_prepare: "PrepareDispatch n x a w g cr z rs e s = Inr (s', r) \<Longrightarrow> progress s s'"
  by (erule PrepareDispatch_ok) (auto intro!: progress_node log_grows_command simp: ready_leased)

lemma put_dispatch_sel [simp]:
  "runtimeNodes (put_dispatch n a g s) = mput (node_key n) n (runtimeNodes s)"
  "runtimeJobs (put_dispatch n a g s) = runtimeJobs s" "runtimeEvents (put_dispatch n a g s) = runtimeEvents s"
  "runtimeOutbox (put_dispatch n a g s) = runtimeOutbox s"
  "runtimeOutboxReceipts (put_dispatch n a g s) = runtimeOutboxReceipts s"
  by (simp_all add: put_dispatch_def)

lemma step_activate: "ActivateDispatch n x a y g z e s = Inr (s', r) \<Longrightarrow> progress s s'"
  by (erule ActivateDispatch_ok) (rule progress_node, auto intro!: log_grows_command)

lemma step_finalize: "FinalizeDispatch n x a y g z f e s = Inr (s', r) \<Longrightarrow> progress s s'"
  by (erule FinalizeDispatch_ok) (simp, rule progress_node, auto intro!: log_grows_command)

lemma step_yield: "Store_YieldDispatch w n x a y g z f e s = Inr (s', yr) \<Longrightarrow> progress s s'"
  by (erule Store_YieldDispatch_ok) (simp, rule progress_node, auto intro!: log_grows_command)

lemma step_resolve: "ResolveRuntimeYield w v n x g z e s = Inr (s', rr) \<Longrightarrow> progress s s'"
  by (erule ResolveRuntimeYield_ok) (simp, rule progress_node, auto intro!: log_grows_command)

lemma claim_select_eligible:
  "nr_ID (claim_select t j now s) \<noteq> '''' \<Longrightarrow>
   claim_select t j now s \<in> set (mvals (runtimeNodes s)) \<and> nr_TenantID (claim_select t j now s) = t"
proof -
  have "fst (select_loop el sc p cs) = fst p \<or> fst (select_loop el sc p cs) \<in> set cs \<and> el (fst (select_loop el sc p cs))"
    for el sc p cs by (induction el sc p cs rule: select_loop.induct) auto
  from this [of "claim_eligible t j" "claim_score s now" "(zero_node, -1)" "mvals (runtimeNodes s)"]
  show "nr_ID (claim_select t j now s) \<noteq> '''' \<Longrightarrow> claim_select t j now s \<in> set (mvals (runtimeNodes s))
      \<and> nr_TenantID (claim_select t j now s) = t"
    by (auto simp: claim_select_def zero_node_def claim_eligible_def)
qed

lemma lease_node_sel [simp]:
  "nr_ID (lease_node own tok now d n) = nr_ID n" "nr_TenantID (lease_node own tok now d n) = nr_TenantID n"
  "nr_State (lease_node own tok now d n) = NodeLeased" "nr_Version (lease_node own tok now d n) = nr_Version n + 1"
  by (simp_all add: lease_node_def)

lemma lease_node_valid:
  "NodeRun_Validate n = None \<Longrightarrow> \<not> blank own \<Longrightarrow> \<not> blank tok \<Longrightarrow> \<not> d \<le> 0
   \<Longrightarrow> NodeRun_Validate (lease_node own tok now d n) = None"
  by (auto simp: NodeRun_Validate_def lease_node_def after_opt_def split: if_splits)

lemma step_claim:
  assumes "ClaimReadyNodeCommand (Inr tok) t j own now d e s = Inr (s', v)" and "\<not> blank tok"
  shows "progress s s'"
proof -
  let ?n = "claim_select t j now s"
  obtain e' where f: "nr_ID ?n \<noteq> ''''" "node_transition (nr_State ?n) NodeLeased = None"
    "s' = appendRuntimeEventLocked (s\<lparr>runtimeNodes :=
       mput (runtimeNodeKey t (nr_ID ?n)) (lease_node own tok now d ?n) (runtimeNodes s)\<rparr>) e'"
    "\<not> (blank own \<or> d \<le> 0)"
    using assms(1) unfolding ClaimReadyNodeCommand_def Let_def NodeRun_Transition_def bind_res_simps
      require_Inr check_nil_Inr sum.inject prod.inject lease_node_sel
    by (elim exE conjE) (rule that; (assumption | erule sym))
  note sel = claim_select_eligible [OF f(1)]
  then have mem: "?n \<in> set (mvals (runtimeNodes s))" by simp
  have key: "runtimeNodeKey t (nr_ID ?n) = node_key (lease_node own tok now d ?n)" using sel by (simp add: node_key_def)
  show ?thesis
  proof (cases "wf_map (runtimeNodes s)")
    case True
    from mvals_get [OF this mem] obtain k where "mget (runtimeNodes s) k = Some ?n" ..
    then show ?thesis
      by (rule progress_node_at [where n = "lease_node own tok now d ?n"])
        (use lease_node_valid f(4) assms(2) in \<open>auto simp: f(2,3) key node_key_def intro!: log_grows_command\<close>)
  next
    case False
    then have "nodes_step (runtimeNodes s) m" for m by (simp add: table_step_def rows_ok_def keyed_def)
    then show ?thesis by (intro progressI) (auto simp: f(3) intro!: log_grows_command)
  qed
qed

text \<open>A heartbeat finds the node under the tenant it names.\<close>

lemma tenant_node_key:
  "tenant_nodes t s \<Longrightarrow> mget (runtimeNodes s) (runtimeNodeKey t i) = Some n \<Longrightarrow> runtimeNodeKey t (nr_ID n) = node_key n"
  by (simp add: tenant_nodes_def node_key_def)

lemma step_heartbeat_node:
  assumes "HeartbeatNodeCommand t i own x now d e s = Inr (s', v)" and "tenant_nodes t s"
  shows "progress s s'"
proof -
  let ?n = "\<lambda>c. c\<lparr>nr_State := NodeRunning, nr_LeaseExpiresAt := Some (now + d),
      nr_Version := nr_Version c + 1, nr_UpdatedAt := now\<rparr>"
  obtain c e' where c: "mget (runtimeNodes s) (runtimeNodeKey t i) = Some c"
    "nr_State c = NodeLeased \<or> nr_State c = NodeRunning"
    "(if nr_State c = NodeLeased then NodeRun_Transition c NodeRunning else None) = None"
    "s' = appendRuntimeEventLocked
       (s\<lparr>runtimeNodes := mput (runtimeNodeKey t (nr_ID c)) (?n c) (runtimeNodes s)\<rparr>) e'" "0 < d"
    using assms(1) unfolding HeartbeatNodeCommand_def Let_def by auto
  note key = tenant_node_key [OF assms(2) c(1)]
  show ?thesis
    by (rule progress_node_at [OF c(1), where n = "?n c"])
      (use c(2,3,5) key in \<open>auto simp: c(4) node_key_def NodeRun_Transition_def NodeRun_Validate_def after_opt_def
        split: if_splits intro!: log_grows_command\<close>)
qed

lemma step_heartbeat:
  assumes "HeartbeatDispatch t a own f x y now d s = Inr (s', r)" and "tenant_nodes t s"
  shows "progress s s'"
  using assms(1)
proof (rule HeartbeatDispatch_ok)
  fix cn :: NodeRun and ca :: RuntimeAttempt
  let ?n = "cn\<lparr>nr_LeaseExpiresAt := Some (now + d), nr_Version := nr_Version cn + 1, nr_UpdatedAt := now\<rparr>"
  assume c: "mget (runtimeNodes s) (runtimePlanKey t (ra_NodeRunID ca)) = Some cn" and st: "nr_State cn = NodeRunning"
    and d: "0 < d" and s': "s' = s\<lparr>runtimeNodes := mput (runtimePlanKey t (nr_ID cn)) ?n (runtimeNodes s),
      runtimeAttempts := mput (runtimePlanKey t (ra_ID ca))
        (ca\<lparr>ra_LeaseExpiresAt := Some (now + d), ra_Version := ra_Version ca + 1, ra_UpdatedAt := now\<rparr>)
        (runtimeAttempts s),
      runtimeReservations := mmap (extend_reservation t (ra_ID ca) f now (now + d)) (runtimeReservations s)\<rparr>"
  note key = tenant_node_key [OF assms(2) c]
  show ?thesis
    by (rule progress_node_at [OF c, where n = ?n])
      (use key st d in \<open>auto simp: s' node_key_def NodeRun_Validate_def after_opt_def split: if_splits intro!: log_grows_same\<close>)
qed

lemma expire_node_evolves: "node_evolves n (expire_node t now n)"
proof -
  have "node_transition NodeLeased NodeLeaseExpired = None" "node_transition NodeRunning NodeLeaseExpired = None"
    by code_simp+
  then show ?thesis by (auto simp: expire_node_def intro!: node_evolves_next)
qed

lemma expire_node_ok: "node_ok n \<Longrightarrow> node_ok (expire_node t now n)"
  by (auto simp: node_ok_def expire_node_def NodeRun_Validate_def split: if_splits)

lemma expire_node_key: "node_key (expire_node t now n) = node_key n"
  by (simp add: expire_node_def node_key_def)

lemma expire_loop_jobs: "runtimeJobs (expire_loop ids t now i rest s) = runtimeJobs s"
  by (induction ids t now i rest s rule: expire_loop.induct) (simp_all add: Let_def)

lemma step_expire: "progress s (ExpireNodeLeases ids t now s)"
proof (rule progressI [OF log_grows_expire])
  show "nodes_step (runtimeNodes s) (runtimeNodes (ExpireNodeLeases ids t now s))"
    unfolding ExpireNodeLeases_nodes
    by (rule table_step_mmap) (rule expire_node_evolves expire_node_key expire_node_ok, assumption?)+
  show "jobs_step (runtimeJobs s) (runtimeJobs (ExpireNodeLeases ids t now s))"
    by (simp add: ExpireNodeLeases_def Let_def expire_loop_jobs)
qed

subsection \<open>Operations on jobs\<close>

lemma jobs_step_put:
  "mget m (job_key j) = Some c \<Longrightarrow> jr_Version j = jr_Version c + 1
   \<Longrightarrow> job_transition (jr_State c) (jr_State j) = None \<or> jr_State j = jr_State c \<Longrightarrow> JobRun_Validate j = None
   \<Longrightarrow> jobs_step m (mput (job_key j) j m)"
  by (rule table_step_put) (auto simp: job_evolves_def job_ok_def)

lemma step_ApplyJob: "ApplyJobTransition j x e s = Inr (s', j') \<Longrightarrow> progress s s'"
  by (drule ApplyJobTransition_ok) (auto intro!: progressI log_grows_command intro: jobs_step_put)

lemma step_create_job:
  assumes "CreateJobBundle j ns e s = Inr (s', u)"
    and "\<And>n. n \<in> set ns \<Longrightarrow> mget (runtimeNodes s) (node_key n) = None"
  shows "progress s s'"
proof -
  have new: "mget (runtimeJobs s) (job_key j) = None" "JobRun_Validate j = None"
    and nodes: "check_all (bundle_node j) ns = None" and s': "s' = appendRuntimeEventLocked
      (s\<lparr>runtimeJobs := mput (job_key j) j (runtimeJobs s),
         runtimeNodes := mput_all node_key ns (runtimeNodes s)\<rparr>) e"
    using assms(1) unfolding CreateJobBundle_def job_key_def by auto
  have "jobs_step (runtimeJobs s) (mput (job_key j) j (runtimeJobs s))"
    using table_step_new [of "[j]" "runtimeJobs s" job_key job_ok job_evolves] new by (simp add: job_ok_def)
  moreover have "NodeRun_Validate n = None" if "n \<in> set ns" for n
    using nodes that by (auto simp: bundle_node_def split: option.splits)
  ultimately show ?thesis unfolding s'
    by (intro progressI) (auto intro!: table_step_new log_grows_command simp: assms(2) node_ok_def)
qed

text \<open>A key may be listed twice in a graph patch: the node is then cancelled twice over.\<close>

lemma cancel_node_evolves:
  assumes "nr_State n \<in> {NodePending, NodeReady, NodeWaitingResource} \<or> nr_NodeKey n \<notin> set ks"
  shows "node_evolves n (cancel_node at ks n)"
proof -
  have c: "node_transition NodePending NodeCancelled = None" "node_transition NodeReady NodeCancelled = None"
    "node_transition NodeWaitingResource NodeCancelled = None" "node_transition NodeCancelled NodeCancelled = None"
    by code_simp+
  have "nr_State n \<in> {NodePending, NodeReady, NodeWaitingResource, NodeCancelled} \<or> nr_NodeKey n \<notin> set ks"
    using assms by auto
  then show ?thesis
  proof (induction ks arbitrary: n)
    case (Cons k ks)
    let ?c = "n\<lparr>nr_State := NodeCancelled, nr_Version := nr_Version n + 1, nr_UpdatedAt := at\<rparr>"
    show ?case
    proof (cases "nr_NodeKey n = k")
      case True
      then have "node_evolves n ?c" using Cons.prems c by (intro node_evolves_next) auto
      moreover have "node_evolves ?c (cancel_node at ks ?c)" by (rule Cons.IH) simp
      ultimately show ?thesis using True by (simp add: node_evolves_trans)
    next
      case False
      then show ?thesis using Cons.prems Cons.IH [of n] by simp
    qed
  qed simp
qed

lemma cancel_node_key: "node_key (cancel_node at ks n) = node_key n"
  by (induction at ks n rule: cancel_node.induct) (auto simp: node_key_def)

lemma cancel_node_ok:
  "node_ok n \<Longrightarrow> nr_State n \<in> {NodePending, NodeReady, NodeWaitingResource, NodeCancelled} \<or> nr_NodeKey n \<notin> set ks
   \<Longrightarrow> node_ok (cancel_node at ks n)"
proof (induction ks arbitrary: n)
  case (Cons k ks)
  let ?c = "n\<lparr>nr_State := NodeCancelled, nr_Version := nr_Version n + 1, nr_UpdatedAt := at\<rparr>"
  show ?case
  proof (cases "nr_NodeKey n = k")
    case True
    then have "node_ok ?c" using Cons.prems by (auto simp: node_ok_def NodeRun_Validate_def split: if_splits)
    then show ?thesis using Cons.IH [of ?c] True by simp
  next
    case False
    then show ?thesis using Cons.IH [of n] Cons.prems by simp
  qed
qed simp

lemma patch_node_new:
  "patch_node_check s nxt n = None \<Longrightarrow> mget (runtimeNodes s) (node_key n) = None \<and> NodeRun_Validate n = None"
  by (auto simp: patch_node_check_def split: option.splits if_splits)

lemma cancel_check_ok:
  "cancel_check s nxt k = None \<Longrightarrow> n \<in> set (mvals (runtimeNodes s)) \<Longrightarrow> in_job nxt n \<Longrightarrow> nr_NodeKey n = k \<Longrightarrow>
   nr_State n \<in> {NodePending, NodeReady, NodeWaitingResource}"
  by (auto simp: cancel_check_def Let_def list_ex_iff split: if_splits)

lemma step_patch:
  assumes "ApplyGraphPatchCommand j x p ns ks e s = Inr (s', j')"
    and keep: "\<And>c. mget (runtimeJobs s) (job_key j) = Some c \<Longrightarrow> jr_State j = jr_State c"
    and pend: "\<And>n. n \<in> set ns \<Longrightarrow> nr_State n = NodePending"
  shows "progress s s'"
proof -
  let ?f = "\<lambda>n. if in_job j n then cancel_node (je_OccurredAt e) ks n else n"
  obtain c e' where c: "mget (runtimeJobs s) (job_key j) = Some c" "jr_Version c = x" "jr_Version j = x + 1"
    and val: "JobRun_Validate j = None"
    and new: "check_all (patch_node_check s j) ns = None" and cancel: "check_all (cancel_check s j) ks = None"
    and s': "s' = appendRuntimeEventLocked
       (s\<lparr>runtimePlans := mput (runtimePlanKey (jp_TenantID p) (jp_ID p)) p (runtimePlans s),
          runtimeNodes := mmap ?f (mput_all node_key ns (runtimeNodes s)),
          runtimeJobs := mput (job_key j) j (runtimeJobs s)\<rparr>) e'"
    using assms(1) unfolding ApplyGraphPatchCommand_def Let_def
    unfolding require_Inr check_nil_Inr lookup_or_Inr sum.inject prod.inject de_Morgan_disj not_not
    by (elim exE conjE) (rule that; (assumption | erule sym))
  have fresh: "mget (runtimeNodes s) (node_key n) = None \<and> NodeRun_Validate n = None" if "n \<in> set ns" for n
    by (rule patch_node_new [of s j]) (use that new in simp)
  have st: "in_job j n \<Longrightarrow> nr_NodeKey n \<in> set ks \<Longrightarrow> nr_State n \<in> {NodePending, NodeReady, NodeWaitingResource}"
    if n: "mget (runtimeNodes s) k = Some n" for k n
    by (rule cancel_check_ok [OF _ mget_vals [OF n]]) (use cancel in simp_all)
  have ev: "node_evolves n (?f n)" if n: "mget (runtimeNodes s) k = Some n" for k n
    using cancel_node_evolves [of n ks] st [OF n] by auto
  have all: "rows_ok node_key node_ok (runtimeNodes s) \<Longrightarrow> rows_ok node_key node_ok (mput_all node_key ns (runtimeNodes s))"
    by (rule rows_ok_mput_all) (auto simp: fresh node_ok_def)
  have "rows_ok node_key node_ok (mmap ?f (mput_all node_key ns (runtimeNodes s)))"
    if ok: "rows_ok node_key node_ok (runtimeNodes s)"
  proof (rule rows_ok_mmap [OF all [OF ok]])
    fix k v assume v: "mget (mput_all node_key ns (runtimeNodes s)) k = Some v" "node_ok v"
    from mget_mput_all_in [OF v(1)] have "in_job j v \<Longrightarrow> nr_NodeKey v \<in> set ks
        \<Longrightarrow> nr_State v \<in> {NodePending, NodeReady, NodeWaitingResource}"
      using pend st by blast
    then show "node_ok (?f v)" using cancel_node_ok [OF v(2), of ks] v(2) by auto
  qed (simp add: cancel_node_key)
  moreover have "moves node_evolves (runtimeNodes s) (mmap ?f (mput_all node_key ns (runtimeNodes s)))"
    unfolding moves_def
  proof (intro allI impI)
    fix k n assume n: "mget (runtimeNodes s) k = Some n"
    then have "k \<notin> node_key ` set ns" using fresh by (metis imageE option.distinct(1))
    then show "\<exists>n'. mget (mmap ?f (mput_all node_key ns (runtimeNodes s))) k = Some n' \<and> node_evolves n n'"
      using ev [OF n] n by (simp add: mget_mput_all_other)
  qed
  ultimately have "nodes_step (runtimeNodes s) (mmap ?f (mput_all node_key ns (runtimeNodes s)))"
    by (simp add: table_step_def)
  then show ?thesis unfolding s'
    by (intro progressI) (use c val keep [OF c(1)] in \<open>auto intro!: jobs_step_put log_grows_command\<close>)
qed

lemma create_node_new:
  "create_node_check f s n = None \<Longrightarrow> mget (runtimeNodes s) (node_key n) = None \<and> NodeRun_Validate n = None"
  by (auto simp: create_node_check_def split: option.splits if_splits)

lemma step_create_fanout:
  assumes "CreateFanoutSetCommand j x p f ms ns e s = Inr (s', j')"
    and keep: "\<And>c. mget (runtimeJobs s) (job_key j) = Some c \<Longrightarrow> jr_State j = jr_State c"
  shows "progress s s'"
proof -
  let ?f = "f\<lparr>fs_JoinPolicy := NormalizeJoinPolicy (fs_JoinPolicy f)\<rparr>"
  obtain c where c: "mget (runtimeJobs s) (job_key j) = Some c" "jr_Version c = x" "jr_Version j = x + 1"
    and val: "JobRun_Validate j = None"
    and new: "check_all (create_node_check ?f s) ns = None"
    and s': "s' = appendRuntimeEventLocked
       (s\<lparr>runtimePlans := mput (runtimePlanKey (jp_TenantID p) (jp_ID p)) p (runtimePlans s),
          runtimeJobs := mput (job_key j) j (runtimeJobs s),
          runtimeFanoutSets := mput (set_key ?f) ?f (runtimeFanoutSets s),
          runtimeFanoutMembers := mput_all member_key ms (runtimeFanoutMembers s),
          runtimeNodes := mput_all node_key ns (runtimeNodes s)\<rparr>) e"
    using assms(1) unfolding CreateFanoutSetCommand_def Let_def
    unfolding require_Inr check_nil_Inr lookup_or_Inr sum.inject prod.inject de_Morgan_disj not_not
    by (elim exE conjE) (rule that; (assumption | erule sym))
  have "nodes_step (runtimeNodes s) (mput_all node_key ns (runtimeNodes s))"
  proof (rule table_step_new)
    fix n assume "n \<in> set ns"
    then have "create_node_check ?f s n = None" using new by simp
    from create_node_new [OF this] show "mget (runtimeNodes s) (node_key n) = None \<and> node_ok n" by (simp add: node_ok_def)
  qed simp
  then show ?thesis unfolding s'
    by (intro progressI) (use c val keep [OF c(1)] in \<open>auto intro!: jobs_step_put log_grows_command\<close>)
qed

subsection \<open>Joining a fan-out set\<close>

text \<open>The join cancels waiting children one by one, also before it fails.\<close>

lemma cancelled_node_evolves: "nr_State n = NodePending \<or> nr_State n = NodeReady \<Longrightarrow> node_evolves n (cancelled_node at n)"
proof -
  have "node_transition NodePending NodeCancelled = None" "node_transition NodeReady NodeCancelled = None"
    by code_simp+
  then show "nr_State n = NodePending \<or> nr_State n = NodeReady \<Longrightarrow> node_evolves n (cancelled_node at n)"
    by (auto simp: cancelled_node_def intro!: node_evolves_next)
qed

lemma cancelled_node_ok: "node_ok n \<Longrightarrow> node_ok (cancelled_node at n)" "node_key (cancelled_node at n) = node_key n"
  by (auto simp: cancelled_node_def node_key_def node_ok_def NodeRun_Validate_def split: if_splits)

lemma nodes_step_cancel:
  assumes "mget m k = Some n" and "nr_State n = NodePending \<or> nr_State n = NodeReady"
  shows "nodes_step m (mput (node_key n) (cancelled_node at n) m)"
  using table_step_put_at [OF assms(1), of node_key "cancelled_node at n" node_ok node_evolves]
    cancelled_node_evolves [OF assms(2)] by (simp add: cancelled_node_ok)

lemma nodes_step_trans: "nodes_step m1 m2 \<Longrightarrow> nodes_step m2 m3 \<Longrightarrow> nodes_step m1 m3"
  by (erule table_step_trans) (assumption, rule node_evolves_trans)

lemma frame_cancel_members:
  assumes "cancel_members cur at key rest b s = (s', r)"
  shows "runtimeJobs s' = runtimeJobs s \<and> runtimeEvents s' = runtimeEvents s \<and> runtimeOutbox s' = runtimeOutbox s
    \<and> runtimeOutboxReceipts s' = runtimeOutboxReceipts s \<and> nodes_step (runtimeNodes s) (runtimeNodes s')"
  using assms
proof (induction cur at key rest b s rule: cancel_members.induct)
  case (2 cur at key k m rest found s)
  show ?case
  proof (cases "cancel_hit cur key m")
    case hit: True
    show ?thesis
    proof (cases "mget (runtimeNodes s) (runtimeNodeKey (fm_TenantID m) (fm_NodeRunID m))")
      case None
      with 2(3) hit show ?thesis by auto
    next
      case (Some n)
      show ?thesis
      proof (cases "nr_State n \<noteq> NodePending \<and> nr_State n \<noteq> NodeReady")
        case True
        with 2(3) hit Some show ?thesis by auto
      next
        case False
        let ?s = "s\<lparr>runtimeNodes := mput (node_key n) (cancelled_node at n) (runtimeNodes s),
           runtimeFanoutMembers := mput k (cancelled_member at m) (runtimeFanoutMembers s)\<rparr>"
        have "cancel_members cur at key rest True ?s = (s', r)" using 2(3) hit Some False by auto
        note ih = 2(1) [OF hit Some False this]
        have "nodes_step (runtimeNodes s) (runtimeNodes ?s)" using nodes_step_cancel [OF Some] False by simp
        with ih show ?thesis using nodes_step_trans by simp
      qed
    qed
  next
    case False
    with 2 show ?thesis by auto
  qed
qed simp

lemma frame_cancel_loop:
  assumes "cancel_loop cur at keys s = (s', r)"
  shows "runtimeJobs s' = runtimeJobs s \<and> runtimeEvents s' = runtimeEvents s \<and> runtimeOutbox s' = runtimeOutbox s
    \<and> runtimeOutboxReceipts s' = runtimeOutboxReceipts s \<and> nodes_step (runtimeNodes s) (runtimeNodes s')"
  using assms
proof (induction cur at keys s rule: cancel_loop.induct)
  case (2 cur at key keys s)
  obtain s1 r1 where m: "cancel_members cur at key (runtimeFanoutMembers s) False s = (s1, r1)" by force
  note f = frame_cancel_members [OF m]
  show ?case
  proof (cases "r1 = Inr True")
    case True
    then have "cancel_loop cur at keys s1 = (s', r)" using 2(2) m by simp
    from 2(1) [OF m [symmetric] True _ this] f nodes_step_trans show ?thesis by simp blast
  next
    case False
    then have "s' = s1" using 2(2) m by (auto split: sum.splits if_splits)
    then show ?thesis using f by simp
  qed
qed simp

lemma step_join:
  assumes "ApplyFanoutJoinCommand f x ms ks e s = (s', r)"
  shows "progress s s'"
proof (cases "join_checks f x ms e s")
  case (Inl fault)
  with assms show ?thesis unfolding ApplyFanoutJoinCommand_def by simp
next
  case (Inr cur)
  let ?s1 = "s\<lparr>runtimeFanoutMembers := mput_all member_key ms (runtimeFanoutMembers s)\<rparr>"
  obtain s2 r2 where l: "cancel_loop cur (je_OccurredAt e) ks ?s1 = (s2, r2)" by force
  note f = frame_cancel_loop [OF l, simplified]
  show ?thesis
  proof (cases r2)
    case (Inl fault)
    with assms Inr l have "s' = s2" unfolding ApplyFanoutJoinCommand_def by (simp add: \<open>join_checks f x ms e s = Inr cur\<close>)
    with f show ?thesis by (intro progressI log_grows_same) simp_all
  next
    case (Inr u)
    with assms l have "s' = appendRuntimeEventLocked (s2\<lparr>runtimeFanoutSets := mput (set_key f) f (runtimeFanoutSets s2)\<rparr>) e"
      unfolding ApplyFanoutJoinCommand_def by (simp add: \<open>join_checks f x ms e s = Inr cur\<close>)
    with f show ?thesis by (intro progressI) (auto intro!: log_grows_command)
  qed
qed

subsection \<open>Every step makes progress\<close>

theorem store_step_progress: "store_step s s' \<Longrightarrow> progress s s'"
proof (induction rule: store_step.induct)
  case expire
  then show ?case using step_expire by simp
qed (blast intro: quiet_registry quiet_tools quiet_append quiet_append_fenced quiet_creates quiet_effects
    quiet_mutation quiet_records quiet_provider quiet_outbox step_ApplyNode step_prepare step_activate
    step_finalize step_yield step_resolve step_claim step_heartbeat_node step_heartbeat step_ApplyJob
    step_create_job step_patch step_create_fanout step_join)+

text \<open>The invariant of runs: nodes and jobs are valid and sit under their keys.\<close>

definition store_ok :: "Store \<Rightarrow> bool" where
  "store_ok s = (rows_ok node_key node_ok (runtimeNodes s) \<and> rows_ok job_key job_ok (runtimeJobs s))"

lemma store_ok_New [simp]: "store_ok New"
  by (simp add: store_ok_def rows_ok_def New_def)

lemma store_ok_keyed: "store_ok s \<Longrightarrow> keyed node_key (runtimeNodes s) \<and> keyed job_key (runtimeJobs s)"
  by (simp add: store_ok_def rows_ok_def)

lemma step_ok:
  assumes "store_step s s'" and "store_ok s"
  shows "store_ok s' \<and> moves node_evolves (runtimeNodes s) (runtimeNodes s')
    \<and> moves job_evolves (runtimeJobs s) (runtimeJobs s')"
  using store_step_progress [OF assms(1)] assms(2) by (simp add: progress_def table_step_def store_ok_def)

subsection \<open>Runs\<close>

text \<open>A step of a store whose rows sit under their keys.\<close>

definition ok_step :: "Store \<Rightarrow> Store \<Rightarrow> bool" where
  "ok_step s s' = (store_ok s \<and> store_step s s')"

lemma ok_step_moves:
  assumes "ok_step s s'"
  shows "moves node_evolves (runtimeNodes s) (runtimeNodes s')" "moves job_evolves (runtimeJobs s) (runtimeJobs s')"
  using assms step_ok by (simp_all add: ok_step_def)

lemma run_ok: "store_step\<^sup>*\<^sup>* s s' \<Longrightarrow> store_ok s \<Longrightarrow> store_ok s' \<and> ok_step\<^sup>*\<^sup>* s s'"
proof (induction rule: rtranclp_induct)
  case (step s1 s2)
  then have "store_ok s1" "ok_step\<^sup>*\<^sup>* s s1" by simp_all
  moreover from this step.hyps(2) have "ok_step s1 s2" "store_ok s2"
    using step_ok by (simp_all add: ok_step_def)
  ultimately show ?case by (simp add: rtranclp.rtrancl_into_rtrancl)
qed simp

lemma run_log_grows: "store_step\<^sup>*\<^sup>* s s' \<Longrightarrow> log_grows s s'"
proof (induction rule: rtranclp_induct)
  case (step s1 s2)
  then show ?case using store_step_progress log_grows_trans by (auto simp: progress_def)
qed simp

text \<open>The contract of versioned tables with a state machine holds of the whole store, for jobs and for nodes.\<close>

interpretation store_jobs: cas_machine "\<lambda>s. mget (runtimeJobs s)" job_key jr_Version jr_State
  job_transition ApplyJobTransition ok_step validJobState job_terminal
proof unfold_locales
  fix s s' k c assume "ok_step s s'" "mget (runtimeJobs s) k = Some c"
  then show "\<exists>c'. mget (runtimeJobs s') k = Some c' \<and> jr_Version c \<le> jr_Version c'
      \<and> (\<lambda>a b. job_transition a b = None)\<^sup>*\<^sup>* (jr_State c) (jr_State c')"
    using moves_get [OF ok_step_moves(2)] by (fastforce simp: job_evolves_def)
qed

interpretation store_nodes: cas_machine "\<lambda>s. mget (runtimeNodes s)" node_key nr_Version nr_State
  node_transition ApplyNodeTransition ok_step validNodeState node_terminal
proof unfold_locales
  fix s s' k c assume "ok_step s s'" "mget (runtimeNodes s) k = Some c"
  then show "\<exists>c'. mget (runtimeNodes s') k = Some c' \<and> nr_Version c \<le> nr_Version c'
      \<and> (\<lambda>a b. node_transition a b = None)\<^sup>*\<^sup>* (nr_State c) (nr_State c')"
    using moves_get [OF ok_step_moves(1)] by (fastforce simp: node_evolves_def)
qed

lemma run_nodes:
  assumes "store_step\<^sup>*\<^sup>* s s'" and "store_ok s"
  shows "moves node_evolves (runtimeNodes s) (runtimeNodes s')"
  using assms
proof (induction rule: rtranclp_induct)
  case base
  show ?case by (simp add: moves_refl)
next
  case (step s1 s2)
  then have "moves node_evolves (runtimeNodes s1) (runtimeNodes s2)" using run_ok step_ok by blast
  with step show ?case using moves_trans node_evolves_trans by blast
qed

subsection \<open>A short run\<close>

lemma ex_store_step: "store_step New ex_store"
proof -
  let ?c = "CreateJobBundle ex_job [ex_noderun ''na'' ''a'' NodeReady, ex_noderun ''nb'' ''b'' NodePending]
      (ex_event ''e0'' ''job.created'')"
  have "\<not> isl (?c New)" by code_simp
  then have "?c New = Inr (ex_store, ())" by (auto simp: ex_store_def isl_def split: sum.splits)
  then show ?thesis by (rule create_job) (simp add: New_def)
qed

lemma ex_store_ok: "store_ok ex_store"
  using step_ok [OF ex_store_step] by simp

definition ex_done :: Store where
  "ex_done = run_cmd ex_skip ex_store"

lemma ex_done_step: "store_step ex_store ex_done"
proof -
  have "\<not> isl (ex_skip ex_store)" by code_simp
  then obtain n where "ex_skip ex_store = Inr (ex_done, n)"
    using run_cmd_ok [of ex_skip ex_store] unfolding ex_done_def by blast
  then show ?thesis unfolding ex_skip_def by (rule node_transition)
qed

definition ex_job_cancelled :: JobRun where
  "ex_job_cancelled = ex_job\<lparr>jr_State := JobRunCancelled, jr_Version := 2, jr_UpdatedAt := 5\<rparr>"

definition ex_job_waiting :: JobRun where
  "ex_job_waiting = ex_job\<lparr>jr_State := JobRunPaused, jr_Version := 2, jr_UpdatedAt := 6\<rparr>"

subsection \<open>Properties\<close>

text \<open>
  C3. The log is complete under concurrency. Whatever operations callers issue, in whatever order,
  starting from the empty store: the events of each job are numbered 1, 2, 3 and so on without a
  gap, and each has been handed to the outbox, with a receipt for every subscriber of its type.
\<close>

theorem log_complete:
  assumes "store_step\<^sup>*\<^sup>* New s"
  shows "contiguous (events_of s j) \<and> (\<forall>e \<in> set (events_of s j). enqueued s e)"
proof
  from run_log_grows [OF assms] have g: "log_grows New s" .
  have e: "events_of New j = []" by (simp add: events_of_def New_def)
  from store_log.step_contiguous [OF g] e show "contiguous (events_of s j)" by (simp add: contiguous_def)
  from g e show "\<forall>e \<in> set (events_of s j). enqueued s e" unfolding log_grows_def by (metis append_Nil)
qed

theorem log_complete_witness:
  "store_step\<^sup>*\<^sup>* New ex_done \<and> map je_Sequence (events_of ex_done ''j'') = [1, 2]
   \<and> contiguous (events_of ex_done ''j'') \<and> enqueued ex_done (events_of ex_done ''j'' ! 1)"
proof -
  have run: "store_step\<^sup>*\<^sup>* New ex_done" using ex_store_step ex_done_step by (simp add: converse_rtranclp_into_rtranclp)
  have len: "map je_Sequence (events_of ex_done ''j'') = [1, 2]" by code_simp
  then have "length (events_of ex_done ''j'') = 2" by (metis length_map length_Cons list.size(3) Suc_1 One_nat_def)
  then have "events_of ex_done ''j'' ! 1 \<in> set (events_of ex_done ''j'')" by (intro nth_mem) simp
  then show ?thesis using run len log_complete [OF run, of "''j''"] by blast
qed

text \<open>
  A node that has succeeded, failed, been skipped or been cancelled stays so. No sequence of store
  operations, by whatever callers, removes it or moves it to another state: workers that report late,
  lease expiry, graph patches, fan-out joins and resumptions all leave a finished node finished.
\<close>

theorem node_final:
  assumes "store_step\<^sup>*\<^sup>* s s'" and "store_ok s"
    and "mget (runtimeNodes s) k = Some n" and "node_terminal (nr_State n)"
  shows "\<exists>n'. mget (runtimeNodes s') k = Some n' \<and> nr_State n' = nr_State n"
  using store_nodes.terminal_frozen [of s s' k n] run_ok [OF assms(1,2)] assms(3,4) by blast

theorem node_final_witness:
  "\<exists>n'. mget (runtimeNodes (ExpireNodeLeases (\<lambda>i. ''x'') ''t'' 100 ex_done)) ''t:nb'' = Some n' \<and> nr_State n' = NodeSkipped"
proof -
  have run: "store_step\<^sup>*\<^sup>* ex_done (ExpireNodeLeases (\<lambda>i. ''x'') ''t'' 100 ex_done)" using expire [OF refl] by blast
  have k: "store_ok ex_done" using step_ok [OF ex_done_step ex_store_ok] by simp
  have n: "mget (runtimeNodes ex_done) ''t:nb'' = Some ((ex_noderun ''nb'' ''b'' NodeSkipped)\<lparr>nr_Version := 2\<rparr>)"
    by code_simp
  have st: "nr_State ((ex_noderun ''nb'' ''b'' NodeSkipped)\<lparr>nr_Version := 2\<rparr>) = NodeSkipped" by code_simp
  from node_final [OF run k n] st show ?thesis by simp
qed

text \<open>
  A job that has completed, failed, been cancelled or been rejected stays so, under the same
  interleavings.
\<close>

theorem job_final:
  assumes "store_step\<^sup>*\<^sup>* s s'" and "store_ok s"
    and "mget (runtimeJobs s) k = Some j" and "job_terminal (jr_State j)"
  shows "\<exists>j'. mget (runtimeJobs s') k = Some j' \<and> jr_State j' = jr_State j"
  using store_jobs.terminal_frozen [of s s' k j] run_ok [OF assms(1,2)] assms(3,4) by blast

theorem job_final_witness:
  "\<exists>s1 j'. store_step ex_store s1
     \<and> mget (runtimeJobs (ExpireNodeLeases (\<lambda>i. ''x'') ''t'' 100 s1)) ''t:j'' = Some j' \<and> jr_State j' = JobRunCancelled"
proof -
  let ?c = "ApplyJobTransition ex_job_cancelled 1 (ex_event ''e9'' ''job.cancelled'')"
  have "\<not> isl (?c ex_store)" by code_simp
  then obtain v where a: "?c ex_store = Inr (run_cmd ?c ex_store, v)" using run_cmd_ok by blast
  note st = store_step.job_transition [OF a]
  have g: "mget (runtimeJobs (run_cmd ?c ex_store)) ''t:j'' = Some ex_job_cancelled"
    "jr_State ex_job_cancelled = JobRunCancelled" by code_simp+
  have "store_step\<^sup>*\<^sup>* (run_cmd ?c ex_store) (ExpireNodeLeases (\<lambda>i. ''x'') ''t'' 100 (run_cmd ?c ex_store))"
    using expire [OF refl] by blast
  from job_final [OF this _ g(1)] step_ok [OF st ex_store_ok] st g(2) show ?thesis by auto
qed

text \<open>
  A version names one state of a node. If a node has the same version before and after any
  sequence of store operations, it has not been touched in between: it is the same row, field by
  field. This is what makes the version checks of the commands sound; there is no way back to an
  earlier version, so a reader cannot be fooled by a node that changed and changed back.
\<close>

theorem node_version_names_state:
  assumes "store_step\<^sup>*\<^sup>* s s'" and "store_ok s"
    and "mget (runtimeNodes s) k = Some n" and "mget (runtimeNodes s') k = Some n'"
    and "nr_Version n' = nr_Version n"
  shows "n' = n"
  using moves_get [OF run_nodes [OF assms(1,2)] assms(3)] assms(4,5) by (auto simp: node_evolves_def)

theorem node_version_names_state_witness:
  "mget (runtimeNodes ex_done) ''t:na'' = Some (ex_noderun ''na'' ''a'' NodeReady)"
proof -
  have n: "mget (runtimeNodes ex_store) ''t:na'' = Some (ex_noderun ''na'' ''a'' NodeReady)" by code_simp
  have "map_option nr_Version (mget (runtimeNodes ex_done) ''t:na'') = Some (nr_Version (ex_noderun ''na'' ''a'' NodeReady))"
    by code_simp
  then obtain n' where n': "mget (runtimeNodes ex_done) ''t:na'' = Some n'"
    "nr_Version n' = nr_Version (ex_noderun ''na'' ''a'' NodeReady)" by auto
  from node_version_names_state [OF r_into_rtranclp [where r = store_step] ex_store_ok n n'] ex_done_step n' show ?thesis by simp
qed

text \<open>
  C4. No update of a job is lost. Once a transition of a job has been accepted against version
  \<open>x\<close>, every other transition prepared against that version is refused, after any further
  operations by any callers.
\<close>

theorem job_no_lost_update:
  assumes "ApplyJobTransition j x e s = Inr (s1, v)" and "store_ok s"
    and "store_step\<^sup>*\<^sup>* s1 s2" and "job_key j' = job_key j"
  shows "\<exists>f. ApplyJobTransition j' x e' s2 = Inl f"
proof -
  have "store_ok s1" using step_ok [OF store_step.job_transition [OF assms(1)] assms(2)] by simp
  from run_ok [OF assms(3) this] show ?thesis using store_jobs.no_lost_update [OF assms(1) _ assms(4)] by blast
qed

theorem job_no_lost_update_witness:
  "\<exists>s1 v f. ApplyJobTransition ex_job_cancelled 1 (ex_event ''e9'' ''job.cancelled'') ex_store = Inr (s1, v)
     \<and> ApplyJobTransition ex_job_waiting 1 (ex_event ''e8'' ''job.paused'') s1 = Inl f"
proof -
  have "\<not> isl (ApplyJobTransition ex_job_cancelled 1 (ex_event ''e9'' ''job.cancelled'') ex_store)" by code_simp
  then obtain s1 v where a: "ApplyJobTransition ex_job_cancelled 1 (ex_event ''e9'' ''job.cancelled'') ex_store = Inr (s1, v)"
    using not_isl_Inr by (metis surj_pair)
  have "job_key ex_job_waiting = job_key ex_job_cancelled" by code_simp
  from job_no_lost_update [OF a ex_store_ok rtranclp.rtrancl_refl this] a show ?thesis by blast
qed

text \<open>
  C2. Stored nodes and jobs are always well-formed. Whatever sequence of operations has led from the empty
  store to \<open>s\<close>, every stored node and job satisfies its \<^verbatim>\<open>Validate\<close> method and sits under its own key.
  In particular a node carries a lease owner, a fence token and an expiry time exactly while it is
  leased or running; the commands that patch nodes in place without validating them (claims,
  heartbeats, expiry, graph patches, fan-out joins) keep this.
\<close>

theorem store_well_formed: "store_step\<^sup>*\<^sup>* New s \<Longrightarrow> store_ok s"
  using run_ok by simp

theorem store_well_formed_witness:
  "store_ok ex_done \<and> map_option nr_State (mget (runtimeNodes ex_done) ''t:nb'') = Some NodeSkipped"
proof
  have "store_step\<^sup>*\<^sup>* New ex_done" using ex_store_step ex_done_step by (simp add: converse_rtranclp_into_rtranclp)
  then show "store_ok ex_done" by (rule store_well_formed)
  show "map_option nr_State (mget (runtimeNodes ex_done) ''t:nb'') = Some NodeSkipped" by code_simp
qed

end
