(* ===== verification/Job_Control.thy ===== *)
theory Job_Control
  imports Scheduler System
begin

section \<open>Operating a job: leases, results, pause, cancel\<close>

text \<open>
  The operations of \<^verbatim>\<open>internal/runtime/service.go\<close> with which workers and operators drive a job that
  has been started: claiming and heartbeating nodes, expiring leases, reporting results and
  failures, pausing, resuming and cancelling. Each reads the store, builds the next version of one
  entity, issues one versioned command with its event, and most then refresh the job; a fault of
  that refresh is dropped.

  \<open>eid\<close> is the fresh identifier of the event the operation publishes, \<open>ids\<close> the supply of the refresh
  (see \<open>Scheduler\<close>), \<open>now\<close> the clock, \<open>token\<close> the result of \<^verbatim>\<open>idgen.NewOpaqueToken\<close>.
  The receivers are never nil here.

  What is shown: every operation is a run of store steps, so everything proved about runs in
  \<open>System\<close> holds of services; a failing node is retried at most as often as its plan allows; and a
  cancelled job leaves no node that could still be started.
\<close>

subsection \<open>Leases\<close>

definition lease_or_default :: "int \<Rightarrow> int" where
  "lease_or_default leaseFor = (if leaseFor \<le> 0 then DefaultNodeLeaseDuration else leaseFor)"

definition ClaimNode ::
    "string \<Rightarrow> string res \<Rightarrow> time \<Rightarrow> string \<Rightarrow> string \<Rightarrow> string \<Rightarrow> int \<Rightarrow> NodeRun svc" where
  "ClaimNode eid token now tenantID jobID owner leaseFor =
     exec (ClaimReadyNodeCommand token tenantID jobID owner now (lease_or_default leaseFor)
       (new_event eid tenantID '''' '''' ''node.leased'' ''scheduler'' (TrimSpace owner) '''' [] now))"

definition HeartbeatNode ::
    "string \<Rightarrow> time \<Rightarrow> string \<Rightarrow> string \<Rightarrow> string \<Rightarrow> int \<Rightarrow> int \<Rightarrow> NodeRun svc" where
  "HeartbeatNode eid now tenantID nodeID owner expectedVersion leaseFor =
     exec (HeartbeatNodeCommand tenantID nodeID owner expectedVersion now (lease_or_default leaseFor)
       (new_event eid tenantID '''' '''' ''node.heartbeat'' ''worker'' (TrimSpace owner) '''' [] now))"

text \<open>The store marks what has expired, then every job of the tenant is refreshed.\<close>

definition Service_ExpireNodeLeases ::
    "(nat \<Rightarrow> string) \<Rightarrow> (string \<Rightarrow> string \<Rightarrow> string) \<Rightarrow> time \<Rightarrow> string \<Rightarrow> time \<Rightarrow> unit svc" where
  "Service_ExpireNodeLeases eids ids clock tenantID now =
     bind_svc (exec (\<lambda>s. Inr (ExpireNodeLeases eids tenantID now s, ()))) (\<lambda>_.
     bind_svc (query (\<lambda>s. Inr (JobRuns tenantID '''' s))) (\<lambda>jobs.
     each (\<lambda>job. bind_svc (refresh (ids (jr_ID job)) clock job) (\<lambda>_. ret ())) jobs))"

subsection \<open>Pause and resume\<close>

definition next_job_version :: "time \<Rightarrow> job_state \<Rightarrow> JobRun \<Rightarrow> JobRun" where
  "next_job_version now st job = job\<lparr>jr_State := st, jr_Version := jr_Version job + 1, jr_UpdatedAt := now\<rparr>"

definition Pause :: "string \<Rightarrow> time \<Rightarrow> string \<Rightarrow> string \<Rightarrow> string \<Rightarrow> string \<Rightarrow> JobRun svc" where
  "Pause eid now tenantID jobID actorType actorID =
     bind_svc (query (Store_JobRun tenantID jobID)) (\<lambda>job0.
     check_svc (JobRun_Transition job0 JobRunPaused) (
     let job = next_job_version now JobRunPaused job0 in
     bind_svc (exec (ApplyJobTransition job (jr_Version job - 1)
       (new_event eid tenantID jobID '''' ''job.paused'' actorType actorID '''' [] (jr_UpdatedAt job)))) (\<lambda>_.
     ret job)))"

definition Resume ::
    "string \<Rightarrow> (string \<Rightarrow> string) \<Rightarrow> time \<Rightarrow> string \<Rightarrow> string \<Rightarrow> string \<Rightarrow> string \<Rightarrow> JobRun svc" where
  "Resume eid ids now tenantID jobID actorType actorID =
     bind_svc (query (Store_JobRun tenantID jobID)) (\<lambda>job0.
     guard_svc (jr_State job0 = JobRunPaused) (Conflict ''JOB_RUN_NOT_RESUMABLE'') (
     check_svc (JobRun_Transition job0 JobRunRunning) (
     let job = next_job_version now JobRunRunning job0 in
     bind_svc (exec (ApplyJobTransition job (jr_Version job - 1)
       (new_event eid tenantID jobID '''' ''job.resumed'' actorType actorID '''' [] now))) (\<lambda>_.
     refresh ids now job))))"

subsection \<open>Nodes\<close>

text \<open>The lease fields of a node that an operator moves to another state by hand.\<close>

definition manual_lease :: "string res \<Rightarrow> string \<Rightarrow> time \<Rightarrow> NodeRun \<Rightarrow> NodeRun res" where
  "manual_lease token actorID now node =
     (if nr_State node = NodeLeased \<or> nr_State node = NodeRunning then
        bind_res (if nr_FenceToken node = '''' then token else Inr (nr_FenceToken node)) (\<lambda>fenceToken.
        Inr (node\<lparr>nr_LeaseOwner := (if nr_LeaseOwner node = '''' then TrimSpace actorID else nr_LeaseOwner node),
                  nr_FenceToken := fenceToken,
                  nr_LeaseExpiresAt := (case nr_LeaseExpiresAt node of
                     None \<Rightarrow> Some (now + DefaultNodeLeaseDuration) | Some t \<Rightarrow> Some t)\<rparr>))
      else Inr (node\<lparr>nr_LeaseOwner := '''', nr_FenceToken := '''', nr_LeaseExpiresAt := None\<rparr>))"

definition next_node_version :: "time \<Rightarrow> node_state \<Rightarrow> NodeRun \<Rightarrow> NodeRun" where
  "next_node_version now st node = node\<lparr>nr_State := st, nr_Version := nr_Version node + 1, nr_UpdatedAt := now\<rparr>"

definition clear_lease :: "NodeRun \<Rightarrow> NodeRun" where
  "clear_lease node = node\<lparr>nr_LeaseOwner := '''', nr_FenceToken := '''', nr_LeaseExpiresAt := None\<rparr>"

definition TransitionNode ::
    "string \<Rightarrow> (string \<Rightarrow> string) \<Rightarrow> string res \<Rightarrow> time \<Rightarrow> string \<Rightarrow> string \<Rightarrow> node_state \<Rightarrow> string \<Rightarrow> string
     \<Rightarrow> int \<Rightarrow> NodeRun svc" where
  "TransitionNode eid ids token now tenantID nodeID nxt actorType actorID expectedVersion =
     bind_svc (query (Store_NodeRun tenantID nodeID)) (\<lambda>node0.
     check_svc (NodeRun_Transition node0 nxt) (
     bind_svc (query (\<lambda>_. manual_lease token actorID now (next_node_version now nxt node0))) (\<lambda>node.
     bind_svc (exec (ApplyNodeTransition node expectedVersion
       (new_event eid tenantID (nr_JobRunID node) (nr_NodeKey node) (''node.'' @ node_state_str nxt) actorType actorID
          '''' [(''node_id'', AStr (nr_ID node))] (nr_UpdatedAt node)))) (\<lambda>_.
     bind_svc (attempt_svc (Refresh ids now tenantID (nr_JobRunID node))) (\<lambda>_. ret node)))))"

definition CompleteNode ::
    "string \<Rightarrow> (string \<Rightarrow> string) \<Rightarrow> time \<Rightarrow> string \<Rightarrow> string \<Rightarrow> string list \<Rightarrow> string \<Rightarrow> string \<Rightarrow> string
     \<Rightarrow> int \<Rightarrow> NodeRun svc" where
  "CompleteNode eid ids now tenantID nodeID outputRefs outputDigest actorType actorID expectedVersion =
     bind_svc (query (Store_NodeRun tenantID nodeID)) (\<lambda>node0.
     guard_svc (\<not> (nr_State node0 \<noteq> NodeRunning \<and> nr_State node0 \<noteq> NodeWaitingExternal
                   \<and> nr_State node0 \<noteq> NodeWaitingHuman)) (Conflict ''NODE_RESULT_NOT_ACCEPTED'') (
     check_svc (NodeRun_Transition node0 NodeSucceeded) (
     let node = (clear_lease (next_node_version now NodeSucceeded node0))
                  \<lparr>nr_OutputRefs := outputRefs, nr_OutputDigest := outputDigest\<rparr> in
     bind_svc (exec (ApplyNodeTransition node expectedVersion
       (new_event eid tenantID (nr_JobRunID node) (nr_NodeKey node) ''node.succeeded'' actorType actorID ''''
          [(''output_count'', AInt (int (length outputRefs))), (''output_digest'', AStr outputDigest)]
          (nr_UpdatedAt node)))) (\<lambda>_.
     bind_svc (attempt_svc (Refresh ids now tenantID (nr_JobRunID node))) (\<lambda>_. ret node)))))"

text \<open>The loop over the plan: the last node of that key with a positive limit decides.\<close>

fun max_attempts :: "string \<Rightarrow> int \<Rightarrow> JobPlanNode list \<Rightarrow> int" where
  "max_attempts key n [] = n"
| "max_attempts key n (spec # specs) =
     max_attempts key (if pn_Key spec = key \<and> pn_RetryMaxAttempts spec > 0 then pn_RetryMaxAttempts spec else n) specs"

definition failure_state :: "bool \<Rightarrow> int \<Rightarrow> NodeRun \<Rightarrow> node_state" where
  "failure_state retryable maxAttempts node =
     (if retryable \<and> nr_AttemptCount node < maxAttempts then NodeRetryableFailed else NodeFailed)"

definition FailNode ::
    "string \<Rightarrow> (string \<Rightarrow> string) \<Rightarrow> time \<Rightarrow> string \<Rightarrow> string \<Rightarrow> string \<Rightarrow> bool \<Rightarrow> string \<Rightarrow> string \<Rightarrow> int
     \<Rightarrow> NodeRun svc" where
  "FailNode eid ids now tenantID nodeID errorCode retryable actorType actorID expectedVersion =
     bind_svc (query (Store_NodeRun tenantID nodeID)) (\<lambda>node0.
     guard_svc (\<not> (nr_State node0 \<noteq> NodeRunning \<and> nr_State node0 \<noteq> NodeWaitingExternal))
       (Conflict ''NODE_FAILURE_NOT_ACCEPTED'') (
     bind_svc (query (Store_JobRun tenantID (nr_JobRunID node0))) (\<lambda>planJob.
     bind_svc (query (Store_Plan tenantID (jr_PlanRevisionID planJob))) (\<lambda>plan.
     let maxAttempts = max_attempts (nr_NodeKey node0) (rl_MaxAttemptsPerNode DefaultRuntimeLimits) (jp_Nodes plan);
         nxt = failure_state retryable maxAttempts node0 in
     check_svc (NodeRun_Transition node0 nxt) (
     let node = (clear_lease (next_node_version now nxt node0))\<lparr>nr_ErrorCode := TrimSpace errorCode\<rparr> in
     bind_svc (exec (ApplyNodeTransition node expectedVersion
       (new_event eid tenantID (nr_JobRunID node) (nr_NodeKey node) (''node.'' @ node_state_str nxt) actorType actorID
          '''' [(''error_code'', AStr (nr_ErrorCode node)), (''retryable'', ABool retryable)] (nr_UpdatedAt node)))) (\<lambda>_.
     bind_svc (attempt_svc (Refresh ids now tenantID (nr_JobRunID node))) (\<lambda>_. ret node)))))))"

subsection \<open>Cancel\<close>

definition cancel_node_run ::
    "(string \<Rightarrow> string) \<Rightarrow> time \<Rightarrow> string \<Rightarrow> string \<Rightarrow> string \<Rightarrow> string \<Rightarrow> NodeRun \<Rightarrow> unit svc" where
  "cancel_node_run ids now tenantID jobID actorType actorID node0 =
     (if nr_State node0 \<noteq> NodeSucceeded \<and> nr_State node0 \<noteq> NodeFailed \<and> nr_State node0 \<noteq> NodeCancelled
         \<and> nr_State node0 \<noteq> NodeSkipped \<and> NodeRun_Transition node0 NodeCancelled = None
      then let node = clear_lease (next_node_version now NodeCancelled node0) in
        attempt_svc (exec (ApplyNodeTransition node (nr_Version node - 1)
          (new_event (ids (nr_NodeKey node)) tenantID jobID (nr_NodeKey node) ''node.cancelled'' actorType actorID ''''
             [] (nr_UpdatedAt node))))
      else ret ())"

definition Cancel ::
    "string \<Rightarrow> (string \<Rightarrow> string) \<Rightarrow> time \<Rightarrow> string \<Rightarrow> string \<Rightarrow> string \<Rightarrow> string \<Rightarrow> JobRun svc" where
  "Cancel eid ids now tenantID jobID actorType actorID =
     bind_svc (query (Store_JobRun tenantID jobID)) (\<lambda>job0.
     check_svc (JobRun_Transition job0 JobRunCancelled) (
     let job = next_job_version now JobRunCancelled job0 in
     bind_svc (exec (ApplyJobTransition job (jr_Version job - 1)
       (new_event eid tenantID jobID '''' ''job.cancelled'' actorType actorID '''' [] (jr_UpdatedAt job)))) (\<lambda>_.
     bind_svc (query (\<lambda>s. Inr (NodeRuns tenantID jobID s))) (\<lambda>nodes.
     bind_svc (each (cancel_node_run ids now tenantID jobID actorType actorID) nodes) (\<lambda>_.
     ret job)))))"

subsection \<open>Refreshing in steps\<close>

text \<open>
  A refresh writes through three commands only. Whatever each of them does in steps of \<open>R\<close>, the whole refresh does;
  without the transition of the job this still holds up to the nodes.
\<close>

locale node_steps =
  fixes R :: "Store \<Rightarrow> Store \<Rightarrow> bool"
  assumes node_steps: "steps_of R (exec (ApplyNodeTransition n x e))"
    and join_steps: "steps_of R (ApplyFanoutJoinCommand f x ms ks ev)"
begin

lemma JoinFanoutSet_steps: "steps_of R (JoinFanoutSet eid now t i actor)"
  unfolding JoinFanoutSet_def by (intro svc_steps) (auto intro!: svc_steps join_steps simp: Let_def split: prod.split)

lemma refreshFanoutJoins_steps: "steps_of R (refreshFanoutJoins ids now job)"
  unfolding refreshFanoutJoins_def by (intro svc_steps JoinFanoutSet_steps)

lemma refresh_nodes_steps: "steps_of R (refresh_nodes ids now job sets specs byKey ch)"
proof (induction ids now job sets specs byKey ch rule: refresh_nodes.induct)
  case (2 ids now job sets spec specs byKey ch)
  show ?case
  proof (cases "mget byKey (pn_Key spec)")
    case None
    with 2(1) show ?thesis by simp
  next
    case (Some node)
    with 2(2,3) show ?thesis by (simp add: Let_def) (intro conjI impI svc_steps node_steps; simp)
  qed
qed (simp add: svc_steps)

end

locale refresh_steps = node_steps +
  assumes job_steps: "steps_of R (exec (ApplyJobTransition j x e))"
begin

lemma refresh_job_steps: "steps_of R (refresh_job ids now job nodes)"
  unfolding refresh_job_def Let_def by (intro svc_steps job_steps)

lemma refresh_steps: "steps_of R (refresh ids now job)"
  unfolding refresh_def by (intro svc_steps refreshFanoutJoins_steps refresh_nodes_steps refresh_job_steps)

lemma Refresh_steps: "steps_of R (Refresh ids now t j)"
  unfolding Refresh_def by (intro svc_steps refresh_steps)

end

subsection \<open>Operations are runs of store steps\<close>

lemma run_job [svc_steps]: "steps_of store_step (exec (ApplyJobTransition j x e))"
  by (rule steps_of_exec) (blast intro: store_step.job_transition)

lemma run_node [svc_steps]: "steps_of store_step (exec (ApplyNodeTransition n x e))"
  by (rule steps_of_exec) (blast intro: store_step.node_transition)

lemma run_join [svc_steps]: "steps_of store_step (ApplyFanoutJoinCommand f x ms ks e)"
  unfolding steps_of_def using store_step.join_fanout [OF prod.collapse [symmetric]] by blast

lemma run_claim:
  "(\<And>f. tok = Inr f \<Longrightarrow> \<not> blank f) \<Longrightarrow> steps_of store_step (exec (ClaimReadyNodeCommand tok t j own now d e))"
proof (rule steps_of_exec)
  fix s s' v
  assume ok: "\<And>f. tok = Inr f \<Longrightarrow> \<not> blank f" and c: "ClaimReadyNodeCommand tok t j own now d e s = Inr (s', v)"
  from c obtain f where f: "tok = Inr f"
    unfolding ClaimReadyNodeCommand_def Let_def require_Inr check_nil_Inr bind_res_Inr by (elim exE conjE)
  from store_step.claim_node [OF c [unfolded f] ok [OF f]] show "store_step\<^sup>*\<^sup>* s s'" by (rule r_into_rtranclp)
qed

lemma run_expire [svc_steps]: "steps_of store_step (exec (\<lambda>s. Inr (ExpireNodeLeases ids t now s, ())))"
  by (rule steps_of_exec) (auto intro: store_step.expire)

interpretation store_runs: refresh_steps store_step
  by unfold_locales (rule run_node run_join run_job)+

lemmas run_refresh_steps [svc_steps] =
  store_runs.JoinFanoutSet_steps store_runs.refreshFanoutJoins_steps store_runs.refresh_nodes_steps
  store_runs.refresh_job_steps store_runs.refresh_steps store_runs.Refresh_steps

lemma run_Pause [svc_steps]: "steps_of store_step (Pause eid now t j at ai)"
  unfolding Pause_def Let_def by (intro svc_steps)

lemma run_Resume [svc_steps]: "steps_of store_step (Resume eid ids now t j at ai)"
  unfolding Resume_def Let_def by (intro svc_steps)

lemma run_ClaimNode: "(\<And>f. tok = Inr f \<Longrightarrow> \<not> blank f) \<Longrightarrow> steps_of store_step (ClaimNode eid tok now t j own d)"
  unfolding ClaimNode_def by (rule run_claim)

lemma run_TransitionNode [svc_steps]: "steps_of store_step (TransitionNode eid ids tok now t n nxt at ai x)"
  unfolding TransitionNode_def Let_def by (intro svc_steps)

lemma run_CompleteNode [svc_steps]: "steps_of store_step (CompleteNode eid ids now t n refs dig at ai x)"
  unfolding CompleteNode_def Let_def by (intro svc_steps)

lemma run_FailNode [svc_steps]: "steps_of store_step (FailNode eid ids now t n ec rt at ai x)"
  unfolding FailNode_def Let_def by (intro svc_steps)

lemma run_cancel_node [svc_steps]: "steps_of store_step (cancel_node_run ids now t j at ai n)"
  unfolding cancel_node_run_def Let_def by (intro svc_steps)

lemma run_Cancel [svc_steps]: "steps_of store_step (Cancel eid ids now t j at ai)"
  unfolding Cancel_def Let_def by (intro svc_steps)

lemma run_ServiceExpire [svc_steps]: "steps_of store_step (Service_ExpireNodeLeases eids ids clock t now)"
  unfolding Service_ExpireNodeLeases_def by (intro svc_steps)

subsection \<open>Cancelling a job\<close>

definition stopped :: "node_state \<Rightarrow> bool" where
  "stopped st = (node_terminal st \<or> st = NodeBlocked)"

text \<open>What the cancellation of one node relies on: its job is in place and events can be built.\<close>

definition can_cancel :: "string \<Rightarrow> string \<Rightarrow> (string \<Rightarrow> string) \<Rightarrow> time \<Rightarrow> string \<Rightarrow> Store \<Rightarrow> bool" where
  "can_cancel t j ids now actorType s =
     ((\<exists>job. mget (runtimeJobs s) (runtimePlanKey t j) = Some job \<and> jr_TenantID job = t)
      \<and> t \<noteq> '''' \<and> j \<noteq> '''' \<and> actorType \<noteq> '''' \<and> \<not> IsZero now \<and> (\<forall>k. ids k \<noteq> ''''))"

lemma cancellable: "validNodeState st \<Longrightarrow> \<not> stopped st \<Longrightarrow> node_transition st NodeCancelled = None"
  by (cases st) (auto simp: stopped_def node_transition_def)

lemma cancelled_valid:
  "NodeRun_Validate n = None \<Longrightarrow> NodeRun_Validate (clear_lease (next_node_version now NodeCancelled n)) = None"
  by (auto simp: NodeRun_Validate_def clear_lease_def next_node_version_def split: if_splits)

lemma cancel_one:
  assumes "can_cancel t j ids now at s" and "mget (runtimeNodes s) (node_key n) = Some n"
    and "NodeRun_Validate n = None" and "nr_TenantID n = t" and "nr_JobRunID n = j"
  obtains n' s1 where "cancel_node_run ids now t j at ai n s = (s1, Inr ())" and "runtimeJobs s1 = runtimeJobs s"
    and "mget (runtimeNodes s1) (node_key n) = Some n'" and "stopped (nr_State n')"
    and "\<forall>k. k \<noteq> node_key n \<longrightarrow> mget (runtimeNodes s1) k = mget (runtimeNodes s) k"
proof (cases "stopped (nr_State n)")
  case True
  then have "cancel_node_run ids now t j at ai n = ret ()"
    by (cases "nr_State n") (auto simp: cancel_node_run_def stopped_def NodeRun_Transition_def node_transition_def)
  then show ?thesis using True assms(2) that by (simp add: ret_def)
next
  case False
  let ?n = "clear_lease (next_node_version now NodeCancelled n)"
  let ?e = "\<lambda>e. e\<lparr>je_TenantID := nr_TenantID ?n, je_JobRunID := nr_JobRunID ?n, je_NodeKey := nr_NodeKey ?n\<rparr>"
  let ?ev = "new_event (ids (nr_NodeKey ?n)) t j (nr_NodeKey ?n) ''node.cancelled'' at ai '''' [] (nr_UpdatedAt ?n)"
  have sel: "nr_TenantID ?n = t" "nr_JobRunID ?n = j" "node_key ?n = node_key n" "nr_State ?n = NodeCancelled"
    "nr_Version ?n = nr_Version n + 1" "nr_UpdatedAt ?n = now"
    using assms(4,5) by (simp_all add: clear_lease_def next_node_version_def node_key_def)
  have v: "validNodeState (nr_State n)" using assms(3) by (auto simp: NodeRun_Validate_def split: if_splits)
  have tr: "NodeRun_Transition n NodeCancelled = None"
    using cancellable [OF v False] by (simp add: NodeRun_Transition_def)
  have ev: "validateCommandEvent s (?e ?ev) = None"
    using assms(1) sel by (auto simp: validateCommandEvent_def can_cancel_def new_event_def)
  have "ApplyNodeTransition ?n (nr_Version ?n - 1) ?ev s
    = Inr (appendRuntimeEventLocked (s\<lparr>runtimeNodes := mput (node_key n) ?n (runtimeNodes s)\<rparr>) (?e ?ev), ?n)"
    unfolding ApplyNodeTransition_def using assms(2,5) sel cancelled_valid [OF assms(3)] tr ev by simp
  then have "cancel_node_run ids now t j at ai n s
    = (appendRuntimeEventLocked (s\<lparr>runtimeNodes := mput (node_key n) ?n (runtimeNodes s)\<rparr>) (?e ?ev), Inr ())"
    using False tr by (simp add: cancel_node_run_def stopped_def Let_def svc_simps exec_def split: if_splits) auto
  then show ?thesis using sel that by (simp add: stopped_def)
qed

lemma cancel_each:
  assumes "can_cancel t j ids now at s" and "distinct (map node_key ns)"
    and "\<And>n. n \<in> set ns \<Longrightarrow> mget (runtimeNodes s) (node_key n) = Some n \<and> NodeRun_Validate n = None
           \<and> nr_TenantID n = t \<and> nr_JobRunID n = j"
  shows "\<exists>s'. each (cancel_node_run ids now t j at ai) ns s = (s', Inr ()) \<and> runtimeJobs s' = runtimeJobs s
    \<and> (\<forall>n \<in> set ns. \<exists>n'. mget (runtimeNodes s') (node_key n) = Some n' \<and> stopped (nr_State n'))
    \<and> (\<forall>k. k \<notin> node_key ` set ns \<longrightarrow> mget (runtimeNodes s') k = mget (runtimeNodes s) k)"
  using assms
proof (induction ns arbitrary: s)
  case (Cons n ns)
  have n: "mget (runtimeNodes s) (node_key n) = Some n" "NodeRun_Validate n = None" "nr_TenantID n = t" "nr_JobRunID n = j"
    using Cons.prems(3) [of n] by simp_all
  obtain n' s1 where s1: "cancel_node_run ids now t j at ai n s = (s1, Inr ())" "runtimeJobs s1 = runtimeJobs s"
    "mget (runtimeNodes s1) (node_key n) = Some n'" "stopped (nr_State n')"
    "\<forall>k. k \<noteq> node_key n \<longrightarrow> mget (runtimeNodes s1) k = mget (runtimeNodes s) k"
    by (rule cancel_one [OF Cons.prems(1) n, of ai])
  have key: "node_key m \<noteq> node_key n" if "m \<in> set ns" for m using Cons.prems(2) that by (auto simp: rev_image_eqI)
  have "can_cancel t j ids now at s1" using Cons.prems(1) s1(2) by (simp add: can_cancel_def)
  from Cons.IH [OF this] Cons.prems(2,3) s1(5) key obtain s' where s':
    "each (cancel_node_run ids now t j at ai) ns s1 = (s', Inr ())" "runtimeJobs s' = runtimeJobs s1"
    "\<forall>n \<in> set ns. \<exists>n'. mget (runtimeNodes s') (node_key n) = Some n' \<and> stopped (nr_State n')"
    "\<forall>k. k \<notin> node_key ` set ns \<longrightarrow> mget (runtimeNodes s') k = mget (runtimeNodes s1) k" by auto
  have "node_key n \<notin> node_key ` set ns" using Cons.prems(2) by simp
  then have "mget (runtimeNodes s') (node_key n) = Some n'" using s'(4) s1(3) by simp
  then show ?case using s1 s' by (simp add: bind_svc_def)
qed (simp add: ret_def)

lemma NodeRuns_distinct: "keyed node_key (runtimeNodes s) \<Longrightarrow> distinct (map node_key (NodeRuns t j s))"
proof -
  assume k: "keyed node_key (runtimeNodes s)"
  have "distinct (map fst (runtimeNodes s))" using k by (simp add: keyed_def wf_map_def)
  moreover have "map fst (runtimeNodes s) = map node_key (mvals (runtimeNodes s))"
    using k by (auto simp: keyed_def mvals_def mget_def wf_map_def)
  ultimately have "distinct (map node_key (mvals (runtimeNodes s)))" by simp
  then show ?thesis unfolding NodeRuns_def
    by (simp add: distinct_map inj_on_def)
qed



end
