(* ===== verification/Compiler.thy ===== *)
theory Compiler
  imports Graph_Patch
begin

section \<open>The plan compiler\<close>

text \<open>
  \<^verbatim>\<open>internal/runtime/compiler.go\<close> turns a published SOP (\<^verbatim>\<open>internal/catalog/work_catalog_model.go\<close>: stages,
  each with the gates that review it) into the plan a job runs. Every stage and every gate a stage names
  becomes a node; a stage waits for the exits of the stages whose output it reads, a gate for its stage.

  The hash of \<^verbatim>\<open>stablehash.Sum\<close> over the plan body is the parameter \<open>hash\<close>, applied to the JSON tree of the
  body; \<open>newID\<close> is the identifier of the new plan. A slice that is nil prints as \<^verbatim>\<open>null\<close>: the two lists a
  gate node leaves out.

  What is shown: the edges of a compiled plan are its dependencies (the scheduler reads the dependencies,
  the validation the edges, so only their agreement makes the acyclicity check mean anything), and a
  compiled plan never deadlocks.
\<close>

subsection \<open>SOP versions (internal/catalog)\<close>

record StageObjectRequirement =
  so_OutputType :: string
  so_Role :: string
  so_MinStatus :: string
  so_MinCount :: int

record StageRetryPolicy =
  srp_MaxAttempts :: int
  srp_BackoffSeconds :: int
  srp_AllowPartialRetry :: bool
  srp_RetryableErrorCode :: "string list"

record StageCostPolicy =
  scp_Currency :: string
  scp_MaxEstimatedCostMinor :: int
  scp_RequireApprovalAboveMinor :: int
  scp_EstimateTTLSeconds :: int

record StageDefinition =
  sg_ID :: string
  sg_Name :: string
  sg_Order :: int
  sg_OwnerRoles :: "string list"
  sg_InputRefs :: "string list"
  sg_OutputSchema :: string
  sg_RequiredCapabilities :: "string list"
  sg_AllowedExecutorKinds :: "string list"
  sg_ExecutionModes :: "string list"
  sg_Checks :: "string list"
  sg_GateIDs :: "string list"
  sg_RetryMaxAttempts :: int
  sg_AcceptedInputTypes :: "StageObjectRequirement list"
  sg_RequiredOutputTypes :: "StageObjectRequirement list"
  sg_OutputSchemaRefs :: "string list"
  sg_CompletionPolicy :: string
  sg_ExecutorPolicy :: string
  sg_RetryPolicy :: StageRetryPolicy
  sg_CostPolicy :: StageCostPolicy

record GateDefinition =
  gd_ID :: string
  gd_Name :: string
  gd_Mode :: string
  gd_Blocking :: bool
  gd_AssigneeRoles :: "string list"
  gd_InputRefs :: "string list"
  gd_Checks :: "string list"
  gd_OnReject :: string
  gd_EscalationHours :: int

record SOPVersion =
  sv_ID :: string
  sv_TenantID :: string
  sv_SOPID :: string
  sv_Version :: int
  sv_SchemaVersion :: string
  sv_Name :: string
  sv_Description :: string
  sv_ContentTypes :: "string list"
  sv_Stages :: "StageDefinition list"
  sv_Gates :: "GateDefinition list"
  sv_DefaultExecutionMode :: string
  sv_Digest :: string
  sv_Status :: string
  sv_CreatedBy :: string
  sv_PublishedBy :: string
  sv_CreatedAt :: time
  sv_PublishedAt :: "time option"

definition SOPSchemaVersion :: string where
  "SOPSchemaVersion = ''contentcloud.sop/1.0''"

definition validStageOutputTypes :: "string list" where
  "validStageOutputTypes =
     [''source_revision'', ''evidence_set'', ''knowledge_object'', ''knowledge_snapshot'', ''submission_revision'',
      ''approved_snapshot'', ''storyboard_package'', ''artifact'', ''generation_job'', ''media_review'',
      ''delivery_package'']"

definition requirement_check :: "StageObjectRequirement \<Rightarrow> fault option" where
  "requirement_check r =
     (if so_OutputType r \<notin> set validStageOutputTypes \<or> so_MinCount r < 0
      then Some (Invalid ''SOP_STAGE_OBJECT_REQUIREMENT_INVALID'') else None)"

fun validate_stages :: "string list \<Rightarrow> int \<Rightarrow> StageDefinition list \<Rightarrow> fault option" where
  "validate_stages seen lastOrder [] = None"
| "validate_stages seen lastOrder (stage # stages) =
     (if sg_ID stage = '''' \<or> sg_Name stage = '''' \<or> sg_Order stage < 0 \<or> sg_ID stage \<in> set seen
         \<or> sg_OutputSchema stage = ''''
      then Some (Invalid ''SOP_STAGE_INVALID'')
      else if sg_Order stage \<le> lastOrder then Some (Invalid ''SOP_STAGE_ORDER_INVALID'')
      else if sg_CompletionPolicy stage \<notin> {'''', ''all_required'', ''at_least_one'', ''control_only''}
      then Some (Invalid ''SOP_STAGE_COMPLETION_POLICY_INVALID'')
      else case check_all requirement_check (sg_AcceptedInputTypes stage @ sg_RequiredOutputTypes stage) of
        Some e \<Rightarrow> Some e
      | None \<Rightarrow> validate_stages (sg_ID stage # seen) (sg_Order stage) stages)"

fun validate_gates :: "string list \<Rightarrow> GateDefinition list \<Rightarrow> fault option" where
  "validate_gates seen [] = None"
| "validate_gates seen (gate # gates) =
     (if gd_ID gate = '''' \<or> gd_Name gate = '''' \<or> gd_ID gate \<in> set seen then Some (Invalid ''SOP_GATE_INVALID'')
      else if gd_Mode gate \<notin> {''none'', ''advisory'', ''required_check'', ''internal_review'', ''client_decision''}
      then Some (Invalid ''SOP_GATE_MODE_INVALID'')
      else validate_gates (gd_ID gate # seen) gates)"

definition gate_refs_check :: "string list \<Rightarrow> StageDefinition \<Rightarrow> fault option" where
  "gate_refs_check known stage =
     check_all (\<lambda>g. if g \<notin> set known then Some (Invalid ''SOP_GATE_REFERENCE_INVALID'') else None) (sg_GateIDs stage)"

definition SOPVersion_Validate :: "SOPVersion \<Rightarrow> fault option" where
  "SOPVersion_Validate v =
     (if sv_SOPID v = '''' \<or> sv_Version v < 1 \<or> blank (sv_Name v) then Some (Invalid ''SOP_VERSION_INVALID'')
      else if sv_SchemaVersion v \<noteq> '''' \<and> sv_SchemaVersion v \<noteq> SOPSchemaVersion
      then Some (Invalid ''SOP_SCHEMA_UNSUPPORTED'')
      else if sv_Digest v \<noteq> '''' \<and> \<not> validSHA256Digest (sv_Digest v) then Some (Invalid ''SOP_DIGEST_INVALID'')
      else case validate_stages [] (-1) (sv_Stages v) of Some e \<Rightarrow> Some e | None \<Rightarrow>
        (case validate_gates [] (sv_Gates v) of Some e \<Rightarrow> Some e | None \<Rightarrow>
          check_all (gate_refs_check (map gd_ID (sv_Gates v))) (sv_Stages v)))"

subsection \<open>Compilation (compiler.go)\<close>

definition effective_limits :: "RuntimeLimits \<Rightarrow> RuntimeLimits" where
  "effective_limits l = (if rl_MaxNodes l = 0 then DefaultRuntimeLimits else l)"

definition findGate :: "GateDefinition list \<Rightarrow> string \<Rightarrow> GateDefinition option" where
  "findGate gates i = find (\<lambda>g. gd_ID g = i) gates"

definition stage_key :: "StageDefinition \<Rightarrow> string" where
  "stage_key stage = ''stage:'' @ sg_ID stage"

text \<open>A stage with gates is left through the last of them.\<close>

definition stage_exit :: "StageDefinition \<Rightarrow> string" where
  "stage_exit stage = (if sg_GateIDs stage \<noteq> [] then ''gate:'' @ last (sg_GateIDs stage) else stage_key stage)"

fun stage_exits :: "StageDefinition list \<Rightarrow> string gomap \<Rightarrow> string gomap" where
  "stage_exits [] m = m"
| "stage_exits (stage # stages) m = stage_exits stages (mput (sg_ID stage) (stage_exit stage) m)"

definition stage_depends :: "string gomap \<Rightarrow> StageDefinition \<Rightarrow> string list" where
  "stage_depends exits stage = sort (List.map_filter (mget exits) (sg_InputRefs stage))"

definition stage_node :: "string gomap \<Rightarrow> RuntimeLimits \<Rightarrow> StageDefinition \<Rightarrow> JobPlanNode" where
  "stage_node exits limits stage =
     \<lparr>pn_Key = stage_key stage, pn_Kind = ''stage'', pn_StageID = sg_ID stage, pn_GateID = '''',
      pn_Name = sg_Name stage, pn_DependsOn = stage_depends exits stage, pn_InputRefs = sg_InputRefs stage,
      pn_OutputSchema = sg_OutputSchema stage, pn_RequiredCapabilities = sg_RequiredCapabilities stage,
      pn_ExecutionModes = sg_ExecutionModes stage, pn_CustomerStepID = sg_ID stage,
      pn_SideEffectClass = ''business_candidate'',
      pn_RetryMaxAttempts = (if sg_RetryMaxAttempts stage < 1 then rl_MaxAttemptsPerNode limits
                             else sg_RetryMaxAttempts stage)\<rparr>"

definition gate_node :: "StageDefinition \<Rightarrow> GateDefinition \<Rightarrow> JobPlanNode" where
  "gate_node stage gate =
     \<lparr>pn_Key = ''gate:'' @ gd_ID gate, pn_Kind = ''gate'', pn_StageID = '''', pn_GateID = gd_ID gate,
      pn_Name = gd_Name gate, pn_DependsOn = [stage_key stage], pn_InputRefs = gd_InputRefs gate,
      pn_OutputSchema = ''contentcloud.gate-decision/1.0'', pn_RequiredCapabilities = [], pn_ExecutionModes = [],
      pn_CustomerStepID = sg_ID stage, pn_SideEffectClass = ''human_decision'', pn_RetryMaxAttempts = 1\<rparr>"

fun compile_gates :: "GateDefinition list \<Rightarrow> StageDefinition \<Rightarrow> string list \<Rightarrow> JobPlanNode list res" where
  "compile_gates gates stage [] = Inr []"
| "compile_gates gates stage (gateID # rest) =
     (case findGate gates gateID of
        None \<Rightarrow> Inl (Invalid ''JOB_PLAN_GATE_NOT_FOUND'')
      | Some gate \<Rightarrow> bind_res (compile_gates gates stage rest) (\<lambda>ns. Inr (gate_node stage gate # ns)))"

type_synonym plan_body = "JobPlanNode list \<times> JobPlanEdge list \<times> JobPlanCustomerStep list"

fun compile_stages ::
    "string gomap \<Rightarrow> GateDefinition list \<Rightarrow> RuntimeLimits \<Rightarrow> StageDefinition list \<Rightarrow> plan_body res" where
  "compile_stages exits gates limits [] = Inr ([], [], [])"
| "compile_stages exits gates limits (stage # stages) =
     (let node = stage_node exits limits stage in
      bind_res (compile_gates gates stage (sg_GateIDs stage)) (\<lambda>gns.
      bind_res (compile_stages exits gates limits stages) (\<lambda>(nodes, edges, steps).
      Inr (node # gns @ nodes,
           map (\<lambda>dep. \<lparr>pe_From = dep, pe_To = pn_Key node\<rparr>) (pn_DependsOn node)
             @ map (\<lambda>g. \<lparr>pe_From = pn_Key node, pe_To = pn_Key g\<rparr>) gns @ edges,
           \<lparr>ps_ID = sg_ID stage, ps_Title = sg_Name stage, ps_NodeKeys = pn_Key node # map pn_Key gns\<rparr> # steps))))"

definition json_compiled_node :: "JobPlanNode \<Rightarrow> goany" where
  "json_compiled_node n =
     (let strs = (\<lambda>xs. if pn_Kind n = ''gate'' then ANull else AStrs xs) in AObj (
     [(''key'', AStr (pn_Key n)), (''kind'', AStr (pn_Kind n))]
     @ omit_empty ''stage_id'' (pn_StageID n) @ omit_empty ''gate_id'' (pn_GateID n)
     @ [(''name'', AStr (pn_Name n)), (''depends_on'', AStrs (pn_DependsOn n)),
        (''input_refs'', AStrs (pn_InputRefs n)), (''output_schema'', AStr (pn_OutputSchema n)),
        (''required_capabilities'', strs (pn_RequiredCapabilities n)),
        (''execution_modes'', strs (pn_ExecutionModes n))]
     @ omit_empty ''customer_step_id'' (pn_CustomerStepID n)
     @ [(''side_effect_class'', AStr (pn_SideEffectClass n)),
        (''retry_max_attempts'', AInt (pn_RetryMaxAttempts n))]))"

definition json_step :: "JobPlanCustomerStep \<Rightarrow> goany" where
  "json_step st = AObj [(''id'', AStr (ps_ID st)), (''title'', AStr (ps_Title st)), (''node_keys'', AStrs (ps_NodeKeys st))]"

definition json_limits :: "RuntimeLimits \<Rightarrow> goany" where
  "json_limits l = AObj
     [(''max_nodes'', AInt (rl_MaxNodes l)), (''max_depth'', AInt (rl_MaxDepth l)),
      (''max_dynamic_descendants'', AInt (rl_MaxDynamicDescendants l)),
      (''max_concurrent_nodes'', AInt (rl_MaxConcurrentNodes l)),
      (''max_attempts_per_node'', AInt (rl_MaxAttemptsPerNode l)), (''max_cost_minor'', AInt (rl_MaxCostMinor l))]"

definition plan_body_json :: "SOPVersion \<Rightarrow> plan_body \<Rightarrow> RuntimeLimits \<Rightarrow> goany" where
  "plan_body_json sop body limits =
     (case body of (nodes, edges, steps) \<Rightarrow> AObj
       [(''Schema'', AStr JobPlanSchema), (''SOPID'', AStr (sv_SOPID sop)), (''Version'', AInt (sv_Version sop)),
        (''Digest'', AStr (sv_Digest sop)), (''Nodes'', AArr (map json_compiled_node nodes)),
        (''Edges'', AArr (map json_edge edges)), (''Steps'', AArr (map json_step steps)),
        (''Limits'', json_limits limits)])"

definition compiled_plan ::
    "(goany \<Rightarrow> string) \<Rightarrow> string \<Rightarrow> SOPVersion \<Rightarrow> string \<Rightarrow> string \<Rightarrow> time \<Rightarrow> RuntimeLimits \<Rightarrow> plan_body
     \<Rightarrow> JobPlanRevision" where
  "compiled_plan hash newID sop tenantID compiledBy now limits body =
     (case body of (nodes, edges, steps) \<Rightarrow>
     \<lparr>jp_ID = newID, jp_TenantID = tenantID, jp_BaseRevisionID = '''', jp_GraphVersion = 1, jp_PatchKey = '''',
      jp_PatchReason = '''', jp_SOPID = sv_SOPID sop, jp_SOPVersion = sv_Version sop, jp_SOPDigest = sv_Digest sop,
      jp_SchemaVersion = JobPlanSchema, jp_Digest = ''sha256:'' @ hash (plan_body_json sop body limits),
      jp_Nodes = nodes, jp_Edges = edges, jp_CustomerSteps = steps, jp_Limits = limits, jp_CompiledAt = now,
      jp_CompiledBy = compiledBy\<rparr>)"

definition sorted_stages :: "SOPVersion \<Rightarrow> StageDefinition list" where
  "sorted_stages sop = sort_by (\<lambda>a b. sg_Order a < sg_Order b) (sv_Stages sop)"

definition CompileSOP ::
    "(goany \<Rightarrow> string) \<Rightarrow> string \<Rightarrow> RuntimeLimits \<Rightarrow> SOPVersion \<Rightarrow> string \<Rightarrow> string \<Rightarrow> time \<Rightarrow> JobPlanRevision res" where
  "CompileSOP hash newID limits0 sop tenantID compiledBy now =
     require (sv_Status sop = ''published'') (Policy ''JOB_PLAN_SOP_NOT_PUBLISHED'') (
     check_nil (SOPVersion_Validate sop) (
     let limits = effective_limits limits0; stages = sorted_stages sop in
     bind_res (compile_stages (stage_exits stages []) (sv_Gates sop) limits stages) (\<lambda>body.
     let plan = compiled_plan hash newID sop tenantID compiledBy now limits body in
     check_nil (JobPlanRevision_Validate plan) (Inr plan))))"

subsection \<open>Stages keep their order\<close>

lemma validate_stages_sorted:
  "validate_stages seen n stages = None \<Longrightarrow>
   sorted_wrt (\<lambda>a b. sg_Order a < sg_Order b) stages \<and> (\<forall>st \<in> set stages. n < sg_Order st)
   \<and> distinct (map sg_ID stages) \<and> sg_ID ` set stages \<inter> set seen = {}"
  by (induction seen n stages rule: validate_stages.induct) (fastforce split: if_splits option.splits)+

lemma valid_stages:
  assumes "SOPVersion_Validate sop = None"
  shows "sorted_stages sop = sv_Stages sop" and "distinct (map sg_ID (sv_Stages sop))"
proof -
  have "validate_stages [] (-1) (sv_Stages sop) = None"
    using assms unfolding SOPVersion_Validate_def validate_simps by blast
  from validate_stages_sorted [OF this] show "sorted_stages sop = sv_Stages sop" "distinct (map sg_ID (sv_Stages sop))"
    by (auto simp: sorted_stages_def not_less less_imp_le intro!: sort_by_id elim: sorted_wrt_mono_rel [rotated])
qed

lemma stage_exits_get:
  "distinct (map sg_ID stages) \<Longrightarrow>
   mget (stage_exits stages m) i =
     (case find (\<lambda>st. sg_ID st = i) stages of Some st \<Rightarrow> Some (stage_exit st) | None \<Rightarrow> mget m i)"
proof (induction stages arbitrary: m)
  case (Cons st stages)
  then have "find (\<lambda>x. sg_ID x = i) stages = None" if "sg_ID st = i"
    using that by (auto simp: find_None_iff rev_image_eqI)
  with Cons show ?case by (auto split: option.split)
qed simp

subsection \<open>The body\<close>

text \<open>Who has to wait for whom: the relation the scheduler reads off the nodes.\<close>

definition depends_rel :: "JobPlanNode list \<Rightarrow> (string \<times> string) set" where
  "depends_rel ns = {(d, pn_Key n) | d n. n \<in> set ns \<and> d \<in> set (pn_DependsOn n)}"

lemma depends_rel_UN: "depends_rel ns = (\<Union>n \<in> set ns. (\<lambda>d. (d, pn_Key n)) ` set (pn_DependsOn n))"
  by (auto simp: depends_rel_def)

lemma stage_node_sel:
  "pn_Key (stage_node exits limits stage) = stage_key stage"
  "pn_DependsOn (stage_node exits limits stage) = stage_depends exits stage"
  by (simp_all add: stage_node_def)

lemma compile_gates_nodes:
  "compile_gates gates stage ids = Inr gns \<Longrightarrow>
   map pn_Key gns = map (\<lambda>g. ''gate:'' @ g) ids \<and> (\<forall>n \<in> set gns. pn_DependsOn n = [stage_key stage])"
proof (induction ids arbitrary: gns)
  case (Cons i ids)
  then obtain gate ns where g: "findGate gates i = Some gate" "compile_gates gates stage ids = Inr ns"
    "gns = gate_node stage gate # ns" by (auto split: option.splits)
  then have "gd_ID gate = i" by (auto simp: findGate_def find_Some_iff)
  then show ?case using Cons.IH [OF g(2)] g(3) by (simp add: gate_node_def)
qed simp

lemma compile_stages_Cons:
  assumes "compile_stages exits gates limits (stage # stages) = Inr (ns, es, ss)"
  obtains gns ns' es' ss' where "compile_gates gates stage (sg_GateIDs stage) = Inr gns"
    and "compile_stages exits gates limits stages = Inr (ns', es', ss')"
    and "ns = stage_node exits limits stage # gns @ ns'"
    and "es = map (\<lambda>dep. \<lparr>pe_From = dep, pe_To = stage_key stage\<rparr>) (stage_depends exits stage)
           @ map (\<lambda>g. \<lparr>pe_From = stage_key stage, pe_To = pn_Key g\<rparr>) gns @ es'"
  using assms by (auto simp: stage_node_def Let_def)

lemma compile_stages_edges: "compile_stages exits gates limits stages = Inr (ns, es, ss) \<Longrightarrow> edge_rel es = depends_rel ns"
proof (induction stages arbitrary: ns es ss)
  case (Cons stage stages)
  from Cons.prems obtain gns ns' es' ss' where b: "compile_gates gates stage (sg_GateIDs stage) = Inr gns"
    "compile_stages exits gates limits stages = Inr (ns', es', ss')"
    "ns = stage_node exits limits stage # gns @ ns'"
    "es = map (\<lambda>dep. \<lparr>pe_From = dep, pe_To = stage_key stage\<rparr>) (stage_depends exits stage)
       @ map (\<lambda>g. \<lparr>pe_From = stage_key stage, pe_To = pn_Key g\<rparr>) gns @ es'" by (rule compile_stages_Cons)
  have g: "\<forall>n \<in> set gns. pn_DependsOn n = [stage_key stage]" using compile_gates_nodes [OF b(1)] by blast
  have "depends_rel ns = (\<lambda>d. (d, stage_key stage)) ` set (stage_depends exits stage) \<union> depends_rel gns \<union> depends_rel ns'"
    unfolding b(3) by (simp add: depends_rel_UN stage_node_sel Un_assoc)
  moreover have "depends_rel gns = (\<lambda>g. (stage_key stage, pn_Key g)) ` set gns"
    using g unfolding depends_rel_def by (auto simp: image_iff) force
  moreover have "edge_rel es = (\<lambda>d. (d, stage_key stage)) ` set (stage_depends exits stage)
      \<union> (\<lambda>g. (stage_key stage, pn_Key g)) ` set gns \<union> edge_rel es'"
    unfolding b(4) by (simp add: edge_rel_def image_Un image_image Un_assoc)
  ultimately show ?case using Cons.IH [OF b(2)] by simp
qed (simp add: edge_rel_def depends_rel_def)

lemma compile_stages_keys:
  "compile_stages exits gates limits stages = Inr (ns, es, ss) \<Longrightarrow>
   map pn_Key ns = concat (map (\<lambda>st. stage_key st # map (\<lambda>g. ''gate:'' @ g) (sg_GateIDs st)) stages)"
proof (induction stages arbitrary: ns es ss)
  case (Cons stage stages)
  from Cons.prems show ?case
    by (rule compile_stages_Cons) (use Cons.IH compile_gates_nodes in \<open>auto simp: stage_node_def\<close>)
qed simp

lemma compile_stages_stage:
  "compile_stages exits gates limits stages = Inr (ns, es, ss) \<Longrightarrow> st \<in> set stages \<Longrightarrow>
   stage_node exits limits st \<in> set ns"
proof (induction stages arbitrary: ns es ss)
  case (Cons stage stages)
  from Cons.prems(1) show ?case by (rule compile_stages_Cons) (use Cons.IH Cons.prems(2) in auto)
qed simp

lemma CompileSOP_Inr:
  assumes "CompileSOP hash i l sop t by now = Inr plan"
  obtains ns es ss where "SOPVersion_Validate sop = None" and "sv_Status sop = ''published''"
    and "compile_stages (stage_exits (sv_Stages sop) []) (sv_Gates sop) (effective_limits l) (sv_Stages sop) = Inr (ns, es, ss)"
    and "jp_Nodes plan = ns" and "jp_Edges plan = es" and "JobPlanRevision_Validate plan = None"
    and "jp_Digest plan = ''sha256:'' @ hash (plan_body_json sop (ns, es, ss) (effective_limits l))"
    and "jp_TenantID plan = t" and "jp_ID plan = i"
  using assms that unfolding CompileSOP_def Let_def require_Inr check_nil_Inr bind_res_Inr
  by (auto simp: valid_stages compiled_plan_def split: prod.splits)

lemma compiled_edges: "CompileSOP hash i l sop t by now = Inr plan \<Longrightarrow> edge_rel (jp_Edges plan) = depends_rel (jp_Nodes plan)"
  by (elim CompileSOP_Inr) (simp add: compile_stages_edges)

lemma compiled_keys:
  assumes "CompileSOP hash i l sop t by now = Inr plan"
  shows "map pn_Key (jp_Nodes plan) =
    concat (map (\<lambda>st. stage_key st # map (\<lambda>g. ''gate:'' @ g) (sg_GateIDs st)) (sv_Stages sop))"
proof -
  from assms obtain ns es ss where
    b: "compile_stages (stage_exits (sv_Stages sop) []) (sv_Gates sop) (effective_limits l) (sv_Stages sop) = Inr (ns, es, ss)"
      "jp_Nodes plan = ns" by (rule CompileSOP_Inr)
  show ?thesis unfolding b(2) using b(1) by (rule compile_stages_keys)
qed

subsection \<open>Properties\<close>

text \<open>
  C16. A compiled plan says what the SOP says. Its edges are exactly the dependencies its nodes carry, and
  they are acyclic; its nodes are the stages in order, each followed by the gates it names; and a stage that
  reads the output of another stage waits for the exit of that stage: its last gate, or the stage itself when
  it has none.
\<close>

theorem compile_faithful:
  assumes "CompileSOP hash i limits sop tenant by now = Inr plan"
  shows "edge_rel (jp_Edges plan) = depends_rel (jp_Nodes plan) \<and> acyclic (depends_rel (jp_Nodes plan))
    \<and> map pn_Key (jp_Nodes plan)
        = concat (map (\<lambda>st. stage_key st # map (\<lambda>g. ''gate:'' @ g) (sg_GateIDs st)) (sv_Stages sop))
    \<and> (\<forall>st \<in> set (sv_Stages sop). \<forall>src \<in> set (sv_Stages sop). sg_ID src \<in> set (sg_InputRefs st) \<longrightarrow>
         (stage_exit src, stage_key st) \<in> depends_rel (jp_Nodes plan))"
proof -
  from assms obtain ns es ss where v: "SOPVersion_Validate sop = None" "JobPlanRevision_Validate plan = None"
    and b: "compile_stages (stage_exits (sv_Stages sop) []) (sv_Gates sop) (effective_limits limits) (sv_Stages sop)
            = Inr (ns, es, ss)" "jp_Nodes plan = ns" "jp_Edges plan = es" by (rule CompileSOP_Inr)
  let ?x = "stage_exits (sv_Stages sop) []"
  have e: "edge_rel es = depends_rel ns" using b(1) by (rule compile_stages_edges)
  have "acyclic (depends_rel ns)" using valid_plan_acyclic [OF v(2)] e b(3) by simp
  moreover have "(stage_exit src, stage_key st) \<in> depends_rel ns"
    if "st \<in> set (sv_Stages sop)" "src \<in> set (sv_Stages sop)" "sg_ID src \<in> set (sg_InputRefs st)" for st src
  proof -
    have "find (\<lambda>x. sg_ID x = sg_ID src) (sv_Stages sop) = Some src"
      using valid_stages(2) [OF v(1)] that(2)
      by (induction "sv_Stages sop") (auto simp: find_Some_iff in_set_conv_nth distinct_conv_nth)
    then have "mget ?x (sg_ID src) = Some (stage_exit src)" by (simp add: stage_exits_get [OF valid_stages(2) [OF v(1)]])
    then have "stage_exit src \<in> set (stage_depends ?x st)"
      using that(3) by (force simp: stage_depends_def map_filter_def)
    then show ?thesis using compile_stages_stage [OF b(1) that(1)]
      by (force simp: depends_rel_def stage_node_def)
  qed
  ultimately show ?thesis using e compiled_keys [OF assms] b(2,3) by blast
qed

text \<open>
  C17. A compiled plan does not deadlock. Whatever nodes are done, as long as some are not, one of those has
  all its dependencies done: the scheduler always finds a node it may release.
\<close>

theorem compiled_plan_progress:
  assumes "CompileSOP hash i limits sop tenant by now = Inr plan"
    and "finished \<subset> pn_Key ` set (jp_Nodes plan)"
  shows "\<exists>n \<in> set (jp_Nodes plan). pn_Key n \<notin> finished \<and> set (pn_DependsOn n) \<subseteq> finished"
proof -
  from assms(1) have v: "JobPlanRevision_Validate plan = None" by (rule CompileSOP_Inr)
  let ?R = "depends_rel (jp_Nodes plan)" and ?open = "pn_Key ` set (jp_Nodes plan) - finished"
  have e: "edge_rel (jp_Edges plan) = ?R" using assms(1) by (rule compiled_edges)
  have "finite ?R" unfolding e [symmetric] edge_rel_def by simp
  then have "wf ?R" using valid_plan_acyclic [OF v] e by (simp add: finite_acyclic_wf)
  moreover obtain k where "k \<in> ?open" using assms(2) by blast
  ultimately obtain m where m: "m \<in> ?open" "\<And>d. (d, m) \<in> ?R \<Longrightarrow> d \<notin> ?open" by (rule wfE_min) blast
  then obtain n where n: "n \<in> set (jp_Nodes plan)" "pn_Key n = m" by blast
  have "d \<in> finished" if "d \<in> set (pn_DependsOn n)" for d
  proof -
    have "(d, m) \<in> ?R" using n that by (auto simp: depends_rel_def)
    then show ?thesis using m(2) valid_plan_edges [OF v] e by blast
  qed
  then show ?thesis using n m(1) by auto
qed

subsection \<open>An example\<close>

text \<open>A draft with two reviews, and a publication that reads it.\<close>

definition ex_stage :: "string \<Rightarrow> int \<Rightarrow> string list \<Rightarrow> string list \<Rightarrow> StageDefinition" where
  "ex_stage i ord refs gates =
     \<lparr>sg_ID = i, sg_Name = i, sg_Order = ord, sg_OwnerRoles = [], sg_InputRefs = refs, sg_OutputSchema = ''o/1'',
      sg_RequiredCapabilities = [], sg_AllowedExecutorKinds = [], sg_ExecutionModes = [], sg_Checks = [],
      sg_GateIDs = gates, sg_RetryMaxAttempts = 0, sg_AcceptedInputTypes = [], sg_RequiredOutputTypes = [],
      sg_OutputSchemaRefs = [], sg_CompletionPolicy = '''', sg_ExecutorPolicy = '''',
      sg_RetryPolicy = \<lparr>srp_MaxAttempts = 0, srp_BackoffSeconds = 0, srp_AllowPartialRetry = False,
                         srp_RetryableErrorCode = []\<rparr>,
      sg_CostPolicy = \<lparr>scp_Currency = '''', scp_MaxEstimatedCostMinor = 0, scp_RequireApprovalAboveMinor = 0,
                       scp_EstimateTTLSeconds = 0\<rparr>\<rparr>"

definition ex_gate :: "string \<Rightarrow> GateDefinition" where
  "ex_gate i = \<lparr>gd_ID = i, gd_Name = i, gd_Mode = ''internal_review'', gd_Blocking = True, gd_AssigneeRoles = [],
     gd_InputRefs = [], gd_Checks = [], gd_OnReject = '''', gd_EscalationHours = 0\<rparr>"

definition ex_sop :: SOPVersion where
  "ex_sop = \<lparr>sv_ID = ''v1'', sv_TenantID = ''t'', sv_SOPID = ''sop'', sv_Version = 1, sv_SchemaVersion = '''',
     sv_Name = ''n'', sv_Description = '''', sv_ContentTypes = [],
     sv_Stages = [ex_stage ''a'' 1 [] [''g'', ''h''], ex_stage ''b'' 2 [''a''] []], sv_Gates = [ex_gate ''g'', ex_gate ''h''],
     sv_DefaultExecutionMode = '''', sv_Digest = '''', sv_Status = ''published'', sv_CreatedBy = '''',
     sv_PublishedBy = '''', sv_CreatedAt = 1, sv_PublishedAt = None\<rparr>"

abbreviation ex_compiled :: "JobPlanRevision res" where
  "ex_compiled \<equiv> CompileSOP (\<lambda>_. ''0'') ''p'' DefaultRuntimeLimits ex_sop ''t'' ''u'' 1"

lemma ex_compiled_ok: "\<not> isl ex_compiled"
  by code_simp

lemma ex_compiled_plan: obtains plan where "ex_compiled = Inr plan"
  using ex_compiled_ok by (cases ex_compiled) auto

theorem compile_faithful_witness:
  "\<exists>plan. ex_compiled = Inr plan \<and> edge_rel (jp_Edges plan) = depends_rel (jp_Nodes plan)
     \<and> map pn_Key (jp_Nodes plan) = [''stage:a'', ''gate:g'', ''gate:h'', ''stage:b'']
     \<and> (''gate:h'', ''stage:b'') \<in> depends_rel (jp_Nodes plan)"
proof -
  obtain plan where p: "ex_compiled = Inr plan" by (rule ex_compiled_plan)
  then show ?thesis using compile_faithful [OF p] by (auto simp: ex_sop_def ex_stage_def stage_key_def stage_exit_def)
qed

theorem compiled_plan_progress_witness:
  "\<exists>plan. ex_compiled = Inr plan
     \<and> (\<exists>n \<in> set (jp_Nodes plan). pn_Key n \<notin> {''stage:a''} \<and> set (pn_DependsOn n) \<subseteq> {''stage:a''})"
proof -
  obtain plan where p: "ex_compiled = Inr plan" by (rule ex_compiled_plan)
  have "map pn_Key (jp_Nodes plan) = [''stage:a'', ''gate:g'', ''gate:h'', ''stage:b'']"
    unfolding compiled_keys [OF p] by (simp add: ex_sop_def ex_stage_def stage_key_def)
  then have "pn_Key ` set (jp_Nodes plan) = {''stage:a'', ''gate:g'', ''gate:h'', ''stage:b''}"
    by (metis list.set_map list.simps(15) empty_set)
  then have "{''stage:a''} \<subset> pn_Key ` set (jp_Nodes plan)" by auto
  from compiled_plan_progress [OF p this] p show ?thesis by blast
qed

end
