(* ===== verification/Sanitize.thy ===== *)
theory Sanitize
  imports Prelude
begin

section \<open>Sanitising what leaves the runtime\<close>

text \<open>
  The end of \<^verbatim>\<open>internal/runtime/dispatch.go\<close>: summaries reported by a harness pass through
  \<^verbatim>\<open>sanitizeSafeSummary\<close> before they are stored or shown, error codes and event types through
  \<^verbatim>\<open>safeErrorCode\<close> and \<^verbatim>\<open>safeEventType\<close>.

  A summary is a \<open>payload\<close>: \<^verbatim>\<open>map[string]any\<close> is \<open>AObj\<close>, \<^verbatim>\<open>[]any\<close> is \<open>AArr\<close>, numbers are \<open>AInt\<close>
  (floating-point numbers pass through the code as they are and are not modelled), times are among the
  unsupported types. Strings are bytes; \<^verbatim>\<open>[]rune(s)\<close> decodes UTF-8, one replacement
  character for each byte that does not belong to a valid sequence.

  What is shown: after sanitising, no field at any depth whose name suggests a secret still carries its
  value; the result is bounded in width and in the length of its texts; and sanitising a second time
  changes nothing.
\<close>

subsection \<open>UTF-8\<close>

definition lead_len :: "char \<Rightarrow> nat" where
  "lead_len b =
     (if b < CHR 0x80 then 1
      else if CHR 0xC2 \<le> b \<and> b \<le> CHR 0xDF then 2
      else if CHR 0xE0 \<le> b \<and> b \<le> CHR 0xEF then 3
      else if CHR 0xF0 \<le> b \<and> b \<le> CHR 0xF4 then 4
      else 0)"

definition cont_byte :: "char \<Rightarrow> bool" where
  "cont_byte c = (CHR 0x80 \<le> c \<and> c \<le> CHR 0xBF)"

text \<open>The second byte rules out overlong forms, surrogates and code points beyond U+10FFFF.\<close>

definition second_ok :: "char \<Rightarrow> char \<Rightarrow> bool" where
  "second_ok b c =
     (cont_byte c \<and> (b = CHR 0xE0 \<longrightarrow> CHR 0xA0 \<le> c) \<and> (b = CHR 0xED \<longrightarrow> c \<le> CHR 0x9F)
      \<and> (b = CHR 0xF0 \<longrightarrow> CHR 0x90 \<le> c) \<and> (b = CHR 0xF4 \<longrightarrow> c \<le> CHR 0x8F))"

definition rune_width :: "string \<Rightarrow> nat" where
  "rune_width s =
     (case s of [] \<Rightarrow> 0 | b # rest \<Rightarrow>
        let n = lead_len b in
        if n \<le> 1 then n
        else if length rest < n - 1 then 0
        else if second_ok b (hd rest) \<and> list_all cont_byte (take (n - 2) (tl rest)) then n
        else 0)"

text \<open>The decoded text, each rune as the bytes that encode it.\<close>

function runes :: "string \<Rightarrow> string list" where
  "runes s =
     (if s = [] then []
      else if rune_width s = 0 then [CHR 0xEF, CHR 0xBF, CHR 0xBD] # runes (tl s)
      else take (rune_width s) s # runes (drop (rune_width s) s))"
  by pat_completeness auto
termination
  by (relation "measure length") auto

declare runes.simps [simp del]

subsection \<open>Summaries\<close>

definition Contains :: "string \<Rightarrow> string \<Rightarrow> bool" where
  "Contains s w = list_ex (\<lambda>i. HasPrefix (drop i s) w) [0..<Suc (length s)]"

definition sensitive :: "string \<Rightarrow> bool" where
  "sensitive key =
     (let lower = ToLower (TrimSpace key) in
      list_ex (Contains lower) [''secret'', ''token'', ''credential'', ''password'', ''api_key'', ''authorization'',
        ''cookie'', ''absolute_path''] \<or> lower = ''path'')"

definition clip_text :: "string \<Rightarrow> string" where
  "clip_text s = (if length (runes s) > 512 then concat (take 512 (runes s)) else s)"

definition sorted_fields :: "payload \<Rightarrow> payload" where
  "sorted_fields m = take 64 (sort_by (\<lambda>a b. fst a < fst b) m)"

lemma sorted_fields_size: "p \<in> set (sorted_fields m) \<Longrightarrow> size (snd p) < size_list (size_prod (\<lambda>_. 0) size) m"
proof -
  assume "p \<in> set (sorted_fields m)"
  then have "p \<in> set m" unfolding sorted_fields_def by (metis in_set_takeD set_sort_by)
  then show ?thesis by (rule size_list_estimation) (cases p, simp)
qed

lemma take_size: "x \<in> set (take n xs) \<Longrightarrow> size x \<le> size_list size xs"
  by (metis in_set_takeD order_refl size_list_estimation')

function sanitizeSummaryMap :: "payload \<Rightarrow> nat \<Rightarrow> payload"
and sanitizeSummaryValue :: "goany \<Rightarrow> nat \<Rightarrow> goany" where
  "sanitizeSummaryMap m depth =
     (if depth \<ge> 4 then []
      else concat (map (\<lambda>p.
        if ToLower (TrimSpace (fst p)) = '''' then []
        else if sensitive (fst p) then [(fst p, AStr ''[redacted]'')]
        else [(fst p, sanitizeSummaryValue (snd p) (depth + 1))]) (sorted_fields m)))"
| "sanitizeSummaryValue v depth =
     (case v of
        AObj m \<Rightarrow> AObj (sanitizeSummaryMap m depth)
      | AArr xs \<Rightarrow> AArr (map (\<lambda>x. sanitizeSummaryValue x (depth + 1)) (take 64 xs))
      | AStr s \<Rightarrow> AStr (clip_text s)
      | ANull \<Rightarrow> ANull | ABool b \<Rightarrow> ABool b | AInt i \<Rightarrow> AInt i
      | ATime t \<Rightarrow> AStr ''[unsupported]'')"
  by pat_completeness auto
termination
  by (relation "measure (\<lambda>x. case x of Inl (m, d) \<Rightarrow> 2 * size_list (size_prod (\<lambda>_. 0) size) m + 1 | Inr (v, d) \<Rightarrow> 2 * size v + 2)")
    (auto dest!: sorted_fields_size dest: take_size)

declare sanitizeSummaryMap.simps [simp del] sanitizeSummaryValue.simps [simp del]

lemma sanitize_value_simps [simp]:
  "sanitizeSummaryValue (AObj m) d = AObj (sanitizeSummaryMap m d)"
  "sanitizeSummaryValue (AArr xs) d = AArr (map (\<lambda>x. sanitizeSummaryValue x (d + 1)) (take 64 xs))"
  "sanitizeSummaryValue (AStr s) d = AStr (clip_text s)"
  "sanitizeSummaryValue ANull d = ANull" "sanitizeSummaryValue (ABool b) d = ABool b"
  "sanitizeSummaryValue (AInt i) d = AInt i" "sanitizeSummaryValue (ATime t) d = AStr ''[unsupported]''"
  by (simp_all add: sanitizeSummaryValue.simps)

definition sanitizeSafeSummary :: "payload \<Rightarrow> payload" where
  "sanitizeSafeSummary m = sanitizeSummaryMap m 0"

subsection \<open>Codes and event types\<close>

definition safeErrorCode :: "string \<Rightarrow> string \<Rightarrow> string" where
  "safeErrorCode value fallback =
     (let v = ToUpper (TrimSpace value) in
      if v = '''' then fallback
      else if length v > 64 then fallback
      else if list_ex (\<lambda>c. (c < CHR ''A'' \<or> c > CHR ''Z'') \<and> (c < CHR ''0'' \<or> c > CHR ''9'') \<and> c \<noteq> CHR ''_'') v
      then fallback else v)"

definition safeEventType :: "string \<Rightarrow> string" where
  "safeEventType value =
     (let v = ToLower (TrimSpace value) in
      if v = '''' \<or> length v > 64 then ''unknown''
      else if list_ex (\<lambda>c. (c < CHR ''a'' \<or> c > CHR ''z'') \<and> (c < CHR ''0'' \<or> c > CHR ''9'') \<and> c \<noteq> CHR ''_''
                \<and> c \<noteq> CHR ''.'' \<and> c \<noteq> CHR ''-'') v
      then ''unknown'' else v)"

definition errorCode :: "fault \<Rightarrow> string \<Rightarrow> string" where
  "errorCode err fallback = (if \<not> blank (f_Code err) then safeErrorCode (f_Code err) fallback else fallback)"

subsection \<open>Secrets are redacted\<close>

text \<open>The fields of a value, at any depth.\<close>

inductive field_of :: "goany \<Rightarrow> string \<Rightarrow> goany \<Rightarrow> bool" where
  here: "(k, v) \<in> set fs \<Longrightarrow> field_of (AObj fs) k v"
| in_field: "(k', v') \<in> set fs \<Longrightarrow> field_of v' k v \<Longrightarrow> field_of (AObj fs) k v"
| in_item: "x \<in> set xs \<Longrightarrow> field_of x k v \<Longrightarrow> field_of (AArr xs) k v"

inductive_cases field_of_obj: "field_of (AObj fs) k v"
inductive_cases field_of_arr: "field_of (AArr xs) k v"
inductive_simps field_of_simps [simp]:
  "field_of ANull k v" "field_of (ABool b) k v" "field_of (AInt i) k v" "field_of (AStr s) k v" "field_of (ATime t) k v"

lemma sanitize_map_cases:
  assumes "(k, v) \<in> set (sanitizeSummaryMap m depth)"
  obtains (redacted) "sensitive k" and "v = AStr ''[redacted]''" and "\<not> blank k"
  | (kept) v0 where "(k, v0) \<in> set (sorted_fields m)" and "v = sanitizeSummaryValue v0 (depth + 1)"
      and "\<not> sensitive k" and "\<not> blank k" and "depth < 4"
  using assms by (auto simp: sanitizeSummaryMap.simps [of m] ToLower.simps split: if_splits)

lemma sanitize_fields:
  "(\<forall>k v. field_of (AObj (sanitizeSummaryMap m d)) k v \<longrightarrow> \<not> blank k \<and> (sensitive k \<longrightarrow> v = AStr ''[redacted]''))"
  "(\<forall>k v. field_of (sanitizeSummaryValue x d) k v \<longrightarrow> \<not> blank k \<and> (sensitive k \<longrightarrow> v = AStr ''[redacted]''))"
proof (induction m d and x d rule: sanitizeSummaryMap_sanitizeSummaryValue.induct)
  case (1 m depth)
  show ?case
  proof (intro allI impI)
    fix k v assume "field_of (AObj (sanitizeSummaryMap m depth)) k v"
    then show "\<not> blank k \<and> (sensitive k \<longrightarrow> v = AStr ''[redacted]'')"
    proof (cases rule: field_of_obj [consumes 1])
      case 1
      then show ?thesis by (elim sanitize_map_cases) auto
    next
      case (2 k' v')
      from 2(1) show ?thesis
      proof (cases rule: sanitize_map_cases)
        case (kept v0)
        have "ToLower (TrimSpace k') \<noteq> ''''" using kept(4) by (simp add: ToLower.simps)
        then show ?thesis using "1.IH" [of "(k', v0)"] kept 2(2) by simp
      qed (use 2(2) in simp)
    qed
  qed
next
  case (2 v depth)
  show ?case
  proof (cases v)
    case (AArr xs)
    then show ?thesis using 2(1) [OF AArr] by (auto elim!: field_of_arr)
  qed (use 2 in simp_all)
qed

subsection \<open>The result is bounded\<close>

fun tidy :: "goany \<Rightarrow> bool" where
  "tidy (AObj fs) = (length fs \<le> 64 \<and> (\<forall>p \<in> set fs. tidy (snd p)))"
| "tidy (AArr xs) = (length xs \<le> 64 \<and> (\<forall>x \<in> set xs. tidy x))"
| "tidy (AStr s) = (length (runes s) \<le> 512)"
| "tidy (ATime t) = False"
| "tidy _ = True"

lemma rune_width_le: "rune_width s \<le> length s"
  by (auto simp: rune_width_def Let_def split: list.splits)

lemma rune_width_prefix:
  assumes "rune_width s \<noteq> 0"
  shows "rune_width (take (rune_width s) s @ rest) = rune_width s"
proof (cases s)
  case (Cons b cs)
  let ?n = "lead_len b"
  show ?thesis
  proof (cases "?n \<le> 1")
    case True
    then have "rune_width s = ?n" by (simp add: rune_width_def Cons)
    moreover from this assms True have "?n = 1" by simp
    ultimately show ?thesis by (simp add: rune_width_def Cons)
  next
    case False
    from assms False have ok: "\<not> length cs < ?n - 1" "second_ok b (hd cs)" "list_all cont_byte (take (?n - 2) (tl cs))"
      "rune_width s = ?n" by (auto simp: rune_width_def Cons Let_def split: if_splits)
    obtain m where m: "?n = Suc (Suc m)" using False by (metis One_nat_def Suc_le_mono bot_nat_0.extremum not0_implies_Suc)
    from ok(1) m obtain c ds where c: "cs = c # ds" "m \<le> length ds" by (cases cs) auto
    have "rune_width (b # c # take m ds @ rest) = ?n"
      using ok m c by (simp add: rune_width_def Let_def)
    then show ?thesis using ok(4) m c Cons by simp
  qed
qed (use assms in \<open>simp add: rune_width_def\<close>)

text \<open>A rune is read back as itself, whatever follows.\<close>

definition rune :: "string \<Rightarrow> bool" where
  "rune r = (r \<noteq> [] \<and> (\<forall>rest. rune_width (r @ rest) = length r))"

lemma rune_replacement: "rune [CHR 0xEF, CHR 0xBF, CHR 0xBD]"
proof -
  have "lead_len CHR 0xEF = 3" "second_ok CHR 0xEF CHR 0xBF" "cont_byte CHR 0xBD" by code_simp+
  then show ?thesis by (simp add: rune_def rune_width_def Let_def)
qed

lemma runes_rune: "r \<in> set (runes s) \<Longrightarrow> rune r"
proof (induction s rule: runes.induct)
  case (1 s)
  show ?case
  proof (cases "s = []")
    case False
    show ?thesis
    proof (cases "rune_width s = 0")
      case True
      then show ?thesis using 1 False rune_replacement by (auto simp: runes.simps [of s])
    next
      case w: False
      have "rune (take (rune_width s) s)"
        using w False rune_width_prefix [OF w] rune_width_le [of s] by (simp add: rune_def)
      then show ?thesis using 1 False w by (auto simp: runes.simps [of s])
    qed
  qed (use "1.prems" in \<open>simp add: runes.simps\<close>)
qed

lemma runes_concat: "(\<And>r. r \<in> set rs \<Longrightarrow> rune r) \<Longrightarrow> runes (concat rs) = rs"
proof (induction rs)
  case (Cons r rs)
  have "rune r" using Cons.prems by simp
  then have w: "rune_width (r @ concat rs) = length r" "r \<noteq> []" by (auto simp: rune_def)
  then have "runes (r @ concat rs) = take (length r) (r @ concat rs) # runes (drop (length r) (r @ concat rs))"
    by (subst runes.simps) simp
  then show ?case using Cons by simp
qed (simp add: runes.simps)

lemma clip_text_length: "length (runes (clip_text s)) \<le> 512"
proof (cases "length (runes s) > 512")
  case True
  have "runes (concat (take 512 (runes s))) = take 512 (runes s)"
    by (rule runes_concat) (metis in_set_takeD runes_rune)
  then show ?thesis using True by (simp add: clip_text_def)
qed (simp add: clip_text_def)

lemma length_concat_le: "(\<And>x. x \<in> set xs \<Longrightarrow> length (f x) \<le> 1) \<Longrightarrow> length (concat (map f xs)) \<le> length xs"
proof (induction xs)
  case (Cons x xs)
  have "length (f x) \<le> 1" using Cons.prems by simp
  moreover have "length (concat (map f xs)) \<le> length xs" using Cons by simp
  ultimately show ?case by simp
qed simp

lemma sanitize_width: "length (sanitizeSummaryMap m d) \<le> 64"
proof -
  have "length (sanitizeSummaryMap m d) \<le> length (sorted_fields m)"
    unfolding sanitizeSummaryMap.simps [of m] by (auto intro!: length_concat_le)
  also have "\<dots> \<le> 64" by (simp add: sorted_fields_def)
  finally show ?thesis .
qed

lemma fixed_texts: "tidy (AStr ''[redacted]'')" "tidy (AStr ''[unsupported]'')"
  by code_simp+

lemma sanitize_tidy:
  "tidy (AObj (sanitizeSummaryMap m d))"
  "tidy (sanitizeSummaryValue x d)"
proof (induction m d and x d rule: sanitizeSummaryMap_sanitizeSummaryValue.induct)
  case (1 m depth)
  have "tidy v" if "(k, v) \<in> set (sanitizeSummaryMap m depth)" for k v
    using that
  proof (cases rule: sanitize_map_cases)
    case redacted
    then show ?thesis using fixed_texts by simp
  next
    case (kept v0)
    have "ToLower (TrimSpace k) \<noteq> ''''" using kept(4) by (simp add: ToLower.simps)
    then show ?thesis using "1.IH" [of "(k, v0)"] kept by simp
  qed
  then show ?case using sanitize_width [of m depth] by auto
next
  case (2 v depth)
  show ?case
    by (cases v) (use 2 fixed_texts clip_text_length in simp_all)
qed

subsection \<open>Sanitising twice\<close>

lemma sorted_concat:
  "sorted_wrt (\<lambda>a b. \<not> fst b < fst a) xs \<Longrightarrow> (\<And>x. length (f x) \<le> 1) \<Longrightarrow> (\<And>x p. p \<in> set (f x) \<Longrightarrow> fst p = fst x)
   \<Longrightarrow> sorted_wrt (\<lambda>a b. \<not> fst b < fst a) (concat (map f xs))"
proof (induction xs)
  case (Cons x xs)
  have "sorted_wrt (\<lambda>a b. \<not> fst b < fst a) (f x)"
    using Cons.prems(2) [of x] by (cases "f x" rule: remdups_adj.cases) auto
  moreover have "\<not> fst b < fst a" if "a \<in> set (f x)" "b \<in> set (concat (map f xs))" for a b
  proof -
    from that(2) obtain y where y: "y \<in> set xs" "b \<in> set (f y)" by auto
    have "\<not> fst y < fst x" using Cons.prems(1) y(1) by simp
    then show ?thesis using Cons.prems(3) [OF that(1)] Cons.prems(3) [OF y(2)] by simp
  qed
  ultimately show ?case using Cons by (simp add: sorted_wrt_append)
qed simp

lemma sorted_fields_sanitized: "sorted_fields (sanitizeSummaryMap m d) = sanitizeSummaryMap m d"
proof -
  have "sorted_wrt (\<lambda>a b. \<not> fst b < fst a) (sorted_fields m)"
    unfolding sorted_fields_def by (intro sorted_wrt_take sorted_sort_by) auto
  then have "sorted_wrt (\<lambda>a b. \<not> fst b < fst a) (sanitizeSummaryMap m d)"
    unfolding sanitizeSummaryMap.simps [of m] by (auto intro!: sorted_concat split: if_splits)
  then show ?thesis using sanitize_width [of m d] by (simp add: sorted_fields_def sort_by_id)
qed

lemma concat_map_id: "(\<And>x. x \<in> set xs \<Longrightarrow> f x = [x]) \<Longrightarrow> concat (map f xs) = xs"
  by (induction xs) simp_all

lemma clip_text_short: "length (runes s) \<le> 512 \<Longrightarrow> clip_text s = s"
  by (simp add: clip_text_def)

lemma fixed_texts_clip: "clip_text ''[unsupported]'' = ''[unsupported]''"
  using fixed_texts by (simp add: clip_text_short)

lemma sanitize_idem:
  "sanitizeSummaryMap (sanitizeSummaryMap m d) d = sanitizeSummaryMap m d"
  "sanitizeSummaryValue (sanitizeSummaryValue x d) d = sanitizeSummaryValue x d"
proof (induction m d and x d rule: sanitizeSummaryMap_sanitizeSummaryValue.induct)
  case (1 m depth)
  let ?r = "sanitizeSummaryMap m depth"
  let ?f = "\<lambda>p. if ToLower (TrimSpace (fst p)) = '''' then []
        else if sensitive (fst p) then [(fst p, AStr ''[redacted]'')]
        else [(fst p, sanitizeSummaryValue (snd p) (depth + 1))]"
  have "?f p = [p]" if "p \<in> set ?r" for p
  proof (cases p)
    case (Pair k v)
    with that have "(k, v) \<in> set ?r" by simp
    then show ?thesis
    proof (cases rule: sanitize_map_cases)
      case redacted
      then show ?thesis using Pair by (simp add: ToLower.simps)
    next
      case (kept v0)
      have nb: "ToLower (TrimSpace k) \<noteq> ''''" using kept(4) by (simp add: ToLower.simps)
      then have "sanitizeSummaryValue v (depth + 1) = v" using "1.IH" [of "(k, v0)"] kept by simp
      then show ?thesis using Pair kept(3) nb by simp
    qed
  qed
  then have "concat (map ?f ?r) = ?r" by (rule concat_map_id)
  then show ?case unfolding sanitizeSummaryMap.simps [of ?r depth] sorted_fields_sanitized
    by (cases "depth \<ge> 4") (simp_all add: sanitizeSummaryMap.simps [of m])
next
  case (2 v depth)
  show ?case
    by (cases v) (use 2 clip_text_length fixed_texts_clip clip_text_short in \<open>simp_all add: take_map\<close>)
qed

subsection \<open>Properties\<close>

text \<open>
  C36. Secrets do not survive sanitising. In a sanitised summary no field, at any depth and inside any array,
  has a blank name, and every field whose name contains one of the sensitive words, in any case and with
  any white space around it, has the value \<^verbatim>\<open>[redacted]\<close>.
\<close>

theorem summary_redacted:
  assumes "field_of (AObj (sanitizeSafeSummary m)) k v"
  shows "\<not> blank k \<and> (sensitive k \<longrightarrow> v = AStr ''[redacted]'')"
  using assms sanitize_fields(1) [of m 0] unfolding sanitizeSafeSummary_def by blast

definition ex_summary :: payload where
  "ex_summary = [(''runs'', AArr [AObj [(''access_token'', AStr ''t0p'')], AInt 3])]"

theorem summary_redacted_witness:
  "field_of (AObj (sanitizeSafeSummary ex_summary)) ''access_token'' (AStr ''[redacted]'')"
proof -
  have r: "sanitizeSafeSummary ex_summary = [(''runs'', AArr [AObj [(''access_token'', AStr ''[redacted]'')], AInt 3])]"
    by code_simp
  have f: "field_of (AObj (sanitizeSafeSummary ex_summary)) ''access_token'' (AStr ''[redacted]'')"
    unfolding r by (rule in_field, simp, rule in_item [where x = "AObj [(''access_token'', AStr ''[redacted]'')]"])
      (auto intro: here)
  have "sensitive ''access_token''" by code_simp
  with summary_redacted [OF f] f show ?thesis by blast
qed

text \<open>
  A sanitised summary is bounded: no object has more than 64 fields, no array more than 64 items, no text
  more than 512 characters, and only plain values are left. And it is a fixed point: sanitising it again
  changes nothing, so it does not matter how many layers of the runtime sanitise.
\<close>

theorem summary_bounded:
  "tidy (AObj (sanitizeSafeSummary m)) \<and> sanitizeSafeSummary (sanitizeSafeSummary m) = sanitizeSafeSummary m"
  unfolding sanitizeSafeSummary_def using sanitize_tidy(1) sanitize_idem(1) by blast

end
