(* ===== verification/Patch_Service.thy ===== *)
theory Patch_Service
  imports Commands Service_Base
begin

section \<open>Patching a graph in the service\<close>

text \<open>
  \<^verbatim>\<open>PatchGraph\<close> of \<^verbatim>\<open>internal/runtime/graph_patch.go\<close>: the pure \<open>ApplyGraphPatch\<close> (\<open>Graph_Patch\<close>) on the plan the job
  points to, a pending node for every plan node the old revision does not have, and one store command that writes plan,
  nodes, job and event. \<open>hash\<close> stands for \<^verbatim>\<open>stablehash.Sum\<close>; \<open>ids\<close> are the results of \<^verbatim>\<open>idgen.New\<close> in the order of the
  calls (the revision, a node for every added plan node, the event); \<open>now\<close> is the clock. The lemmas say what a
  successful call leaves in the store, and that the job it writes keeps its state.
\<close>

fun added_nodes :: "(nat \<Rightarrow> string) \<Rightarrow> time \<Rightarrow> string \<Rightarrow> string \<Rightarrow> string list \<Rightarrow> nat \<Rightarrow> JobPlanNode list \<Rightarrow> NodeRun list" where
  "added_nodes ids now tenantID jobID existing k [] = []"
| "added_nodes ids now tenantID jobID existing k (spec # specs) =
     (if pn_Key spec \<in> set existing then added_nodes ids now tenantID jobID existing k specs
      else new_node_run tenantID jobID (pn_Key spec) (ids k) now
           # added_nodes ids now tenantID jobID existing (Suc k) specs)"

definition patched_job :: "time \<Rightarrow> JobPlanRevision \<Rightarrow> JobRun \<Rightarrow> JobRun" where
  "patched_job now plan job =
     job\<lparr>jr_PlanRevisionID := jp_ID plan, jr_PlanDigest := jp_Digest plan, jr_Version := jr_Version job + 1,
       jr_UpdatedAt := now\<rparr>"

definition patched_event ::
    "string \<Rightarrow> time \<Rightarrow> string \<Rightarrow> string \<Rightarrow> string \<Rightarrow> GraphPatch \<Rightarrow> JobPlanRevision \<Rightarrow> GraphPatchResult \<Rightarrow> nat \<Rightarrow> JobEvent" where
  "patched_event eid now tenantID jobID actorID patch base result added =
     new_event eid tenantID jobID '''' ''graph.patched'' ''runtime'' (TrimSpace actorID)
       (''graph-patch:'' @ TrimSpace (gp_IdempotencyKey patch))
       [(''base_revision_id'', AStr (jp_ID base)), (''plan_revision_id'', AStr (jp_ID (gr_Plan result))),
        (''graph_version'', AInt (gr_GraphVersion result)), (''added_nodes'', AInt (int added)),
        (''cancelled_nodes'', AInt (int (length (gr_CancelPendingNodeKeys result))))] now"

definition PatchGraph ::
    "Service \<Rightarrow> (goany \<Rightarrow> string) \<Rightarrow> (nat \<Rightarrow> string) \<Rightarrow> time \<Rightarrow> string \<Rightarrow> string \<Rightarrow> string \<Rightarrow> GraphPatch \<Rightarrow> Store
     \<Rightarrow> GraphPatchResult cmd" where
  "PatchGraph sv hash ids now tenantID jobRunID actorID patch s =
     check_nil (requireDynamicGraph sv tenantID) (
     bind_res (Store_JobRun tenantID jobRunID s) (\<lambda>job.
     bind_res (Store_Plan tenantID (jr_PlanRevisionID job) s) (\<lambda>plan.
     bind_res (ApplyGraphPatch (ids 0) hash plan (jp_GraphVersion plan) patch) (\<lambda>result0.
     let result = result0\<lparr>gr_Plan := (gr_Plan result0)\<lparr>jp_CompiledAt := now\<rparr>\<rparr>;
         nodes = added_nodes ids now tenantID (jr_ID job) (map pn_Key (jp_Nodes plan)) 1 (jp_Nodes (gr_Plan result));
         event = patched_event (ids (Suc (length nodes))) now tenantID (jr_ID job) actorID patch plan result (length nodes) in
     bind_res (ApplyGraphPatchCommand (patched_job now (gr_Plan result) job) (jr_Version job) (gr_Plan result) nodes
                 (gr_CancelPendingNodeKeys result) event s) (\<lambda>(s', _). Inr (s', result))))))"

subsection \<open>What a patch writes\<close>

lemma added_nodes_pending:
  "n \<in> set (added_nodes ids now t j old k specs) \<Longrightarrow> nr_State n = NodePending \<and> nr_TenantID n = t \<and> nr_JobRunID n = j
     \<and> nr_NodeKey n \<in> pn_Key ` set specs - set old"
  by (induction ids now t j old k specs rule: added_nodes.induct) (auto simp: new_node_run_def split: if_splits)

lemma added_nodes_all:
  "spec \<in> set specs \<Longrightarrow> pn_Key spec \<notin> set old
     \<Longrightarrow> \<exists>n \<in> set (added_nodes ids now t j old k specs). nr_NodeKey n = pn_Key spec"
  by (induction ids now t j old k specs rule: added_nodes.induct) (auto simp: new_node_run_def)

lemma added_nodes_distinct:
  assumes "inj ids"
  shows "distinct (map node_key (added_nodes ids now t j old k specs))"
proof -
  have ids: "\<exists>i \<ge> k. nr_ID n = ids i" if "n \<in> set (added_nodes ids now t j old k specs)" for n k specs
    using that by (induction ids now t j old k specs rule: added_nodes.induct)
      (auto simp: new_node_run_def split: if_splits dest: Suc_leD)
  have later: "ids k \<noteq> nr_ID n" if "n \<in> set (added_nodes ids now t j old (Suc k) specs)" for n k specs
    using ids [OF that] assms by (auto simp: inj_eq)
  show ?thesis
  proof (induction specs arbitrary: k)
    case (Cons spec specs)
    have "node_key (new_node_run t j (pn_Key spec) (ids k) now) \<notin> node_key ` set (added_nodes ids now t j old (Suc k) specs)"
      using later [of _ k specs] added_nodes_pending [of _ ids now t j old "Suc k" specs]
      by (auto simp: node_key_def runtimePlanKey_def new_node_run_def)
    then show ?case using Cons.IH by simp
  qed simp
qed

lemma cancel_node_scope [simp]:
  "nr_TenantID (cancel_node at ks n) = nr_TenantID n" "nr_JobRunID (cancel_node at ks n) = nr_JobRunID n"
  "nr_NodeKey (cancel_node at ks n) = nr_NodeKey n"
  by (induction ks arbitrary: n) simp_all

lemma patched_job_keeps [simp]:
  "jr_State (patched_job now p j) = jr_State j" "job_key (patched_job now p j) = job_key j"
  "jr_Version (patched_job now p j) = jr_Version j + 1"
  by (simp_all add: patched_job_def job_key_def)

lemma PatchGraph_ok:
  assumes "PatchGraph sv hash ids now t i actor patch s = Inr (s', result)"
  obtains job plan nodes event result0 updated where "requireDynamicGraph sv t = None" "Store_JobRun t i s = Inr job"
    "Store_Plan t (jr_PlanRevisionID job) s = Inr plan"
    "ApplyGraphPatch (ids 0) hash plan (jp_GraphVersion plan) patch = Inr result0"
    "result = result0\<lparr>gr_Plan := (gr_Plan result0)\<lparr>jp_CompiledAt := now\<rparr>\<rparr>"
    "nodes = added_nodes ids now t (jr_ID job) (map pn_Key (jp_Nodes plan)) 1 (jp_Nodes (gr_Plan result))"
    "ApplyGraphPatchCommand (patched_job now (gr_Plan result) job) (jr_Version job) (gr_Plan result) nodes
       (gr_CancelPendingNodeKeys result) event s = Inr (s', updated)"
proof -
  from assms obtain job plan result0 where 1: "requireDynamicGraph sv t = None" "Store_JobRun t i s = Inr job"
    "Store_Plan t (jr_PlanRevisionID job) s = Inr plan"
    "ApplyGraphPatch (ids 0) hash plan (jp_GraphVersion plan) patch = Inr result0"
    by (auto simp: PatchGraph_def Let_def bind_res_Inr check_nil_Inr)
  let ?r = "result0\<lparr>gr_Plan := (gr_Plan result0)\<lparr>jp_CompiledAt := now\<rparr>\<rparr>"
  let ?ns = "added_nodes ids now t (jr_ID job) (map pn_Key (jp_Nodes plan)) 1 (jp_Nodes (gr_Plan ?r))"
  from assms 1 obtain s1 updated event where "ApplyGraphPatchCommand (patched_job now (gr_Plan ?r) job) (jr_Version job) (gr_Plan ?r)
      ?ns (gr_CancelPendingNodeKeys ?r) event s = Inr (s1, updated)" "s' = s1" "result = ?r"
    by (auto simp: PatchGraph_def Let_def bind_res_Inr check_nil_Inr)
  with 1 that show ?thesis by blast
qed

text \<open>
  After a patch the job points to the new revision, one version on and in the state it had; the revision is stored; and
  every plan node that the old revision does not have is a pending node of the job.
\<close>

lemma PatchGraph_stores:
  assumes "PatchGraph sv hash ids now t i actor patch s = Inr (s', result)" and "inj ids"
  obtains job plan where "Store_JobRun t i s = Inr job" "Store_Plan t (jr_PlanRevisionID job) s = Inr plan"
    "mget (runtimeJobs s') (job_key job) = Some (patched_job now (gr_Plan result) job)"
    "mget (runtimePlans s') (runtimePlanKey (jp_TenantID (gr_Plan result)) (jp_ID (gr_Plan result))) = Some (gr_Plan result)"
    "\<forall>spec \<in> set (jp_Nodes (gr_Plan result)). pn_Key spec \<notin> pn_Key ` set (jp_Nodes plan)
       \<longrightarrow> (\<exists>k n. mget (runtimeNodes s') k = Some n \<and> in_job job n \<and> nr_NodeKey n = pn_Key spec)"
proof -
  from assms(1) obtain job plan nodes event result0 updated where j: "Store_JobRun t i s = Inr job"
    and p: "Store_Plan t (jr_PlanRevisionID job) s = Inr plan"
    and ns: "nodes = added_nodes ids now t (jr_ID job) (map pn_Key (jp_Nodes plan)) 1 (jp_Nodes (gr_Plan result))"
    and c: "ApplyGraphPatchCommand (patched_job now (gr_Plan result) job) (jr_Version job) (gr_Plan result) nodes
       (gr_CancelPendingNodeKeys result) event s = Inr (s', updated)" by (rule PatchGraph_ok)
  let ?job = "patched_job now (gr_Plan result) job"
  let ?f = "\<lambda>n. if in_job ?job n then cancel_node (je_OccurredAt event) (gr_CancelPendingNodeKeys result) n else n"
  have rows: "runtimeJobs s' = mput (job_key ?job) ?job (runtimeJobs s)"
    "runtimePlans s' = mput (runtimePlanKey (jp_TenantID (gr_Plan result)) (jp_ID (gr_Plan result))) (gr_Plan result) (runtimePlans s)"
    "runtimeNodes s' = mmap ?f (mput_all node_key nodes (runtimeNodes s))"
    and scope: "check_all (patch_node_check s ?job) nodes = None"
    using c unfolding ApplyGraphPatchCommand_def Let_def by (auto simp: check_nil_Inr require_Inr lookup_or_Inr)
  have "\<exists>k n. mget (runtimeNodes s') k = Some n \<and> in_job job n \<and> nr_NodeKey n = pn_Key spec"
    if spec: "spec \<in> set (jp_Nodes (gr_Plan result))" "pn_Key spec \<notin> pn_Key ` set (jp_Nodes plan)" for spec
  proof -
    obtain n where n: "n \<in> set nodes" "nr_NodeKey n = pn_Key spec"
      using added_nodes_all [OF spec(1), of "map pn_Key (jp_Nodes plan)"] spec(2) unfolding ns by fastforce
    have "distinct (map node_key nodes)" unfolding ns by (rule added_nodes_distinct [OF assms(2)])
    then have "mget (runtimeNodes s') (node_key n) = Some (?f n)" using n(1) by (simp add: rows(3) mget_mput_all_distinct)
    moreover have "nr_TenantID n = t" "nr_JobRunID n = jr_ID job" using added_nodes_pending n(1) unfolding ns by blast+
    moreover have "nr_TenantID n = jr_TenantID job"
      using check_all_None scope n(1) by (auto simp: patch_node_check_def patched_job_def split: option.splits if_splits)
    ultimately show ?thesis using n(2) by (auto simp: in_job_def cancel_node_scope intro!: exI [of _ "node_key n"] exI [of _ "?f n"])
  qed
  then show ?thesis using that [OF j p] rows by fastforce
qed

end
