(* ===== verification/Job_Start.thy ===== *)
theory Job_Start
  imports Compiler Sanitize Job_Control
begin

section \<open>Starting, checkpointing, forking and replaying jobs\<close>

text \<open>
  \<^verbatim>\<open>Start\<close>, \<^verbatim>\<open>Checkpoint\<close>, \<^verbatim>\<open>Fork\<close> and \<^verbatim>\<open>ReplayWithOptions\<close> of \<^verbatim>\<open>internal/runtime/service.go\<close>: admission of a job with
  its compiled plan and execution binding, and the three operations that look back at one.

  Identifiers from \<^verbatim>\<open>idgen\<close> are arguments: of the plan, the job, the \<open>i\<close>-th node, the event and the events
  of the refresh. \<open>hash\<close> is \<^verbatim>\<open>stablehash.Sum\<close> on the JSON tree. Slices passed to \<^verbatim>\<open>Checkpoint\<close>
  are taken to be non-nil. The receivers are never nil here.

  What is shown: a start is idempotent in its key; a fork takes over exactly the work the
  checkpoint recorded as done, whatever happened to the source since; a replay never finds a gap.
\<close>

subsection \<open>Start\<close>

record StartInput =
  si_TenantID :: string
  si_ProjectID :: string
  si_WorkTaskID :: string
  si_BusinessType :: string
  si_InputSnapshotID :: string
  si_BusinessOutputCount :: int
  si_SOP :: SOPVersion
  si_ExecutionBinding :: "ExecutionBindingSnapshot option"
  si_BindingDigest :: string
  si_InputDigest :: string
  si_RuntimePolicyID :: string
  si_ContractMajor :: int
  si_ContractMinor :: int
  si_Priority :: int
  si_CreatedBy :: string
  si_IdempotencyKey :: string
  si_CorrelationID :: string

record StartResult =
  sr_Plan :: JobPlanRevision
  sr_Job :: JobRun
  sr_Nodes :: "NodeRun list"

definition DefaultRuntimePolicyID :: string where
  "DefaultRuntimePolicyID = ''runtime.default/1''"

definition ExecutionBindingSnapshotSchema :: string where
  "ExecutionBindingSnapshotSchema = ''contentcloud.execution-binding/1.0''"

definition defaultExecutionBindingValue :: "string \<Rightarrow> string \<Rightarrow> string" where
  "defaultExecutionBindingValue value fallback = (let v = TrimSpace value in if v \<noteq> '''' then v else fallback)"

definition legacy_binding :: "StartInput \<Rightarrow> JobPlanRevision \<Rightarrow> time \<Rightarrow> ExecutionBindingSnapshot" where
  "legacy_binding input plan now =
     (let policyID = TrimSpace (si_RuntimePolicyID input) in
      \<lparr>eb_TenantID = si_TenantID input, eb_Digest = TrimSpace (si_BindingDigest input),
       eb_SchemaVersion = ExecutionBindingSnapshotSchema,
       eb_ProfileID = defaultExecutionBindingValue policyID ''runtime.legacy'', eb_ProfileVersion = ''legacy'',
       eb_ProfileDigest = '''', eb_RuntimePolicyID = defaultExecutionBindingValue policyID DefaultRuntimePolicyID,
       eb_HarnessKinds = [], eb_ProviderRef = '''', eb_ModelRef = '''', eb_EnvironmentID = '''',
       eb_EnvironmentDigest = '''', eb_PluginDigest = '''', eb_SkillDigest = '''', eb_MCPDigest = '''',
       eb_AllowedTools = [''child.list'', ''effect.status'', ''state.get'', ''state.query''],
       eb_SandboxProfile = ''legacy'', eb_IsolationProfile = ''legacy'', eb_EgressPolicy = ''legacy'', eb_Region = '''',
       eb_DataClassification = ''internal'', eb_MaxTokens = 8192, eb_MaxDurationSeconds = 3600,
       eb_MaxCostMinor = rl_MaxCostMinor (jp_Limits plan),
       eb_MaxDynamicDescendants = rl_MaxDynamicDescendants (jp_Limits plan), eb_FallbackPolicy = ''none'',
       eb_WorkspaceTemplateID = '''', eb_WorkspaceDigest = '''', eb_Legacy = True, eb_CreatedAt = now\<rparr>)"

definition structured_binding :: "StartInput \<Rightarrow> time \<Rightarrow> ExecutionBindingSnapshot \<Rightarrow> ExecutionBindingSnapshot" where
  "structured_binding input now b =
     binding_normalize (b\<lparr>eb_TenantID := TrimSpace (si_TenantID input),
       eb_SchemaVersion := (if eb_SchemaVersion b = '''' then ExecutionBindingSnapshotSchema else eb_SchemaVersion b),
       eb_CreatedAt := (if IsZero (eb_CreatedAt b) then now else eb_CreatedAt b), eb_Legacy := False\<rparr>)"

definition resolveExecutionBinding ::
    "(goany \<Rightarrow> string) \<Rightarrow> StartInput \<Rightarrow> JobPlanRevision \<Rightarrow> time \<Rightarrow> ExecutionBindingSnapshot res" where
  "resolveExecutionBinding hash input plan now =
     (let policyID = TrimSpace (si_RuntimePolicyID input) in
      case si_ExecutionBinding input of
        None \<Rightarrow> (let b = legacy_binding input plan now in check_nil (ExecutionBindingSnapshot_Validate hash b) (Inr b))
      | Some b0 \<Rightarrow>
          require (\<not> (TrimSpace (eb_TenantID b0) \<noteq> '''' \<and> TrimSpace (eb_TenantID b0) \<noteq> TrimSpace (si_TenantID input)))
            (Invalid ''EXECUTION_BINDING_TENANT_MISMATCH'') (
          let b1 = structured_binding input now b0; digest = ContentDigest hash b1 in
          require (eb_SchemaVersion b1 = ExecutionBindingSnapshotSchema) (Invalid ''EXECUTION_BINDING_SCHEMA_UNSUPPORTED'') (
          require (\<not> (policyID \<noteq> '''' \<and> TrimSpace (eb_RuntimePolicyID b0) \<noteq> policyID))
            (Invalid ''EXECUTION_BINDING_POLICY_MISMATCH'') (
          require (\<not> (\<not> blank (si_BindingDigest input) \<and> TrimSpace (si_BindingDigest input) \<noteq> digest))
            (Conflict ''EXECUTION_BINDING_DIGEST_MISMATCH'') (
          let b = b1\<lparr>eb_Digest := digest\<rparr> in
          check_nil (ExecutionBindingSnapshot_Validate hash b) (Inr b))))))"

definition ensureExecutionBindingSnapshot :: "(goany \<Rightarrow> string) \<Rightarrow> ExecutionBindingSnapshot \<Rightarrow> unit svc" where
  "ensureExecutionBindingSnapshot hash b =
     try_svc (exec (CreateExecutionBindingSnapshot hash b)) (\<lambda>r.
       case r of Inr _ \<Rightarrow> ret ()
       | Inl err \<Rightarrow>
           try_svc (query (Store_ExecutionBindingSnapshot (eb_TenantID b) (eb_Digest b))) (\<lambda>l.
             case l of Inl _ \<Rightarrow> fail err
             | Inr existing \<Rightarrow> guard_svc (ContentDigest hash existing = ContentDigest hash b)
                 (Conflict ''EXECUTION_BINDING_SNAPSHOT_CONFLICT'') (ret ())))"

definition sameStartAdmission :: "JobRun \<Rightarrow> JobRun \<Rightarrow> bool" where
  "sameStartAdmission existing requested =
     (jr_ProjectID existing = jr_ProjectID requested \<and> jr_WorkTaskID existing = jr_WorkTaskID requested
      \<and> jr_PlanDigest existing = jr_PlanDigest requested \<and> jr_BindingDigest existing = jr_BindingDigest requested
      \<and> jr_InputDigest existing = jr_InputDigest requested
      \<and> jr_RuntimePolicyID existing = jr_RuntimePolicyID requested
      \<and> jr_ContractMajor existing = jr_ContractMajor requested \<and> jr_ContractMinor existing = jr_ContractMinor requested
      \<and> jr_BusinessType existing = jr_BusinessType requested
      \<and> jr_InputSnapshotID existing = jr_InputSnapshotID requested
      \<and> jr_BusinessOutputCount existing = jr_BusinessOutputCount requested
      \<and> jr_Priority existing = jr_Priority requested \<and> jr_SourceJobRunID existing = '''' \<and> jr_CheckpointID existing = '''')"

definition loadIdempotentStart :: "JobRun \<Rightarrow> JobRun \<Rightarrow> StartResult svc" where
  "loadIdempotentStart existing requested =
     guard_svc (sameStartAdmission existing requested) (Conflict ''JOB_RUN_IDEMPOTENCY_MISMATCH'') (
     bind_svc (query (Store_Plan (jr_TenantID existing) (jr_PlanRevisionID existing))) (\<lambda>plan.
     bind_svc (query (\<lambda>s. Inr (NodeRuns (jr_TenantID existing) (jr_ID existing) s))) (\<lambda>nodes.
     ret \<lparr>sr_Plan = plan, sr_Job = existing, sr_Nodes = nodes\<rparr>)))"

definition start_job :: "StartInput \<Rightarrow> string \<Rightarrow> JobPlanRevision \<Rightarrow> ExecutionBindingSnapshot \<Rightarrow> time \<Rightarrow> JobRun" where
  "start_job input jobID plan binding now =
     \<lparr>jr_ID = jobID, jr_TenantID = si_TenantID input, jr_ProjectID = si_ProjectID input,
      jr_WorkTaskID = si_WorkTaskID input,
      jr_BusinessType = (let b = TrimSpace (si_BusinessType input) in if b = '''' then ''runtime.job'' else b),
      jr_InputSnapshotID = TrimSpace (si_InputSnapshotID input),
      jr_BusinessOutputCount = si_BusinessOutputCount input, jr_PlanRevisionID = jp_ID plan,
      jr_PlanDigest = jp_Digest plan, jr_BindingDigest = eb_Digest binding,
      jr_InputDigest = TrimSpace (si_InputDigest input), jr_RuntimePolicyID = eb_RuntimePolicyID binding,
      jr_ContractMajor = si_ContractMajor input, jr_ContractMinor = si_ContractMinor input, jr_RootJobRunID = jobID,
      jr_SourceJobRunID = '''', jr_CheckpointID = '''', jr_IdempotencyKey = TrimSpace (si_IdempotencyKey input),
      jr_State = JobRunCreated, jr_Priority = si_Priority input, jr_Version = 1, jr_ErrorCode = '''',
      jr_CreatedBy = si_CreatedBy input, jr_CreatedAt = now, jr_UpdatedAt = now\<rparr>"

text \<open>A plan is shared by its digest: when it exists already, the stored revision is used.\<close>

definition store_plan :: "JobPlanRevision \<Rightarrow> string \<Rightarrow> JobPlanRevision svc" where
  "store_plan plan tenantID =
     try_svc (exec (CreatePlan plan)) (\<lambda>r.
       case r of Inr _ \<Rightarrow> ret plan
       | Inl err \<Rightarrow>
           bind_svc (query (\<lambda>s. Inr (Plans tenantID s))) (\<lambda>plans.
           case find (\<lambda>c. jp_Digest c = jp_Digest plan) plans of
             Some candidate \<Rightarrow> ret candidate | None \<Rightarrow> fail err))"

definition start_nodes :: "(nat \<Rightarrow> string) \<Rightarrow> string \<Rightarrow> string \<Rightarrow> time \<Rightarrow> JobPlanNode list \<Rightarrow> NodeRun list" where
  "start_nodes nid tenantID jobID now specs =
     map2 (\<lambda>i spec. new_node_run tenantID jobID (pn_Key spec) (nid i) now) [0..<length specs] specs"

definition start_event :: "string \<Rightarrow> StartInput \<Rightarrow> JobPlanRevision \<Rightarrow> JobRun \<Rightarrow> nat \<Rightarrow> time \<Rightarrow> JobEvent" where
  "start_event eid input plan job n now =
     (new_event eid (si_TenantID input) (jr_ID job) '''' ''job.created'' ''user'' (si_CreatedBy input) (si_IdempotencyKey input)
        [(''plan_digest'', AStr (jp_Digest plan)), (''binding_digest'', AStr (jr_BindingDigest job)),
         (''input_digest'', AStr (jr_InputDigest job)), (''runtime_policy_id'', AStr (jr_RuntimePolicyID job)),
         (''contract_major'', AInt (jr_ContractMajor job)), (''contract_minor'', AInt (jr_ContractMinor job)),
         (''node_count'', AInt (int n))] now)\<lparr>je_Sequence := 1, je_CorrelationID := si_CorrelationID input\<rparr>"

definition started :: "(string \<Rightarrow> string) \<Rightarrow> time \<Rightarrow> string \<Rightarrow> JobPlanRevision \<Rightarrow> JobRun \<Rightarrow> StartResult svc" where
  "started ids now tenantID plan job0 =
     bind_svc (refresh ids now job0) (\<lambda>_.
     bind_svc (query (Store_JobRun tenantID (jr_ID job0))) (\<lambda>job.
     bind_svc (query (\<lambda>s. Inr (NodeRuns tenantID (jr_ID job) s))) (\<lambda>nodes.
     ret \<lparr>sr_Plan = plan, sr_Job = job, sr_Nodes = nodes\<rparr>)))"

text \<open>The identifiers a start draws.\<close>

record start_ids =
  id_plan :: string
  id_job :: string
  id_node :: "nat \<Rightarrow> string"
  id_event :: string
  id_refresh :: "string \<Rightarrow> string"

definition bundle_job :: "start_ids \<Rightarrow> time \<Rightarrow> StartInput \<Rightarrow> JobPlanRevision \<Rightarrow> JobRun \<Rightarrow> StartResult svc" where
  "bundle_job new now input plan job =
     (let nodes = start_nodes (id_node new) (si_TenantID input) (jr_ID job) now (jp_Nodes plan) in
      try_svc (exec (CreateJobBundle job nodes (start_event (id_event new) input plan job (length nodes) now))) (\<lambda>r.
        case r of
          Inr _ \<Rightarrow> started (id_refresh new) now (si_TenantID input) plan job
        | Inl err \<Rightarrow>
            (if jr_IdempotencyKey job = '''' then fail err
             else try_svc (query (JobRunByIdempotencyKey (si_TenantID input) (jr_IdempotencyKey job))) (\<lambda>l.
               case l of Inr existing \<Rightarrow> loadIdempotentStart existing job | Inl _ \<Rightarrow> fail err))))"

definition admit_job ::
    "Service \<Rightarrow> (goany \<Rightarrow> string) \<Rightarrow> start_ids \<Rightarrow> time \<Rightarrow> StartInput \<Rightarrow> JobPlanRevision \<Rightarrow> ExecutionBindingSnapshot
     \<Rightarrow> JobRun \<Rightarrow> StartResult svc" where
  "admit_job sv hash new now input plan0 binding job =
     check_svc (requireAdmission sv (si_TenantID input)) (
     bind_svc (ensureExecutionBindingSnapshot hash binding) (\<lambda>_.
     bind_svc (store_plan plan0 (si_TenantID input)) (\<lambda>plan.
     bundle_job new now input plan (job\<lparr>jr_PlanRevisionID := jp_ID plan\<rparr>))))"

definition Start ::
    "Service \<Rightarrow> (goany \<Rightarrow> string) \<Rightarrow> RuntimeLimits \<Rightarrow> start_ids \<Rightarrow> time \<Rightarrow> StartInput \<Rightarrow> StartResult svc" where
  "Start sv hash limits new now input =
     guard_svc (\<not> (blank (si_TenantID input) \<or> blank (si_ProjectID input) \<or> blank (si_WorkTaskID input)))
       (Invalid ''JOB_RUN_INPUT_INVALID'') (
     bind_svc (query (\<lambda>_. CompileSOP hash (id_plan new) limits (si_SOP input) (si_TenantID input) (si_CreatedBy input) now)) (\<lambda>plan.
     bind_svc (query (\<lambda>_. resolveExecutionBinding hash input plan now)) (\<lambda>binding.
     let job = start_job input (id_job new) plan binding now in
     check_svc (JobRun_Validate job) (
     if jr_IdempotencyKey job = '''' then admit_job sv hash new now input plan binding job
     else try_svc (query (JobRunByIdempotencyKey (si_TenantID input) (jr_IdempotencyKey job))) (\<lambda>l.
       case l of
         Inr existing \<Rightarrow> loadIdempotentStart existing job
       | Inl e \<Rightarrow> (if \<not> IsNotFound e then fail e else admit_job sv hash new now input plan binding job))))))"

subsection \<open>Checkpoint\<close>

fun state_watermarks :: "StateCollection list \<Rightarrow> int gomap \<Rightarrow> int gomap" where
  "state_watermarks [] m = m"
| "state_watermarks (c # cs) m = state_watermarks cs (mput (sc_CollectionKey c) (sc_Revision c) m)"

text \<open>\<^verbatim>\<open>json.Marshal\<close> prints the keys of a map in order.\<close>

definition checkpoint_json :: "JobRun \<Rightarrow> JobPlanRevision \<Rightarrow> Checkpoint \<Rightarrow> goany" where
  "checkpoint_json job plan c = AObj
     [(''Job'', AStr (jr_ID job)), (''Plan'', AStr (jp_Digest plan)), (''Node'', AStr (cp_NodeKey c)),
      (''Completed'', AStrs (cp_CompletedNodes c)), (''State'', AStrs (cp_StateRefs c)), (''Output'', AStrs (cp_OutputRefs c)),
      (''EventCursor'', AInt (cp_EventCursor c)),
      (''StateWatermarks'', AObj (map (\<lambda>(k, r). (k, AInt r)) (sort_by (\<lambda>a b. fst a < fst b) (cp_StateWatermarks c))))]"

definition new_checkpoint ::
    "string \<Rightarrow> string \<Rightarrow> string \<Rightarrow> string \<Rightarrow> JobPlanRevision \<Rightarrow> string list \<Rightarrow> string list \<Rightarrow> NodeRun list \<Rightarrow> nat
     \<Rightarrow> StateCollection list \<Rightarrow> time \<Rightarrow> Checkpoint" where
  "new_checkpoint i tenantID jobID nodeKey plan stateRefs outputRefs nodes n collections now =
     \<lparr>cp_ID = i, cp_TenantID = tenantID, cp_JobRunID = jobID, cp_NodeKey = nodeKey, cp_PlanDigest = jp_Digest plan,
      cp_StateRefs = stateRefs, cp_StateWatermarks = state_watermarks collections [], cp_OutputRefs = outputRefs,
      cp_CompletedNodes = sort (map nr_NodeKey (filter (\<lambda>n. finished (nr_State n)) nodes)),
      cp_EventCursor = int n, cp_SideEffectWatermark = '''', cp_ParentCheckpointID = '''', cp_Digest = '''',
      cp_CreatedAt = now\<rparr>"

definition Service_Checkpoint ::
    "(goany \<Rightarrow> string) \<Rightarrow> string \<Rightarrow> time \<Rightarrow> string \<Rightarrow> string \<Rightarrow> string \<Rightarrow> string list \<Rightarrow> string list \<Rightarrow> Checkpoint svc" where
  "Service_Checkpoint hash i now tenantID jobID nodeKey stateRefs outputRefs =
     bind_svc (query (Store_JobRun tenantID jobID)) (\<lambda>job.
     bind_svc (query (Store_Plan tenantID (jr_PlanRevisionID job))) (\<lambda>plan.
     bind_svc (query (\<lambda>s. Inr (NodeRuns tenantID jobID s))) (\<lambda>nodes.
     bind_svc (query (JobEvents tenantID jobID 0)) (\<lambda>events.
     bind_svc (query (\<lambda>s. Inr (StateCollections tenantID jobID s))) (\<lambda>collections.
     let c = new_checkpoint i tenantID jobID nodeKey plan stateRefs outputRefs nodes (length events) collections now;
         checkpoint = c\<lparr>cp_Digest := ''sha256:'' @ hash (checkpoint_json job plan c)\<rparr> in
     bind_svc (exec (CreateCheckpoint checkpoint)) (\<lambda>_. ret checkpoint))))))"

subsection \<open>Fork\<close>

definition load_fork :: "Checkpoint \<Rightarrow> JobRun \<Rightarrow> string \<Rightarrow> JobRun \<Rightarrow> StartResult svc" where
  "load_fork checkpoint source tenantID existing =
     guard_svc (\<not> (jr_CheckpointID existing \<noteq> cp_ID checkpoint \<or> jr_SourceJobRunID existing \<noteq> jr_ID source))
       (Conflict ''JOB_RUN_IDEMPOTENCY_MISMATCH'') (
     bind_svc (query (Store_Plan tenantID (jr_PlanRevisionID existing))) (\<lambda>plan.
     bind_svc (query (\<lambda>s. Inr (NodeRuns tenantID (jr_ID existing) s))) (\<lambda>nodes.
     ret \<lparr>sr_Plan = plan, sr_Job = existing, sr_Nodes = nodes\<rparr>)))"

definition fork_job :: "string \<Rightarrow> string \<Rightarrow> string \<Rightarrow> string \<Rightarrow> JobPlanRevision \<Rightarrow> JobRun \<Rightarrow> Checkpoint \<Rightarrow> time \<Rightarrow> JobRun" where
  "fork_job jobID tenantID createdBy key plan source checkpoint now =
     \<lparr>jr_ID = jobID, jr_TenantID = tenantID, jr_ProjectID = jr_ProjectID source, jr_WorkTaskID = jr_WorkTaskID source,
      jr_BusinessType = '''', jr_InputSnapshotID = '''', jr_BusinessOutputCount = 0, jr_PlanRevisionID = jp_ID plan,
      jr_PlanDigest = jp_Digest plan, jr_BindingDigest = jr_BindingDigest source,
      jr_InputDigest = jr_InputDigest source, jr_RuntimePolicyID = jr_RuntimePolicyID source,
      jr_ContractMajor = jr_ContractMajor source, jr_ContractMinor = jr_ContractMinor source,
      jr_RootJobRunID = (if jr_RootJobRunID source = '''' then jr_ID source else jr_RootJobRunID source),
      jr_SourceJobRunID = jr_ID source, jr_CheckpointID = cp_ID checkpoint, jr_IdempotencyKey = key,
      jr_State = JobRunCreated, jr_Priority = jr_Priority source, jr_Version = 1, jr_ErrorCode = '''',
      jr_CreatedBy = createdBy, jr_CreatedAt = now, jr_UpdatedAt = now\<rparr>"

definition fork_node ::
    "NodeRun gomap \<Rightarrow> string list \<Rightarrow> string \<Rightarrow> string \<Rightarrow> time \<Rightarrow> string \<Rightarrow> JobPlanNode \<Rightarrow> NodeRun" where
  "fork_node sourceByKey completed tenantID jobID now i spec =
     (let node = new_node_run tenantID jobID (pn_Key spec) i now in
      if pn_Key spec \<in> set completed then
        case mget sourceByKey (pn_Key spec) of
          Some sourceNode \<Rightarrow> node\<lparr>nr_State := nr_State sourceNode, nr_OutputRefs := nr_OutputRefs sourceNode,
                                 nr_OutputDigest := nr_OutputDigest sourceNode\<rparr>
        | None \<Rightarrow> node
      else node)"

definition fork_nodes ::
    "(nat \<Rightarrow> string) \<Rightarrow> NodeRun gomap \<Rightarrow> string list \<Rightarrow> string \<Rightarrow> string \<Rightarrow> time \<Rightarrow> JobPlanNode list \<Rightarrow> NodeRun list" where
  "fork_nodes nid sourceByKey completed tenantID jobID now specs =
     map2 (\<lambda>i spec. fork_node sourceByKey completed tenantID jobID now (nid i) spec) [0..<length specs] specs"

definition checkpoint_drift :: "NodeRun gomap \<Rightarrow> string \<Rightarrow> fault option" where
  "checkpoint_drift sourceByKey key =
     (case mget sourceByKey key of
        None \<Rightarrow> Some (Conflict ''RUNTIME_CHECKPOINT_NODE_DRIFT'')
      | Some node \<Rightarrow> (if nr_State node \<noteq> NodeSucceeded \<and> nr_State node \<noteq> NodeSkipped
                      then Some (Conflict ''RUNTIME_CHECKPOINT_NODE_DRIFT'') else None))"

definition fork_event ::
    "string \<Rightarrow> string \<Rightarrow> string \<Rightarrow> string \<Rightarrow> string \<Rightarrow> JobPlanRevision \<Rightarrow> JobRun \<Rightarrow> Checkpoint \<Rightarrow> time \<Rightarrow> JobEvent" where
  "fork_event eid tenantID jobID createdBy key plan source checkpoint now =
     (new_event eid tenantID jobID '''' ''job.forked'' ''user'' createdBy key
        [(''source_job_run_id'', AStr (jr_ID source)), (''checkpoint_id'', AStr (cp_ID checkpoint)),
         (''plan_digest'', AStr (jp_Digest plan)),
         (''reused_completed_nodes'', AInt (int (length (remdups (cp_CompletedNodes checkpoint))))),
         (''reused_output_refs'', AInt (int (length (cp_OutputRefs checkpoint))))] now)\<lparr>je_Sequence := 1\<rparr>"

definition fork_from ::
    "Service \<Rightarrow> start_ids \<Rightarrow> time \<Rightarrow> string \<Rightarrow> Checkpoint \<Rightarrow> JobRun \<Rightarrow> string \<Rightarrow> string \<Rightarrow> StartResult svc" where
  "fork_from sv new now tenantID checkpoint source createdBy key =
     check_svc (requireAdmission sv tenantID) (
     bind_svc (query (Store_Plan tenantID (jr_PlanRevisionID source))) (\<lambda>plan.
     guard_svc (\<not> (cp_PlanDigest checkpoint \<noteq> jp_Digest plan \<or> jr_PlanDigest source \<noteq> jp_Digest plan))
       (Conflict ''RUNTIME_CHECKPOINT_PLAN_DRIFT'') (
     guard_svc (settled_job (jr_State source)) (Policy ''RUNTIME_FORK_SOURCE_ACTIVE'') (
     guard_svc (cp_StateWatermarks checkpoint = []) (Policy ''RUNTIME_FORK_STATE_INHERITANCE_UNAVAILABLE'') (
     bind_svc (query (\<lambda>s. Inr (Effects tenantID (jr_ID source) s))) (\<lambda>effects.
     guard_svc (\<not> list_ex (\<lambda>e. ee_State e = EffectUnknown \<or> ee_State e = EffectReconciling) effects)
       (Policy ''RUNTIME_FORK_EFFECT_UNRESOLVED'') (
     bind_svc (query (\<lambda>s. Inr (NodeRuns tenantID (jr_ID source) s))) (\<lambda>sourceNodes.
     let sourceByKey = mput_all nr_NodeKey sourceNodes [];
         job = fork_job (id_job new) tenantID createdBy key plan source checkpoint now;
         nodes = fork_nodes (id_node new) sourceByKey (cp_CompletedNodes checkpoint) tenantID (jr_ID job) now (jp_Nodes plan) in
     check_svc (check_all (checkpoint_drift sourceByKey) (cp_CompletedNodes checkpoint)) (
     bind_svc (exec (CreateJobBundle job nodes
       (fork_event (id_event new) tenantID (jr_ID job) createdBy key plan source checkpoint now))) (\<lambda>_.
     started (id_refresh new) now tenantID plan job))))))))))"

definition Fork :: "Service \<Rightarrow> start_ids \<Rightarrow> time \<Rightarrow> string \<Rightarrow> string \<Rightarrow> string \<Rightarrow> string \<Rightarrow> StartResult svc" where
  "Fork sv new now tenantID checkpointID createdBy idempotencyKey =
     bind_svc (query (Store_Checkpoint tenantID checkpointID)) (\<lambda>checkpoint.
     bind_svc (query (Store_JobRun tenantID (cp_JobRunID checkpoint))) (\<lambda>source.
     let key = TrimSpace idempotencyKey in
     if key = '''' then fork_from sv new now tenantID checkpoint source createdBy key
     else try_svc (query (JobRunByIdempotencyKey tenantID key)) (\<lambda>l.
       case l of
         Inr existing \<Rightarrow> load_fork checkpoint source tenantID existing
       | Inl e \<Rightarrow> (if \<not> IsNotFound e then fail e
                   else fork_from sv new now tenantID checkpoint source createdBy key))))"

subsection \<open>Replay\<close>

record ReplayResult =
  rp_TenantID :: string
  rp_JobRunID :: string
  rp_RebuildRunID :: string
  rp_DryRun :: bool
  rp_EventCount :: int
  rp_LastSequence :: int
  rp_ExternalCalls :: int
  rp_ProjectionRebuilt :: bool
  rp_IntegrityStatus :: string

fun replay_nodes :: "string list \<Rightarrow> string list \<Rightarrow> NodeRun list \<Rightarrow> string list res" where
  "replay_nodes planNodes seen [] = Inr seen"
| "replay_nodes planNodes seen (node # nodes) =
     (if nr_NodeKey node \<notin> set planNodes then Inl (Conflict ''RUNTIME_REPLAY_NODE_DRIFT'')
      else if nr_NodeKey node \<in> set seen then Inl (Conflict ''RUNTIME_REPLAY_NODE_DUPLICATE'')
      else replay_nodes planNodes (nr_NodeKey node # seen) nodes)"

definition replay_gap :: "JobEvent list \<Rightarrow> fault option" where
  "replay_gap events =
     (if list_all2 (\<lambda>i e. je_Sequence e = int i + 1) [0..<length events] events then None
      else Some (Conflict ''RUNTIME_REPLAY_EVENT_GAP''))"

definition replay_view :: "string \<Rightarrow> string \<Rightarrow> JobRun \<Rightarrow> NodeRun list \<Rightarrow> JobEvent list \<Rightarrow> time \<Rightarrow> RuntimeExplorerView" where
  "replay_view tenantID jobID job nodes events now =
     \<lparr>rv_TenantID = tenantID, rv_JobRunID = jobID, rv_Job = job, rv_Nodes = nodes,
      rv_LastEventSeq = (if events = [] then 0 else je_Sequence (last events)), rv_ProjectedAt = now,
      rv_SourceEventID = (if events = [] then '''' else je_ID (last events))\<rparr>"

definition replay_body ::
    "time \<Rightarrow> string \<Rightarrow> string \<Rightarrow> int \<Rightarrow> bool \<Rightarrow> ReplayResult \<Rightarrow> ReplayResult svc" where
  "replay_body now tenantID jobID after dryRun result =
     bind_svc (query (Store_JobRun tenantID jobID)) (\<lambda>job.
     bind_svc (query (Store_Plan tenantID (jr_PlanRevisionID job))) (\<lambda>plan.
     guard_svc (jr_PlanDigest job = jp_Digest plan) (Conflict ''RUNTIME_REPLAY_PLAN_DRIFT'') (
     bind_svc (query (\<lambda>s. Inr (NodeRuns tenantID jobID s))) (\<lambda>nodes.
     let planNodes = remdups (map pn_Key (jp_Nodes plan)) in
     bind_svc (query (\<lambda>_. replay_nodes planNodes [] nodes)) (\<lambda>seen.
     guard_svc (length seen = length planNodes) (Conflict ''RUNTIME_REPLAY_NODE_MISSING'') (
     bind_svc (query (JobEvents tenantID jobID 0)) (\<lambda>events.
     check_svc (replay_gap events) (
     let view = replay_view tenantID jobID job nodes events now in
     bind_svc (if dryRun then ret () else exec (SaveRuntimeExplorer view)) (\<lambda>_.
     ret (result\<lparr>rp_EventCount := int (length (filter (\<lambda>e. je_Sequence e > after) events)),
                 rp_LastSequence := rv_LastEventSeq view, rp_ExternalCalls := 0, rp_ProjectionRebuilt := \<not> dryRun,
                 rp_IntegrityStatus := ''verified''\<rparr>))))))))))"

definition finish_rebuild ::
    "time \<Rightarrow> RuntimeProjectionRebuildRun \<Rightarrow> ReplayResult \<Rightarrow> string \<Rightarrow> string \<Rightarrow> string \<Rightarrow> RuntimeProjectionRebuildRun" where
  "finish_rebuild now run result status integrity errCode =
     run\<lparr>pr_Status := status, pr_IntegrityStatus := integrity, pr_ErrorCode := errCode, pr_FinishedAt := Some now,
         pr_Version := pr_Version run + 1, pr_EventCount := rp_EventCount result,
         pr_LastSequence := rp_LastSequence result, pr_ExternalCalls := rp_ExternalCalls result\<rparr>"

definition ReplayWithOptions :: "string \<Rightarrow> time \<Rightarrow> string \<Rightarrow> string \<Rightarrow> int \<Rightarrow> bool \<Rightarrow> ReplayResult svc" where
  "ReplayWithOptions runID now tenantID jobID after dryRun =
     (let run = \<lparr>pr_ID = runID, pr_TenantID = tenantID, pr_JobRunID = jobID,
                 pr_Mode = (if dryRun then ''dry_run'' else ''rebuild''), pr_Status = ''running'', pr_EventCount = 0,
                 pr_LastSequence = 0, pr_ExternalCalls = 0, pr_IntegrityStatus = ''running'', pr_ErrorCode = '''',
                 pr_StartedAt = now, pr_FinishedAt = None, pr_Version = 1\<rparr>;
          result0 = \<lparr>rp_TenantID = tenantID, rp_JobRunID = jobID, rp_RebuildRunID = runID, rp_DryRun = dryRun,
                     rp_EventCount = 0, rp_LastSequence = 0, rp_ExternalCalls = 0, rp_ProjectionRebuilt = False,
                     rp_IntegrityStatus = ''''\<rparr> in
      bind_svc (exec (CreateRuntimeProjectionRebuild run)) (\<lambda>_.
      try_svc (replay_body now tenantID jobID after dryRun result0) (\<lambda>r.
        case r of
          Inl err \<Rightarrow>
            bind_svc (attempt_svc (exec (UpdateRuntimeProjectionRebuild
              (finish_rebuild now run result0 ''failed'' ''failed'' (errorCode err ''RUNTIME_REPLAY_FAILED'')) 1))) (\<lambda>_. fail err)
        | Inr result \<Rightarrow>
            bind_svc (exec (UpdateRuntimeProjectionRebuild (finish_rebuild now run result ''completed'' ''verified'' '''') 1))
              (\<lambda>_. ret result))))"

definition Replay :: "string \<Rightarrow> time \<Rightarrow> string \<Rightarrow> string \<Rightarrow> int \<Rightarrow> ReplayResult svc" where
  "Replay runID now tenantID jobID after = ReplayWithOptions runID now tenantID jobID after False"

subsection \<open>What a refresh leaves alone\<close>

definition jobs_same :: "Store \<Rightarrow> Store \<Rightarrow> bool" where
  "jobs_same s s' = (runtimeJobs s' = runtimeJobs s \<and> runtimePlans s' = runtimePlans s)"

lemma jobs_same_refl [simp]: "jobs_same s s"
  by (simp add: jobs_same_def)

lemma jobs_same_trans: "jobs_same s s1 \<Longrightarrow> jobs_same s1 s2 \<Longrightarrow> jobs_same s s2"
  by (simp add: jobs_same_def)

lemma jobs_same_run: "jobs_same\<^sup>*\<^sup>* s s' \<Longrightarrow> jobs_same s s'"
  by (induction rule: rtranclp_induct) (auto intro: jobs_same_trans)

lemma cancel_members_jobs: "jobs_same s (fst (cancel_members current at key ms found s))"
  by (induction current at key ms found s rule: cancel_members.induct)
    (auto simp: jobs_same_def split: option.split)

lemma cancel_loop_jobs: "jobs_same s (fst (cancel_loop current at keys s))"
proof (induction keys arbitrary: s)
  case (Cons key keys)
  obtain s1 r where c: "cancel_members current at key (runtimeFanoutMembers s) False s = (s1, r)" by fastforce
  with cancel_members_jobs [of s current at key] have 1: "jobs_same s s1" by (metis fst_conv)
  then show ?case using jobs_same_trans [OF 1 Cons.IH] by (cases r) (simp_all add: c)
qed simp

lemma join_jobs [svc_steps]: "steps_of jobs_same (ApplyFanoutJoinCommand f x ms keys e)"
proof -
  have "jobs_same s (fst (ApplyFanoutJoinCommand f x ms keys e s))" for s
  proof (cases "join_checks f x ms e s")
    case (Inr current)
    let ?s1 = "s\<lparr>runtimeFanoutMembers := mput_all member_key ms (runtimeFanoutMembers s)\<rparr>"
    obtain s2 r where c: "cancel_loop current (je_OccurredAt e) keys ?s1 = (s2, r)" by fastforce
    with cancel_loop_jobs [of ?s1 current "je_OccurredAt e" keys] have "jobs_same s s2" by (simp add: jobs_same_def)
    then show ?thesis by (cases r) (simp_all add: ApplyFanoutJoinCommand_def Inr c jobs_same_def)
  qed (simp add: ApplyFanoutJoinCommand_def)
  then show ?thesis by (auto simp: steps_of_def)
qed

lemma node_jobs [svc_steps]: "steps_of jobs_same (exec (ApplyNodeTransition n x e))"
  by (rule steps_of_exec) (auto simp: jobs_same_def dest!: ApplyNodeTransition_ok)

interpretation same_jobs: node_steps jobs_same
  by unfold_locales (rule node_jobs join_jobs)+

lemma steps_of_jobs: "steps_of jobs_same m \<Longrightarrow> jobs_same s (fst (m s))"
  by (rule jobs_same_run) (simp add: steps_of_def)

lemmas refreshFanoutJoins_jobs = steps_of_jobs [OF same_jobs.refreshFanoutJoins_steps]
lemmas refresh_nodes_jobs = steps_of_jobs [OF same_jobs.refresh_nodes_steps]

text \<open>A new job is admitted by its first refresh: its own row moves on, no other.\<close>

lemma refresh_created:
  assumes "refresh ids now job s = (s', Inr job')" and "jr_State job = JobRunCreated"
  shows "runtimeJobs s' = mput (job_key job) (job\<lparr>jr_State := JobRunAdmitted, jr_Version := jr_Version job + 1, jr_UpdatedAt := now\<rparr>)
      (runtimeJobs s)"
    and "runtimePlans s' = runtimePlans s"
    and "\<exists>plan. Store_Plan (jr_TenantID job) (jr_PlanRevisionID job) s = Inr plan"
proof -
  let ?j = "job\<lparr>jr_State := JobRunAdmitted, jr_Version := jr_Version job + 1, jr_UpdatedAt := now\<rparr>"
  from assms obtain plan s1 u sets nodes s2 ch nodes' where
    p: "Store_Plan (jr_TenantID job) (jr_PlanRevisionID job) s = Inr plan"
    and j: "refreshFanoutJoins ids now job s = (s1, Inr u)"
    and n: "refresh_nodes ids now job sets (jp_Nodes plan) (mput_all nr_NodeKey nodes []) False s1 = (s2, Inr ch)"
    and r: "refresh_job ids now job nodes' s2 = (s', Inr job')"
    by (auto simp: refresh_def settled_job_def svc_Inr)
  have same: "jobs_same s s2"
    using jobs_same_trans refreshFanoutJoins_jobs [of s ids now job] refresh_nodes_jobs [of s1 ids now job] j n
    by (metis fst_conv)
  from r assms(2) obtain x e v where "ApplyJobTransition ?j x e s2 = Inr (s', v)"
    by (auto simp: refresh_job_def next_job_state_def Let_def svc_Inr)
  from ApplyJobTransition_ok [OF this] have t: "runtimeJobs s' = mput (job_key ?j) ?j (runtimeJobs s2)"
    "runtimePlans s' = runtimePlans s2" by auto
  have "job_key ?j = job_key job" by (simp add: job_key_def)
  with t same show "runtimeJobs s' = mput (job_key job) ?j (runtimeJobs s)" "runtimePlans s' = runtimePlans s"
    by (simp_all add: jobs_same_def)
  from p show "\<exists>plan. Store_Plan (jr_TenantID job) (jr_PlanRevisionID job) s = Inr plan" by blast
qed

lemma refresh_keeps_finished:
  assumes "store_ok s"
  shows "keeps_finished s (fst (refresh ids now job s))"
proof (cases "settled_job (jr_State job) \<or> (\<exists>e. Store_Plan (jr_TenantID job) (jr_PlanRevisionID job) s = Inl e)")
  case True
  then have "fst (refresh ids now job s) = s" by (auto simp: refresh_def svc_simps bind_svc_def)
  then show ?thesis by (simp add: keeps_finished_def)
next
  case False
  then obtain plan where ns: "\<not> settled_job (jr_State job)"
    and p: "Store_Plan (jr_TenantID job) (jr_PlanRevisionID job) s = Inr plan"
    by (cases "Store_Plan (jr_TenantID job) (jr_PlanRevisionID job) s") auto
  let ?s1 = "fst (refreshFanoutJoins ids now job s)"
  have run: "store_step\<^sup>*\<^sup>* s ?s1" using store_runs.refreshFanoutJoins_steps [of ids now job] by (simp add: steps_of_def)
  have oc: "keyed node_key (runtimeNodes ?s1)"
    "\<And>k n. mget (runtimeNodes ?s1) k = Some n \<Longrightarrow> mget (runtimeNodes s) k = Some n \<or> nr_State n = NodeCancelled"
    using refreshFanoutJoins_only [of s ids now job] store_ok_keyed [OF assms] unfolding only_cancels_def by blast+
  have 1: "keeps_finished s ?s1"
    unfolding keeps_finished_def
  proof (intro allI impI)
    fix k n assume n: "mget (runtimeNodes s) k = Some n" "finished (nr_State n)"
    then have "node_terminal (nr_State n)" by (auto simp: finished_def)
    with store_nodes.terminal_frozen run_ok [OF run assms] n(1)
    obtain n' where n': "mget (runtimeNodes ?s1) k = Some n'" "nr_State n' = nr_State n" by blast
    with oc(2) [OF n'(1)] n show "mget (runtimeNodes ?s1) k = Some n" by (auto simp: finished_def)
  qed
  from ns p show ?thesis
  proof (cases rule: refresh_phases [where ids = ids and now = now])
    case joins
    then show ?thesis using 1 by simp
  next
    case (nodes s1 s2 sets byKey)
    have "released_between job sets (jp_Nodes plan) s1 s2"
      unfolding nodes(4) by (rule refresh_nodes_sound, unfold nodes(3), rule table_ok_initial) (use nodes(1) oc(1) in simp)
    then have "keeps_finished s s2" using keeps_finished_trans [OF 1] nodes(1) by (simp add: released_between_def)
    then show ?thesis using nodes(5) by (simp add: keeps_finished_def)
  qed
qed

subsection \<open>Starting again\<close>

lemma compile_again:
  assumes "CompileSOP hash i l sop t by now = Inr plan" and "i' \<noteq> ''''"
  shows "CompileSOP hash i' l sop t by now' = Inr (plan\<lparr>jp_ID := i', jp_CompiledAt := now'\<rparr>)"
proof -
  obtain body where b: "compile_stages (stage_exits (sorted_stages sop) []) (sv_Gates sop) (effective_limits l) (sorted_stages sop) = Inr body"
    and p: "plan = compiled_plan hash i sop t by now (effective_limits l) body" "JobPlanRevision_Validate plan = None"
    and v: "sv_Status sop = ''published''" "SOPVersion_Validate sop = None"
    using assms(1) unfolding CompileSOP_def Let_def require_Inr check_nil_Inr bind_res_Inr by blast
  have q: "compiled_plan hash i' sop t by now' (effective_limits l) body = plan\<lparr>jp_ID := i', jp_CompiledAt := now'\<rparr>"
    by (simp add: p(1) compiled_plan_def split: prod.split)
  have "JobPlanRevision_Validate (plan\<lparr>jp_ID := i', jp_CompiledAt := now'\<rparr>) = None"
    using p(2) assms(2) unfolding JobPlanRevision_Validate_def validate_simps by simp
  then show ?thesis unfolding CompileSOP_def Let_def using b v q by simp
qed

lemma resolve_again:
  assumes "resolveExecutionBinding hash input plan now = Inr b" and "\<not> IsZero now'"
  shows "\<exists>b'. resolveExecutionBinding hash input (plan\<lparr>jp_ID := i', jp_CompiledAt := now'\<rparr>) now' = Inr b'
    \<and> eb_Digest b' = eb_Digest b \<and> eb_RuntimePolicyID b' = eb_RuntimePolicyID b"
proof (cases "si_ExecutionBinding input")
  case None
  have "legacy_binding input (plan\<lparr>jp_ID := i', jp_CompiledAt := now'\<rparr>) now' = (legacy_binding input plan now)\<lparr>eb_CreatedAt := now'\<rparr>"
    by (simp add: legacy_binding_def Let_def)
  moreover have "eb_Legacy (legacy_binding input plan now)" by (simp add: legacy_binding_def Let_def)
  moreover have "b = legacy_binding input plan now" "ExecutionBindingSnapshot_Validate hash b = None"
    using assms(1) None by (auto simp: resolveExecutionBinding_def Let_def)
  ultimately show ?thesis using None assms(2)
    by (auto simp: resolveExecutionBinding_def Let_def ExecutionBindingSnapshot_Validate_def split: if_splits)
next
  case (Some b0)
  let ?b = "structured_binding input now b0" and ?b' = "structured_binding input now' b0"
  have e: "?b' = ?b\<lparr>eb_CreatedAt := (if IsZero (eb_CreatedAt b0) then now' else eb_CreatedAt b0)\<rparr>"
    by (simp add: structured_binding_def binding_normalize_def)
  have d: "ContentDigest hash (b\<lparr>eb_CreatedAt := t\<rparr>) = ContentDigest hash b" for t and b :: ExecutionBindingSnapshot
    by (simp add: ContentDigest_def binding_json_def binding_normalize_def)
  have d': "ContentDigest hash (b\<lparr>eb_Digest := t\<rparr>) = ContentDigest hash b" for t and b :: ExecutionBindingSnapshot
    by (simp add: ContentDigest_def binding_json_def binding_normalize_def)
  have b: "b = ?b\<lparr>eb_Digest := ContentDigest hash ?b\<rparr>" "ExecutionBindingSnapshot_Validate hash b = None"
    using assms(1) Some by (auto simp: resolveExecutionBinding_def Let_def)
  have z: "\<not> IsZero (if IsZero (eb_CreatedAt b0) then now' else eb_CreatedAt b0)" using assms(2) by simp
  have "ExecutionBindingSnapshot_Validate hash (?b'\<lparr>eb_Digest := ContentDigest hash ?b'\<rparr>) = None"
    using b(2) z unfolding b(1) e d d' ExecutionBindingSnapshot_Validate_def by (auto simp: d d' split: if_splits)
  then show ?thesis using assms(1) Some unfolding resolveExecutionBinding_def Let_def
    by (simp add: e d b(1) del: not_not)
qed

lemma find_only:
  assumes "find P (mvals m) = None" and "P v"
  shows "find P (mvals (mput k v m)) = Some v"
proof -
  have "v \<in> set (mvals (mput k v m))" by (rule mget_vals [of _ k]) simp
  then have "find P (mvals (mput k v m)) \<noteq> None" using assms(2) by (auto simp: find_None_iff)
  then obtain x where x: "find P (mvals (mput k v m)) = Some x" by blast
  then have "x \<in> set (mvals (mput k v m))" "P x" by (auto simp: find_Some_iff)
  with assms(1) set_mvals_mput [of k v m] have "x = v" by (auto simp: find_None_iff)
  with x show ?thesis by simp
qed

lemma started_Inr:
  assumes "started ids now t plan job s = (s', Inr r)"
  obtains s1 job1 where "refresh ids now job s = (s', Inr job1)" and "Store_JobRun t (jr_ID job) s' = Inr (sr_Job r)"
    and "sr_Nodes r = NodeRuns t (jr_ID (sr_Job r)) s'" and "sr_Plan r = plan"
  using assms unfolding started_def svc_Inr by auto

lemma ensure_jobs: "runtimeJobs (fst (ensureExecutionBindingSnapshot hash b s)) = runtimeJobs s"
  by (auto simp: ensureExecutionBindingSnapshot_def try_svc_def exec_def query_def CreateExecutionBindingSnapshot_def
      require_def check_nil_def svc_simps guard_svc_def Let_def split: sum.split option.split prod.split if_splits)

lemma store_plan_jobs: "runtimeJobs (fst (store_plan plan t s)) = runtimeJobs s"
  by (auto simp: store_plan_def try_svc_def exec_def query_def CreatePlan_def bind_svc_def
      require_def check_nil_def svc_simps Let_def split: sum.split option.split prod.split if_splits)

text \<open>What a start has to leave behind so that the next one finds it.\<close>

definition found_again :: "JobRun \<Rightarrow> StartResult \<Rightarrow> Store \<Rightarrow> bool" where
  "found_again job r s =
     (JobRunByIdempotencyKey (jr_TenantID job) (jr_IdempotencyKey job) s = Inr (sr_Job r) \<and> sameStartAdmission (sr_Job r) job
      \<and> (\<exists>p. Store_Plan (jr_TenantID (sr_Job r)) (jr_PlanRevisionID (sr_Job r)) s = Inr p)
      \<and> sr_Nodes r = NodeRuns (jr_TenantID (sr_Job r)) (jr_ID (sr_Job r)) s)"

lemma found_load:
  assumes "found_again job r s" and "\<And>j. sameStartAdmission j job' = sameStartAdmission j job"
  shows "\<exists>r'. loadIdempotentStart (sr_Job r) job' s = (s, Inr r') \<and> sr_Job r' = sr_Job r \<and> sr_Nodes r' = sr_Nodes r"
  using assms unfolding found_again_def loadIdempotentStart_def by (auto simp: svc_simps bind_svc_def)

lemma load_found:
  assumes "loadIdempotentStart existing job s = (s', Inr r)"
    and "JobRunByIdempotencyKey (jr_TenantID job) (jr_IdempotencyKey job) s = Inr existing"
  shows "s' = s" and "found_again job r s"
  using assms unfolding loadIdempotentStart_def found_again_def svc_Inr by auto

lemma bundle_found:
  assumes bj: "bundle_job new now input plan job s = (s', Inr r)" and st: "jr_State job = JobRunCreated"
    and t: "jr_TenantID job = si_TenantID input" and key: "jr_IdempotencyKey job \<noteq> ''''"
    and p: "jr_PlanRevisionID job = jp_ID plan" and same: "sameStartAdmission job job"
    and none: "JobRunByIdempotencyKey (si_TenantID input) (jr_IdempotencyKey job) s = Inl e"
  shows "found_again job r s'"
proof -
  let ?ns = "start_nodes (id_node new) (si_TenantID input) (jr_ID job) now (jp_Nodes plan)"
  let ?c = "CreateJobBundle job ?ns (start_event (id_event new) input plan job (length ?ns) now)"
  let ?P = "\<lambda>j. jr_TenantID j = si_TenantID input \<and> jr_IdempotencyKey j = jr_IdempotencyKey job"
  have f: "find ?P (mvals (runtimeJobs s)) = None"
    using none unfolding JobRunByIdempotencyKey_def by (cases "find ?P (mvals (runtimeJobs s))") simp_all
  show ?thesis
  proof (cases "?c s")
    case (Inl err)
    then show ?thesis using bj none key by (simp add: bundle_job_def Let_def try_svc_def exec_def query_def fail_def)
  next
    case (Inr x)
    then obtain s1 where c: "?c s = Inr (s1, ())" by (cases x) simp
    then have "started (id_refresh new) now (si_TenantID input) plan job s1 = (s', Inr r)"
      using bj by (simp add: bundle_job_def Let_def try_svc_def exec_def)
    then obtain job1 where ref: "refresh (id_refresh new) now job s1 = (s', Inr job1)"
      and got: "Store_JobRun (si_TenantID input) (jr_ID job) s' = Inr (sr_Job r)"
      and nodes: "sr_Nodes r = NodeRuns (si_TenantID input) (jr_ID (sr_Job r)) s'" by (rule started_Inr)
    let ?j = "job\<lparr>jr_State := JobRunAdmitted, jr_Version := jr_Version job + 1, jr_UpdatedAt := now\<rparr>"
    have k: "job_key job = runtimePlanKey (si_TenantID input) (jr_ID job)" by (simp add: job_key_def t)
    have "runtimeJobs s1 = mput (job_key job) job (runtimeJobs s)"
      using c unfolding CreateJobBundle_def by (auto simp: job_key_def)
    with refresh_created [OF ref st] have rj: "runtimeJobs s' = mput (job_key job) ?j (runtimeJobs s)"
      and rp: "runtimePlans s' = runtimePlans s1" "\<exists>p. Store_Plan (si_TenantID input) (jp_ID plan) s1 = Inr p"
      by (simp_all add: mput_mput t p)
    have job: "sr_Job r = ?j" using got rj k unfolding Store_JobRun_def by simp
    have "find ?P (mvals (mput (job_key job) ?j (runtimeJobs s))) = Some ?j" by (rule find_only [OF f]) (simp add: t)
    then have "JobRunByIdempotencyKey (jr_TenantID job) (jr_IdempotencyKey job) s' = Inr (sr_Job r)"
      unfolding JobRunByIdempotencyKey_def rj job by (simp add: t)
    moreover have "sameStartAdmission (sr_Job r) job" using same unfolding job by (simp add: sameStartAdmission_def)
    moreover have "\<exists>p. Store_Plan (jr_TenantID (sr_Job r)) (jr_PlanRevisionID (sr_Job r)) s' = Inr p"
      using rp unfolding job Store_Plan_def by (simp add: t p)
    ultimately show ?thesis using nodes unfolding found_again_def job by (simp add: t)
  qed
qed

lemma admit_found:
  assumes "admit_job sv hash new now input plan0 b job s = (s', Inr r)" and "jr_State job = JobRunCreated"
    and "jr_TenantID job = si_TenantID input" and "jr_IdempotencyKey job \<noteq> ''''" and "sameStartAdmission job job"
    and none: "JobRunByIdempotencyKey (si_TenantID input) (jr_IdempotencyKey job) s = Inl e"
  shows "found_again job r s'"
proof -
  from assms(1) obtain s1 u plan s2 where s1: "ensureExecutionBindingSnapshot hash b s = (s1, Inr u)"
    and s2: "store_plan plan0 (si_TenantID input) s1 = (s2, Inr plan)"
    and rest: "bundle_job new now input plan (job\<lparr>jr_PlanRevisionID := jp_ID plan\<rparr>) s2 = (s', Inr r)"
    unfolding admit_job_def svc_Inr by blast
  have "runtimeJobs s2 = runtimeJobs s"
    using ensure_jobs [of hash b s] store_plan_jobs [of plan0 "si_TenantID input" s1] s1 s2 by simp
  then have "JobRunByIdempotencyKey (si_TenantID input) (jr_IdempotencyKey job) s2 = Inl e"
    using none unfolding JobRunByIdempotencyKey_def by simp
  then have "found_again (job\<lparr>jr_PlanRevisionID := jp_ID plan\<rparr>) r s'"
    using assms(2-5) by (intro bundle_found [OF rest]) (simp_all add: sameStartAdmission_def)
  then show ?thesis by (simp add: found_again_def sameStartAdmission_def)
qed

text \<open>
  C22. Starting a job is idempotent in its key. After a successful \<^verbatim>\<open>Start\<close> with an idempotency key, a second
  one with the same input, at any time, under any rollout policy and with whatever fresh identifiers,
  succeeds, returns the same job and nodes and writes nothing.
\<close>

theorem start_idempotent:
  assumes "Start sv hash limits new now input s = (s', Inr r)" and "\<not> blank (si_IdempotencyKey input)"
    and "id_plan new' \<noteq> ''''" and "id_job new' \<noteq> ''''" and "\<not> IsZero now'"
  shows "\<exists>r'. Start sv' hash limits new' now' input s' = (s', Inr r') \<and> sr_Job r' = sr_Job r \<and> sr_Nodes r' = sr_Nodes r"
proof -
  let ?t = "si_TenantID input" and ?key = "TrimSpace (si_IdempotencyKey input)"
  from assms(1) obtain plan b where pre: "\<not> (blank ?t \<or> blank (si_ProjectID input) \<or> blank (si_WorkTaskID input))"
    and plan: "CompileSOP hash (id_plan new) limits (si_SOP input) ?t (si_CreatedBy input) now = Inr plan"
    and b: "resolveExecutionBinding hash input plan now = Inr b"
    and v: "JobRun_Validate (start_job input (id_job new) plan b now) = None"
    and rest: "try_svc (query (JobRunByIdempotencyKey ?t ?key)) (\<lambda>l. case l of
        Inr existing \<Rightarrow> loadIdempotentStart existing (start_job input (id_job new) plan b now)
      | Inl e \<Rightarrow> (if \<not> IsNotFound e then fail e
                 else admit_job sv hash new now input plan b (start_job input (id_job new) plan b now))) s = (s', Inr r)"
    using assms(2) unfolding Start_def Let_def svc_Inr by (auto simp: start_job_def)
  let ?j = "start_job input (id_job new) plan b now"
  have sel: "jr_TenantID ?j = ?t" "jr_IdempotencyKey ?j = ?key" "jr_State ?j = JobRunCreated" "sameStartAdmission ?j ?j"
    by (simp_all add: start_job_def sameStartAdmission_def)
  have found: "found_again ?j r s'"
  proof (cases "JobRunByIdempotencyKey ?t ?key s")
    case (Inr existing)
    then have l: "loadIdempotentStart existing ?j s = (s', Inr r)" using rest by (simp add: try_svc_def query_def)
    from load_found [OF l] Inr sel show ?thesis by simp
  next
    case (Inl e)
    then have a: "admit_job sv hash new now input plan b ?j s = (s', Inr r)"
      using rest by (simp add: try_svc_def query_def fail_def split: if_splits)
    show ?thesis by (rule admit_found [OF a sel(3,1) _ sel(4)]) (use assms(2) sel Inl in simp_all)
  qed
  let ?plan = "plan\<lparr>jp_ID := id_plan new', jp_CompiledAt := now'\<rparr>"
  note p' = compile_again [OF plan assms(3)]
  from resolve_again [OF b assms(5)] obtain b' where b': "resolveExecutionBinding hash input ?plan now' = Inr b'"
    "eb_Digest b' = eb_Digest b" "eb_RuntimePolicyID b' = eb_RuntimePolicyID b" by blast
  let ?j' = "start_job input (id_job new') ?plan b' now'"
  have j': "?j' = ?j\<lparr>jr_ID := id_job new', jr_PlanRevisionID := id_plan new', jr_RootJobRunID := id_job new',
      jr_CreatedAt := now', jr_UpdatedAt := now'\<rparr>" using b' by (simp add: start_job_def)
  have v': "JobRun_Validate ?j' = None"
    using v assms(3,4) unfolding j' JobRun_Validate_def by (simp split: if_splits)
  have "sameStartAdmission j ?j' = sameStartAdmission j ?j" for j unfolding j' by (simp add: sameStartAdmission_def)
  from found_load [OF found this] obtain r' where l: "loadIdempotentStart (sr_Job r) ?j' s' = (s', Inr r')"
    "sr_Job r' = sr_Job r" "sr_Nodes r' = sr_Nodes r" by blast
  have got: "JobRunByIdempotencyKey ?t ?key s' = Inr (sr_Job r)" using found sel by (simp add: found_again_def)
  have k: "jr_IdempotencyKey ?j' = ?key" by (simp add: start_job_def)
  have "Start sv' hash limits new' now' input s' = (s', Inr r')"
    unfolding Start_def Let_def using pre p' b'(1) v' got l(1) assms(2) k
    by (simp add: svc_simps bind_svc_def try_svc_def)
  with l show ?thesis by blast
qed

subsection \<open>Forks\<close>

text \<open>A refresh never finishes a node.\<close>

definition no_new_finished :: "Store \<Rightarrow> Store \<Rightarrow> bool" where
  "no_new_finished s s' =
     (keyed node_key (runtimeNodes s) \<longrightarrow> keyed node_key (runtimeNodes s')
      \<and> (\<forall>k n. mget (runtimeNodes s') k = Some n \<longrightarrow> finished (nr_State n) \<longrightarrow> mget (runtimeNodes s) k = Some n))"

lemma no_new_finished_trans: "no_new_finished s s1 \<Longrightarrow> no_new_finished s1 s2 \<Longrightarrow> no_new_finished s s2"
  unfolding no_new_finished_def by blast

lemma no_new_finished_run: "no_new_finished\<^sup>*\<^sup>* s s' \<Longrightarrow> no_new_finished s s'"
  by (induction rule: rtranclp_induct) (auto intro: no_new_finished_trans simp: no_new_finished_def)

lemma joins_unfinished [svc_steps]: "steps_of no_new_finished (refreshFanoutJoins ids now job)"
proof -
  have "no_new_finished s (fst (refreshFanoutJoins ids now job s))" for s
    using refreshFanoutJoins_only [of s ids now job]
    unfolding only_cancels_def no_new_finished_def finished_def by fastforce
  then show ?thesis by (auto simp: steps_of_def)
qed

lemma node_unfinished: "\<not> finished (nr_State n) \<Longrightarrow> steps_of no_new_finished (exec (ApplyNodeTransition n x e))"
  by (rule steps_of_exec) (auto simp: no_new_finished_def keyed_mput split: if_splits dest!: ApplyNodeTransition_ok)

lemma refresh_nodes_unfinished [svc_steps]: "steps_of no_new_finished (refresh_nodes ids now job sets specs byKey ch)"
proof (induction ids now job sets specs byKey ch rule: refresh_nodes.induct)
  case (2 ids now job sets spec specs byKey ch)
  show ?case
  proof (cases "mget byKey (pn_Key spec)")
    case None
    with 2(1) show ?thesis by simp
  next
    case (Some node)
    have "\<not> finished (next_node_state sets byKey spec node)" if "next_node_state sets byKey spec node \<noteq> nr_State node"
      using that by (auto simp: next_node_state_def Let_def finished_def split: if_splits)
    with Some 2(2,3) show ?thesis by (simp add: Let_def) (intro conjI impI svc_steps node_unfinished; simp)
  qed
qed (simp add: svc_steps)

lemma job_unfinished [svc_steps]: "steps_of no_new_finished (exec (ApplyJobTransition j x e))"
  by (rule steps_of_exec) (auto simp: no_new_finished_def dest!: ApplyJobTransition_ok)

lemma refresh_unfinished: "no_new_finished s (fst (refresh ids now job s))"
proof (rule no_new_finished_run)
  have "steps_of no_new_finished (refresh_job ids now job nodes)" for nodes
    unfolding refresh_job_def Let_def by (intro svc_steps)
  then have "steps_of no_new_finished (refresh ids now job)" unfolding refresh_def by (intro svc_steps)
  then show "no_new_finished\<^sup>*\<^sup>* s (fst (refresh ids now job s))" by (simp add: steps_of_def)
qed

lemma fork_node_sel [simp]:
  "nr_ID (fork_node by c t j now i spec) = i" "nr_TenantID (fork_node by c t j now i spec) = t"
  "nr_JobRunID (fork_node by c t j now i spec) = j" "nr_NodeKey (fork_node by c t j now i spec) = pn_Key spec"
  by (auto simp: fork_node_def new_node_run_def Let_def split: option.split)

lemma fork_node_state:
  assumes "check_all (checkpoint_drift by) c = None"
  shows "finished (nr_State (fork_node by c t j now i spec)) \<longleftrightarrow> pn_Key spec \<in> set c"
    and "pn_Key spec \<in> set c \<Longrightarrow> \<exists>src. mget by (pn_Key spec) = Some src
      \<and> nr_State (fork_node by c t j now i spec) = nr_State src \<and> nr_OutputRefs (fork_node by c t j now i spec) = nr_OutputRefs src
      \<and> nr_OutputDigest (fork_node by c t j now i spec) = nr_OutputDigest src"
proof -
  have "\<exists>src. mget by (pn_Key spec) = Some src \<and> finished (nr_State src)" if "pn_Key spec \<in> set c"
    using assms that by (force simp: checkpoint_drift_def finished_def split: option.splits if_splits)
  then show "finished (nr_State (fork_node by c t j now i spec)) \<longleftrightarrow> pn_Key spec \<in> set c"
    "pn_Key spec \<in> set c \<Longrightarrow> \<exists>src. mget by (pn_Key spec) = Some src
      \<and> nr_State (fork_node by c t j now i spec) = nr_State src \<and> nr_OutputRefs (fork_node by c t j now i spec) = nr_OutputRefs src
      \<and> nr_OutputDigest (fork_node by c t j now i spec) = nr_OutputDigest src"
    by (auto simp: fork_node_def Let_def new_node_run_def finished_def split: option.split)
qed

lemma fork_nodes_set:
  "m \<in> set (fork_nodes nid by c t j now specs) \<Longrightarrow> \<exists>i spec. spec \<in> set specs \<and> m = fork_node by c t j now (nid i) spec"
  "spec \<in> set specs \<Longrightarrow> \<exists>i. fork_node by c t j now (nid i) spec \<in> set (fork_nodes nid by c t j now specs)"
proof -
  show "m \<in> set (fork_nodes nid by c t j now specs) \<Longrightarrow> \<exists>i spec. spec \<in> set specs \<and> m = fork_node by c t j now (nid i) spec"
    by (auto simp: fork_nodes_def dest: set_zip_rightD)
next
  assume "spec \<in> set specs"
  then obtain i where i: "i < length specs" "spec = specs ! i" by (auto simp: in_set_conv_nth)
  then have "fork_nodes nid by c t j now specs ! i = fork_node by c t j now (nid i) spec"
    "i < length (fork_nodes nid by c t j now specs)" by (simp_all add: fork_nodes_def)
  then show "\<exists>i. fork_node by c t j now (nid i) spec \<in> set (fork_nodes nid by c t j now specs)" by (metis nth_mem)
qed

lemma fork_nodes_keys:
  assumes "inj nid"
  shows "distinct (map node_key (fork_nodes nid by c t j now specs))"
proof -
  have "map node_key (fork_nodes nid by c t j now specs) = map (\<lambda>i. runtimeNodeKey t (nid i)) [0..<length specs]"
    by (intro nth_equalityI) (simp_all add: fork_nodes_def node_key_def)
  then show ?thesis using assms by (simp add: distinct_map inj_on_def runtimePlanKey_def)
qed

lemma Fork_new:
  assumes "Fork sv new now t i by key s = (s', Inr r)" and "mget (runtimeJobs s) (runtimePlanKey t (jr_ID (sr_Job r))) = None"
    and "keyed job_key (runtimeJobs s)"
  obtains cp source k where "Store_Checkpoint t i s = Inr cp" and "Store_JobRun t (cp_JobRunID cp) s = Inr source"
    and "fork_from sv new now t cp source by k s = (s', Inr r)"
proof -
  let ?k = "TrimSpace key"
  from assms(1) obtain cp source where cp: "Store_Checkpoint t i s = Inr cp" "Store_JobRun t (cp_JobRunID cp) s = Inr source"
    and rest: "(if ?k = '''' then fork_from sv new now t cp source by ?k
      else try_svc (query (JobRunByIdempotencyKey t ?k)) (\<lambda>l. case l of
         Inr existing \<Rightarrow> load_fork cp source t existing
       | Inl e \<Rightarrow> (if \<not> IsNotFound e then fail e else fork_from sv new now t cp source by ?k))) s = (s', Inr r)"
    unfolding Fork_def Let_def svc_Inr by auto
  have "fork_from sv new now t cp source by ?k s = (s', Inr r)"
  proof (cases "?k = '''' \<or> isl (JobRunByIdempotencyKey t ?k s)")
    case True
    then show ?thesis using rest
      by (auto simp: try_svc_def query_def fail_def split: if_splits sum.splits)
  next
    case False
    then obtain ex where ex: "JobRunByIdempotencyKey t ?k s = Inr ex" by (cases "JobRunByIdempotencyKey t ?k s") auto
    then have "load_fork cp source t ex s = (s', Inr r)" using rest False by (simp add: try_svc_def query_def)
    then have "sr_Job r = ex" by (auto simp: load_fork_def svc_Inr)
    moreover have "ex \<in> set (mvals (runtimeJobs s))" "jr_TenantID ex = t"
      using ex by (auto simp: JobRunByIdempotencyKey_def lookup_or_def find_Some_iff split: option.splits)
    ultimately have "mget (runtimeJobs s) (runtimePlanKey t (jr_ID (sr_Job r))) = Some ex"
      using keyed_vals [OF assms(3), of ex] by (simp add: job_key_def)
    then show ?thesis using assms(2) by simp
  qed
  with cp show ?thesis by (rule that)
qed

lemma fork_from_Inr:
  assumes "fork_from sv new now t cp source by key s = (s', Inr r)"
  obtains plan s1 u sourceByKey nodes e where
    "sourceByKey = mput_all nr_NodeKey (NodeRuns t (jr_ID source) s) []"
    and "check_all (checkpoint_drift sourceByKey) (cp_CompletedNodes cp) = None"
    and "nodes = fork_nodes (id_node new) sourceByKey (cp_CompletedNodes cp) t (id_job new) now (jp_Nodes plan)"
    and "CreateJobBundle (fork_job (id_job new) t by key plan source cp now) nodes e s = Inr (s1, u)"
    and "started (id_refresh new) now t plan (fork_job (id_job new) t by key plan source cp now) s1 = (s', Inr r)"
proof -
  from assms obtain plan s1 u where
    "check_all (checkpoint_drift (mput_all nr_NodeKey (NodeRuns t (jr_ID source) s) [])) (cp_CompletedNodes cp) = None"
    "CreateJobBundle (fork_job (id_job new) t by key plan source cp now)
       (fork_nodes (id_node new) (mput_all nr_NodeKey (NodeRuns t (jr_ID source) s) []) (cp_CompletedNodes cp) t
         (jr_ID (fork_job (id_job new) t by key plan source cp now)) now (jp_Nodes plan))
       (fork_event (id_event new) t (jr_ID (fork_job (id_job new) t by key plan source cp now)) by key plan source cp now) s
     = Inr (s1, u)"
    "started (id_refresh new) now t plan (fork_job (id_job new) t by key plan source cp now) s1 = (s', Inr r)"
    unfolding fork_from_def Let_def svc_Inr sum.inject by (elim exE conjE) (hypsubst, rule that; assumption)
  moreover have "jr_ID (fork_job (id_job new) t by key plan source cp now) = id_job new" by (simp add: fork_job_def)
  ultimately show ?thesis using that by simp
qed

text \<open>The rows of a new fork after its first refresh.\<close>

lemma fork_rows:
  assumes cb: "CreateJobBundle job nodes e s = Inr (sb, u)"
    and nodes: "nodes = fork_nodes nid byKey c t (jid) now specs" "check_all (checkpoint_drift byKey) c = None"
    and job: "jr_State job = JobRunCreated" "jr_TenantID job = t" "jr_ID job = jid"
    and st: "started ids now t plan job sb = (s', Inr r)" and ok: "store_ok s" and inj: "inj nid"
    and fresh: "\<forall>n. mget (runtimeNodes s) (runtimeNodeKey t (nid n)) = None"
      "\<forall>k n. mget (runtimeNodes s) k = Some n \<longrightarrow> nr_JobRunID n \<noteq> jid"
  shows "\<And>m. m \<in> set (sr_Nodes r) \<Longrightarrow> finished (nr_State m) \<Longrightarrow> \<exists>i spec. spec \<in> set specs \<and> m = fork_node byKey c t (jid) now i spec"
    and "\<And>spec. spec \<in> set specs \<Longrightarrow> pn_Key spec \<in> set c
      \<Longrightarrow> \<exists>m. m \<in> set (sr_Nodes r) \<and> finished (nr_State m) \<and> nr_NodeKey m = pn_Key spec"
    and "sr_Plan r = plan" and "jr_SourceJobRunID (sr_Job r) = jr_SourceJobRunID job"
proof -
  obtain job1 where ref: "refresh ids now job sb = (s', Inr job1)" and got: "Store_JobRun t jid s' = Inr (sr_Job r)"
    and ns: "sr_Nodes r = NodeRuns t (jr_ID (sr_Job r)) s'" and pl: "sr_Plan r = plan"
    using started_Inr [OF st] job(3) by metis
  have "job_key job = runtimePlanKey t jid" by (simp add: job_key_def job)
  with refresh_created(1) [OF ref job(1)] got
  have j: "sr_Job r = job\<lparr>jr_State := JobRunAdmitted, jr_Version := jr_Version job + 1, jr_UpdatedAt := now\<rparr>"
    by (simp add: Store_JobRun_def)
  then have jr: "jr_ID (sr_Job r) = jid" by (simp add: job)
  from j show "jr_SourceJobRunID (sr_Job r) = jr_SourceJobRunID job" by simp
  show "sr_Plan r = plan" by (rule pl)
  have "mget (runtimeNodes s) (node_key m) = None" if "m \<in> set nodes" for m
  proof -
    from fork_nodes_set(1) that nodes(1) obtain i spec where "m = fork_node byKey c t jid now (nid i) spec" by blast
    then show ?thesis using fresh(1) by (simp add: node_key_def)
  qed
  then have okb: "store_ok sb" using step_ok [OF store_step.create_job [OF cb] ok] by blast
  have nb: "runtimeNodes sb = mput_all node_key nodes (runtimeNodes s)" and nid: "jid \<noteq> ''''"
    using cb unfolding CreateJobBundle_def JobRun_Validate_def by (auto simp: job split: if_splits)
  have keep: "keeps_finished sb s'" and new: "no_new_finished sb s'" and kb: "keyed node_key (runtimeNodes sb)"
    using refresh_keeps_finished [OF okb, of ids now job] refresh_unfinished [of sb ids now job] store_ok_keyed [OF okb] ref by simp_all
  have k': "keyed node_key (runtimeNodes s')" using new kb by (simp add: no_new_finished_def)
  show "\<exists>i spec. spec \<in> set specs \<and> m = fork_node byKey c t jid now i spec"
    if m: "m \<in> set (sr_Nodes r)" "finished (nr_State m)" for m
  proof -
    have row: "mget (runtimeNodes s') (node_key m) = Some m" "nr_JobRunID m = jid"
      using m(1) nid unfolding ns jr NodeRuns_get [OF k'] by blast+
    with new kb m(2) have "mget (runtimeNodes sb) (node_key m) = Some m" by (simp add: no_new_finished_def)
    then have "m \<in> set nodes"
      using mget_mput_all_in [of node_key nodes "runtimeNodes s" "node_key m" m] fresh(2) nb row(2) by auto
    then show ?thesis using fork_nodes_set(1) unfolding nodes(1) by blast
  qed
  show "\<exists>m. m \<in> set (sr_Nodes r) \<and> finished (nr_State m) \<and> nr_NodeKey m = pn_Key spec"
    if spec: "spec \<in> set specs" "pn_Key spec \<in> set c" for spec
  proof -
    obtain n where n: "fork_node byKey c t jid now (nid n) spec \<in> set nodes" (is "?m \<in> _")
      using fork_nodes_set(2) [OF spec(1)] unfolding nodes(1) by blast
    have fin: "finished (nr_State ?m)" using fork_node_state(1) [OF nodes(2)] spec(2) by blast
    have "mget (runtimeNodes sb) (node_key ?m) = Some ?m"
      unfolding nb by (rule mget_mput_all_distinct [OF _ n]) (simp add: nodes(1) fork_nodes_keys [OF inj])
    with keep fin have "mget (runtimeNodes s') (node_key ?m) = Some ?m" by (simp add: keeps_finished_def)
    then have "?m \<in> set (sr_Nodes r)" unfolding ns jr NodeRuns_get [OF k'] by simp
    with fin show ?thesis by force
  qed
qed

text \<open>
  C23. A fork takes over exactly the work its checkpoint recorded. Take a checkpoint of job \<open>j\<close> in store \<open>s\<close> and,
  at any later time, fork it in a well-formed store \<open>s2\<close> that still has the checkpoint: among the plan's
  nodes, those the new job starts with as done are those that were succeeded or skipped when the checkpoint
  was taken, and each carries the state and the outputs of a node of the source job.
\<close>

theorem fork_restores:
  assumes "Service_Checkpoint hash i now t j nodeKey stateRefs outputRefs s = (s1, Inr cp)"
    and "Fork sv new now' t i by key s2 = (s3, Inr r)"
    and "Store_Checkpoint t i s2 = Inr cp" and "store_ok s2"
    and "mget (runtimeJobs s2) (runtimePlanKey t (jr_ID (sr_Job r))) = None"
    and "inj (id_node new)" and "\<forall>n. mget (runtimeNodes s2) (runtimeNodeKey t (id_node new n)) = None"
    and "\<forall>k n. mget (runtimeNodes s2) k = Some n \<longrightarrow> nr_JobRunID n \<noteq> id_job new"
  shows "{nr_NodeKey m | m. m \<in> set (sr_Nodes r) \<and> finished (nr_State m)}
      = {nr_NodeKey n | n. n \<in> set (NodeRuns t j s) \<and> finished (nr_State n)} \<inter> pn_Key ` set (jp_Nodes (sr_Plan r))
    \<and> (\<forall>m \<in> set (sr_Nodes r). finished (nr_State m) \<longrightarrow>
        (\<exists>src \<in> set (NodeRuns t (jr_SourceJobRunID (sr_Job r)) s2). nr_NodeKey src = nr_NodeKey m \<and> nr_State src = nr_State m
           \<and> nr_OutputRefs src = nr_OutputRefs m \<and> nr_OutputDigest src = nr_OutputDigest m))"
proof -
  obtain cp' source k where f: "Store_Checkpoint t i s2 = Inr cp'" "Store_JobRun t (cp_JobRunID cp') s2 = Inr source"
    "fork_from sv new now' t cp' source by k s2 = (s3, Inr r)"
    using store_ok_keyed [OF assms(4)] by (rule_tac Fork_new [OF assms(2,5)]) blast
  have cp: "cp' = cp" using f(1) assms(3) by simp
  have c: "set (cp_CompletedNodes cp) = {nr_NodeKey n | n. n \<in> set (NodeRuns t j s) \<and> finished (nr_State n)}"
    using assms(1) by (auto simp: Service_Checkpoint_def new_checkpoint_def svc_Inr Let_def)
  obtain plan sb u byKey nodes e where b: "byKey = mput_all nr_NodeKey (NodeRuns t (jr_ID source) s2) []"
    "check_all (checkpoint_drift byKey) (cp_CompletedNodes cp) = None"
    "nodes = fork_nodes (id_node new) byKey (cp_CompletedNodes cp) t (id_job new) now' (jp_Nodes plan)"
    and cb: "CreateJobBundle (fork_job (id_job new) t by k plan source cp now') nodes e s2 = Inr (sb, u)"
    and st: "started (id_refresh new) now' t plan (fork_job (id_job new) t by k plan source cp now') sb = (s3, Inr r)"
    using f(3) unfolding cp by (rule fork_from_Inr)
  let ?j = "fork_job (id_job new) t by k plan source cp now'"
  have jsel: "jr_State ?j = JobRunCreated" "jr_TenantID ?j = t" "jr_ID ?j = id_job new" "jr_SourceJobRunID ?j = jr_ID source"
    by (simp_all add: fork_job_def)
  note rows = fork_rows [OF cb b(3) b(2) jsel(1-3) st assms(4,6,7,8)]
  show ?thesis
  proof (intro conjI ballI impI)
    show "{nr_NodeKey m | m. m \<in> set (sr_Nodes r) \<and> finished (nr_State m)}
      = {nr_NodeKey n | n. n \<in> set (NodeRuns t j s) \<and> finished (nr_State n)} \<inter> pn_Key ` set (jp_Nodes (sr_Plan r))"
      (is "?A = ?B \<inter> ?P")
    proof (intro equalityI subsetI)
      fix x assume "x \<in> ?A"
      then obtain m where m: "m \<in> set (sr_Nodes r)" "finished (nr_State m)" "x = nr_NodeKey m" by blast
      from rows(1) [OF m(1,2)] obtain n spec where sp: "spec \<in> set (jp_Nodes plan)"
        "m = fork_node byKey (cp_CompletedNodes cp) t (id_job new) now' n spec" by blast
      with m(2) have "pn_Key spec \<in> set (cp_CompletedNodes cp)" using fork_node_state(1) [OF b(2)] by blast
      then show "x \<in> ?B \<inter> ?P" unfolding c [symmetric] rows(3) using m(3) sp by simp
    next
      fix x assume "x \<in> ?B \<inter> ?P"
      then obtain spec where "spec \<in> set (jp_Nodes plan)" "x = pn_Key spec" "pn_Key spec \<in> set (cp_CompletedNodes cp)"
        unfolding c [symmetric] rows(3) by blast
      then show "x \<in> ?A" using rows(2) [of spec] by (metis (mono_tags, lifting) mem_Collect_eq)
    qed
  next
    fix m assume m: "m \<in> set (sr_Nodes r)" "finished (nr_State m)"
    from rows(1) [OF this] obtain n spec where sp: "m = fork_node byKey (cp_CompletedNodes cp) t (id_job new) now' n spec" by blast
    with m(2) have "pn_Key spec \<in> set (cp_CompletedNodes cp)" using fork_node_state(1) [OF b(2)] by blast
    from fork_node_state(2) [OF b(2) this] sp obtain src where src: "mget byKey (pn_Key spec) = Some src"
      "nr_State src = nr_State m" "nr_OutputRefs src = nr_OutputRefs m" "nr_OutputDigest src = nr_OutputDigest m" by metis
    from mget_mput_all_in [of nr_NodeKey _ "[]"] src(1) b(1) have "src \<in> set (NodeRuns t (jr_ID source) s2)" "nr_NodeKey src = pn_Key spec"
      by fastforce+
    then show "\<exists>src \<in> set (NodeRuns t (jr_SourceJobRunID (sr_Job r)) s2). nr_NodeKey src = nr_NodeKey m \<and> nr_State src = nr_State m
           \<and> nr_OutputRefs src = nr_OutputRefs m \<and> nr_OutputDigest src = nr_OutputDigest m"
      using src sp rows(4) jsel(4) by auto
  qed
qed

subsection \<open>Replay\<close>

lemma contiguous_no_gap: "contiguous es \<Longrightarrow> replay_gap es = None"
  by (simp add: replay_gap_def contiguous_def list_all2_conv_all_nth)

lemma JobEvents_all:
  assumes "contiguous (events_of s j)" and "JobEvents t j 0 s = Inr es"
  shows "es = events_of s j"
proof -
  have "0 < je_Sequence e" if "e \<in> set (events_of s j)" for e
    using that assms(1) by (auto simp: contiguous_def in_set_conv_nth)
  then have "filter (\<lambda>e. je_Sequence e > 0) (events_of s j) = events_of s j" by (simp add: filter_id_conv)
  then show ?thesis using assms(2) by (auto simp: JobEvents_def split: option.splits if_splits)
qed

lemma replay_body_faults:
  assumes "replay_body now t j after dry res s = (s', Inl err)" and "contiguous (events_of s j)"
  shows "err \<noteq> Conflict ''RUNTIME_REPLAY_EVENT_GAP''"
proof -
  have gap: "check_svc (replay_gap es) m = m" if "JobEvents t j 0 s = Inr es" for es and m :: "ReplayResult svc"
    using contiguous_no_gap [OF assms(2)] JobEvents_all [OF assms(2) that] by (simp add: check_svc_def)
  have other: "replay_nodes ks seen ns \<noteq> Inl (Conflict ''RUNTIME_REPLAY_EVENT_GAP'')" for ks seen ns
    by (induction ks seen ns rule: replay_nodes.induct) (auto simp: Conflict_def E_def)
  have save: "SaveRuntimeExplorer view s \<noteq> Inl (Conflict ''RUNTIME_REPLAY_EVENT_GAP'')" for view
    by (auto simp: SaveRuntimeExplorer_def Let_def require_def Conflict_def Invalid_def E_def)
  show ?thesis
    using assms(1) other save unfolding replay_body_def Let_def
    by (auto simp: bind_svc_def query_def guard_svc_def fail_def exec_def gap ret_def Store_JobRun_def Store_Plan_def
        lookup_or_def JobEvents_def NotFound_def Conflict_def E_def split: sum.splits prod.splits option.splits if_splits)
qed

text \<open>The tables a replay may write; \<open>dry\<close> excludes the projection.\<close>

definition derived_only :: "bool \<Rightarrow> Store \<Rightarrow> Store \<Rightarrow> bool" where
  "derived_only dry s s' =
     (\<exists>ps rs. s' = s\<lparr>runtimeProjections := ps, runtimeProjectionRebuilds := rs\<rparr> \<and> (dry \<longrightarrow> ps = runtimeProjections s))"

lemma derived_only_refl: "derived_only dry s s"
  unfolding derived_only_def by (rule exI [of _ "runtimeProjections s"], rule exI [of _ "runtimeProjectionRebuilds s"]) simp

lemma derived_only_run: "(derived_only dry)\<^sup>*\<^sup>* s s' \<Longrightarrow> derived_only dry s s'"
proof (induction rule: rtranclp_induct)
  case (step s1 s2)
  from step.IH obtain ps rs where 1: "s1 = s\<lparr>runtimeProjections := ps, runtimeProjectionRebuilds := rs\<rparr>"
    "dry \<longrightarrow> ps = runtimeProjections s" unfolding derived_only_def by blast
  from step.hyps(2) obtain ps' rs' where 2: "s2 = s1\<lparr>runtimeProjections := ps', runtimeProjectionRebuilds := rs'\<rparr>"
    "dry \<longrightarrow> ps' = runtimeProjections s1" unfolding derived_only_def by blast
  have "s2 = s\<lparr>runtimeProjections := ps', runtimeProjectionRebuilds := rs'\<rparr>" "dry \<longrightarrow> ps' = runtimeProjections s"
    using 1 2 by simp_all
  then show ?case unfolding derived_only_def by blast
qed (rule derived_only_refl)

lemma rebuild_faults:
  "CreateRuntimeProjectionRebuild run s \<noteq> Inl (Conflict ''RUNTIME_REPLAY_EVENT_GAP'')"
  "UpdateRuntimeProjectionRebuild run x s \<noteq> Inl (Conflict ''RUNTIME_REPLAY_EVENT_GAP'')"
  by (auto simp: CreateRuntimeProjectionRebuild_def UpdateRuntimeProjectionRebuild_def check_nil_def require_def
      lookup_or_def RuntimeProjectionRebuildRun_Validate_def Conflict_def Invalid_def NotFound_def E_def
      split: option.splits if_splits)

lemma derived_rebuilds: "derived_only dry s (s\<lparr>runtimeProjectionRebuilds := rs\<rparr>)"
  unfolding derived_only_def by (rule exI [of _ "runtimeProjections s"], rule exI [of _ rs]) simp

lemma derived_steps [svc_steps]:
  "steps_of (derived_only dry) (exec (CreateRuntimeProjectionRebuild run))"
  "steps_of (derived_only dry) (exec (UpdateRuntimeProjectionRebuild run x))"
  "steps_of (derived_only False) (exec (SaveRuntimeExplorer view))"
proof -
  show "steps_of (derived_only dry) (exec (CreateRuntimeProjectionRebuild run))"
    by (rule steps_of_exec) (auto simp: CreateRuntimeProjectionRebuild_def intro!: r_into_rtranclp derived_rebuilds)
  show "steps_of (derived_only dry) (exec (UpdateRuntimeProjectionRebuild run x))"
    by (rule steps_of_exec) (auto simp: UpdateRuntimeProjectionRebuild_def intro!: r_into_rtranclp derived_rebuilds)
  have "derived_only False s (s\<lparr>runtimeProjections := ps\<rparr>)" for s ps
    unfolding derived_only_def by (rule exI [of _ ps], rule exI [of _ "runtimeProjectionRebuilds s"]) simp
  then show "steps_of (derived_only False) (exec (SaveRuntimeExplorer view))"
    by (intro steps_of_exec) (auto simp: SaveRuntimeExplorer_def Let_def)
qed

lemma replay_derived: "derived_only dry s (fst (ReplayWithOptions runID now t j after dry s))"
proof (rule derived_only_run)
  have "steps_of (derived_only dry) (replay_body now t j after dry res)" for res
    unfolding replay_body_def Let_def by (cases dry) (simp_all only: if_True if_False, (intro svc_steps)+)
  then have "steps_of (derived_only dry) (ReplayWithOptions runID now t j after dry)"
    unfolding ReplayWithOptions_def Let_def by (intro svc_steps)
  then show "(derived_only dry)\<^sup>*\<^sup>* s (fst (ReplayWithOptions runID now t j after dry s))" by (simp add: steps_of_def)
qed

text \<open>
  C24. A replay only derives. Whatever it returns, it writes nothing but the projection and its own run record,
  and a dry run not even the projection; and on a store that was reached by store operations it never reports a
  gap in the events.
\<close>

theorem replay_derives:
  assumes "store_step\<^sup>*\<^sup>* New s" and "ReplayWithOptions runID now t j after dry s = (s', r)"
  shows "derived_only dry s s' \<and> r \<noteq> Inl (Conflict ''RUNTIME_REPLAY_EVENT_GAP'')"
proof
  show "derived_only dry s s'" using replay_derived [of dry s runID now t j after] assms(2) by simp
  have "events_of New j = []" by (simp add: events_of_def New_def)
  with store_log.step_contiguous [OF run_log_grows [OF assms(1)]] have con: "contiguous (events_of s j)"
    by (simp add: contiguous_def)
  show "r \<noteq> Inl (Conflict ''RUNTIME_REPLAY_EVENT_GAP'')"
  proof
    assume r: "r = Inl (Conflict ''RUNTIME_REPLAY_EVENT_GAP'')"
    with assms(2) obtain run res s1 u where c: "CreateRuntimeProjectionRebuild run s = Inr (s1, u)"
      and b: "snd (replay_body now t j after dry res s1) = Inl (Conflict ''RUNTIME_REPLAY_EVENT_GAP'')"
      unfolding ReplayWithOptions_def Let_def bind_svc_def exec_def try_svc_def attempt_svc_def fail_def ret_def
      by (auto simp: rebuild_faults split: sum.splits prod.splits)
    from c have "events_of s1 j = events_of s j" by (auto simp: CreateRuntimeProjectionRebuild_def events_of_def)
    with con replay_body_faults [of now t j after dry res s1] b show False by (metis prod.collapse)
  qed
qed

subsection \<open>Examples\<close>

definition ex_hash :: "goany \<Rightarrow> string" where
  "ex_hash v = replicate 64 CHR ''a''"

definition ex_start :: StartInput where
  "ex_start = \<lparr>si_TenantID = ''t'', si_ProjectID = ''p'', si_WorkTaskID = ''w'', si_BusinessType = '''',
     si_InputSnapshotID = '''', si_BusinessOutputCount = 0, si_SOP = ex_sop, si_ExecutionBinding = None,
     si_BindingDigest = ex_digest, si_InputDigest = ex_digest, si_RuntimePolicyID = '''', si_ContractMajor = 1,
     si_ContractMinor = 0, si_Priority = 0, si_CreatedBy = ''u'', si_IdempotencyKey = ''k'', si_CorrelationID = ''''\<rparr>"

definition ex_new :: "string \<Rightarrow> start_ids" where
  "ex_new i = \<lparr>id_plan = ''p'' @ i, id_job = ''j'' @ i, id_node = (\<lambda>n. ''n'' @ i @ replicate n CHR ''i''), id_event = ''e'' @ i,
     id_refresh = (\<lambda>x. ''r'' @ i @ x)\<rparr>"

abbreviation ex_started :: "StartResult svc" where
  "ex_started \<equiv> Start NewService ex_hash DefaultRuntimeLimits (ex_new ''1'') 5 ex_start"

theorem start_idempotent_witness:
  "\<exists>s r r'. ex_started New = (s, Inr r) \<and> jr_State (sr_Job r) = JobRunAdmitted
     \<and> Start NewService ex_hash DefaultRuntimeLimits (ex_new ''2'') 7 ex_start s = (s, Inr r') \<and> sr_Job r' = sr_Job r"
proof -
  have "(case snd (ex_started New) of Inl e \<Rightarrow> False | Inr r \<Rightarrow> jr_State (sr_Job r) = JobRunAdmitted)" by code_simp
  then obtain r where r: "ex_started New = (fst (ex_started New), Inr r)" "jr_State (sr_Job r) = JobRunAdmitted"
    by (cases "snd (ex_started New)") (simp_all, metis prod.collapse)
  have "\<not> blank (si_IdempotencyKey ex_start)" by code_simp
  from start_idempotent [OF r(1) this, of "ex_new ''2''" 7 NewService] r show ?thesis
    by (auto simp: ex_new_def IsZero_def)
qed

definition ex_paused :: Store where
  "ex_paused = (ex_staged JobRunPaused NodeSucceeded NodePending)\<lparr>runtimePlans := [(''t:p1'', ex_plan\<lparr>jp_Digest := ex_digest\<rparr>)]\<rparr>"

abbreviation ex_checkpoint :: "Checkpoint svc" where
  "ex_checkpoint \<equiv> Service_Checkpoint ex_hash ''c'' 5 ''t'' ''j'' ''a'' [] []"

abbreviation ex_fork :: "StartResult svc" where
  "ex_fork \<equiv> Fork NewService (ex_new ''2'') 6 ''t'' ''c'' ''u'' ''''"

lemma ex_paused_ok: "store_ok ex_paused"
proof -
  have "\<forall>j \<in> set (mvals (runtimeJobs ex_paused)). job_ok j" "\<forall>n \<in> set (mvals (runtimeNodes ex_paused)). node_ok n"
    by code_simp+
  moreover have "keyed job_key (runtimeJobs ex_paused)" "keyed node_key (runtimeNodes ex_paused)"
    using ex_staged_keyed [of JobRunPaused NodeSucceeded NodePending]
    by (auto simp: ex_paused_def ex_staged_def ex_at_def ex_job_def keyed_def wf_map_def job_key_def runtimePlanKey_def split: if_splits)
  ultimately show ?thesis unfolding store_ok_def rows_ok_def by (meson mget_vals)
qed

theorem fork_restores_witness:
  "\<exists>s1 cp s3 r. ex_checkpoint ex_paused = (s1, Inr cp) \<and> ex_fork s1 = (s3, Inr r)
     \<and> {nr_NodeKey m | m. m \<in> set (sr_Nodes r) \<and> finished (nr_State m)} = {''a''}"
proof -
  let ?s1 = "fst (ex_checkpoint ex_paused)"
  have "\<not> isl (snd (ex_checkpoint ex_paused))" "\<not> isl (snd (ex_fork ?s1))" by code_simp+
  then obtain cp r where c: "ex_checkpoint ex_paused = (?s1, Inr cp)" and f: "ex_fork ?s1 = (fst (ex_fork ?s1), Inr r)"
    using svc_ok [of "ex_checkpoint ex_paused"] svc_ok [of "ex_fork ?s1"] by blast
  have same: "runtimeJobs ?s1 = runtimeJobs ex_paused" "runtimeNodes ?s1 = runtimeNodes ex_paused"
    "mget (runtimeCheckpoints ?s1) ''t:c'' = Some cp"
    using c by (auto simp: Service_Checkpoint_def svc_Inr Let_def CreateCheckpoint_def new_checkpoint_def runtimePlanKey_def)
  have ok: "store_ok ?s1" using ex_paused_ok same by (simp add: store_ok_def)
  have cp: "Store_Checkpoint ''t'' ''c'' ?s1 = Inr cp" using same by (simp add: Store_Checkpoint_def runtimePlanKey_def)
  have fr: "snd (ex_fork ?s1) = Inr r" by (subst f) simp
  have "map_sum id (jr_ID \<circ> sr_Job) (snd (ex_fork ?s1)) = Inr ''j2''"
    "map_sum id (\<lambda>r. map pn_Key (jp_Nodes (sr_Plan r))) (snd (ex_fork ?s1)) = Inr [''a'', ''b'']" by code_simp+
  then have r: "jr_ID (sr_Job r) = ''j2''" "map pn_Key (jp_Nodes (sr_Plan r)) = [''a'', ''b'']"
    unfolding fr by (simp_all add: comp_def)
  have fresh: "mget (runtimeJobs ?s1) (runtimePlanKey ''t'' (jr_ID (sr_Job r))) = None" "inj (id_node (ex_new ''2''))"
    "\<forall>n. mget (runtimeNodes ?s1) (runtimeNodeKey ''t'' (id_node (ex_new ''2'') n)) = None"
    "\<forall>k n. mget (runtimeNodes ?s1) k = Some n \<longrightarrow> nr_JobRunID n \<noteq> id_job (ex_new ''2'')"
    unfolding same r by (auto simp: ex_paused_def ex_staged_def ex_new_def ex_noderun_def runtimePlanKey_def inj_def split: if_splits)
  have keys: "pn_Key ` set (jp_Nodes (sr_Plan r)) = {''a'', ''b''}"
    using arg_cong [OF r(2), of set] by simp
  have "set (NodeRuns ''t'' ''j'' ex_paused) = {ex_noderun ''na'' ''a'' NodeSucceeded, ex_noderun ''nb'' ''b'' NodePending}"
    by (simp add: NodeRuns_def ex_paused_def ex_staged_def mvals_def) (simp add: ex_noderun_def)
  moreover have "nr_NodeKey (ex_noderun i k st) = k" "nr_State (ex_noderun i k st) = st" for i k st by (simp_all add: ex_noderun_def)
  ultimately have "{nr_NodeKey n | n. n \<in> set (NodeRuns ''t'' ''j'' ex_paused) \<and> finished (nr_State n)} = {''a''}"
    by (auto simp: finished_def intro!: exI [of _ "ex_noderun ''na'' ''a'' NodeSucceeded"])
  with fork_restores [OF c f cp ok fresh] keys have "{nr_NodeKey m | m. m \<in> set (sr_Nodes r) \<and> finished (nr_State m)} = {''a''}"
    by auto
  with c f show ?thesis by blast
qed

theorem replay_derives_witness:
  "\<exists>s' r. ReplayWithOptions ''r'' 9 ''t'' ''j'' 0 True ex_done = (s', r) \<and> derived_only True ex_done s'
     \<and> r \<noteq> Inl (Conflict ''RUNTIME_REPLAY_EVENT_GAP'')"
proof -
  have run: "store_step\<^sup>*\<^sup>* New ex_done" using ex_store_step ex_done_step by (simp add: converse_rtranclp_into_rtranclp)
  obtain s' r where e: "ReplayWithOptions ''r'' 9 ''t'' ''j'' 0 True ex_done = (s', r)" by fastforce
  from replay_derives [OF run e] e show ?thesis by blast
qed

end
