(* ===== verification/Agents.thy ===== *)
theory Agents
  imports Job_Control
begin

section \<open>Context views and agents\<close>

text \<open>
  The services of \<^verbatim>\<open>internal/runtime/context.go\<close> and \<^verbatim>\<open>internal/runtime/agent.go\<close>: the frozen view of one
  attempt (its references, tools, budget and lifetime) and the logical agent that works under it, possibly as
  a child of another agent. \<open>hash\<close> is \<^verbatim>\<open>stablehash.Sum\<close>, \<open>newID\<close> the fresh identifier, \<open>now\<close> the clock.
\<close>

subsection \<open>Context views (context.go)\<close>

record ContextViewInput =
  cvi_TenantID :: string
  cvi_JobRunID :: string
  cvi_NodeRunID :: string
  cvi_AttemptID :: string
  cvi_InputRefs :: "string list"
  cvi_StateRefs :: "string list"
  cvi_EventRefs :: "string list"
  cvi_AllowedTools :: "string list"
  cvi_MaxTokens :: int
  cvi_BudgetMinor :: int
  cvi_CreatedAt :: time
  cvi_ExpiresAt :: time

definition sortedRefs :: "string list \<Rightarrow> string list" where
  "sortedRefs values = sort (trim_unique [] values)"

definition view_json :: "ContextView \<Rightarrow> goany" where
  "view_json v = AObj
     [(''SchemaVersion'', AStr (cv_SchemaVersion v)), (''TenantID'', AStr (cv_TenantID v)), (''JobRunID'', AStr (cv_JobRunID v)),
      (''NodeRunID'', AStr (cv_NodeRunID v)), (''AttemptID'', AStr (cv_AttemptID v)), (''InputRefs'', AStrs (cv_InputRefs v)),
      (''StateRefs'', AStrs (cv_StateRefs v)), (''EventRefs'', AStrs (cv_EventRefs v)), (''AllowedTools'', AStrs (cv_AllowedTools v)),
      (''MaxTokens'', AInt (cv_MaxTokens v)), (''BudgetMinor'', AInt (cv_BudgetMinor v)), (''ExpiresAt'', ATime (Some (cv_ExpiresAt v)))]"

definition new_view :: "(goany \<Rightarrow> string) \<Rightarrow> string \<Rightarrow> ContextViewInput \<Rightarrow> ContextView" where
  "new_view hash newID input =
     (let v = \<lparr>cv_ID = newID, cv_TenantID = TrimSpace (cvi_TenantID input), cv_JobRunID = TrimSpace (cvi_JobRunID input),
        cv_NodeRunID = TrimSpace (cvi_NodeRunID input), cv_AttemptID = TrimSpace (cvi_AttemptID input),
        cv_SchemaVersion = ContextViewSchema, cv_InputRefs = sortedRefs (cvi_InputRefs input),
        cv_StateRefs = sortedRefs (cvi_StateRefs input), cv_EventRefs = sortedRefs (cvi_EventRefs input),
        cv_AllowedTools = sortedRefs (cvi_AllowedTools input), cv_MaxTokens = cvi_MaxTokens input,
        cv_BudgetMinor = cvi_BudgetMinor input, cv_Digest = '''', cv_CreatedAt = cvi_CreatedAt input,
        cv_ExpiresAt = cvi_ExpiresAt input\<rparr>
      in v\<lparr>cv_Digest := ''sha256:'' @ hash (view_json v)\<rparr>)"

definition BuildContextView :: "(goany \<Rightarrow> string) \<Rightarrow> string \<Rightarrow> ContextViewInput \<Rightarrow> ContextView res" where
  "BuildContextView hash newID input =
     require (\<not> (blank (cvi_TenantID input) \<or> blank (cvi_JobRunID input) \<or> blank (cvi_NodeRunID input)
                 \<or> blank (cvi_AttemptID input))) (Invalid ''CONTEXT_VIEW_INPUT_INVALID'') (
     require (\<not> (cvi_MaxTokens input \<le> 0 \<or> cvi_BudgetMinor input < 0 \<or> IsZero (cvi_CreatedAt input)
                 \<or> \<not> cvi_ExpiresAt input > cvi_CreatedAt input)) (Invalid ''CONTEXT_VIEW_POLICY_INVALID'') (
     check_nil (ContextView_Validate (new_view hash newID input)) (
     Inr (new_view hash newID input))))"

subsection \<open>Agents (agent.go)\<close>

definition view_defaults :: "time \<Rightarrow> ContextViewInput \<Rightarrow> ContextViewInput" where
  "view_defaults now input =
     input\<lparr>cvi_TenantID := TrimSpace (cvi_TenantID input), cvi_JobRunID := TrimSpace (cvi_JobRunID input),
       cvi_NodeRunID := TrimSpace (cvi_NodeRunID input),
       cvi_CreatedAt := (if IsZero (cvi_CreatedAt input) then now else cvi_CreatedAt input)\<rparr>"

definition Service_CreateContextView :: "(goany \<Rightarrow> string) \<Rightarrow> string \<Rightarrow> time \<Rightarrow> ContextViewInput \<Rightarrow> ContextView svc" where
  "Service_CreateContextView hash newID now input0 =
     (let input = view_defaults now input0 in
      bind_svc (query (Store_JobRun (cvi_TenantID input) (cvi_JobRunID input))) (\<lambda>job.
      bind_svc (query (Store_NodeRun (cvi_TenantID input) (cvi_NodeRunID input))) (\<lambda>node.
      guard_svc (\<not> (jr_TenantID job \<noteq> cvi_TenantID input \<or> nr_TenantID node \<noteq> cvi_TenantID input \<or> nr_JobRunID node \<noteq> jr_ID job))
        (Invalid ''CONTEXT_VIEW_SCOPE_INVALID'') (
      bind_svc (query (\<lambda>_. BuildContextView hash newID input)) (\<lambda>view.
      bind_svc (exec (CreateContextView view)) (\<lambda>_. ret view))))))"

record AgentInstanceInput =
  aii_TenantID :: string
  aii_JobRunID :: string
  aii_NodeRunID :: string
  aii_ParentAgentInstanceID :: string
  aii_Role :: string
  aii_HarnessKind :: string
  aii_SessionRef :: string
  aii_ExecutionProfileID :: string
  aii_ContextViewID :: string
  aii_RemainingDescendants :: int
  aii_BudgetMinor :: int

definition agent_trim :: "AgentInstanceInput \<Rightarrow> AgentInstanceInput" where
  "agent_trim input =
     input\<lparr>aii_TenantID := TrimSpace (aii_TenantID input), aii_JobRunID := TrimSpace (aii_JobRunID input),
       aii_NodeRunID := TrimSpace (aii_NodeRunID input),
       aii_ParentAgentInstanceID := TrimSpace (aii_ParentAgentInstanceID input), aii_Role := TrimSpace (aii_Role input),
       aii_HarnessKind := TrimSpace (aii_HarnessKind input),
       aii_ExecutionProfileID := TrimSpace (aii_ExecutionProfileID input),
       aii_ContextViewID := TrimSpace (aii_ContextViewID input)\<rparr>"

definition isStringSubset :: "string list \<Rightarrow> string list \<Rightarrow> bool" where
  "isStringSubset candidate allowed = list_all (\<lambda>x. x \<in> set allowed) candidate"

text \<open>The depth of a new agent: zero, or one below the parent once the parent is found to allow it.\<close>

definition child_depth :: "AgentInstanceInput \<Rightarrow> JobRun \<Rightarrow> ContextView \<Rightarrow> RuntimeLimits \<Rightarrow> Store \<Rightarrow> int res" where
  "child_depth input job view limits s =
     (if aii_ParentAgentInstanceID input = '''' then Inr 0
      else
        bind_res (Store_AgentInstance (aii_TenantID input) (aii_ParentAgentInstanceID input) s) (\<lambda>parent.
        require (\<not> (ai_TenantID parent \<noteq> aii_TenantID input \<or> ai_JobRunID parent \<noteq> jr_ID job))
          (Invalid ''AGENT_INSTANCE_PARENT_SCOPE_INVALID'') (
        let depth = ai_Depth parent + 1 in
        require (\<not> depth > rl_MaxDepth limits) (Policy ''AGENT_INSTANCE_DEPTH_LIMIT'') (
        require (\<not> (ai_RemainingDescendants parent < 1
                    \<or> aii_RemainingDescendants input > ai_RemainingDescendants parent - 1))
          (Policy ''AGENT_INSTANCE_DESCENDANT_ESCALATION'') (
        require (\<not> aii_BudgetMinor input > i64 (ai_BudgetMinor parent - ai_UsedCostMinor parent))
          (Policy ''AGENT_INSTANCE_BUDGET_ESCALATION'') (
        bind_res (Store_ContextView (aii_TenantID input) (ai_ContextViewID parent) s) (\<lambda>parentView.
        require (isStringSubset (cv_AllowedTools view) (cv_AllowedTools parentView))
          (Policy ''AGENT_INSTANCE_TOOL_ESCALATION'') (
        Inr depth))))))))"

definition new_agent :: "string \<Rightarrow> time \<Rightarrow> AgentInstanceInput \<Rightarrow> string \<Rightarrow> int \<Rightarrow> AgentInstance" where
  "new_agent newID now input viewID depth =
     \<lparr>ai_ID = newID, ai_TenantID = aii_TenantID input, ai_JobRunID = aii_JobRunID input, ai_NodeRunID = aii_NodeRunID input,
      ai_ParentAgentInstanceID = aii_ParentAgentInstanceID input, ai_Role = aii_Role input,
      ai_HarnessKind = aii_HarnessKind input, ai_SessionRef = TrimSpace (aii_SessionRef input),
      ai_ExecutionProfileID = aii_ExecutionProfileID input, ai_ContextViewID = viewID, ai_State = AgentCreated,
      ai_Depth = depth, ai_RemainingDescendants = aii_RemainingDescendants input, ai_BudgetMinor = aii_BudgetMinor input,
      ai_UsedCostMinor = 0, ai_Version = 1, ai_CreatedAt = now, ai_UpdatedAt = now\<rparr>"

definition Service_CreateAgentInstance :: "string \<Rightarrow> time \<Rightarrow> AgentInstanceInput \<Rightarrow> AgentInstance svc" where
  "Service_CreateAgentInstance newID now input0 =
     (let input = agent_trim input0 in
      guard_svc (\<not> (aii_RemainingDescendants input < 0 \<or> aii_BudgetMinor input < 0))
        (Invalid ''AGENT_INSTANCE_POLICY_INVALID'') (
      bind_svc (query (Store_JobRun (aii_TenantID input) (aii_JobRunID input))) (\<lambda>job.
      bind_svc (query (Store_NodeRun (aii_TenantID input) (aii_NodeRunID input))) (\<lambda>node.
      bind_svc (query (Store_ContextView (aii_TenantID input) (aii_ContextViewID input))) (\<lambda>view.
      guard_svc (\<not> (jr_TenantID job \<noteq> aii_TenantID input \<or> nr_TenantID node \<noteq> aii_TenantID input
                    \<or> nr_JobRunID node \<noteq> jr_ID job \<or> cv_TenantID view \<noteq> aii_TenantID input
                    \<or> cv_JobRunID view \<noteq> jr_ID job \<or> cv_NodeRunID view \<noteq> nr_ID node))
        (Invalid ''AGENT_INSTANCE_SCOPE_INVALID'') (
      guard_svc (cv_ExpiresAt view > now) (Policy ''CONTEXT_VIEW_EXPIRED'') (
      guard_svc (\<not> aii_BudgetMinor input > cv_BudgetMinor view) (Policy ''AGENT_INSTANCE_BUDGET_ESCALATION'') (
      bind_svc (query (Store_Plan (aii_TenantID input) (jr_PlanRevisionID job))) (\<lambda>plan.
      guard_svc (\<not> aii_RemainingDescendants input > rl_MaxDynamicDescendants (jp_Limits plan))
        (Policy ''AGENT_INSTANCE_DESCENDANT_LIMIT'') (
      guard_svc (\<not> (rl_MaxCostMinor (jp_Limits plan) > 0 \<and> aii_BudgetMinor input > rl_MaxCostMinor (jp_Limits plan)))
        (Policy ''AGENT_INSTANCE_BUDGET_LIMIT'') (
      bind_svc (query (child_depth input job view (jp_Limits plan))) (\<lambda>depth.
      let agent = new_agent newID now input (cv_ID view) depth in
      check_svc (AgentInstance_Validate agent) (
      bind_svc (exec (CreateAgentInstance agent)) (\<lambda>_. ret agent))))))))))))))"

definition TransitionAgentInstance ::
    "time \<Rightarrow> string \<Rightarrow> string \<Rightarrow> agent_state \<Rightarrow> string \<Rightarrow> int \<Rightarrow> int \<Rightarrow> AgentInstance svc" where
  "TransitionAgentInstance now tenantID i nxt sessionRef usedCostMinor expectedVersion =
     bind_svc (query (Store_AgentInstance tenantID i)) (\<lambda>agent0.
     guard_svc (ai_Version agent0 = expectedVersion) (Conflict ''AGENT_INSTANCE_VERSION_CONFLICT'') (
     guard_svc (\<not> (usedCostMinor < ai_UsedCostMinor agent0 \<or> usedCostMinor > ai_BudgetMinor agent0))
       (Policy ''AGENT_INSTANCE_USAGE_INVALID'') (
     check_svc (AgentInstance_Transition agent0 nxt) (
     let agent = agent0\<lparr>ai_State := nxt, ai_SessionRef := TrimSpace sessionRef, ai_UsedCostMinor := usedCostMinor,
                   ai_Version := ai_Version agent0 + 1, ai_UpdatedAt := now\<rparr> in
     bind_svc (exec (SaveAgentInstance agent expectedVersion)) (\<lambda>_. ret agent)))))"

subsection \<open>What the operations do\<close>

definition view_key :: "ContextView \<Rightarrow> string" where
  "view_key v = runtimePlanKey (cv_TenantID v) (cv_ID v)"

lemma Service_CreateContextView_ok:
  assumes "Service_CreateContextView hash newID now input s = (s', Inr v)"
  shows "mget (runtimeContextViews s) (view_key v) = None"
    "s' = s\<lparr>runtimeContextViews := mput (view_key v) v (runtimeContextViews s)\<rparr>"
proof -
  have "CreateContextView v s = Inr (s', ())"
    using assms unfolding Service_CreateContextView_def Let_def svc_Inr by auto
  then show "mget (runtimeContextViews s) (view_key v) = None"
    "s' = s\<lparr>runtimeContextViews := mput (view_key v) v (runtimeContextViews s)\<rparr>"
    unfolding CreateContextView_def validateNewContextViewLocked_def view_key_def by (auto split: if_splits)
qed

lemma CreateAgentInstance_ok:
  assumes "CreateAgentInstance a s = Inr (s', u)"
  obtains (root) "ai_ParentAgentInstanceID a = ''''" "mget (runtimeAgents s) (agent_key a) = None"
      "s' = s\<lparr>runtimeAgents := mput (agent_key a) a (runtimeAgents s)\<rparr>"
  | (child) p where "ai_ParentAgentInstanceID a \<noteq> ''''" "mget (runtimeAgents s) (agent_key a) = None"
      "mget (runtimeAgents s) (runtimePlanKey (ai_TenantID a) (ai_ParentAgentInstanceID a)) = Some p" "parent_allows s p a"
      "s' = s\<lparr>runtimeAgents := mput (agent_key a) a (mput (runtimePlanKey (ai_TenantID a) (ai_ParentAgentInstanceID a))
         (p\<lparr>ai_RemainingDescendants := i64 (ai_RemainingDescendants p - i64 (1 + ai_RemainingDescendants a)),
            ai_Version := ai_Version p + 1, ai_UpdatedAt := ai_CreatedAt a\<rparr>) (runtimeAgents s))\<rparr>"
proof (cases "ai_ParentAgentInstanceID a = ''''")
  case True
  then show ?thesis using assms root by (simp add: CreateAgentInstance_def Let_def agent_key_def [symmetric])
next
  case False
  then show ?thesis using assms child by (simp add: CreateAgentInstance_def Let_def agent_key_def [symmetric]) blast
qed

lemma child_depth_ok:
  assumes "child_depth input job view limits s = Inr d"
  obtains (root) "aii_ParentAgentInstanceID input = ''''" "d = 0"
  | (child) p pv where "aii_ParentAgentInstanceID input \<noteq> ''''"
      "mget (runtimeAgents s) (runtimePlanKey (aii_TenantID input) (aii_ParentAgentInstanceID input)) = Some p"
      "ai_TenantID p = aii_TenantID input" "ai_JobRunID p = jr_ID job" "d = ai_Depth p + 1" "d \<le> rl_MaxDepth limits"
      "aii_RemainingDescendants input < ai_RemainingDescendants p"
      "mget (runtimeContextViews s) (runtimePlanKey (aii_TenantID input) (ai_ContextViewID p)) = Some pv"
      "set (cv_AllowedTools view) \<subseteq> set (cv_AllowedTools pv)"
proof (cases "aii_ParentAgentInstanceID input = ''''")
  case True
  then show ?thesis using assms root by (simp add: child_depth_def)
next
  case False
  then show ?thesis using assms
    by (auto simp: child_depth_def Let_def Store_AgentInstance_def Store_ContextView_def isStringSubset_def list_all_iff
        intro: child)
qed

lemma new_agent_fields:
  "ai_Depth (new_agent i now input v d) = d" "ai_TenantID (new_agent i now input v d) = aii_TenantID input"
  "ai_ParentAgentInstanceID (new_agent i now input v d) = aii_ParentAgentInstanceID input"
  "ai_ContextViewID (new_agent i now input v d) = v" "ai_UsedCostMinor (new_agent i now input v d) = 0"
  by (simp_all add: new_agent_def)

lemma Service_CreateAgentInstance_ok:
  assumes "Service_CreateAgentInstance newID now input0 s = (s', Inr a)"
  obtains input job view plan u where "input = agent_trim input0"
    "mget (runtimeContextViews s) (runtimePlanKey (aii_TenantID input) (aii_ContextViewID input)) = Some view"
    "cv_TenantID view = aii_TenantID input" "cv_ExpiresAt view > now" "aii_BudgetMinor input \<le> cv_BudgetMinor view"
    "mget (runtimePlans s) (runtimePlanKey (aii_TenantID input) (jr_PlanRevisionID job)) = Some plan"
    "aii_RemainingDescendants input \<le> rl_MaxDynamicDescendants (jp_Limits plan)"
    "child_depth input job view (jp_Limits plan) s = Inr (ai_Depth a)"
    "a = new_agent newID now input (cv_ID view) (ai_Depth a)" "CreateAgentInstance a s = Inr (s', u)"
proof -
  let ?i = "agent_trim input0"
  obtain job and node :: NodeRun and view plan depth u s1 where
    q: "Store_ContextView (aii_TenantID ?i) (aii_ContextViewID ?i) s = Inr view"
      "Store_Plan (aii_TenantID ?i) (jr_PlanRevisionID job) s = Inr plan"
      "child_depth ?i job view (jp_Limits plan) s = Inr depth"
    and g: "\<not> (jr_TenantID job \<noteq> aii_TenantID ?i \<or> nr_TenantID node \<noteq> aii_TenantID ?i
        \<or> nr_JobRunID node \<noteq> jr_ID job \<or> cv_TenantID view \<noteq> aii_TenantID ?i
        \<or> cv_JobRunID view \<noteq> jr_ID job \<or> cv_NodeRunID view \<noteq> nr_ID node)"
      "cv_ExpiresAt view > now" "\<not> aii_BudgetMinor ?i > cv_BudgetMinor view"
      "\<not> aii_RemainingDescendants ?i > rl_MaxDynamicDescendants (jp_Limits plan)"
    and a: "a = new_agent newID now ?i (cv_ID view) depth"
    and run0: "CreateAgentInstance (new_agent newID now ?i (cv_ID view) depth) s = Inr (s1, u)" "s' = s1"
    using assms unfolding Service_CreateAgentInstance_def Let_def bind_query_Inr guard_svc_Inr check_svc_Inr bind_exec_Inr ret_Inr
    by (elim exE conjE) (rule that; assumption)
  have run: "CreateAgentInstance a s = Inr (s', u)" unfolding a run0(2) by (rule run0(1))
  have d: "ai_Depth a = depth" by (simp add: a new_agent_def)
  have "a = new_agent newID now ?i (cv_ID view) (ai_Depth a)" unfolding d by (rule a)
  moreover have "mget (runtimeContextViews s) (runtimePlanKey (aii_TenantID ?i) (aii_ContextViewID ?i)) = Some view"
    "mget (runtimePlans s) (runtimePlanKey (aii_TenantID ?i) (jr_PlanRevisionID job)) = Some plan"
    using q(1,2) unfolding Store_ContextView_def Store_Plan_def lookup_or_Inr by simp_all
  ultimately show ?thesis
    using q(3) g run by (intro that [of ?i view job plan u]) (simp_all add: d new_agent_fields)
qed

subsection \<open>Authority only shrinks\<close>

inductive agent_step :: "Store \<Rightarrow> Store \<Rightarrow> bool" where
  view: "Service_CreateContextView hash i now vin s = (s', Inr v) \<Longrightarrow> agent_step s s'"
| agent: "Service_CreateAgentInstance i now ain s = (s', Inr a) \<Longrightarrow> agent_step s s'"
| move: "TransitionAgentInstance now t i nxt ref used x s = (s', Inr a) \<Longrightarrow> agent_step s s'"

definition view_of :: "Store \<Rightarrow> AgentInstance \<Rightarrow> ContextView option" where
  "view_of s a = mget (runtimeContextViews s) (runtimePlanKey (ai_TenantID a) (ai_ContextViewID a))"

definition parent_of :: "Store \<Rightarrow> AgentInstance \<Rightarrow> AgentInstance \<Rightarrow> bool" where
  "parent_of s a p = (ai_ParentAgentInstanceID a \<noteq> ''''
     \<and> mget (runtimeAgents s) (runtimePlanKey (ai_TenantID a) (ai_ParentAgentInstanceID a)) = Some p)"

definition narrows :: "Store \<Rightarrow> AgentInstance \<Rightarrow> AgentInstance \<Rightarrow> bool" where
  "narrows s a p = (\<exists>va vp. view_of s a = Some va \<and> view_of s p = Some vp
     \<and> set (cv_AllowedTools va) \<subseteq> set (cv_AllowedTools vp) \<and> ai_BudgetMinor a \<le> ai_BudgetMinor p)"

text \<open>Every agent has its view; the parent of a child is stored, one level up, and bounds it.\<close>

definition agent_ok :: "Store \<Rightarrow> AgentInstance \<Rightarrow> bool" where
  "agent_ok s a = (view_of s a \<noteq> None \<and> 0 \<le> ai_UsedCostMinor a
     \<and> (ai_ParentAgentInstanceID a \<noteq> '''' \<longrightarrow>
          (\<exists>p. parent_of s a p \<and> ai_Depth a = ai_Depth p + 1 \<and> narrows s a p)))"

definition attenuated :: "Store \<Rightarrow> bool" where
  "attenuated s = (keyed agent_key (runtimeAgents s) \<and> keyed view_key (runtimeContextViews s)
     \<and> (\<forall>k a. mget (runtimeAgents s) k = Some a \<longrightarrow> agent_ok s a))"

text \<open>What an agent keeps when its row is written again, and when views are added.\<close>

definition same_standing :: "AgentInstance \<Rightarrow> AgentInstance \<Rightarrow> bool" where
  "same_standing a b = (ai_TenantID b = ai_TenantID a \<and> ai_ParentAgentInstanceID b = ai_ParentAgentInstanceID a
     \<and> ai_ContextViewID b = ai_ContextViewID a \<and> ai_Depth b = ai_Depth a \<and> ai_BudgetMinor b = ai_BudgetMinor a
     \<and> ai_UsedCostMinor a \<le> ai_UsedCostMinor b)"

lemma same_standing_refl [simp]: "same_standing a a"
  by (simp add: same_standing_def)

lemma agent_ok_kept:
  assumes "agent_ok s a" and "same_standing a b"
    and views: "moves (=) (runtimeContextViews s) (runtimeContextViews s')"
    and agents: "moves same_standing (runtimeAgents s) (runtimeAgents s')"
  shows "agent_ok s' b"
proof -
  have view: "view_of s' d = Some v" if "view_of s c = Some v" "same_standing c d" for c d v
    using moves_get [OF views, of _ v] that unfolding view_of_def same_standing_def by fastforce
  have "\<exists>p. parent_of s' b p \<and> ai_Depth b = ai_Depth p + 1 \<and> narrows s' b p" if "ai_ParentAgentInstanceID b \<noteq> ''''"
  proof -
    have "ai_ParentAgentInstanceID a \<noteq> ''''" using that assms(2) by (simp add: same_standing_def)
    then obtain p where p: "parent_of s a p" "ai_Depth a = ai_Depth p + 1" "narrows s a p"
      using assms(1) unfolding agent_ok_def by blast
    then obtain q where q: "mget (runtimeAgents s') (runtimePlanKey (ai_TenantID a) (ai_ParentAgentInstanceID a)) = Some q"
      "same_standing p q"
      using moves_get [OF agents] unfolding parent_of_def by blast
    obtain va vp where v: "view_of s a = Some va" "view_of s p = Some vp"
      "set (cv_AllowedTools va) \<subseteq> set (cv_AllowedTools vp)" "ai_BudgetMinor a \<le> ai_BudgetMinor p"
      using p(3) unfolding narrows_def by blast
    have "narrows s' b q"
      unfolding narrows_def using view [OF v(1) assms(2)] view [OF v(2) q(2)] v(3,4) assms(2) q(2)
      by (simp add: same_standing_def)
    moreover have "parent_of s' b q" "ai_Depth b = ai_Depth q + 1"
      using that q p(2) assms(2) by (simp_all add: parent_of_def same_standing_def)
    ultimately show ?thesis by blast
  qed
  moreover have "view_of s' b \<noteq> None" "0 \<le> ai_UsedCostMinor b"
    using assms(1) view [OF _ assms(2)] assms(2) unfolding agent_ok_def by (auto simp: same_standing_def)
  ultimately show ?thesis by (simp add: agent_ok_def)
qed

lemma attenuated_view:
  assumes "Service_CreateContextView hash i now vin s = (s', Inr v)" and ok: "attenuated s"
  shows "attenuated s'"
proof -
  note v = Service_CreateContextView_ok [OF assms(1)]
  have m: "moves (=) (runtimeContextViews s) (runtimeContextViews s')"
    "moves same_standing (runtimeAgents s) (runtimeAgents s')" using v by (auto intro: moves_mput moves_refl)
  have "agent_ok s' a" if "mget (runtimeAgents s') k = Some a" for k a
    using that ok agent_ok_kept [OF _ same_standing_refl m] unfolding attenuated_def v(2) by auto
  moreover have "keyed agent_key (runtimeAgents s')" "keyed view_key (runtimeContextViews s')"
    using ok by (simp_all add: v(2) attenuated_def keyed_mput)
  ultimately show ?thesis unfolding attenuated_def by blast
qed

lemma attenuated_move:
  assumes "TransitionAgentInstance now t i nxt ref used x s = (s', Inr b)" and ok: "attenuated s"
  shows "attenuated s'"
proof -
  obtain a where q: "Store_AgentInstance t i s = Inr a" and used: "ai_UsedCostMinor a \<le> used"
    and b: "b = a\<lparr>ai_State := nxt, ai_SessionRef := TrimSpace ref, ai_UsedCostMinor := used,
      ai_Version := ai_Version a + 1, ai_UpdatedAt := now\<rparr>" and run: "SaveAgentInstance b x s = Inr (s', ())"
    using assms(1) unfolding TransitionAgentInstance_def Let_def svc_Inr by auto
  have row: "mget (runtimeAgents s) (runtimePlanKey t i) = Some a" using q by (simp add: Store_AgentInstance_def)
  then have key: "runtimePlanKey t i = agent_key a" using ok unfolding attenuated_def by (blast dest: keyed_key)
  have kb: "agent_key b = agent_key a" by (simp add: b agent_key_def)
  have s': "s' = s\<lparr>runtimeAgents := mput (agent_key a) b (runtimeAgents s)\<rparr>"
    using run unfolding SaveAgentInstance_def Let_def by (auto simp: agent_key_def b)
  have ab: "same_standing a b" using used by (simp add: same_standing_def b)
  have agents: "moves same_standing (runtimeAgents s) (runtimeAgents s')"
    using row ab unfolding s' key by (auto intro: moves_mput)
  have views: "moves (=) (runtimeContextViews s) (runtimeContextViews s')" by (simp add: s' moves_refl)
  have "agent_ok s' c" if c: "mget (runtimeAgents s') k = Some c" for k c
  proof (cases "k = agent_key a")
    case True
    then have "c = b" using c by (simp add: s')
    moreover have "agent_ok s a" using ok row unfolding attenuated_def by blast
    ultimately show ?thesis using agent_ok_kept [OF _ ab views agents] by simp
  next
    case False
    then have "agent_ok s c" using ok c unfolding attenuated_def by (simp add: s')
    then show ?thesis by (rule agent_ok_kept [OF _ same_standing_refl views agents])
  qed
  moreover have "keyed agent_key (runtimeAgents s')" "keyed view_key (runtimeContextViews s')"
    using ok by (simp_all add: s' attenuated_def keyed_mput kb)
  ultimately show ?thesis unfolding attenuated_def by blast
qed

lemma attenuated_agent:
  assumes "Service_CreateAgentInstance i now ain s = (s', Inr a)" and ok: "attenuated s"
  shows "attenuated s'"
proof -
  obtain input job view and plan :: JobPlanRevision and u where in_: "input = agent_trim ain"
    and view: "mget (runtimeContextViews s) (runtimePlanKey (aii_TenantID input) (aii_ContextViewID input)) = Some view"
    and vt: "cv_TenantID view = aii_TenantID input"
    and depth: "child_depth input job view (jp_Limits plan) s = Inr (ai_Depth a)"
    and a: "a = new_agent i now input (cv_ID view) (ai_Depth a)" and run: "CreateAgentInstance a s = Inr (s', u)"
    using assms(1) by (rule Service_CreateAgentInstance_ok) (rule that; assumption)
  have a_simps: "ai_TenantID a = aii_TenantID input" "ai_ParentAgentInstanceID a = aii_ParentAgentInstanceID input"
    "ai_ContextViewID a = cv_ID view" "ai_UsedCostMinor a = 0"
    by (subst a, simp add: new_agent_fields)+
  have keyed: "keyed agent_key (runtimeAgents s)" "keyed view_key (runtimeContextViews s)"
    and rows: "\<And>k c. mget (runtimeAgents s) k = Some c \<Longrightarrow> agent_ok s c"
    using ok unfolding attenuated_def by blast+
  have "runtimePlanKey (aii_TenantID input) (aii_ContextViewID input) = view_key view"
    using keyed(2) view by (rule keyed_key)
  then have va: "view_of s a = Some view" using view by (simp add: view_of_def a_simps view_key_def vt)
  from run show ?thesis
  proof (rule CreateAgentInstance_ok)
    assume root: "ai_ParentAgentInstanceID a = ''''" and s': "s' = s\<lparr>runtimeAgents := mput (agent_key a) a (runtimeAgents s)\<rparr>"
      and new: "mget (runtimeAgents s) (agent_key a) = None"
    have m: "moves (=) (runtimeContextViews s) (runtimeContextViews s')"
      "moves same_standing (runtimeAgents s) (runtimeAgents s')" using new by (auto simp: s' intro: moves_refl moves_mput)
    have "agent_ok s a" using va root by (simp add: agent_ok_def a_simps)
    then show ?thesis
      using keyed rows agent_ok_kept [OF _ same_standing_refl m] unfolding attenuated_def
      by (auto simp: s' keyed_mput split: if_splits)
  next
    fix p :: AgentInstance
    let ?pk = "runtimePlanKey (ai_TenantID a) (ai_ParentAgentInstanceID a)"
    let ?p = "p\<lparr>ai_RemainingDescendants := i64 (ai_RemainingDescendants p - i64 (1 + ai_RemainingDescendants a)),
      ai_Version := ai_Version p + 1, ai_UpdatedAt := ai_CreatedAt a\<rparr>"
    assume child: "ai_ParentAgentInstanceID a \<noteq> ''''" and new: "mget (runtimeAgents s) (agent_key a) = None"
      and p: "mget (runtimeAgents s) ?pk = Some p" and allow: "parent_allows s p a"
      and s': "s' = s\<lparr>runtimeAgents := mput (agent_key a) a (mput ?pk ?p (runtimeAgents s))\<rparr>"
    have pp: "same_standing p ?p" by (simp add: same_standing_def)
    have m: "moves (=) (runtimeContextViews s) (runtimeContextViews s')"
      "moves same_standing (runtimeAgents s) (runtimeAgents s')"
      using new p pp by (auto simp: s' moves_def)
    have pk: "?pk = agent_key p" using keyed(1) p by (rule keyed_key)
    have tp: "ai_TenantID p = ai_TenantID a"
      using depth child p by (rule_tac child_depth_ok [OF depth]) (simp_all add: a_simps)
    have "narrows s a p" and d: "ai_Depth a = ai_Depth p + 1"
      using allow rows [OF p] unfolding parent_allows_def narrows_def view_of_def agent_ok_def tp
      by (auto simp: runtimeStringSubset_def list_all_iff split: option.splits)
    then have "agent_ok s a" using va child p by (auto simp: agent_ok_def parent_of_def a_simps)
    from agent_ok_kept [OF this same_standing_refl m] agent_ok_kept [OF rows [OF p] pp m]
    show ?thesis
      using keyed rows agent_ok_kept [OF _ same_standing_refl m] unfolding attenuated_def
      by (auto simp: s' keyed_mput pk agent_key_def split: if_splits)
  qed
qed

subsection \<open>Property\<close>

text \<open>
  C29. Authority only shrinks along the tree of agents. After any sequence of the service's operations on views and
  agents, an agent that descends from another, through any number of parents, may use only tools the ancestor may
  use, has at most its budget, and sits deeper in the tree by the number of generations between them, so no agent
  is its own ancestor.
\<close>

theorem agent_authority_shrinks:
  assumes "agent_step\<^sup>*\<^sup>* s s'" and "attenuated s" and "mget (runtimeAgents s') k = Some a" and "(parent_of s' ^^ n) a b"
  shows "(\<exists>va vb. view_of s' a = Some va \<and> view_of s' b = Some vb
      \<and> (\<forall>tool. AllowsTool va tool \<longrightarrow> AllowsTool vb tool))
    \<and> ai_BudgetMinor a \<le> ai_BudgetMinor b \<and> ai_Depth a = ai_Depth b + int n"
proof -
  have ok: "attenuated s'"
    using assms(1,2)
    by (induction rule: rtranclp_induct) (auto elim: agent_step.cases intro: attenuated_view attenuated_agent attenuated_move)
  have "(\<exists>j. mget (runtimeAgents s') j = Some b) \<and> (\<exists>va vb. view_of s' a = Some va \<and> view_of s' b = Some vb
      \<and> set (cv_AllowedTools va) \<subseteq> set (cv_AllowedTools vb))
    \<and> ai_BudgetMinor a \<le> ai_BudgetMinor b \<and> ai_Depth a = ai_Depth b + int n"
    using assms(4)
  proof (induction n arbitrary: b)
    case 0
    have "agent_ok s' a" using ok assms(3) unfolding attenuated_def by blast
    then obtain va where "view_of s' a = Some va" unfolding agent_ok_def by blast
    with 0 show ?case using assms(3) by auto
  next
    case (Suc n)
    then obtain c where c: "(parent_of s' ^^ n) a c" "parent_of s' c b" by auto
    note IH = Suc.IH [OF c(1)]
    then have "agent_ok s' c" using ok unfolding attenuated_def by blast
    then have "ai_Depth c = ai_Depth b + 1 \<and> narrows s' c b"
      using c(2) unfolding agent_ok_def by (auto simp: parent_of_def)
    moreover have "\<exists>j. mget (runtimeAgents s') j = Some b" using c(2) by (auto simp: parent_of_def)
    ultimately show ?case using IH unfolding narrows_def by fastforce
  qed
  then show ?thesis unfolding AllowsTool_def Let_def list_ex_iff by blast
qed

definition ex_led :: Store where
  "ex_led = ex_store\<lparr>runtimePlans := [(''t:p1'', ex_plan)], runtimeContextViews := [(''t:vp'', ex_view ''vp'')],
     runtimeAgents := [(''t:p'', ex_agent ''p'' ''vp'' '''' 0 10)]\<rparr>"

definition ex_child_view :: "string list \<Rightarrow> ContextView svc" where
  "ex_child_view tools = Service_CreateContextView (\<lambda>_. ''h'') ''vc'' 10 \<lparr>cvi_TenantID = ''t'', cvi_JobRunID = ''j'',
     cvi_NodeRunID = ''na'', cvi_AttemptID = ''at'', cvi_InputRefs = [], cvi_StateRefs = [], cvi_EventRefs = [],
     cvi_AllowedTools = tools, cvi_MaxTokens = 5, cvi_BudgetMinor = 5, cvi_CreatedAt = 10, cvi_ExpiresAt = 50\<rparr>"

definition ex_child :: "AgentInstance svc" where
  "ex_child = Service_CreateAgentInstance ''c'' 20 \<lparr>aii_TenantID = ''t'', aii_JobRunID = ''j'', aii_NodeRunID = ''na'',
     aii_ParentAgentInstanceID = ''p'', aii_Role = ''r'', aii_HarnessKind = ''h'', aii_SessionRef = '''',
     aii_ExecutionProfileID = ''x'', aii_ContextViewID = ''vc'', aii_RemainingDescendants = 2, aii_BudgetMinor = 4\<rparr>"

lemma ex_led_attenuated: "attenuated ex_led"
proof -
  have k: "keyed agent_key (runtimeAgents ex_led)" "keyed view_key (runtimeContextViews ex_led)"
    by (simp_all add: ex_led_def keyed_def wf_Cons agent_key_def view_key_def ex_agent_def ex_view_def runtimePlanKey_def)
  have "agent_ok ex_led (ex_agent ''p'' ''vp'' '''' 0 10)"
    by (simp add: agent_ok_def view_of_def ex_led_def ex_agent_def runtimePlanKey_def)
  then show ?thesis unfolding attenuated_def using k by (simp add: ex_led_def)
qed

theorem agent_authority_shrinks_witness:
  "\<exists>s1 s2 v a b. ex_child_view [''read''] ex_led = (s1, Inr v) \<and> ex_child s1 = (s2, Inr a) \<and> parent_of s2 a b
     \<and> ai_BudgetMinor a \<le> ai_BudgetMinor b \<and> ai_Depth a = ai_Depth b + 1
     \<and> isl (snd (ex_child (fst (ex_child_view [''read'', ''write''] ex_led))))"
proof -
  let ?p1 = "ex_child_view [''read''] ex_led"
  let ?p2 = "ex_child (fst ?p1)"
  have "\<not> isl (snd ?p1)" "\<not> isl (snd ?p2)" by code_simp+
  from this [THEN svc_ok] obtain v a where r: "?p1 = (fst ?p1, Inr v)" "?p2 = (fst ?p2, Inr a)" by blast
  have run: "agent_step\<^sup>*\<^sup>* ex_led (fst ?p2)"
    using agent_step.view [OF r(1) [unfolded ex_child_view_def]] agent_step.agent [OF r(2) [unfolded ex_child_def]]
    unfolding ex_child_view_def ex_child_def by (meson converse_rtranclp_into_rtranclp r_into_rtranclp)
  have "mget (runtimeAgents (fst ?p2)) ''t:c'' \<noteq> None" "mget (runtimeAgents (fst ?p2)) ''t:p'' \<noteq> None"
    "snd ?p2 = Inr (the (mget (runtimeAgents (fst ?p2)) ''t:c''))"
    "runtimePlanKey (ai_TenantID (the (mget (runtimeAgents (fst ?p2)) ''t:c'')))
       (ai_ParentAgentInstanceID (the (mget (runtimeAgents (fst ?p2)) ''t:c''))) = ''t:p''"
    "ai_ParentAgentInstanceID (the (mget (runtimeAgents (fst ?p2)) ''t:c'')) \<noteq> ''''"
    by code_simp+
  moreover from r(2) have "snd ?p2 = Inr a" by (metis snd_conv)
  ultimately obtain b where b: "mget (runtimeAgents (fst ?p2)) ''t:c'' = Some a" "parent_of (fst ?p2) a b"
    unfolding parent_of_def by auto
  then have "(parent_of (fst ?p2) ^^ 1) a b" by (auto simp: OO_def)
  from agent_authority_shrinks [OF run ex_led_attenuated b(1) this]
  have "ai_BudgetMinor a \<le> ai_BudgetMinor b \<and> ai_Depth a = ai_Depth b + 1" by simp
  moreover have "isl (snd (ex_child (fst (ex_child_view [''read'', ''write''] ex_led))))" by code_simp
  ultimately show ?thesis using r b(2) by blast
qed

end
