(* ===== verification/Dispatch_Service.thy ===== *)
theory Dispatch_Service
  imports Agents Sanitize Yields
begin

section \<open>The dispatch protocol\<close>

text \<open>
  \<^verbatim>\<open>internal/runtime/dispatch.go\<close> and \<^verbatim>\<open>YieldDispatch\<close> of \<^verbatim>\<open>internal/runtime/yield.go\<close>: the three phases in which a
  worker executes a node. Prepare leases the best ready node and commits the node, the frozen context view, the
  agent and the attempt together; activate binds the session of the harness; finalize or yield ends the attempt
  and gives the lease back. \<open>DispatchNext\<close> runs all phases around one harness session, heartbeats included.

  The harness is an external program. What it does is a parameter: the outcome of starting it, and the sequence
  of signals the loop of \<open>DispatchNext\<close> receives, each with the time at which it is handled. Other services may
  change the store at any moment; the functions \<open>env\<close> and \<open>others\<close> on stores in the rounds of the retry loop and
  before each signal are that interference.

  \<open>hash\<close> is \<^verbatim>\<open>stablehash.Sum\<close>; \<open>codec\<close> is \<^verbatim>\<open>encoding/json\<close> on session references and on the data of events;
  identifiers and tokens are drawn in advance (\<open>dispatch_ids\<close>).
\<close>

subsection \<open>Data\<close>

record HarnessCapabilities =
  hc_Kind :: string
  hc_Version :: string
  hc_Events :: bool
  hc_Resume :: bool
  hc_Fork :: bool
  hc_MCPStdio :: bool
  hc_MCPHTTP :: bool
  hc_StructuredOutput :: bool
  hc_SandboxProfile :: string
  hc_MaxParallelSessions :: int
  hc_TranscriptExport :: bool

record AgentSessionRef =
  se_TenantID :: string
  se_HarnessKind :: string
  se_SessionID :: string

record AgentEvent =
  ae_Type :: string
  ae_Session :: AgentSessionRef
  ae_Data :: string
  ae_ErrorCode :: string
  ae_OccurredAt :: time

record DispatchInput =
  di_TenantID :: string
  di_JobRunID :: string
  di_Owner :: string
  di_AllowedProjectIDs :: "string list option"
  di_HarnessKind :: string
  di_Role :: string
  di_ExecutionProfileID :: string
  di_Workspace :: string
  di_Prompt :: string
  di_OutputSchema :: string
  di_InputRefs :: "string list"
  di_StateRefs :: "string list"
  di_EventRefs :: "string list"
  di_AllowedTools :: "string list"
  di_MaxTokens :: int
  di_BudgetMinor :: int
  di_RemainingDescendants :: int
  di_LeaseFor :: int
  di_ContextTTL :: int
  di_ResourceRequests :: "ResourceRequest list"

record DispatchHandle =
  dh_Node :: NodeRun
  dh_Attempt :: RuntimeAttempt
  dh_ContextView :: ContextView
  dh_Agent :: AgentInstance
  dh_Capabilities :: HarnessCapabilities
  dh_GatewayToken :: string
  dh_ResumeSession :: "AgentSessionRef option"
  dh_LeaseFor :: int

record DispatchOutcome =
  do_State :: attempt_state
  do_OutputRefs :: "string list"
  do_OutputDigest :: string
  do_ResultDigest :: string
  do_SafeSummary :: payload
  do_ErrorCode :: string
  do_UsedCostMinor :: int

record harnessResult =
  hr_OutputRefs :: "string list"
  hr_OutputDigest :: string
  hr_SafeSummary :: payload
  hr_UsedCostMinor :: int

record YieldDispatchInput =
  yi_Reason :: string
  yi_WaitRefs :: "string list"
  yi_SafeSummary :: payload
  yi_UsedCostMinor :: int

text \<open>\<^verbatim>\<open>json.Marshal\<close> of a value and of a session, and \<^verbatim>\<open>json.Unmarshal\<close> of a session, of any value, of a result, of a yield request.\<close>

record json_codec =
  jc_marshal :: "goany \<Rightarrow> string"
  jc_session :: "AgentSessionRef \<Rightarrow> string"
  jc_to_session :: "string \<Rightarrow> AgentSessionRef option"
  jc_value :: "string \<Rightarrow> goany option"
  jc_result :: "string \<Rightarrow> harnessResult option"
  jc_yield :: "string \<Rightarrow> YieldDispatchInput option"

text \<open>A token is its text and its SHA-256 in hexadecimal; drawing one may fail.\<close>

record dispatch_ids =
  id_attempt :: string
  id_fence :: "string res"
  id_gateway :: "(string \<times> string) res"
  id_view :: string
  id_agent :: string
  id_event :: string
  id_reservation :: "nat \<Rightarrow> string"

subsection \<open>Small functions\<close>

definition dispatchProjectAllowed :: "string \<Rightarrow> string list option \<Rightarrow> bool" where
  "dispatchProjectAllowed projectID allowed =
     (case allowed of None \<Rightarrow> True | Some ids \<Rightarrow> list_ex (\<lambda>c. TrimSpace c = projectID) ids)"

definition containsDispatchValue :: "string list \<Rightarrow> string \<Rightarrow> bool" where
  "containsDispatchValue values wanted =
     list_ex (\<lambda>v. ToLower (TrimSpace v) = ToLower (TrimSpace wanted)) values"

definition harnessCapabilitiesMap :: "HarnessCapabilities \<Rightarrow> payload" where
  "harnessCapabilitiesMap c =
     [(''kind'', AStr (hc_Kind c)), (''events'', ABool (hc_Events c)), (''resume'', ABool (hc_Resume c)),
      (''fork'', ABool (hc_Fork c)), (''mcp_stdio'', ABool (hc_MCPStdio c)), (''mcp_http'', ABool (hc_MCPHTTP c)),
      (''structured_output'', ABool (hc_StructuredOutput c)), (''sandbox_profile'', AStr (hc_SandboxProfile c)),
      (''max_parallel_sessions'', AInt (hc_MaxParallelSessions c)), (''transcript_export'', ABool (hc_TranscriptExport c))]"

definition FenceTokenDigest :: "(string \<Rightarrow> string) \<Rightarrow> string \<Rightarrow> string" where
  "FenceTokenDigest sha256 value = ''sha256:'' @ sha256 value"

subsection \<open>Prepare\<close>

definition dispatch_defaults :: "HarnessCapabilities \<Rightarrow> DispatchInput \<Rightarrow> DispatchInput" where
  "dispatch_defaults cap input =
     input\<lparr>di_TenantID := TrimSpace (di_TenantID input), di_JobRunID := TrimSpace (di_JobRunID input),
       di_Owner := TrimSpace (di_Owner input), di_HarnessKind := TrimSpace (hc_Kind cap), di_Role := TrimSpace (di_Role input),
       di_ExecutionProfileID := TrimSpace (di_ExecutionProfileID input)\<rparr>"

definition lease_and_ttl :: "DispatchInput \<Rightarrow> DispatchInput" where
  "lease_and_ttl input =
     (let lease = (if di_LeaseFor input \<le> 0 then DefaultNodeLeaseDuration else di_LeaseFor input);
          ttl0 = (if di_ContextTTL input \<le> 0 then 60 * Minute else di_ContextTTL input);
          ttl = (if ttl0 < lease then lease else ttl0)
      in input\<lparr>di_LeaseFor := lease, di_ContextTTL := ttl\<rparr>)"

definition dispatch_check :: "HarnessCapabilities \<Rightarrow> DispatchInput \<Rightarrow> fault option" where
  "dispatch_check cap input =
     (if di_TenantID input = '''' \<or> di_Owner input = '''' \<or> di_HarnessKind input = '''' \<or> di_Role input = ''''
         \<or> di_ExecutionProfileID input = '''' then Some (Invalid ''DISPATCH_INPUT_INVALID'')
      else if \<not> hc_Events cap \<or> \<not> hc_StructuredOutput cap then Some (Policy ''AGENT_HARNESS_CAPABILITY_MISSING'')
      else if di_MaxTokens input \<le> 0 \<or> di_BudgetMinor input < 0 \<or> di_RemainingDescendants input < 0
      then Some (Invalid ''DISPATCH_POLICY_INVALID'') else None)"

text \<open>
  The job and the node: without a job the best ready node decides the job; with one the job is checked first
  and the node is looked for afterwards.
\<close>

definition job_dispatchable :: "DispatchInput \<Rightarrow> JobRun \<Rightarrow> fault option" where
  "job_dispatchable input job =
     (if \<not> dispatchProjectAllowed (jr_ProjectID job) (di_AllowedProjectIDs input) then Some (Policy ''DISPATCH_PROJECT_SCOPE_DENIED'')
      else if jr_State job = JobRunPaused then Some (Conflict ''JOB_RUN_PAUSED'')
      else if jr_State job = JobRunCompleted \<or> jr_State job = JobRunFailed \<or> jr_State job = JobRunCancelled
              \<or> jr_State job = JobRunRejected then Some (Conflict ''JOB_RUN_TERMINAL'')
      else None)"

definition choose_node :: "time \<Rightarrow> DispatchInput \<Rightarrow> Store \<Rightarrow> NodeRun res" where
  "choose_node now input s =
     (if di_JobRunID input = '''' then
        bind_res (NextReadyNode now (di_TenantID input) '''' (di_AllowedProjectIDs input) s) (\<lambda>node.
        bind_res (Store_JobRun (di_TenantID input) (nr_JobRunID node) s) (\<lambda>job.
        check_nil (job_dispatchable input job) (Inr node)))
      else
        bind_res (Store_JobRun (di_TenantID input) (di_JobRunID input) s) (\<lambda>job.
        check_nil (job_dispatchable input job) (
        NextReadyNode now (di_TenantID input) (di_JobRunID input) (di_AllowedProjectIDs input) s)))"

definition dispatch_view ::
    "(goany \<Rightarrow> string) \<Rightarrow> dispatch_ids \<Rightarrow> time \<Rightarrow> DispatchInput \<Rightarrow> NodeRun \<Rightarrow> ContextView res" where
  "dispatch_view hash ids now input node =
     BuildContextView hash (id_view ids)
       \<lparr>cvi_TenantID = di_TenantID input, cvi_JobRunID = nr_JobRunID node, cvi_NodeRunID = nr_ID node,
        cvi_AttemptID = id_attempt ids, cvi_InputRefs = di_InputRefs input, cvi_StateRefs = di_StateRefs input,
        cvi_EventRefs = di_EventRefs input, cvi_AllowedTools = di_AllowedTools input, cvi_MaxTokens = di_MaxTokens input,
        cvi_BudgetMinor = di_BudgetMinor input, cvi_CreatedAt = now, cvi_ExpiresAt = now + di_ContextTTL input\<rparr>"

definition fresh_agent :: "dispatch_ids \<Rightarrow> time \<Rightarrow> DispatchInput \<Rightarrow> NodeRun \<Rightarrow> ContextView \<Rightarrow> AgentInstance" where
  "fresh_agent ids now input node view =
     \<lparr>ai_ID = id_agent ids, ai_TenantID = di_TenantID input, ai_JobRunID = nr_JobRunID node, ai_NodeRunID = nr_ID node,
      ai_ParentAgentInstanceID = '''', ai_Role = di_Role input, ai_HarnessKind = di_HarnessKind input, ai_SessionRef = '''',
      ai_ExecutionProfileID = di_ExecutionProfileID input, ai_ContextViewID = cv_ID view, ai_State = AgentRunnable,
      ai_Depth = 0, ai_RemainingDescendants = di_RemainingDescendants input, ai_BudgetMinor = di_BudgetMinor input,
      ai_UsedCostMinor = 0, ai_Version = 1, ai_CreatedAt = now, ai_UpdatedAt = now\<rparr>"

text \<open>The session to resume: none, or the one the agent kept, which must be readable and of this harness.\<close>

definition resume_session :: "json_codec \<Rightarrow> HarnessCapabilities \<Rightarrow> DispatchInput \<Rightarrow> AgentInstance \<Rightarrow> AgentSessionRef option res" where
  "resume_session codec cap input agent =
     (if blank (ai_SessionRef agent) \<or> \<not> hc_Resume cap then Inr None
      else case jc_to_session codec (ai_SessionRef agent) of
          None \<Rightarrow> Inl (Conflict ''AGENT_SESSION_REF_INVALID'')
        | Some session \<Rightarrow>
            if se_SessionID session = '''' \<or> se_HarnessKind session \<noteq> di_HarnessKind input
            then Inl (Conflict ''AGENT_SESSION_REF_INVALID'') else Inr (Some session))"

definition reuse_agent :: "time \<Rightarrow> ContextView \<Rightarrow> AgentSessionRef option \<Rightarrow> AgentInstance \<Rightarrow> AgentInstance" where
  "reuse_agent now view session agent =
     agent\<lparr>ai_ContextViewID := cv_ID view, ai_SessionRef := (if session = None then '''' else ai_SessionRef agent),
       ai_Version := ai_Version agent + 1, ai_UpdatedAt := now\<rparr>"

text \<open>The agent, whether it is new, the version it is expected at, and the session to resume.\<close>

definition dispatch_agent ::
    "json_codec \<Rightarrow> dispatch_ids \<Rightarrow> time \<Rightarrow> HarnessCapabilities \<Rightarrow> DispatchInput \<Rightarrow> NodeRun \<Rightarrow> ContextView \<Rightarrow> Store
     \<Rightarrow> (AgentInstance \<times> bool \<times> int \<times> AgentSessionRef option) res" where
  "dispatch_agent codec ids now cap input node view s =
     (case AgentInstanceForNode (di_TenantID input) (nr_ID node) s of
        Inl e \<Rightarrow> if IsNotFound e then Inr (fresh_agent ids now input node view, True, 0, None) else Inl e
      | Inr agent \<Rightarrow>
          require (\<not> (ai_State agent \<noteq> AgentRunnable \<or> ai_HarnessKind agent \<noteq> di_HarnessKind input
                      \<or> ai_ExecutionProfileID agent \<noteq> di_ExecutionProfileID input))
            (Conflict ''AGENT_INSTANCE_NOT_REUSABLE'') (
          bind_res (resume_session codec cap input agent) (\<lambda>session.
          Inr (reuse_agent now view session agent, False, ai_Version agent, session))))"

definition new_attempt ::
    "dispatch_ids \<Rightarrow> time \<Rightarrow> HarnessCapabilities \<Rightarrow> DispatchInput \<Rightarrow> NodeRun \<Rightarrow> ContextView \<Rightarrow> AgentInstance
     \<Rightarrow> string \<Rightarrow> string \<Rightarrow> RuntimeAttempt" where
  "new_attempt ids now cap input node view agent fence gatewayHash =
     \<lparr>ra_ID = id_attempt ids, ra_TenantID = di_TenantID input, ra_JobRunID = nr_JobRunID node, ra_NodeRunID = nr_ID node,
      ra_AgentInstanceID = ai_ID agent, ra_ContextViewID = cv_ID view, ra_AttemptNo = nr_AttemptCount node + 1,
      ra_HarnessKind = di_HarnessKind input, ra_Capabilities = harnessCapabilitiesMap cap, ra_SessionRef = '''',
      ra_State = RuntimeAttemptPrepared, ra_LeaseOwner = di_Owner input, ra_FenceToken = fence,
      ra_GatewayTokenHash = gatewayHash, ra_GatewayExpiresAt = Some (cv_ExpiresAt view),
      ra_LeaseExpiresAt = Some (now + di_LeaseFor input), ra_OutputRefs = [], ra_ResultDigest = '''', ra_SafeSummary = [],
      ra_ErrorCode = '''', ra_Version = 1, ra_CreatedAt = now, ra_StartedAt = None, ra_FinishedAt = None, ra_UpdatedAt = now\<rparr>"

definition leased_node :: "time \<Rightarrow> DispatchInput \<Rightarrow> string \<Rightarrow> NodeRun \<Rightarrow> NodeRun" where
  "leased_node now input fence node =
     node\<lparr>nr_State := NodeLeased, nr_AttemptCount := nr_AttemptCount node + 1, nr_LeaseOwner := di_Owner input,
       nr_FenceToken := fence, nr_LeaseExpiresAt := Some (now + di_LeaseFor input), nr_Version := nr_Version node + 1,
       nr_UpdatedAt := now\<rparr>"

fun reservations_for ::
    "dispatch_ids \<Rightarrow> time \<Rightarrow> DispatchInput \<Rightarrow> NodeRun \<Rightarrow> string \<Rightarrow> nat \<Rightarrow> ResourceRequest list \<Rightarrow> ResourceReservation list res" where
  "reservations_for ids now input node fence index [] = Inr []"
| "reservations_for ids now input node fence index (request # requests) =
     require (\<not> (blank (rreq_ResourceKey request) \<or> rreq_Quantity request \<le> 0 \<or> blank (rreq_Unit request)))
       (Invalid ''RESOURCE_REQUEST_INVALID'') (
     bind_res (reservations_for ids now input node fence (Suc index) requests) (\<lambda>rest.
     Inr (\<lparr>rr_ID = id_reservation ids index, rr_TenantID = di_TenantID input, rr_JobRunID = nr_JobRunID node,
       rr_NodeRunID = nr_ID node, rr_AttemptID = id_attempt ids, rr_ResourceKey = rreq_ResourceKey request,
       rr_Quantity = rreq_Quantity request, rr_Unit = rreq_Unit request, rr_State = ReservationHeld, rr_FenceToken = fence,
       rr_IdempotencyKey = id_attempt ids @ '':resource:'' @ Itoa (int index), rr_ExpiresAt = Some (now + di_LeaseFor input),
       rr_ReleasedAt = None, rr_CreatedAt = now, rr_UpdatedAt = now\<rparr> # rest)))"

definition prepared_event :: "dispatch_ids \<Rightarrow> time \<Rightarrow> DispatchInput \<Rightarrow> NodeRun \<Rightarrow> RuntimeAttempt \<Rightarrow> ContextView \<Rightarrow> JobEvent" where
  "prepared_event ids now input node attempt view =
     new_event (id_event ids) (di_TenantID input) (nr_JobRunID node) (nr_NodeKey node) ''attempt.prepared'' ''scheduler''
       (di_Owner input) (ra_ID attempt @ '':prepared'')
       [(''attempt_id'', AStr (ra_ID attempt)), (''attempt_no'', AInt (ra_AttemptNo attempt)),
        (''harness_kind'', AStr (ra_HarnessKind attempt)), (''context_digest'', AStr (cv_Digest view)),
        (''reservation_count'', AInt (int (length (di_ResourceRequests input))))] now"

definition prepareDispatch ::
    "(goany \<Rightarrow> string) \<Rightarrow> json_codec \<Rightarrow> dispatch_ids \<Rightarrow> time \<Rightarrow> DispatchInput \<Rightarrow> HarnessCapabilities \<Rightarrow> DispatchHandle svc" where
  "prepareDispatch hash codec ids now input0 cap =
     (let input1 = dispatch_defaults cap input0 in
      check_svc (dispatch_check cap input1) (
      let input = lease_and_ttl input1 in
      bind_svc (query (choose_node now input)) (\<lambda>node0.
      bind_svc (query (\<lambda>_. id_fence ids)) (\<lambda>fence.
      bind_svc (query (\<lambda>_. id_gateway ids)) (\<lambda>(gatewayToken, gatewayHash).
      bind_svc (query (\<lambda>_. dispatch_view hash ids now input node0)) (\<lambda>view.
      bind_svc (query (dispatch_agent codec ids now cap input node0 view)) (\<lambda>(agent, createAgent, expectedAgentVersion, session).
      let attempt = new_attempt ids now cap input node0 view agent fence gatewayHash in
      check_svc (NodeRun_Transition node0 NodeLeased) (
      let node = leased_node now input fence node0 in
      bind_svc (query (\<lambda>_. reservations_for ids now input node fence 0 (di_ResourceRequests input))) (\<lambda>reservations.
      bind_svc (exec (PrepareDispatch node (nr_Version node0) attempt view agent createAgent expectedAgentVersion reservations
                 (prepared_event ids now input node attempt view))) (\<lambda>(node', attempt', agent').
      ret \<lparr>dh_Node = node', dh_Attempt = attempt', dh_ContextView = view, dh_Agent = agent', dh_Capabilities = cap,
           dh_GatewayToken = gatewayToken, dh_ResumeSession = session, dh_LeaseFor = di_LeaseFor input\<rparr>))))))))))"

text \<open>
  A conflict means another scheduler took the node: the loop draws new identifiers and tries again, until the
  caller's context ends (\<open>ctxErr\<close>). Each further round sees the store as others left it (\<open>env\<close>).
\<close>

fun prepareDispatchWithRetry ::
    "(goany \<Rightarrow> string) \<Rightarrow> json_codec \<Rightarrow> (dispatch_ids \<times> time \<times> (Store \<Rightarrow> Store)) list \<Rightarrow> fault \<Rightarrow> DispatchInput
     \<Rightarrow> HarnessCapabilities \<Rightarrow> DispatchHandle svc" where
  "prepareDispatchWithRetry hash codec [] ctxErr input cap = fail ctxErr"
| "prepareDispatchWithRetry hash codec ((ids, now, env) # rounds) ctxErr input cap =
     (\<lambda>s. case prepareDispatch hash codec ids now input cap s of
        (s', Inl e) \<Rightarrow> if hasDomainCode e ''NODE_DISPATCH_CONFLICT''
                      then prepareDispatchWithRetry hash codec rounds ctxErr input cap (env s') else (s', Inl e)
      | (s', Inr handle) \<Rightarrow> (s', Inr handle))"

definition PrepareRemoteDispatch ::
    "(goany \<Rightarrow> string) \<Rightarrow> json_codec \<Rightarrow> (dispatch_ids \<times> time \<times> (Store \<Rightarrow> Store)) list \<Rightarrow> fault \<Rightarrow> DispatchInput
     \<Rightarrow> HarnessCapabilities \<Rightarrow> DispatchHandle svc" where
  "PrepareRemoteDispatch hash codec rounds ctxErr input cap0 =
     (let cap = cap0\<lparr>hc_Kind := ToLower (TrimSpace (hc_Kind cap0))\<rparr> in
      guard_svc (\<not> (hc_Kind cap = '''' \<or> hc_Kind cap \<noteq> ToLower (TrimSpace (di_HarnessKind input))))
        (Invalid ''AGENT_HARNESS_KIND_MISMATCH'') (
      guard_svc (\<not> (hc_MaxParallelSessions cap < 1 \<or> hc_MaxParallelSessions cap > 1024))
        (Invalid ''AGENT_HARNESS_CAPACITY_INVALID'') (
      prepareDispatchWithRetry hash codec rounds ctxErr input cap)))"

subsection \<open>Activate and heartbeat\<close>

definition running_node :: "time \<Rightarrow> int \<Rightarrow> NodeRun \<Rightarrow> NodeRun" where
  "running_node now lease node =
     node\<lparr>nr_State := NodeRunning, nr_LeaseExpiresAt := Some (now + lease), nr_Version := nr_Version node + 1, nr_UpdatedAt := now\<rparr>"

definition running_attempt :: "time \<Rightarrow> int \<Rightarrow> string \<Rightarrow> RuntimeAttempt \<Rightarrow> RuntimeAttempt" where
  "running_attempt now lease session attempt =
     attempt\<lparr>ra_State := RuntimeAttemptRunning, ra_SessionRef := session, ra_LeaseExpiresAt := Some (now + lease),
       ra_StartedAt := Some now, ra_Version := ra_Version attempt + 1, ra_UpdatedAt := now\<rparr>"

definition active_agent :: "time \<Rightarrow> string \<Rightarrow> AgentInstance \<Rightarrow> AgentInstance" where
  "active_agent now session agent =
     agent\<lparr>ai_State := AgentActive, ai_SessionRef := session, ai_Version := ai_Version agent + 1, ai_UpdatedAt := now\<rparr>"

definition running_event :: "string \<Rightarrow> time \<Rightarrow> NodeRun \<Rightarrow> RuntimeAttempt \<Rightarrow> JobEvent" where
  "running_event eid now node attempt =
     new_event eid (nr_TenantID node) (nr_JobRunID node) (nr_NodeKey node) ''attempt.running'' ''worker'' (ra_LeaseOwner attempt)
       (ra_ID attempt @ '':running'')
       [(''attempt_id'', AStr (ra_ID attempt)), (''harness_kind'', AStr (ra_HarnessKind attempt))] now"

definition Service_ActivateDispatch ::
    "json_codec \<Rightarrow> string \<Rightarrow> time \<Rightarrow> DispatchHandle \<Rightarrow> AgentSessionRef \<Rightarrow> DispatchHandle svc" where
  "Service_ActivateDispatch codec eid now handle session =
     guard_svc (\<not> (se_SessionID session = '''' \<or> length (se_SessionID session) > 1024
                   \<or> TrimSpace (se_HarnessKind session) \<noteq> ra_HarnessKind (dh_Attempt handle)))
       (Invalid ''DISPATCH_SESSION_INVALID'') (
     check_svc (NodeRun_Transition (dh_Node handle) NodeRunning) (
     check_svc (RuntimeAttempt_Transition (dh_Attempt handle) RuntimeAttemptRunning) (
     check_svc (AgentInstance_Transition (dh_Agent handle) AgentActive) (
     let text = jc_session codec session;
         node = running_node now (dh_LeaseFor handle) (dh_Node handle);
         attempt = running_attempt now (dh_LeaseFor handle) text (dh_Attempt handle);
         agent = active_agent now text (dh_Agent handle) in
     bind_svc (exec (ActivateDispatch node (nr_Version (dh_Node handle)) attempt (ra_Version (dh_Attempt handle))
                agent (ai_Version (dh_Agent handle)) (running_event eid now node attempt))) (\<lambda>(node', attempt', agent').
     ret (handle\<lparr>dh_Node := node', dh_Attempt := attempt', dh_Agent := agent'\<rparr>))))))"

definition Service_HeartbeatDispatch :: "time \<Rightarrow> DispatchHandle \<Rightarrow> DispatchHandle svc" where
  "Service_HeartbeatDispatch now handle =
     bind_svc (exec (HeartbeatDispatch (ra_TenantID (dh_Attempt handle)) (ra_ID (dh_Attempt handle))
       (ra_LeaseOwner (dh_Attempt handle)) (ra_FenceToken (dh_Attempt handle)) (nr_Version (dh_Node handle))
       (ra_Version (dh_Attempt handle)) now (dh_LeaseFor handle))) (\<lambda>(node, attempt).
     ret (handle\<lparr>dh_Node := node, dh_Attempt := attempt\<rparr>))"

subsection \<open>Finalize\<close>

fun first_limit :: "string \<Rightarrow> int \<Rightarrow> JobPlanNode list \<Rightarrow> int" where
  "first_limit key n [] = n"
| "first_limit key n (spec # specs) =
     (if pn_Key spec = key \<and> pn_RetryMaxAttempts spec > 0 then pn_RetryMaxAttempts spec else first_limit key n specs)"

definition maxAttemptsForNode :: "NodeRun \<Rightarrow> Store \<Rightarrow> int res" where
  "maxAttemptsForNode node s =
     bind_res (Store_JobRun (nr_TenantID node) (nr_JobRunID node) s) (\<lambda>job.
     bind_res (Store_Plan (nr_TenantID node) (jr_PlanRevisionID job) s) (\<lambda>plan.
     let n = rl_MaxAttemptsPerNode (jp_Limits plan) in
     Inr (first_limit (nr_NodeKey node) (if n \<le> 0 then rl_MaxAttemptsPerNode DefaultRuntimeLimits else n) (jp_Nodes plan))))"

definition outcome_json :: "DispatchOutcome \<Rightarrow> goany" where
  "outcome_json oc = AObj
     [(''State'', AStr (attempt_state_str (do_State oc))), (''OutputRefs'', AStrs (do_OutputRefs oc)),
      (''OutputDigest'', AStr (do_OutputDigest oc)), (''SafeSummary'', AObj (do_SafeSummary oc)),
      (''ErrorCode'', AStr (TrimSpace (do_ErrorCode oc)))]"

text \<open>A retryable failure at the last allowed attempt is a failure.\<close>

definition settle_state :: "DispatchHandle \<Rightarrow> DispatchOutcome \<Rightarrow> Store \<Rightarrow> attempt_state res" where
  "settle_state handle oc s =
     (let st = (if do_State oc = AttemptState '''' then RuntimeAttemptSucceeded else do_State oc) in
      if st = RuntimeAttemptRetryableFailed then
        bind_res (maxAttemptsForNode (dh_Node handle) s) (\<lambda>maxAttempts.
        Inr (if ra_AttemptNo (dh_Attempt handle) \<ge> maxAttempts then RuntimeAttemptFailed else st))
      else Inr st)"

definition settle_outcome :: "(goany \<Rightarrow> string) \<Rightarrow> attempt_state \<Rightarrow> DispatchOutcome \<Rightarrow> DispatchOutcome" where
  "settle_outcome hash st oc0 =
     (let oc = oc0\<lparr>do_SafeSummary := sanitizeSafeSummary (do_SafeSummary oc0), do_OutputRefs := sortedRefs (do_OutputRefs oc0),
                do_State := st,
                do_ErrorCode := (if st = RuntimeAttemptSucceeded then '''' else safeErrorCode (do_ErrorCode oc0) ''DISPATCH_FAILED'')\<rparr>
      in if do_ResultDigest oc = '''' then oc\<lparr>do_ResultDigest := ''sha256:'' @ hash (outcome_json oc)\<rparr> else oc)"

fun final_states :: "attempt_state \<Rightarrow> node_state \<times> agent_state" where
  "final_states RuntimeAttemptRetryableFailed = (NodeRetryableFailed, AgentRunnable)"
| "final_states RuntimeAttemptFailed = (NodeFailed, AgentFailed)"
| "final_states RuntimeAttemptCancelled = (NodeCancelled, AgentCancelled)"
| "final_states _ = (NodeSucceeded, AgentCompleted)"

definition final_node :: "time \<Rightarrow> DispatchOutcome \<Rightarrow> NodeRun \<Rightarrow> NodeRun" where
  "final_node now oc node =
     (let st = fst (final_states (do_State oc)); digest = TrimSpace (do_OutputDigest oc) in
      node\<lparr>nr_State := st, nr_OutputRefs := do_OutputRefs oc,
        nr_OutputDigest := (if st = NodeSucceeded \<and> digest = '''' then do_ResultDigest oc else digest),
        nr_ErrorCode := TrimSpace (do_ErrorCode oc), nr_LeaseOwner := '''', nr_FenceToken := '''', nr_LeaseExpiresAt := None,
        nr_Version := nr_Version node + 1, nr_UpdatedAt := now\<rparr>)"

definition final_attempt :: "time \<Rightarrow> DispatchOutcome \<Rightarrow> RuntimeAttempt \<Rightarrow> RuntimeAttempt" where
  "final_attempt now oc attempt =
     attempt\<lparr>ra_State := do_State oc, ra_OutputRefs := do_OutputRefs oc, ra_ResultDigest := do_ResultDigest oc,
       ra_SafeSummary := do_SafeSummary oc, ra_ErrorCode := TrimSpace (do_ErrorCode oc), ra_LeaseOwner := '''',
       ra_FenceToken := '''', ra_LeaseExpiresAt := None, ra_FinishedAt := Some now, ra_Version := ra_Version attempt + 1,
       ra_UpdatedAt := now\<rparr>"

definition final_agent :: "time \<Rightarrow> DispatchOutcome \<Rightarrow> AgentInstance \<Rightarrow> AgentInstance" where
  "final_agent now oc agent =
     agent\<lparr>ai_State := snd (final_states (do_State oc)), ai_UsedCostMinor := do_UsedCostMinor oc,
       ai_SessionRef := (if do_State oc \<noteq> RuntimeAttemptSucceeded then '''' else ai_SessionRef agent),
       ai_Version := ai_Version agent + 1, ai_UpdatedAt := now\<rparr>"

definition final_event ::
    "(string \<Rightarrow> string) \<Rightarrow> string \<Rightarrow> time \<Rightarrow> DispatchHandle \<Rightarrow> DispatchOutcome \<Rightarrow> JobEvent" where
  "final_event sha256 eid now handle oc =
     (let node = dh_Node handle; attempt = dh_Attempt handle in
      new_event eid (nr_TenantID node) (nr_JobRunID node) (nr_NodeKey node) (''attempt.'' @ attempt_state_str (do_State oc))
        ''worker'' (ra_LeaseOwner attempt) (ra_ID attempt @ '':terminal:'' @ do_ResultDigest oc)
        [(''attempt_id'', AStr (ra_ID attempt)), (''result_digest'', AStr (do_ResultDigest oc)),
         (''fence_digest'', AStr (FenceTokenDigest sha256 (ra_FenceToken attempt))),
         (''output_count'', AInt (int (length (do_OutputRefs oc)))), (''output_refs'', AStrs (do_OutputRefs oc)),
         (''output_digest'', AStr (do_OutputDigest oc)), (''error_code'', AStr (TrimSpace (do_ErrorCode oc)))] now)"

text \<open>A handle whose attempt has ended: the stored rows, if they tell the same result.\<close>

definition repeat_final :: "(string \<Rightarrow> string) \<Rightarrow> time \<Rightarrow> DispatchHandle \<Rightarrow> DispatchOutcome \<Rightarrow> (DispatchHandle \<times> JobRun) svc" where
  "repeat_final ids now handle oc =
     bind_svc (query (Store_RuntimeAttempt (ra_TenantID (dh_Attempt handle)) (ra_ID (dh_Attempt handle)))) (\<lambda>attempt.
     guard_svc (\<not> (\<not> RuntimeAttempt_Terminal attempt \<or> ra_State attempt \<noteq> do_State oc \<or> ra_ResultDigest attempt \<noteq> do_ResultDigest oc))
       (Conflict ''RUNTIME_ATTEMPT_RESULT_CONFLICT'') (
     bind_svc (query (Store_NodeRun (nr_TenantID (dh_Node handle)) (nr_ID (dh_Node handle)))) (\<lambda>node.
     bind_svc (query (Store_AgentInstance (ai_TenantID (dh_Agent handle)) (ai_ID (dh_Agent handle)))) (\<lambda>agent.
     bind_svc (Refresh ids now (nr_TenantID (dh_Node handle)) (nr_JobRunID (dh_Node handle))) (\<lambda>job.
     ret (handle\<lparr>dh_Node := node, dh_Attempt := attempt, dh_Agent := agent\<rparr>, job))))))"

definition Service_FinalizeDispatch ::
    "(goany \<Rightarrow> string) \<Rightarrow> (string \<Rightarrow> string) \<Rightarrow> string \<Rightarrow> (string \<Rightarrow> string) \<Rightarrow> time \<Rightarrow> DispatchHandle \<Rightarrow> DispatchOutcome
     \<Rightarrow> (DispatchHandle \<times> JobRun) svc" where
  "Service_FinalizeDispatch hash sha256 eid ids now handle oc0 =
     bind_svc (query (settle_state handle oc0)) (\<lambda>st.
     guard_svc (\<not> (st \<noteq> RuntimeAttemptSucceeded \<and> st \<noteq> RuntimeAttemptRetryableFailed \<and> st \<noteq> RuntimeAttemptFailed
                   \<and> st \<noteq> RuntimeAttemptCancelled)) (Invalid ''DISPATCH_OUTCOME_INVALID'') (
     let oc = settle_outcome hash st oc0 in
     guard_svc (\<not> (do_UsedCostMinor oc < ai_UsedCostMinor (dh_Agent handle) \<or> do_UsedCostMinor oc > ai_BudgetMinor (dh_Agent handle)))
       (Policy ''AGENT_INSTANCE_USAGE_INVALID'') (
     if RuntimeAttempt_Terminal (dh_Attempt handle) then repeat_final ids now handle oc
     else
     check_svc (NodeRun_Transition (dh_Node handle) (fst (final_states (do_State oc)))) (
     check_svc (RuntimeAttempt_Transition (dh_Attempt handle) (do_State oc)) (
     check_svc (AgentInstance_Transition (dh_Agent handle) (snd (final_states (do_State oc)))) (
     bind_svc (exec (FinalizeDispatch (final_node now oc (dh_Node handle)) (nr_Version (dh_Node handle))
                (final_attempt now oc (dh_Attempt handle)) (ra_Version (dh_Attempt handle))
                (final_agent now oc (dh_Agent handle)) (ai_Version (dh_Agent handle)) (ra_FenceToken (dh_Attempt handle))
                (final_event sha256 eid now handle oc))) (\<lambda>(node, attempt, agent).
     bind_svc (Refresh ids now (nr_TenantID node) (nr_JobRunID node)) (\<lambda>job.
     ret (handle\<lparr>dh_Node := node, dh_Attempt := attempt, dh_Agent := agent\<rparr>, job)))))))))"

subsection \<open>Yield (yield.go)\<close>

definition yield_states :: "string \<Rightarrow> (node_state \<times> agent_state) option" where
  "yield_states reason =
     (if reason = YieldWaitChildren then Some (NodeWaitingChildren, AgentWaitingChildren)
      else if reason = YieldWaitHuman then Some (NodeWaitingHuman, AgentWaitingGate)
      else if reason = YieldWaitEffect then Some (NodeWaitingExternal, AgentWaitingEffect) else None)"

definition yield_json :: "RuntimeAttempt \<Rightarrow> string \<Rightarrow> string list \<Rightarrow> payload \<Rightarrow> goany" where
  "yield_json attempt reason refs summary = AObj
     [(''AttemptID'', AStr (ra_ID attempt)), (''Reason'', AStr reason), (''WaitRefs'', AStrs refs), (''Summary'', AObj summary)]"

definition yielded_node :: "time \<Rightarrow> node_state \<Rightarrow> NodeRun \<Rightarrow> NodeRun" where
  "yielded_node now st node =
     node\<lparr>nr_State := st, nr_LeaseOwner := '''', nr_FenceToken := '''', nr_LeaseExpiresAt := None,
       nr_Version := nr_Version node + 1, nr_UpdatedAt := now\<rparr>"

definition yielded_attempt :: "time \<Rightarrow> string \<Rightarrow> payload \<Rightarrow> RuntimeAttempt \<Rightarrow> RuntimeAttempt" where
  "yielded_attempt now digest summary attempt =
     attempt\<lparr>ra_State := RuntimeAttemptYielded, ra_ResultDigest := digest, ra_SafeSummary := summary, ra_LeaseOwner := '''',
       ra_FenceToken := '''', ra_LeaseExpiresAt := None, ra_FinishedAt := Some now, ra_Version := ra_Version attempt + 1,
       ra_UpdatedAt := now\<rparr>"

definition yielded_agent :: "time \<Rightarrow> agent_state \<Rightarrow> int \<Rightarrow> AgentInstance \<Rightarrow> AgentInstance" where
  "yielded_agent now st used agent =
     agent\<lparr>ai_State := st, ai_UsedCostMinor := used, ai_Version := ai_Version agent + 1, ai_UpdatedAt := now\<rparr>"

definition new_yield :: "string \<Rightarrow> time \<Rightarrow> string \<Rightarrow> string list \<Rightarrow> NodeRun \<Rightarrow> RuntimeAttempt \<Rightarrow> AgentInstance \<Rightarrow> RuntimeYield" where
  "new_yield yid now reason refs node attempt agent =
     \<lparr>ry_ID = yid, ry_TenantID = nr_TenantID node, ry_JobRunID = nr_JobRunID node, ry_NodeRunID = nr_ID node,
      ry_AttemptID = ra_ID attempt, ry_AgentInstanceID = ai_ID agent, ry_Reason = reason, ry_WaitRefs = refs,
      ry_State = RuntimeYieldOpen, ry_ResumeKey = '''', ry_Version = 1, ry_YieldedAt = now, ry_ResolvedAt = None,
      ry_CreatedAt = now, ry_UpdatedAt = now\<rparr>"

definition yield_event :: "string \<Rightarrow> time \<Rightarrow> DispatchHandle \<Rightarrow> RuntimeYield \<Rightarrow> string \<Rightarrow> JobEvent" where
  "yield_event eid now handle y digest =
     (let node = dh_Node handle; attempt = dh_Attempt handle in
      new_event eid (nr_TenantID node) (nr_JobRunID node) (nr_NodeKey node) ''attempt.yielded'' ''worker'' (ra_LeaseOwner attempt)
        (ra_ID attempt @ '':yielded'')
        [(''attempt_id'', AStr (ra_ID attempt)), (''yield_id'', AStr (ry_ID y)), (''reason'', AStr (ry_Reason y)),
         (''wait_refs'', AStrs (ry_WaitRefs y)), (''yield_digest'', AStr digest)] now)"

definition yieldable :: "time \<Rightarrow> DispatchHandle \<Rightarrow> fault option" where
  "yieldable now handle =
     (let node = dh_Node handle; attempt = dh_Attempt handle in
      if nr_State node \<noteq> NodeRunning \<or> ra_State attempt \<noteq> RuntimeAttemptRunning \<or> ai_State (dh_Agent handle) \<noteq> AgentActive
      then Some (Conflict ''DISPATCH_NOT_YIELDABLE'')
      else if \<not> after_opt (ra_LeaseExpiresAt attempt) now \<or> \<not> after_opt (nr_LeaseExpiresAt node) now
              \<or> ra_FenceToken attempt = '''' \<or> ra_FenceToken attempt \<noteq> nr_FenceToken node
      then Some (Conflict ''DISPATCH_LEASE_STALE'') else None)"

definition YieldDispatch ::
    "(goany \<Rightarrow> string) \<Rightarrow> string \<Rightarrow> string \<Rightarrow> (string \<Rightarrow> string) \<Rightarrow> time \<Rightarrow> DispatchHandle \<Rightarrow> YieldDispatchInput
     \<Rightarrow> (RuntimeYield \<times> DispatchHandle \<times> JobRun) svc" where
  "YieldDispatch hash yid eid ids now handle input =
     (let node0 = dh_Node handle; attempt0 = dh_Attempt handle; agent0 = dh_Agent handle;
          reason = TrimSpace (yi_Reason input); refs = sortedRefs (yi_WaitRefs input) in
      check_svc (yieldable now handle) (
      guard_svc (refs \<noteq> []) (Invalid ''RUNTIME_YIELD_REFS_REQUIRED'') (
      case yield_states reason of
        None \<Rightarrow> fail (Invalid ''RUNTIME_YIELD_REASON_INVALID'')
      | Some (nodeState, agentState) \<Rightarrow>
          bind_svc (query (\<lambda>s. check_nil (validateYieldRefs s node0 reason refs False) (Inr ()))) (\<lambda>_.
          guard_svc (\<not> (yi_UsedCostMinor input < ai_UsedCostMinor agent0 \<or> yi_UsedCostMinor input > ai_BudgetMinor agent0))
            (Policy ''AGENT_INSTANCE_USAGE_INVALID'') (
          let summary = sanitizeSafeSummary (yi_SafeSummary input);
              digest = ''sha256:'' @ hash (yield_json attempt0 reason refs summary) in
          check_svc (NodeRun_Transition node0 nodeState) (
          check_svc (RuntimeAttempt_Transition attempt0 RuntimeAttemptYielded) (
          check_svc (AgentInstance_Transition agent0 agentState) (
          let y = new_yield yid now reason refs node0 attempt0 agent0 in
          bind_svc (exec (Store_YieldDispatch y (yielded_node now nodeState node0) (nr_Version node0)
                     (yielded_attempt now digest summary attempt0) (ra_Version attempt0)
                     (yielded_agent now agentState (yi_UsedCostMinor input) agent0) (ai_Version agent0)
                     (ra_FenceToken attempt0) (yield_event eid now handle y digest))) (\<lambda>(y', node, attempt, agent).
          bind_svc (Refresh ids now (nr_TenantID node) (nr_JobRunID node)) (\<lambda>job.
          ret (y', handle\<lparr>dh_Node := node, dh_Attempt := attempt, dh_Agent := agent\<rparr>, job)))))))))))"

subsection \<open>Events of the harness\<close>

definition data_digest :: "(goany \<Rightarrow> string) \<Rightarrow> json_codec \<Rightarrow> string \<Rightarrow> string" where
  "data_digest hash codec data =
     (if data = '''' then '''' else case jc_value codec data of Some v \<Rightarrow> ''sha256:'' @ hash v | None \<Rightarrow> '''')"

definition dedup_json :: "RuntimeAttempt \<Rightarrow> AgentEvent \<Rightarrow> string \<Rightarrow> goany" where
  "dedup_json attempt event digest = AObj
     [(''AttemptID'', AStr (ra_ID attempt)), (''Type'', AStr (safeEventType (ae_Type event))), (''Data'', AStr digest),
      (''ErrorCode'', AStr (safeErrorCode (ae_ErrorCode event) '''')), (''Occurred'', ATime (Some (ae_OccurredAt event)))]"

definition harness_event :: "(goany \<Rightarrow> string) \<Rightarrow> json_codec \<Rightarrow> string \<Rightarrow> time \<Rightarrow> DispatchHandle \<Rightarrow> AgentEvent \<Rightarrow> JobEvent" where
  "harness_event hash codec eid now handle event =
     (let node = dh_Node handle; attempt = dh_Attempt handle; digest = data_digest hash codec (ae_Data event) in
      new_event eid (nr_TenantID node) (nr_JobRunID node) (nr_NodeKey node) ''attempt.event'' ''harness'' (ra_HarnessKind attempt)
        (ra_ID attempt @ '':event:'' @ hash (dedup_json attempt event digest))
        [(''attempt_id'', AStr (ra_ID attempt)), (''event_type'', AStr (safeEventType (ae_Type event))),
         (''data_digest'', AStr digest), (''error_code'', AStr (safeErrorCode (ae_ErrorCode event) ''''))] now)"

definition RecordHarnessEvent ::
    "(goany \<Rightarrow> string) \<Rightarrow> json_codec \<Rightarrow> string \<Rightarrow> time \<Rightarrow> DispatchHandle \<Rightarrow> AgentEvent \<Rightarrow> unit svc" where
  "RecordHarnessEvent hash codec eid now handle event =
     (let attempt = dh_Attempt handle in
      guard_svc (\<not> (ra_State attempt \<noteq> RuntimeAttemptRunning \<or> jc_to_session codec (ra_SessionRef attempt) \<noteq> Some (ae_Session event)))
        (Conflict ''HARNESS_SESSION_MISMATCH'') (
      guard_svc (\<not> int (length (ae_Data event)) > 65536) (Policy ''HARNESS_EVENT_TOO_LARGE'') (
      bind_svc (exec (AppendFencedRuntimeEvent (nr_TenantID (dh_Node handle)) (ra_ID attempt) (ra_LeaseOwner attempt)
                 (ra_FenceToken attempt) now (harness_event hash codec eid now handle event))) (\<lambda>_. ret ()))))"

definition outcomeFromHarnessResult :: "(goany \<Rightarrow> string) \<Rightarrow> json_codec \<Rightarrow> string \<Rightarrow> DispatchOutcome option" where
  "outcomeFromHarnessResult hash codec data =
     (if data = '''' then None else case (jc_result codec data, jc_value codec data) of
        (Some r, Some v) \<Rightarrow> Some \<lparr>do_State = RuntimeAttemptSucceeded, do_OutputRefs = hr_OutputRefs r,
          do_OutputDigest = hr_OutputDigest r, do_ResultDigest = ''sha256:'' @ hash v,
          do_SafeSummary = sanitizeSafeSummary (hr_SafeSummary r), do_ErrorCode = '''', do_UsedCostMinor = hr_UsedCostMinor r\<rparr>
      | _ \<Rightarrow> None)"

subsection \<open>The loop of one worker\<close>

datatype signal = CtxDone fault | HeartbeatTick | StreamClosed | StreamEvent AgentEvent

definition failed_outcome :: "attempt_state \<Rightarrow> string \<Rightarrow> DispatchHandle \<Rightarrow> DispatchOutcome" where
  "failed_outcome st code handle =
     \<lparr>do_State = st, do_OutputRefs = [], do_OutputDigest = '''', do_ResultDigest = '''', do_SafeSummary = [],
      do_ErrorCode = code, do_UsedCostMinor = ai_UsedCostMinor (dh_Agent handle)\<rparr>"

text \<open>
  What \<open>DispatchNext\<close> depends on besides its input: hashes, the codec, an identifier for every event (by the
  position of the signal) and the identifiers of the refresh. An error joined from two is its first one here.
\<close>

record dispatch_env =
  de_hash :: "goany \<Rightarrow> string"
  de_sha256 :: "string \<Rightarrow> string"
  de_codec :: json_codec
  de_ids :: "string \<Rightarrow> string"
  de_event :: "nat \<Rightarrow> string"
  de_yield :: string

definition finish_with :: "dispatch_env \<Rightarrow> nat \<Rightarrow> time \<Rightarrow> DispatchHandle \<Rightarrow> DispatchOutcome \<Rightarrow> (DispatchHandle \<times> JobRun) svc" where
  "finish_with env i now handle oc = Service_FinalizeDispatch (de_hash env) (de_sha256 env) (de_event env i) (de_ids env) now handle oc"

definition finish_event :: "dispatch_env \<Rightarrow> nat \<Rightarrow> time \<Rightarrow> DispatchHandle \<Rightarrow> AgentEvent \<Rightarrow> (DispatchHandle \<times> JobRun) svc option" where
  "finish_event env i now handle event =
     (let retryable = failed_outcome RuntimeAttemptRetryableFailed in
      if ae_Type event = ''result.completed'' then Some (finish_with env i now handle
        (case outcomeFromHarnessResult (de_hash env) (de_codec env) (ae_Data event) of
           Some oc \<Rightarrow> oc | None \<Rightarrow> retryable ''HARNESS_RESULT_INVALID'' handle))
      else if ae_Type event = ''session.failed'' then Some (finish_with env i now handle
        (retryable (safeErrorCode (ae_ErrorCode event) ''HARNESS_SESSION_FAILED'') handle))
      else if ae_Type event = ''session.interrupted'' then Some (finish_with env i now handle
        (retryable ''HARNESS_SESSION_INTERRUPTED'' handle))
      else if ae_Type event = ''runtime.yield'' then
        (case (if ae_Data event = '''' then None else jc_yield (de_codec env) (ae_Data event)) of
           None \<Rightarrow> Some (finish_with env i now handle (retryable ''HARNESS_YIELD_INVALID'' handle))
         | Some request \<Rightarrow> Some (bind_svc (YieldDispatch (de_hash env) (de_yield env) (de_event env i) (de_ids env) now handle request)
             (\<lambda>(y, h, job). ret (h, job))))
      else None)"

fun dispatch_loop ::
    "dispatch_env \<Rightarrow> AgentSessionRef \<Rightarrow> nat \<Rightarrow> (time \<times> (Store \<Rightarrow> Store) \<times> signal) list \<Rightarrow> DispatchHandle \<Rightarrow> Store
     \<Rightarrow> Store \<times> (DispatchHandle \<times> JobRun) res option" where
  "dispatch_loop env session i [] handle s = (s, None)"
| "dispatch_loop env session i ((now, others, CtxDone e) # rest) handle s =
     (let (s', r) = finish_with env i now handle (failed_outcome RuntimeAttemptRetryableFailed ''DISPATCH_CONTEXT_CANCELLED'' handle) (others s)
      in (s', Some (Inl e)))"
| "dispatch_loop env session i ((now, others, HeartbeatTick) # rest) handle s =
     (case Service_HeartbeatDispatch now handle (others s) of
        (s', Inl e) \<Rightarrow> (s', Some (Inl e))
      | (s', Inr handle') \<Rightarrow> dispatch_loop env session (Suc i) rest handle' s')"
| "dispatch_loop env session i ((now, others, StreamClosed) # rest) handle s =
     map_prod id Some (finish_with env i now handle (failed_outcome RuntimeAttemptRetryableFailed ''HARNESS_STREAM_CLOSED'' handle) (others s))"
| "dispatch_loop env session i ((now, others, StreamEvent event) # rest) handle s =
     (if ae_Session event \<noteq> session
      then map_prod id Some (finish_with env i now handle (failed_outcome RuntimeAttemptFailed ''HARNESS_SESSION_MISMATCH'' handle) (others s))
      else case finish_event env i now handle event of
          Some m \<Rightarrow> map_prod id Some (m (others s))
        | None \<Rightarrow>
            (case RecordHarnessEvent (de_hash env) (de_codec env) (de_event env i) now handle event (others s) of
               (s', Inl e) \<Rightarrow> (s', Some (Inl e))
             | (s', Inr _) \<Rightarrow> dispatch_loop env session (Suc i) rest handle s'))"

text \<open>Starting the harness gives a session and whether there is a stream; resuming only the latter.\<close>

record harness =
  hs_start :: "(AgentSessionRef \<times> bool) res"
  hs_resume :: "AgentSessionRef \<Rightarrow> bool res"

definition harness_session :: "harness \<Rightarrow> AgentSessionRef option \<Rightarrow> (AgentSessionRef \<times> bool) res" where
  "harness_session h session =
     (case session of None \<Rightarrow> hs_start h | Some se \<Rightarrow> bind_res (hs_resume h se) (\<lambda>stream. Inr (se, stream)))"

definition session_failure_code :: "DispatchHandle \<Rightarrow> string" where
  "session_failure_code handle =
     (if dh_ResumeSession handle = None then ''HARNESS_START_FAILED'' else ''HARNESS_RESUME_FAILED'')"

definition DispatchNext ::
    "dispatch_env \<Rightarrow> (dispatch_ids \<times> time \<times> (Store \<Rightarrow> Store)) list \<Rightarrow> fault \<Rightarrow> (harness \<times> HarnessCapabilities) res \<Rightarrow> time
     \<Rightarrow> (time \<times> (Store \<Rightarrow> Store) \<times> signal) list \<Rightarrow> DispatchInput \<Rightarrow> Store \<Rightarrow> Store \<times> (DispatchHandle \<times> JobRun) res option" where
  "DispatchNext env rounds ctxErr resolved now signals input s =
     (case resolved of
        Inl e \<Rightarrow> (s, Some (Inl e))
      | Inr (h, cap) \<Rightarrow>
          (case prepareDispatchWithRetry (de_hash env) (de_codec env) rounds ctxErr input cap s of
             (s1, Inl e) \<Rightarrow> (s1, Some (Inl e))
           | (s1, Inr handle) \<Rightarrow>
               (case harness_session h (dh_ResumeSession handle) of
                  Inl e \<Rightarrow> map_prod id Some (finish_with env 0 now handle
                    (failed_outcome RuntimeAttemptRetryableFailed (errorCode e (session_failure_code handle)) handle) s1)
                | Inr (session, stream) \<Rightarrow>
                    if \<not> stream then map_prod id Some (finish_with env 0 now handle
                      (failed_outcome RuntimeAttemptRetryableFailed ''HARNESS_STREAM_MISSING'' handle) s1)
                    else (case Service_ActivateDispatch (de_codec env) (de_event env 0) now handle session s1 of
                        (s2, Inl e) \<Rightarrow> (fst (finish_with env 1 now handle
                          (failed_outcome RuntimeAttemptRetryableFailed ''DISPATCH_ACTIVATION_FAILED'' handle) s2), Some (Inl e))
                      | (s2, Inr handle') \<Rightarrow> dispatch_loop env session 1 signals handle' s2))))"

subsection \<open>Remote admission\<close>

text \<open>
  A remote worker reports what its harness can do; what it may do comes from the frozen binding and plan. The fields
  of \<^verbatim>\<open>RemoteExecutionSpec\<close> that only \<^verbatim>\<open>EnrichExecutionSpec\<close>, a function of the caller, fills are left out.
\<close>

record RemoteExecutionSpec =
  rs_ProjectID :: string
  rs_JobRunID :: string
  rs_NodeKey :: string
  rs_InputSnapshotID :: string
  rs_Role :: string
  rs_ProfileID :: string
  rs_ProfileVersion :: string
  rs_BindingDigest :: string
  rs_EnvironmentID :: string
  rs_EnvironmentDigest :: string
  rs_PluginDigest :: string
  rs_SkillDigest :: string
  rs_MCPDigest :: string
  rs_WorkspaceTemplateID :: string
  rs_WorkspaceDigest :: string
  rs_RequiredCapabilities :: "string list"
  rs_SandboxProfile :: string
  rs_IsolationProfile :: string
  rs_EgressPolicy :: string
  rs_Region :: string
  rs_DataClassification :: string
  rs_Prompt :: string
  rs_OutputSchemaRef :: string
  rs_OutputSchema :: string

record RemoteAdmissionInput =
  rai_TenantID :: string
  rai_JobRunID :: string
  rai_Owner :: string
  rai_AllowedProjectIDs :: "string list option"
  rai_HarnessKind :: string
  rai_Capabilities :: HarnessCapabilities

definition remoteHarnessAllowed :: "ExecutionBindingSnapshot \<Rightarrow> JobPlanNode \<Rightarrow> string \<Rightarrow> bool" where
  "remoteHarnessAllowed binding node harnessKind =
     (if eb_HarnessKinds binding \<noteq> [] \<and> \<not> containsDispatchValue (eb_HarnessKinds binding) harnessKind then False
      else if pn_ExecutionModes node \<noteq> [] \<and> \<not> containsDispatchValue (pn_ExecutionModes node) ''agent''
              \<and> \<not> containsDispatchValue (pn_ExecutionModes node) ''local'' then False
      else True)"

text \<open>\<^verbatim>\<open>strings.EqualFold\<close> as equality of the lower-case forms, exact for ASCII.\<close>

definition remoteSandboxAllowed :: "ExecutionBindingSnapshot \<Rightarrow> string \<Rightarrow> bool" where
  "remoteSandboxAllowed binding observed =
     (let required = TrimSpace (eb_SandboxProfile binding) in
      if eb_Legacy binding \<or> required = '''' \<or> required = ''legacy'' \<or> required = ''any'' then True
      else ToLower required = ToLower (TrimSpace observed))"

definition remoteNodeRole :: "JobPlanNode \<Rightarrow> string" where
  "remoteNodeRole node = (if pn_Kind node = ''gate'' then ''gate_executor'' else ''node_executor'')"

definition remoteNodePrompt :: "JobPlanNode \<Rightarrow> string" where
  "remoteNodePrompt node =
     [CHR 0xE6, CHR 0x89, CHR 0xA7, CHR 0xE8, CHR 0xA1, CHR 0x8C, CHR 0xE5, CHR 0x86, CHR 0xBB, CHR 0xE7, CHR 0xBB,
      CHR 0x93, CHR 0xE8, CHR 0x8A, CHR 0x82, CHR 0xE7, CHR 0x82, CHR 0xB9] @ '' '' @ pn_Name node @ [CHR 0xEF, CHR
      0xBC, CHR 0x88] @ pn_Key node @ [CHR 0xEF, CHR 0xBC, CHR 0x89, CHR 0xE3, CHR 0x80, CHR 0x82, CHR 0xE5, CHR 0x8F,
      CHR 0xAA, CHR 0xE4, CHR 0xBD, CHR 0xBF, CHR 0xE7, CHR 0x94, CHR 0xA8] @ '' ContextView '' @ [CHR 0xE6, CHR 0x8E,
      CHR 0x88, CHR 0xE6, CHR 0x9D, CHR 0x83, CHR 0xE7, CHR 0x9A, CHR 0x84, CHR 0xE5, CHR 0xBC, CHR 0x95, CHR 0xE7,
      CHR 0x94, CHR 0xA8, CHR 0xE5, CHR 0x92, CHR 0x8C, CHR 0xE5, CHR 0xB7, CHR 0xA5, CHR 0xE5, CHR 0x85, CHR 0xB7,
      CHR 0xEF, CHR 0xBC, CHR 0x8C, CHR 0xE5, CHR 0xB9, CHR 0xB6, CHR 0xE6, CHR 0x8C, CHR 0x89, CHR 0xE8, CHR 0xBE,
      CHR 0x93, CHR 0xE5, CHR 0x87, CHR 0xBA] @ '' Schema '' @ pn_OutputSchema node @ '' '' @ [CHR 0xE8, CHR 0xBF, CHR
      0x94, CHR 0xE5, CHR 0x9B, CHR 0x9E, CHR 0xE7, CHR 0xBB, CHR 0x93, CHR 0xE6, CHR 0x9E, CHR 0x84, CHR 0xE5, CHR
      0x8C, CHR 0x96, CHR 0xE7, CHR 0xBB, CHR 0x93, CHR 0xE6, CHR 0x9E, CHR 0x9C, CHR 0xE3, CHR 0x80, CHR 0x82]"

definition remote_tools :: "ExecutionBindingSnapshot \<Rightarrow> JobPlanNode \<Rightarrow> string list" where
  "remote_tools binding node =
     (if pn_Kind node = ''gate'' \<or> pn_SideEffectClass node = ''human_decision'' then [] else eb_AllowedTools binding)"

definition max_duration :: "ExecutionBindingSnapshot \<Rightarrow> int" where
  "max_duration binding = i64 (eb_MaxDurationSeconds binding * 1000000000)"

definition remote_input :: "json_codec \<Rightarrow> RemoteAdmissionInput \<Rightarrow> JobRun \<Rightarrow> JobPlanNode \<Rightarrow> ExecutionBindingSnapshot \<Rightarrow> DispatchInput" where
  "remote_input codec admission job node binding =
     \<lparr>di_TenantID = rai_TenantID admission, di_JobRunID = jr_ID job, di_Owner = rai_Owner admission,
      di_AllowedProjectIDs = rai_AllowedProjectIDs admission, di_HarnessKind = rai_HarnessKind admission,
      di_Role = remoteNodeRole node, di_ExecutionProfileID = eb_ProfileID binding, di_Workspace = '''',
      di_Prompt = remoteNodePrompt node,
      di_OutputSchema = jc_marshal codec (AObj [(''$ref'', AStr (pn_OutputSchema node))]), di_InputRefs = pn_InputRefs node,
      di_StateRefs = [], di_EventRefs = [], di_AllowedTools = remote_tools binding node, di_MaxTokens = eb_MaxTokens binding,
      di_BudgetMinor = eb_MaxCostMinor binding, di_RemainingDescendants = eb_MaxDynamicDescendants binding,
      di_LeaseFor = (if max_duration binding < DefaultNodeLeaseDuration then max_duration binding else DefaultNodeLeaseDuration),
      di_ContextTTL = max_duration binding, di_ResourceRequests = []\<rparr>"

definition remote_spec :: "json_codec \<Rightarrow> JobRun \<Rightarrow> JobPlanNode \<Rightarrow> ExecutionBindingSnapshot \<Rightarrow> RemoteExecutionSpec" where
  "remote_spec codec job node binding =
     \<lparr>rs_ProjectID = jr_ProjectID job, rs_JobRunID = jr_ID job, rs_NodeKey = pn_Key node,
      rs_InputSnapshotID = jr_InputSnapshotID job, rs_Role = remoteNodeRole node, rs_ProfileID = eb_ProfileID binding,
      rs_ProfileVersion = eb_ProfileVersion binding, rs_BindingDigest = eb_Digest binding,
      rs_EnvironmentID = eb_EnvironmentID binding, rs_EnvironmentDigest = eb_EnvironmentDigest binding,
      rs_PluginDigest = eb_PluginDigest binding, rs_SkillDigest = eb_SkillDigest binding, rs_MCPDigest = eb_MCPDigest binding,
      rs_WorkspaceTemplateID = eb_WorkspaceTemplateID binding, rs_WorkspaceDigest = eb_WorkspaceDigest binding,
      rs_RequiredCapabilities = pn_RequiredCapabilities node, rs_SandboxProfile = eb_SandboxProfile binding,
      rs_IsolationProfile = eb_IsolationProfile binding, rs_EgressPolicy = eb_EgressPolicy binding,
      rs_Region = eb_Region binding, rs_DataClassification = eb_DataClassification binding,
      rs_Prompt = remoteNodePrompt node, rs_OutputSchemaRef = pn_OutputSchema node,
      rs_OutputSchema = jc_marshal codec (AObj [(''$ref'', AStr (pn_OutputSchema node))])\<rparr>"

definition remoteDispatchInput ::
    "json_codec \<Rightarrow> RemoteAdmissionInput \<Rightarrow> JobRun \<Rightarrow> NodeRun \<Rightarrow> Store \<Rightarrow> (DispatchInput \<times> RemoteExecutionSpec) res" where
  "remoteDispatchInput codec admission job node s =
     bind_res (Store_Plan (rai_TenantID admission) (jr_PlanRevisionID job) s) (\<lambda>plan.
     lookup_or (Conflict ''DISPATCH_NODE_SPEC_MISSING'') (find (\<lambda>c. pn_Key c = nr_NodeKey node) (jp_Nodes plan)) (\<lambda>spec.
     bind_res (Store_ExecutionBindingSnapshot (rai_TenantID admission) (jr_BindingDigest job) s) (\<lambda>binding.
     require (remoteHarnessAllowed binding spec (rai_HarnessKind admission)) (Policy ''DISPATCH_HARNESS_NOT_ALLOWED'') (
     require (remoteSandboxAllowed binding (hc_SandboxProfile (rai_Capabilities admission))) (Policy ''DISPATCH_SANDBOX_NOT_ALLOWED'') (
     Inr (remote_input codec admission job spec binding, remote_spec codec job spec binding))))))"

definition remoteAdmissionCandidate :: "time \<Rightarrow> RemoteAdmissionInput \<Rightarrow> Store \<Rightarrow> (NodeRun \<times> JobRun) res" where
  "remoteAdmissionCandidate now input s =
     (let allowed = (\<lambda>job. dispatchProjectAllowed (jr_ProjectID job) (rai_AllowedProjectIDs input)); denied = Policy ''DISPATCH_PROJECT_SCOPE_DENIED'' in
      if rai_JobRunID input = '''' then
        bind_res (NextReadyNode now (rai_TenantID input) '''' (rai_AllowedProjectIDs input) s) (\<lambda>node.
        bind_res (Store_JobRun (rai_TenantID input) (nr_JobRunID node) s) (\<lambda>job.
        require (allowed job) denied (Inr (node, job))))
      else
        bind_res (Store_JobRun (rai_TenantID input) (rai_JobRunID input) s) (\<lambda>job.
        require (allowed job) denied (
        bind_res (NextReadyNode now (rai_TenantID input) (rai_JobRunID input) (rai_AllowedProjectIDs input) s) (\<lambda>node.
        Inr (node, job)))))"

definition admission_trim :: "RemoteAdmissionInput \<Rightarrow> RemoteAdmissionInput" where
  "admission_trim input =
     input\<lparr>rai_TenantID := TrimSpace (rai_TenantID input), rai_JobRunID := TrimSpace (rai_JobRunID input),
       rai_Owner := TrimSpace (rai_Owner input), rai_HarnessKind := ToLower (TrimSpace (rai_HarnessKind input))\<rparr>"

text \<open>Others may act between the selection of a node and its preparation (\<open>between\<close>).\<close>

fun admit_remote ::
    "(goany \<Rightarrow> string) \<Rightarrow> json_codec \<Rightarrow> (RemoteExecutionSpec \<Rightarrow> RemoteExecutionSpec res)
     \<Rightarrow> (dispatch_ids \<times> time \<times> (Store \<Rightarrow> Store) \<times> (Store \<Rightarrow> Store)) list \<Rightarrow> fault \<Rightarrow> RemoteAdmissionInput \<Rightarrow> HarnessCapabilities
     \<Rightarrow> (DispatchHandle \<times> RemoteExecutionSpec) svc" where
  "admit_remote hash codec enrich [] ctxErr input cap = fail ctxErr"
| "admit_remote hash codec enrich ((ids, now, between, env) # rounds) ctxErr input cap = (\<lambda>s.
     case bind_res (remoteAdmissionCandidate now input s) (\<lambda>(node, job).
          bind_res (remoteDispatchInput codec input job node s) (\<lambda>(dispatch, spec).
          bind_res (enrich spec) (\<lambda>spec'. Inr (dispatch, spec')))) of
       Inl e \<Rightarrow> (s, Inl e)
     | Inr (dispatch, spec) \<Rightarrow>
         (case prepareDispatch hash codec ids now dispatch cap (between s) of
            (s', Inr handle) \<Rightarrow> (s', Inr (handle, spec))
          | (s', Inl e) \<Rightarrow> if hasDomainCode e ''NODE_DISPATCH_CONFLICT''
                          then admit_remote hash codec enrich rounds ctxErr input cap (env s') else (s', Inl e)))"

definition PrepareAdmittedRemoteDispatch ::
    "(goany \<Rightarrow> string) \<Rightarrow> json_codec \<Rightarrow> (RemoteExecutionSpec \<Rightarrow> RemoteExecutionSpec res)
     \<Rightarrow> (dispatch_ids \<times> time \<times> (Store \<Rightarrow> Store) \<times> (Store \<Rightarrow> Store)) list \<Rightarrow> fault \<Rightarrow> RemoteAdmissionInput
     \<Rightarrow> (DispatchHandle \<times> RemoteExecutionSpec) svc" where
  "PrepareAdmittedRemoteDispatch hash codec enrich rounds ctxErr input0 =
     (let input = admission_trim input0;
          cap = (rai_Capabilities input)\<lparr>hc_Kind := ToLower (TrimSpace (hc_Kind (rai_Capabilities input)))\<rparr> in
      guard_svc (\<not> (rai_TenantID input = '''' \<or> rai_Owner input = '''' \<or> rai_HarnessKind input = ''''))
        (Invalid ''DISPATCH_INPUT_INVALID'') (
      guard_svc (\<not> (hc_Kind cap = '''' \<or> hc_Kind cap \<noteq> rai_HarnessKind input)) (Invalid ''AGENT_HARNESS_KIND_MISMATCH'') (
      guard_svc (\<not> (hc_MaxParallelSessions cap < 1 \<or> hc_MaxParallelSessions cap > 1024))
        (Invalid ''AGENT_HARNESS_CAPACITY_INVALID'') (
      admit_remote hash codec enrich rounds ctxErr input cap))))"

subsection \<open>A refresh leaves attempts, yields and agents alone\<close>

definition attempts_same :: "Store \<Rightarrow> Store \<Rightarrow> bool" where
  "attempts_same s s' = (runtimeAttempts s' = runtimeAttempts s \<and> runtimeYields s' = runtimeYields s
     \<and> runtimeAgents s' = runtimeAgents s)"

lemma attempts_same_refl [simp]: "attempts_same s s"
  by (simp add: attempts_same_def)

lemma attempts_same_trans: "attempts_same s s1 \<Longrightarrow> attempts_same s1 s2 \<Longrightarrow> attempts_same s s2"
  by (simp add: attempts_same_def)

lemma cancel_members_attempts: "attempts_same s (fst (cancel_members current at key ms found s))"
  by (induction current at key ms found s rule: cancel_members.induct)
    (auto simp: attempts_same_def split: option.split)

lemma cancel_loop_attempts: "attempts_same s (fst (cancel_loop current at keys s))"
proof (induction keys arbitrary: s)
  case (Cons key keys)
  obtain s1 r where c: "cancel_members current at key (runtimeFanoutMembers s) False s = (s1, r)" by fastforce
  with cancel_members_attempts [of s current at key] have 1: "attempts_same s s1" by (metis fst_conv)
  then show ?case using attempts_same_trans [OF 1 Cons.IH] by (cases r) (simp_all add: c)
qed simp

lemma join_attempts: "steps_of attempts_same (ApplyFanoutJoinCommand f x ms keys e)"
proof -
  have "attempts_same s (fst (ApplyFanoutJoinCommand f x ms keys e s))" for s
  proof (cases "join_checks f x ms e s")
    case (Inr current)
    let ?s1 = "s\<lparr>runtimeFanoutMembers := mput_all member_key ms (runtimeFanoutMembers s)\<rparr>"
    obtain s2 r where c: "cancel_loop current (je_OccurredAt e) keys ?s1 = (s2, r)" by fastforce
    with cancel_loop_attempts [of ?s1 current "je_OccurredAt e" keys] have "attempts_same s s2" by (simp add: attempts_same_def)
    then show ?thesis by (cases r) (simp_all add: ApplyFanoutJoinCommand_def Inr c attempts_same_def)
  qed (simp add: ApplyFanoutJoinCommand_def)
  then show ?thesis by (auto simp: steps_of_def)
qed

lemma node_attempts: "steps_of attempts_same (exec (ApplyNodeTransition n x e))"
  by (rule steps_of_exec) (auto simp: attempts_same_def dest!: ApplyNodeTransition_ok)

lemma job_attempts: "steps_of attempts_same (exec (ApplyJobTransition j x e))"
  by (rule steps_of_exec) (auto simp: attempts_same_def dest!: ApplyJobTransition_ok)

interpretation same_attempts: refresh_steps attempts_same
  by unfold_locales (rule node_attempts join_attempts job_attempts)+

lemma Refresh_attempts:
  assumes "Refresh ids now t j s = (s', r)"
  shows "runtimeAttempts s' = runtimeAttempts s" "runtimeYields s' = runtimeYields s" "runtimeAgents s' = runtimeAgents s"
proof -
  have "attempts_same\<^sup>*\<^sup>* s s'"
    using same_attempts.Refresh_steps [of ids now t j] assms unfolding steps_of_def by (metis fst_conv)
  then have "attempts_same s s'" by (induction rule: rtranclp_induct) (auto intro: attempts_same_trans)
  then show "runtimeAttempts s' = runtimeAttempts s" "runtimeYields s' = runtimeYields s" "runtimeAgents s' = runtimeAgents s"
    by (simp_all add: attempts_same_def)
qed

subsection \<open>Ending an attempt\<close>

definition dispatch_settled :: "Store \<Rightarrow> DispatchHandle \<Rightarrow> bool" where
  "dispatch_settled s h = ((\<exists>k. mget (runtimeAttempts s) k = Some (dh_Attempt h)) \<and> attempt_terminal (ra_State (dh_Attempt h)))"

lemma Service_FinalizeDispatch_ok:
  assumes "Service_FinalizeDispatch hash sha eid ids now handle oc0 s = (s', Inr (h, job))"
  obtains (again) st where "settle_state handle oc0 s = Inr st" "RuntimeAttempt_Terminal (dh_Attempt handle)"
      "repeat_final ids now handle (settle_outcome hash st oc0) s = (s', Inr (h, job))"
  | (first) st oc s1 n a g where "settle_state handle oc0 s = Inr st" "oc = settle_outcome hash st oc0"
      "st \<in> {RuntimeAttemptSucceeded, RuntimeAttemptRetryableFailed, RuntimeAttemptFailed, RuntimeAttemptCancelled}"
      "ai_UsedCostMinor (dh_Agent handle) \<le> do_UsedCostMinor oc" "do_UsedCostMinor oc \<le> ai_BudgetMinor (dh_Agent handle)"
      "\<not> RuntimeAttempt_Terminal (dh_Attempt handle)"
      "FinalizeDispatch (final_node now oc (dh_Node handle)) (nr_Version (dh_Node handle))
        (final_attempt now oc (dh_Attempt handle)) (ra_Version (dh_Attempt handle)) (final_agent now oc (dh_Agent handle))
        (ai_Version (dh_Agent handle)) (ra_FenceToken (dh_Attempt handle)) (final_event sha eid now handle oc) s
        = Inr (s1, (n, a, g))"
      "Refresh ids now (nr_TenantID n) (nr_JobRunID n) s1 = (s', Inr job)"
      "h = handle\<lparr>dh_Node := n, dh_Attempt := a, dh_Agent := g\<rparr>"
proof -
  from assms obtain st where st: "settle_state handle oc0 s = Inr st"
    and v: "st \<in> {RuntimeAttemptSucceeded, RuntimeAttemptRetryableFailed, RuntimeAttemptFailed, RuntimeAttemptCancelled}"
    and u: "ai_UsedCostMinor (dh_Agent handle) \<le> do_UsedCostMinor (settle_outcome hash st oc0)"
      "do_UsedCostMinor (settle_outcome hash st oc0) \<le> ai_BudgetMinor (dh_Agent handle)"
    unfolding Service_FinalizeDispatch_def Let_def bind_query_Inr guard_svc_Inr by auto
  show ?thesis
  proof (cases "RuntimeAttempt_Terminal (dh_Attempt handle)")
    case True
    then have "repeat_final ids now handle (settle_outcome hash st oc0) s = (s', Inr (h, job))"
      using assms st by (simp add: Service_FinalizeDispatch_def Let_def bind_query_Inr guard_svc_Inr)
    with st True show ?thesis by (rule again)
  next
    case False
    let ?oc = "settle_outcome hash st oc0"
    have "bind_svc (exec (FinalizeDispatch (final_node now ?oc (dh_Node handle)) (nr_Version (dh_Node handle))
        (final_attempt now ?oc (dh_Attempt handle)) (ra_Version (dh_Attempt handle)) (final_agent now ?oc (dh_Agent handle))
        (ai_Version (dh_Agent handle)) (ra_FenceToken (dh_Attempt handle)) (final_event sha eid now handle ?oc)))
        (\<lambda>(node, attempt, agent). bind_svc (Refresh ids now (nr_TenantID node) (nr_JobRunID node)) (\<lambda>job.
         ret (handle\<lparr>dh_Node := node, dh_Attempt := attempt, dh_Agent := agent\<rparr>, job))) s = (s', Inr (h, job))"
      using assms st unfolding Service_FinalizeDispatch_def Let_def bind_query_Inr guard_svc_Inr
      by (simp only: False if_False check_svc_Inr sum.inject) blast
    then obtain s1 t where c: "FinalizeDispatch (final_node now ?oc (dh_Node handle)) (nr_Version (dh_Node handle))
        (final_attempt now ?oc (dh_Attempt handle)) (ra_Version (dh_Attempt handle)) (final_agent now ?oc (dh_Agent handle))
        (ai_Version (dh_Agent handle)) (ra_FenceToken (dh_Attempt handle)) (final_event sha eid now handle ?oc) s = Inr (s1, t)"
      "(case t of (node, attempt, agent) \<Rightarrow> bind_svc (Refresh ids now (nr_TenantID node) (nr_JobRunID node)) (\<lambda>job.
         ret (handle\<lparr>dh_Node := node, dh_Attempt := attempt, dh_Agent := agent\<rparr>, job))) s1 = (s', Inr (h, job))"
      unfolding bind_exec_Inr by (elim exE conjE)
    obtain n a g where t: "t = (n, a, g)" by (cases t)
    from c(2) have "Refresh ids now (nr_TenantID n) (nr_JobRunID n) s1 = (s', Inr job)"
      "h = handle\<lparr>dh_Node := n, dh_Attempt := a, dh_Agent := g\<rparr>"
      by (auto simp: t bind_svc_Inr ret_Inr)
    from first [OF st refl v u False c(1) [unfolded t] this] show ?thesis .
  qed
qed

lemma settle_outcome_state [simp]: "do_State (settle_outcome hash st oc) = st"
  by (simp add: settle_outcome_def Let_def)

lemma finalize_settles:
  assumes "Service_FinalizeDispatch hash sha eid ids now handle oc0 s = (s', Inr (h, job))"
  shows "dispatch_settled s' h"
  using assms
proof (cases rule: Service_FinalizeDispatch_ok)
  case (again st)
  then obtain s1 where "mget (runtimeAttempts s) (runtimePlanKey (ra_TenantID (dh_Attempt handle)) (ra_ID (dh_Attempt handle)))
      = Some (dh_Attempt h)" "RuntimeAttempt_Terminal (dh_Attempt h)"
    "Refresh ids now (nr_TenantID (dh_Node handle)) (nr_JobRunID (dh_Node handle)) s = (s', Inr job)"
    unfolding repeat_final_def
    by (auto simp: svc_Inr Store_RuntimeAttempt_def)
  then show ?thesis using Refresh_attempts by (auto simp: dispatch_settled_def RuntimeAttempt_Terminal_def)
next
  case (first st oc s1 n a g)
  have "attempt_terminal (ra_State a) \<and> (\<exists>k. mget (runtimeAttempts s1) k = Some a)"
    using first(7)
  proof (cases rule: FinalizeDispatch_ok)
    case (replay cn ca cg)
    then show ?thesis by auto
  next
    case (stored cn ca cg)
    then have "a = final_attempt now oc (dh_Attempt handle)" by simp
    moreover have "mget (runtimeAttempts s1) (attempt_key a) = Some a"
      using stored by (simp add: put_dispatch_def)
    ultimately show ?thesis using first(2,3) by (auto simp: final_attempt_def)
  qed
  then show ?thesis using Refresh_attempts [OF first(8)] by (simp add: first(9) dispatch_settled_def)
qed

text \<open>The identifier of the yield is fresh for every tenant.\<close>

definition fresh_yield :: "string \<Rightarrow> Store \<Rightarrow> bool" where
  "fresh_yield i s = (\<forall>t. mget (runtimeYields s) (runtimePlanKey t i) = None)"

lemma yield_settles:
  assumes "YieldDispatch hash yid eid ids now handle input s = (s', Inr (y, h, job))" and "fresh_yield yid s"
  shows "dispatch_settled s' h"
proof -
  let ?y = "new_yield yid now (TrimSpace (yi_Reason input)) (sortedRefs (yi_WaitRefs input)) (dh_Node handle) (dh_Attempt handle) (dh_Agent handle)"
  from assms(1) obtain st ag digest summary z s1 y' n a g where
    run: "Store_YieldDispatch ?y (yielded_node now st (dh_Node handle)) (nr_Version (dh_Node handle))
       (yielded_attempt now digest summary (dh_Attempt handle)) (ra_Version (dh_Attempt handle))
       (yielded_agent now ag z (dh_Agent handle)) (ai_Version (dh_Agent handle))
       (ra_FenceToken (dh_Attempt handle)) (yield_event eid now handle ?y digest) s = Inr (s1, (y', n, a, g))"
    and r: "Refresh ids now (nr_TenantID n) (nr_JobRunID n) s1 = (s', Inr job)"
    and h: "h = handle\<lparr>dh_Node := n, dh_Attempt := a, dh_Agent := g\<rparr>"
    unfolding YieldDispatch_def Let_def check_svc_Inr guard_svc_Inr
    by (auto simp: svc_Inr fail_def split: option.splits prod.splits)
  have "mget (runtimeYields s) (yield_key ?y) = None"
    using assms(2) by (simp add: fresh_yield_def yield_key_def new_yield_def)
  with run have "a = yielded_attempt now digest summary (dh_Attempt handle) \<and> mget (runtimeAttempts s1) (attempt_key a) = Some a"
    by (cases rule: Store_YieldDispatch_ok) (auto simp: put_dispatch_def)
  then show ?thesis using Refresh_attempts [OF r] by (auto simp: dispatch_settled_def h yielded_attempt_def)
qed

text \<open>The other phases do not touch the yields.\<close>

definition yields_same :: "Store \<Rightarrow> Store \<Rightarrow> bool" where
  "yields_same s s' = (runtimeYields s' = runtimeYields s)"

lemma PrepareDispatch_yields [svc_steps]: "steps_of yields_same (exec (PrepareDispatch n x a w g cr z rs e))"
  by (rule steps_of_exec) (auto simp: yields_same_def PrepareDispatch_def)

lemma ActivateDispatch_yields [svc_steps]: "steps_of yields_same (exec (ActivateDispatch n x a y g z e))"
  by (rule steps_of_exec) (auto simp: yields_same_def ActivateDispatch_def put_dispatch_def)

lemma HeartbeatDispatch_yields [svc_steps]: "steps_of yields_same (exec (HeartbeatDispatch t a own f x y now d))"
  by (rule steps_of_exec) (auto simp: yields_same_def HeartbeatDispatch_def Let_def)

lemma AppendFenced_yields [svc_steps]: "steps_of yields_same (exec (AppendFencedRuntimeEvent t a own f now e))"
  by (rule steps_of_exec)
    (auto simp: yields_same_def AppendFencedRuntimeEvent_def Let_def enqueueRuntimeOutboxLocked_def split: option.splits)

lemma prepareDispatch_yields: "steps_of yields_same (prepareDispatch hash codec ids now input cap)"
  unfolding prepareDispatch_def Let_def by (intro svc_steps) 

lemma activate_yields: "steps_of yields_same (Service_ActivateDispatch codec eid now handle session)"
  unfolding Service_ActivateDispatch_def Let_def by (intro svc_steps)

lemma heartbeat_yields: "steps_of yields_same (Service_HeartbeatDispatch now handle)"
  unfolding Service_HeartbeatDispatch_def by (intro svc_steps)

lemma record_yields: "steps_of yields_same (RecordHarnessEvent hash codec eid now handle event)"
  unfolding RecordHarnessEvent_def Let_def by (intro svc_steps)

lemma fresh_after:
  assumes "steps_of yields_same m" and "m s = (s', r)" and "fresh_yield i s"
  shows "fresh_yield i s'"
proof -
  have "yields_same\<^sup>*\<^sup>* s s'" using assms(1,2) unfolding steps_of_def by (metis fst_conv)
  then have "runtimeYields s' = runtimeYields s" by (induction rule: rtranclp_induct) (auto simp: yields_same_def)
  with assms(3) show ?thesis by (simp add: fresh_yield_def)
qed

subsection \<open>The loop ends every attempt it reports\<close>

definition keeps_fresh :: "string \<Rightarrow> (Store \<Rightarrow> Store) \<Rightarrow> bool" where
  "keeps_fresh i f = (\<forall>s. fresh_yield i s \<longrightarrow> fresh_yield i (f s))"

lemma keeps_fresh_app: "keeps_fresh i f \<Longrightarrow> fresh_yield i s \<Longrightarrow> fresh_yield i (f s)"
  by (simp add: keeps_fresh_def)

lemma finish_settles: "finish_with env i now handle oc s = (s', Inr (h, job)) \<Longrightarrow> dispatch_settled s' h"
  unfolding finish_with_def by (rule finalize_settles)

lemma map_prod_Some: "map_prod id Some p = (s', Some r) \<Longrightarrow> p = (s', r)"
  by (cases p) simp

lemma finish_result:
  assumes "map_prod id Some (finish_with env i now handle oc s) = (s', r)"
  shows "(\<forall>h job. r = Some (Inr (h, job)) \<longrightarrow> dispatch_settled s' h) \<and> r \<noteq> None"
proof -
  obtain s1 r1 where f: "finish_with env i now handle oc s = (s1, r1)" by fastforce
  with assms have "s' = s1" "r = Some r1" by simp_all
  with f show ?thesis by (auto intro: finish_settles)
qed

lemma finish_event_settles:
  assumes "finish_event env i now handle event = Some m" and "m s = (s', Inr (h, job))" and "fresh_yield (de_yield env) s"
  shows "dispatch_settled s' h"
proof -
  consider oc where "m = finish_with env i now handle oc"
    | request where "m = bind_svc (YieldDispatch (de_hash env) (de_yield env) (de_event env i) (de_ids env) now handle request)
        (\<lambda>(y, h, job). ret (h, job))"
    using assms(1) unfolding finish_event_def Let_def by (auto split: if_splits option.splits)
  then show ?thesis
  proof cases
    case 1
    with assms(2) show ?thesis by (auto intro: finish_settles)
  next
    case 2
    with assms(2) obtain y where
      "YieldDispatch (de_hash env) (de_yield env) (de_event env i) (de_ids env) now handle request s = (s', Inr (y, h, job))"
      by (auto simp: bind_svc_Inr ret_Inr split: prod.splits)
    then show ?thesis using assms(3) by (rule yield_settles)
  qed
qed

lemma dispatch_loop_settles:
  assumes "dispatch_loop env session i signals handle s = (s', Some (Inr (h, job)))"
    and "fresh_yield (de_yield env) s" and "\<forall>x \<in> set signals. keeps_fresh (de_yield env) (fst (snd x))"
  shows "dispatch_settled s' h"
  using assms
proof (induction env session i signals handle s rule: dispatch_loop.induct)
  case (2 env session i now others e rest handle s)
  then show ?case by (simp add: case_prod_unfold Let_def)
next
  case (3 env session i now others rest handle s)
  obtain s1 r where b: "Service_HeartbeatDispatch now handle (others s) = (s1, r)" by fastforce
  have "fresh_yield (de_yield env) s1"
    using fresh_after [OF heartbeat_yields b] 3(3,4) by (auto intro: keeps_fresh_app)
  then show ?case using 3 b by (cases r) auto
next
  case (4 env session i now others rest handle s)
  then show ?case by (auto dest: map_prod_Some intro: finish_settles)
next
  case (5 env session i now others event rest handle s)
  have fr: "fresh_yield (de_yield env) (others s)" using 5(3,4) by (auto intro: keeps_fresh_app)
  show ?case
  proof (cases "ae_Session event = session")
    case False
    then show ?thesis using 5(2) by (auto dest!: map_prod_Some intro: finish_settles)
  next
    case same: True
    show ?thesis
    proof (cases "finish_event env i now handle event")
      case (Some m)
      then show ?thesis using 5(2) same finish_event_settles [OF Some _ fr] by (auto dest!: map_prod_Some)
    next
      case None
      obtain s1 r where b: "RecordHarnessEvent (de_hash env) (de_codec env) (de_event env i) now handle event (others s) = (s1, r)"
        by fastforce
      have "fresh_yield (de_yield env) s1" using fresh_after [OF record_yields b fr] .
      then show ?thesis using 5 same None b by (cases r) auto
    qed
  qed
qed simp

lemma retry_fresh:
  assumes "prepareDispatchWithRetry hash codec rounds ctxErr input cap s = (s', r)"
    and "fresh_yield i s" and "\<forall>x \<in> set rounds. keeps_fresh i (snd (snd x))"
  shows "fresh_yield i s'"
  using assms
proof (induction hash codec rounds ctxErr input cap arbitrary: s rule: prepareDispatchWithRetry.induct)
  case (2 hash codec ids now env rounds ctxErr input cap)
  obtain s1 r1 where b: "prepareDispatch hash codec ids now input cap s = (s1, r1)" by fastforce
  have f: "fresh_yield i s1" using fresh_after [OF prepareDispatch_yields b 2(3)] .
  show ?case
  proof (cases "\<exists>e. r1 = Inl e \<and> hasDomainCode e ''NODE_DISPATCH_CONFLICT''")
    case True
    then obtain e where e: "r1 = Inl e" "hasDomainCode e ''NODE_DISPATCH_CONFLICT''" by blast
    then have "prepareDispatchWithRetry hash codec rounds ctxErr input cap (env s1) = (s', r)" using 2(2) b by simp
    moreover have "fresh_yield i (env s1)" using f 2(4) by (auto intro: keeps_fresh_app)
    ultimately show ?thesis using 2(1) [OF b [symmetric] e(1,2)] 2(4) by simp
  next
    case False
    then show ?thesis using 2(2) b f by (cases r1) auto
  qed
qed (simp add: fail_def)

text \<open>Signals after which the loop does not go on.\<close>

fun ends :: "signal \<Rightarrow> bool" where
  "ends (CtxDone e) = True"
| "ends StreamClosed = True"
| "ends _ = False"

lemma dispatch_loop_returns:
  "\<exists>x \<in> set signals. ends (snd (snd x)) \<Longrightarrow> snd (dispatch_loop env session i signals handle s) \<noteq> None"
proof (induction env session i signals handle s rule: dispatch_loop.induct)
  case (2 env session i now others e rest handle s)
  then show ?case by (simp add: case_prod_unfold Let_def)
next
  case (3 env session i now others rest handle s)
  then show ?case by (auto split: prod.split sum.split)
next
  case (5 env session i now others event rest handle s)
  then show ?case by (auto split: prod.split sum.split option.split)
qed simp_all

subsection \<open>Properties\<close>

text \<open>
  C8. A worker that reports success has ended its attempt. Whatever the harness sends, in whatever order signals,
  heartbeats and the events of the session arrive, and whatever other services do to the store in between: if
  \<open>DispatchNext\<close> returns a handle, the attempt of the handle is stored in a final state (succeeded, failed,
  retryable, cancelled or yielded). And it does return once the stream closes or its context ends. The identifier
  drawn for a yield is assumed to be fresh.
\<close>

theorem dispatch_next_settles:
  assumes "DispatchNext env rounds ctxErr resolved now signals input s = (s', r)" and "fresh_yield (de_yield env) s"
    and "\<forall>x \<in> set rounds. keeps_fresh (de_yield env) (snd (snd x))"
    and "\<forall>x \<in> set signals. keeps_fresh (de_yield env) (fst (snd x))"
  shows "(\<forall>h job. r = Some (Inr (h, job)) \<longrightarrow> dispatch_settled s' h) \<and> ((\<exists>x \<in> set signals. ends (snd (snd x))) \<longrightarrow> r \<noteq> None)"
proof (cases resolved)
  case (Inr p)
  obtain hs cap where p: "p = (hs, cap)" by (cases p)
  obtain s1 r1 where b: "prepareDispatchWithRetry (de_hash env) (de_codec env) rounds ctxErr input cap s = (s1, r1)" by fastforce
  have f1: "fresh_yield (de_yield env) s1" by (rule retry_fresh [OF b assms(2,3)])
  show ?thesis
  proof (cases r1)
    case handle: (Inr handle)
    show ?thesis
    proof (cases "harness_session hs (dh_ResumeSession handle)")
      case (Inl e)
      with assms(1) have "map_prod id Some (finish_with env 0 now handle (failed_outcome RuntimeAttemptRetryableFailed
        (errorCode e (session_failure_code handle)) handle) s1) = (s', r)"
        by (simp add: DispatchNext_def Inr p b handle)
      then show ?thesis using finish_result by blast
    next
      case se: (Inr q)
      obtain session stream where q: "q = (session, stream)" by (cases q)
      show ?thesis
      proof (cases stream)
        case False
        with assms(1) have "map_prod id Some (finish_with env 0 now handle (failed_outcome RuntimeAttemptRetryableFailed
          ''HARNESS_STREAM_MISSING'' handle) s1) = (s', r)"
          by (simp add: DispatchNext_def Inr p b handle se q)
        then show ?thesis using finish_result by blast
      next
        case True
        obtain s2 r2 where a: "Service_ActivateDispatch (de_codec env) (de_event env 0) now handle session s1 = (s2, r2)" by fastforce
        have f2: "fresh_yield (de_yield env) s2" by (rule fresh_after [OF activate_yields a f1])
        show ?thesis
        proof (cases r2)
          case (Inl e)
          then show ?thesis using assms(1) by (auto simp: DispatchNext_def Inr p b handle se q True a)
        next
          case h': (Inr h')
          then have "dispatch_loop env session 1 signals h' s2 = (s', r)"
            using assms(1) by (simp add: DispatchNext_def Inr p b handle se q True a)
          then show ?thesis using dispatch_loop_settles [OF _ f2 assms(4)] dispatch_loop_returns [of signals env session 1 h' s2] by auto
        qed
      qed
    qed
  qed (use assms(1) in \<open>auto simp: DispatchNext_def Inr p b\<close>)
qed (use assms(1) in \<open>auto simp: DispatchNext_def\<close>)

text \<open>
  C9. Retries are bounded and spending is accounted for. When the service ends a running attempt, the attempt is
  left retryable only if its number is below the limit of the plan for that node (or the default); a retryable
  failure of the last allowed attempt becomes a failure; the attempt is stored as returned. When the stored attempt had
  not ended before, the agent is stored with exactly the cost of the outcome, which is at least the cost it had and
  within its budget. (An attempt that is stored as ended already is answered with the stored rows.)
\<close>

theorem dispatch_retries_bounded:
  assumes "Service_FinalizeDispatch hash sha eid ids now handle oc s = (s', Inr (h, job))"
    and "\<not> RuntimeAttempt_Terminal (dh_Attempt handle)" and "maxAttemptsForNode (dh_Node handle) s = Inr m"
  shows "(ra_State (dh_Attempt h) = RuntimeAttemptRetryableFailed \<longrightarrow> ra_AttemptNo (dh_Attempt handle) < m)
    \<and> (do_State oc = RuntimeAttemptRetryableFailed \<and> m \<le> ra_AttemptNo (dh_Attempt handle) \<longrightarrow> ra_State (dh_Attempt h) = RuntimeAttemptFailed)
    \<and> (\<exists>k. mget (runtimeAttempts s') k = Some (dh_Attempt h))
    \<and> (\<forall>c. mget (runtimeAttempts s) (runtimePlanKey (nr_TenantID (dh_Node handle)) (ra_ID (dh_Attempt handle))) = Some c
         \<and> \<not> RuntimeAttempt_Terminal c \<longrightarrow>
         mget (runtimeAgents s') (agent_key (dh_Agent handle)) = Some (dh_Agent h)
         \<and> ai_UsedCostMinor (dh_Agent h) = do_UsedCostMinor oc \<and> ai_UsedCostMinor (dh_Agent handle) \<le> ai_UsedCostMinor (dh_Agent h)
         \<and> ai_BudgetMinor (dh_Agent h) = ai_BudgetMinor (dh_Agent handle) \<and> ai_UsedCostMinor (dh_Agent h) \<le> ai_BudgetMinor (dh_Agent h))"
  using assms(1)
proof (cases rule: Service_FinalizeDispatch_ok)
  case (first st oc' s1 n a g)
  have "ra_State a = st"
    using first(7) by (cases rule: FinalizeDispatch_ok) (simp_all add: final_attempt_def first(2))
  moreover have "\<exists>k. mget (runtimeAttempts s') k = Some (dh_Attempt h)"
    using finalize_settles [OF assms(1)] by (simp add: dispatch_settled_def)
  moreover have "mget (runtimeAgents s') (agent_key (dh_Agent handle)) = Some g \<and> g = final_agent now oc' (dh_Agent handle)"
    if "mget (runtimeAttempts s) (runtimePlanKey (nr_TenantID (dh_Node handle)) (ra_ID (dh_Attempt handle))) = Some c"
      "\<not> RuntimeAttempt_Terminal c" for c
    using first(7)
  proof (cases rule: FinalizeDispatch_ok)
    case (replay cn ca cg)
    then show ?thesis using that by (simp add: final_node_def final_attempt_def Let_def RuntimeAttempt_Terminal_def)
  next
    case (stored cn ca cg)
    then show ?thesis using Refresh_attempts(3) [OF first(8)]
      by (simp add: put_dispatch_def agent_key_def final_agent_def)
  qed
  moreover have "(st = RuntimeAttemptRetryableFailed \<longrightarrow> ra_AttemptNo (dh_Attempt handle) < m)
    \<and> (do_State oc = RuntimeAttemptRetryableFailed \<and> m \<le> ra_AttemptNo (dh_Attempt handle) \<longrightarrow> st = RuntimeAttemptFailed)"
    using first(1) assms(3) unfolding settle_state_def Let_def by (auto split: if_splits)
  moreover have "do_UsedCostMinor oc' = do_UsedCostMinor oc" by (simp add: first(2) settle_outcome_def Let_def)
  ultimately show ?thesis using first(4,5,9) by (auto simp: final_agent_def)
qed (use assms(2) in simp)

lemma prepareDispatch_ok:
  assumes "prepareDispatch hash codec ids now input0 cap s = (s', Inr h)"
  obtains input node0 view where "input = lease_and_ttl (dispatch_defaults cap input0)"
    "choose_node now input s = Inr node0" "dispatch_view hash ids now input node0 = Inr view" "dh_ContextView h = view"
    "mget (runtimeContextViews s') (view_key view) = Some view" "nr_JobRunID (dh_Node h) = nr_JobRunID node0" "nr_NodeKey (dh_Node h) = nr_NodeKey node0"
    "mget (runtimeNodes s') (node_key (dh_Node h)) = Some (dh_Node h)"
proof -
  let ?input = "lease_and_ttl (dispatch_defaults cap input0)"
  from assms obtain node0 fence gw gh view agent cr x session rs n a g where
    c: "choose_node now ?input s = Inr node0" and v: "dispatch_view hash ids now ?input node0 = Inr view"
    and run: "PrepareDispatch (leased_node now ?input fence node0) (nr_Version node0)
       (new_attempt ids now cap ?input node0 view agent fence gh) view agent cr x rs
       (prepared_event ids now ?input (leased_node now ?input fence node0)
          (new_attempt ids now cap ?input node0 view agent fence gh) view) s = Inr (s', (n, a, g))"
    and h: "dh_ContextView h = view" "dh_Node h = n"
    unfolding prepareDispatch_def Let_def
    by (auto simp: bind_query_Inr check_svc_Inr bind_exec_Inr ret_Inr split: prod.splits)
  from run have "n = leased_node now ?input fence node0"
    "mget (runtimeContextViews s') (view_key view) = Some view" "mget (runtimeNodes s') (node_key n) = Some n"
    unfolding PrepareDispatch_def check_nil_Inr lookup_or_Inr require_Inr by (auto simp: view_key_def)
  then show ?thesis using c v h by (intro that) (simp_all add: leased_node_def)
qed

text \<open>The store and the time of the round that decides: the one whose preparation succeeds.\<close>

fun admission_round ::
    "(goany \<Rightarrow> string) \<Rightarrow> json_codec \<Rightarrow> (RemoteExecutionSpec \<Rightarrow> RemoteExecutionSpec res)
     \<Rightarrow> (dispatch_ids \<times> time \<times> (Store \<Rightarrow> Store) \<times> (Store \<Rightarrow> Store)) list \<Rightarrow> RemoteAdmissionInput \<Rightarrow> HarnessCapabilities
     \<Rightarrow> Store \<Rightarrow> (Store \<times> time) option" where
  "admission_round hash codec enrich [] input cap s = None"
| "admission_round hash codec enrich ((ids, now, between, env) # rounds) input cap s =
     (case bind_res (remoteAdmissionCandidate now input s) (\<lambda>(node, job).
          bind_res (remoteDispatchInput codec input job node s) (\<lambda>(dispatch, spec).
          bind_res (enrich spec) (\<lambda>spec'. Inr (dispatch, spec')))) of
       Inl e \<Rightarrow> None
     | Inr (dispatch, spec) \<Rightarrow>
         (case prepareDispatch hash codec ids now dispatch cap (between s) of
            (s', Inr handle) \<Rightarrow> Some (s, now)
          | (s', Inl e) \<Rightarrow> if hasDomainCode e ''NODE_DISPATCH_CONFLICT''
                          then admission_round hash codec enrich rounds input cap (env s') else None))"

definition admission_cap :: "RemoteAdmissionInput \<Rightarrow> HarnessCapabilities" where
  "admission_cap input = (rai_Capabilities input)\<lparr>hc_Kind := ToLower (TrimSpace (hc_Kind (rai_Capabilities input)))\<rparr>"

lemma admit_remote_ok:
  assumes "admit_remote hash codec enrich rounds ctxErr input cap s = (s', Inr (h, spec))"
  obtains ids now between s0 node job dispatch spec0 where
    "remoteAdmissionCandidate now input s0 = Inr (node, job)" "remoteDispatchInput codec input job node s0 = Inr (dispatch, spec0)"
    "enrich spec0 = Inr spec" "prepareDispatch hash codec ids now dispatch cap (between s0) = (s', Inr h)"
    "admission_round hash codec enrich rounds input cap s = Some (s0, now)"
  using assms
proof (induction hash codec enrich rounds ctxErr input cap arbitrary: s thesis rule: admit_remote.induct)
  case (2 hash codec enrich ids now between env rounds ctxErr input cap)
  let ?r = "bind_res (remoteAdmissionCandidate now input s) (\<lambda>(node, job).
          bind_res (remoteDispatchInput codec input job node s) (\<lambda>(dispatch, spec).
          bind_res (enrich spec) (\<lambda>spec'. Inr (dispatch, spec'))))"
  from 2(3) obtain dispatch sp where r: "?r = Inr (dispatch, sp)" by (cases ?r) auto
  then obtain node job spec0 where q: "remoteAdmissionCandidate now input s = Inr (node, job)"
    "remoteDispatchInput codec input job node s = Inr (dispatch, spec0)" "enrich spec0 = Inr sp"
    by (auto split: prod.splits)
  obtain s1 r1 where p: "prepareDispatch hash codec ids now dispatch cap (between s) = (s1, r1)" by fastforce
  show ?case
  proof (cases r1)
    case (Inr h')
    then have "s1 = s'" "h' = h" "sp = spec" using 2(3) r p by simp_all
    moreover have "admission_round hash codec enrich ((ids, now, between, env) # rounds) input cap s = Some (s, now)"
      by (simp only: admission_round.simps r sum.case prod.case p Inr)
    ultimately show ?thesis using 2(2) [of now s node job dispatch spec0 ids between] p Inr q by simp
  next
    case (Inl e)
    then have again: "hasDomainCode e ''NODE_DISPATCH_CONFLICT''"
      "admit_remote hash codec enrich rounds ctxErr input cap (env s1) = (s', Inr (h, spec))"
      using 2(3) r p by (simp_all split: if_splits)
    have "admission_round hash codec enrich ((ids, now, between, env) # rounds) input cap s
        = admission_round hash codec enrich rounds input cap (env s1)"
      by (simp only: admission_round.simps r sum.case prod.case p Inl again(1) if_True)
    note next_round = 2(2) [unfolded this]
    show ?thesis
      by (rule 2(1) [OF r refl p [symmetric] Inl again(1) _ again(2)]) (rule next_round)
  qed
qed (simp add: fail_def)

lemma remote_tools_bound: "set (remote_tools binding node) \<subseteq> set (eb_AllowedTools binding)"
  by (simp add: remote_tools_def)

lemma dispatch_view_fields:
  assumes "dispatch_view hash ids now input node = Inr view"
  shows "cv_AllowedTools view = sortedRefs (di_AllowedTools input)" "cv_BudgetMinor view = di_BudgetMinor input"
    "cv_MaxTokens view = di_MaxTokens input" "cv_ExpiresAt view = now + di_ContextTTL input"
  using assms unfolding dispatch_view_def BuildContextView_def by (auto simp: new_view_def Let_def)

lemma set_sortedRefs: "set (sortedRefs vs) = TrimSpace ` set vs - {''''}"
  by (simp add: sortedRefs_def trim_unique_set)

lemma remote_input_kept:
  "di_AllowedTools (lease_and_ttl (dispatch_defaults cap (remote_input codec i job n b))) = remote_tools b n"
  "di_BudgetMinor (lease_and_ttl (dispatch_defaults cap (remote_input codec i job n b))) = eb_MaxCostMinor b"
  "di_MaxTokens (lease_and_ttl (dispatch_defaults cap (remote_input codec i job n b))) = eb_MaxTokens b"
  "di_JobRunID (lease_and_ttl (dispatch_defaults cap (remote_input codec i job n b))) = TrimSpace (jr_ID job)"
  by (simp_all add: lease_and_ttl_def dispatch_defaults_def remote_input_def Let_def)

lemma select_loop_eligible: "eligible (fst (select_loop eligible score p cs)) \<or> select_loop eligible score p cs = p"
  by (induction eligible score p cs rule: select_loop.induct) auto

lemma NextReadyNode_job:
  assumes "NextReadyNode clock t j allowed s = Inr n" and "j \<noteq> ''''"
  shows "nr_JobRunID n = j"
  using assms select_loop_eligible [of "next_eligible t j allowed s" "next_score s clock" "(zero_node, -1)" "mvals (runtimeNodes s)"]
  unfolding NextReadyNode_def Let_def by (auto split: if_splits simp: zero_node_def next_eligible_def)

lemma choose_node_job:
  assumes "choose_node now input s = Inr node" and "di_JobRunID input \<noteq> ''''"
  shows "nr_JobRunID node = di_JobRunID input"
  using assms by (auto simp: choose_node_def NextReadyNode_job)

lemma remote_ttl:
  "0 < max_duration b \<Longrightarrow> di_ContextTTL (lease_and_ttl (dispatch_defaults cap (remote_input codec i job n b))) = max_duration b"
  by (simp add: lease_and_ttl_def dispatch_defaults_def remote_input_def Let_def DefaultNodeLeaseDuration_def)

text \<open>
  C31. A remote worker gets what the frozen binding of the job grants, and no more. Let \<open>s0\<close> be the store in which the
  deciding round of the admission selects its job and node, \<open>binding\<close> the execution binding of that job in \<open>s0\<close> and
  \<open>spec_node\<close> the node's specification in the job's plan. Whatever harness the worker declares, whatever the enrichment
  of the execution spec does and whatever happens in the store meanwhile, a successful admission leases a node of that
  job and stores a context view whose tools are tools of the binding, with exactly its token and cost limits, expiring
  its maximum duration after that round; the job belongs to a project the worker may serve, and harness and sandbox
  are ones the binding accepts.
\<close>

theorem remote_policy_frozen:
  assumes "PrepareAdmittedRemoteDispatch hash codec enrich rounds ctxErr input s = (s', Inr (h, spec))"
  shows "\<exists>s0 now node (job :: JobRun) plan spec_node binding.
      admission_round hash codec enrich rounds (admission_trim input) (admission_cap (admission_trim input)) s = Some (s0, now)
    \<and> remoteAdmissionCandidate now (admission_trim input) s0 = Inr (node, job)
    \<and> Store_Plan (TrimSpace (rai_TenantID input)) (jr_PlanRevisionID job) s0 = Inr plan
    \<and> find (\<lambda>c. pn_Key c = nr_NodeKey node) (jp_Nodes plan) = Some spec_node
    \<and> Store_ExecutionBindingSnapshot (TrimSpace (rai_TenantID input)) (jr_BindingDigest job) s0 = Inr binding
    \<and> (TrimSpace (jr_ID job) = '''' \<or> nr_JobRunID (dh_Node h) = TrimSpace (jr_ID job))
    \<and> dispatchProjectAllowed (jr_ProjectID job) (rai_AllowedProjectIDs input)
    \<and> remoteHarnessAllowed binding spec_node (ToLower (TrimSpace (rai_HarnessKind input)))
    \<and> remoteSandboxAllowed binding (hc_SandboxProfile (rai_Capabilities input))
    \<and> mget (runtimeContextViews s') (view_key (dh_ContextView h)) = Some (dh_ContextView h)
    \<and> (\<forall>tool. AllowsTool (dh_ContextView h) tool \<longrightarrow> TrimSpace tool \<in> TrimSpace ` set (eb_AllowedTools binding))
    \<and> cv_BudgetMinor (dh_ContextView h) = eb_MaxCostMinor binding \<and> cv_MaxTokens (dh_ContextView h) = eb_MaxTokens binding
    \<and> (0 < max_duration binding \<longrightarrow> cv_ExpiresAt (dh_ContextView h) = now + max_duration binding)"
proof -
  let ?i = "admission_trim input"
  let ?cap = "admission_cap ?i"
  have "admit_remote hash codec enrich rounds ctxErr ?i ?cap s = (s', Inr (h, spec))"
    using assms unfolding PrepareAdmittedRemoteDispatch_def Let_def guard_svc_Inr admission_cap_def by blast
  then obtain ids now between s0 node job dispatch spec0 where c: "remoteAdmissionCandidate now ?i s0 = Inr (node, job)"
    and d: "remoteDispatchInput codec ?i job node s0 = Inr (dispatch, spec0)"
    and p: "prepareDispatch hash codec ids now dispatch ?cap (between s0) = (s', Inr h)"
    and rd: "admission_round hash codec enrich rounds ?i ?cap s = Some (s0, now)" by (rule admit_remote_ok)
  from d obtain plan pn binding where pl: "Store_Plan (rai_TenantID ?i) (jr_PlanRevisionID job) s0 = Inr plan"
    "find (\<lambda>c. pn_Key c = nr_NodeKey node) (jp_Nodes plan) = Some pn"
    and b: "Store_ExecutionBindingSnapshot (rai_TenantID ?i) (jr_BindingDigest job) s0 = Inr binding"
    and g: "remoteHarnessAllowed binding pn (rai_HarnessKind ?i)" "remoteSandboxAllowed binding (hc_SandboxProfile (rai_Capabilities ?i))"
    and dispatch: "dispatch = remote_input codec ?i job pn binding"
    unfolding remoteDispatchInput_def by auto
  from c have proj: "dispatchProjectAllowed (jr_ProjectID job) (rai_AllowedProjectIDs ?i)"
    unfolding remoteAdmissionCandidate_def Let_def by (auto split: if_splits)
  from p obtain inp node0 view where v: "inp = lease_and_ttl (dispatch_defaults ?cap dispatch)"
    "dispatch_view hash ids now inp node0 = Inr view" "dh_ContextView h = view"
    "mget (runtimeContextViews s') (view_key view) = Some view" "nr_JobRunID (dh_Node h) = nr_JobRunID node0"
    "choose_node now inp (between s0) = Inr node0" by (rule prepareDispatch_ok)
  note f = dispatch_view_fields [OF v(2), unfolded v(1) dispatch remote_input_kept]
  have "TrimSpace tool \<in> TrimSpace ` set (eb_AllowedTools binding)" if "AllowsTool view tool" for tool
  proof -
    from that obtain x where "x \<in> set (cv_AllowedTools view)" "TrimSpace x = TrimSpace tool"
      unfolding AllowsTool_def Let_def list_ex_iff by blast
    then obtain y where "y \<in> set (remote_tools binding pn)" "TrimSpace tool = TrimSpace (TrimSpace y)"
      unfolding f(1) set_sortedRefs by auto
    then show ?thesis using remote_tools_bound [of binding pn] by auto
  qed
  moreover have "0 < max_duration binding \<longrightarrow> cv_ExpiresAt view = now + max_duration binding"
    using f(4) remote_ttl by simp
  moreover have "TrimSpace (jr_ID job) = '''' \<or> nr_JobRunID (dh_Node h) = TrimSpace (jr_ID job)"
    using choose_node_job [OF v(6)] v(5) unfolding v(1) dispatch remote_input_kept(4) by auto
  ultimately show ?thesis using b g proj v(3,4) f(2,3) rd c pl
    by (intro exI [of _ s0] exI [of _ now] exI [of _ node] exI [of _ job] exI [of _ plan] exI [of _ pn] exI [of _ binding])
      (auto simp: admission_trim_def)
qed

subsection \<open>Examples\<close>

text \<open>A codec that keeps only what the examples need, and a harness that answers with a fixed session.\<close>

definition ex_result :: harnessResult where
  "ex_result = \<lparr>hr_OutputRefs = [''out''], hr_OutputDigest = ''d'', hr_SafeSummary = [], hr_UsedCostMinor = 3\<rparr>"

definition ex_codec :: json_codec where
  "ex_codec = \<lparr>jc_marshal = (\<lambda>_. ''v''), jc_session = (\<lambda>_. ''sess''), jc_to_session = (\<lambda>_. None), jc_value = (\<lambda>_. Some (AObj [])),
     jc_result = (\<lambda>_. Some ex_result), jc_yield = (\<lambda>_. None)\<rparr>"

definition ex_cap :: HarnessCapabilities where
  "ex_cap = \<lparr>hc_Kind = ''codex'', hc_Version = ''1'', hc_Events = True, hc_Resume = True, hc_Fork = False, hc_MCPStdio = True,
     hc_MCPHTTP = False, hc_StructuredOutput = True, hc_SandboxProfile = ''strict'', hc_MaxParallelSessions = 1,
     hc_TranscriptExport = False\<rparr>"

definition ex_job_ids :: dispatch_ids where
  "ex_job_ids = \<lparr>id_attempt = ''at'', id_fence = Inr ''f'', id_gateway = Inr (''tok'', replicate 64 CHR ''a''), id_view = ''vw'',
     id_agent = ''ag'', id_event = ''e1'', id_reservation = (\<lambda>n. replicate n CHR ''r'')\<rparr>"

definition ex_env :: dispatch_env where
  "ex_env = \<lparr>de_hash = (\<lambda>_. ''h''), de_sha256 = (\<lambda>_. ''h''), de_codec = ex_codec, de_ids = ex_ids,
     de_event = (\<lambda>n. ''ev'' @ replicate n CHR ''i''), de_yield = ''y''\<rparr>"

definition ex_dispatch :: DispatchInput where
  "ex_dispatch = \<lparr>di_TenantID = ''t'', di_JobRunID = ''j'', di_Owner = ''w'', di_AllowedProjectIDs = None, di_HarnessKind = ''codex'',
     di_Role = ''r'', di_ExecutionProfileID = ''x'', di_Workspace = '''', di_Prompt = ''go'', di_OutputSchema = '''', di_InputRefs = [],
     di_StateRefs = [], di_EventRefs = [], di_AllowedTools = [''read''], di_MaxTokens = 10, di_BudgetMinor = 10,
     di_RemainingDescendants = 0, di_LeaseFor = 0, di_ContextTTL = 0, di_ResourceRequests = []\<rparr>"

definition ex_planned :: Store where
  "ex_planned = ex_store\<lparr>runtimePlans := [(''t:p1'', ex_plan)]\<rparr>"

definition ex_session :: AgentSessionRef where
  "ex_session = \<lparr>se_TenantID = ''t'', se_HarnessKind = ''codex'', se_SessionID = ''s''\<rparr>"

definition ex_harness :: harness where
  "ex_harness = \<lparr>hs_start = Inr (ex_session, True), hs_resume = (\<lambda>_. Inr True)\<rparr>"

definition ex_completed :: AgentEvent where
  "ex_completed = \<lparr>ae_Type = ''result.completed'', ae_Session = ex_session, ae_Data = ''d'', ae_ErrorCode = '''', ae_OccurredAt = 12\<rparr>"

definition ex_run :: "Store \<times> (DispatchHandle \<times> JobRun) res option" where
  "ex_run = DispatchNext ex_env [(ex_job_ids, 10, id)] NotFound (Inr (ex_harness, ex_cap)) 11
     [(12, id, HeartbeatTick), (13, id, StreamEvent ex_completed), (14, id, StreamClosed)] ex_dispatch ex_planned"

theorem dispatch_next_settles_witness:
  "\<exists>s' h job. ex_run = (s', Some (Inr (h, job))) \<and> dispatch_settled s' h \<and> ra_State (dh_Attempt h) = RuntimeAttemptSucceeded"
proof -
  have "(case snd ex_run of Some (Inr (h, job)) \<Rightarrow> ra_State (dh_Attempt h) = RuntimeAttemptSucceeded | _ \<Rightarrow> False)" by code_simp
  then obtain h job where r: "ex_run = (fst ex_run, Some (Inr (h, job)))" "ra_State (dh_Attempt h) = RuntimeAttemptSucceeded"
    by (cases "snd ex_run") (auto split: sum.splits prod.splits intro: that [OF prod_eqI])
  have "runtimeYields ex_planned = []" by code_simp
  then have "fresh_yield (de_yield ex_env) ex_planned" "keeps_fresh (de_yield ex_env) id"
    by (simp_all add: fresh_yield_def keeps_fresh_def)
  with dispatch_next_settles [OF r(1) [unfolded ex_run_def]] r show ?thesis unfolding ex_run_def by auto
qed

definition ex_prepared :: "DispatchHandle svc" where
  "ex_prepared = prepareDispatch (\<lambda>_. ''h'') ex_codec ex_job_ids 10 ex_dispatch ex_cap"

definition ex_retry :: "DispatchHandle \<Rightarrow> (DispatchHandle \<times> JobRun) svc" where
  "ex_retry h = Service_FinalizeDispatch (\<lambda>_. ''h'') (\<lambda>_. ''h'') ''e2'' ex_ids 12 h (failed_outcome RuntimeAttemptRetryableFailed ''X'' h)"

lemma ex_prepared_ok:
  "\<exists>s1 h0 s2 h job. ex_prepared ex_planned = (s1, Inr h0) \<and> ex_retry h0 s1 = (s2, Inr (h, job))
     \<and> \<not> RuntimeAttempt_Terminal (dh_Attempt h0) \<and> maxAttemptsForNode (dh_Node h0) s1 = Inr 1 \<and> 1 \<le> ra_AttemptNo (dh_Attempt h0)"
proof -
  have "(case ex_prepared ex_planned of (s1, Inl _) \<Rightarrow> False | (s1, Inr h0) \<Rightarrow> \<not> isl (snd (ex_retry h0 s1))
     \<and> \<not> RuntimeAttempt_Terminal (dh_Attempt h0) \<and> maxAttemptsForNode (dh_Node h0) s1 = Inr 1 \<and> 1 \<le> ra_AttemptNo (dh_Attempt h0))"
    by code_simp
  then obtain s1 h0 where p: "ex_prepared ex_planned = (s1, Inr h0)" "\<not> isl (snd (ex_retry h0 s1))"
    "\<not> RuntimeAttempt_Terminal (dh_Attempt h0)" "maxAttemptsForNode (dh_Node h0) s1 = Inr 1" "1 \<le> ra_AttemptNo (dh_Attempt h0)"
    by (auto split: prod.splits sum.splits)
  from svc_ok [OF p(2)] p show ?thesis by (metis prod.collapse)
qed

theorem dispatch_retries_bounded_witness:
  "\<exists>s1 h0 s2 h job. ex_prepared ex_planned = (s1, Inr h0) \<and> ex_retry h0 s1 = (s2, Inr (h, job))
     \<and> do_State (failed_outcome RuntimeAttemptRetryableFailed ''X'' h0) = RuntimeAttemptRetryableFailed
     \<and> ra_State (dh_Attempt h) = RuntimeAttemptFailed"
proof -
  obtain s1 h0 s2 h job where p: "ex_prepared ex_planned = (s1, Inr h0)" and q: "ex_retry h0 s1 = (s2, Inr (h, job))"
    and c: "\<not> RuntimeAttempt_Terminal (dh_Attempt h0)" "maxAttemptsForNode (dh_Node h0) s1 = Inr 1" "1 \<le> ra_AttemptNo (dh_Attempt h0)"
    using ex_prepared_ok by blast
  from dispatch_retries_bounded [OF q [unfolded ex_retry_def] c(1,2)] c(3)
  have "ra_State (dh_Attempt h) = RuntimeAttemptFailed" by (simp add: failed_outcome_def)
  with p q show ?thesis by (fastforce simp: failed_outcome_def)
qed

definition ex_binding :: ExecutionBindingSnapshot where
  "ex_binding =
     \<lparr>eb_TenantID = ''t'', eb_Digest = ex_digest, eb_SchemaVersion = ''1'', eb_ProfileID = ''x'', eb_ProfileVersion = ''1'',
      eb_ProfileDigest = ''d'', eb_RuntimePolicyID = ''pol'', eb_HarnessKinds = [''codex''], eb_ProviderRef = '''', eb_ModelRef = '''',
      eb_EnvironmentID = '''', eb_EnvironmentDigest = '''', eb_PluginDigest = '''', eb_SkillDigest = '''', eb_MCPDigest = '''',
      eb_AllowedTools = [''write''], eb_SandboxProfile = ''strict'', eb_IsolationProfile = '''', eb_EgressPolicy = '''', eb_Region = '''',
      eb_DataClassification = '''', eb_MaxTokens = 100, eb_MaxDurationSeconds = 60, eb_MaxCostMinor = 50,
      eb_MaxDynamicDescendants = 0, eb_FallbackPolicy = '''', eb_WorkspaceTemplateID = '''', eb_WorkspaceDigest = '''',
      eb_Legacy = False, eb_CreatedAt = 1\<rparr>"

text \<open>A job with two ready nodes: a stage, and a gate on which a person decides.\<close>

definition ex_gated :: Store where
  "ex_gated = (ex_staged JobRunRunning NodeReady NodeReady)\<lparr>
     runtimePlans := [(''t:p1'', ex_plan\<lparr>jp_Nodes := [ex_node ''a'' [], (ex_node ''b'' [])\<lparr>pn_Kind := ''gate''\<rparr>], jp_Edges := []\<rparr>)],
     runtimeExecutionBindings := [(''t:'' @ ex_digest, ex_binding)]\<rparr>"

definition ex_remote :: RemoteAdmissionInput where
  "ex_remote = \<lparr>rai_TenantID = ''t'', rai_JobRunID = '''', rai_Owner = ''w2'', rai_AllowedProjectIDs = None,
     rai_HarnessKind = ''codex'', rai_Capabilities = ex_cap\<rparr>"

definition ex_other_ids :: dispatch_ids where
  "ex_other_ids = ex_job_ids\<lparr>id_attempt := ''at2'', id_gateway := Inr (''tok2'', replicate 64 CHR ''b''), id_view := ''vw2'',
     id_agent := ''ag2'', Dispatch_Service.id_event := ''e2''\<rparr>"

definition ex_admit :: "(Store \<Rightarrow> Store) \<Rightarrow> (DispatchHandle \<times> RemoteExecutionSpec) svc" where
  "ex_admit between = PrepareAdmittedRemoteDispatch (\<lambda>_. ''k'') ex_codec Inr [(ex_other_ids, 20, between, id)] NotFound ex_remote"

theorem remote_policy_frozen_witness:
  "\<exists>s' h spec. ex_admit id ex_gated = (s', Inr (h, spec)) \<and> nr_NodeKey (dh_Node h) = ''a''
     \<and> mget (runtimeContextViews s') (view_key (dh_ContextView h)) = Some (dh_ContextView h)"
proof -
  let ?p = "ex_admit id ex_gated"
  have "(case snd ?p of Inr (h, spec) \<Rightarrow> nr_NodeKey (dh_Node h) = ''a'' | _ \<Rightarrow> False)" by code_simp
  then obtain h spec where r: "?p = (fst ?p, Inr (h, spec))" "nr_NodeKey (dh_Node h) = ''a''"
    by (cases "snd ?p") (auto split: prod.splits intro: that [OF prod_eqI])
  from remote_policy_frozen [OF r(1) [unfolded ex_admit_def]] r show ?thesis unfolding ex_admit_def by blast
qed

text \<open>
  The policy of one node can reach another. A remote admission computes tools and role for the ready node it
  selects, but the preparation selects again: when another worker takes the first node in between, the admission
  leases the next ready node, here a gate on which a person decides, with the tools of the binding and the role of an
  ordinary node, while an undisturbed admission of the same gate gives it no tool at all.
\<close>

theorem remote_gate_gets_tools:
  "\<exists>between s' h spec s'' h' spec'.
      between = (\<lambda>s. fst (prepareDispatch (\<lambda>_. ''h'') ex_codec ex_job_ids 15 ex_dispatch ex_cap s))
    \<and> ex_admit between ex_gated = (s', Inr (h, spec)) \<and> nr_NodeKey (dh_Node h) = ''b'' \<and> rs_NodeKey spec = ''a''
    \<and> AllowsTool (dh_ContextView h) ''write'' \<and> ai_Role (dh_Agent h) = ''node_executor''
    \<and> ex_admit id (between ex_gated) = (s'', Inr (h', spec')) \<and> nr_NodeKey (dh_Node h') = ''b''
    \<and> cv_AllowedTools (dh_ContextView h') = [] \<and> ai_Role (dh_Agent h') = ''gate_executor''"
proof -
  let ?b = "\<lambda>s. fst (prepareDispatch (\<lambda>_. ''h'') ex_codec ex_job_ids 15 ex_dispatch ex_cap s)"
  let ?p = "ex_admit ?b ex_gated" and ?q = "ex_admit id (?b ex_gated)"
  have "(case snd ?p of Inr (h, spec) \<Rightarrow> nr_NodeKey (dh_Node h) = ''b'' \<and> rs_NodeKey spec = ''a''
      \<and> AllowsTool (dh_ContextView h) ''write'' \<and> ai_Role (dh_Agent h) = ''node_executor'' | _ \<Rightarrow> False)" by code_simp
  moreover have "(case snd ?q of Inr (h, spec) \<Rightarrow> nr_NodeKey (dh_Node h) = ''b''
      \<and> cv_AllowedTools (dh_ContextView h) = [] \<and> ai_Role (dh_Agent h) = ''gate_executor'' | _ \<Rightarrow> False)" by code_simp
  ultimately show ?thesis
    by (cases ?p; cases ?q; cases "snd ?p"; cases "snd ?q") (auto split: prod.splits)
qed

end
