(* ===== verification/State_Service.thy ===== *)
theory State_Service
  imports Job_Control
begin

section \<open>Shared state, tool calls and external effects\<close>

text \<open>
  The operations of \<^verbatim>\<open>internal/runtime/service.go\<close> and \<^verbatim>\<open>internal/runtime/schema.go\<close> on shared state (schemas,
  collections, records, mutations), on the ledger of tool calls and on external effects. They add to the
  checks of the store (theories \<open>State_Tools\<close>, \<open>Tool_Calls\<close>, \<open>Commands\<close>) what needs several rows: who may write
  a collection, whether a tool call is still authorised, which attempt an effect belongs to.

  \<open>json_len\<close> is the length of the JSON of a value, \<open>eid\<close> the identifier of the event, \<open>now\<close> the clock.
\<close>

subsection \<open>Schemas (schema.go)\<close>

record RuntimeSchemaInput =
  rsi_TenantID :: string
  rsi_SchemaID :: string
  rsi_Revision :: int
  rsi_Compatibility :: string
  rsi_Definition :: "payload option"
  rsi_RetentionPolicy :: string
  rsi_CreatedBy :: string

definition normalizeSchemaRetention :: "string \<Rightarrow> string" where
  "normalizeSchemaRetention value =
     (let v = ToLower (TrimSpace value) in
      if v \<in> {'''', ''job''} then ''job'' else if v \<in> {''30d'', ''90d'', ''forever''} then v else '''')"

definition schemaRetentionDeadline :: "time \<Rightarrow> string \<Rightarrow> time option" where
  "schemaRetentionDeadline retiredAt policy =
     (if policy = ''30d'' then Some (retiredAt + 30 * 24 * 60 * Minute)
      else if policy = ''90d'' then Some (retiredAt + 90 * 24 * 60 * Minute) else None)"

text \<open>The map inside is handed to the hash as it is; \<^verbatim>\<open>json.Marshal\<close> prints maps in the order of their keys.\<close>

definition schema_json :: "string \<Rightarrow> int \<Rightarrow> string \<Rightarrow> payload \<Rightarrow> goany" where
  "schema_json schemaID revision compatibility def = AObj
     [(''schema_id'', AStr schemaID), (''revision'', AInt revision), (''compatibility'', AStr compatibility), (''definition'', AObj def)]"

definition new_schema :: "(goany \<Rightarrow> string) \<Rightarrow> time \<Rightarrow> RuntimeSchemaInput \<Rightarrow> payload \<Rightarrow> RuntimeSchema" where
  "new_schema hash now input def =
     (let compatibility = (let c = TrimSpace (rsi_Compatibility input) in if c = '''' then ''backward'' else c) in
      \<lparr>sch_TenantID = rsi_TenantID input, sch_SchemaID = rsi_SchemaID input, sch_Revision = rsi_Revision input,
       sch_Status = ''draft'', sch_Compatibility = compatibility, sch_Definition = Some def,
       sch_Digest = ''sha256:'' @ hash (schema_json (rsi_SchemaID input) (rsi_Revision input) compatibility def),
       sch_RetentionPolicy = normalizeSchemaRetention (rsi_RetentionPolicy input), sch_RetainUntil = None,
       sch_CreatedBy = rsi_CreatedBy input, sch_CreatedAt = now, sch_PublishedAt = None, sch_RetiredAt = None,
       sch_Version = 1\<rparr>)"

definition Service_CreateRuntimeSchema :: "(goany \<Rightarrow> string) \<Rightarrow> time \<Rightarrow> RuntimeSchemaInput \<Rightarrow> RuntimeSchema svc" where
  "Service_CreateRuntimeSchema hash now input =
     (case rsi_Definition input of
        None \<Rightarrow> fail (Invalid ''RUNTIME_SCHEMA_INPUT_INVALID'')
      | Some def \<Rightarrow>
          guard_svc (\<not> (blank (rsi_TenantID input) \<or> blank (rsi_SchemaID input) \<or> rsi_Revision input < 1
                        \<or> blank (rsi_CreatedBy input))) (Invalid ''RUNTIME_SCHEMA_INPUT_INVALID'') (
          guard_svc (as_string (mget def ''type'') = ''object'') (Invalid ''RUNTIME_SCHEMA_DEFINITION_INVALID'') (
          guard_svc (normalizeSchemaRetention (rsi_RetentionPolicy input) \<noteq> '''') (Invalid ''RUNTIME_SCHEMA_RETENTION_INVALID'') (
          let schema = new_schema hash now input def in
          check_svc (RuntimeSchema_Validate schema) (
          bind_svc (exec (CreateRuntimeSchema schema)) (\<lambda>_. ret schema))))))"

definition definition_of :: "RuntimeSchema \<Rightarrow> payload" where
  "definition_of schema = (case sch_Definition schema of None \<Rightarrow> [] | Some d \<Rightarrow> d)"

definition schema_compatible :: "RuntimeSchema \<Rightarrow> RuntimeSchema res \<Rightarrow> fault option" where
  "schema_compatible schema prev =
     (case prev of
        Inl _ \<Rightarrow> Some (Conflict ''RUNTIME_SCHEMA_PREVIOUS_NOT_PUBLISHED'')
      | Inr previous \<Rightarrow>
          if sch_Status previous \<noteq> ''published'' then Some (Conflict ''RUNTIME_SCHEMA_PREVIOUS_NOT_PUBLISHED'')
          else if (sch_Compatibility schema = ''backward'' \<or> sch_Compatibility schema = ''full'')
               \<and> \<not> schemaDefinitionsBackwardCompatible (definition_of previous) (definition_of schema)
          then Some (Conflict ''RUNTIME_SCHEMA_COMPATIBILITY_FAILED'')
          else if sch_Compatibility schema = ''full''
               \<and> \<not> schemaDefinitionsBackwardCompatible (definition_of schema) (definition_of previous)
          then Some (Conflict ''RUNTIME_SCHEMA_COMPATIBILITY_FAILED'')
          else None)"

definition Service_PublishRuntimeSchema :: "time \<Rightarrow> string \<Rightarrow> string \<Rightarrow> int \<Rightarrow> int \<Rightarrow> RuntimeSchema svc" where
  "Service_PublishRuntimeSchema now tenantID schemaID revision expectedVersion =
     bind_svc (query (Store_RuntimeSchema tenantID schemaID revision)) (\<lambda>schema0.
     guard_svc (sch_Status schema0 = ''draft'') (Conflict ''RUNTIME_SCHEMA_NOT_DRAFT'') (
     try_svc (query (Store_RuntimeSchema tenantID schemaID (revision - 1))) (\<lambda>prev.
     check_svc (if revision > 1 then schema_compatible schema0 prev else None) (
     let schema = schema0\<lparr>sch_Status := ''published'', sch_PublishedAt := Some now, sch_Version := sch_Version schema0 + 1\<rparr> in
     check_svc (RuntimeSchema_Validate schema) (
     exec (PublishRuntimeSchema schema expectedVersion))))))"

definition Service_RetireRuntimeSchema :: "time \<Rightarrow> string \<Rightarrow> string \<Rightarrow> int \<Rightarrow> int \<Rightarrow> RuntimeSchema svc" where
  "Service_RetireRuntimeSchema now tenantID schemaID revision expectedVersion =
     bind_svc (query (Store_RuntimeSchema tenantID schemaID revision)) (\<lambda>schema0.
     guard_svc (sch_Status schema0 = ''published'') (Conflict ''RUNTIME_SCHEMA_NOT_PUBLISHED'') (
     let schema = schema0\<lparr>sch_Status := ''retired'', sch_RetiredAt := Some now,
                    sch_RetainUntil := schemaRetentionDeadline now (sch_RetentionPolicy schema0),
                    sch_Version := sch_Version schema0 + 1\<rparr> in
     check_svc (RuntimeSchema_Validate schema) (
     exec (RetireRuntimeSchema schema expectedVersion))))"

subsection \<open>Collections and records (service.go)\<close>

definition collection_defaults :: "time \<Rightarrow> StateCollection \<Rightarrow> StateCollection" where
  "collection_defaults now c =
     (let created = (if IsZero (sc_CreatedAt c) then now else sc_CreatedAt c) in
      c\<lparr>sc_TenantID := TrimSpace (sc_TenantID c), sc_JobRunID := TrimSpace (sc_JobRunID c),
        sc_CollectionKey := TrimSpace (sc_CollectionKey c), sc_WriterNodeKey := TrimSpace (sc_WriterNodeKey c),
        sc_CreatedAt := created, sc_UpdatedAt := (if IsZero (sc_UpdatedAt c) then created else sc_UpdatedAt c)\<rparr>)"

definition Service_CreateStateCollection :: "time \<Rightarrow> StateCollection \<Rightarrow> unit svc" where
  "Service_CreateStateCollection now c0 =
     (let c = collection_defaults now c0 in
      check_svc (StateCollection_Validate c) (
      bind_svc (query (Store_JobRun (sc_TenantID c) (sc_JobRunID c))) (\<lambda>job.
      guard_svc (\<not> (jr_TenantID job \<noteq> sc_TenantID c \<or> jr_ID job \<noteq> sc_JobRunID c)) (Invalid ''STATE_COLLECTION_SCOPE_INVALID'') (
      try_svc (query (Store_RuntimeSchema (sc_TenantID c) (sc_SchemaID c) (sc_SchemaRevision c))) (\<lambda>r.
      case r of
        Inl e \<Rightarrow> fail (if IsNotFound e then Policy ''STATE_SCHEMA_NOT_PUBLISHED'' else e)
      | Inr schema \<Rightarrow>
          guard_svc (sch_Status schema = ''published'') (Policy ''STATE_SCHEMA_NOT_PUBLISHED'') (
          let writer = (sc_Scope c = ''node_private'' \<or> sc_WriterNodeKey c \<noteq> '''') in
          guard_svc (\<not> (writer \<and> sc_WriterNodeKey c = '''')) (Invalid ''STATE_COLLECTION_WRITER_REQUIRED'') (
          bind_svc (query (\<lambda>s. Inr (NodeRuns (sc_TenantID c) (sc_JobRunID c) s))) (\<lambda>nodes.
          guard_svc (writer \<longrightarrow> list_ex (\<lambda>n. nr_NodeKey n = sc_WriterNodeKey c) nodes)
            (Invalid ''STATE_COLLECTION_WRITER_SCOPE_INVALID'') (
          exec (CreateStateCollection c))))))))))"

definition is_writer :: "StateCollection \<Rightarrow> string \<Rightarrow> bool" where
  "is_writer c actor =
     (sc_WriterNodeKey c \<noteq> '''' \<and> (actor = sc_WriterNodeKey c \<or> actor = ''node:'' @ sc_WriterNodeKey c
        \<or> actor = ''node/'' @ sc_WriterNodeKey c))"

definition exclusive :: "StateCollection \<Rightarrow> bool" where
  "exclusive c = (sc_Scope c = ''node_private'' \<or> sc_Consistency c = ''single_writer'' \<or> sc_Consistency c = ''reducer_owned'')"

definition stateWriteAllowed :: "StateCollection \<Rightarrow> string \<Rightarrow> bool" where
  "stateWriteAllowed c actor0 =
     (let actor = TrimSpace actor0 in
      if actor = '''' then False
      else if exclusive c \<and> \<not> is_writer c actor then False
      else if exclusive c \<and> sc_WritePolicy c = [] then True
      else list_ex (\<lambda>allowed. TrimSpace allowed = actor) (sc_WritePolicy c))"

definition record_actors :: "StateRecord \<Rightarrow> StateRecord" where
  "record_actors r =
     (let updatedBy = (if blank (sr_UpdatedBy r) then TrimSpace (sr_CreatedBy r) else sr_UpdatedBy r) in
      r\<lparr>sr_UpdatedBy := updatedBy, sr_CreatedBy := (if blank (sr_CreatedBy r) then updatedBy else sr_CreatedBy r)\<rparr>)"

definition record_times :: "time \<Rightarrow> StateRecord \<Rightarrow> StateRecord" where
  "record_times now r =
     (let updated = (if IsZero (sr_UpdatedAt r) then now else sr_UpdatedAt r) in
      r\<lparr>sr_UpdatedAt := updated, sr_CreatedAt := (if IsZero (sr_CreatedAt r) then updated else sr_CreatedAt r)\<rparr>)"

definition record_event :: "string \<Rightarrow> StateCollection \<Rightarrow> StateRecord \<Rightarrow> int \<Rightarrow> JobEvent" where
  "record_event eid c r expectedVersion =
     (let actor = TrimSpace (sr_UpdatedBy r) in
      new_event eid (sr_TenantID r) (sc_JobRunID c) ''''
        (if expectedVersion = 0 then ''state.record.created'' else ''state.record.updated'') ''runtime''
        (if actor = '''' then ''runtime'' else actor)
        (''state-record:'' @ sr_ID r @ '':'' @ Itoa expectedVersion)
        [(''collection_id'', AStr (sr_CollectionID r)), (''key'', AStr (sr_Key r)), (''version'', AInt (expectedVersion + 1))]
        (sr_UpdatedAt r))"

definition stateRecordCAS ::
    "(payload \<Rightarrow> int) \<Rightarrow> string \<Rightarrow> time \<Rightarrow> StateRecord \<Rightarrow> int \<Rightarrow> string \<Rightarrow> string \<Rightarrow> StateRecord svc" where
  "stateRecordCAS json_len eid now r0 expectedVersion attemptID fenceToken =
     bind_svc (query (Store_StateCollection (TrimSpace (sr_TenantID r0)) (TrimSpace (sr_CollectionID r0)))) (\<lambda>c.
     guard_svc (sc_TenantID c = sr_TenantID r0) (Invalid ''STATE_RECORD_SCOPE_INVALID'') (
     guard_svc (sr_SchemaRevision r0 = sc_SchemaRevision c) (Conflict ''STATE_SCHEMA_REVISION_CONFLICT'') (
     guard_svc (\<not> expectedVersion < 0) (Invalid ''STATE_RECORD_VERSION_INVALID'') (
     guard_svc (\<not> (sc_Consistency c = ''append_only'' \<and> expectedVersion \<noteq> 0)) (Policy ''STATE_APPEND_ONLY_UPDATE_FORBIDDEN'') (
     let r1 = record_actors r0 in
     guard_svc (stateWriteAllowed c (sr_UpdatedBy r1)) (Policy ''STATE_WRITE_FORBIDDEN'') (
     let r = record_times now r1; event = record_event eid c r expectedVersion in
     if attemptID \<noteq> ''''
     then exec (ApplyFencedStateRecordCommand json_len r expectedVersion attemptID fenceToken now event)
     else exec (ApplyStateRecordCommand json_len r expectedVersion event)))))))"

definition StateRecordCAS :: "(payload \<Rightarrow> int) \<Rightarrow> string \<Rightarrow> time \<Rightarrow> StateRecord \<Rightarrow> int \<Rightarrow> StateRecord svc" where
  "StateRecordCAS json_len eid now r expectedVersion = stateRecordCAS json_len eid now r expectedVersion '''' ''''"

definition StateRecordCASForAttempt ::
    "(payload \<Rightarrow> int) \<Rightarrow> string \<Rightarrow> time \<Rightarrow> StateRecord \<Rightarrow> int \<Rightarrow> string \<Rightarrow> string \<Rightarrow> StateRecord svc" where
  "StateRecordCASForAttempt json_len eid now r expectedVersion attemptID fenceToken =
     guard_svc (\<not> (blank attemptID \<or> blank fenceToken)) (Invalid ''MCP_GATEWAY_FENCE_REQUIRED'') (
     stateRecordCAS json_len eid now r expectedVersion (TrimSpace attemptID) (TrimSpace fenceToken))"

definition MutateState ::
    "string \<Rightarrow> string \<Rightarrow> time \<Rightarrow> string \<Rightarrow> string \<Rightarrow> StateMutation \<Rightarrow> string \<Rightarrow> string \<Rightarrow> RuntimeState svc" where
  "MutateState newID eid now tenantID jobID mutation actorType actorID =
     guard_svc (\<not> (blank (sm_Collection mutation) \<or> blank (sm_IdempotencyKey mutation)))
       (Invalid ''RUNTIME_STATE_MUTATION_INVALID'') (
     exec (ApplyStateMutation newID tenantID jobID mutation
       (new_event eid tenantID jobID '''' ''state.mutated'' actorType actorID ''''
          [(''collection'', AStr (sm_Collection mutation))] now)))"

subsection \<open>Tool calls (service.go)\<close>

fun tool_state_str :: "tool_state \<Rightarrow> string" where
  "tool_state_str ToolCallProposed = ''proposed''"
| "tool_state_str ToolCallAuthorized = ''authorized''"
| "tool_state_str ToolCallRunning = ''running''"
| "tool_state_str ToolCallSucceeded = ''succeeded''"
| "tool_state_str ToolCallFailed = ''failed''"
| "tool_state_str ToolCallUnknown = ''unknown''"
| "tool_state_str (ToolState s) = s"

definition tool_scope_ok :: "ToolCall \<Rightarrow> JobRun \<Rightarrow> NodeRun \<Rightarrow> RuntimeAttempt \<Rightarrow> AgentInstance \<Rightarrow> ContextView \<Rightarrow> bool" where
  "tool_scope_ok call job node attempt agent view =
     (\<not> (jr_ID job \<noteq> tc_JobRunID call \<or> nr_JobRunID node \<noteq> tc_JobRunID call \<or> ra_JobRunID attempt \<noteq> tc_JobRunID call
         \<or> ra_NodeRunID attempt \<noteq> tc_NodeRunID call \<or> ra_AgentInstanceID attempt \<noteq> tc_AgentInstanceID call
         \<or> ai_JobRunID agent \<noteq> tc_JobRunID call \<or> ai_NodeRunID agent \<noteq> tc_NodeRunID call
         \<or> ai_ContextViewID agent \<noteq> cv_ID view \<or> cv_JobRunID view \<noteq> tc_JobRunID call
         \<or> cv_NodeRunID view \<noteq> tc_NodeRunID call \<or> cv_AttemptID view \<noteq> tc_AttemptID call))"

definition authorizeToolCall :: "ToolCall \<Rightarrow> time \<Rightarrow> Store \<Rightarrow> unit res" where
  "authorizeToolCall call now s =
     bind_res (Store_JobRun (tc_TenantID call) (tc_JobRunID call) s) (\<lambda>job.
     bind_res (Store_NodeRun (tc_TenantID call) (tc_NodeRunID call) s) (\<lambda>node.
     bind_res (Store_RuntimeAttempt (tc_TenantID call) (tc_AttemptID call) s) (\<lambda>attempt.
     bind_res (Store_AgentInstance (tc_TenantID call) (tc_AgentInstanceID call) s) (\<lambda>agent.
     bind_res (Store_ContextView (tc_TenantID call) (ra_ContextViewID attempt) s) (\<lambda>view.
     require (tool_scope_ok call job node attempt agent view) (Invalid ''TOOL_CALL_SCOPE_INVALID'') (
     require (\<not> (ra_State attempt \<noteq> RuntimeAttemptPrepared \<and> ra_State attempt \<noteq> RuntimeAttemptRunning))
       (Conflict ''TOOL_CALL_ATTEMPT_NOT_ACTIVE'') (
     require (\<not> (ai_State agent \<noteq> AgentRunnable \<and> ai_State agent \<noteq> AgentActive)) (Conflict ''TOOL_CALL_AGENT_NOT_ACTIVE'') (
     require (cv_ExpiresAt view > now) (Policy ''TOOL_CALL_CONTEXT_EXPIRED'') (
     require (AllowsTool view (tc_ToolName call)) (Policy ''TOOL_CALL_NOT_ALLOWED'') (
     Inr ()))))))))))"

definition tool_defaults :: "time \<Rightarrow> ToolCall \<Rightarrow> ToolCall" where
  "tool_defaults now call =
     (let created = (if IsZero (tc_CreatedAt call) then now else tc_CreatedAt call) in
      call\<lparr>tc_TenantID := TrimSpace (tc_TenantID call), tc_JobRunID := TrimSpace (tc_JobRunID call),
        tc_NodeRunID := TrimSpace (tc_NodeRunID call), tc_AttemptID := TrimSpace (tc_AttemptID call),
        tc_AgentInstanceID := TrimSpace (tc_AgentInstanceID call), tc_ToolName := TrimSpace (tc_ToolName call),
        tc_CreatedAt := created, tc_UpdatedAt := (if IsZero (tc_UpdatedAt call) then created else tc_UpdatedAt call),
        tc_State := (if tc_State call = ToolState '''' then ToolCallProposed else tc_State call),
        tc_Version := (if tc_Version call < 1 then 1 else tc_Version call)\<rparr>)"

definition tool_created_event :: "string \<Rightarrow> ToolCall \<Rightarrow> JobEvent" where
  "tool_created_event eid call =
     new_event eid (tc_TenantID call) (tc_JobRunID call) '''' (''tool_call.'' @ tool_state_str (tc_State call)) ''runtime''
       (tc_AgentInstanceID call) (''tool-call:'' @ tc_ID call @ '':created'')
       [(''tool_call_id'', AStr (tc_ID call)), (''tool_name'', AStr (tc_ToolName call))] (tc_CreatedAt call)"

definition createToolCall :: "string \<Rightarrow> time \<Rightarrow> ToolCall \<Rightarrow> string \<Rightarrow> unit svc" where
  "createToolCall eid now call0 fenceToken =
     (let call = tool_defaults now call0; event = tool_created_event eid call in
      bind_svc (query (authorizeToolCall call now)) (\<lambda>_.
      bind_svc (if fenceToken \<noteq> '''' then exec (RegisterFencedToolCallCommand call fenceToken now event)
                else exec (RegisterToolCallCommand call event)) (\<lambda>_. ret ())))"

definition Service_CreateToolCall :: "string \<Rightarrow> time \<Rightarrow> ToolCall \<Rightarrow> unit svc" where
  "Service_CreateToolCall eid now call = createToolCall eid now call ''''"

definition CreateFencedToolCall :: "string \<Rightarrow> time \<Rightarrow> ToolCall \<Rightarrow> string \<Rightarrow> unit svc" where
  "CreateFencedToolCall eid now call fenceToken =
     guard_svc (\<not> blank fenceToken) (Invalid ''MCP_GATEWAY_FENCE_REQUIRED'') (
     createToolCall eid now call (TrimSpace fenceToken))"

definition same_tool_scope :: "ToolCall \<Rightarrow> ToolCall \<Rightarrow> bool" where
  "same_tool_scope nxt current =
     (tc_TenantID nxt = tc_TenantID current \<and> tc_JobRunID nxt = tc_JobRunID current \<and> tc_NodeRunID nxt = tc_NodeRunID current
      \<and> tc_AttemptID nxt = tc_AttemptID current \<and> tc_AgentInstanceID nxt = tc_AgentInstanceID current
      \<and> tc_ToolName nxt = tc_ToolName current \<and> tc_SchemaVersion nxt = tc_SchemaVersion current
      \<and> tc_RequestDigest nxt = tc_RequestDigest current)"

definition tool_event :: "string \<Rightarrow> ToolCall \<Rightarrow> JobEvent" where
  "tool_event eid nxt =
     new_event eid (tc_TenantID nxt) (tc_JobRunID nxt) '''' (''tool_call.'' @ tool_state_str (tc_State nxt)) ''runtime''
       (tc_AgentInstanceID nxt) (''tool-call:'' @ tc_ID nxt @ '':'' @ Itoa (tc_Version nxt))
       [(''tool_call_id'', AStr (tc_ID nxt)), (''state'', AStr (tool_state_str (tc_State nxt)))] (tc_UpdatedAt nxt)"

definition transitionToolCall :: "string \<Rightarrow> time \<Rightarrow> ToolCall \<Rightarrow> int \<Rightarrow> string \<Rightarrow> ToolCall svc" where
  "transitionToolCall eid now nxt expectedVersion fenceToken =
     bind_svc (query (Store_ToolCall (TrimSpace (tc_TenantID nxt)) (TrimSpace (tc_ID nxt)))) (\<lambda>current.
     guard_svc (\<not> (expectedVersion \<noteq> tc_Version current \<or> tc_Version nxt \<noteq> expectedVersion + 1))
       (Conflict ''TOOL_CALL_VERSION_CONFLICT'') (
     guard_svc (same_tool_scope nxt current) (Invalid ''TOOL_CALL_SCOPE_IMMUTABLE'') (
     bind_svc (query (authorizeToolCall current now)) (\<lambda>_.
     let event = tool_event eid nxt in
     if fenceToken \<noteq> '''' then exec (ApplyFencedToolCallTransitionCommand nxt expectedVersion fenceToken now event)
     else exec (ApplyToolCallTransitionCommand nxt expectedVersion event)))))"

definition TransitionToolCall :: "string \<Rightarrow> time \<Rightarrow> ToolCall \<Rightarrow> int \<Rightarrow> ToolCall svc" where
  "TransitionToolCall eid now nxt expectedVersion = transitionToolCall eid now nxt expectedVersion ''''"

definition TransitionFencedToolCall :: "string \<Rightarrow> time \<Rightarrow> ToolCall \<Rightarrow> int \<Rightarrow> string \<Rightarrow> ToolCall svc" where
  "TransitionFencedToolCall eid now nxt expectedVersion fenceToken =
     guard_svc (\<not> blank fenceToken) (Invalid ''MCP_GATEWAY_FENCE_REQUIRED'') (
     transitionToolCall eid now nxt expectedVersion (TrimSpace fenceToken))"

subsection \<open>External effects (service.go)\<close>

text \<open>The attempt of an effect that does not name one: the latest of the node that has not ended.\<close>

definition effect_attempt :: "RuntimeAttempt list \<Rightarrow> ExternalEffect \<Rightarrow> string" where
  "effect_attempt attempts effect =
     (if ee_AttemptID effect = '''' \<and> ee_NodeRunID effect \<noteq> '''' then
        (case find (\<lambda>a. ra_NodeRunID a = ee_NodeRunID effect \<and> \<not> attempt_terminal (ra_State a)) (rev attempts) of
           Some a \<Rightarrow> ra_ID a | None \<Rightarrow> ee_AttemptID effect)
      else ee_AttemptID effect)"

definition effect_defaults :: "string \<Rightarrow> time \<Rightarrow> RuntimeAttempt list \<Rightarrow> ExternalEffect \<Rightarrow> ExternalEffect" where
  "effect_defaults newID now attempts effect =
     (let created = (if IsZero (ee_CreatedAt effect) then now else ee_CreatedAt effect) in
      effect\<lparr>ee_ID := (if ee_ID effect = '''' then newID else ee_ID effect),
        ee_State := (if ee_State effect = EffectState '''' then EffectRegistered else ee_State effect),
        ee_Version := (if ee_Version effect < 1 then 1 else ee_Version effect),
        ee_AttemptID := effect_attempt attempts effect, ee_CreatedAt := created, ee_UpdatedAt := created\<rparr>)"

definition effect_event :: "string \<Rightarrow> ExternalEffect \<Rightarrow> JobEvent" where
  "effect_event eid effect =
     new_event eid (ee_TenantID effect) (ee_JobRunID effect) '''' ''effect.registered'' ''runtime'' '''' ''''
       [(''kind'', AStr (ee_Kind effect)), (''idempotency_key'', AStr (ee_IdempotencyKey effect))] (ee_CreatedAt effect)"

definition registerEffect :: "string \<Rightarrow> string \<Rightarrow> time \<Rightarrow> ExternalEffect \<Rightarrow> string \<Rightarrow> ExternalEffect svc" where
  "registerEffect newID eid now effect0 fenceToken =
     try_svc (query (EffectByIdempotencyKey (ee_TenantID effect0) (ee_IdempotencyKey effect0))) (\<lambda>r.
       case r of
         Inr existing \<Rightarrow> ret existing
       | Inl e \<Rightarrow>
           (if \<not> IsNotFound e then fail e
            else bind_svc (query (\<lambda>s. Inr (RuntimeAttempts (ee_TenantID effect0) (ee_JobRunID effect0) s))) (\<lambda>attempts.
              let effect = effect_defaults newID now attempts effect0; event = effect_event eid effect in
              if fenceToken \<noteq> '''' then exec (RegisterFencedEffectCommand effect fenceToken (ee_CreatedAt effect) event)
              else exec (RegisterEffectCommand effect event))))"

definition RegisterEffect :: "string \<Rightarrow> string \<Rightarrow> time \<Rightarrow> ExternalEffect \<Rightarrow> ExternalEffect svc" where
  "RegisterEffect newID eid now effect = registerEffect newID eid now effect ''''"

definition RegisterEffectForAttempt :: "string \<Rightarrow> string \<Rightarrow> time \<Rightarrow> ExternalEffect \<Rightarrow> string \<Rightarrow> ExternalEffect svc" where
  "RegisterEffectForAttempt newID eid now effect fenceToken =
     guard_svc (\<not> (blank (ee_AttemptID effect) \<or> blank fenceToken)) (Invalid ''MCP_GATEWAY_FENCE_REQUIRED'') (
     registerEffect newID eid now effect (TrimSpace fenceToken))"

definition ReconcileEffect ::
    "string \<Rightarrow> time \<Rightarrow> string \<Rightarrow> string \<Rightarrow> effect_state \<Rightarrow> string \<Rightarrow> string \<Rightarrow> string \<Rightarrow> int \<Rightarrow> ExternalEffect svc" where
  "ReconcileEffect eid now tenantID effectID nxt externalID responseDigest errCode expectedVersion =
     bind_svc (query (Store_Effect tenantID effectID)) (\<lambda>effect0.
     check_svc (ExternalEffect_Transition effect0 nxt) (
     let effect = effect0\<lparr>ee_State := nxt, ee_ExternalID := externalID, ee_ResponseDigest := responseDigest,
                    ee_ErrorCode := errCode, ee_Version := ee_Version effect0 + 1, ee_UpdatedAt := now\<rparr> in
     exec (ApplyEffectTransition effect expectedVersion
       (new_event eid tenantID (ee_JobRunID effect) '''' (''effect.'' @ effect_state_str nxt) ''reconciler'' '''' ''''
          [(''effect_id'', AStr (ee_ID effect)), (''state'', AStr (effect_state_str nxt))] (ee_UpdatedAt effect)))))"

definition BeginEffectReconciliation :: "string \<Rightarrow> time \<Rightarrow> string \<Rightarrow> string \<Rightarrow> int \<Rightarrow> ExternalEffect svc" where
  "BeginEffectReconciliation eid now tenantID effectID expectedVersion =
     ReconcileEffect eid now tenantID effectID EffectReconciling '''' '''' '''' expectedVersion"

subsection \<open>Who wrote a record\<close>

text \<open>
  The service authorises a write against the collection it finds under the trimmed identifiers (\<open>authority_of\<close>); the
  store writes to the collection under the identifiers as they are (\<open>collection_of\<close>). For identifiers without
  surrounding blanks the two agree.
\<close>

definition trimmed :: "StateRecord \<Rightarrow> bool" where
  "trimmed r = (TrimSpace (sr_TenantID r) = sr_TenantID r \<and> TrimSpace (sr_CollectionID r) = sr_CollectionID r)"

definition authority_of :: "Store \<Rightarrow> StateRecord \<Rightarrow> StateCollection option" where
  "authority_of s r = mget (runtimeStateCollections s)
     (stateCollectionKey (TrimSpace (sr_TenantID r)) (TrimSpace (sr_CollectionID r)))"

inductive state_write :: "(payload \<Rightarrow> int) \<Rightarrow> Store \<Rightarrow> Store \<Rightarrow> bool" for json_len where
  new: "Service_CreateStateCollection now c s = (s', Inr u) \<Longrightarrow> state_write json_len s s'"
| cas: "stateRecordCAS json_len eid now r x a f s = (s', Inr r') \<Longrightarrow> state_write json_len s s'"

definition writer_owned :: "Store \<Rightarrow> bool" where
  "writer_owned s = (\<forall>k r. mget (runtimeStateRecords s) k = Some r \<longrightarrow>
     collection_of s r \<noteq> None \<and> (\<exists>c. authority_of s r = Some c \<and> stateWriteAllowed c (sr_UpdatedBy r)))"

lemma Service_CreateStateCollection_ok:
  assumes "Service_CreateStateCollection now c0 s = (s', Inr u)"
  obtains c where "CreateStateCollection c s = Inr (s', u)"
  using assms unfolding Service_CreateStateCollection_def Let_def svc_Inr try_svc_def query_def fst_conv snd_conv
  by (auto simp: fail_def svc_Inr split: sum.splits)

lemma record_fields [simp]:
  "sr_TenantID (record_times now (record_actors r)) = sr_TenantID r"
  "sr_CollectionID (record_times now (record_actors r)) = sr_CollectionID r"
  "sr_UpdatedBy (record_times now q) = sr_UpdatedBy q"
  by (simp_all add: record_times_def record_actors_def Let_def)

lemma stateRecordCAS_ok:
  assumes "stateRecordCAS json_len eid now r0 x a f s = (s', Inr r')"
  obtains r s1 e c where "r = record_times now (record_actors r0)" "authority_of s r = Some c"
    "stateWriteAllowed c (sr_UpdatedBy r)" "sc_Consistency c = ''append_only'' \<longrightarrow> x = 0"
    "applyStateRecordLocked json_len s r x = Inr (s1, r')" "s' = appendRuntimeEventLocked s1 e"
proof -
  let ?r = "record_times now (record_actors r0)"
  obtain c where c: "Store_StateCollection (TrimSpace (sr_TenantID r0)) (TrimSpace (sr_CollectionID r0)) s = Inr c"
    and g: "stateWriteAllowed c (sr_UpdatedBy (record_actors r0))" "\<not> (sc_Consistency c = ''append_only'' \<and> x \<noteq> 0)"
    and run: "(if a \<noteq> '''' then exec (ApplyFencedStateRecordCommand json_len ?r x a f now (record_event eid c ?r x))
               else exec (ApplyStateRecordCommand json_len ?r x (record_event eid c ?r x))) s = (s', Inr r')"
    using assms unfolding stateRecordCAS_def Let_def bind_svc_Inr query_Inr guard_svc_Inr
    by (elim exE conjE) (hypsubst, rule that; assumption)
  have "authority_of s ?r = Some c"
    using c by (simp add: Store_StateCollection_def authority_of_def)
  moreover obtain s1 where "applyStateRecordLocked json_len s ?r x = Inr (s1, r')"
    "s' = appendRuntimeEventLocked s1 (record_event eid c ?r x)"
  proof (cases "a = ''''")
    case True
    then have "ApplyStateRecordCommand json_len ?r x (record_event eid c ?r x) s = Inr (s', r')" using run by (simp add: exec_Inr)
    then show ?thesis by (rule ApplyStateRecordCommand_ok) (rule that)
  next
    case False
    then have "ApplyFencedStateRecordCommand json_len ?r x a f now (record_event eid c ?r x) s = Inr (s', r')"
      using run by (simp add: exec_Inr)
    then show ?thesis by (rule ApplyFencedStateRecordCommand_ok) (rule that)
  qed
  ultimately show ?thesis using g by (intro that) (simp_all add: record_times_def Let_def)
qed

lemma allowed_after_write [simp]:
  "stateWriteAllowed (c\<lparr>sc_Revision := a, sc_Watermark := b, sc_UpdatedAt := t\<rparr>) = stateWriteAllowed c"
  by (simp add: stateWriteAllowed_def exclusive_def is_writer_def fun_eq_iff)

lemma writer_owned_step:
  assumes "state_write json_len s s'" and own: "writer_owned s"
  shows "writer_owned s'"
  using assms(1)
proof cases
  case (new now c0 u)
  from new obtain c where "CreateStateCollection c s = Inr (s', u)" by (rule Service_CreateStateCollection_ok)
  then have fresh: "mget (runtimeStateCollections s) (collection_key c) = None"
    and s': "s' = s\<lparr>runtimeStateCollections := mput (collection_key c) c (runtimeStateCollections s)\<rparr>"
    unfolding CreateStateCollection_def by simp_all
  show ?thesis
    using own fresh unfolding writer_owned_def s' collection_of_def authority_of_def by (fastforce simp: mget_mput)
next
  case (cas eid now r0 x a f r')
  from cas obtain r s1 e c where r: "authority_of s r = Some c" "stateWriteAllowed c (sr_UpdatedBy r)"
    "applyStateRecordLocked json_len s r x = Inr (s1, r')" and s': "s' = appendRuntimeEventLocked s1 e"
    by (rule stateRecordCAS_ok)
  from r(3) obtain d where d: "collection_of s r = Some d" and r': "r' = r\<lparr>sr_Version := x + 1\<rparr>"
    and rec: "runtimeStateRecords s' = mput (record_key r) r' (runtimeStateRecords s)"
    and col: "runtimeStateCollections s' = mput (stateCollectionKey (sr_TenantID r) (sr_CollectionID r))
      (d\<lparr>sc_Revision := sc_Revision d + 1, sc_Watermark := sc_Watermark d + 1, sc_UpdatedAt := sr_UpdatedAt r\<rparr>)
      (runtimeStateCollections s)"
    unfolding s' collection_of_def by (rule applyStateRecordLocked_ok) simp
  have kept: "\<exists>c'. mget (runtimeStateCollections s') k = Some c' \<and> stateWriteAllowed c' = stateWriteAllowed c"
    if "mget (runtimeStateCollections s) k = Some c" for k c
    using that d unfolding col collection_of_def by (auto simp: mget_mput)
  show ?thesis unfolding writer_owned_def
  proof (intro allI impI)
    fix k q assume q: "mget (runtimeStateRecords s') k = Some q"
    have "collection_of s q \<noteq> None \<and> (\<exists>c. authority_of s q = Some c \<and> stateWriteAllowed c (sr_UpdatedBy q))"
    proof (cases "k = record_key r")
      case True
      then have "q = r'" using q by (simp add: rec)
      then show ?thesis using r(1,2) d by (simp add: r' collection_of_def authority_of_def)
    next
      case False
      then have "mget (runtimeStateRecords s) k = Some q" using q by (simp add: rec)
      then show ?thesis using own unfolding writer_owned_def by fastforce
    qed
    then show "collection_of s' q \<noteq> None \<and> (\<exists>c. authority_of s' q = Some c \<and> stateWriteAllowed c (sr_UpdatedBy q))"
      unfolding collection_of_def authority_of_def using kept by fastforce
  qed
qed

lemma stateWriteAllowed_ok:
  assumes "stateWriteAllowed c actor"
  shows "TrimSpace actor \<noteq> ''''" "exclusive c \<Longrightarrow> is_writer c (TrimSpace actor)"
    "\<not> exclusive c \<or> sc_WritePolicy c \<noteq> [] \<Longrightarrow> TrimSpace actor \<in> TrimSpace ` set (sc_WritePolicy c)"
proof -
  let ?policy = "\<exists>allowed \<in> set (sc_WritePolicy c). TrimSpace allowed = TrimSpace actor"
  have a: "TrimSpace actor \<noteq> ''''" "exclusive c \<longrightarrow> is_writer c (TrimSpace actor)"
    "\<not> (exclusive c \<and> sc_WritePolicy c = []) \<longrightarrow> ?policy"
    using assms unfolding stateWriteAllowed_def Let_def list_ex_iff by (simp_all split: if_splits)
  from a(1,2) show "TrimSpace actor \<noteq> ''''" "exclusive c \<Longrightarrow> is_writer c (TrimSpace actor)" by simp_all
  assume "\<not> exclusive c \<or> sc_WritePolicy c \<noteq> []"
  then have ?policy using a(3) by blast
  then show "TrimSpace actor \<in> TrimSpace ` set (sc_WritePolicy c)" by (elim bexE) (rule image_eqI, erule sym)
qed

lemma authorizeToolCall_ok:
  assumes "authorizeToolCall call now s = Inr u"
  obtains attempt agent view where
    "mget (runtimeAttempts s) (runtimePlanKey (tc_TenantID call) (tc_AttemptID call)) = Some attempt"
    "ra_State attempt \<in> {RuntimeAttemptPrepared, RuntimeAttemptRunning}"
    "ra_NodeRunID attempt = tc_NodeRunID call" "ra_AgentInstanceID attempt = tc_AgentInstanceID call"
    "mget (runtimeAgents s) (runtimePlanKey (tc_TenantID call) (tc_AgentInstanceID call)) = Some agent"
    "ai_State agent \<in> {AgentRunnable, AgentActive}" "ai_ContextViewID agent = cv_ID view"
    "mget (runtimeContextViews s) (runtimePlanKey (tc_TenantID call) (ra_ContextViewID attempt)) = Some view"
    "cv_AttemptID view = tc_AttemptID call" "cv_ExpiresAt view > now"
    "AllowsTool view (tc_ToolName call)"
proof -
  obtain job node attempt agent view where
    q: "Store_RuntimeAttempt (tc_TenantID call) (tc_AttemptID call) s = Inr attempt"
      "Store_AgentInstance (tc_TenantID call) (tc_AgentInstanceID call) s = Inr agent"
      "Store_ContextView (tc_TenantID call) (ra_ContextViewID attempt) s = Inr view"
    and g: "tool_scope_ok call job node attempt agent view"
      "\<not> (ra_State attempt \<noteq> RuntimeAttemptPrepared \<and> ra_State attempt \<noteq> RuntimeAttemptRunning)"
      "\<not> (ai_State agent \<noteq> AgentRunnable \<and> ai_State agent \<noteq> AgentActive)"
      "cv_ExpiresAt view > now" "AllowsTool view (tc_ToolName call)"
    using assms unfolding authorizeToolCall_def bind_res_Inr require_Inr by (elim exE conjE) (rule that; assumption)
  show ?thesis
    using q g unfolding Store_RuntimeAttempt_def Store_AgentInstance_def Store_ContextView_def tool_scope_ok_def lookup_or_Inr
    by (intro that [of attempt agent view]) simp_all
qed

lemma transition_commands:
  assumes "(if f \<noteq> '''' then exec (ApplyFencedToolCallTransitionCommand nxt x f now e)
            else exec (ApplyToolCallTransitionCommand nxt x e)) s = (s', Inr v)"
  shows "mget (runtimeToolCalls s') (tool_key nxt) = Some nxt"
    "\<exists>c. mget (runtimeToolCalls s) (tool_key nxt) = Some c \<and> \<not> tool_terminal (tc_State c) \<and> tc_Version c = x"
    "f \<noteq> '''' \<Longrightarrow> validateAttemptFenceLocked s (tc_TenantID nxt) (tc_AttemptID nxt) f now = None"
  using assms by (auto simp: exec_Inr ApplyFencedToolCallTransitionCommand_def ApplyToolCallTransitionCommand_def put_tool_def
    split: if_splits)

subsection \<open>Properties\<close>

text \<open>
  C27. Shared state is written by its owners only. Along any run of the service's collection and record writes,
  plain or bound to an attempt, every stored record belongs to a stored collection, and the actor who wrote its
  current value is one allowed by the collection of its trimmed identifiers: the declared writer node of a private,
  single-writer or reducer-owned collection, a member of the write policy of any other (and of an exclusive one that
  has a policy). When the identifiers of the record carry no surrounding white space, this is its own collection;
  otherwise it need not be (\<open>untrimmed_write_bypasses\<close>).
\<close>

theorem state_written_by_owner:
  assumes "(state_write json_len)\<^sup>*\<^sup>* s s'" and "writer_owned s" and "mget (runtimeStateRecords s') k = Some r"
  shows "\<exists>own c. collection_of s' r = Some own \<and> authority_of s' r = Some c \<and> (trimmed r \<longrightarrow> own = c)
    \<and> TrimSpace (sr_UpdatedBy r) \<noteq> ''''
    \<and> (exclusive c \<longrightarrow> is_writer c (TrimSpace (sr_UpdatedBy r)))
    \<and> (\<not> exclusive c \<or> sc_WritePolicy c \<noteq> [] \<longrightarrow> TrimSpace (sr_UpdatedBy r) \<in> TrimSpace ` set (sc_WritePolicy c))"
proof -
  have "writer_owned s'"
    using assms(1,2) by (induction rule: rtranclp_induct) (auto intro: writer_owned_step)
  then obtain own c where o: "collection_of s' r = Some own" and c: "authority_of s' r = Some c"
    "stateWriteAllowed c (sr_UpdatedBy r)"
    using assms(3) unfolding writer_owned_def by blast
  moreover have "trimmed r \<longrightarrow> own = c" using o c(1) by (auto simp: collection_of_def authority_of_def trimmed_def)
  ultimately show ?thesis using stateWriteAllowed_ok [of c "sr_UpdatedBy r"] by blast
qed

definition ex_owned :: Store where
  "ex_owned = run_cmd (CreateStateCollection (ex_collection ''single_writer'' 5\<lparr>sc_WriterNodeKey := ''a''\<rparr>)) ex_store"

definition ex_write :: "string \<Rightarrow> StateRecord svc" where
  "ex_write actor = stateRecordCAS ex_json_len ''e1'' 20 (ex_record ''k'' ''d''\<lparr>sr_UpdatedBy := actor\<rparr>) 0 '''' ''''"

theorem state_written_by_owner_witness:
  "\<exists>s' v r. ex_write ''node:a'' ex_owned = (s', Inr v) \<and> mget (runtimeStateRecords s') ''t:c:k'' = Some r
     \<and> TrimSpace (sr_UpdatedBy r) \<noteq> '''' \<and> isl (snd (ex_write ''b'' ex_owned))"
proof -
  let ?s' = "fst (ex_write ''node:a'' ex_owned)"
  have "\<not> isl (snd (ex_write ''node:a'' ex_owned))" by code_simp
  from svc_ok [OF this] obtain v where v: "ex_write ''node:a'' ex_owned = (?s', Inr v)" by blast
  have "mget (runtimeStateRecords ?s') ''t:c:k'' \<noteq> None" by code_simp
  then obtain r where r: "mget (runtimeStateRecords ?s') ''t:c:k'' = Some r" by blast
  from state_write.cas [OF v [unfolded ex_write_def]]
  have run: "(state_write ex_json_len)\<^sup>*\<^sup>* ex_owned ?s'" unfolding ex_write_def by (rule r_into_rtranclp)
  have "runtimeStateRecords ex_owned = []" by code_simp
  then have own: "writer_owned ex_owned" by (simp add: writer_owned_def)
  from state_written_by_owner [OF run own r] have "TrimSpace (sr_UpdatedBy r) \<noteq> ''''" by blast
  moreover have "isl (snd (ex_write ''b'' ex_owned))" by code_simp
  ultimately show ?thesis using v r by blast
qed

text \<open>
  Two collections whose identifiers differ in a leading blank: actor \<open>b\<close> may write the first and not the second, and
  writes the second by naming it with its blank.
\<close>

definition ex_two :: Store where
  "ex_two = ex_store\<lparr>runtimeStateCollections :=
     [(''t:c'', ex_collection ''cas_map'' 5\<lparr>sc_WritePolicy := [''b'']\<rparr>),
      (''t: c'', ex_collection ''single_writer'' 5\<lparr>sc_ID := '' c'', sc_CollectionKey := ''k2'', sc_WriterNodeKey := ''a''\<rparr>)]\<rparr>"

theorem untrimmed_write_bypasses:
  "\<exists>s' r own. stateRecordCAS ex_json_len ''e1'' 20
         (ex_record ''k'' ''d''\<lparr>sr_CollectionID := '' c'', sr_UpdatedBy := ''b''\<rparr>) 0 '''' '''' ex_two = (s', Inr r)
     \<and> collection_of s' r = Some own \<and> sr_UpdatedBy r = ''b'' \<and> \<not> stateWriteAllowed own ''b''"
proof -
  have "case stateRecordCAS ex_json_len ''e1'' 20
         (ex_record ''k'' ''d''\<lparr>sr_CollectionID := '' c'', sr_UpdatedBy := ''b''\<rparr>) 0 '''' '''' ex_two of
       (s', Inl _) \<Rightarrow> False
     | (s', Inr r) \<Rightarrow> (case collection_of s' r of None \<Rightarrow> False
         | Some own \<Rightarrow> sr_UpdatedBy r = ''b'' \<and> \<not> stateWriteAllowed own ''b'')" by code_simp
  then show ?thesis by (auto split: prod.splits sum.splits option.splits)
qed

text \<open>
  A tool call only moves on while its caller is still entitled to it. A successful transition of the service,
  fenced or not, finds the call unfinished at the expected version, keeps its tenant, job, node, attempt, agent,
  tool, schema and request digest, and happens while the attempt of the stored call is prepared or running, its
  agent is runnable or active, and the agent's context view, frozen for that attempt, has not expired and lists
  the tool; a fenced one also needs the attempt's current fence.
\<close>

theorem tool_transition_authorized:
  assumes "transitionToolCall eid now nxt x f s = (s', Inr v)"
    and "TrimSpace (tc_TenantID nxt) = tc_TenantID nxt" and "TrimSpace (tc_ID nxt) = tc_ID nxt"
  shows "(\<exists>c attempt agent view. mget (runtimeToolCalls s) (tool_key nxt) = Some c
    \<and> mget (runtimeToolCalls s') (tool_key nxt) = Some nxt \<and> same_tool_scope nxt c
    \<and> \<not> tool_terminal (tc_State c) \<and> tc_Version c = x \<and> tc_Version nxt = x + 1
    \<and> mget (runtimeAttempts s) (runtimePlanKey (tc_TenantID c) (tc_AttemptID c)) = Some attempt
    \<and> ra_State attempt \<in> {RuntimeAttemptPrepared, RuntimeAttemptRunning}
    \<and> mget (runtimeAgents s) (runtimePlanKey (tc_TenantID c) (tc_AgentInstanceID c)) = Some agent
    \<and> ai_State agent \<in> {AgentRunnable, AgentActive} \<and> ai_ContextViewID agent = cv_ID view
    \<and> mget (runtimeContextViews s) (runtimePlanKey (tc_TenantID c) (ra_ContextViewID attempt)) = Some view
    \<and> cv_AttemptID view = tc_AttemptID c \<and> cv_ExpiresAt view > now \<and> AllowsTool view (tc_ToolName nxt))
    \<and> (f \<noteq> '''' \<longrightarrow> validateAttemptFenceLocked s (tc_TenantID nxt) (tc_AttemptID nxt) f now = None)"
proof -
  obtain c u where c: "Store_ToolCall (TrimSpace (tc_TenantID nxt)) (TrimSpace (tc_ID nxt)) s = Inr c"
    and ver: "\<not> (x \<noteq> tc_Version c \<or> tc_Version nxt \<noteq> x + 1)" and same: "same_tool_scope nxt c"
    and auth: "authorizeToolCall c now s = Inr u"
    and run: "(if f \<noteq> '''' then exec (ApplyFencedToolCallTransitionCommand nxt x f now (tool_event eid nxt))
               else exec (ApplyToolCallTransitionCommand nxt x (tool_event eid nxt))) s = (s', Inr v)"
    using assms(1) unfolding transitionToolCall_def Let_def bind_svc_Inr query_Inr guard_svc_Inr
    by (elim exE conjE) (hypsubst, rule that; assumption)
  have row: "mget (runtimeToolCalls s) (tool_key nxt) = Some c"
    using c by (simp add: Store_ToolCall_def assms(2,3) tool_key_def)
  note t = transition_commands [OF run]
  have live: "\<not> tool_terminal (tc_State c)" using t(2) row by auto
  have tool: "tc_ToolName nxt = tc_ToolName c" using same by (simp add: same_tool_scope_def)
  from auth show ?thesis
  proof (rule authorizeToolCall_ok)
    fix attempt agent view
    assume "mget (runtimeAttempts s) (runtimePlanKey (tc_TenantID c) (tc_AttemptID c)) = Some attempt"
      "ra_State attempt \<in> {RuntimeAttemptPrepared, RuntimeAttemptRunning}"
      "mget (runtimeAgents s) (runtimePlanKey (tc_TenantID c) (tc_AgentInstanceID c)) = Some agent"
      "ai_State agent \<in> {AgentRunnable, AgentActive}" "ai_ContextViewID agent = cv_ID view"
      "mget (runtimeContextViews s) (runtimePlanKey (tc_TenantID c) (ra_ContextViewID attempt)) = Some view"
      "cv_AttemptID view = tc_AttemptID c" "cv_ExpiresAt view > now" "AllowsTool view (tc_ToolName c)"
    then show ?thesis using row t(1,3) same live ver tool
      by (intro conjI exI [of _ c] exI [of _ attempt] exI [of _ agent] exI [of _ view]) simp_all
  qed
qed

definition ex_called :: Store where
  "ex_called = run_cmd (ex_register ''c'' ''read'') ex_running"

definition ex_transition :: "string \<Rightarrow> string \<Rightarrow> time \<Rightarrow> ToolCall svc" where
  "ex_transition tool fence now = transitionToolCall ''e9'' now (ex_call ''c'' tool ToolCallRunning 2) 1 fence"

theorem tool_transition_authorized_witness:
  "\<exists>s' v. ex_transition ''read'' ''f'' 20 ex_called = (s', Inr v)
     \<and> mget (runtimeToolCalls s') ''t:c'' = Some (ex_call ''c'' ''read'' ToolCallRunning 2)
     \<and> isl (snd (ex_transition ''write'' ''f'' 20 ex_called)) \<and> isl (snd (ex_transition ''read'' ''g'' 20 ex_called))"
proof -
  let ?p = "ex_transition ''read'' ''f'' 20 ex_called"
  have "\<not> isl (snd ?p)" by code_simp
  from svc_ok [OF this] obtain v where v: "?p = (fst ?p, Inr v)" by blast
  have h: "TrimSpace (tc_TenantID (ex_call ''c'' ''read'' ToolCallRunning 2)) = tc_TenantID (ex_call ''c'' ''read'' ToolCallRunning 2)"
    "TrimSpace (tc_ID (ex_call ''c'' ''read'' ToolCallRunning 2)) = tc_ID (ex_call ''c'' ''read'' ToolCallRunning 2)"
    and k: "tool_key (ex_call ''c'' ''read'' ToolCallRunning 2) = ''t:c''" by code_simp+
  from tool_transition_authorized [OF v [unfolded ex_transition_def] h]
  have "mget (runtimeToolCalls (fst ?p)) ''t:c'' = Some (ex_call ''c'' ''read'' ToolCallRunning 2)"
    unfolding k ex_transition_def by blast
  moreover have "isl (snd (ex_transition ''write'' ''f'' 20 ex_called))" "isl (snd (ex_transition ''read'' ''g'' 20 ex_called))"
    by code_simp+
  ultimately show ?thesis using v by blast
qed

text \<open>
  The service registers an effect for an attempt without ever comparing it with the one it already has. When
  the tenant has an effect with the idempotency key, the service answers with that effect, whatever attempt and
  fence token the caller presents and whatever it asks for; the store's command refuses the same call when the
  fence is stale, and when attempt or request digest differ.
\<close>

theorem register_effect_unchecked:
  assumes "EffectByIdempotencyKey (ee_TenantID e) (ee_IdempotencyKey e) s = Inr x"
    and "\<not> blank (ee_AttemptID e)" and "\<not> blank f"
  shows "RegisterEffectForAttempt newID eid now e f s = (s, Inr x)
    \<and> (validateAttemptFenceLocked s (ee_TenantID e) (ee_AttemptID e) f now \<noteq> None \<or> ee_AttemptID x \<noteq> ee_AttemptID e
         \<or> ee_RequestDigest x \<noteq> ee_RequestDigest e \<longrightarrow> isl (RegisterFencedEffectCommand e f now ev s))"
proof -
  from assms(1) have find: "find (\<lambda>y. ee_TenantID y = ee_TenantID e \<and> ee_IdempotencyKey y = ee_IdempotencyKey e)
      (mvals (runtimeEffects s)) = Some x"
    by (simp add: EffectByIdempotencyKey_def lookup_or_Inr)
  have "isl (RegisterFencedEffectCommand e f now ev s)"
    if "validateAttemptFenceLocked s (ee_TenantID e) (ee_AttemptID e) f now \<noteq> None \<or> ee_AttemptID x \<noteq> ee_AttemptID e
         \<or> ee_RequestDigest x \<noteq> ee_RequestDigest e"
    using that unfolding RegisterFencedEffectCommand_def find
    by (cases "validateAttemptFenceLocked s (ee_TenantID e) (ee_AttemptID e) f now")
      (auto simp: require_def check_nil_def)
  moreover have "RegisterEffectForAttempt newID eid now e f s = (s, Inr x)"
    using assms by (simp add: RegisterEffectForAttempt_def registerEffect_def try_svc_def svc_simps)
  ultimately show ?thesis by blast
qed

definition ex_effected :: Store where
  "ex_effected = run_cmd (RegisterEffectCommand (ex_effect ''x1'' ''k'') (ex_event ''e1'' ''effect.registered'')) ex_store"

theorem register_effect_unchecked_witness:
  "RegisterEffectForAttempt ''x2'' ''e2'' 20 (ex_effect '''' ''k''\<lparr>ee_AttemptID := ''other'', ee_RequestDigest := ''another''\<rparr>)
     ''stale'' ex_effected = (ex_effected, Inr (ex_effect ''x1'' ''k''))"
proof -
  let ?e = "ex_effect '''' ''k''\<lparr>ee_AttemptID := ''other'', ee_RequestDigest := ''another''\<rparr>"
  have "EffectByIdempotencyKey (ee_TenantID ?e) (ee_IdempotencyKey ?e) ex_effected = Inr (ex_effect ''x1'' ''k'')"
    "\<not> blank (ee_AttemptID ?e)" "\<not> blank ''stale''" by code_simp+
  from register_effect_unchecked [OF this] show ?thesis by blast
qed

text \<open>
  Starting a reconciliation forgets the provider's identity of the effect. The service moves an unknown effect
  to \<open>reconciling\<close> with an empty external identifier, response digest and error code, so the stored row no longer
  answers to the identifier the provider will use: whatever effect a later lookup by a non-empty external
  identifier finds, it is not this one.
\<close>

theorem reconciliation_forgets_provider:
  assumes "BeginEffectReconciliation eid now t i x s = (s', Inr v)" and "keyed effect_key (runtimeEffects s)"
  shows "\<exists>e. mget (runtimeEffects s) (runtimeEffectKey t i) = Some e \<and> ee_State e = EffectUnknown
    \<and> mget (runtimeEffects s') (runtimeEffectKey t i) = Some (e\<lparr>ee_State := EffectReconciling, ee_ExternalID := '''',
         ee_ResponseDigest := '''', ee_ErrorCode := '''', ee_Version := x + 1, ee_UpdatedAt := now\<rparr>)
    \<and> (\<forall>p ext y. ext \<noteq> '''' \<and> EffectByExternalID t p ext s' = Inr y \<longrightarrow> effect_key y \<noteq> effect_key e)"
proof -
  obtain e where q: "Store_Effect t i s = Inr e" and tr: "ExternalEffect_Transition e EffectReconciling = None"
    and run: "ApplyEffectTransition (e\<lparr>ee_State := EffectReconciling, ee_ExternalID := '''', ee_ResponseDigest := '''',
        ee_ErrorCode := '''', ee_Version := ee_Version e + 1, ee_UpdatedAt := now\<rparr>) x
        (new_event eid t (ee_JobRunID e) '''' (''effect.'' @ effect_state_str EffectReconciling) ''reconciler'' '''' ''''
          [(''effect_id'', AStr (ee_ID e)), (''state'', AStr (effect_state_str EffectReconciling))] now) s = Inr (s', v)"
    using assms(1) unfolding BeginEffectReconciliation_def ReconcileEffect_def Let_def svc_Inr by auto
  let ?n = "e\<lparr>ee_State := EffectReconciling, ee_ExternalID := '''', ee_ResponseDigest := '''',
        ee_ErrorCode := '''', ee_Version := x + 1, ee_UpdatedAt := now\<rparr>"
  have row: "mget (runtimeEffects s) (runtimeEffectKey t i) = Some e" using q by (simp add: Store_Effect_def)
  with assms(2) have key: "runtimeEffectKey t i = effect_key e" by (rule keyed_key)
  have st: "ee_State e = EffectUnknown"
    using tr by (cases "ee_State e") (simp_all add: ExternalEffect_Transition_def effect_transition_def)
  have eff: "runtimeEffects s' = mput (effect_key e) ?n (runtimeEffects s)" and ver: "ee_Version e = x"
    using run row key unfolding ApplyEffectTransition_def Let_def by (auto simp: effect_key_def)
  show ?thesis
  proof (intro exI [of _ e] conjI allI impI row st)
    show "mget (runtimeEffects s') (runtimeEffectKey t i) = Some ?n" by (simp add: eff key)
    fix p ext y assume y: "ext \<noteq> '''' \<and> EffectByExternalID t p ext s' = Inr y"
    then have y: "y \<in> set (mvals (runtimeEffects s'))" and ext: "ee_ExternalID y \<noteq> ''''"
      by (auto simp: EffectByExternalID_def find_Some_iff)
    have "keyed effect_key (runtimeEffects s')" unfolding eff by (rule keyed_mput [OF assms(2)]) (simp add: effect_key_def)
    from keyed_vals [OF this, of y] y ext show "effect_key y \<noteq> effect_key e" by (auto simp: eff)
  qed
qed

definition ex_unknown :: Store where
  "ex_unknown = ex_store\<lparr>runtimeEffects :=
     [(''t:x1'', ex_effect ''x1'' ''k''\<lparr>ee_State := EffectUnknown, ee_ExternalID := ''ext'', ee_Version := 3\<rparr>)]\<rparr>"

theorem reconciliation_forgets_provider_witness:
  "\<exists>s' v e. EffectByExternalID ''t'' '''' ''ext'' ex_unknown = Inr e \<and> ee_ID e = ''x1''
     \<and> BeginEffectReconciliation ''e2'' 20 ''t'' ''x1'' 3 ex_unknown = (s', Inr v)
     \<and> \<not> (\<exists>y. EffectByExternalID ''t'' '''' ''ext'' s' = Inr y \<and> effect_key y = effect_key e)"
proof -
  let ?p = "BeginEffectReconciliation ''e2'' 20 ''t'' ''x1'' 3 ex_unknown"
  let ?e = "ex_effect ''x1'' ''k''\<lparr>ee_State := EffectUnknown, ee_ExternalID := ''ext'', ee_Version := 3\<rparr>"
  have "\<not> isl (snd ?p)" by code_simp
  from svc_ok [OF this] obtain v where v: "?p = (fst ?p, Inr v)" by blast
  have k: "keyed effect_key (runtimeEffects ex_unknown)"
    unfolding ex_unknown_def by (simp add: keyed_def wf_Cons effect_key_def ex_effect_def runtimePlanKey_def)
  have row: "mget (runtimeEffects ex_unknown) (runtimeEffectKey ''t'' ''x1'') = Some ?e"
    and found: "EffectByExternalID ''t'' '''' ''ext'' ex_unknown = Inr ?e" "ee_ID ?e = ''x1''" by code_simp+
  from reconciliation_forgets_provider [OF v k] row
  have "\<forall>y. EffectByExternalID ''t'' '''' ''ext'' (fst ?p) = Inr y \<longrightarrow> effect_key y \<noteq> effect_key ?e"
    by fastforce
  with v found show ?thesis by blast
qed

end
