(* ===== verification/Mcp_Gateway.thy ===== *)
theory Mcp_Gateway
  imports Dispatch_Service State_Service
begin

section \<open>The MCP tool gateway\<close>

text \<open>
  \<^verbatim>\<open>internal/runtime/mcp_gateway.go\<close>: the only way in which an agent touches the runtime. A request names an
  attempt and its fence (or presents a gateway token, from which both are looked up), is authorised against the
  attempt, its node, agent and context view, is entered into the ledger of tool calls under its idempotency key,
  claimed by moving the call from authorized to running, executed, and closed with its result.

  Other requests may act between the store operations of one request: \<open>ge_others\<close> gives, for each such point, what
  they do; \<open>ge_now\<close> and \<open>ge_id\<close> give the successive readings of the clock and the fresh identifiers. \<open>ge_len\<close> is the
  length of the JSON of a map, \<open>ge_clone\<close> a map marshalled and unmarshalled again, \<open>ge_hash\<close> the canonical hash and
  \<open>ge_sha256\<close> the hexadecimal digest of a string. Numbers among the arguments are integers here; the response that
  accompanies an error is not represented. The checks for a missing service or repository are left out.
\<close>

record GatewayRequest =
  gr_TenantID :: string
  gr_AttemptID :: string
  gr_FenceToken :: string
  gr_ToolName :: string
  gr_RequestID :: string
  gr_Arguments :: payload

record GatewayTokenRequest =
  gt_ToolName :: string
  gt_RequestID :: string
  gt_Arguments :: payload

record GatewayResponse =
  gx_ToolCall :: ToolCall
  gx_Result :: payload
  gx_Replayed :: bool

record gatewayContext =
  gc_attempt :: RuntimeAttempt
  gc_node :: NodeRun
  gc_agent :: AgentInstance
  gc_view :: ContextView

record gateway_env =
  ge_hash :: "goany \<Rightarrow> string"
  ge_sha256 :: "string \<Rightarrow> string"
  ge_len :: "payload \<Rightarrow> int"
  ge_clone :: "payload \<Rightarrow> payload"
  ge_now :: "nat \<Rightarrow> time"
  ge_id :: "nat \<Rightarrow> string"
  ge_others :: "nat \<Rightarrow> Store \<Rightarrow> Store"

definition maxGatewayArgs :: int where
  "maxGatewayArgs = 65536"

definition maxGatewayResult :: int where
  "maxGatewayResult = 262144"

definition interfere :: "gateway_env \<Rightarrow> nat \<Rightarrow> unit svc" where
  "interfere env k s = (ge_others env k s, Inr ())"

subsection \<open>Arguments\<close>

definition stringArgument :: "payload \<Rightarrow> string \<Rightarrow> string" where
  "stringArgument arguments key = (case mget arguments key of Some (AStr v) \<Rightarrow> TrimSpace v | _ \<Rightarrow> '''')"

definition intArgument :: "payload \<Rightarrow> string \<Rightarrow> int \<Rightarrow> int" where
  "intArgument arguments key fallback = (case mget arguments key of Some (AInt n) \<Rightarrow> n | _ \<Rightarrow> fallback)"

definition objectArgument :: "payload \<Rightarrow> string \<Rightarrow> payload option" where
  "objectArgument arguments key = (case mget arguments key of Some (AObj v) \<Rightarrow> Some v | _ \<Rightarrow> None)"

definition gatewayToolSchema :: "string \<Rightarrow> string" where
  "gatewayToolSchema toolName =
     (if toolName = ''state.get'' then ''contentcloud.tool/state.get/1''
      else if toolName = ''state.query'' then ''contentcloud.tool/state.query/1''
      else if toolName = ''state.mutate'' then ''contentcloud.tool/state.mutate/1''
      else if toolName = ''child.list'' then ''contentcloud.tool/child.list/1''
      else if toolName = ''effect.prepare'' then ''contentcloud.tool/effect.prepare/1''
      else if toolName = ''effect.status'' then ''contentcloud.tool/effect.status/1'' else '''')"

definition gatewaySafeRequest :: "(goany \<Rightarrow> string) \<Rightarrow> payload \<Rightarrow> string \<Rightarrow> payload" where
  "gatewaySafeRequest hash arguments idempotencyKey =
     (let copied = fold (\<lambda>key m. case mget arguments key of None \<Rightarrow> m | Some v \<Rightarrow> mput key v m)
            [''collection'', ''key'', ''after_key'', ''expected_version'', ''kind'', ''request_digest'', ''currency'', ''cost_minor'']
            [(''idempotency_key'', AStr idempotencyKey)]
      in case mget arguments ''value'' of None \<Rightarrow> copied | Some v \<Rightarrow> mput ''value_digest'' (AStr (''sha256:'' @ hash v)) copied)"

definition gatewayIdempotencyKey :: "GatewayRequest \<Rightarrow> string res" where
  "gatewayIdempotencyKey request =
     (let key0 = stringArgument (gr_Arguments request) ''idempotency_key'';
          key = (if key0 = '''' then gr_RequestID request else key0) in
      require (key \<noteq> '''') (Invalid ''MCP_GATEWAY_IDEMPOTENCY_REQUIRED'') (
      require (\<not> length key > 200) (Invalid ''MCP_GATEWAY_IDEMPOTENCY_INVALID'') (Inr key)))"

definition gatewayTerminalReplay :: "gateway_env \<Rightarrow> ToolCall \<Rightarrow> GatewayResponse res" where
  "gatewayTerminalReplay env call =
     (let code = (\<lambda>fallback. if blank (tc_ErrorCode call) then fallback else TrimSpace (tc_ErrorCode call)) in
      case tc_State call of
        ToolCallSucceeded \<Rightarrow> Inr \<lparr>gx_ToolCall = call, gx_Result = ge_clone env (tc_SafeResult call), gx_Replayed = True\<rparr>
      | ToolCallFailed \<Rightarrow> Inl (Conflict (code ''MCP_GATEWAY_TOOL_CALL_FAILED''))
      | ToolCallUnknown \<Rightarrow> Inl (Conflict (code ''MCP_GATEWAY_RESULT_UNKNOWN''))
      | _ \<Rightarrow> Inl (Conflict ''MCP_GATEWAY_TOOL_CALL_STATE_INVALID''))"

subsection \<open>Authorisation\<close>

definition gateway_scope_ok :: "GatewayRequest \<Rightarrow> RuntimeAttempt \<Rightarrow> NodeRun \<Rightarrow> AgentInstance \<Rightarrow> ContextView \<Rightarrow> bool" where
  "gateway_scope_ok request attempt node agent view =
     (\<not> (ra_TenantID attempt \<noteq> gr_TenantID request \<or> nr_TenantID node \<noteq> gr_TenantID request
         \<or> nr_JobRunID node \<noteq> ra_JobRunID attempt \<or> ai_TenantID agent \<noteq> gr_TenantID request
         \<or> ai_JobRunID agent \<noteq> ra_JobRunID attempt \<or> ai_NodeRunID agent \<noteq> nr_ID node \<or> ai_ContextViewID agent \<noteq> cv_ID view
         \<or> cv_TenantID view \<noteq> gr_TenantID request \<or> cv_JobRunID view \<noteq> ra_JobRunID attempt \<or> cv_NodeRunID view \<noteq> nr_ID node
         \<or> cv_AttemptID view \<noteq> ra_ID attempt))"

definition gateway_authorize :: "time \<Rightarrow> GatewayRequest \<Rightarrow> Store \<Rightarrow> gatewayContext res" where
  "gateway_authorize now request s =
     bind_res (Store_RuntimeAttempt (gr_TenantID request) (gr_AttemptID request) s) (\<lambda>attempt.
     bind_res (Store_NodeRun (gr_TenantID request) (ra_NodeRunID attempt) s) (\<lambda>node.
     bind_res (Store_AgentInstance (gr_TenantID request) (ra_AgentInstanceID attempt) s) (\<lambda>agent.
     bind_res (Store_ContextView (gr_TenantID request) (ra_ContextViewID attempt) s) (\<lambda>view.
     require (\<not> (ra_State attempt \<noteq> RuntimeAttemptRunning \<or> ra_FenceToken attempt \<noteq> gr_FenceToken request
                 \<or> \<not> after_opt (ra_LeaseExpiresAt attempt) now)) (Conflict ''MCP_GATEWAY_FENCE_STALE'') (
     require (gateway_scope_ok request attempt node agent view) (Invalid ''MCP_GATEWAY_SCOPE_INVALID'') (
     require (ai_State agent = AgentActive) (Conflict ''MCP_GATEWAY_AGENT_NOT_ACTIVE'') (
     require (cv_ExpiresAt view > now) (Policy ''MCP_GATEWAY_CONTEXT_EXPIRED'') (
     require (AllowsTool view (gr_ToolName request)) (Policy ''MCP_GATEWAY_TOOL_NOT_ALLOWED'') (
     require (gatewayToolSchema (gr_ToolName request) \<noteq> '''') (Invalid ''MCP_GATEWAY_TOOL_UNSUPPORTED'') (
     Inr \<lparr>gc_attempt = attempt, gc_node = node, gc_agent = agent, gc_view = view\<rparr>))))))))))"

subsection \<open>The tools\<close>

definition resolveCollection :: "gatewayContext \<Rightarrow> string \<Rightarrow> Store \<Rightarrow> StateCollection res" where
  "resolveCollection st reference0 s =
     (let reference = TrimSpace reference0 in
      require (reference \<noteq> '''') (Invalid ''MCP_GATEWAY_COLLECTION_REQUIRED'') (
      lookup_or NotFound (find (\<lambda>c. sc_ID c = reference \<or> sc_CollectionKey c = reference)
        (StateCollections (ra_TenantID (gc_attempt st)) (ra_JobRunID (gc_attempt st)) s)) Inr))"

definition stateRefAllowed :: "ContextView \<Rightarrow> StateCollection \<Rightarrow> bool" where
  "stateRefAllowed view c =
     list_ex (\<lambda>ref. TrimSpace ref = sc_ID c \<or> TrimSpace ref = sc_CollectionKey c) (cv_StateRefs view)"

definition record_json :: "StateRecord \<Rightarrow> goany" where
  "record_json r = AObj (
     [(''id'', AStr (sr_ID r)), (''tenant_id'', AStr (sr_TenantID r)), (''collection_id'', AStr (sr_CollectionID r)),
      (''key'', AStr (sr_Key r))]
     @ (case sr_Value r of Some (x # xs) \<Rightarrow> [(''value'', AObj (x # xs))] | _ \<Rightarrow> [])
     @ opt_str ''artifact_ref'' (sr_ArtifactRef r)
     @ [(''schema_revision'', AInt (sr_SchemaRevision r)), (''version'', AInt (sr_Version r)), (''digest'', AStr (sr_Digest r)),
        (''created_by'', AStr (sr_CreatedBy r)), (''updated_by'', AStr (sr_UpdatedBy r)),
        (''created_at'', ATime (Some (sr_CreatedAt r))), (''updated_at'', ATime (Some (sr_UpdatedAt r)))])"

definition queryState :: "gatewayContext \<Rightarrow> payload \<Rightarrow> Store \<Rightarrow> payload res" where
  "queryState st arguments s =
     bind_res (resolveCollection st (stringArgument arguments ''collection'') s) (\<lambda>c.
     require (stateRefAllowed (gc_view st) c) (Policy ''MCP_GATEWAY_STATE_NOT_ALLOWED'') (
     let key = stringArgument arguments ''key''; afterKey = stringArgument arguments ''after_key'';
         limit = intArgument arguments ''limit'' 50 in
     require (\<not> (limit < 1 \<or> limit > 100)) (Invalid ''MCP_GATEWAY_LIMIT_INVALID'') (
     Inr [(''collection_id'', AStr (sc_ID c)), (''collection'', AStr (sc_CollectionKey c)), (''revision'', AInt (sc_Revision c)),
          (''watermark'', AInt (sc_Watermark c)),
          (''records'', AArr (map record_json (take (nat limit)
             (filter (\<lambda>r. \<not> (key \<noteq> '''' \<and> sr_Key r \<noteq> key \<or> afterKey \<noteq> '''' \<and> sr_Key r \<le> afterKey))
               (StateRecords (ra_TenantID (gc_attempt st)) (sc_ID c) s)))))])))"

definition desired_json :: "StateCollection \<Rightarrow> string \<Rightarrow> payload option \<Rightarrow> string \<Rightarrow> goany" where
  "desired_json c key value artifactRef = AObj (
     [(''collection_id'', AStr (sc_ID c)), (''key'', AStr key)]
     @ (case value of Some (x # xs) \<Rightarrow> [(''value'', AObj (x # xs))] | _ \<Rightarrow> []) @ opt_str ''artifact_ref'' artifactRef)"

definition mutateState :: "gateway_env \<Rightarrow> gatewayContext \<Rightarrow> payload \<Rightarrow> string \<Rightarrow> payload svc" where
  "mutateState env st arguments idempotencyKey =
     (let tenant = ra_TenantID (gc_attempt st) in
      bind_svc (query (resolveCollection st (stringArgument arguments ''collection''))) (\<lambda>c.
      guard_svc (stateRefAllowed (gc_view st) c) (Policy ''MCP_GATEWAY_STATE_NOT_ALLOWED'') (
      let key = stringArgument arguments ''key''; value = objectArgument arguments ''value'';
          artifactRef = stringArgument arguments ''artifact_ref'' in
      guard_svc (key \<noteq> '''') (Invalid ''MCP_GATEWAY_STATE_KEY_REQUIRED'') (
      guard_svc (\<not> (value = None \<and> artifactRef = '''')) (Invalid ''MCP_GATEWAY_STATE_VALUE_REQUIRED'') (
      let expectedVersion = intArgument arguments ''expected_version'' 0; actor = ''node:'' @ nr_NodeKey (gc_node st);
          desired = ''sha256:'' @ ge_hash env (desired_json c key value artifactRef);
          done_with = (\<lambda>r. [(''record'', record_json r), (''idempotency_key'', AStr idempotencyKey)]);
          new = \<lparr>sr_ID = ge_id env 4, sr_TenantID = tenant, sr_CollectionID = sc_ID c, sr_Key = key, sr_Value = value,
                 sr_ArtifactRef = artifactRef, sr_SchemaRevision = sc_SchemaRevision c, sr_Version = expectedVersion + 1,
                 sr_Digest = desired, sr_CreatedBy = actor, sr_UpdatedBy = actor, sr_CreatedAt = ge_now env 4,
                 sr_UpdatedAt = ge_now env 5\<rparr>;
          write = (\<lambda>r. bind_svc (interfere env 6) (\<lambda>_.
                       bind_svc (StateRecordCASForAttempt (ge_len env) (ge_id env 5) (ge_now env 6) r expectedVersion
                                   (ra_ID (gc_attempt st)) (ra_FenceToken (gc_attempt st))) (\<lambda>stored. ret (done_with stored)))) in
      bind_svc (query (\<lambda>s. Inr (find (\<lambda>r. sr_Key r = key) (StateRecords tenant (sc_ID c) s)))) (\<lambda>found.
      case found of
        None \<Rightarrow> write new
      | Some existing \<Rightarrow>
          if sr_Version existing = expectedVersion + 1 \<and> sr_Digest existing = desired then ret (done_with existing)
          else write (new\<lparr>sr_ID := sr_ID existing, sr_CreatedBy := sr_CreatedBy existing,
                          sr_CreatedAt := sr_CreatedAt existing\<rparr>)))))))"

definition prepareEffect :: "gateway_env \<Rightarrow> gatewayContext \<Rightarrow> payload \<Rightarrow> string \<Rightarrow> payload svc" where
  "prepareEffect env st arguments idempotencyKey =
     (let kind = stringArgument arguments ''kind''; requestDigest = stringArgument arguments ''request_digest'';
          costMinor = intArgument arguments ''cost_minor'' 0; currency0 = stringArgument arguments ''currency'';
          attempt = gc_attempt st in
      guard_svc (\<not> (kind = '''' \<or> requestDigest = '''')) (Invalid ''MCP_GATEWAY_EFFECT_INPUT_INVALID'') (
      guard_svc (\<not> costMinor < 0) (Invalid ''MCP_GATEWAY_EFFECT_COST_INVALID'') (
      bind_svc (RegisterEffectForAttempt (ge_id env 4) (ge_id env 5) (ge_now env 4)
        \<lparr>ee_ID = '''', ee_TenantID = ra_TenantID attempt, ee_JobRunID = ra_JobRunID attempt, ee_NodeRunID = ra_NodeRunID attempt,
         ee_AttemptID = ra_ID attempt, ee_ResourceReservationID = '''', ee_Kind = kind, ee_IdempotencyKey = idempotencyKey,
         ee_State = EffectState '''', ee_ExternalID = '''', ee_RequestDigest = requestDigest, ee_ResponseDigest = '''',
         ee_CostMinor = costMinor, ee_Currency = (if currency0 = '''' then ''CNY'' else currency0),
         ee_SafeSummary = (case objectArgument arguments ''safe_summary'' of None \<Rightarrow> [] | Some v \<Rightarrow> v), ee_ErrorCode = '''',
         ee_Version = 0, ee_CreatedAt = 0, ee_UpdatedAt = 0\<rparr> (ra_FenceToken attempt)) (\<lambda>effect.
      ret [(''effect_id'', AStr (ee_ID effect)), (''state'', AStr (effect_state_str (ee_State effect))),
           (''request_digest'', AStr (ee_RequestDigest effect))]))))"

definition noderun_json :: "NodeRun \<Rightarrow> goany" where
  "noderun_json n = AObj (
     [(''id'', AStr (nr_ID n)), (''tenant_id'', AStr (nr_TenantID n)), (''job_run_id'', AStr (nr_JobRunID n)),
      (''node_key'', AStr (nr_NodeKey n)), (''state'', AStr (node_state_str (nr_State n))),
      (''attempt_count'', AInt (nr_AttemptCount n)), (''output_refs'', AArr (map AStr (nr_OutputRefs n)))]
     @ opt_str ''output_digest'' (nr_OutputDigest n) @ opt_str ''error_code'' (nr_ErrorCode n)
     @ opt_str ''lease_owner'' (nr_LeaseOwner n) @ opt_str ''fence_token'' (nr_FenceToken n)
     @ (case nr_LeaseExpiresAt n of None \<Rightarrow> [] | Some t \<Rightarrow> [(''lease_expires_at'', ATime (Some t))])
     @ [(''version'', AInt (nr_Version n)), (''created_at'', ATime (Some (nr_CreatedAt n))),
        (''updated_at'', ATime (Some (nr_UpdatedAt n)))])"

definition listChildren :: "gatewayContext \<Rightarrow> Store \<Rightarrow> payload res" where
  "listChildren st s =
     (let tenant = ra_TenantID (gc_attempt st); jobID = ra_JobRunID (gc_attempt st) in
      bind_res (Store_JobRun tenant jobID s) (\<lambda>job.
      bind_res (Store_Plan tenant (jr_PlanRevisionID job) s) (\<lambda>plan.
      let nodes = NodeRuns tenant jobID s in
      Inr [(''nodes'', AArr (map noderun_json (concat (map (\<lambda>spec.
             case find (\<lambda>n. nr_NodeKey n = pn_Key spec) nodes of None \<Rightarrow> [] | Some n \<Rightarrow> [n])
           (filter (\<lambda>spec. nr_NodeKey (gc_node st) \<in> set (pn_DependsOn spec)) (jp_Nodes plan))))))])))"

definition effectStatus :: "gatewayContext \<Rightarrow> payload \<Rightarrow> Store \<Rightarrow> payload res" where
  "effectStatus st arguments s =
     (let effectID = stringArgument arguments ''effect_id''; attempt = gc_attempt st in
      require (effectID \<noteq> '''') (Invalid ''MCP_GATEWAY_EFFECT_ID_REQUIRED'') (
      bind_res (Store_Effect (ra_TenantID attempt) effectID s) (\<lambda>effect.
      require (\<not> (ee_AttemptID effect \<noteq> ra_ID attempt \<or> ee_JobRunID effect \<noteq> ra_JobRunID attempt
                  \<or> ee_NodeRunID effect \<noteq> nr_ID (gc_node st))) (Policy ''MCP_GATEWAY_EFFECT_SCOPE_INVALID'') (
      Inr [(''effect_id'', AStr (ee_ID effect)), (''state'', AStr (effect_state_str (ee_State effect))),
           (''external_id'', AStr (ee_ExternalID effect)), (''response_digest'', AStr (ee_ResponseDigest effect)),
           (''safe_summary'', AObj (ee_SafeSummary effect)), (''error_code'', AStr (ee_ErrorCode effect))]))))"

definition gateway_execute :: "gateway_env \<Rightarrow> gatewayContext \<Rightarrow> string \<Rightarrow> payload \<Rightarrow> string \<Rightarrow> payload svc" where
  "gateway_execute env st toolName arguments idempotencyKey =
     (if toolName = ''state.get'' \<or> toolName = ''state.query'' then query (queryState st arguments)
      else if toolName = ''state.mutate'' then mutateState env st arguments idempotencyKey
      else if toolName = ''effect.prepare'' then prepareEffect env st arguments idempotencyKey
      else if toolName = ''child.list'' then query (listChildren st)
      else if toolName = ''effect.status'' then query (effectStatus st arguments)
      else fail (Invalid ''MCP_GATEWAY_TOOL_UNSUPPORTED''))"

subsection \<open>A call\<close>

definition gateway_trim :: "GatewayRequest \<Rightarrow> GatewayRequest" where
  "gateway_trim request =
     request\<lparr>gr_TenantID := TrimSpace (gr_TenantID request), gr_AttemptID := TrimSpace (gr_AttemptID request),
       gr_FenceToken := TrimSpace (gr_FenceToken request), gr_ToolName := TrimSpace (gr_ToolName request),
       gr_RequestID := TrimSpace (gr_RequestID request)\<rparr>"

definition gateway_digest :: "gateway_env \<Rightarrow> GatewayRequest \<Rightarrow> string \<Rightarrow> string" where
  "gateway_digest env request idempotencyKey = ''sha256:'' @ ge_hash env
     (AObj [(''tool_name'', AStr (gr_ToolName request)), (''arguments'', AObj (gr_Arguments request)),
            (''idempotency_key'', AStr idempotencyKey)])"

text \<open>What is checked before the ledger is touched: the authorised context and the idempotency key.\<close>

definition gateway_admit :: "gateway_env \<Rightarrow> GatewayRequest \<Rightarrow> Store \<Rightarrow> (gatewayContext \<times> string) res" where
  "gateway_admit env request s =
     require (\<not> (gr_TenantID request = '''' \<or> gr_AttemptID request = '''' \<or> gr_FenceToken request = ''''
                 \<or> gr_ToolName request = '''')) (Invalid ''MCP_GATEWAY_INPUT_INVALID'') (
     require (\<not> ge_len env (gr_Arguments request) > maxGatewayArgs) (Policy ''MCP_GATEWAY_ARGUMENTS_TOO_LARGE'') (
     bind_res (gateway_authorize (ge_now env 0) request s) (\<lambda>st.
     bind_res (gatewayIdempotencyKey request) (\<lambda>key. Inr (st, key)))))"

definition gateway_call :: "gateway_env \<Rightarrow> GatewayRequest \<Rightarrow> gatewayContext \<Rightarrow> string \<Rightarrow> ToolCall" where
  "gateway_call env request st key =
     \<lparr>tc_ID = ge_id env 0, tc_TenantID = gr_TenantID request, tc_JobRunID = ra_JobRunID (gc_attempt st),
      tc_NodeRunID = ra_NodeRunID (gc_attempt st), tc_AttemptID = ra_ID (gc_attempt st),
      tc_AgentInstanceID = ra_AgentInstanceID (gc_attempt st), tc_ToolName = gr_ToolName request,
      tc_SchemaVersion = gatewayToolSchema (gr_ToolName request), tc_RequestDigest = gateway_digest env request key,
      tc_SafeRequest = gatewaySafeRequest (ge_hash env) (gr_Arguments request) key, tc_SafeResult = [], tc_ResultDigest = '''',
      tc_State = ToolCallProposed, tc_ErrorCode = '''', tc_StartedAt = None, tc_FinishedAt = None, tc_Version = 1,
      tc_CreatedAt = ge_now env 1, tc_UpdatedAt = ge_now env 1\<rparr>"

definition findExisting :: "GatewayRequest \<Rightarrow> gatewayContext \<Rightarrow> string \<Rightarrow> Store \<Rightarrow> ToolCall res" where
  "findExisting request st key = ToolCallByIdempotencyKey (gr_TenantID request) (ra_ID (gc_attempt st)) (gr_ToolName request) key"

text \<open>A request is answered from the ledger, or goes on with a call; the flag is \<^verbatim>\<open>hasPrevious\<close>, then \<^verbatim>\<open>claimedRunning\<close>.\<close>

datatype gateway_step = Replay ToolCall | Proceed ToolCall bool

definition gateway_reuse :: "gateway_env \<Rightarrow> GatewayRequest \<Rightarrow> string \<Rightarrow> bool \<Rightarrow> ToolCall \<Rightarrow> gateway_step svc" where
  "gateway_reuse env request key hasPrevious call =
     guard_svc (tc_RequestDigest call = gateway_digest env request key) (Conflict ''MCP_GATEWAY_IDEMPOTENCY_MISMATCH'') (
     ret (if tool_terminal (tc_State call) then Replay call else Proceed call hasPrevious))"

definition gateway_open :: "gateway_env \<Rightarrow> GatewayRequest \<Rightarrow> gatewayContext \<Rightarrow> string \<Rightarrow> gateway_step svc" where
  "gateway_open env request st key =
     try_svc (query (findExisting request st key)) (\<lambda>r. case r of
       Inr previous \<Rightarrow> gateway_reuse env request key True previous
     | Inl e \<Rightarrow>
         if \<not> IsNotFound e then fail e
         else bind_svc (interfere env 0) (\<lambda>_.
           let call = gateway_call env request st key in
           try_svc (CreateFencedToolCall (ge_id env 1) (ge_now env 1) call (gr_FenceToken request)) (\<lambda>c. case c of
             Inr _ \<Rightarrow> ret (Proceed call False)
           | Inl err \<Rightarrow>
               try_svc (bind_svc (interfere env 1) (\<lambda>_. query (findExisting request st key))) (\<lambda>r'. case r' of
                 Inl _ \<Rightarrow> fail err
               | Inr concurrent \<Rightarrow> gateway_reuse env request key False concurrent))))"

definition in_progress :: fault where
  "in_progress = (Conflict ''MCP_GATEWAY_TOOL_CALL_IN_PROGRESS'')\<lparr>f_Retryable := True\<rparr>"

definition authorized_call :: "gateway_env \<Rightarrow> ToolCall \<Rightarrow> ToolCall" where
  "authorized_call env call = call\<lparr>tc_State := ToolCallAuthorized, tc_Version := tc_Version call + 1, tc_UpdatedAt := ge_now env 2\<rparr>"

definition running_call :: "gateway_env \<Rightarrow> ToolCall \<Rightarrow> ToolCall" where
  "running_call env call = call\<lparr>tc_State := ToolCallRunning, tc_StartedAt := Some (ge_now env 3), tc_Version := tc_Version call + 1,
     tc_UpdatedAt := ge_now env 3\<rparr>"

definition gateway_run :: "gateway_env \<Rightarrow> GatewayRequest \<Rightarrow> gatewayContext \<Rightarrow> string \<Rightarrow> ToolCall \<Rightarrow> gateway_step svc" where
  "gateway_run env request st key call =
     (if tc_State call = ToolCallAuthorized then
        bind_svc (interfere env 3) (\<lambda>_.
        try_svc (TransitionFencedToolCall (ge_id env 3) (ge_now env 3) (running_call env call) (tc_Version call)
                   (gr_FenceToken request)) (\<lambda>r. case r of
          Inr claimed \<Rightarrow> ret (Proceed claimed True)
        | Inl _ \<Rightarrow>
            try_svc (query (findExisting request st key)) (\<lambda>r'. case r' of
              Inr current \<Rightarrow> if tool_terminal (tc_State current) then ret (Replay current) else fail in_progress
            | Inl _ \<Rightarrow> fail in_progress)))
      else guard_svc (tc_State call = ToolCallRunning) (Conflict ''MCP_GATEWAY_TOOL_CALL_STATE_INVALID'') (ret (Proceed call False)))"

definition gateway_claim :: "gateway_env \<Rightarrow> GatewayRequest \<Rightarrow> gatewayContext \<Rightarrow> string \<Rightarrow> ToolCall \<Rightarrow> gateway_step svc" where
  "gateway_claim env request st key call =
     (if tc_State call = ToolCallProposed then
        bind_svc (interfere env 2) (\<lambda>_.
        bind_svc (TransitionFencedToolCall (ge_id env 2) (ge_now env 2) (authorized_call env call) (tc_Version call)
                    (gr_FenceToken request)) (gateway_run env request st key))
      else gateway_run env request st key call)"

definition gateway_fail :: "gateway_env \<Rightarrow> GatewayRequest \<Rightarrow> ToolCall \<Rightarrow> string \<Rightarrow> unit svc" where
  "gateway_fail env request call code =
     attempt_svc (TransitionFencedToolCall (ge_id env 6) (ge_now env 7)
       (call\<lparr>tc_State := ToolCallFailed, tc_ErrorCode := code, tc_Version := tc_Version call + 1, tc_UpdatedAt := ge_now env 7\<rparr>)
       (tc_Version call) (gr_FenceToken request))"

definition succeeded_call :: "gateway_env \<Rightarrow> payload \<Rightarrow> ToolCall \<Rightarrow> ToolCall" where
  "succeeded_call env result call =
     call\<lparr>tc_State := ToolCallSucceeded, tc_SafeResult := ge_clone env result,
       tc_ResultDigest := ''sha256:'' @ ge_hash env (AObj result), tc_Version := tc_Version call + 1, tc_UpdatedAt := ge_now env 7\<rparr>"

definition gateway_finish :: "gateway_env \<Rightarrow> GatewayRequest \<Rightarrow> gatewayContext \<Rightarrow> string \<Rightarrow> ToolCall \<Rightarrow> GatewayResponse svc" where
  "gateway_finish env request st key call =
     bind_svc (interfere env 4) (\<lambda>_.
     try_svc (gateway_execute env st (gr_ToolName request) (gr_Arguments request) key) (\<lambda>r.
     bind_svc (interfere env 5) (\<lambda>_. case r of
       Inl e \<Rightarrow> bind_svc (gateway_fail env request call (f_Code e)) (\<lambda>_. fail e)
     | Inr result \<Rightarrow>
         if ge_len env result > maxGatewayResult
         then bind_svc (gateway_fail env request call ''MCP_GATEWAY_RESULT_TOO_LARGE'') (\<lambda>_. fail (Policy ''MCP_GATEWAY_RESULT_TOO_LARGE''))
         else bind_svc (TransitionFencedToolCall (ge_id env 6) (ge_now env 7) (succeeded_call env result call) (tc_Version call)
                          (gr_FenceToken request)) (\<lambda>closed.
              ret \<lparr>gx_ToolCall = closed, gx_Result = result, gx_Replayed = False\<rparr>))))"

definition gateway_continue :: "gateway_env \<Rightarrow> GatewayRequest \<Rightarrow> gatewayContext \<Rightarrow> string \<Rightarrow> gateway_step \<Rightarrow> GatewayResponse svc" where
  "gateway_continue env request st key step = (case step of
     Replay call \<Rightarrow> query (\<lambda>_. gatewayTerminalReplay env call)
   | Proceed call hasPrevious \<Rightarrow>
       bind_svc (gateway_claim env request st key call) (\<lambda>step'. case step' of
         Replay call' \<Rightarrow> query (\<lambda>_. gatewayTerminalReplay env call')
       | Proceed call' claimedRunning \<Rightarrow>
           guard_svc (\<not> (tc_State call' = ToolCallRunning \<and> \<not> claimedRunning \<and> hasPrevious)) in_progress (
           gateway_finish env request st key call')))"

definition Gateway_Call :: "gateway_env \<Rightarrow> GatewayRequest \<Rightarrow> GatewayResponse svc" where
  "Gateway_Call env request0 =
     (let request = gateway_trim request0 in
      bind_svc (query (gateway_admit env request)) (\<lambda>(st, key).
      bind_svc (gateway_open env request st key) (gateway_continue env request st key)))"

definition gateway_denied :: fault where
  "gateway_denied = E ''authentication'' ''runtime_gateway'' ''RUNTIME_GATEWAY_TOKEN_INVALID'' 3"

definition CallWithToken :: "gateway_env \<Rightarrow> time \<Rightarrow> string \<Rightarrow> GatewayTokenRequest \<Rightarrow> GatewayResponse svc" where
  "CallWithToken env now token0 request =
     (let token = TrimSpace token0 in
      guard_svc (\<not> (take 4 token \<noteq> ''rtg_'' \<or> length token < 32)) gateway_denied (
      try_svc (query (RuntimeAttemptByGatewayTokenHash (ge_sha256 env token))) (\<lambda>r. case r of
        Inl _ \<Rightarrow> fail gateway_denied
      | Inr attempt \<Rightarrow>
          guard_svc (\<not> (ra_GatewayTokenHash attempt \<noteq> ge_sha256 env token \<or> \<not> after_opt (ra_GatewayExpiresAt attempt) now
              \<or> (ra_State attempt \<noteq> RuntimeAttemptPrepared \<and> ra_State attempt \<noteq> RuntimeAttemptRunning)
              \<or> \<not> after_opt (ra_LeaseExpiresAt attempt) now)) gateway_denied (
          guard_svc (ra_State attempt \<noteq> RuntimeAttemptPrepared) ((Conflict ''MCP_GATEWAY_NOT_ACTIVE'')\<lparr>f_Retryable := True\<rparr>) (
          Gateway_Call env \<lparr>gr_TenantID = ra_TenantID attempt, gr_AttemptID = ra_ID attempt, gr_FenceToken = ra_FenceToken attempt,
            gr_ToolName = gt_ToolName request, gr_RequestID = gt_RequestID request, gr_Arguments = gt_Arguments request\<rparr>)))))"

subsection \<open>The steps of a call\<close>

lemma steps_of_then: "b \<Longrightarrow> steps_of R m \<Longrightarrow> steps_of R (if b then m else n)"
  by simp

text \<open>A step relation that has the writes of the tools, and one that has the writes of the ledger too.\<close>

locale tool_steps =
  fixes R :: "Store \<Rightarrow> Store \<Rightarrow> bool"
  assumes record_steps: "steps_of R (exec (ApplyFencedStateRecordCommand len r x a f now e))"
    and effect_steps: "steps_of R (exec (RegisterFencedEffectCommand w f now e))"
begin

definition quiet :: "gateway_env \<Rightarrow> bool" where
  "quiet env = (\<forall>k s. R\<^sup>*\<^sup>* s (ge_others env k s))"

lemma interfere_steps: "quiet env \<Longrightarrow> steps_of R (interfere env k)"
  by (simp add: steps_of_def interfere_def quiet_def)

lemma StateRecordCASForAttempt_steps: "steps_of R (StateRecordCASForAttempt len eid now r x a f)"
proof (cases "blank a")
  case False
  then show ?thesis unfolding StateRecordCASForAttempt_def stateRecordCAS_def Let_def
    by (intro steps_of_then svc_steps record_steps) simp
qed (auto simp: StateRecordCASForAttempt_def guard_svc_def intro: svc_steps)

lemma RegisterEffectForAttempt_steps: "steps_of R (RegisterEffectForAttempt newID eid now w f)"
proof (cases "blank f")
  case False
  then have fenced: "steps_of R (if TrimSpace f \<noteq> '''' then exec (RegisterFencedEffectCommand w' (TrimSpace f) t e) else m)" for w' t e m
    by (intro steps_of_then effect_steps) simp
  show ?thesis unfolding RegisterEffectForAttempt_def registerEffect_def Let_def by (intro fenced svc_steps)
qed (auto simp: RegisterEffectForAttempt_def guard_svc_def intro: svc_steps)

lemma gateway_execute_steps:
  assumes "quiet env"
  shows "steps_of R (gateway_execute env st tool args key)"
  unfolding gateway_execute_def mutateState_def prepareEffect_def Let_def
  by (intro svc_steps interfere_steps [OF assms] StateRecordCASForAttempt_steps RegisterEffectForAttempt_steps)

end

locale gateway_steps = tool_steps +
  assumes register_steps: "steps_of R (exec (RegisterFencedToolCallCommand c f now e))"
    and transit_steps: "steps_of R (exec (ApplyFencedToolCallTransitionCommand c x f now e))"
begin

lemma CreateFencedToolCall_steps: "steps_of R (CreateFencedToolCall eid now c f)"
proof (cases "blank f")
  case False
  then show ?thesis unfolding CreateFencedToolCall_def createToolCall_def Let_def
    by (intro steps_of_then svc_steps register_steps) simp
qed (auto simp: CreateFencedToolCall_def guard_svc_def intro: svc_steps)

lemma TransitionFencedToolCall_steps: "steps_of R (TransitionFencedToolCall eid now c x f)"
proof (cases "blank f")
  case False
  then show ?thesis unfolding TransitionFencedToolCall_def transitionToolCall_def Let_def
    by (intro steps_of_then svc_steps transit_steps) simp
qed (auto simp: TransitionFencedToolCall_def guard_svc_def intro: svc_steps)

lemma steps_of_gateway_step:
  "(\<And>c. steps_of R (f c)) \<Longrightarrow> (\<And>c b. steps_of R (g c b)) \<Longrightarrow> steps_of R (case step of Replay c \<Rightarrow> f c | Proceed c b \<Rightarrow> g c b)"
  by (cases step) simp_all

lemma Gateway_Call_steps:
  assumes "quiet env"
  shows "steps_of R (Gateway_Call env request)"
proof -
  note rules = svc_steps interfere_steps [OF assms] CreateFencedToolCall_steps TransitionFencedToolCall_steps
    gateway_execute_steps [OF assms] steps_of_gateway_step
  have run: "steps_of R (gateway_run env q st key call)" for q st key call
    unfolding gateway_run_def by (intro rules)
  have claim: "steps_of R (gateway_claim env q st key call)" for q st key call
    unfolding gateway_claim_def by (intro rules run)
  have "steps_of R (gateway_finish env q st key call)" for q st key call
    unfolding gateway_finish_def gateway_fail_def by (intro rules)
  then have continue: "steps_of R (gateway_continue env q st key step)" for q st key step
    unfolding gateway_continue_def by (intro rules claim)
  have "steps_of R (gateway_open env q st key)" for q st key
    unfolding gateway_open_def gateway_reuse_def Let_def by (intro rules)
  then show ?thesis unfolding Gateway_Call_def Let_def by (intro rules continue)
qed

lemma CallWithToken_steps: "quiet env \<Longrightarrow> steps_of R (CallWithToken env now token request)"
  unfolding CallWithToken_def Let_def by (intro svc_steps Gateway_Call_steps)

end

text \<open>A tool leaves the ledger and the attempts alone; a call only takes steps of the store.\<close>

definition ledger_same :: "Store \<Rightarrow> Store \<Rightarrow> bool" where
  "ledger_same s s' = (runtimeToolCalls s' = runtimeToolCalls s \<and> runtimeAttempts s' = runtimeAttempts s)"

lemma ledger_same_rtrancl: "ledger_same\<^sup>*\<^sup>* s s' \<Longrightarrow> ledger_same s s'"
  by (induction rule: rtranclp_induct) (simp_all add: ledger_same_def)

lemma record_ledger:
  "ApplyFencedStateRecordCommand len r x a f now e s = Inr (s', v) \<Longrightarrow> ledger_same s s'"
  by (elim ApplyFencedStateRecordCommand_ok applyStateRecordLocked_ok) (simp add: ledger_same_def)

lemma effect_ledger: "RegisterFencedEffectCommand w f now e s = Inr (s', v) \<Longrightarrow> ledger_same s s'"
  unfolding RegisterFencedEffectCommand_def Let_def by (auto simp: ledger_same_def split: option.splits if_splits)

interpretation tool_ledger: tool_steps ledger_same
  by unfold_locales (blast intro: steps_of_exec r_into_rtranclp record_ledger effect_ledger)+

interpretation store_gateway: gateway_steps store_step
proof
  show "steps_of store_step (exec (ApplyFencedStateRecordCommand len r x a f now e))" for len r x a f now e
    by (rule steps_of_exec, rule r_into_rtranclp) (rule store_step.record_fenced)
  show "steps_of store_step (exec (RegisterFencedEffectCommand w f now e))" for w f now e
    by (rule steps_of_exec, rule r_into_rtranclp) (rule store_step.register_fenced)
  show "steps_of store_step (exec (RegisterFencedToolCallCommand c f now e))" for c f now e
    by (rule steps_of_exec, rule r_into_rtranclp) (intro store_step.tools tool_write.register_fenced)
  show "steps_of store_step (exec (ApplyFencedToolCallTransitionCommand c x f now e))" for c x f now e
    by (rule steps_of_exec, rule r_into_rtranclp) (intro store_step.tools tool_write.transit_fenced)
qed

subsection \<open>The ledger along a call\<close>

lemma find_mput_new: "find P (mvals m) = None \<Longrightarrow> P v \<Longrightarrow> find P (mvals (mput k v m)) = Some v"
  by (induction m) (auto simp: mvals_def mput_def split: if_splits)

lemma find_mput_keyed:
  "keyed key m \<Longrightarrow> find P (mvals m) = Some c \<Longrightarrow> key c = k \<Longrightarrow> P v \<Longrightarrow> find P (mvals (mput k v m)) = Some v"
  using find_mput_same [OF keyed_entries] by fastforce

lemma fenced_transition:
  assumes "TransitionFencedToolCall eid now nxt x f s = (s', Inr v)"
  shows "v = nxt" "runtimeToolCalls s' = mput (tool_key nxt) nxt (runtimeToolCalls s)" "runtimeAttempts s' = runtimeAttempts s"
    "validateAttemptFenceLocked s (tc_TenantID nxt) (tc_AttemptID nxt) (TrimSpace f) now = None"
    "\<exists>c. Store_ToolCall (TrimSpace (tc_TenantID nxt)) (TrimSpace (tc_ID nxt)) s = Inr c \<and> same_tool_scope nxt c
       \<and> (\<exists>u. authorizeToolCall c now s = Inr u)"
proof -
  have b: "\<not> blank f" and t: "transitionToolCall eid now nxt x (TrimSpace f) s = (s', Inr v)"
    using assms by (auto simp: TransitionFencedToolCall_def guard_svc_Inr)
  then obtain c u where c: "Store_ToolCall (TrimSpace (tc_TenantID nxt)) (TrimSpace (tc_ID nxt)) s = Inr c"
    "same_tool_scope nxt c" "authorizeToolCall c now s = Inr u"
    and run: "ApplyFencedToolCallTransitionCommand nxt x (TrimSpace f) now (tool_event eid nxt) s = Inr (s', v)"
    unfolding transitionToolCall_def Let_def by (auto simp: bind_query_Inr guard_svc_Inr exec_Inr)
  then show "v = nxt" "runtimeToolCalls s' = mput (tool_key nxt) nxt (runtimeToolCalls s)" "runtimeAttempts s' = runtimeAttempts s"
    "validateAttemptFenceLocked s (tc_TenantID nxt) (tc_AttemptID nxt) (TrimSpace f) now = None"
    by (auto simp: ApplyFencedToolCallTransitionCommand_def put_tool_def)
  show "\<exists>c. Store_ToolCall (TrimSpace (tc_TenantID nxt)) (TrimSpace (tc_ID nxt)) s = Inr c \<and> same_tool_scope nxt c
       \<and> (\<exists>u. authorizeToolCall c now s = Inr u)" using c by blast
qed

lemma try_svc_Inr: "try_svc m f s = (s', r) \<longleftrightarrow> (\<exists>s1 r1. m s = (s1, r1) \<and> f r1 s1 = (s', r))"
  by (auto simp: try_svc_def split: prod.split) (metis prod.collapse)

lemma gateway_finish_ok:
  assumes "gateway_finish env q st key call s = (s', Inr r)"
  obtains s1 result where
    "gateway_execute env st (gr_ToolName q) (gr_Arguments q) key (ge_others env 4 s) = (s1, Inr result)"
    "ge_len env result \<le> maxGatewayResult" "r = \<lparr>gx_ToolCall = succeeded_call env result call, gx_Result = result, gx_Replayed = False\<rparr>"
    "TransitionFencedToolCall (ge_id env 6) (ge_now env 7) (succeeded_call env result call) (tc_Version call) (gr_FenceToken q)
       (ge_others env 5 s1) = (s', Inr (succeeded_call env result call))"
proof -
  obtain s1 r1 where e: "gateway_execute env st (gr_ToolName q) (gr_Arguments q) key (ge_others env 4 s) = (s1, r1)" by fastforce
  then obtain result where r1: "r1 = Inr result"
    using assms by (cases r1) (auto simp: gateway_finish_def interfere_def bind_svc_def try_svc_def fail_def split: prod.splits sum.splits)
  with assms e have "ge_len env result \<le> maxGatewayResult" and "\<exists>v. r = \<lparr>gx_ToolCall = v, gx_Result = result, gx_Replayed = False\<rparr>
      \<and> TransitionFencedToolCall (ge_id env 6) (ge_now env 7) (succeeded_call env result call) (tc_Version call) (gr_FenceToken q)
         (ge_others env 5 s1) = (s', Inr v)"
    by (auto simp: gateway_finish_def interfere_def bind_svc_def try_svc_def fail_def ret_def split: prod.splits sum.splits if_splits)
  with fenced_transition(1) that e r1 show ?thesis by blast
qed

definition of_request :: "GatewayRequest \<Rightarrow> gatewayContext \<Rightarrow> string \<Rightarrow> ToolCall \<Rightarrow> bool" where
  "of_request q st key c =
     (tc_TenantID c = gr_TenantID q \<and> tc_AttemptID c = ra_ID (gc_attempt st) \<and> tc_ToolName c = gr_ToolName q
      \<and> toolCallIdempotencyKey c = key)"

lemma of_request_cong:
  assumes "tc_TenantID c' = tc_TenantID c" "tc_AttemptID c' = tc_AttemptID c" "tc_ToolName c' = tc_ToolName c"
    "tc_SafeRequest c' = tc_SafeRequest c"
  shows "of_request q st key c' = of_request q st key c"
  using assms by (simp add: of_request_def toolCallIdempotencyKey_def)

lemma call_updates [simp]:
  "of_request q st key (authorized_call env c) = of_request q st key c" "tool_key (authorized_call env c) = tool_key c"
  "of_request q st key (running_call env c) = of_request q st key c" "tool_key (running_call env c) = tool_key c"
  "of_request q st key (succeeded_call env p c) = of_request q st key c" "tool_key (succeeded_call env p c) = tool_key c"
  "tc_RequestDigest (authorized_call env c) = tc_RequestDigest c" "tc_RequestDigest (running_call env c) = tc_RequestDigest c"
  "tc_RequestDigest (succeeded_call env p c) = tc_RequestDigest c"
  "tc_State (authorized_call env c) = ToolCallAuthorized" "tc_State (running_call env c) = ToolCallRunning"
  "tc_State (succeeded_call env p c) = ToolCallSucceeded" "tc_SafeResult (succeeded_call env p c) = ge_clone env p"
  by (simp_all add: of_request_def authorized_call_def running_call_def succeeded_call_def toolCallIdempotencyKey_def tool_key_def)

lemma findExisting_find: "findExisting q st key s = lookup_or NotFound (find (of_request q st key) (mvals (runtimeToolCalls s))) Inr"
  unfolding findExisting_def ToolCallByIdempotencyKey_def of_request_def by (rule refl)

lemma findExisting_of: "findExisting q st key s = Inr c \<Longrightarrow> of_request q st key c"
  unfolding findExisting_find lookup_or_Inr by (auto simp: find_Some_iff)

lemma idempotency_key_trimmed: "gatewayIdempotencyKey (gateway_trim q) = Inr key \<Longrightarrow> TrimSpace key = key"
  by (auto simp: gatewayIdempotencyKey_def Let_def gateway_trim_def stringArgument_def split: option.splits goany.splits if_splits)

lemma safe_request_key: "mget (gatewaySafeRequest hash args key) ''idempotency_key'' = Some (AStr key)"
proof -
  have "mget (fold (\<lambda>k m. case mget args k of None \<Rightarrow> m | Some v \<Rightarrow> mput k v m) ks m) i = mget m i"
    if "i \<notin> set ks" for ks i and m :: payload
    using that by (induction ks arbitrary: m) (auto split: option.splits)
  note copied = this
  have "''idempotency_key'' \<notin> set [''collection'', ''key'', ''after_key'', ''expected_version'', ''kind'', ''request_digest'', ''currency'', ''cost_minor'']"
    "''value_digest'' \<noteq> ''idempotency_key''" by code_simp+
  note n = copied [OF this(1), of "[(''idempotency_key'', AStr key)]"] this(2)
  show ?thesis
  proof (cases "mget args ''value''")
    case None
    show ?thesis unfolding gatewaySafeRequest_def Let_def None option.case by (rule trans [OF n(1)]) (simp add: mget_def)
  next
    case (Some v)
    have "mget (mput ''value_digest'' w m) ''idempotency_key'' = mget m ''idempotency_key''" for w :: goany and m
      using n(2) by simp
    then show ?thesis unfolding gatewaySafeRequest_def Let_def Some option.case
      by (rule trans [OF _ trans [OF n(1)]]) (simp add: mget_def)
  qed
qed

lemma gateway_call_of:
  "TrimSpace key = key \<Longrightarrow> of_request q st key (gateway_call env q st key)"
  by (simp add: of_request_def gateway_call_def toolCallIdempotencyKey_def safe_request_key)

lemma gateway_open_of:
  assumes "gateway_open env q st key s = (s1, Inr (Proceed c b))" and "TrimSpace key = key"
  shows "of_request q st key c" "tc_RequestDigest c = gateway_digest env q key"
proof -
  have reuse: "of_request q st key c \<and> tc_RequestDigest c = gateway_digest env q key"
    if "gateway_reuse env q key hp p s0 = (s1, Inr (Proceed c b))" "of_request q st key p" for hp p s0
    using that unfolding gateway_reuse_def guard_svc_Inr by (auto simp: ret_def split: if_splits)
  have "of_request q st key c \<and> tc_RequestDigest c = gateway_digest env q key"
  proof (cases "findExisting q st key s")
    case (Inr p)
    then show ?thesis using assms(1) reuse [OF _ findExisting_of [OF Inr]]
      by (simp add: gateway_open_def try_svc_def query_def)
  next
    case (Inl e)
    let ?c = "CreateFencedToolCall (ge_id env 1) (ge_now env 1) (gateway_call env q st key) (gr_FenceToken q) (ge_others env 0 s)"
    from Inl assms(1) have o: "(case snd ?c of Inr _ \<Rightarrow> ret (Proceed (gateway_call env q st key) False)
       | Inl err \<Rightarrow> try_svc (bind_svc (interfere env 1) (\<lambda>_. query (findExisting q st key))) (\<lambda>r. case r of
            Inl _ \<Rightarrow> fail err | Inr x \<Rightarrow> gateway_reuse env q key False x)) (fst ?c) = (s1, Inr (Proceed c b))"
      by (simp add: gateway_open_def try_svc_def query_def bind_svc_def interfere_def fail_def Let_def del: One_nat_def split: if_splits)
    show ?thesis
    proof (cases "snd ?c")
      case (Inr u)
      then have "c = gateway_call env q st key" using o by (simp add: ret_def)
      then show ?thesis using gateway_call_of [OF assms(2)] by (simp add: gateway_call_def)
    next
      case (Inl err)
      then show ?thesis using o reuse findExisting_of
        by (simp add: try_svc_def bind_svc_def interfere_def query_def fail_def split: sum.splits)
    qed
  qed
  then show "of_request q st key c" "tc_RequestDigest c = gateway_digest env q key" by blast+
qed

lemma gateway_run_of:
  assumes "gateway_run env q st key c s = (s1, Inr (Proceed c' b))"
  shows "(tc_State c = ToolCallAuthorized \<and> b \<and> c' = running_call env c
      \<and> TransitionFencedToolCall (ge_id env 3) (ge_now env 3) c' (tc_Version c) (gr_FenceToken q) (ge_others env 3 s) = (s1, Inr c'))
    \<or> (tc_State c = ToolCallRunning \<and> \<not> b \<and> c' = c \<and> s1 = s)"
proof (cases "tc_State c = ToolCallAuthorized")
  case True
  let ?t = "TransitionFencedToolCall (ge_id env 3) (ge_now env 3) (running_call env c) (tc_Version c) (gr_FenceToken q) (ge_others env 3 s)"
  obtain s2 r where t: "?t = (s2, r)" by fastforce
  with assms True obtain v where r: "r = Inr v"
    by (cases r) (auto simp: gateway_run_def bind_svc_def interfere_def try_svc_def query_def fail_def ret_def split: sum.splits if_splits)
  with assms True t fenced_transition(1) [OF t [unfolded r]] show ?thesis
    by (simp add: gateway_run_def bind_svc_def interfere_def try_svc_def ret_def)
next
  case False
  then show ?thesis using assms by (auto simp: gateway_run_def guard_svc_Inr ret_def)
qed

text \<open>What holds of the call with which a request goes on: it is the request's, and at a call found running the request stops.\<close>

lemma gateway_claim_of:
  assumes "gateway_claim env q st key c s = (s1, Inr (Proceed c' b))"
  shows "of_request q st key c' = of_request q st key c" "tc_RequestDigest c' = tc_RequestDigest c"
    "tool_key c' = tool_key c" "tc_State c' = ToolCallRunning" "b = (tc_State c \<noteq> ToolCallRunning)"
proof -
  have "(of_request q st key c' = of_request q st key c \<and> tc_RequestDigest c' = tc_RequestDigest c \<and> tool_key c' = tool_key c)
    \<and> tc_State c' = ToolCallRunning \<and> b = (tc_State c \<noteq> ToolCallRunning)"
  proof (cases "tc_State c = ToolCallProposed")
    case True
    obtain s0 s2 v where t: "TransitionFencedToolCall (ge_id env 2) (ge_now env 2) (authorized_call env c) (tc_Version c) (gr_FenceToken q) s0 = (s2, Inr v)"
      and run: "gateway_run env q st key v s2 = (s1, Inr (Proceed c' b))"
      using assms [unfolded gateway_claim_def if_P [OF True] bind_svc_Inr] by blast
    from gateway_run_of [OF run [unfolded fenced_transition(1) [OF t]]] True show ?thesis by auto
  next
    case False
    then have "gateway_run env q st key c s = (s1, Inr (Proceed c' b))" using assms by (simp add: gateway_claim_def)
    from gateway_run_of [OF this] show ?thesis by auto
  qed
  then show "of_request q st key c' = of_request q st key c" "tc_RequestDigest c' = tc_RequestDigest c"
    "tool_key c' = tool_key c" "tc_State c' = ToolCallRunning" "b = (tc_State c \<noteq> ToolCallRunning)" by blast+
qed

text \<open>How a request that is not answered from the ledger succeeds.\<close>

lemma Gateway_Call_ok:
  assumes "Gateway_Call env request s = (s', Inr r)" and "\<not> gx_Replayed r"
  obtains st key c b s1 c' b' s2 where "gateway_admit env (gateway_trim request) s = Inr (st, key)"
    "gateway_open env (gateway_trim request) st key s = (s1, Inr (Proceed c b))"
    "gateway_claim env (gateway_trim request) st key c s1 = (s2, Inr (Proceed c' b'))" "\<not> (\<not> b' \<and> b)"
    "gateway_finish env (gateway_trim request) st key c' s2 = (s', Inr r)"
proof -
  let ?q = "gateway_trim request"
  have replay: "gx_Replayed r" if "gatewayTerminalReplay env call = Inr r" for call
    using that by (auto simp: gatewayTerminalReplay_def Let_def split: tool_state.splits)
  obtain st key where a: "gateway_admit env ?q s = Inr (st, key)"
    and o: "bind_svc (gateway_open env ?q st key) (gateway_continue env ?q st key) s = (s', Inr r)"
    using assms(1) unfolding Gateway_Call_def Let_def bind_query_Inr by auto
  then obtain s1 step where 1: "gateway_open env ?q st key s = (s1, Inr step)" "gateway_continue env ?q st key step s1 = (s', Inr r)"
    unfolding bind_svc_Inr by blast
  then obtain c b where step: "step = Proceed c b"
    using replay assms(2) by (cases step) (auto simp: gateway_continue_def query_Inr)
  obtain s2 step' where 2: "gateway_claim env ?q st key c s1 = (s2, Inr step')"
    "(case step' of Replay call' \<Rightarrow> query (\<lambda>_. gatewayTerminalReplay env call')
       | Proceed call' claimed \<Rightarrow> guard_svc (\<not> (tc_State call' = ToolCallRunning \<and> \<not> claimed \<and> b)) in_progress
           (gateway_finish env ?q st key call')) s2 = (s', Inr r)"
    using 1(2) [unfolded step gateway_continue_def gateway_step.case bind_svc_Inr] by blast
  then obtain c' b' where step': "step' = Proceed c' b'"
    using replay assms(2) by (cases step') (auto simp: query_Inr)
  with 2 have "\<not> (tc_State c' = ToolCallRunning \<and> \<not> b' \<and> b)" "gateway_finish env ?q st key c' s2 = (s', Inr r)"
    by (simp_all add: guard_svc_Inr)
  then show ?thesis using that a 1(1) 2(1) gateway_claim_of(4) [OF 2(1) [unfolded step']] unfolding step step' by blast
qed

lemma gateway_admit_ok:
  assumes "gateway_admit env q s = Inr (st, key)"
  shows "gatewayIdempotencyKey q = Inr key" "gateway_authorize (ge_now env 0) q s = Inr st"
  using assms unfolding gateway_admit_def require_Inr by auto

lemma gateway_authorize_ok:
  assumes "gateway_authorize now q s = Inr st"
  shows "Store_RuntimeAttempt (gr_TenantID q) (gr_AttemptID q) s = Inr (gc_attempt st)"
    "Store_AgentInstance (gr_TenantID q) (ra_AgentInstanceID (gc_attempt st)) s = Inr (gc_agent st)"
    "Store_ContextView (gr_TenantID q) (ra_ContextViewID (gc_attempt st)) s = Inr (gc_view st)"
    "ra_State (gc_attempt st) = RuntimeAttemptRunning" "ra_FenceToken (gc_attempt st) = gr_FenceToken q"
    "after_opt (ra_LeaseExpiresAt (gc_attempt st)) now" "gateway_scope_ok q (gc_attempt st) (gc_node st) (gc_agent st) (gc_view st)"
    "ai_State (gc_agent st) = AgentActive" "cv_ExpiresAt (gc_view st) > now" "AllowsTool (gc_view st) (gr_ToolName q)"
  using assms unfolding gateway_authorize_def by auto

subsection \<open>Properties\<close>

text \<open>
  C25. A tool runs only for an attempt in good standing, and its result is only handed out to one. When the gateway
  answers a request with a fresh result, whatever other requests did in between, the attempt it names was running with
  the presented fence token and an unexpired lease when the request was admitted, its agent was active, and the context
  view frozen for that attempt had not expired and lists the tool; and in the very store the answer leaves, in which the
  call is filed with its result, the attempt holds fence and lease at the time of recording. The recorded call is of that
  attempt and tool, carries the digest of this very request, and its result fits the limit.
\<close>

theorem gateway_governed:
  assumes "Gateway_Call env request s = (s', Inr r)" and "\<not> gx_Replayed r"
  defines "q \<equiv> gateway_trim request"
  shows "\<exists>attempt agent view key.
      Store_RuntimeAttempt (gr_TenantID q) (gr_AttemptID q) s = Inr attempt
    \<and> ra_State attempt = RuntimeAttemptRunning \<and> ra_FenceToken attempt = gr_FenceToken q
    \<and> after_opt (ra_LeaseExpiresAt attempt) (ge_now env 0)
    \<and> Store_AgentInstance (gr_TenantID q) (ra_AgentInstanceID attempt) s = Inr agent \<and> ai_State agent = AgentActive
    \<and> Store_ContextView (gr_TenantID q) (ra_ContextViewID attempt) s = Inr view \<and> cv_AttemptID view = ra_ID attempt
    \<and> cv_ExpiresAt view > ge_now env 0 \<and> AllowsTool view (gr_ToolName q)
    \<and> validateAttemptFenceLocked s' (gr_TenantID q) (ra_ID attempt) (gr_FenceToken q) (ge_now env 7) = None
    \<and> mget (runtimeToolCalls s') (tool_key (gx_ToolCall r)) = Some (gx_ToolCall r)
    \<and> tc_State (gx_ToolCall r) = ToolCallSucceeded \<and> tc_AttemptID (gx_ToolCall r) = ra_ID attempt
    \<and> tc_ToolName (gx_ToolCall r) = gr_ToolName q \<and> gatewayIdempotencyKey q = Inr key
    \<and> tc_RequestDigest (gx_ToolCall r) = gateway_digest env q key
    \<and> tc_SafeResult (gx_ToolCall r) = ge_clone env (gx_Result r) \<and> ge_len env (gx_Result r) \<le> maxGatewayResult"
proof -
  from assms(1,2) obtain st key c b s1 c' b' s2 where a: "gateway_admit env q s = Inr (st, key)"
    and o: "gateway_open env q st key s = (s1, Inr (Proceed c b))"
    and cl: "gateway_claim env q st key c s1 = (s2, Inr (Proceed c' b'))"
    and f: "gateway_finish env q st key c' s2 = (s', Inr r)" unfolding q_def by (rule Gateway_Call_ok)
  note key = gateway_admit_ok(1) [OF a] and auth = gateway_authorize_ok [OF gateway_admit_ok(2) [OF a]]
  have "TrimSpace key = key" using idempotency_key_trimmed key unfolding q_def by blast
  note of = gateway_open_of [OF o this, folded gateway_claim_of(1,2) [OF cl]]
  from f obtain s3 result where r: "r = \<lparr>gx_ToolCall = succeeded_call env result c', gx_Result = result, gx_Replayed = False\<rparr>"
    and len: "ge_len env result \<le> maxGatewayResult"
    and t: "TransitionFencedToolCall (ge_id env 6) (ge_now env 7) (succeeded_call env result c') (tc_Version c') (gr_FenceToken q)
       (ge_others env 5 s3) = (s', Inr (succeeded_call env result c'))" by (rule gateway_finish_ok)
  have of': "of_request q st key (succeeded_call env result c')" using of(1) by simp
  have "cv_AttemptID (gc_view st) = ra_ID (gc_attempt st)" using auth(7) by (simp add: gateway_scope_ok_def)
  moreover have "TrimSpace (gr_FenceToken q) = gr_FenceToken q" by (simp add: q_def gateway_trim_def)
  moreover have "validateAttemptFenceLocked s' t a f now = validateAttemptFenceLocked (ge_others env 5 s3) t a f now" for t a f now
    by (simp add: validateAttemptFenceLocked_def fenced_transition(3) [OF t])
  ultimately show ?thesis
    using auth key of(2) of' len fenced_transition(2,4) [OF t] unfolding of_request_def
    by (intro exI [of _ "gc_attempt st"] exI [of _ "gc_agent st"] exI [of _ "gc_view st"] exI [of _ key]) (simp add: r)
qed

text \<open>Where a call is filed: any state of it, written at its key, is the one the request finds.\<close>

definition lands :: "GatewayRequest \<Rightarrow> gatewayContext \<Rightarrow> string \<Rightarrow> string \<Rightarrow> ToolCall gomap \<Rightarrow> bool" where
  "lands q st key k m =
     (\<forall>v. tool_key v = k \<longrightarrow> of_request q st key v \<longrightarrow> find (of_request q st key) (mvals (mput k v m)) = Some v)"

declare mput_mput [simp]

lemma lands_mput: "lands q st key k m \<Longrightarrow> lands q st key k (mput k w m)"
  by (simp add: lands_def)

lemma alone_open:
  assumes "gateway_open env q st key s = (s1, Inr (Proceed c b))" and "ge_others env = (\<lambda>_. id)"
    and "keyed tool_key (runtimeToolCalls s)" and "TrimSpace (gr_TenantID q) = gr_TenantID q"
  shows "lands q st key (tool_key c) (runtimeToolCalls s1)" "runtimeAttempts s1 = runtimeAttempts s"
proof -
  have "lands q st key (tool_key c) (runtimeToolCalls s1) \<and> runtimeAttempts s1 = runtimeAttempts s"
  proof (cases "findExisting q st key s")
    case (Inr p)
    then have "s1 = s" "p = c" using assms(1)
      by (auto simp: gateway_open_def try_svc_def query_def gateway_reuse_def guard_svc_Inr ret_def split: if_splits)
    moreover have "find (of_request q st key) (mvals (runtimeToolCalls s)) = Some p"
      using Inr by (simp add: findExisting_find lookup_or_Inr)
    ultimately show ?thesis using find_mput_keyed [OF assms(3)] by (simp add: lands_def)
  next
    case (Inl e)
    then have none: "find (of_request q st key) (mvals (runtimeToolCalls s)) = None"
      by (auto simp: findExisting_find lookup_or_def split: option.splits)
    let ?call = "gateway_call env q st key"
    let ?c = "CreateFencedToolCall (ge_id env 1) (ge_now env 1) ?call (gr_FenceToken q) s"
    have keep: "fst ?c = s" if "isl (snd ?c)"
      using that by (auto simp: CreateFencedToolCall_def createToolCall_def Let_def guard_svc_def fail_def ret_def
        bind_svc_def query_def exec_def split: sum.splits prod.splits if_splits)
    have o: "(case snd ?c of Inr _ \<Rightarrow> ret (Proceed ?call False)
       | Inl err \<Rightarrow> try_svc (bind_svc (interfere env 1) (\<lambda>_. query (findExisting q st key))) (\<lambda>r. case r of
            Inl _ \<Rightarrow> fail err | Inr x \<Rightarrow> gateway_reuse env q key False x)) (fst ?c) = (s1, Inr (Proceed c b))"
      using Inl assms(1) by (simp add: gateway_open_def try_svc_def query_def bind_svc_def interfere_def fail_def Let_def assms(2)
        del: One_nat_def split: if_splits)
    then obtain u where u: "snd ?c = Inr u"
      using keep Inl by (cases "snd ?c") (auto simp: try_svc_def query_def fail_def bind_svc_def interfere_def assms(2))
    then have c: "c = ?call" "s1 = fst ?c" using o by (auto simp: ret_def)
    from u have "?c = (s1, Inr u)" using c(2) by (metis prod.collapse)
    then have "runtimeToolCalls s1 = mput (tool_key (tool_defaults (ge_now env 1) ?call)) (tool_defaults (ge_now env 1) ?call) (runtimeToolCalls s)"
      "runtimeAttempts s1 = runtimeAttempts s"
      by (auto simp: CreateFencedToolCall_def createToolCall_def Let_def guard_svc_Inr bind_svc_Inr query_Inr exec_Inr ret_Inr
        RegisterFencedToolCallCommand_def put_tool_def)
    moreover have "tool_key (tool_defaults (ge_now env 1) ?call) = tool_key c"
      by (simp add: c tool_key_def tool_defaults_def gateway_call_def Let_def assms(4))
    moreover have "lands q st key (tool_key c) (runtimeToolCalls s)" using find_mput_new [OF none] by (simp add: lands_def)
    ultimately show ?thesis using lands_mput by metis
  qed
  then show "lands q st key (tool_key c) (runtimeToolCalls s1)" "runtimeAttempts s1 = runtimeAttempts s" by blast+
qed

lemma alone_claim:
  assumes "gateway_claim env q st key c s = (s1, Inr (Proceed c' b))" and "ge_others env = (\<lambda>_. id)"
    and "lands q st key (tool_key c) (runtimeToolCalls s)"
  shows "lands q st key (tool_key c) (runtimeToolCalls s1)" "runtimeAttempts s1 = runtimeAttempts s"
proof -
  have run: "lands q st key (tool_key x) (runtimeToolCalls s1) \<and> runtimeAttempts s1 = runtimeAttempts s0"
    if "gateway_run env q st key x s0 = (s1, Inr (Proceed c' b))" "lands q st key (tool_key x) (runtimeToolCalls s0)" for x s0
    using gateway_run_of [OF that(1)]
  proof (elim disjE conjE)
    assume x: "c' = running_call env x"
      and t: "TransitionFencedToolCall (ge_id env 3) (ge_now env 3) c' (tc_Version x) (gr_FenceToken q) (ge_others env 3 s0) = (s1, Inr c')"
    from fenced_transition(2,3) [OF t] show ?thesis using lands_mput [OF that(2)] by (simp add: x assms(2))
  qed (use that(2) in simp)
  have "lands q st key (tool_key c) (runtimeToolCalls s1) \<and> runtimeAttempts s1 = runtimeAttempts s"
  proof (cases "tc_State c = ToolCallProposed")
    case True
    obtain s2 v where t: "TransitionFencedToolCall (ge_id env 2) (ge_now env 2) (authorized_call env c) (tc_Version c) (gr_FenceToken q) s = (s2, Inr v)"
      and r: "gateway_run env q st key v s2 = (s1, Inr (Proceed c' b))"
      using assms(1) [unfolded gateway_claim_def if_P [OF True] bind_svc_Inr interfere_def assms(2)] by auto
    from run [OF r [unfolded fenced_transition(1) [OF t]]] show ?thesis
      using fenced_transition(2,3) [OF t] lands_mput [OF assms(3)] by simp
  next
    case False
    then show ?thesis using assms(1,3) run [of c s] by (simp add: gateway_claim_def)
  qed
  then show "lands q st key (tool_key c) (runtimeToolCalls s1)" "runtimeAttempts s1 = runtimeAttempts s" by blast+
qed

lemma execute_ledger:
  assumes "gateway_execute env st tool args key s = (s1, r)" and "ge_others env = (\<lambda>_. id)"
  shows "ledger_same s s1"
proof -
  have "tool_ledger.quiet env" by (simp add: tool_ledger.quiet_def assms(2))
  from tool_ledger.gateway_execute_steps [OF this] have "ledger_same\<^sup>*\<^sup>* s s1"
    using assms(1) unfolding steps_of_def by (metis fst_conv)
  then show ?thesis by (rule ledger_same_rtrancl)
qed

lemma gateway_admit_context:
  assumes "gateway_admit env q s = Inr (st, key)" "gateway_admit env' q s' = Inr (st', key')" "runtimeAttempts s' = runtimeAttempts s"
  shows "key' = key" "gc_attempt st' = gc_attempt st"
proof -
  show "key' = key" using gateway_admit_ok(1) [OF assms(1)] gateway_admit_ok(1) [OF assms(2)] by simp
  from gateway_authorize_ok(1) [OF gateway_admit_ok(2) [OF assms(1)]] gateway_authorize_ok(1) [OF gateway_admit_ok(2) [OF assms(2)]]
  show "gc_attempt st' = gc_attempt st" by (simp add: Store_RuntimeAttempt_def assms(3))
qed

text \<open>
  C26. A request is executed once, however often it is sent. When the gateway has answered a request with a fresh result
  and no other request acted meanwhile, the same request, as long as the attempt may still call the tool, is answered
  again with the recorded call and its result, marked as replayed, and the store does not change.
\<close>

theorem gateway_replays:
  assumes "Gateway_Call env request s = (s', Inr r)" and "\<not> gx_Replayed r" and "ge_others env = (\<lambda>_. id)"
    and "keyed tool_key (runtimeToolCalls s)" and "ge_hash env' = ge_hash env"
    and "gateway_admit env' (gateway_trim request) s' = Inr (st', key')"
  shows "Gateway_Call env' request s' =
    (s', Inr \<lparr>gx_ToolCall = gx_ToolCall r, gx_Result = ge_clone env' (ge_clone env (gx_Result r)), gx_Replayed = True\<rparr>)"
proof -
  let ?q = "gateway_trim request"
  from assms(1,2) obtain st key c b s1 c' b' s2 where a: "gateway_admit env ?q s = Inr (st, key)"
    and o: "gateway_open env ?q st key s = (s1, Inr (Proceed c b))"
    and cl: "gateway_claim env ?q st key c s1 = (s2, Inr (Proceed c' b'))"
    and f: "gateway_finish env ?q st key c' s2 = (s', Inr r)" by (rule Gateway_Call_ok)
  have trim: "TrimSpace (gr_TenantID ?q) = gr_TenantID ?q" by (simp add: gateway_trim_def)
  have kt: "TrimSpace key = key" using idempotency_key_trimmed gateway_admit_ok(1) [OF a] by blast
  note l1 = alone_open [OF o assms(3,4) trim]
  note l2 = alone_claim [OF cl assms(3) l1(1)]
  note of = gateway_open_of [OF o kt, folded gateway_claim_of(1,2) [OF cl]]
  from f obtain s3 result where x: "gateway_execute env st (gr_ToolName ?q) (gr_Arguments ?q) key s2 = (s3, Inr result)"
    and r: "r = \<lparr>gx_ToolCall = succeeded_call env result c', gx_Result = result, gx_Replayed = False\<rparr>"
    and t: "TransitionFencedToolCall (ge_id env 6) (ge_now env 7) (succeeded_call env result c') (tc_Version c') (gr_FenceToken ?q) s3
      = (s', Inr (succeeded_call env result c'))" by (rule gateway_finish_ok) (simp add: assms(3))
  from execute_ledger [OF x assms(3)] have e: "runtimeToolCalls s3 = runtimeToolCalls s2" "runtimeAttempts s3 = runtimeAttempts s2"
    by (simp_all add: ledger_same_def)
  have same: "runtimeAttempts s' = runtimeAttempts s" using fenced_transition(3) [OF t] e l1(2) l2(2) by simp
  note ctx = gateway_admit_context [OF a assms(6) same]
  have "of_request ?q st key (succeeded_call env result c')" using of(1) by simp
  then have "find (of_request ?q st key) (mvals (runtimeToolCalls s')) = Some (succeeded_call env result c')"
    using l2(1) fenced_transition(2) [OF t] e(1) gateway_claim_of(3) [OF cl] by (simp add: lands_def)
  moreover have "of_request ?q st' key' = of_request ?q st key" by (auto simp: of_request_def ctx)
  ultimately have found: "findExisting ?q st' key' s' = Inr (succeeded_call env result c')"
    by (simp add: findExisting_find lookup_or_Inr)
  have "tc_RequestDigest (succeeded_call env result c') = gateway_digest env' ?q key'"
    using of(2) by (simp add: gateway_digest_def ctx assms(5))
  with found assms(6) show ?thesis
    by (simp add: Gateway_Call_def bind_svc_def query_def gateway_open_def try_svc_def gateway_reuse_def guard_svc_def ret_def
      gateway_continue_def gatewayTerminalReplay_def Let_def r)
qed

subsection \<open>Examples\<close>

definition ex_active :: Store where
  "ex_active = ex_planned\<lparr>
     runtimeNodes := [(''t:na'', ex_dnode NodeRunning 3), (''t:nb'', ex_noderun ''nb'' ''b'' NodePending)],
     runtimeAttempts := [(''t:at'', ex_attempt RuntimeAttemptRunning 2)],
     runtimeAgents := [(''t:ag'', ex_dagent AgentActive 2)],
     runtimeContextViews := [(''t:at'', (ex_view ''at'')\<lparr>cv_AllowedTools := [''child.list'']\<rparr>)]\<rparr>"

definition ex_genv :: "string \<Rightarrow> (nat \<Rightarrow> Store \<Rightarrow> Store) \<Rightarrow> gateway_env" where
  "ex_genv i others = \<lparr>ge_hash = (\<lambda>_. ''h''), ge_sha256 = (\<lambda>_. ''s''), ge_len = (\<lambda>p. int (length p)), ge_clone = (\<lambda>p. p),
     ge_now = (\<lambda>_. 20), ge_id = (\<lambda>n. i @ replicate n CHR ''i''), ge_others = others\<rparr>"

definition ex_request :: GatewayRequest where
  "ex_request = \<lparr>gr_TenantID = ''t'', gr_AttemptID = ''at'', gr_FenceToken = ''f'', gr_ToolName = ''child.list'',
     gr_RequestID = ''q'', gr_Arguments = []\<rparr>"

definition ex_claim :: "Store \<Rightarrow> Store" where
  "ex_claim s = fst ((bind_svc (query (gateway_admit (ex_genv ''a'' (\<lambda>_. id)) ex_request)) (\<lambda>(st, key).
     bind_svc (gateway_open (ex_genv ''a'' (\<lambda>_. id)) ex_request st key) (\<lambda>step. case step of
       Proceed call _ \<Rightarrow> gateway_claim (ex_genv ''a'' (\<lambda>_. id)) ex_request st key call
     | Replay c \<Rightarrow> ret (Replay c)))) s)"

definition ex_serve :: "string \<Rightarrow> (nat \<Rightarrow> Store \<Rightarrow> Store) \<Rightarrow> Store \<Rightarrow> Store \<times> GatewayResponse res" where
  "ex_serve i others = Gateway_Call (ex_genv i others) ex_request"

lemma Gateway_Call_denied: "isl (gateway_admit env (gateway_trim q) s) \<Longrightarrow> isl (snd (Gateway_Call env q s))"
  by (auto simp: Gateway_Call_def Let_def bind_svc_def query_def isl_def)

lemma ex_served:
  "\<exists>r st key. ex_serve ''a'' (\<lambda>_. id) ex_active = (fst (ex_serve ''a'' (\<lambda>_. id) ex_active), Inr r) \<and> \<not> gx_Replayed r
     \<and> gateway_admit (ex_genv ''b'' (\<lambda>_. id)) (gateway_trim ex_request) (fst (ex_serve ''a'' (\<lambda>_. id) ex_active)) = Inr (st, key)"
proof -
  let ?p = "ex_serve ''a'' (\<lambda>_. id) ex_active"
  have "(case ?p of (s', Inl _) \<Rightarrow> False | (s', Inr r) \<Rightarrow> \<not> gx_Replayed r
     \<and> \<not> isl (gateway_admit (ex_genv ''b'' (\<lambda>_. id)) (gateway_trim ex_request) s'))" by code_simp
  then show ?thesis by (cases ?p; cases "snd ?p"; cases "gateway_admit (ex_genv ''b'' (\<lambda>_. id)) (gateway_trim ex_request) (fst ?p)") auto
qed

theorem gateway_governed_witness:
  "\<exists>s' r. ex_serve ''a'' (\<lambda>_. id) ex_active = (s', Inr r) \<and> \<not> gx_Replayed r \<and> tc_State (gx_ToolCall r) = ToolCallSucceeded
     \<and> isl (snd (Gateway_Call (ex_genv ''a'' (\<lambda>_. id)) (ex_request\<lparr>gr_ToolName := ''state.get''\<rparr>) ex_active))
     \<and> isl (snd (Gateway_Call (ex_genv ''a'' (\<lambda>_. id)) (ex_request\<lparr>gr_FenceToken := ''g''\<rparr>) ex_active))"
proof -
  let ?p = "ex_serve ''a'' (\<lambda>_. id) ex_active"
  obtain r where r: "?p = (fst ?p, Inr r)" "\<not> gx_Replayed r" using ex_served by blast
  have "isl (gateway_admit (ex_genv ''a'' (\<lambda>_. id)) (gateway_trim (ex_request\<lparr>gr_ToolName := ''state.get''\<rparr>)) ex_active)"
    "isl (gateway_admit (ex_genv ''a'' (\<lambda>_. id)) (gateway_trim (ex_request\<lparr>gr_FenceToken := ''g''\<rparr>)) ex_active)" by code_simp+
  from this [THEN Gateway_Call_denied] r gateway_governed [OF r(1) [unfolded ex_serve_def] r(2)] show ?thesis by blast
qed

theorem gateway_replays_witness:
  "\<exists>s' r r'. ex_serve ''a'' (\<lambda>_. id) ex_active = (s', Inr r) \<and> \<not> gx_Replayed r
     \<and> ex_serve ''b'' (\<lambda>_. id) s' = (s', Inr r') \<and> gx_Replayed r' \<and> gx_ToolCall r' = gx_ToolCall r"
proof -
  let ?p = "ex_serve ''a'' (\<lambda>_. id) ex_active"
  obtain r st key where r: "?p = (fst ?p, Inr r)" "\<not> gx_Replayed r"
    and a: "gateway_admit (ex_genv ''b'' (\<lambda>_. id)) (gateway_trim ex_request) (fst ?p) = Inr (st, key)" using ex_served by blast
  have "runtimeToolCalls ex_active = []" by code_simp
  then have k: "keyed tool_key (runtimeToolCalls ex_active)" by (simp add: keyed_def wf_map_def)
  have "ge_others (ex_genv ''a'' (\<lambda>_. id)) = (\<lambda>_. id)" "ge_hash (ex_genv ''b'' (\<lambda>_. id)) = ge_hash (ex_genv ''a'' (\<lambda>_. id))"
    by (simp_all add: ex_genv_def)
  from gateway_replays [OF r(1) [unfolded ex_serve_def] r(2) this(1) k this(2) a [unfolded ex_serve_def]] r
  show ?thesis unfolding ex_serve_def by fastforce
qed

text \<open>
  C38. Two requests with the same idempotency key can both execute the tool. A request that finds no call, and whose
  attempt to register one is refused because another request registered and claimed it in between, goes on with that
  running call as if it had claimed it: it executes the tool and records a result. The other request, which holds the
  claim, then cannot record its own. The same request arriving a moment later is refused, as it should be.
\<close>

theorem gateway_runs_twice:
  "(\<exists>s' r c. ex_serve ''b'' (\<lambda>k. if k = 0 then ex_claim else id) ex_active = (s', Inr r) \<and> \<not> gx_Replayed r
     \<and> mget (runtimeToolCalls (ex_claim ex_active)) (tool_key (gx_ToolCall r)) = Some c \<and> tc_State c = ToolCallRunning
     \<and> isl (snd (TransitionFencedToolCall ''e'' 20 (succeeded_call (ex_genv ''a'' (\<lambda>_. id)) [] c) (tc_Version c) ''f'' s')))
   \<and> ex_serve ''b'' (\<lambda>_. id) (ex_claim ex_active) = (ex_claim ex_active, Inl in_progress)"
proof -
  let ?p = "ex_serve ''b'' (\<lambda>k. if k = 0 then ex_claim else id) ex_active"
  have "(case (?p, ex_claim ex_active) of ((s', Inl _), s1) \<Rightarrow> False | ((s', Inr r), s1) \<Rightarrow> \<not> gx_Replayed r
     \<and> (case mget (runtimeToolCalls s1) (tool_key (gx_ToolCall r)) of None \<Rightarrow> False | Some c \<Rightarrow>
       tc_State c = ToolCallRunning
     \<and> isl (snd (TransitionFencedToolCall ''e'' 20 (succeeded_call (ex_genv ''a'' (\<lambda>_. id)) [] c) (tc_Version c) ''f'' s')))
     \<and> ex_serve ''b'' (\<lambda>_. id) s1 = (s1, Inl in_progress))" by code_simp
  then show ?thesis by (auto split: prod.splits sum.splits option.splits)
qed

end
