(* ===== verification/Remote_Workers.thy ===== *)
theory Remote_Workers
  imports Dispatch_Service Provider_Store
begin

section \<open>Remote workers: rebuilding a handle, receiving callbacks\<close>

text \<open>
  A remote worker keeps only the identifier of its attempt and a fence token: \<^verbatim>\<open>LoadDispatchHandle\<close> (dispatch.go)
  rebuilds the handle from the store, decoding the frozen capability snapshot, and \<^verbatim>\<open>ReceiveAgentCallback\<close>
  (agent_callback.go) records a harness event in the inbox before it applies it to the attempt, so that a message can
  be sent again after a crash.

  The codec, hashes and identifiers are those of \<open>Dispatch_Service\<close>. A snapshot is decoded by its exact field names
  (\<^verbatim>\<open>encoding/json\<close> would also accept other letter cases; the runtime only ever writes the exact ones). Of the results
  that accompany an error only the error is kept.
\<close>

subsection \<open>Handles (dispatch.go)\<close>

fun field_str :: "goany option \<Rightarrow> string option" where
  "field_str None = Some ''''"
| "field_str (Some ANull) = Some ''''"
| "field_str (Some (AStr v)) = Some v"
| "field_str _ = None"

fun field_bool :: "goany option \<Rightarrow> bool option" where
  "field_bool None = Some False"
| "field_bool (Some ANull) = Some False"
| "field_bool (Some (ABool b)) = Some b"
| "field_bool _ = None"

fun field_int :: "goany option \<Rightarrow> int option" where
  "field_int None = Some 0"
| "field_int (Some ANull) = Some 0"
| "field_int (Some (AInt n)) = Some n"
| "field_int _ = None"

definition decode_capabilities :: "payload \<Rightarrow> HarnessCapabilities option" where
  "decode_capabilities m =
     (case (field_str (mget m ''kind''), field_str (mget m ''version''), field_bool (mget m ''events''), field_bool (mget m ''resume''),
        field_bool (mget m ''fork''), field_bool (mget m ''mcp_stdio''), field_bool (mget m ''mcp_http''),
        field_bool (mget m ''structured_output''), field_str (mget m ''sandbox_profile''),
        field_int (mget m ''max_parallel_sessions''), field_bool (mget m ''transcript_export'')) of
        (Some k, Some v, Some e, Some r, Some f, Some ms, Some mh, Some so, Some sp, Some mp, Some te) \<Rightarrow>
          Some \<lparr>hc_Kind = k, hc_Version = v, hc_Events = e, hc_Resume = r, hc_Fork = f, hc_MCPStdio = ms, hc_MCPHTTP = mh,
            hc_StructuredOutput = so, hc_SandboxProfile = sp, hc_MaxParallelSessions = mp, hc_TranscriptExport = te\<rparr>
      | _ \<Rightarrow> None)"

definition harnessCapabilitiesFromMap :: "string \<Rightarrow> payload \<Rightarrow> HarnessCapabilities res" where
  "harnessCapabilitiesFromMap kind values =
     (case decode_capabilities values of
        None \<Rightarrow> Inl (Invalid ''AGENT_HARNESS_CAPABILITIES_INVALID'')
      | Some c0 \<Rightarrow>
          let k0 = ToLower (TrimSpace (hc_Kind c0)); want = ToLower (TrimSpace kind);
              c = c0\<lparr>hc_Kind := (if k0 = '''' then want else k0)\<rparr> in
          require (\<not> (hc_Kind c \<noteq> want \<or> \<not> hc_Events c \<or> \<not> hc_StructuredOutput c))
            (Conflict ''AGENT_HARNESS_CAPABILITIES_INVALID'') (Inr c))"

definition bound_session :: "json_codec \<Rightarrow> RuntimeAttempt \<Rightarrow> HarnessCapabilities \<Rightarrow> AgentSessionRef option" where
  "bound_session codec attempt cap =
     (if ra_SessionRef attempt \<noteq> '''' \<and> hc_Resume cap then
        (case jc_to_session codec (ra_SessionRef attempt) of
           Some session \<Rightarrow> if se_SessionID session \<noteq> '''' \<and> se_HarnessKind session = ra_HarnessKind attempt then Some session else None
         | None \<Rightarrow> None)
      else None)"

definition LoadDispatchHandle :: "json_codec \<Rightarrow> string \<Rightarrow> string \<Rightarrow> Store \<Rightarrow> DispatchHandle res" where
  "LoadDispatchHandle codec tenantID attemptID s =
     bind_res (Store_RuntimeAttempt tenantID attemptID s) (\<lambda>attempt.
     bind_res (Store_NodeRun tenantID (ra_NodeRunID attempt) s) (\<lambda>node.
     bind_res (Store_ContextView tenantID (ra_ContextViewID attempt) s) (\<lambda>view.
     bind_res (Store_AgentInstance tenantID (ra_AgentInstanceID attempt) s) (\<lambda>agent.
     bind_res (harnessCapabilitiesFromMap (ra_HarnessKind attempt) (ra_Capabilities attempt)) (\<lambda>cap.
     Inr \<lparr>dh_Node = node, dh_Attempt = attempt, dh_ContextView = view, dh_Agent = agent, dh_Capabilities = cap,
          dh_GatewayToken = '''', dh_ResumeSession = bound_session codec attempt cap, dh_LeaseFor = DefaultNodeLeaseDuration\<rparr>)))))"

text \<open>The local dispatch, on the harness that the registry resolves.\<close>

definition Service_PrepareDispatch ::
    "(goany \<Rightarrow> string) \<Rightarrow> json_codec \<Rightarrow> (dispatch_ids \<times> time \<times> (Store \<Rightarrow> Store)) list \<Rightarrow> fault
     \<Rightarrow> (string \<Rightarrow> HarnessCapabilities res) \<Rightarrow> DispatchInput \<Rightarrow> DispatchHandle svc" where
  "Service_PrepareDispatch hash codec rounds ctxErr resolve input =
     bind_svc (query (\<lambda>_. resolve (di_HarnessKind input))) (\<lambda>cap.
     prepareDispatchWithRetry hash codec rounds ctxErr input cap)"

subsection \<open>Callbacks (agent_callback.go)\<close>

record AgentCallbackInput =
  ac_TenantID :: string
  ac_HarnessKind :: string
  ac_MessageID :: string
  ac_AttemptID :: string
  ac_SessionID :: string
  ac_EventType :: string
  ac_Data :: string
  ac_ErrorCode :: string
  ac_OccurredAt :: time
  ac_ReceivedAt :: time
  ac_ReceivedDigest :: string

record AgentCallbackResult =
  ax_Message :: ProviderInboxMessage
  ax_Attempt :: RuntimeAttempt
  ax_Node :: NodeRun
  ax_Job :: "JobRun option"
  ax_Applied :: bool
  ax_Replayed :: bool

record callback_env =
  ce_dispatch :: dispatch_env
  ce_id :: "nat \<Rightarrow> string"
  ce_now :: time

definition callback_trim :: "AgentCallbackInput \<Rightarrow> AgentCallbackInput" where
  "callback_trim i =
     i\<lparr>ac_TenantID := TrimSpace (ac_TenantID i), ac_HarnessKind := ToLower (TrimSpace (ac_HarnessKind i)),
       ac_MessageID := TrimSpace (ac_MessageID i), ac_AttemptID := TrimSpace (ac_AttemptID i),
       ac_SessionID := TrimSpace (ac_SessionID i), ac_EventType := safeEventType (ac_EventType i),
       ac_ErrorCode := safeErrorCode (ac_ErrorCode i) ''''\<rparr>"

definition supportedAgentCallbackEvent :: "string \<Rightarrow> bool" where
  "supportedAgentCallbackEvent eventType =
     (eventType \<in> {''session.started'', ''session.resumed'', ''session.progress'', ''usage.reported'', ''result.completed'',
        ''session.failed'', ''session.interrupted'', ''runtime.yield''})"

definition callback_times :: "time \<Rightarrow> AgentCallbackInput \<Rightarrow> AgentCallbackInput" where
  "callback_times now i =
     i\<lparr>ac_OccurredAt := (if IsZero (ac_OccurredAt i) then now else ac_OccurredAt i),
       ac_ReceivedAt := (if IsZero (ac_ReceivedAt i) then now else ac_ReceivedAt i)\<rparr>"

definition boundAgentCallbackSession :: "json_codec \<Rightarrow> RuntimeAttempt \<Rightarrow> AgentCallbackInput \<Rightarrow> AgentSessionRef res" where
  "boundAgentCallbackSession codec attempt input =
     require (ra_HarnessKind attempt = ac_HarnessKind input) (Conflict ''AGENT_CALLBACK_HARNESS_MISMATCH'') (
     lookup_or (Conflict ''HARNESS_SESSION_MISMATCH'')
       (if ra_SessionRef attempt = '''' then None else jc_to_session codec (ra_SessionRef attempt)) (\<lambda>session.
     require (\<not> (se_HarnessKind session \<noteq> ac_HarnessKind input \<or> se_SessionID session \<noteq> ac_SessionID input
                 \<or> (se_TenantID session \<noteq> '''' \<and> se_TenantID session \<noteq> ac_TenantID input)))
       (Conflict ''HARNESS_SESSION_MISMATCH'') (Inr session)))"

definition value_digest :: "(goany \<Rightarrow> string) \<Rightarrow> goany \<Rightarrow> string" where
  "value_digest hash v = (if v = ANull then '''' else ''sha256:'' @ hash v)"

definition agent_received_json :: "AgentCallbackInput \<Rightarrow> goany \<Rightarrow> goany" where
  "agent_received_json i v = AObj [(''HarnessKind'', AStr (ac_HarnessKind i)), (''MessageID'', AStr (ac_MessageID i)),
     (''AttemptID'', AStr (ac_AttemptID i)), (''SessionID'', AStr (ac_SessionID i)), (''EventType'', AStr (ac_EventType i)),
     (''Data'', v), (''ErrorCode'', AStr (ac_ErrorCode i)), (''OccurredAt'', ATime (Some (ac_OccurredAt i)))]"

definition newAgentInboxMessage :: "(goany \<Rightarrow> string) \<Rightarrow> string \<Rightarrow> AgentCallbackInput \<Rightarrow> DispatchHandle \<Rightarrow> goany \<Rightarrow> ProviderInboxMessage" where
  "newAgentInboxMessage hash newID i h v =
     (let payload0 = [(''attempt_id'', AStr (ac_AttemptID i)), (''session_id'', AStr (ac_SessionID i)),
            (''event_type'', AStr (ac_EventType i)), (''data_digest'', AStr (value_digest hash v))] in
      \<lparr>pi_ID = newID, pi_TenantID = ac_TenantID i, pi_JobRunID = ra_JobRunID (dh_Attempt h),
       pi_ProviderID = ''agent-harness:'' @ ac_HarnessKind i, pi_MessageID = ac_MessageID i,
       pi_ReceivedDigest = (if blank (ac_ReceivedDigest i) then ''sha256:'' @ hash (agent_received_json i v) else TrimSpace (ac_ReceivedDigest i)),
       pi_ExternalID = ac_SessionID i, pi_EffectID = '''', pi_ProviderState = ac_EventType i,
       pi_ResponseDigest = ''sha256:'' @ hash (AObj [(''EventType'', AStr (ac_EventType i)), (''DataDigest'', AStr (value_digest hash v)),
         (''ErrorCode'', AStr (ac_ErrorCode i))]),
       pi_CostMinor = 0, pi_Currency = ''CNY'',
       pi_SafePayload = (case v of AObj m \<Rightarrow> mput ''data'' (AObj (sanitizeSafeSummary m)) payload0 | _ \<Rightarrow> payload0),
       pi_State = ''received'', pi_ErrorCode = ac_ErrorCode i, pi_ReceivedAt = ac_ReceivedAt i, pi_ProcessedAt = None,
       pi_Version = 1, pi_CreatedAt = ac_ReceivedAt i, pi_UpdatedAt = ac_ReceivedAt i\<rparr>)"

text \<open>What a message does to the attempt: the handle and, when the attempt ended, the refreshed job.\<close>

definition finish_callback :: "callback_env \<Rightarrow> DispatchHandle \<Rightarrow> DispatchOutcome \<Rightarrow> (DispatchHandle \<times> JobRun option) svc" where
  "finish_callback cb h oc = bind_svc (finish_with (ce_dispatch cb) 0 (ce_now cb) h oc) (\<lambda>(h', job). ret (h', Some job))"

definition apply_callback ::
    "callback_env \<Rightarrow> AgentCallbackInput \<Rightarrow> AgentSessionRef \<Rightarrow> DispatchHandle \<Rightarrow> (DispatchHandle \<times> JobRun option) svc" where
  "apply_callback cb i session h =
     (let env = ce_dispatch cb; now = ce_now cb; codec = de_codec env in
      if ac_EventType i = ''result.completed'' then
        (case outcomeFromHarnessResult (de_hash env) codec (ac_Data i) of
           None \<Rightarrow> fail (Invalid ''HARNESS_RESULT_INVALID'') | Some oc \<Rightarrow> finish_callback cb h oc)
      else if ac_EventType i = ''session.failed'' then
        finish_callback cb h (failed_outcome RuntimeAttemptRetryableFailed (safeErrorCode (ac_ErrorCode i) ''HARNESS_SESSION_FAILED'') h)
      else if ac_EventType i = ''session.interrupted'' then
        finish_callback cb h (failed_outcome RuntimeAttemptRetryableFailed ''HARNESS_SESSION_INTERRUPTED'' h)
      else if ac_EventType i = ''runtime.yield'' then
        (case (if ac_Data i = '''' then None else jc_yield codec (ac_Data i)) of
           None \<Rightarrow> fail (Invalid ''HARNESS_YIELD_INVALID'')
         | Some request \<Rightarrow> bind_svc (YieldDispatch (de_hash env) (de_yield env) (de_event env 0) (de_ids env) now h request)
             (\<lambda>(y, h', job). ret (h', Some job)))
      else if RuntimeAttempt_Terminal (dh_Attempt h) then ret (h, None)
      else bind_svc (RecordHarnessEvent (de_hash env) codec (de_event env 0) now h
             \<lparr>ae_Type = ac_EventType i, ae_Session = session, ae_Data = ac_Data i, ae_ErrorCode = ac_ErrorCode i,
              ae_OccurredAt = ac_OccurredAt i\<rparr>) (\<lambda>_. ret (h, None)))"

definition received_event :: "callback_env \<Rightarrow> AgentCallbackInput \<Rightarrow> NodeRun \<Rightarrow> ProviderInboxMessage \<Rightarrow> JobEvent" where
  "received_event cb i node m =
     new_event (ce_id cb 1) (pi_TenantID m) (pi_JobRunID m) (nr_NodeKey node) ''agent.inbox.received'' ''harness'' (ac_HarnessKind i)
       (''agent-inbox:'' @ pi_ProviderID m @ '':'' @ pi_MessageID m @ '':received'')
       [(''attempt_id'', AStr (ac_AttemptID i)), (''session_id'', AStr (ac_SessionID i)), (''event_type'', AStr (ac_EventType i)),
        (''received_digest'', AStr (pi_ReceivedDigest m))] (ac_ReceivedAt i)"

definition applied_message :: "time \<Rightarrow> ProviderInboxMessage \<Rightarrow> ProviderInboxMessage" where
  "applied_message now m =
     m\<lparr>pi_State := ''applied'', pi_ErrorCode := '''', pi_ProcessedAt := Some now, pi_Version := pi_Version m + 1, pi_UpdatedAt := now\<rparr>"

definition applied_event :: "callback_env \<Rightarrow> AgentCallbackInput \<Rightarrow> NodeRun \<Rightarrow> ProviderInboxMessage \<Rightarrow> JobEvent" where
  "applied_event cb i node m =
     new_event (ce_id cb 2) (pi_TenantID m) (pi_JobRunID m) (nr_NodeKey node) ''agent.inbox.applied'' ''runtime'' (ac_HarnessKind i)
       (''agent-inbox:'' @ pi_ID m @ '':applied'')
       [(''attempt_id'', AStr (ac_AttemptID i)), (''event_type'', AStr (ac_EventType i)),
        (''received_digest'', AStr (pi_ReceivedDigest m))] (ce_now cb)"

definition process_message ::
    "callback_env \<Rightarrow> AgentCallbackInput \<Rightarrow> AgentSessionRef \<Rightarrow> DispatchHandle \<Rightarrow> bool \<Rightarrow> ProviderInboxMessage \<Rightarrow> AgentCallbackResult svc" where
  "process_message cb i session h replayed stored =
     (if pi_State stored = ''applied'' then
        ret \<lparr>ax_Message = stored, ax_Attempt = dh_Attempt h, ax_Node = dh_Node h, ax_Job = None, ax_Applied = False, ax_Replayed = replayed\<rparr>
      else guard_svc (pi_State stored \<noteq> ''failed'') (Conflict ''AGENT_CALLBACK_PREVIOUSLY_FAILED'') (
      bind_svc (apply_callback cb i session h) (\<lambda>(h', job).
      let completed = applied_message (ce_now cb) stored in
      bind_svc (exec (CompleteAgentInboxCommand completed (pi_Version stored) (applied_event cb i (dh_Node h') completed))) (\<lambda>m.
      ret \<lparr>ax_Message = m, ax_Attempt = dh_Attempt h', ax_Node = dh_Node h', ax_Job = job, ax_Applied = True, ax_Replayed = replayed\<rparr>))))"

definition callback_check :: "json_codec \<Rightarrow> AgentCallbackInput \<Rightarrow> goany res" where
  "callback_check codec i =
     require (\<not> (ac_TenantID i = '''' \<or> ac_HarnessKind i = '''' \<or> ac_MessageID i = '''' \<or> ac_AttemptID i = ''''
                 \<or> ac_SessionID i = '''' \<or> ac_EventType i = ''unknown'')) (Invalid ''AGENT_CALLBACK_INVALID'') (
     require (supportedAgentCallbackEvent (ac_EventType i)) (Invalid ''AGENT_CALLBACK_EVENT_UNSUPPORTED'') (
     require (\<not> int (length (ac_Data i)) > 65536) (Policy ''HARNESS_EVENT_TOO_LARGE'') (
     if ac_Data i = '''' then Inr ANull
     else lookup_or (Invalid ''AGENT_CALLBACK_DATA_INVALID'') (jc_value codec (ac_Data i)) Inr)))"

definition ReceiveAgentCallback :: "callback_env \<Rightarrow> AgentCallbackInput \<Rightarrow> AgentCallbackResult svc" where
  "ReceiveAgentCallback cb input0 =
     (let i0 = callback_trim input0; codec = de_codec (ce_dispatch cb) in
      bind_svc (query (\<lambda>_. callback_check codec i0)) (\<lambda>v.
      let i = callback_times (ce_now cb) i0 in
      bind_svc (query (LoadDispatchHandle codec (ac_TenantID i) (ac_AttemptID i))) (\<lambda>h.
      bind_svc (query (\<lambda>_. boundAgentCallbackSession codec (dh_Attempt h) i)) (\<lambda>session.
      let message = newAgentInboxMessage (de_hash (ce_dispatch cb)) (ce_id cb 0) i h v in
      bind_svc (exec (ReceiveAgentInboxCommand message (received_event cb i (dh_Node h) message))) (\<lambda>stored.
      process_message cb i session h (pi_ID stored \<noteq> pi_ID message) stored)))))"

subsection \<open>Lemmas\<close>

lemma decode_capabilities_map: "decode_capabilities (harnessCapabilitiesMap c) = Some (c\<lparr>hc_Version := ''''\<rparr>)"
  by (simp add: decode_capabilities_def harnessCapabilitiesMap_def mget_def)

lemma capabilities_roundtrip:
  assumes "ToLower (TrimSpace (hc_Kind c)) = hc_Kind c" "ToLower (TrimSpace kind) = hc_Kind c"
    and "hc_Events c" "hc_StructuredOutput c"
  shows "harnessCapabilitiesFromMap kind (harnessCapabilitiesMap c) = Inr (c\<lparr>hc_Version := ''''\<rparr>)"
  using assms by (simp add: harnessCapabilitiesFromMap_def decode_capabilities_map Let_def require_def)

lemma PrepareDispatch_rows:
  assumes "PrepareDispatch n x a w g cr z rs e s = Inr (s', (n', a', g'))"
  shows "n' = n" "a' = a" "g' = g" "Store_RuntimeAttempt (ra_TenantID a) (ra_ID a) s' = Inr a"
    "Store_NodeRun (ra_TenantID a) (ra_NodeRunID a) s' = Inr n" "Store_ContextView (ra_TenantID a) (ra_ContextViewID a) s' = Inr w"
    "Store_AgentInstance (ra_TenantID a) (ra_AgentInstanceID a) s' = Inr g"
proof -
  note f = assms [unfolded PrepareDispatch_def check_nil_Inr lookup_or_Inr require_Inr sum.inject prod.inject]
  have scope: "sameDispatchScope n a (cv_TenantID w, cv_JobRunID w, cv_NodeRunID w) g" "ra_ContextViewID a = cv_ID w"
    "ra_AgentInstanceID a = ai_ID g" and eq: "n' = n" "a' = a" "g' = g"
    and s': "s' = appendRuntimeEventLocked
       (s\<lparr>runtimeNodes := mput (node_key n) n (runtimeNodes s),
          runtimeContextViews := mput (runtimePlanKey (cv_TenantID w) (cv_ID w)) w (runtimeContextViews s),
          runtimeAgents := mput (agent_key g) g (runtimeAgents s),
          runtimeAttempts := mput (attempt_key a) a (runtimeAttempts s),
          runtimeReservations := mput_all reservation_key rs (runtimeReservations s)\<rparr>) e"
    using f by (elim exE conjE; simp)+
  have same: "ra_TenantID a = nr_TenantID n" "cv_TenantID w = nr_TenantID n" "ai_TenantID g = nr_TenantID n" "ra_NodeRunID a = nr_ID n"
    using scope(1) unfolding sameDispatchScope_def fst_conv snd_conv by metis+
  show "n' = n" "a' = a" "g' = g" by (fact eq)+
  show "Store_RuntimeAttempt (ra_TenantID a) (ra_ID a) s' = Inr a"
    "Store_NodeRun (ra_TenantID a) (ra_NodeRunID a) s' = Inr n" "Store_ContextView (ra_TenantID a) (ra_ContextViewID a) s' = Inr w"
    "Store_AgentInstance (ra_TenantID a) (ra_AgentInstanceID a) s' = Inr g"
    using scope(2,3) same by (simp_all add: s' Store_RuntimeAttempt_def Store_NodeRun_def Store_ContextView_def Store_AgentInstance_def
      attempt_key_def node_key_def agent_key_def lookup_or_Inr)
qed

subsection \<open>Properties\<close>

text \<open>
  C35. A worker that knows its attempt recovers its handle. After a successful preparation the handle rebuilt from
  tenant and attempt alone has the prepared node, attempt, context view and agent, and the frozen capabilities except
  for the version of the harness, which the snapshot does not keep; it has no gateway token, and no session to resume
  even when the prepared handle had one.
\<close>

theorem worker_handle_roundtrip:
  assumes "prepareDispatch hash codec ids now input cap s = (s', Inr h)" and "ToLower (TrimSpace (hc_Kind cap)) = hc_Kind cap"
  shows "LoadDispatchHandle codec (ra_TenantID (dh_Attempt h)) (ra_ID (dh_Attempt h)) s' =
    Inr (h\<lparr>dh_Capabilities := cap\<lparr>hc_Version := ''''\<rparr>, dh_GatewayToken := '''', dh_ResumeSession := None,
      dh_LeaseFor := DefaultNodeLeaseDuration\<rparr>)"
proof -
  let ?input = "lease_and_ttl (dispatch_defaults cap input)"
  from assms(1) obtain node0 fence gh view agent cr x session rs n a g where
    chk: "dispatch_check cap (dispatch_defaults cap input) = None"
    and run: "PrepareDispatch (leased_node now ?input fence node0) (nr_Version node0)
       (new_attempt ids now cap ?input node0 view agent fence gh) view agent cr x rs
       (prepared_event ids now ?input (leased_node now ?input fence node0)
          (new_attempt ids now cap ?input node0 view agent fence gh) view) s = Inr (s', (n, a, g))"
    and h: "dh_ContextView h = view" "dh_Node h = n" "dh_Attempt h = a" "dh_Agent h = g"
    unfolding prepareDispatch_def Let_def
    by (auto simp: bind_query_Inr check_svc_Inr bind_exec_Inr ret_Inr split: prod.splits)
  note rows = PrepareDispatch_rows [OF run]
  have cap: "hc_Events cap" "hc_StructuredOutput cap" using chk by (simp_all add: dispatch_check_def split: if_splits)
  have "ra_HarnessKind a = TrimSpace (hc_Kind cap)" "ra_Capabilities a = harnessCapabilitiesMap cap" "ra_SessionRef a = ''''"
    by (simp_all add: rows(2) new_attempt_def lease_and_ttl_def dispatch_defaults_def Let_def)
  moreover from this have "harnessCapabilitiesFromMap (ra_HarnessKind a) (ra_Capabilities a) = Inr (cap\<lparr>hc_Version := ''''\<rparr>)"
    using capabilities_roundtrip [OF assms(2) _ cap, of "ra_HarnessKind a"] assms(2) by simp
  ultimately show ?thesis using rows(4-7) unfolding h rows(2) [symmetric]
    by (simp add: LoadDispatchHandle_def h bound_session_def rows(1,3) [symmetric])
qed

definition inbox_of :: "AgentCallbackInput \<Rightarrow> string" where
  "inbox_of i = providerInboxKey (ac_TenantID i) (''agent-harness:'' @ ac_HarnessKind i) (ac_MessageID i)"

lemma message_key [simp]: "inbox_key (newAgentInboxMessage hash newID i h v) = inbox_of i"
  by (simp add: inbox_key_def inbox_of_def newAgentInboxMessage_def Let_def)

lemma times_key [simp]: "inbox_of (callback_times now i) = inbox_of i"
  by (simp add: inbox_of_def callback_times_def)

lemma receive_inbox_row:
  assumes "ReceiveAgentInboxCommand m e s = Inr (s', v)"
  shows "mget (runtimeProviderInbox s') (inbox_key m) = Some v" "pi_ReceivedDigest v = pi_ReceivedDigest m"
    "v = m \<or> s' = s" "pi_State m = ''received''" "ProviderInboxMessage_Validate m = None"
  using assms by (auto simp: ReceiveAgentInboxCommand_def split: option.splits if_splits)

lemma complete_inbox_row:
  assumes "CompleteAgentInboxCommand m x e s = Inr (s', v)"
  shows "mget (runtimeProviderInbox s') (inbox_key m) = Some v" "pi_State v = pi_State m" "pi_ReceivedDigest v = pi_ReceivedDigest m"
  using assms by (auto simp: CompleteAgentInboxCommand_def split: if_splits)

lemma ReceiveAgentCallback_ok:
  assumes "ReceiveAgentCallback cb input s = (s', Inr x)"
  defines "i \<equiv> callback_times (ce_now cb) (callback_trim input)" and "codec \<equiv> de_codec (ce_dispatch cb)"
  obtains v h session stored s1 where "callback_check codec (callback_trim input) = Inr v"
    "LoadDispatchHandle codec (ac_TenantID i) (ac_AttemptID i) s = Inr h" "boundAgentCallbackSession codec (dh_Attempt h) i = Inr session"
    "ReceiveAgentInboxCommand (newAgentInboxMessage (de_hash (ce_dispatch cb)) (ce_id cb 0) i h v)
       (received_event cb i (dh_Node h) (newAgentInboxMessage (de_hash (ce_dispatch cb)) (ce_id cb 0) i h v)) s = Inr (s1, stored)"
    "process_message cb i session h (pi_ID stored \<noteq> pi_ID (newAgentInboxMessage (de_hash (ce_dispatch cb)) (ce_id cb 0) i h v)) stored s1
       = (s', Inr x)"
  using assms unfolding ReceiveAgentCallback_def Let_def bind_query_Inr bind_exec_Inr by blast

lemma process_message_ok:
  assumes "process_message cb i session h rp stored s = (s', Inr x)" and "mget (runtimeProviderInbox s) (inbox_key stored) = Some stored"
  shows "mget (runtimeProviderInbox s') (inbox_key stored) = Some (ax_Message x)" "pi_State (ax_Message x) = ''applied''"
    "pi_ReceivedDigest (ax_Message x) = pi_ReceivedDigest stored"
proof -
  have "mget (runtimeProviderInbox s') (inbox_key stored) = Some (ax_Message x) \<and> pi_State (ax_Message x) = ''applied''
    \<and> pi_ReceivedDigest (ax_Message x) = pi_ReceivedDigest stored"
  proof (cases "pi_State stored = ''applied''")
    case True
    then show ?thesis using assms by (auto simp: process_message_def ret_def)
  next
    case False
    then obtain e s1 where c: "CompleteAgentInboxCommand (applied_message (ce_now cb) stored) (pi_Version stored) e s1 = Inr (s', ax_Message x)"
      using assms(1) by (auto simp: process_message_def Let_def guard_svc_Inr bind_svc_Inr exec_Inr ret_Inr split: prod.splits)
    have "inbox_key (applied_message (ce_now cb) stored) = inbox_key stored" by (simp add: inbox_key_def applied_message_def)
    with complete_inbox_row [OF c] show ?thesis by (simp add: applied_message_def)
  qed
  then show "mget (runtimeProviderInbox s') (inbox_key stored) = Some (ax_Message x)" "pi_State (ax_Message x) = ''applied''"
    "pi_ReceivedDigest (ax_Message x) = pi_ReceivedDigest stored" by blast+
qed

text \<open>
  C34. A message is applied once. When a callback has been processed and the same message, with the same digest, comes
  in again, it is recognised in the inbox, answered with the stored message, and changes nothing in the store, as long
  as the handle can be rebuilt and the session of the attempt is still the message's.
\<close>

theorem agent_callback_once:
  assumes "ReceiveAgentCallback cb input s = (s', Inr x)" and "\<not> blank (ac_ReceivedDigest input)"
    and "ce_dispatch cb' = ce_dispatch cb" and "ce_id cb' 0 \<noteq> ''''" and "\<not> IsZero (ce_now cb')"
    and "LoadDispatchHandle (de_codec (ce_dispatch cb)) (TrimSpace (ac_TenantID input)) (TrimSpace (ac_AttemptID input)) s' = Inr h"
    and "boundAgentCallbackSession (de_codec (ce_dispatch cb)) (dh_Attempt h) (callback_trim input) = Inr session"
    and "ra_JobRunID (dh_Attempt h) \<noteq> ''''" and "keyed inbox_key (runtimeProviderInbox s)"
  shows "ReceiveAgentCallback cb' input s' = (s', Inr \<lparr>ax_Message = ax_Message x, ax_Attempt = dh_Attempt h, ax_Node = dh_Node h,
    ax_Job = None, ax_Applied = False, ax_Replayed = (pi_ID (ax_Message x) \<noteq> ce_id cb' 0)\<rparr>)"
proof -
  let ?hash = "de_hash (ce_dispatch cb)" and ?codec = "de_codec (ce_dispatch cb)" and ?trimmed = "callback_trim input"
  let ?i = "callback_times (ce_now cb) ?trimmed" and ?i' = "callback_times (ce_now cb') ?trimmed"
  from assms(1) obtain v h0 session0 stored s1 where v: "callback_check ?codec ?trimmed = Inr v"
    and "LoadDispatchHandle ?codec (ac_TenantID ?i) (ac_AttemptID ?i) s = Inr h0"
    and "boundAgentCallbackSession ?codec (dh_Attempt h0) ?i = Inr session0"
    and rc: "ReceiveAgentInboxCommand (newAgentInboxMessage ?hash (ce_id cb 0) ?i h0 v)
       (received_event cb ?i (dh_Node h0) (newAgentInboxMessage ?hash (ce_id cb 0) ?i h0 v)) s = Inr (s1, stored)"
    and pm: "process_message cb ?i session0 h0 (pi_ID stored \<noteq> pi_ID (newAgentInboxMessage ?hash (ce_id cb 0) ?i h0 v)) stored s1
       = (s', Inr x)" by (rule ReceiveAgentCallback_ok)
  let ?m = "newAgentInboxMessage ?hash (ce_id cb' 0) ?i' h v"
  note row = receive_inbox_row [OF rc]
  have key: "inbox_key stored = inbox_of ?trimmed"
    using receive_inbox_row(1,3) [OF rc] assms(9) unfolding keyed_def by fastforce
  note done_ = process_message_ok [OF pm, unfolded key, OF row(1) [simplified]]
  have digest: "pi_ReceivedDigest (ax_Message x) = pi_ReceivedDigest ?m"
    using done_(3) row(2) assms(2) by (simp add: newAgentInboxMessage_def Let_def callback_times_def callback_trim_def)
  have val: "ProviderInboxMessage_Validate ?m = None"
    using row(5) assms(4,5,8) unfolding ProviderInboxMessage_Validate_def
    by (auto simp: newAgentInboxMessage_def Let_def callback_times_def callback_trim_def assms(2) split: if_splits)
  have "ReceiveAgentInboxCommand ?m e s' = Inr (s', ax_Message x)" for e
    using val done_(1) digest by (simp add: ReceiveAgentInboxCommand_def require_def)
      (simp add: newAgentInboxMessage_def Let_def)
  moreover have "boundAgentCallbackSession ?codec (dh_Attempt h) ?i' = Inr session"
    using assms(7) by (simp add: boundAgentCallbackSession_def callback_times_def)
  moreover have "LoadDispatchHandle ?codec (ac_TenantID ?i') (ac_AttemptID ?i') s' = Inr h"
    using assms(6) by (simp add: callback_times_def callback_trim_def)
  moreover have "pi_ID ?m = ce_id cb' 0" by (simp add: newAgentInboxMessage_def Let_def)
  ultimately show ?thesis using v done_(2)
    by (simp add: ReceiveAgentCallback_def Let_def assms(3) bind_svc_def query_def exec_def process_message_def ret_def)
qed

text \<open>Receiving a message touches no row a handle is rebuilt from, and a yield of an attempt that no longer runs stops there.\<close>

lemma receive_inbox_frame:
  assumes "ReceiveAgentInboxCommand m e s = Inr (s1, v)"
  shows "LoadDispatchHandle codec t a s1 = LoadDispatchHandle codec t a s"
proof -
  have "runtimeAttempts s1 = runtimeAttempts s \<and> runtimeNodes s1 = runtimeNodes s
    \<and> runtimeContextViews s1 = runtimeContextViews s \<and> runtimeAgents s1 = runtimeAgents s"
    using assms by (auto simp: ReceiveAgentInboxCommand_def check_nil_Inr require_Inr split: option.splits if_splits)
  then show ?thesis
    by (simp add: LoadDispatchHandle_def Store_RuntimeAttempt_def Store_NodeRun_def Store_ContextView_def Store_AgentInstance_def)
qed

lemma yield_of_stopped:
  assumes "ac_EventType i = ''runtime.yield''" and "ra_State (dh_Attempt h) \<noteq> RuntimeAttemptRunning" and "pi_State stored \<noteq> ''applied''"
  shows "\<exists>err. process_message cb i session h rp stored s = (s, Inl err)"
proof -
  have "yieldable (ce_now cb) h = Some (Conflict ''DISPATCH_NOT_YIELDABLE'')" using assms(2) by (simp add: yieldable_def)
  then have "\<exists>err. apply_callback cb i session h s = (s, Inl err)"
    unfolding apply_callback_def Let_def assms(1)
    by (auto simp: YieldDispatch_def check_svc_def bind_svc_def fail_def split: option.splits)
  then show ?thesis using assms(3) by (auto simp: process_message_def guard_svc_def bind_svc_def fail_def Let_def)
qed

text \<open>The store in which the message of a stopped yield waits: its attempt does not run and it has not been applied.\<close>

definition stalled :: "json_codec \<Rightarrow> AgentCallbackInput \<Rightarrow> Store \<Rightarrow> bool" where
  "stalled codec input s =
     ((case LoadDispatchHandle codec (TrimSpace (ac_TenantID input)) (TrimSpace (ac_AttemptID input)) s of
         Inl _ \<Rightarrow> False | Inr h \<Rightarrow> ra_State (dh_Attempt h) \<noteq> RuntimeAttemptRunning)
      \<and> (case mget (runtimeProviderInbox s) (inbox_of (callback_trim input)) of
           None \<Rightarrow> True | Some m \<Rightarrow> pi_State m \<noteq> ''applied''))"

lemma stalled_callback:
  assumes "ac_EventType (callback_trim input) = ''runtime.yield''" and "stalled (de_codec (ce_dispatch cb)) input s"
  shows "isl (snd (ReceiveAgentCallback cb input s)) \<and> stalled (de_codec (ce_dispatch cb)) input (fst (ReceiveAgentCallback cb input s))"
proof -
  let ?codec = "de_codec (ce_dispatch cb)" and ?i = "callback_times (ce_now cb) (callback_trim input)"
  let ?m = "\<lambda>h v. newAgentInboxMessage (de_hash (ce_dispatch cb)) (ce_id cb 0) ?i h v"
  let ?r = "\<lambda>h v. ReceiveAgentInboxCommand (?m h v) (received_event cb ?i (dh_Node h) (?m h v)) s"
  obtain h where l: "LoadDispatchHandle ?codec (ac_TenantID ?i) (ac_AttemptID ?i) s = Inr h"
    and st: "ra_State (dh_Attempt h) \<noteq> RuntimeAttemptRunning"
    and i: "\<And>m. mget (runtimeProviderInbox s) (inbox_of (callback_trim input)) = Some m \<Longrightarrow> pi_State m \<noteq> ''applied''"
    using assms(2) by (auto simp: stalled_def callback_times_def callback_trim_def split: sum.splits option.splits)
  have ty: "ac_EventType ?i = ''runtime.yield''" using assms(1) by (simp add: callback_times_def)
  consider (stop) err where "ReceiveAgentCallback cb input s = (s, Inl err)"
    | (run) v session s1 stored where "?r h v = Inr (s1, stored)"
        "ReceiveAgentCallback cb input s = process_message cb ?i session h (pi_ID stored \<noteq> pi_ID (?m h v)) stored s1"
  proof (cases "callback_check ?codec (callback_trim input)")
    case v: (Inr v)
    show ?thesis
    proof (cases "boundAgentCallbackSession ?codec (dh_Attempt h) ?i")
      case (Inr session)
      then show ?thesis using l v stop run [of v _ _ session]
        by (cases "?r h v") (auto simp: ReceiveAgentCallback_def Let_def bind_svc_def query_def exec_def)
    qed (use l v stop in \<open>simp add: ReceiveAgentCallback_def Let_def bind_svc_def query_def\<close>)
  qed (use stop in \<open>simp add: ReceiveAgentCallback_def Let_def bind_svc_def query_def\<close>)
  then show ?thesis
  proof cases
    case run
    have new: "pi_State stored \<noteq> ''applied''" "mget (runtimeProviderInbox s1) (inbox_of (callback_trim input)) = Some stored"
      using receive_inbox_row(1,3,4) [OF run(1)] i by auto
    obtain err where "ReceiveAgentCallback cb input s = (s1, Inl err)" using yield_of_stopped [OF ty st new(1)] run(2) by metis
    moreover have "stalled ?codec input s1"
      using new assms(2) by (simp add: stalled_def receive_inbox_frame [OF run(1)])
    ultimately show ?thesis by simp
  qed (use assms(2) in simp)
qed

lemma stalled_callbacks:
  assumes "ac_EventType (callback_trim input) = ''runtime.yield''" and "\<And>cb. cb \<in> set cbs \<Longrightarrow> de_codec (ce_dispatch cb) = codec"
    and "stalled codec input s"
  shows "stalled codec input (fold (\<lambda>cb s. fst (ReceiveAgentCallback cb input s)) cbs s)"
  using assms(2,3)
proof (induction cbs arbitrary: s)
  case (Cons cb cbs)
  have "stalled codec input (fst (ReceiveAgentCallback cb input s))" using stalled_callback [OF assms(1), of cb s] Cons.prems by simp
  then show ?case using Cons.IH Cons.prems(1) by simp
qed simp

text \<open>
  C40. An interrupted yield is never acknowledged. Sending a message again is meant to resume its processing, but when the
  first processing stopped after the yield was committed and before the message was marked, the attempt no longer
  runs: however often the yield message is sent again, every repetition fails and the message is still not applied.
\<close>

theorem callback_yield_not_resumed:
  assumes "ac_EventType (callback_trim input) = ''runtime.yield''"
    and "LoadDispatchHandle codec (TrimSpace (ac_TenantID input)) (TrimSpace (ac_AttemptID input)) s = Inr h"
    and "ra_State (dh_Attempt h) \<noteq> RuntimeAttemptRunning"
    and "\<forall>m. mget (runtimeProviderInbox s) (inbox_of (callback_trim input)) = Some m \<longrightarrow> pi_State m \<noteq> ''applied''"
    and "\<forall>cb\<in>set (again @ [last_cb]). de_codec (ce_dispatch cb) = codec"
  defines "resend \<equiv> fold (\<lambda>cb s. fst (ReceiveAgentCallback cb input s))"
  shows "isl (snd (ReceiveAgentCallback last_cb input (resend again s)))
    \<and> (\<forall>m. mget (runtimeProviderInbox (resend (again @ [last_cb]) s)) (inbox_of (callback_trim input)) = Some m
         \<longrightarrow> pi_State m \<noteq> ''applied'')"
proof -
  have start: "stalled codec input s" using assms(2-4) by (simp add: stalled_def split: option.split)
  have c: "\<And>cb. cb \<in> set again \<Longrightarrow> de_codec (ce_dispatch cb) = codec" "de_codec (ce_dispatch last_cb) = codec"
    "\<And>cb. cb \<in> set (again @ [last_cb]) \<Longrightarrow> de_codec (ce_dispatch cb) = codec" using assms(5) by auto
  have "stalled (de_codec (ce_dispatch last_cb)) input (resend again s)"
    using stalled_callbacks [OF assms(1) c(1) start] c(2) unfolding resend_def by simp
  from stalled_callback [OF assms(1) this] have "isl (snd (ReceiveAgentCallback last_cb input (resend again s)))" by blast
  moreover have "\<forall>m. mget (runtimeProviderInbox (resend (again @ [last_cb]) s)) (inbox_of (callback_trim input)) = Some m
      \<longrightarrow> pi_State m \<noteq> ''applied''"
    using stalled_callbacks [where cbs = "again @ [last_cb]", OF assms(1) c(3) start]
    by (simp add: resend_def stalled_def split: option.splits)
  ultimately show ?thesis by blast
qed

subsection \<open>Examples\<close>

definition ex_yield_request :: YieldDispatchInput where
  "ex_yield_request = \<lparr>yi_Reason = YieldWaitHuman, yi_WaitRefs = [''g''], yi_SafeSummary = [], yi_UsedCostMinor = 0\<rparr>"

definition ex_session_h :: AgentSessionRef where
  "ex_session_h = ex_session\<lparr>se_HarnessKind := ''h''\<rparr>"

definition ex_callback_env :: "string \<Rightarrow> callback_env" where
  "ex_callback_env i = \<lparr>ce_dispatch = ex_env\<lparr>de_hash := (\<lambda>_. replicate 64 CHR ''a''), de_codec := ex_codec\<lparr>jc_to_session := (\<lambda>_. Some ex_session_h),
       jc_yield := (\<lambda>_. Some ex_yield_request)\<rparr>\<rparr>, ce_id = (\<lambda>n. i @ replicate n CHR ''i''), ce_now = 20\<rparr>"

definition ex_callback :: "string \<Rightarrow> AgentCallbackInput" where
  "ex_callback ty = \<lparr>ac_TenantID = ''t'', ac_HarnessKind = ''h'', ac_MessageID = ''m'', ac_AttemptID = ''at'', ac_SessionID = ''s'',
     ac_EventType = ty, ac_Data = ''d'', ac_ErrorCode = '''', ac_OccurredAt = 15, ac_ReceivedAt = 16, ac_ReceivedDigest = ex_digest\<rparr>"

definition ex_live :: Store where
  "ex_live = ex_planned\<lparr>
     runtimeNodes := [(''t:na'', ex_dnode NodeRunning 3), (''t:nb'', ex_noderun ''nb'' ''b'' NodePending)],
     runtimeAttempts := [(''t:at'', (ex_attempt RuntimeAttemptRunning 2)\<lparr>ra_Capabilities := harnessCapabilitiesMap (ex_cap\<lparr>hc_Kind := ''h''\<rparr>)\<rparr>)],
     runtimeAgents := [(''t:ag'', ex_dagent AgentActive 2)], runtimeContextViews := [(''t:at'', ex_view ''at'')]\<rparr>"

definition ex_handle :: DispatchHandle where
  "ex_handle = \<lparr>dh_Node = ex_dnode NodeRunning 3,
     dh_Attempt = (ex_attempt RuntimeAttemptRunning 2)\<lparr>ra_Capabilities := harnessCapabilitiesMap (ex_cap\<lparr>hc_Kind := ''h''\<rparr>)\<rparr>,
     dh_ContextView = ex_view ''at'', dh_Agent = ex_dagent AgentActive 2,
     dh_Capabilities = ex_cap\<lparr>hc_Kind := ''h'', hc_Version := ''''\<rparr>, dh_GatewayToken = '''',
     dh_ResumeSession = Some ex_session_h, dh_LeaseFor = DefaultNodeLeaseDuration\<rparr>"

definition ex_input :: AgentCallbackInput where
  "ex_input = callback_times 20 (callback_trim (ex_callback ''session.progress''))"

definition ex_message :: ProviderInboxMessage where
  "ex_message = newAgentInboxMessage (de_hash (ce_dispatch (ex_callback_env ''c''))) ''c'' ex_input ex_handle (AObj [])"

definition ex_received :: Store where
  "ex_received = run_cmd (ReceiveAgentInboxCommand ex_message (received_event (ex_callback_env ''c'') ex_input (dh_Node ex_handle) ex_message)) ex_live"

definition ex_processed :: "Store \<times> AgentCallbackResult res" where
  "ex_processed = process_message (ex_callback_env ''c'') ex_input ex_session_h ex_handle False ex_message ex_received"

definition ex_yielded :: Store where
  "ex_yielded = fst (YieldDispatch (\<lambda>_. replicate 64 CHR ''a'') ''y'' ''e5'' ex_ids 20 ex_handle ex_yield_request ex_live)"

theorem worker_handle_roundtrip_witness:
  "\<exists>s h. ex_prepared ex_planned = (s, Inr h) \<and> ToLower (TrimSpace (hc_Kind ex_cap)) = hc_Kind ex_cap \<and>
     LoadDispatchHandle ex_codec (ra_TenantID (dh_Attempt h)) (ra_ID (dh_Attempt h)) s =
       Inr (h\<lparr>dh_Capabilities := ex_cap\<lparr>hc_Version := ''''\<rparr>, dh_GatewayToken := '''', dh_ResumeSession := None,
         dh_LeaseFor := DefaultNodeLeaseDuration\<rparr>)"
proof -
  obtain s h where p: "ex_prepared ex_planned = (s, Inr h)" using ex_prepared_ok by blast
  have k: "ToLower (TrimSpace (hc_Kind ex_cap)) = hc_Kind ex_cap" by code_simp
  show ?thesis using worker_handle_roundtrip [OF p [unfolded ex_prepared_def] k] p k by blast
qed

lemma ex_loaded: "LoadDispatchHandle (de_codec (ce_dispatch (ex_callback_env ''c''))) ''t'' ''at'' ex_live = Inr ex_handle"
  by code_simp

lemma ex_receive: "ReceiveAgentInboxCommand ex_message (received_event (ex_callback_env ''c'') ex_input (dh_Node ex_handle) ex_message) ex_live
  = Inr (ex_received, ex_message)"
proof -
  let ?r = "ReceiveAgentInboxCommand ex_message (received_event (ex_callback_env ''c'') ex_input (dh_Node ex_handle) ex_message) ex_live"
  have r: "\<not> isl ?r" by code_simp
  then obtain s m where sm: "?r = Inr (s, m)" by (cases ?r) auto
  have "runtimeProviderInbox ex_live = []" by code_simp
  then have "m = ex_message"
    using sm by (auto simp: mget_def ReceiveAgentInboxCommand_def check_nil_Inr require_Inr lookup_or_Inr split: option.splits if_splits)
  then show ?thesis using sm unfolding ex_received_def run_cmd_def by simp
qed

lemma run_case_Inr: "(case p of (s, Inl _) \<Rightarrow> False | (s, Inr x) \<Rightarrow> P s x) \<Longrightarrow> \<exists>x. p = (fst p, Inr x) \<and> P (fst p) x"
  by (cases p; cases "snd p") auto

lemma ex_processed_ok:
  "\<exists>x (h :: DispatchHandle). ex_processed = (fst ex_processed, Inr x)
     \<and> LoadDispatchHandle (de_codec (ce_dispatch (ex_callback_env ''c''))) ''t'' ''at'' (fst ex_processed) = Inr h
     \<and> boundAgentCallbackSession (de_codec (ce_dispatch (ex_callback_env ''c''))) (dh_Attempt h)
         (callback_trim (ex_callback ''session.progress'')) = Inr ex_session_h
     \<and> ra_JobRunID (dh_Attempt h) \<noteq> ''''"
proof -
  have "(case ex_processed of (s, Inl _) \<Rightarrow> False | (s, Inr x) \<Rightarrow>
      (case LoadDispatchHandle (de_codec (ce_dispatch (ex_callback_env ''c''))) ''t'' ''at'' s of Inl _ \<Rightarrow> False | Inr h \<Rightarrow>
        boundAgentCallbackSession (de_codec (ce_dispatch (ex_callback_env ''c''))) (dh_Attempt h)
          (callback_trim (ex_callback ''session.progress'')) = Inr ex_session_h \<and> ra_JobRunID (dh_Attempt h) \<noteq> ''''))" by code_simp
  from run_case_Inr [OF this] show ?thesis by (auto split: sum.splits)
qed

lemma ex_callback_received:
  "ReceiveAgentCallback (ex_callback_env ''c'') (ex_callback ''session.progress'') ex_live = ex_processed"
proof -
  have c: "callback_check (de_codec (ce_dispatch (ex_callback_env ''c''))) (callback_trim (ex_callback ''session.progress'')) = Inr (AObj [])" by code_simp
  have i: "callback_times (ce_now (ex_callback_env ''c'')) (callback_trim (ex_callback ''session.progress'')) = ex_input"
    by (simp add: ex_input_def ex_callback_env_def)
  have b: "boundAgentCallbackSession (de_codec (ce_dispatch (ex_callback_env ''c''))) (dh_Attempt ex_handle) ex_input = Inr ex_session_h" by code_simp
  have t: "ac_TenantID ex_input = ''t''" "ac_AttemptID ex_input = ''at''" by code_simp+
  have n: "ce_id (ex_callback_env ''c'') 0 = ''c''" by (simp add: ex_callback_env_def)
  show ?thesis using c b t n ex_loaded ex_receive
    by (simp add: ReceiveAgentCallback_def Let_def bind_svc_def query_def exec_def i ex_message_def [symmetric] ex_processed_def)
qed

theorem agent_callback_once_witness:
  "\<exists>s x (h :: DispatchHandle). ReceiveAgentCallback (ex_callback_env ''c'') (ex_callback ''session.progress'') ex_live = (s, Inr x) \<and>
     ReceiveAgentCallback (ex_callback_env ''x'') (ex_callback ''session.progress'') s =
       (s, Inr \<lparr>ax_Message = ax_Message x, ax_Attempt = dh_Attempt h, ax_Node = dh_Node h, ax_Job = None, ax_Applied = False,
          ax_Replayed = (pi_ID (ax_Message x) \<noteq> ''x'')\<rparr>)"
proof -
  let ?codec = "de_codec (ce_dispatch (ex_callback_env ''c''))" and ?cb = "ex_callback ''session.progress''"
  from ex_processed_ok obtain x and h :: DispatchHandle where p: "ex_processed = (fst ex_processed, Inr x)"
    and l: "LoadDispatchHandle ?codec ''t'' ''at'' (fst ex_processed) = Inr h"
    and b: "boundAgentCallbackSession ?codec (dh_Attempt h) (callback_trim ?cb) = Inr ex_session_h"
    and j: "ra_JobRunID (dh_Attempt h) \<noteq> ''''" by blast
  have r: "ReceiveAgentCallback (ex_callback_env ''c'') ?cb ex_live = (fst ex_processed, Inr x)" using ex_callback_received p by simp
  have t: "TrimSpace (ac_TenantID ?cb) = ''t''" "TrimSpace (ac_AttemptID ?cb) = ''at''" and d: "\<not> blank (ac_ReceivedDigest ?cb)" by code_simp+
  have e: "ce_dispatch (ex_callback_env ''x'') = ce_dispatch (ex_callback_env ''c'')" "ce_id (ex_callback_env ''x'') 0 = ''x''"
    "\<not> IsZero (ce_now (ex_callback_env ''x''))" by (simp_all add: ex_callback_env_def IsZero_def)
  have k: "keyed inbox_key (runtimeProviderInbox ex_live)"
  proof -
    have "runtimeProviderInbox ex_live = []" by code_simp
    then show ?thesis by (simp add: keyed_def mget_def)
  qed
  from agent_callback_once [OF r d e(1) _ e(3) l [folded t] b j k] r show ?thesis unfolding e(2) by blast
qed

theorem callback_yield_not_resumed_witness:
  "\<exists>h. LoadDispatchHandle (de_codec (ce_dispatch (ex_callback_env ''c''))) ''t'' ''at'' ex_yielded = Inr h \<and>
     ra_State (dh_Attempt h) = RuntimeAttemptYielded \<and>
     isl (snd (ReceiveAgentCallback (ex_callback_env ''d'') (ex_callback ''runtime.yield'')
       (fst (ReceiveAgentCallback (ex_callback_env ''c'') (ex_callback ''runtime.yield'') ex_yielded))))"
proof -
  let ?codec = "de_codec (ce_dispatch (ex_callback_env ''c''))" and ?cb = "ex_callback ''runtime.yield''"
  have "case (ex_yielded, ()) of (s, _) \<Rightarrow> runtimeProviderInbox s = []
      \<and> (case LoadDispatchHandle ?codec ''t'' ''at'' s of Inr h \<Rightarrow> ra_State (dh_Attempt h) = RuntimeAttemptYielded | _ \<Rightarrow> False)"
    by code_simp
  then obtain h where l: "LoadDispatchHandle ?codec ''t'' ''at'' ex_yielded = Inr h" and st: "ra_State (dh_Attempt h) = RuntimeAttemptYielded"
    and "runtimeProviderInbox ex_yielded = []" by (auto split: sum.splits)
  then have i: "\<forall>m. mget (runtimeProviderInbox ex_yielded) (inbox_of (callback_trim ?cb)) = Some m \<longrightarrow> pi_State m \<noteq> ''applied''"
    by (simp add: mget_def)
  have t: "TrimSpace (ac_TenantID ?cb) = ''t''" "TrimSpace (ac_AttemptID ?cb) = ''at''"
    and y: "ac_EventType (callback_trim ?cb) = ''runtime.yield''" by code_simp+
  have c: "\<forall>cb\<in>set ([ex_callback_env ''c''] @ [ex_callback_env ''d'']). de_codec (ce_dispatch cb) = ?codec"
    by (simp add: ex_callback_env_def)
  have run: "ra_State (dh_Attempt h) \<noteq> RuntimeAttemptRunning" using st by simp
  from callback_yield_not_resumed [OF y l [folded t] run i c] st l show ?thesis by auto
qed

end
