(* ===== verification/Services.thy ===== *)
theory Services
  imports Job_Start Provider_Service Mcp_Gateway Remote_Workers Patch_Service
begin

section \<open>The service refines the store\<close>

text \<open>
  The operations of \<^verbatim>\<open>internal/runtime/service.go\<close> and its companions are built from commands that the store
  executes atomically, and other callers may act between them. \<open>service_step\<close> lists what one operation may do to the
  store, whether it returns a result or a fault; \<open>service_refines_store\<close> shows that each is a run of \<open>store_step\<close>,
  so that every invariant of the store machine (\<open>System\<close>) holds under any use of the service, at any interruption.

  Preconditions name what the store machine asks for: the fence token of a claim is not blank, the identifiers a start
  or a fork draws for its nodes are new (\<open>free_nodes\<close>; the store checks those of a patch and a fan-out itself), and
  heartbeats, those in the loop of \<open>DispatchNext\<close> included, are sent for a tenant under whose node keys no row of another
  tenant sits (\<open>tenant_nodes\<close>, true of identifiers without a colon). Where an operation lets others in between its
  commands, what they do is itself a run of the store (\<open>runs\<close>).
\<close>

subsection \<open>Commands are steps\<close>

lemma run_command: "(\<And>s s' v. c s = Inr (s', v) \<Longrightarrow> store_step s s') \<Longrightarrow> steps_of store_step (exec c)"
  by (rule steps_of_exec) blast

lemma run_registry: "(\<And>s s' v. c s = Inr (s', v) \<Longrightarrow> registry_step s s') \<Longrightarrow> steps_of store_step (exec c)"
  by (rule run_command) (blast intro: store_step.registry)

lemma run_tools: "(\<And>s s' v. c s = Inr (s', v) \<Longrightarrow> tool_write s s') \<Longrightarrow> steps_of store_step (exec c)"
  by (rule run_command) (blast intro: store_step.tools)

lemma run_registry_commands [svc_steps]:
  "steps_of store_step (exec (CreateRuntimeSchema sch))"
  "steps_of store_step (exec (PublishRuntimeSchema sch x))"
  "steps_of store_step (exec (RetireRuntimeSchema sch x))"
  "steps_of store_step (exec (CreateExecutionBindingSnapshot hash b))"
  "steps_of store_step (exec (SaveRuntimeExplorer view))"
  "steps_of store_step (exec (SaveRuntimeMaintenanceHeartbeat hb))"
  "steps_of store_step (exec (CreateRuntimeProjectionRebuild run))"
  "steps_of store_step (exec (UpdateRuntimeProjectionRebuild run x))"
  by (rule run_registry, erule registry_step.intros)+

lemma run_tool_commands [svc_steps]:
  "steps_of store_step (exec (RegisterToolCallCommand c e))"
  "steps_of store_step (exec (RegisterFencedToolCallCommand c f now e))"
  "steps_of store_step (exec (ApplyToolCallTransitionCommand c x e))"
  "steps_of store_step (exec (ApplyFencedToolCallTransitionCommand c x f now e))"
  by (rule run_tools, erule tool_write.intros)+

lemma run_create_commands [svc_steps]:
  "steps_of store_step (exec (CreatePlan p))"
  "steps_of store_step (exec (CreateContextView w))"
  "steps_of store_step (exec (CreateAgentInstance g))"
  "steps_of store_step (exec (SaveAgentInstance g x))"
  "steps_of store_step (exec (CreateCheckpoint k))"
  "steps_of store_step (exec (CreateStateCollection sc))"
  by (rule run_command, erule store_step.intros)+

lemma run_dispatch_commands [svc_steps]:
  "steps_of store_step (exec (PrepareDispatch n x a w g cr z rs e))"
  "steps_of store_step (exec (ActivateDispatch n x a y g z e))"
  "steps_of store_step (exec (FinalizeDispatch n x a y g z f e))"
  "steps_of store_step (exec (Store_YieldDispatch yl n x a y g z f e))"
  "steps_of store_step (exec (AppendFencedRuntimeEvent t i own f now e))"
  by (rule run_command, erule store_step.intros)+

lemma run_data_commands [svc_steps]:
  "steps_of store_step (exec (ApplyStateMutation i t j m e))"
  "steps_of store_step (exec (ApplyStateRecordCommand len r x e))"
  "steps_of store_step (exec (ApplyFencedStateRecordCommand len r x i f now e))"
  "steps_of store_step (exec (RegisterEffectCommand fx e))"
  "steps_of store_step (exec (RegisterFencedEffectCommand fx f now e))"
  "steps_of store_step (exec (ApplyEffectTransition fx x e))"
  "steps_of store_step (exec (ReceiveAgentInboxCommand pm e))"
  "steps_of store_step (exec (CompleteAgentInboxCommand pm x e))"
  by (rule run_command, erule store_step.intros)+

subsection \<open>Operations are runs\<close>

lemma run_views_and_agents [svc_steps]:
  "steps_of store_step (Service_CreateContextView hash i now view)"
  "steps_of store_step (Service_CreateAgentInstance i now agent)"
  "steps_of store_step (TransitionAgentInstance now t a nxt session used x)"
  unfolding Service_CreateContextView_def Service_CreateAgentInstance_def TransitionAgentInstance_def Let_def
  by (intro svc_steps)+

lemma run_schemas [svc_steps]:
  "steps_of store_step (Service_CreateRuntimeSchema hash now si)"
  "steps_of store_step (Service_PublishRuntimeSchema now t i v x)"
  "steps_of store_step (Service_RetireRuntimeSchema now t i v x)"
  unfolding Service_CreateRuntimeSchema_def Service_PublishRuntimeSchema_def Service_RetireRuntimeSchema_def Let_def
  by (intro svc_steps)+

lemma run_records [svc_steps]:
  "steps_of store_step (Service_CreateStateCollection now sc)"
  "steps_of store_step (StateRecordCAS len eid now r x)"
  "steps_of store_step (StateRecordCASForAttempt len eid now r x a f)"
  "steps_of store_step (MutateState i eid now t j m at ai)"
  unfolding Service_CreateStateCollection_def StateRecordCAS_def StateRecordCASForAttempt_def stateRecordCAS_def
    MutateState_def Let_def
  by (intro svc_steps)+

lemma run_tool_calls [svc_steps]:
  "steps_of store_step (Service_CreateToolCall eid now c)"
  "steps_of store_step (CreateFencedToolCall eid now c f)"
  "steps_of store_step (TransitionToolCall eid now c x)"
  "steps_of store_step (TransitionFencedToolCall eid now c x f)"
  unfolding Service_CreateToolCall_def CreateFencedToolCall_def TransitionToolCall_def TransitionFencedToolCall_def
    createToolCall_def transitionToolCall_def Let_def
  by (intro svc_steps)+

lemma run_effects [svc_steps]:
  "steps_of store_step (RegisterEffect newID eid now fx)"
  "steps_of store_step (RegisterEffectForAttempt newID eid now fx f)"
  "steps_of store_step (BeginEffectReconciliation eid now t i x)"
  unfolding RegisterEffect_def RegisterEffectForAttempt_def registerEffect_def BeginEffectReconciliation_def
    ReconcileEffect_def Let_def
  by (intro svc_steps)+

lemma run_checkpoint [svc_steps]: "steps_of store_step (Service_Checkpoint hash i now t j k sr orefs)"
  unfolding Service_Checkpoint_def Let_def by (intro svc_steps)

lemma run_replay [svc_steps]: "steps_of store_step (ReplayWithOptions runID now t j n dry)"
  unfolding ReplayWithOptions_def replay_body_def Let_def by (intro svc_steps)

lemma run_prepare [svc_steps]: "steps_of store_step (prepareDispatch hash codec ids now input cap)"
  unfolding prepareDispatch_def Let_def by (intro svc_steps)

lemma run_dispatch [svc_steps]:
  "steps_of store_step (Service_ActivateDispatch codec eid now h session)"
  "steps_of store_step (Service_FinalizeDispatch hash sha256 eid ids now h oc)"
  "steps_of store_step (RecordHarnessEvent hash codec eid now h event)"
  unfolding Service_ActivateDispatch_def Service_FinalizeDispatch_def repeat_final_def RecordHarnessEvent_def Let_def
  by (intro svc_steps)+

lemma run_yield [svc_steps]: "steps_of store_step (YieldDispatch hash yid eid ids now h input)"
  unfolding YieldDispatch_def Let_def by (intro svc_steps)

lemma run_finish [svc_steps]:
  "steps_of store_step (finish_with env i now h oc)" "steps_of store_step (finish_callback cb h oc)"
  unfolding finish_callback_def finish_with_def by (intro svc_steps)+

lemma run_finish_event: "finish_event env i now h event = Some m \<Longrightarrow> steps_of store_step m"
  by (auto simp: finish_event_def Let_def split: if_splits option.splits intro!: svc_steps)

lemma run_callback [svc_steps]: "steps_of store_step (ReceiveAgentCallback cb input)"
  unfolding ReceiveAgentCallback_def process_message_def apply_callback_def Let_def by (intro svc_steps)

text \<open>Rounds against other schedulers, whose own work is a run of the store.\<close>

definition runs :: "(Store \<Rightarrow> Store) \<Rightarrow> bool" where
  "runs env = (\<forall>s. store_step\<^sup>*\<^sup>* s (env s))"

lemma run_retry:
  "\<forall>(ids, now, env) \<in> set rounds. runs env \<Longrightarrow>
     store_step\<^sup>*\<^sup>* s (fst (prepareDispatchWithRetry hash codec rounds ctxErr input cap s))"
proof (induction rounds arbitrary: s)
  case Nil
  then show ?case by (simp add: fail_def)
next
  case (Cons round rounds)
  obtain ids now env where round: "round = (ids, now, env)" by (cases round) blast
  obtain s1 r where p: "prepareDispatch hash codec ids now input cap s = (s1, r)" by force
  have 1: "store_step\<^sup>*\<^sup>* s s1" using run_prepare [of hash codec ids now input cap] p by (metis steps_of_def fst_conv)
  have 2: "store_step\<^sup>*\<^sup>* s1 (env s1)" using Cons.prems by (simp add: round runs_def)
  show ?case using 1 rtranclp_trans [OF rtranclp_trans [OF 1 2] Cons.IH] Cons.prems by (auto simp: round p split: sum.split)
qed

lemma run_admit:
  "\<forall>(ids, now, between, env) \<in> set rounds. runs between \<and> runs env \<Longrightarrow>
     store_step\<^sup>*\<^sup>* s (fst (admit_remote hash codec enrich rounds ctxErr input cap s))"
proof (induction rounds arbitrary: s)
  case Nil
  then show ?case by (simp add: fail_def)
next
  case (Cons round rounds)
  obtain ids now between env where round: "round = (ids, now, between, env)" by (cases round) blast
  have b: "store_step\<^sup>*\<^sup>* s (between s)" using Cons.prems by (simp add: round runs_def)
  have p: "store_step\<^sup>*\<^sup>* s (fst (prepareDispatch hash codec ids now dispatch cap (between s)))" for dispatch
    using rtranclp_trans [OF b] run_prepare by (simp add: steps_of_def)
  have e: "store_step\<^sup>*\<^sup>* s1 (env s1)" for s1 using Cons.prems by (simp add: round runs_def)
  have n: "store_step\<^sup>*\<^sup>* s1 (fst (admit_remote hash codec enrich rounds ctxErr input cap (env s1)))" for s1
    using rtranclp_trans [OF e Cons.IH] Cons.prems by simp
  have "store_step\<^sup>*\<^sup>* s (fst (case prepareDispatch hash codec ids now dispatch cap (between s) of
            (s', Inr handle) \<Rightarrow> (s', Inr (handle, spec))
          | (s', Inl x) \<Rightarrow> if hasDomainCode x ''NODE_DISPATCH_CONFLICT''
                          then admit_remote hash codec enrich rounds ctxErr input cap (env s') else (s', Inl x)))" for dispatch spec
    using p [of dispatch] rtranclp_trans [OF p [of dispatch] n] by (auto split: prod.split sum.split)
  then show ?case by (auto simp: round split: sum.split)
qed

subsection \<open>Starting and forking\<close>

text \<open>A chain of calls: what the first one leaves in \<open>Q\<close> is where the second begins.\<close>

lemma run_try:
  assumes "R\<^sup>*\<^sup>* s (fst (m s))" and "\<And>r. R\<^sup>*\<^sup>* (fst (m s)) (fst (f r (fst (m s))))"
  shows "R\<^sup>*\<^sup>* s (fst (try_svc m f s))"
  using rtranclp_trans [OF assms(1) assms(2)] by (simp add: try_svc_def split: prod.split)

lemma run_bind:
  assumes "R\<^sup>*\<^sup>* s (fst (m s))" and "\<And>v. R\<^sup>*\<^sup>* (fst (m s)) (fst (f v (fst (m s))))"
  shows "R\<^sup>*\<^sup>* s (fst (bind_svc m f s))"
  using assms(1) rtranclp_trans [OF assms] by (auto simp: bind_svc_def split: prod.split sum.split)

definition free_nodes :: "string \<Rightarrow> (nat \<Rightarrow> string) \<Rightarrow> Store \<Rightarrow> bool" where
  "free_nodes t new s = (\<forall>i. mget (runtimeNodes s) (runtimePlanKey t (new i)) = None)"

lemma free_start: "free_nodes t new s \<Longrightarrow> n \<in> set (start_nodes new t j now specs) \<Longrightarrow> mget (runtimeNodes s) (node_key n) = None"
  by (auto simp: start_nodes_def free_nodes_def new_node_run_def node_key_def in_set_zip)

lemma free_fork:
  "free_nodes t new s \<Longrightarrow> n \<in> set (fork_nodes new m done t j now specs) \<Longrightarrow> mget (runtimeNodes s) (node_key n) = None"
  by (auto simp: fork_nodes_def fork_node_def Let_def free_nodes_def new_node_run_def node_key_def in_set_zip split: option.splits)

lemma run_bundle:
  assumes "\<And>n. n \<in> set ns \<Longrightarrow> mget (runtimeNodes s) (node_key n) = None"
  shows "store_step\<^sup>*\<^sup>* s (fst (exec (CreateJobBundle j ns e) s))"
  using store_step.create_job [OF _ assms] by (auto simp: exec_def split: sum.split)

lemma run_started [svc_steps]: "steps_of store_step (started ids now t plan job)"
  unfolding started_def by (intro svc_steps)

lemma run_loads [svc_steps]:
  "steps_of store_step (loadIdempotentStart existing job)" "steps_of store_step (load_fork cp source t existing)"
  "steps_of store_step (ensureExecutionBindingSnapshot hash b)" "steps_of store_step (store_plan plan t)"
  unfolding loadIdempotentStart_def load_fork_def ensureExecutionBindingSnapshot_def store_plan_def by (intro svc_steps)+

lemma steps_here: "steps_of R m \<Longrightarrow> R\<^sup>*\<^sup>* s (fst (m s))"
  by (simp add: steps_of_def)

text \<open>Storing the binding and the plan leaves the nodes alone.\<close>

lemma ensure_nodes: "runtimeNodes (fst (ensureExecutionBindingSnapshot hash b s)) = runtimeNodes s"
  by (auto simp: ensureExecutionBindingSnapshot_def try_svc_def exec_def query_def ret_def fail_def guard_svc_def
      CreateExecutionBindingSnapshot_def Let_def check_nil_def require_def split: sum.splits prod.splits option.splits if_splits)

lemma store_plan_nodes: "runtimeNodes (fst (store_plan plan t s)) = runtimeNodes s"
  by (auto simp: store_plan_def try_svc_def exec_def query_def ret_def fail_def bind_svc_def
      CreatePlan_def Let_def check_nil_def require_def split: sum.splits prod.splits option.splits if_splits)

lemma run_bundle_job:
  assumes "free_nodes (si_TenantID input) (id_node new) s"
  shows "store_step\<^sup>*\<^sup>* s (fst (bundle_job new now input plan job s))"
  unfolding bundle_job_def Let_def
  by (rule run_try, rule run_bundle, rule free_start [OF assms], assumption) (rule steps_here, intro svc_steps)

lemma run_admit_job:
  assumes "free_nodes (si_TenantID input) (id_node new) s"
  shows "store_step\<^sup>*\<^sup>* s (fst (admit_job sv hash new now input plan binding job s))"
proof -
  have f: "free_nodes (si_TenantID input) (id_node new) (fst (store_plan p t (fst (ensureExecutionBindingSnapshot hash b s))))" for p t b
    using assms by (simp add: free_nodes_def store_plan_nodes ensure_nodes)
  show ?thesis unfolding admit_job_def check_svc_def
    by (auto split: option.split simp: fail_def intro!: run_bind [where R = store_step] steps_here [OF run_loads(3)] steps_here [OF run_loads(4)] run_bundle_job f)
qed

lemma run_Start:
  assumes "free_nodes (si_TenantID input) (id_node new) s"
  shows "store_step\<^sup>*\<^sup>* s (fst (Start sv hash limits new now input s))"
  unfolding Start_def Let_def guard_svc_def check_svc_def query_def bind_svc_def try_svc_def
  using run_admit_job [OF assms] steps_here [OF run_loads(1)] by (simp add: fail_def split: sum.split option.split)

lemma run_fork_from:
  assumes "free_nodes t (id_node new) s"
  shows "store_step\<^sup>*\<^sup>* s (fst (fork_from sv new now t checkpoint source by key s))"
  unfolding fork_from_def Let_def guard_svc_def check_svc_def
  by (auto split: option.split simp: fail_def
      intro!: run_bind [where R = store_step] run_bundle free_fork [OF assms] steps_here [OF run_started] simp: query_def)

lemma run_Fork:
  assumes "free_nodes t (id_node new) s"
  shows "store_step\<^sup>*\<^sup>* s (fst (Fork sv new now t c by key s))"
  unfolding Fork_def Let_def query_def bind_svc_def try_svc_def
  using run_fork_from [OF assms] steps_here [OF run_loads(2)] by (simp add: fail_def split: sum.split option.split)

subsection \<open>Operations that are one command\<close>

lemma run_one: "(\<And>v. c s = Inr (s', v) \<Longrightarrow> store_step s s') \<Longrightarrow> c s = Inr (s', w) \<Longrightarrow> store_step\<^sup>*\<^sup>* s s'"
  by blast

lemma run_HeartbeatNode: "tenant_nodes t s \<Longrightarrow> store_step\<^sup>*\<^sup>* s (fst (HeartbeatNode eid now t i own x d s))"
  by (auto simp: HeartbeatNode_def exec_def intro: store_step.heartbeat_node split: sum.split)

lemma run_HeartbeatDispatch:
  "tenant_nodes (ra_TenantID (dh_Attempt h)) s \<Longrightarrow> store_step\<^sup>*\<^sup>* s (fst (Service_HeartbeatDispatch now h s))"
  unfolding Service_HeartbeatDispatch_def
  by (rule run_bind) (auto simp: exec_def ret_def intro: store_step.heartbeat split: sum.split)

lemma run_ResumeYield:
  assumes "ResumeYield newID now t i key actor s = Inr (s', y)"
  shows "store_step\<^sup>*\<^sup>* s s'"
  using assms unfolding ResumeYield_def Let_def require_Inr check_nil_Inr bind_res_Inr
  by (auto simp: require_Inr check_nil_Inr bind_res_Inr intro: store_step.resolve split: if_splits)

lemma run_provider:
  "ReceiveProviderCallback hash mid rid eid now ci s = Inr (s', mf) \<Longrightarrow> store_step\<^sup>*\<^sup>* s s'"
  "ResolveProviderReconciliation eid now t i st actor s = Inr (s', rf) \<Longrightarrow> store_step\<^sup>*\<^sup>* s s'"
  "RecordProviderBill hash mid rid eid now bi s = Inr (s', b) \<Longrightarrow> store_step\<^sup>*\<^sup>* s s'"
  unfolding ReceiveProviderCallback_def ResolveProviderReconciliation_def RecordProviderBill_def Let_def
  subgoal by (auto simp: require_Inr intro: store_step.provider_inbox split: sum.splits)
  subgoal by (auto simp: require_Inr check_nil_Inr bind_res_Inr intro: store_step.provider_recon)
  subgoal by (auto simp: require_Inr bind_res_Inr intro: store_step.provider_bill)
  done

lemma run_CreateFanoutSet:
  assumes "CreateFanoutSet sv hash ids now input s = Inr (s', r)" and k: "keyed job_key (runtimeJobs s)"
  shows "store_step\<^sup>*\<^sup>* s s'"
proof -
  have job: "c = job" if "Store_JobRun t i s = Inr job" and "mget (runtimeJobs s) (job_key job) = Some c" for t i job c
    using that k by (auto simp: Store_JobRun_def lookup_or_Inr keyed_def)
  have load: "s' = s" if "load_fanout i f s = Inr (s', r)" for i f
    using that by (auto simp: load_fanout_def bind_res_Inr)
  note c = assms(1) [unfolded CreateFanoutSet_def Let_def require_Inr check_nil_Inr bind_res_Inr]
  show ?thesis
  proof (cases "FanoutSetByIdempotencyKey (cf_TenantID (fanout_defaults input)) (cf_JobRunID (fanout_defaults input))
      (cf_IdempotencyKey (fanout_defaults input)) s")
    case (Inr f)
    with c load show ?thesis by (auto simp: require_Inr)
  next
    case (Inl e)
    with c show ?thesis
      by (auto simp: require_Inr check_nil_Inr bind_res_Inr
          intro!: r_into_rtranclp store_step.create_fanout dest: job [unfolded job_key_def] simp: job_key_def)
  qed
qed

text \<open>The job a patch or a fan-out writes is in the state of the stored one: rows sit under their own keys.\<close>

lemma run_PatchGraph:
  assumes "PatchGraph sv hash ids now t i actor patch s = Inr (s', r)" and k: "keyed job_key (runtimeJobs s)"
  shows "store_step\<^sup>*\<^sup>* s s'"
proof -
  from assms(1) obtain job plan nodes event result0 updated where "requireDynamicGraph sv t = None"
    and j: "Store_JobRun t i s = Inr job" and "Store_Plan t (jr_PlanRevisionID job) s = Inr plan"
    and "ApplyGraphPatch (ids 0) hash plan (jp_GraphVersion plan) patch = Inr result0"
    and "r = result0\<lparr>gr_Plan := (gr_Plan result0)\<lparr>jp_CompiledAt := now\<rparr>\<rparr>"
    and ns: "nodes = added_nodes ids now t (jr_ID job) (map pn_Key (jp_Nodes plan)) 1 (jp_Nodes (gr_Plan r))"
    and c: "ApplyGraphPatchCommand (patched_job now (gr_Plan r) job) (jr_Version job) (gr_Plan r) nodes
       (gr_CancelPendingNodeKeys r) event s = Inr (s', updated)" by (rule PatchGraph_ok)
  have "jr_State (patched_job now (gr_Plan r) job) = jr_State c"
    if "mget (runtimeJobs s) (job_key (patched_job now (gr_Plan r) job)) = Some c" for c
    using that j k by (auto simp: Store_JobRun_def lookup_or_Inr keyed_def)
  moreover have "nr_State n = NodePending" if "n \<in> set nodes" for n using that added_nodes_pending unfolding ns by blast
  ultimately show ?thesis using store_step.graph_patch [OF c] by blast
qed

subsection \<open>The loop of a worker\<close>

text \<open>Every heartbeat of the loop acts on a store in which the node keys of its tenant are its own.\<close>

fun loop_beats :: "dispatch_env \<Rightarrow> AgentSessionRef \<Rightarrow> nat \<Rightarrow> (time \<times> (Store \<Rightarrow> Store) \<times> signal) list \<Rightarrow> DispatchHandle \<Rightarrow> Store \<Rightarrow> bool" where
  "loop_beats env session i ((now, others, HeartbeatTick) # rest) handle s =
     (tenant_nodes (ra_TenantID (dh_Attempt handle)) (others s)
      \<and> (case Service_HeartbeatDispatch now handle (others s) of
           (s', Inl e) \<Rightarrow> True | (s', Inr handle') \<Rightarrow> loop_beats env session (Suc i) rest handle' s'))"
| "loop_beats env session i ((now, others, StreamEvent event) # rest) handle s =
     (ae_Session event = session \<longrightarrow> finish_event env i now handle event = None \<longrightarrow>
       (case RecordHarnessEvent (de_hash env) (de_codec env) (de_event env i) now handle event (others s) of
          (s', Inl e) \<Rightarrow> True | (s', Inr _) \<Rightarrow> loop_beats env session (Suc i) rest handle s'))"
| "loop_beats env session i signals handle s = True"

definition next_beats ::
    "dispatch_env \<Rightarrow> (dispatch_ids \<times> time \<times> (Store \<Rightarrow> Store)) list \<Rightarrow> fault \<Rightarrow> (harness \<times> HarnessCapabilities) res \<Rightarrow> time
     \<Rightarrow> (time \<times> (Store \<Rightarrow> Store) \<times> signal) list \<Rightarrow> DispatchInput \<Rightarrow> Store \<Rightarrow> bool" where
  "next_beats env rounds err resolved now signals input s =
     (\<forall>h cap s1 handle session s2 handle'. resolved = Inr (h, cap)
        \<longrightarrow> prepareDispatchWithRetry (de_hash env) (de_codec env) rounds err input cap s = (s1, Inr handle)
        \<longrightarrow> harness_session h (dh_ResumeSession handle) = Inr (session, True)
        \<longrightarrow> Service_ActivateDispatch (de_codec env) (de_event env 0) now handle session s1 = (s2, Inr handle')
        \<longrightarrow> loop_beats env session 1 signals handle' s2)"

lemma run_loop:
  "loop_beats env session i signals handle s \<Longrightarrow> \<forall>(now, others, sig) \<in> set signals. runs others
     \<Longrightarrow> store_step\<^sup>*\<^sup>* s (fst (dispatch_loop env session i signals handle s))"
proof (induction env session i signals handle s rule: dispatch_loop.induct)
  case (2 env session i now others e rest handle s)
  then have "store_step\<^sup>*\<^sup>* s (others s)" by (simp add: runs_def)
  from rtranclp_trans [OF this] show ?case using steps_here [OF run_finish(1)] by (simp add: split_def Let_def)
next
  case (3 env session i now others rest handle s)
  obtain s1 r where h: "Service_HeartbeatDispatch now handle (others s) = (s1, r)" by force
  have o: "store_step\<^sup>*\<^sup>* s (others s)" using "3.prems"(2) by (simp add: runs_def)
  have "store_step\<^sup>*\<^sup>* (others s) s1" using run_HeartbeatDispatch [of handle "others s" now] "3.prems"(1) h by simp
  from rtranclp_trans [OF o this] show ?case
  proof (cases r)
    case (Inr handle')
    then have "store_step\<^sup>*\<^sup>* s1 (fst (dispatch_loop env session (Suc i) rest handle' s1))"
      using "3.IH" [OF h [symmetric]] "3.prems" h by simp
    then show ?thesis using \<open>store_step\<^sup>*\<^sup>* s s1\<close> h Inr by simp
  qed (simp add: h)
next
  case (4 env session i now others rest handle s)
  then have "store_step\<^sup>*\<^sup>* s (others s)" by (simp add: runs_def)
  from rtranclp_trans [OF this] show ?case using steps_here [OF run_finish(1)] by simp
next
  case (5 env session i now others event rest handle s)
  have o: "store_step\<^sup>*\<^sup>* s (others s)" using "5.prems"(2) by (simp add: runs_def)
  note trans = rtranclp_trans [OF o]
  obtain s1 r where h: "RecordHarnessEvent (de_hash env) (de_codec env) (de_event env i) now handle event (others s) = (s1, r)" by force
  have s1: "store_step\<^sup>*\<^sup>* s s1" using trans steps_here [OF run_dispatch(3)] h by (metis fst_conv)
  consider "ae_Session event \<noteq> session" | m where "ae_Session event = session" "finish_event env i now handle event = Some m"
    | "ae_Session event = session" "finish_event env i now handle event = None" by fastforce
  then show ?case
  proof cases
    case 1
    then show ?thesis using trans steps_here [OF run_finish(1)] by simp
  next
    case 2
    then show ?thesis using trans steps_here [OF run_finish_event] by simp
  next
    case 3
    then show ?thesis using s1 rtranclp_trans [OF s1 "5.IH" [OF _ _ h [symmetric]]] "5.prems" h by (cases r) auto
  qed
qed simp

lemma run_DispatchNext:
  assumes "\<forall>(ids, now, others) \<in> set rounds. runs others" and "\<forall>(at, others, sig) \<in> set signals. runs others"
    and "next_beats env rounds err resolved now signals input s"
  shows "store_step\<^sup>*\<^sup>* s (fst (DispatchNext env rounds err resolved now signals input s))"
proof (cases resolved)
  case (Inr hc)
  obtain h cap where hc: "hc = (h, cap)" by force
  obtain s1 r where p: "prepareDispatchWithRetry (de_hash env) (de_codec env) rounds err input cap s = (s1, r)" by force
  have 1: "store_step\<^sup>*\<^sup>* s s1" using run_retry [OF assms(1)] p by (metis fst_conv)
  have finish: "store_step\<^sup>*\<^sup>* s (fst (finish_with env i now handle oc x))" if "store_step\<^sup>*\<^sup>* s x" for i handle oc x
    using rtranclp_trans [OF that] steps_here [OF run_finish(1)] .
  show ?thesis
  proof (cases r)
    case handle: (Inr handle)
    have act: "store_step\<^sup>*\<^sup>* s (fst (Service_ActivateDispatch (de_codec env) (de_event env 0) now handle session s1))" for session
      using rtranclp_trans [OF 1] steps_here [OF run_dispatch(1)] .
    have loop: "store_step\<^sup>*\<^sup>* s (fst (dispatch_loop env session 1 signals h' s2))"
      if "harness_session h (dh_ResumeSession handle) = Inr (session, True)"
        "Service_ActivateDispatch (de_codec env) (de_event env 0) now handle session s1 = (s2, Inr h')" for session s2 h'
    proof -
      have "loop_beats env session 1 signals h' s2"
        using assms(3) Inr hc p handle that unfolding next_beats_def by blast
      from rtranclp_trans [OF _ run_loop [OF this assms(2)]] act [of session] that(2) show ?thesis by simp
    qed
    show ?thesis using 1 act loop finish
      by (auto simp: DispatchNext_def Inr hc p handle split: sum.split prod.split) (metis fst_conv)
  qed (use 1 in \<open>simp add: DispatchNext_def Inr hc p\<close>)
qed (simp add: DispatchNext_def)

subsection \<open>The service\<close>

inductive service_step :: "Store \<Rightarrow> Store \<Rightarrow> bool" where
  start: "free_nodes (si_TenantID input) (id_node new) s \<Longrightarrow> service_step s (fst (Start sv hash limits new now input s))"
| fork: "free_nodes t (id_node new) s \<Longrightarrow> service_step s (fst (Fork sv new now t i by key s))"
| checkpoint: "service_step s (fst (Service_Checkpoint hash i now t j k sr orefs s))"
| replay: "service_step s (fst (ReplayWithOptions run now t j n dry s))"
| refresh: "service_step s (fst (Refresh ids now t j s))"
| pause: "service_step s (fst (Pause eid now t j at ai s))"
| resume: "service_step s (fst (Resume eid ids now t j at ai s))"
| cancel: "service_step s (fst (Cancel eid ids now t j at ai s))"
| claim: "(\<And>f. tok = Inr f \<Longrightarrow> \<not> blank f) \<Longrightarrow> service_step s (fst (ClaimNode eid tok now t j own d s))"
| heartbeat_node: "tenant_nodes t s \<Longrightarrow> service_step s (fst (HeartbeatNode eid now t i own x d s))"
| expire: "service_step s (fst (Service_ExpireNodeLeases eids idf clock t now s))"
| transition: "service_step s (fst (TransitionNode eid ids tok now t n nxt at ai x s))"
| complete: "service_step s (fst (CompleteNode eid ids now t n refs dig at ai x s))"
| fail: "service_step s (fst (FailNode eid ids now t n ec rt at ai x s))"
| patch_graph: "PatchGraph sv hash nid now t i actor patch s = Inr (s', gr) \<Longrightarrow> service_step s s'"
| create_fanout: "CreateFanoutSet sv hash nid now fin s = Inr (s', fr) \<Longrightarrow> service_step s s'"
| join: "service_step s (fst (JoinFanoutSet eid now t i actor s))"
| create_schema: "service_step s (fst (Service_CreateRuntimeSchema hash now sin s))"
| publish_schema: "service_step s (fst (Service_PublishRuntimeSchema now t i v x s))"
| retire_schema: "service_step s (fst (Service_RetireRuntimeSchema now t i v x s))"
| create_collection: "service_step s (fst (Service_CreateStateCollection now sc s))"
| mutate_state: "service_step s (fst (MutateState i eid now t j mutation at ai s))"
| state_cas: "service_step s (fst (StateRecordCAS len eid now rec x s))"
| state_cas_fenced: "service_step s (fst (StateRecordCASForAttempt len eid now rec x a f s))"
| create_call: "service_step s (fst (Service_CreateToolCall eid now c s))"
| create_fenced: "service_step s (fst (CreateFencedToolCall eid now c f s))"
| transit_call: "service_step s (fst (TransitionToolCall eid now c x s))"
| transit_fenced: "service_step s (fst (TransitionFencedToolCall eid now c x f s))"
| effect: "service_step s (fst (RegisterEffect new_id eid now fx s))"
| effect_fenced: "service_step s (fst (RegisterEffectForAttempt new_id eid now fx f s))"
| effect_reconcile: "service_step s (fst (ReconcileEffect eid now t i est ext rkey dig x s))"
| effect_unknown: "service_step s (fst (BeginEffectReconciliation eid now t i x s))"
| create_view: "service_step s (fst (Service_CreateContextView hash i now vin s))"
| create_agent: "service_step s (fst (Service_CreateAgentInstance i now ain s))"
| transition_agent: "service_step s (fst (TransitionAgentInstance now t i nxt_agent session_ref used x s))"
| prepare_local: "\<forall>(dids, now, env) \<in> set rounds. runs env
    \<Longrightarrow> service_step s (fst (Service_PrepareDispatch hash codec rounds err resolve_kind din s))"
| dispatch_next: "\<forall>(dids, now, env) \<in> set rounds. runs env \<Longrightarrow> \<forall>(at, others, sig) \<in> set signals. runs others
    \<Longrightarrow> next_beats denv rounds err resolved now signals din s
    \<Longrightarrow> service_step s (fst (DispatchNext denv rounds err resolved now signals din s))"
| prepare: "\<forall>(dids, now, env) \<in> set rounds. runs env
    \<Longrightarrow> service_step s (fst (PrepareRemoteDispatch hash codec rounds err din cap s))"
| admit: "\<forall>(dids, now, between, env) \<in> set admits. runs between \<and> runs env
    \<Longrightarrow> service_step s (fst (PrepareAdmittedRemoteDispatch hash codec enrich admits err rin s))"
| activate: "service_step s (fst (Service_ActivateDispatch codec eid now h session s))"
| heartbeat: "tenant_nodes (ra_TenantID (dh_Attempt h)) s \<Longrightarrow> service_step s (fst (Service_HeartbeatDispatch now h s))"
| harness_event: "service_step s (fst (RecordHarnessEvent hash codec eid now h event s))"
| finalize: "service_step s (fst (Service_FinalizeDispatch hash sha256 eid ids now h oc s))"
| yield: "service_step s (fst (YieldDispatch hash yid eid ids now h yin s))"
| resume_yield: "ResumeYield new_id now t i key actor s = Inr (s', y) \<Longrightarrow> service_step s s'"
| provider_callback: "ReceiveProviderCallback hash mid rid eid now cin s = Inr (s', mf) \<Longrightarrow> service_step s s'"
| provider_settle: "ResolveProviderReconciliation eid now t i est actor s = Inr (s', rf) \<Longrightarrow> service_step s s'"
| provider_bill: "RecordProviderBill hash mid rid eid now bin s = Inr (s', b) \<Longrightarrow> service_step s s'"
| gateway: "\<forall>k. runs (ge_others genv k) \<Longrightarrow> service_step s (fst (Gateway_Call genv request s))"
| gateway_token: "\<forall>k. runs (ge_others genv k) \<Longrightarrow> service_step s (fst (CallWithToken genv now token token_request s))"
| callback: "service_step s (fst (ReceiveAgentCallback cb cbin s))"
| maintenance: "service_step s (fst (exec (SaveRuntimeMaintenanceHeartbeat hb) s))"

lemma run_reconcile [svc_steps]: "steps_of store_step (ReconcileEffect eid now t i est ext rkey dig x)"
  unfolding ReconcileEffect_def Let_def by (intro svc_steps)

lemma run_remote:
  "\<forall>(ids, now, env) \<in> set rounds. runs env \<Longrightarrow> store_step\<^sup>*\<^sup>* s (fst (PrepareRemoteDispatch hash codec rounds err input cap s))"
  by (auto simp: PrepareRemoteDispatch_def Let_def guard_svc_def fail_def intro!: run_retry)

lemma run_admitted:
  "\<forall>(ids, now, between, env) \<in> set rounds. runs between \<and> runs env
     \<Longrightarrow> store_step\<^sup>*\<^sup>* s (fst (PrepareAdmittedRemoteDispatch hash codec enrich rounds err input s))"
  unfolding PrepareAdmittedRemoteDispatch_def Let_def guard_svc_def using run_admit by (simp add: fail_def)

lemma run_prepare_local:
  "\<forall>(ids, now, env) \<in> set rounds. runs env
     \<Longrightarrow> store_step\<^sup>*\<^sup>* s (fst (Service_PrepareDispatch hash codec rounds err resolve input s))"
  using run_retry by (auto simp: Service_PrepareDispatch_def bind_svc_def query_def split: sum.split)

lemma run_gateway:
  "\<forall>k. runs (ge_others genv k) \<Longrightarrow> store_step\<^sup>*\<^sup>* s (fst (Gateway_Call genv request s))"
  "\<forall>k. runs (ge_others genv k) \<Longrightarrow> store_step\<^sup>*\<^sup>* s (fst (CallWithToken genv now token token_request s))"
  using store_gateway.Gateway_Call_steps [of genv] store_gateway.CallWithToken_steps [of genv]
  by (simp_all add: steps_of_def store_gateway.quiet_def runs_def)

lemma service_run:
  assumes "service_step s s'" and "store_ok s"
  shows "store_step\<^sup>*\<^sup>* s s'"
  using assms
proof (induction rule: service_step.induct)
  case (patch_graph sv hash nid now t i actor patch s s' gr)
  then show ?case using run_PatchGraph store_ok_keyed by blast
next
  case (create_fanout sv hash nid now fin s s' fr)
  then show ?case using run_CreateFanoutSet store_ok_keyed by blast
next
  case (dispatch_next rounds signals denv err resolved now din s)
  then show ?case using run_DispatchNext by blast
next
  case (claim tok s eid now t j own d)
  then show ?case using run_ClaimNode by (simp add: steps_of_def)
qed (rule run_Start run_Fork run_HeartbeatNode run_HeartbeatDispatch run_ResumeYield run_provider
      run_remote run_admitted run_prepare_local run_gateway; assumption | rule steps_here, intro svc_steps)+

text \<open>
  C1. Whatever calls of the service run on a well-formed store, in whatever order, fail or not, they are a run of the
  store's atomic commands: the store stays well formed, no event is lost, and every node moves along its state machine.
  What is asked of the calls is in the rules of \<open>service_step\<close>: a start or a fork draws new node identifiers, a claim
  draws a token that is not blank, a heartbeat is sent for a tenant whose node keys are not another's, and what others do
  inside an operation is itself a run of the store.
\<close>

theorem service_refines_store:
  assumes "service_step\<^sup>*\<^sup>* s s'" and "store_ok s"
  shows "store_step\<^sup>*\<^sup>* s s' \<and> store_ok s' \<and> log_grows s s' \<and> moves node_evolves (runtimeNodes s) (runtimeNodes s')"
proof -
  have "store_step\<^sup>*\<^sup>* s s'" using assms(1)
  proof (induction rule: rtranclp_induct)
    case (step s1 s2)
    have "store_ok s1" using run_ok [OF step.IH assms(2)] by blast
    then show ?case using service_run [OF step.hyps(2)] step.IH by simp
  qed simp
  with assms(2) show ?thesis using run_ok run_log_grows run_nodes by blast
qed

text \<open>A job whose graph is patched, which appends a node and cancels a pending one, and that is then cancelled.\<close>

definition ex_growing :: Store where
  "ex_growing = ex_store\<lparr>runtimePlans := [(''t:p1'', ex_plan)]\<rparr>"

definition ex_grown :: "Store \<times> GraphPatchResult res" where
  "ex_grown = exec (PatchGraph NewService (\<lambda>_. replicate 64 CHR ''a'') (\<lambda>n. ''i'' @ replicate n CHR ''x'') 20 ''t'' ''j'' ''u'' ex_patch) ex_growing"

theorem service_refines_store_witness:
  "\<exists>s s'. service_step ex_growing s \<and> service_step s s' \<and> store_ok s'
     \<and> map_option jr_PlanRevisionID (mget (runtimeJobs s) ''t:j'') = Some ''i''
     \<and> map_option jr_State (mget (runtimeJobs s') ''t:j'') = Some JobRunCancelled"
proof -
  let ?c = "\<lambda>s. fst (Cancel ''c'' ex_ids 20 ''t'' ''j'' ''user'' ''u'' s)"
  have "case ex_grown of (s, Inl _) \<Rightarrow> False | (s, Inr _) \<Rightarrow>
      map_option jr_PlanRevisionID (mget (runtimeJobs s) ''t:j'') = Some ''i''
      \<and> map_option jr_State (mget (runtimeJobs (?c s)) ''t:j'') = Some JobRunCancelled" by code_simp
  then obtain s r where g: "ex_grown = (s, Inr r)" and j: "map_option jr_PlanRevisionID (mget (runtimeJobs s) ''t:j'') = Some ''i''"
    "map_option jr_State (mget (runtimeJobs (?c s)) ''t:j'') = Some JobRunCancelled" by (auto split: prod.splits sum.splits)
  have 1: "service_step ex_growing s" using g unfolding ex_grown_def exec_Inr by (rule service_step.patch_graph)
  have 2: "service_step s (?c s)" by (rule service_step.cancel)
  have ok: "store_ok ex_growing" using ex_store_ok by (simp add: store_ok_def ex_growing_def)
  have "service_step\<^sup>*\<^sup>* ex_growing (?c s)" using 1 2 by (rule converse_rtranclp_into_rtranclp [OF _ r_into_rtranclp])
  from service_refines_store [OF this ok] 1 2 j show ?thesis by blast
qed

end
