(* ===== verification/Spec2Isabelle.thy ===== *)
theory Spec2Isabelle
  imports Prelude Lifecycle Plan_Graph Graph_Patch Fanout Governance Memory_Store Commands Dispatch
    Resources Scheduling Outbox Idempotency Registry Fanout_Store State_Tools Tool_Calls Yields Provider_Store
    Provider_Service Service_Base Fanout_Service Scheduler System Job_Control
    Compiler Sanitize Patch_Service Services
begin

section \<open>The Agentic Job Runtime of Content Cloud\<close>

text \<open>
  A verification development for the job runtime of Content Cloud, the engine under \<^verbatim>\<open>internal/runtime\<close> that turns a
  published SOP into a plan of nodes, schedules them, lends them to agents under fenced leases, lets those agents write
  shared state, call tools and cause external effects, and keeps an event log of all of it. The store it runs on is the
  in-memory repository \<^verbatim>\<open>internal/persistence/memory/runtime*.go\<close>, whose methods hold one mutex each and so are atomic.

  \<^bold>\<open>How the program is represented.\<close> A Go struct is a record with the field names of the source behind a
  short prefix, a string enumeration is a datatype with a constructor for foreign values, a Go map is an association
  list with \<open>mget\<close>, \<open>mput\<close> and \<open>mdel\<close> (\<open>Prelude\<close>, so that the order in which Go enumerates a map can be quantified
  over), \<^verbatim>\<open>int64\<close> sums are wrapped by \<open>i64\<close> where they can overflow, strings are byte strings, a time is an integer
  with 0 for the zero time, and a nil pointer is \<open>None\<close>. An error is a value \<open>Inl f\<close> of a structured \<open>fault\<close>. A store
  method is a command \<open>Store \<Rightarrow> fault + (Store \<times> 'a)\<close> which changes nothing when it fails, with one exception that the
  source has (\<open>ApplyFanoutJoinCommand\<close>). A service method is an operation \<open>Store \<Rightarrow> Store \<times> 'a res\<close> (\<open>Service_Base\<close>),
  because it may have executed commands before it fails. Identifiers, the clock, hashes, random tokens and JSON
  decoders are arguments; nothing is assumed of them except where a theorem says so.
\<close>

subsection \<open>Theories and sources\<close>

text \<open>
  \<^item> \<open>Prelude\<close>: maps, sorting, results, \<^verbatim>\<open>strings.TrimSpace\<close> and its kin, the fault codes of \<^verbatim>\<open>platform/fault/error.go\<close>, and
    the lemmas on them that all theories share.
  \<^item> \<open>Lifecycle\<close>: the structs, \<^verbatim>\<open>Validate\<close> methods and state machines of \<^verbatim>\<open>model.go\<close> and \<^verbatim>\<open>model_validation.go\<close>.
    \<open>Governance\<close> and \<open>Providers\<close>: schemas, bindings, collections, records, quotas, provider rows.
  \<^item> \<open>Plan_Graph\<close>: \<^verbatim>\<open>JobPlanRevision.Validate\<close> with Kahn's algorithm, \<^verbatim>\<open>planHasPath\<close>. \<open>Graph_Patch\<close>: the pure part of
    \<^verbatim>\<open>graph_patch.go\<close>, \<open>Patch_Service\<close>: its service method.
    \<open>Compiler\<close>: \<^verbatim>\<open>compiler.go\<close> and the SOP definition of \<^verbatim>\<open>internal/catalog\<close>. \<open>Fanout\<close>: the join reducer of \<^verbatim>\<open>fanout.go\<close>.
  \<^item> \<open>Memory_Store\<close>, \<open>Commands\<close>, \<open>Dispatch\<close>, \<open>Outbox\<close>, \<open>Registry\<close>, \<open>Fanout_Store\<close>, \<open>State_Tools\<close>, \<open>Provider_Store\<close>: the store, one
    theory for each file of \<^verbatim>\<open>internal/persistence/memory/runtime*.go\<close>; \<open>Resources\<close>, \<open>Scheduling\<close>, \<open>Idempotency\<close>, \<open>Tool_Calls\<close>: what
    groups of its commands guarantee.
  \<^item> \<open>System\<close>: all store commands as one step relation \<open>store_step\<close>, and what holds along its runs.
  \<^item> \<open>Service_Base\<close>: operations, their composition and the steps they make. \<open>Scheduler\<close>, \<open>Job_Control\<close>, \<open>Job_Start\<close>,
    \<open>State_Service\<close>: \<^verbatim>\<open>service.go\<close>. \<open>Fanout_Service\<close>: \<^verbatim>\<open>fanout.go\<close>. \<open>Provider_Service\<close>: \<^verbatim>\<open>provider.go\<close>. \<open>Agents\<close>:
    \<^verbatim>\<open>agent.go\<close> and \<^verbatim>\<open>context.go\<close>. \<open>Yields\<close>: \<^verbatim>\<open>yield.go\<close>. \<open>Dispatch_Service\<close>: \<^verbatim>\<open>dispatch.go\<close>. \<open>Sanitize\<close>: the safe summaries
    of \<^verbatim>\<open>dispatch.go\<close>. \<open>Mcp_Gateway\<close>: \<^verbatim>\<open>mcp_gateway.go\<close>. \<open>Remote_Workers\<close>: \<^verbatim>\<open>agent_callback.go\<close> and the handles of
    remote workers.
  \<^item> \<open>Services\<close>: all operations of the service as one step relation \<open>service_step\<close>, refined by runs of \<open>store_step\<close>.

  Interfaces are locales, each interpreted on the model: the contract of a versioned table with a state machine (jobs,
  nodes, tool calls; \<open>cas_machine\<close>), step relations that contain the writes of a refresh (\<open>node_steps\<close>, \<open>refresh_steps\<close>)
  or of a tool (\<open>tool_steps\<close>, \<open>gateway_steps\<close>), so that one proof per operation serves every invariant.
\<close>

subsection \<open>What the lemmas show\<close>

text \<open>
  \<^item> \<^bold>\<open>Composition.\<close> \<open>service_refines_store\<close>: whatever writing calls of the service run, whether they return or
    fail, is a run of atomic commands (what is asked of the calls is in the rules of \<open>service_step\<close>); \<open>store_well_formed\<close>, \<open>log_complete\<close>, \<open>job_no_lost_update\<close> then hold for every use of the service.
  \<^item> \<^bold>\<open>Leases.\<close> A node is dispatched to one worker (\<open>prepare_exclusive\<close>), finished only with its fence
    (\<open>finalize_fenced\<close>) and never after expiry (\<open>expiry_fences_out\<close>); a worker that reports success has ended its attempt
    (\<open>dispatch_next_settles\<close>); retries and quotas are bounded (\<open>dispatch_retries_bounded\<close>, \<open>quota_not_oversold\<close>).
  \<^item> \<^bold>\<open>Graphs.\<close> Validation, path search and depth are correct decision procedures; patches only extend; compiled
    plans say what the SOP says and cannot deadlock; a refresh releases nodes in dependency order and completes jobs.
  \<^item> \<^bold>\<open>Authority.\<close> Tools, budgets and depth shrink along the agent tree; remote workers get what the frozen binding
    grants; the gateway and the ledger check fence, lease, agent and view; shared state is written by its owners; secrets
    are redacted.
  \<^item> \<^bold>\<open>Repetition.\<close> Starting, calling a tool, a provider's and an agent's callbacks, resuming: repeated once more
    they change nothing.
  \<^item> \<^bold>\<open>Where the code does less than it means to.\<close> Theorems such as \<open>gateway_runs_twice\<close>, \<open>waiting_human_stuck\<close>,
    \<open>callback_yield_not_resumed\<close>, \<open>waiting_child_blocks_join\<close>, \<open>quota_overflow_oversells\<close>,
    \<open>known_reservation_oversells\<close>, \<open>descendant_quota_wraps\<close>, \<open>untrimmed_write_bypasses\<close> show the behaviour, most of them on
    a run from a concrete store.
\<close>

subsection \<open>Recursion and bounds\<close>

text \<open>
  No definition uses fuel. Loops over slices and maps are structural; the queue loops of \<^verbatim>\<open>validateAcyclic\<close> and
  \<^verbatim>\<open>planHasPath\<close>, the depth-first search of \<^verbatim>\<open>graphDepth\<close>, the UTF-8 decoder and the sanitiser have termination proofs by
  a measure. The retry loops of the dispatcher recurse on the list of rounds the caller's context allows and the loop
  of a worker on the list of signals it receives; theorems about them quantify over all such lists, and
  \<open>dispatch_next_settles\<close> says when the loop returns. The constants of the source (64 KiB events, 64 fields, depth 4,
  1024 sessions, the default limits) are kept as they are.
\<close>

subsection \<open>Not modelled\<close>

text \<open>
  The PostgreSQL repository (\<^verbatim>\<open>internal/persistence/postgres\<close>) implements the same commands in SQL, whose meaning lies in
  the database. The transports (\<^verbatim>\<open>internal/transport\<close>), local tools (\<^verbatim>\<open>internal/local\<close>), adapters and plugins
  (\<^verbatim>\<open>internal/integration\<close>) and process wiring (\<^verbatim>\<open>internal/bootstrap\<close>, \<^verbatim>\<open>cmd\<close>) are input and output. The application
  services (\<^verbatim>\<open>internal/application\<close>) and the entities of the content domain assemble rows of other bounded contexts
  around calls of the runtime. Of the runtime itself, the projector and the worker process, which call modelled
  operations from timers and hand results to caller-supplied sinks, are left out. Mutexes, contexts, copies of rows and
  the Chinese texts of faults have no counterpart: commands are atomic, values immutable, faults carry their codes.
\<close>

end
